(* ===== verification/Prelude.thy ===== *)
theory Prelude
  imports Complex_Main "HOL-Library.Multiset" "HOL-Library.Char_ord" "HOL-Library.List_Lexorder"
    "HOL-Library.Product_Lexorder"
begin

text \<open>
  Shared vocabulary of the development: instants and spans, SQL-style tests on nullable
  columns, tables as lists of rows with the query and update operations the code issues
  through the ORM, Python's rounding, and the list lemmas the component proofs share.

  Conventions used by every component theory:
  \<^item> a database table is a list of records in insertion order; a primary key or unique
    column is a field whose values are distinct over the list;
  \<^item> \<open>QuerySet.filter(..).first()\<close> is \<^const>\<open>List.find\<close>, \<open>QuerySet.filter(..).update(..)\<close> is
    \<open>tbl_update\<close>, which maps the matching rows, and its row count is \<open>tbl_count\<close>;
  \<^item> \<open>order_by\<close> is the library's stable \<open>sort_key\<close>; where SQL leaves the order of ties
    open the model keeps insertion order;
  \<^item> an aware \<open>datetime\<close> is the number of microseconds since the epoch, a \<open>timedelta\<close> a
    number of microseconds (Python's resolution); a \<open>float\<close> is the rational it denotes;
  \<^item> a \<open>str\<close> is a \<^typ>\<open>string\<close>, one character per code point.
\<close>

named_theorems tbl_simps \<open>equations of the table operations\<close>
named_theorems sql_simps \<open>tests on nullable columns\<close>

section \<open>Instants and spans\<close>

type_synonym instant = int
type_synonym span = int

definition secs :: "int \<Rightarrow> span" where
  "secs n = n * 1000000"

definition minutes_span :: "int \<Rightarrow> span" where
  "minutes_span n = secs (60 * n)"

definition hours_span :: "int \<Rightarrow> span" where
  "hours_span n = secs (3600 * n)"

definition days_span :: "int \<Rightarrow> span" where
  "days_span n = secs (86400 * n)"

lemma secs_mono: "secs a \<le> secs b \<longleftrightarrow> a \<le> b"
  by (simp add: secs_def)

lemma secs_pos: "0 < secs a \<longleftrightarrow> 0 < a"
  by (simp add: secs_def)

text \<open>\<open>int(td.total_seconds())\<close>: seconds, truncated towards zero.\<close>

definition int_seconds :: "span \<Rightarrow> int" where
  "int_seconds d = (if 0 \<le> d then d div 1000000 else - ((- d) div 1000000))"

section \<open>Python's rounding\<close>

text \<open>\<open>round(x)\<close> to the nearest integer, ties to the even one.\<close>

definition round_half_even :: "rat \<Rightarrow> int" where
  "round_half_even x =
     (let f = \<lfloor>x\<rfloor>; d = x - of_int f in
      if d < 1/2 then f else if 1/2 < d then f + 1 else if even f then f else f + 1)"

text \<open>\<open>round(x, 2)\<close>.\<close>

definition round2 :: "rat \<Rightarrow> rat" where
  "round2 x = of_int (round_half_even (x * 100)) / 100"

text \<open>\<open>timedelta(seconds=x)\<close> for a float \<open>x\<close>: rounded to the microsecond.\<close>

definition span_of_seconds :: "rat \<Rightarrow> span" where
  "span_of_seconds x = round_half_even (x * 1000000)"

lemma round_half_even_bounds:
  "of_int (round_half_even x) \<le> x + 1/2" "x - 1/2 \<le> of_int (round_half_even x)"
proof -
  have f: "of_int \<lfloor>x\<rfloor> \<le> x" "x < of_int \<lfloor>x\<rfloor> + 1" by linarith+
  show "of_int (round_half_even x) \<le> x + 1/2"
    using f by (auto simp: round_half_even_def Let_def; linarith)
  show "x - 1/2 \<le> of_int (round_half_even x)"
    using f by (auto simp: round_half_even_def Let_def; linarith)
qed

lemma round_half_even_of_int [simp]: "round_half_even (of_int n) = n"
  by (simp add: round_half_even_def)

lemma round_half_even_mono:
  assumes "x \<le> y" shows "round_half_even x \<le> round_half_even y"
proof (cases "\<lfloor>x\<rfloor> = \<lfloor>y\<rfloor>")
  case True
  with assms show ?thesis by (auto simp: round_half_even_def Let_def)
next
  case False
  with floor_mono [OF assms] have lt: "\<lfloor>x\<rfloor> + 1 \<le> \<lfloor>y\<rfloor>" by linarith
  have "round_half_even x \<le> \<lfloor>x\<rfloor> + 1" and "\<lfloor>y\<rfloor> \<le> round_half_even y"
    by (auto simp: round_half_even_def Let_def)
  with lt show ?thesis by linarith
qed

lemma round2_mono: "x \<le> y \<Longrightarrow> round2 x \<le> round2 y"
  unfolding round2_def
  by (intro divide_right_mono of_int_le_iff [THEN iffD2] round_half_even_mono) auto

lemma round2_of_int: "round2 (of_int n) = of_int n"
proof -
  have "(of_int n :: rat) * 100 = of_int (n * 100)" by simp
  then show ?thesis by (simp only: round2_def round_half_even_of_int)
qed

lemma round2_nonneg: "0 \<le> x \<Longrightarrow> 0 \<le> round2 x"
  using round2_mono [of 0 x] round2_of_int [of 0] by simp

lemma span_of_seconds_nonneg: "0 \<le> x \<Longrightarrow> 0 \<le> span_of_seconds x"
  using round_half_even_mono [of 0 "x * 1000000"] round_half_even_of_int [of 0]
  by (simp add: span_of_seconds_def)

lemma span_of_seconds_mono: "x \<le> y \<Longrightarrow> span_of_seconds x \<le> span_of_seconds y"
  unfolding span_of_seconds_def by (rule round_half_even_mono) simp

lemma span_of_seconds_of_int: "span_of_seconds (of_int n) = secs n"
proof -
  have "(of_int n :: rat) * 1000000 = of_int (n * 1000000)" by simp
  then show ?thesis by (simp only: span_of_seconds_def round_half_even_of_int secs_def)
qed

section \<open>Decimal notation\<close>

definition digit_char :: "nat \<Rightarrow> char" where
  "digit_char d = char_of (48 + d)"

fun nat_str :: "nat \<Rightarrow> string" where
  "nat_str n = (if n < 10 then [digit_char n] else nat_str (n div 10) @ [digit_char (n mod 10)])"

declare nat_str.simps [simp del]

definition int_str :: "int \<Rightarrow> string" where
  "int_str i = (if i < 0 then CHR ''-'' # nat_str (nat (- i)) else nat_str (nat i))"

lemma nat_str_nonempty [simp]: "nat_str n \<noteq> []"
  by (subst nat_str.simps) simp

lemma int_str_nonempty [simp]: "int_str i \<noteq> []"
  by (simp add: int_str_def)

section \<open>Nullable columns\<close>

text \<open>A comparison with NULL is not true.\<close>

definition col_lte :: "'a::linorder option \<Rightarrow> 'a \<Rightarrow> bool" where
  "col_lte c v = (case c of None \<Rightarrow> False | Some x \<Rightarrow> x \<le> v)"

definition col_gte :: "'a::linorder option \<Rightarrow> 'a \<Rightarrow> bool" where
  "col_gte c v = (case c of None \<Rightarrow> False | Some x \<Rightarrow> v \<le> x)"

definition col_lt :: "'a::linorder option \<Rightarrow> 'a \<Rightarrow> bool" where
  "col_lt c v = (case c of None \<Rightarrow> False | Some x \<Rightarrow> x < v)"

lemma col_simps [simp, sql_simps]:
  "col_lte None v = False" "col_lte (Some x) v = (x \<le> v)"
  "col_gte None v = False" "col_gte (Some x) v = (v \<le> x)"
  "col_lt None v = False" "col_lt (Some x) v = (x < v)"
  by (simp_all add: col_lte_def col_gte_def col_lt_def)

lemma col_lte_Some: "col_lte c v \<longleftrightarrow> (\<exists>x. c = Some x \<and> x \<le> v)"
  by (cases c) auto

section \<open>Tables\<close>

text \<open>\<open>qs.filter(P).update(f)\<close> on a table, and the row count it returns.\<close>

definition tbl_update :: "('r \<Rightarrow> bool) \<Rightarrow> ('r \<Rightarrow> 'r) \<Rightarrow> 'r list \<Rightarrow> 'r list" where
  "tbl_update P f rows = map (\<lambda>r. if P r then f r else r) rows"

definition tbl_count :: "('r \<Rightarrow> bool) \<Rightarrow> 'r list \<Rightarrow> nat" where
  "tbl_count P rows = length (filter P rows)"

lemma tbl_update_Nil [simp]: "tbl_update P f [] = []"
  by (simp add: tbl_update_def)

lemma tbl_update_Cons [simp]:
  "tbl_update P f (r # rows) = (if P r then f r else r) # tbl_update P f rows"
  by (simp add: tbl_update_def)

lemma length_tbl_update [simp]: "length (tbl_update P f rows) = length rows"
  by (simp add: tbl_update_def)

lemma set_tbl_update [tbl_simps]:
  "r' \<in> set (tbl_update P f rows) \<longleftrightarrow>
     (\<exists>r \<in> set rows. (P r \<and> r' = f r) \<or> (\<not> P r \<and> r' = r))"
  by (auto simp: tbl_update_def)

lemma map_tbl_update:
  assumes "\<And>r. g (f r) = g r"
  shows "map g (tbl_update P f rows) = map g rows"
  using assms by (induction rows) auto

lemma tbl_update_idle: "\<forall>r \<in> set rows. \<not> P r \<Longrightarrow> tbl_update P f rows = rows"
  by (induction rows) auto

lemma tbl_count_0: "tbl_count P rows = 0 \<longleftrightarrow> (\<forall>r \<in> set rows. \<not> P r)"
  by (simp add: tbl_count_def filter_empty_conv)

lemma tbl_count_pos: "0 < tbl_count P rows \<longleftrightarrow> (\<exists>r \<in> set rows. P r)"
  using tbl_count_0 [of P rows] by auto

lemma tbl_count_le: "tbl_count P rows \<le> length rows"
  by (simp add: tbl_count_def)

text \<open>Lookup by a key column.\<close>

definition tbl_find :: "('r \<Rightarrow> 'k) \<Rightarrow> 'k \<Rightarrow> 'r list \<Rightarrow> 'r option" where
  "tbl_find key k rows = find (\<lambda>r. key r = k) rows"

lemma tbl_find_simps [simp]:
  "tbl_find key k [] = None"
  "tbl_find key k (r # rows) = (if key r = k then Some r else tbl_find key k rows)"
  by (simp_all add: tbl_find_def)

lemma tbl_find_Some: "tbl_find key k rows = Some r \<Longrightarrow> r \<in> set rows \<and> key r = k"
  by (induction rows) (auto split: if_splits)

lemma tbl_find_None: "tbl_find key k rows = None \<longleftrightarrow> (\<forall>r \<in> set rows. key r \<noteq> k)"
  by (induction rows) auto

lemma tbl_find_in:
  "distinct (map key rows) \<Longrightarrow> r \<in> set rows \<Longrightarrow> tbl_find key (key r) rows = Some r"
  by (induction rows) (auto simp: image_iff)

lemma tbl_find_append:
  "tbl_find key k (xs @ ys) = (case tbl_find key k xs of Some r \<Rightarrow> Some r | None \<Rightarrow> tbl_find key k ys)"
  by (induction xs) auto

lemma tbl_find_update_other:
  assumes "\<And>r. key (f r) = key r" and "\<And>r. P r \<Longrightarrow> key r \<noteq> k"
  shows "tbl_find key k (tbl_update P f rows) = tbl_find key k rows"
  using assms by (induction rows) auto

lemma tbl_find_update:
  assumes "\<And>r. key (f r) = key r"
  shows "tbl_find key k (tbl_update P f rows) =
         map_option (\<lambda>r. if P r then f r else r) (tbl_find key k rows)"
  using assms by (induction rows) auto

lemma find_SomeD: "find P xs = Some x \<Longrightarrow> x \<in> set xs \<and> P x"
  by (induction xs) (auto split: if_splits)

lemma find_NoneD: "find P xs = None \<longleftrightarrow> (\<forall>x \<in> set xs. \<not> P x)"
  by (induction xs) auto

section \<open>Optional columns as unique keys\<close>

text \<open>A nullable unique column: distinct where it is not NULL.\<close>

definition unique_opt :: "('r \<Rightarrow> 'k option) \<Rightarrow> 'r list \<Rightarrow> bool" where
  "unique_opt key rows = distinct (List.map_filter key rows)"

lemma map_filter_Cons [simp]:
  "List.map_filter f (x # xs) =
     (case f x of None \<Rightarrow> List.map_filter f xs | Some y \<Rightarrow> y # List.map_filter f xs)"
  by (simp add: List.map_filter_def split: option.splits)

lemma map_filter_Nil [simp]: "List.map_filter f [] = []"
  by (simp add: List.map_filter_def)

lemma map_filter_append [simp]:
  "List.map_filter f (xs @ ys) = List.map_filter f xs @ List.map_filter f ys"
  by (induction xs) (auto split: option.splits)

lemma set_map_filter_iff: "y \<in> set (List.map_filter f xs) \<longleftrightarrow> (\<exists>x \<in> set xs. f x = Some y)"
  by (induction xs) (auto split: option.splits)

lemma map_filter_tbl_update:
  assumes "\<And>r. key (f r) = key r"
  shows "List.map_filter key (tbl_update P f rows) = List.map_filter key rows"
  using assms by (induction rows) (auto split: option.splits)

lemma unique_opt_snoc:
  "unique_opt key (rows @ [r]) \<longleftrightarrow>
     unique_opt key rows \<and> (\<forall>k. key r = Some k \<longrightarrow> (\<forall>q \<in> set rows. key q \<noteq> Some k))"
  by (cases "key r") (auto simp: unique_opt_def set_map_filter_iff)

lemma unique_opt_inj:
  assumes "unique_opt key rows" "r \<in> set rows" "q \<in> set rows" "key r = Some k" "key q = Some k"
  shows "r = q"
  using assms
  by (induction rows) (auto simp: unique_opt_def set_map_filter_iff split: option.splits)

section \<open>Fresh keys\<close>

text \<open>An automatic primary key: one more than the largest there is.\<close>

lemma fold_max_ge: "x \<in> set xs \<or> x \<le> n \<Longrightarrow> x \<le> fold max xs (n::nat)"
  by (induction xs arbitrary: n) (fastforce simp: max_def)+

lemma Suc_fold_max_fresh: "r \<in> set rows \<Longrightarrow> key r \<noteq> Suc (fold max (map key rows) 0)"
  using fold_max_ge [of "key r" "map key rows" 0] by auto

section \<open>Errors as values\<close>

text \<open>Sequencing of fallible steps: the first error stops the rest, as a raise does.\<close>

definition bind_err :: "'e + 'a \<Rightarrow> ('a \<Rightarrow> 'e + 'b) \<Rightarrow> 'e + 'b" where
  "bind_err r k = (case r of Inl e \<Rightarrow> Inl e | Inr a \<Rightarrow> k a)"

lemma bind_err_simps [simp]:
  "bind_err (Inl e) k = Inl e" "bind_err (Inr a) k = k a"
  by (simp_all add: bind_err_def)

lemma bind_err_Inr: "bind_err r k = Inr b \<longleftrightarrow> (\<exists>a. r = Inr a \<and> k a = Inr b)"
  by (cases r) auto

end
