(* ===== verification/Py_Strings.thy ===== *)
theory Py_Strings
  imports Prelude
begin

text \<open>
  The methods of Python's \<open>str\<close> that the sources use, on code points below 256:
  \<open>isspace\<close>, \<open>lower\<close>, \<open>strip\<close>, \<open>split()\<close>, \<open>int()\<close> of a digit string, \<open>startswith\<close> and
  \<open>endswith\<close>.
\<close>

section \<open>Character classes\<close>

abbreviation code :: "char \<Rightarrow> nat" where
  "code c \<equiv> of_char c"

definition py_space :: "char \<Rightarrow> bool" where
  "py_space c \<longleftrightarrow> code c \<in> {9, 10, 11, 12, 13, 28, 29, 30, 31, 32, 133, 160}"

definition py_digit :: "char \<Rightarrow> bool" where
  "py_digit c \<longleftrightarrow> 48 \<le> code c \<and> code c \<le> 57"

definition py_lower_char :: "char \<Rightarrow> char" where
  "py_lower_char c =
     (if (65 \<le> code c \<and> code c \<le> 90) \<or> (192 \<le> code c \<and> code c \<le> 222 \<and> code c \<noteq> 215)
      then char_of (code c + 32) else c)"

definition py_lower :: "string \<Rightarrow> string" where
  "py_lower s = map py_lower_char s"

lemma code_char_of [simp]: "n < 256 \<Longrightarrow> code (char_of n) = n"
  by simp

lemma py_lower_char_idem [simp]: "py_lower_char (py_lower_char c) = py_lower_char c"
proof -
  have "code (char_of (code c + 32)) = code c + 32" if "code c \<le> 222" for c :: char
    using that by simp
  then show ?thesis by (auto simp: py_lower_char_def)
qed

lemma py_lower_idem [simp]: "py_lower (py_lower s) = py_lower s"
  by (simp add: py_lower_def)

lemma length_py_lower [simp]: "length (py_lower s) = length s"
  by (simp add: py_lower_def)

section \<open>Stripping and splitting\<close>

definition lstrip :: "string \<Rightarrow> string" where
  "lstrip s = dropWhile py_space s"

definition rstrip :: "string \<Rightarrow> string" where
  "rstrip s = rev (dropWhile py_space (rev s))"

definition strip :: "string \<Rightarrow> string" where
  "strip s = rstrip (lstrip s)"

text \<open>\<open>str.split()\<close>: the maximal runs of non-blank characters.\<close>

function words_of :: "string \<Rightarrow> string list" where
  "words_of s =
     (case lstrip s of
        [] \<Rightarrow> []
      | c # cs \<Rightarrow> takeWhile (\<lambda>x. \<not> py_space x) (c # cs) # words_of (dropWhile (\<lambda>x. \<not> py_space x) (c # cs)))"
  by pat_completeness auto
termination
proof (relation "measure length", goal_cases)
  case 1
  then show ?case by simp
next
  case (2 s c cs)
  have "\<not> py_space c" using 2 hd_dropWhile [of py_space s] by (simp add: lstrip_def)
  moreover have "length (c # cs) \<le> length s"
    using length_dropWhile_le [of py_space s] 2 by (simp add: lstrip_def)
  ultimately show ?case
    using length_dropWhile_le [of "\<lambda>x. \<not> py_space x" cs] by simp
qed

declare words_of.simps [simp del]

section \<open>Numbers\<close>

text \<open>\<open>int(s)\<close> for a string of digits.\<close>

definition digits_value :: "string \<Rightarrow> nat" where
  "digits_value s = foldl (\<lambda>n c. n * 10 + (code c - 48)) 0 s"

text \<open>The decimal notation of a number is read back as that number.\<close>

lemma code_digit_char: "d < 10 \<Longrightarrow> code (digit_char d) = 48 + d"
  by (simp add: digit_char_def)

lemma py_digit_digit_char: "d < 10 \<Longrightarrow> py_digit (digit_char d)"
  by (simp add: py_digit_def code_digit_char)

lemma digit_char_0: "d < 10 \<Longrightarrow> digit_char d = CHR ''0'' \<longleftrightarrow> d = 0"
proof -
  assume "d < 10"
  then have "code (digit_char d) = code CHR ''0'' \<longleftrightarrow> d = 0" by (simp add: code_digit_char)
  then show ?thesis by (simp only: of_char_eq_iff)
qed

lemma digits_value_snoc: "digits_value (s @ [c]) = digits_value s * 10 + (code c - 48)"
  by (simp add: digits_value_def)

lemma digits_value_nat_str [simp]: "digits_value (nat_str n) = n"
proof (induction n rule: nat_str.induct)
  case (1 n)
  show ?case
  proof (cases "n < 10")
    case True
    then show ?thesis by (subst nat_str.simps) (simp add: digits_value_def code_digit_char)
  next
    case False
    with 1 show ?thesis by (subst nat_str.simps) (simp add: digits_value_snoc code_digit_char)
  qed
qed

lemma digits_nat_str: "list_all py_digit (nat_str n)"
proof (induction n rule: nat_str.induct)
  case (1 n)
  then show ?case by (subst nat_str.simps) (auto intro: py_digit_digit_char)
qed

lemma length_nat_str: "n < 10 ^ k \<Longrightarrow> 0 < k \<Longrightarrow> length (nat_str n) \<le> k"
proof (induction k arbitrary: n)
  case (Suc k)
  show ?case
  proof (cases "n < 10")
    case False
    from False Suc.prems have "0 < k" by (cases k) simp_all
    moreover from Suc.prems have "n div 10 < 10 ^ k" by (simp add: less_mult_imp_div_less)
    ultimately
    show ?thesis using Suc.IH [of "n div 10"] False by (subst nat_str.simps) simp
  qed (subst nat_str.simps, simp)
qed simp

lemma hd_nat_str: "hd (nat_str n) = CHR ''0'' \<longleftrightarrow> n = 0"
proof (induction n rule: nat_str.induct)
  case (1 n)
  show ?case
  proof (cases "n < 10")
    case True
    then show ?thesis by (subst nat_str.simps) (simp add: digit_char_0)
  next
    case False
    with 1 show ?thesis by (subst nat_str.simps) (auto simp: hd_append)
  qed
qed

lemma nat_str_0: "nat_str n = ''0'' \<longleftrightarrow> n = 0"
proof
  assume "nat_str n = ''0''"
  then show "n = 0" using hd_nat_str [of n] by simp
next
  assume "n = 0"
  then show "nat_str n = ''0''" by (subst nat_str.simps) (simp add: digit_char_0)
qed

lemma not_digit_nat_str: "\<not> py_digit c \<Longrightarrow> c \<notin> set (nat_str n)"
  using digits_nat_str [of n] by (auto simp: list_all_iff)

section \<open>Prefixes and suffixes\<close>

definition startswith :: "string \<Rightarrow> string \<Rightarrow> bool" where
  "startswith s p \<longleftrightarrow> take (length p) s = p"

definition endswith :: "string \<Rightarrow> string \<Rightarrow> bool" where
  "endswith s p \<longleftrightarrow> length p \<le> length s \<and> drop (length s - length p) s = p"

lemma startswith_append: "startswith s p \<longleftrightarrow> (\<exists>t. s = p @ t)"
  unfolding startswith_def by (metis append_eq_conv_conj)

lemma endswith_append: "endswith s p \<longleftrightarrow> (\<exists>t. s = t @ p)"
proof
  assume "endswith s p"
  then have "s = take (length s - length p) s @ p"
    unfolding endswith_def by (metis append_take_drop_id)
  then show "\<exists>t. s = t @ p" by blast
qed (auto simp: endswith_def)

section \<open>Joining and lines\<close>

fun join_with :: "string \<Rightarrow> string list \<Rightarrow> string" where
  "join_with sep [] = ''''"
| "join_with sep [s] = s"
| "join_with sep (s # t # ss) = s @ sep @ join_with sep (t # ss)"

text \<open>The non-empty lines of \<open>s.splitlines()\<close>: with the empty ones dropped it does not matter
  that a carriage return and a line feed are one break.\<close>

definition line_break :: "char \<Rightarrow> bool" where
  "line_break c \<longleftrightarrow> code c \<in> {10, 11, 12, 13, 28, 29, 30, 133}"

fun split_where :: "(char \<Rightarrow> bool) \<Rightarrow> string \<Rightarrow> string list" where
  "split_where p [] = [[]]"
| "split_where p (c # cs) =
     (case split_where p cs of
        w # ws \<Rightarrow> if p c then [] # w # ws else (c # w) # ws
      | [] \<Rightarrow> [])"

lemma split_where_nonempty [simp]: "split_where p s \<noteq> []"
  by (induction s) (auto split: list.split)

lemma split_where_none: "list_all (\<lambda>c. \<not> p c) a \<Longrightarrow> split_where p a = [a]"
  by (induction a) auto

lemma split_where_sep: "list_all (\<lambda>c. \<not> p c) a \<Longrightarrow> p x \<Longrightarrow> split_where p (a @ x # b) = a # split_where p b"
proof (induction a)
  case Nil
  then show ?case by (cases "split_where p b") simp_all
qed simp

definition stripped_lines :: "string \<Rightarrow> string list" where
  "stripped_lines s = filter (\<lambda>l. l \<noteq> []) (map strip (split_where line_break s))"

text \<open>\<open>s.rsplit(".", 1)\<close>, when it has two parts.\<close>

definition rsplit_dot :: "string \<Rightarrow> (string \<times> string) option" where
  "rsplit_dot s =
     (if CHR ''.'' \<in> set s
      then Some (rev (tl (dropWhile (\<lambda>c. c \<noteq> CHR ''.'') (rev s))), rev (takeWhile (\<lambda>c. c \<noteq> CHR ''.'') (rev s)))
      else None)"

end
