(* ===== verification/Py_Json.thy ===== *)
theory Py_Json
  imports Py_Strings
begin

text \<open>
  JSON values as \<open>json.loads\<close> builds them: \<open>None\<close>, booleans, numbers, strings, lists and
  dicts. A dict is an association list in insertion order whose keys are distinct.
\<close>

datatype json =
    JNull
  | JBool bool
  | JInt int
  | JFloat rat
  | JStr string
  | JList "json list"
  | JObj "(string \<times> json) list"

text \<open>Python's truth value of a JSON value.\<close>

fun json_truthy :: "json \<Rightarrow> bool" where
  "json_truthy JNull = False"
| "json_truthy (JBool b) = b"
| "json_truthy (JInt i) = (i \<noteq> 0)"
| "json_truthy (JFloat r) = (r \<noteq> 0)"
| "json_truthy (JStr s) = (s \<noteq> '''')"
| "json_truthy (JList xs) = (xs \<noteq> [])"
| "json_truthy (JObj kvs) = (kvs \<noteq> [])"

text \<open>Dicts as association lists: \<open>d[k] = v\<close> keeps the position of a key that is there.\<close>

fun dict_set :: "'k \<Rightarrow> 'v \<Rightarrow> ('k \<times> 'v) list \<Rightarrow> ('k \<times> 'v) list" where
  "dict_set k v [] = [(k, v)]"
| "dict_set k v ((k', v') # d) = (if k' = k then (k, v) # d else (k', v') # dict_set k v d)"

definition dict_del :: "'k \<Rightarrow> ('k \<times> 'v) list \<Rightarrow> ('k \<times> 'v) list" where
  "dict_del k d = filter (\<lambda>(k', _). k' \<noteq> k) d"

lemma map_of_dict_set [simp]: "map_of (dict_set k v d) = (map_of d)(k \<mapsto> v)"
  by (induction d) (auto simp: fun_eq_iff)

lemma dict_set_keys: "fst ` set (dict_set k v d) = insert k (fst ` set d)"
proof (induction d)
  case (Cons p d)
  obtain k' v' where p: "p = (k', v')" by (cases p)
  show ?case
  proof (cases "k' = k")
    case False
    with p Cons show ?thesis by (simp add: insert_commute)
  qed (simp add: p)
qed simp

lemma dict_set_distinct: "distinct (map fst d) \<Longrightarrow> distinct (map fst (dict_set k v d))"
proof (induction d)
  case Nil
  then show ?case by simp
next
  case (Cons p d)
  obtain k' v' where p: "p = (k', v')" by (cases p)
  with Cons dict_set_keys [of k v d] show ?case by auto
qed

lemma map_of_dict_del: "map_of (dict_del k d) = (map_of d)(k := None)"
  by (induction d) (auto simp: dict_del_def fun_eq_iff)

lemma dict_del_distinct: "distinct (map fst d) \<Longrightarrow> distinct (map fst (dict_del k d))"
  by (induction d) (auto simp: dict_del_def)

text \<open>\<open>d.update(e)\<close> and \<open>list(dict.fromkeys(xs))\<close>.\<close>

definition dict_update :: "('k \<times> 'v) list \<Rightarrow> ('k \<times> 'v) list \<Rightarrow> ('k \<times> 'v) list" where
  "dict_update d e = fold (\<lambda>(k, v). dict_set k v) e d"

lemma dict_update_simps [simp]:
  "dict_update d [] = d"
  "dict_update d ((k, v) # e) = dict_update (dict_set k v d) e"
  by (simp_all add: dict_update_def)

definition ordered_unique :: "'a list \<Rightarrow> 'a list" where
  "ordered_unique xs = rev (remdups (rev xs))"

lemma set_ordered_unique [simp]: "set (ordered_unique xs) = set xs"
  by (simp add: ordered_unique_def)

lemma distinct_ordered_unique [simp]: "distinct (ordered_unique xs)"
  by (simp add: ordered_unique_def)


section \<open>\<open>int()\<close>\<close>

text \<open>Digits with single underscores between them; at most 4300 digits are converted.\<close>

fun digit_groups :: "bool \<Rightarrow> string \<Rightarrow> string option" where
  "digit_groups after_digit [] = (if after_digit then Some [] else None)"
| "digit_groups after_digit (c # s) =
     (if py_digit c then map_option ((#) c) (digit_groups True s)
      else if c = CHR ''_'' \<and> after_digit then digit_groups False s
      else None)"

text \<open>\<open>int(s)\<close> skips the blanks of C on an ASCII string and those of \<open>str.isspace\<close> on another.\<close>

definition int_blank :: "string \<Rightarrow> char \<Rightarrow> bool" where
  "int_blank s c =
     (if list_all (\<lambda>x. code x < 128) s then code c \<in> {9, 10, 11, 12, 13, 32} else py_space c)"

definition int_trim :: "string \<Rightarrow> string" where
  "int_trim s = rev (dropWhile (int_blank s) (rev (dropWhile (int_blank s) s)))"

definition unsigned_value :: "string \<Rightarrow> int option" where
  "unsigned_value s =
     (case digit_groups False s of
        None \<Rightarrow> None
      | Some ds \<Rightarrow> if 4300 < length ds then None else Some (int (digits_value ds)))"

definition py_int_str :: "string \<Rightarrow> int option" where
  "py_int_str s =
     (case int_trim s of
        [] \<Rightarrow> None
      | c # rest \<Rightarrow>
         if c = CHR ''-'' then map_option uminus (unsigned_value rest)
         else if c = CHR ''+'' then unsigned_value rest
         else unsigned_value (c # rest))"

text \<open>\<open>int(v)\<close> of a JSON value; \<open>None\<close> is the \<open>ValueError\<close> or \<open>TypeError\<close>.\<close>

fun json_int :: "json \<Rightarrow> int option" where
  "json_int (JInt i) = Some i"
| "json_int (JBool b) = Some (if b then 1 else 0)"
| "json_int (JFloat r) = Some (if 0 \<le> r then \<lfloor>r\<rfloor> else \<lceil>r\<rceil>)"
| "json_int (JStr s) = py_int_str s"
| "json_int _ = None"

lemma digit_groups_digits: "list_all py_digit s \<Longrightarrow> s \<noteq> [] \<or> b \<Longrightarrow> digit_groups b s = Some s"
  by (induction s arbitrary: b) auto

text \<open>\<open>d.get(k, default)\<close>.\<close>

definition json_get :: "string \<Rightarrow> json \<Rightarrow> (string \<times> json) list \<Rightarrow> json" where
  "json_get k v d = (case map_of d k of Some x \<Rightarrow> x | None \<Rightarrow> v)"

end
