(* ===== verification/Token_Store.thy ===== *)
theory Token_Store
  imports Py_Json
begin

text \<open>
  Accounts, API tokens and OAuth authorization codes
  (\<open>apps/accounts/models.py\<close>, \<open>apps/smallstack/models.py\<close>, \<open>apps/mcp/models.py\<close>): the three
  tables, the encodings the credentials go through, and the methods of \<open>APIToken\<close>: how a key is
  drawn, when a token may authenticate, and why it may not.

  Parameters, in the record \<open>token_env\<close>: SHA-256, Django's password hashing and validation, its
  \<open>ModelBackend\<close>, the database's case-insensitive comparison, the normalisation of e-mail
  addresses and the settings. A random draw (\<open>secrets.token_urlsafe\<close>) is an argument: the list of the strings
  the generator yields, one after the other. Every call of \<open>timezone.now()\<close> in one request reads
  the same instant.
\<close>

section \<open>Encodings\<close>

text \<open>A byte string is a string of characters below 256. \<open>str.encode()\<close> is UTF-8.\<close>

definition utf8_char :: "char \<Rightarrow> string" where
  "utf8_char c = (if code c < 128 then [c] else [char_of (192 + code c div 64), char_of (128 + code c mod 64)])"

definition utf8_encode :: "string \<Rightarrow> string" where
  "utf8_encode s = concat (map utf8_char s)"

text \<open>\<open>str.encode("ascii")\<close>; \<open>None\<close> is its \<open>UnicodeEncodeError\<close>.\<close>

definition ascii_encode :: "string \<Rightarrow> string option" where
  "ascii_encode s = (if list_all (\<lambda>c. code c < 128) s then Some s else None)"

definition hex_digit :: "nat \<Rightarrow> char" where
  "hex_digit n = (if n < 10 then char_of (48 + n) else char_of (87 + n))"

definition hex_string :: "string \<Rightarrow> string" where
  "hex_string b = concat (map (\<lambda>c. [hex_digit (code c div 16), hex_digit (code c mod 16)]) b)"

text \<open>\<open>base64.urlsafe_b64encode\<close>.\<close>

definition b64_char :: "nat \<Rightarrow> char" where
  "b64_char n =
     (if n < 26 then char_of (65 + n) else if n < 52 then char_of (71 + n)
      else if n < 62 then char_of (n - 4) else if n = 62 then CHR ''-'' else CHR ''_'')"

fun urlsafe_b64encode :: "string \<Rightarrow> string" where
  "urlsafe_b64encode (a # b # c # rest) =
     b64_char (code a div 4) # b64_char (code a mod 4 * 16 + code b div 16)
       # b64_char (code b mod 16 * 4 + code c div 64) # b64_char (code c mod 64) # urlsafe_b64encode rest"
| "urlsafe_b64encode [a, b] =
     [b64_char (code a div 4), b64_char (code a mod 4 * 16 + code b div 16), b64_char (code b mod 16 * 4), CHR ''='']"
| "urlsafe_b64encode [a] = [b64_char (code a div 4), b64_char (code a mod 4 * 16), CHR ''='', CHR ''='']"
| "urlsafe_b64encode [] = []"

definition rstrip_char :: "char \<Rightarrow> string \<Rightarrow> string" where
  "rstrip_char c s = rev (dropWhile (\<lambda>x. x = c) (rev s))"

lemma hex_digit_inj: "m < 16 \<Longrightarrow> n < 16 \<Longrightarrow> hex_digit m = hex_digit n \<longleftrightarrow> m = n"
proof -
  assume "m < 16" "n < 16"
  then have "code (hex_digit m) = code (hex_digit n) \<longleftrightarrow> m = n" by (auto simp: hex_digit_def)
  then show ?thesis by simp
qed

lemma code_less_256: "code (c :: char) < 256"
  by simp

lemma hex_string_inj: "hex_string a = hex_string b \<longleftrightarrow> a = b"
proof (induction a arbitrary: b)
  case Nil
  then show ?case by (cases b) (simp_all add: hex_string_def)
next
  case (Cons x a)
  show ?case
  proof (cases b)
    case Nil
    then show ?thesis by (simp add: hex_string_def)
  next
    case (Cons y b')
    have "code x div 16 < 16" "code y div 16 < 16" using code_less_256 [of x] code_less_256 [of y] by linarith+
    then have "hex_digit (code x div 16) = hex_digit (code y div 16) \<and>
        hex_digit (code x mod 16) = hex_digit (code y mod 16) \<longleftrightarrow>
      code x div 16 = code y div 16 \<and> code x mod 16 = code y mod 16"
      by (simp add: hex_digit_inj)
    also have "\<dots> \<longleftrightarrow> code x = code y" by (metis div_mult_mod_eq)
    finally show ?thesis using Cons.IH [of b'] Cons by (auto simp: hex_string_def)
  qed
qed

section \<open>Rows\<close>

record account =
  acc_id :: nat
  acc_username :: string
  acc_email :: "string option"
  acc_first_name :: string
  acc_last_name :: string
  acc_password :: string
  acc_staff :: bool
  acc_superuser :: bool
  acc_active :: bool

datatype token_type = Login_Token | Manual_Token | OAuth_Token

record api_token =
  ak_id :: nat
  ak_name :: string
  ak_prefix :: string
  ak_hashed :: string
  ak_description :: string
  ak_type :: token_type
  ak_level :: string
  ak_created :: instant
  ak_last_used :: "instant option"
  ak_expires :: "instant option"
  ak_revoked :: "instant option"
  ak_active :: bool
  ak_requests :: nat
  ak_user :: nat

record auth_code =
  oc_id :: nat
  oc_code :: string
  oc_user :: nat
  oc_token :: nat
  oc_raw_key :: string
  oc_redirect :: string
  oc_challenge :: string
  oc_method :: string
  oc_scope :: string
  oc_client :: string
  oc_created :: instant
  oc_used :: "instant option"

record auth_db =
  ad_accounts :: "account list"
  ad_tokens :: "api_token list"
  ad_codes :: "auth_code list"

record token_env =
  tv_sha256 :: "string \<Rightarrow> string"
  tv_check_password :: "string \<Rightarrow> json \<Rightarrow> bool"  \<comment> \<open>the stored hash, the password tried\<close>
  tv_make_password :: "string \<Rightarrow> string"
  tv_password_errors :: "string \<Rightarrow> account option \<Rightarrow> string list"
  tv_iexact :: "string \<Rightarrow> string \<Rightarrow> bool"  \<comment> \<open>the database's case-insensitive equality\<close>
  tv_model_backend :: "account list \<Rightarrow> string \<Rightarrow> json \<Rightarrow> account option"  \<comment> \<open>Django's \<open>ModelBackend\<close>\<close>
  tv_normalize_email :: "string \<Rightarrow> string"
  tv_str :: "json \<Rightarrow> string"  \<comment> \<open>\<open>str()\<close> of a value that is not a string\<close>
  tv_isoformat :: "instant \<Rightarrow> string"
  tv_expiry_hours :: int
  tv_max_hours :: int
  tv_register_enabled :: bool
  tv_lockout_seconds :: int
  tv_name_prefix :: string
  tv_code_ttl :: int

definition account_by_id :: "auth_db \<Rightarrow> nat \<Rightarrow> account option" where
  "account_by_id db n = tbl_find acc_id n (ad_accounts db)"

definition token_by_id :: "auth_db \<Rightarrow> nat \<Rightarrow> api_token option" where
  "token_by_id db n = tbl_find ak_id n (ad_tokens db)"

definition update_token :: "nat \<Rightarrow> (api_token \<Rightarrow> api_token) \<Rightarrow> auth_db \<Rightarrow> auth_db" where
  "update_token n f db = db\<lparr>ad_tokens := tbl_update (\<lambda>t. ak_id t = n) f (ad_tokens db)\<rparr>"

definition update_account :: "nat \<Rightarrow> (account \<Rightarrow> account) \<Rightarrow> auth_db \<Rightarrow> auth_db" where
  "update_account n f db = db\<lparr>ad_accounts := tbl_update (\<lambda>u. acc_id u = n) f (ad_accounts db)\<rparr>"

definition next_token_id :: "auth_db \<Rightarrow> nat" where
  "next_token_id db = Suc (fold max (map ak_id (ad_tokens db)) 0)"

definition next_account_id :: "auth_db \<Rightarrow> nat" where
  "next_account_id db = Suc (fold max (map acc_id (ad_accounts db)) 0)"

definition next_code_id :: "auth_db \<Rightarrow> nat" where
  "next_code_id db = Suc (fold max (map oc_id (ad_codes db)) 0)"

lemma next_token_id_fresh: "t \<in> set (ad_tokens db) \<Longrightarrow> ak_id t \<noteq> next_token_id db"
  unfolding next_token_id_def by (rule Suc_fold_max_fresh)

lemma next_ids_unused:
  "next_token_id db \<notin> ak_id ` set (ad_tokens db)" "next_account_id db \<notin> acc_id ` set (ad_accounts db)"
  "next_code_id db \<notin> oc_id ` set (ad_codes db)"
  using Suc_fold_max_fresh [of _ "ad_tokens db" ak_id] Suc_fold_max_fresh [of _ "ad_accounts db" acc_id]
    Suc_fold_max_fresh [of _ "ad_codes db" oc_id]
  by (force simp: next_token_id_def next_account_id_def next_code_id_def)+

lemma next_account_id_fresh: "u \<in> set (ad_accounts db) \<Longrightarrow> acc_id u \<noteq> next_account_id db"
  unfolding next_account_id_def by (rule Suc_fold_max_fresh)

lemma next_code_id_fresh: "c \<in> set (ad_codes db) \<Longrightarrow> oc_id c \<noteq> next_code_id db"
  unfolding next_code_id_def by (rule Suc_fold_max_fresh)

section \<open>Keys\<close>

definition PREFIX_LENGTH :: nat where "PREFIX_LENGTH = 8"

definition hash_key :: "token_env \<Rightarrow> string \<Rightarrow> string" where
  "hash_key env raw = hex_string (tv_sha256 env (utf8_encode raw))"

text \<open>The loop that draws until the prefix does not start with a hyphen; \<open>None\<close> when the draws
  given are used up.\<close>

fun generate_raw_key :: "token_env \<Rightarrow> string list \<Rightarrow> (string \<times> string \<times> string) option" where
  "generate_raw_key env [] = None"
| "generate_raw_key env (raw # draws) =
     (let prefix = take PREFIX_LENGTH raw in
      if startswith prefix ''-'' then generate_raw_key env draws
      else Some (raw, prefix, hash_key env raw))"

lemma generate_raw_key_Some:
  "generate_raw_key env draws = Some (raw, prefix, hashed) \<Longrightarrow>
     raw \<in> set draws \<and> prefix = take PREFIX_LENGTH raw \<and> hashed = hash_key env raw \<and> \<not> startswith prefix ''-''"
  by (induction draws) (auto simp: Let_def split: if_splits)

lemma generate_raw_key_ends:
  "(\<exists>k. generate_raw_key env draws = Some k) \<longleftrightarrow>
     list_ex (\<lambda>raw. \<not> startswith (take PREFIX_LENGTH raw) ''-'') draws"
  by (induction draws) (auto simp: Let_def)

section \<open>Tokens\<close>

definition revoke_token :: "instant \<Rightarrow> api_token \<Rightarrow> api_token" where
  "revoke_token now t = t\<lparr>ak_active := False, ak_revoked := Some now\<rparr>"

definition is_valid :: "instant \<Rightarrow> api_token \<Rightarrow> bool" where
  "is_valid now t =
     (if \<not> ak_active t then False
      else (case ak_expires t of Some e \<Rightarrow> \<not> e < now | None \<Rightarrow> True))"

datatype reject_reason = Reject_Revoked | Reject_Expired | Reject_User_Inactive

definition token_user :: "auth_db \<Rightarrow> api_token \<Rightarrow> account option" where
  "token_user db t = account_by_id db (ak_user t)"

definition user_is_active :: "account option \<Rightarrow> bool" where
  "user_is_active u = (case u of Some a \<Rightarrow> acc_active a | None \<Rightarrow> False)"

definition user_is_staff :: "account option \<Rightarrow> bool" where
  "user_is_staff u = (case u of Some a \<Rightarrow> acc_staff a | None \<Rightarrow> False)"

definition rejection_reason :: "auth_db \<Rightarrow> instant \<Rightarrow> api_token \<Rightarrow> reject_reason option" where
  "rejection_reason db now t =
     (if ak_revoked t \<noteq> None \<or> \<not> ak_active t then Some Reject_Revoked
      else if col_lt (ak_expires t) now then Some Reject_Expired
      else if \<not> user_is_active (token_user db t) then Some Reject_User_Inactive
      else None)"

definition create_token ::
    "token_env \<Rightarrow> instant \<Rightarrow> string list \<Rightarrow> nat \<Rightarrow> string \<Rightarrow> string \<Rightarrow> instant option \<Rightarrow> token_type \<Rightarrow> string \<Rightarrow>
     auth_db \<Rightarrow> (api_token \<times> string \<times> auth_db) option" where
  "create_token env now draws user name description expires_at token_type access_level db =
     (case generate_raw_key env draws of
        None \<Rightarrow> None
      | Some (raw_key, prefix, hashed) \<Rightarrow>
         (let t = \<lparr>ak_id = next_token_id db, ak_name = name, ak_prefix = prefix, ak_hashed = hashed,
              ak_description = description, ak_type = token_type, ak_level = access_level, ak_created = now,
              ak_last_used = None, ak_expires = expires_at, ak_revoked = None, ak_active = True,
              ak_requests = 0, ak_user = user\<rparr>
          in Some (t, raw_key, db\<lparr>ad_tokens := ad_tokens db @ [t]\<rparr>)))"

text \<open>\<open>objects.get(prefix=.., hashed_key=..)\<close>: none, one, or more than one row, which raises.\<close>

datatype 'r lookup = Does_Not_Exist | Row 'r | Multiple_Rows

definition tbl_get :: "('r \<Rightarrow> bool) \<Rightarrow> 'r list \<Rightarrow> 'r lookup" where
  "tbl_get P rows = (case filter P rows of [] \<Rightarrow> Does_Not_Exist | [r] \<Rightarrow> Row r | _ \<Rightarrow> Multiple_Rows)"

lemma tbl_get_Row: "tbl_get P rows = Row r \<longleftrightarrow> filter P rows = [r]"
  by (auto simp: tbl_get_def split: list.splits)

lemma tbl_get_none: "tbl_get P rows = Does_Not_Exist \<longleftrightarrow> (\<forall>r \<in> set rows. \<not> P r)"
proof -
  have "tbl_get P rows = Does_Not_Exist \<longleftrightarrow> filter P rows = []"
    by (simp add: tbl_get_def split: list.split)
  then show ?thesis by (simp add: filter_empty_conv)
qed

lemma tbl_get_RowD:
  assumes "tbl_get P rows = Row r"
  shows "r \<in> set rows \<and> P r"
proof -
  from assms have "r \<in> set (filter P rows)" unfolding tbl_get_Row by simp
  then show ?thesis by simp
qed

lemma tbl_get_unique:
  assumes "r \<in> set rows" "P r" "distinct rows" and "\<And>q. q \<in> set rows \<Longrightarrow> P q \<Longrightarrow> q = r"
  shows "tbl_get P rows = Row r"
proof -
  have in_r: "\<forall>q \<in> set (filter P rows). q = r" using assms(4) by simp
  have d: "distinct (filter P rows)" using assms(3) by simp
  show ?thesis
  proof (cases "filter P rows")
    case Nil
    with assms(1,2) show ?thesis by (simp add: filter_empty_conv)
  next
    case (Cons a as)
    with in_r d have "a = r" "as = []" by (cases as; simp)+
    with Cons show ?thesis by (simp add: tbl_get_Row)
  qed
qed

definition key_matches :: "token_env \<Rightarrow> string \<Rightarrow> api_token \<Rightarrow> bool" where
  "key_matches env raw t \<longleftrightarrow> ak_prefix t = take PREFIX_LENGTH raw \<and> ak_hashed t = hash_key env raw"

definition stamp_use :: "instant \<Rightarrow> api_token \<Rightarrow> api_token" where
  "stamp_use now t = t\<lparr>ak_last_used := Some now, ak_requests := ak_requests t + 1\<rparr>"

text \<open>\<open>APIToken.authenticate\<close>: the user, the token found, and the tables after the use is stamped;
  the outer \<open>None\<close> is \<open>MultipleObjectsReturned\<close>.\<close>

definition authenticate ::
    "token_env \<Rightarrow> instant \<Rightarrow> string \<Rightarrow> auth_db \<Rightarrow> (auth_db \<times> account option \<times> api_token option) option" where
  "authenticate env now raw_key db =
     (if raw_key = [] \<or> length raw_key < PREFIX_LENGTH then Some (db, None, None)
      else (case tbl_get (key_matches env raw_key) (ad_tokens db) of
          Does_Not_Exist \<Rightarrow> Some (db, None, None)
        | Multiple_Rows \<Rightarrow> None
        | Row t \<Rightarrow>
           if rejection_reason db now t \<noteq> None then Some (db, None, Some t)
           else Some (update_token (ak_id t) (stamp_use now) db, token_user db t, Some (stamp_use now t))))"

section \<open>What authentication decides\<close>

lemma rejection_reason_None:
  "rejection_reason db now t = None \<longleftrightarrow>
     ak_active t \<and> ak_revoked t = None \<and> \<not> col_lt (ak_expires t) now \<and> user_is_active (token_user db t)"
  by (auto simp: rejection_reason_def)

lemma rejected_when_invalid: "\<not> is_valid now t \<Longrightarrow> rejection_reason db now t \<noteq> None"
  by (auto simp: is_valid_def rejection_reason_None split: if_splits option.splits)

lemma authenticate_user:
  assumes "authenticate env now raw db = Some (db', Some u, tok)"
  shows "\<exists>t. t \<in> set (ad_tokens db) \<and> key_matches env raw t \<and> rejection_reason db now t = None \<and>
    token_user db t = Some u \<and> tok = Some (stamp_use now t) \<and> acc_active u \<and>
    db' = update_token (ak_id t) (stamp_use now) db"
proof -
  from assms obtain t where t: "tbl_get (key_matches env raw) (ad_tokens db) = Row t"
    "rejection_reason db now t = None" "token_user db t = Some u" "tok = Some (stamp_use now t)"
    "db' = update_token (ak_id t) (stamp_use now) db"
    by (auto simp: authenticate_def split: if_splits lookup.splits)
  moreover from t(2,3) have "acc_active u"
    by (simp add: rejection_reason_None user_is_active_def)
  ultimately show ?thesis using tbl_get_RowD [OF t(1)] by blast
qed

lemma authenticate_found_token:
  assumes "authenticate env now raw db = Some (db', u, Some t)"
  shows "\<exists>t0 \<in> set (ad_tokens db). key_matches env raw t0 \<and>
    (u = None \<and> t = t0 \<and> db' = db \<and> rejection_reason db now t0 \<noteq> None \<or>
     t = stamp_use now t0 \<and> db' = update_token (ak_id t0) (stamp_use now) db \<and> u = token_user db t0 \<and>
     rejection_reason db now t0 = None)"
  using assms
  by (auto simp: authenticate_def split: if_splits lookup.splits dest!: tbl_get_RowD)

lemma authenticate_no_user_keeps:
  assumes "authenticate env now raw db = Some (db', None, tok)"
  shows "db' = db"
  using assms
  by (auto simp: authenticate_def rejection_reason_None user_is_active_def split: if_splits lookup.splits option.splits)

lemma token_id_unique:
  assumes "distinct (map ak_id rows)" "t \<in> set rows" "t' \<in> set rows" "ak_id t = ak_id t'"
  shows "t = t'"
  using assms inj_onD [of ak_id "set rows" t t'] by (simp add: distinct_map)

text \<open>With keys that are distinct over the table, a key authenticates exactly as the live token it
  belongs to.\<close>

lemma authenticate_live:
  assumes "t \<in> set (ad_tokens db)" "key_matches env raw t" "rejection_reason db now t = None"
    "PREFIX_LENGTH \<le> length raw" "distinct (map ak_id (ad_tokens db))"
    "distinct (map ak_hashed (ad_tokens db))"
  shows "authenticate env now raw db =
    Some (update_token (ak_id t) (stamp_use now) db, token_user db t, Some (stamp_use now t))"
proof -
  have "tbl_get (key_matches env raw) (ad_tokens db) = Row t"
  proof (rule tbl_get_unique)
    fix q assume "q \<in> set (ad_tokens db)" "key_matches env raw q"
    then show "q = t" using assms(1,2,6) by (auto simp: key_matches_def distinct_map inj_on_def)
  qed (use assms in \<open>auto simp: distinct_map\<close>)
  moreover have "raw \<noteq> []" using assms(4) by (auto simp: PREFIX_LENGTH_def)
  ultimately show ?thesis using assms(3,4) by (simp add: authenticate_def)
qed

end
