(* ===== verification/Runbook_Store.thy ===== *)
theory Runbook_Store
  imports Token_Store
begin

text \<open>
  The document store of the runbook app: the text operations its models use, the tables of
  \<open>apps/runbook/models.py\<close> with the operations on a version chain, and the ownership and
  visibility rules of \<open>apps/runbook/permissions.py\<close>.

  The content of a stored file is a column of its version row: the storage gives every saved file
  a name of its own, so no two rows share one. Files hold the text that was written (UTF-8 there
  and back). Parameters, in the record \<open>runbook_env\<close>: Django's \<open>slugify\<close>, the case-insensitive
  containment of the database, the ranked hits of the search engine, whether the task backend and
  the mail backend accept work, the mount point of the URLs, the random uids and the retention settings; Python's \<open>str\<close> and \<open>isoformat\<close>. The clock is an argument; a
  request reads it once.
\<close>

section \<open>Text\<close>

text \<open>\<open>s.splitlines(keepends=True)\<close>; a carriage return and a line feed are one break.\<close>

fun split_lines :: "string \<Rightarrow> string list" where
  "split_lines [] = []"
| "split_lines [c] = [[c]]"
| "split_lines (c # d # s) =
     (if code c = 13 \<and> code d = 10 then [c, d] # split_lines s
      else if line_break c then [c] # split_lines (d # s)
      else (case split_lines (d # s) of [] \<Rightarrow> [[c]] | l # ls \<Rightarrow> (c # l) # ls))"

text \<open>The class \<open>\w\<close> of \<open>re\<close> on code points below 256.\<close>

definition re_word :: "char \<Rightarrow> bool" where
  "re_word c \<longleftrightarrow>
     py_digit c \<or> (65 \<le> code c \<and> code c \<le> 90) \<or> (97 \<le> code c \<and> code c \<le> 122) \<or> c = CHR ''_''
     \<or> code c \<in> {170, 178, 179, 181, 185, 186, 188, 189, 190}
     \<or> (192 \<le> code c \<and> code c \<noteq> 215 \<and> code c \<noteq> 247)"

text \<open>\<open>_FM_KEYVAL.fullmatch\<close> and \<open>_FM_IMAGE.fullmatch\<close> of a stripped line.\<close>

definition keyval_line :: "string \<Rightarrow> bool" where
  "keyval_line s =
     (let name = (\<lambda>c. re_word c \<or> c = CHR ''.'' \<or> c = CHR ''-'') in
      takeWhile name s \<noteq> [] \<and>
      (case dropWhile py_space (dropWhile name s) of c # _ \<Rightarrow> c = CHR '':'' | [] \<Rightarrow> False))"

definition image_line :: "string \<Rightarrow> bool" where
  "image_line s =
     (startswith s ''!['' \<and>
      (case dropWhile (\<lambda>c. c \<noteq> CHR '']'') (drop 2 s) of
         a # b # r \<Rightarrow> b = CHR ''('' \<and> r \<noteq> [] \<and> last r = CHR '')'' \<and> CHR '')'' \<notin> set (butlast r)
       | _ \<Rightarrow> False))"

text \<open>\<open>strip_frontmatter\<close>: lines skipped before the block are kept; the block counts only when it
  closes and holds nothing but \<open>key: value\<close> lines. (A leading byte order mark is not a code point
  below 256.)\<close>

definition strip_frontmatter :: "string \<Rightarrow> string" where
  "strip_frontmatter text0 =
     (let ls = split_lines text0;
          skip = takeWhile (\<lambda>l. strip l = '''' \<or> image_line (strip l)) ls;
          rest = drop (length skip) ls in
      if rest \<noteq> [] \<and> strip (hd rest) = ''---'' then
        (let inner = takeWhile (\<lambda>l. strip l \<noteq> ''---'') (tl rest);
             after = drop (length inner) (tl rest);
             body = filter (\<lambda>l. l \<noteq> []) (map strip inner) in
         if after \<noteq> [] \<and> body \<noteq> [] \<and> list_all keyval_line body
         then strip (concat (skip @ tl after))
         else strip text0)
      else strip text0)"

text \<open>\<open>needle in s\<close> and \<open>s.replace(old, new)\<close> for a non-empty \<open>old\<close>.\<close>

fun contains :: "string \<Rightarrow> string \<Rightarrow> bool" where
  "contains needle [] = (needle = [])"
| "contains needle (c # s) = (startswith (c # s) needle \<or> contains needle s)"

function py_replace :: "string \<Rightarrow> string \<Rightarrow> string \<Rightarrow> string" where
  "py_replace old new [] = []"
| "py_replace old new (c # s) =
     (if old \<noteq> [] \<and> startswith (c # s) old then new @ py_replace old new (drop (length old) (c # s))
      else c # py_replace old new s)"
  by pat_completeness auto
termination by (relation "measure (\<lambda>(_, _, s). length s)") (auto simp: neq_Nil_conv)

lemma py_replace_idle: "\<not> contains old s \<Longrightarrow> py_replace old new s = s"
  by (induction old new s rule: py_replace.induct) auto

section \<open>Rows\<close>

record runbook =
  rb_id :: nat
  rb_slug :: string
  rb_name :: string
  rb_description :: string
  rb_icon :: string
  rb_owner :: "nat option"
  rb_public :: bool
  rb_template :: bool
  rb_max_versions :: "int option"
  rb_max_age :: "int option"
  rb_ttl :: "int option"

record doc_section =
  sec_id :: nat
  sec_runbook :: nat
  sec_slug :: string
  sec_name :: string
  sec_description :: string
  sec_icon :: string
  sec_order :: int

record document =
  dc_id :: nat
  dc_uid :: string
  dc_runbook :: "nat option"
  dc_section :: "nat option"
  dc_key :: "string option"
  dc_slug :: string
  dc_title :: string
  dc_description :: string
  dc_current :: "nat option"
  dc_version :: int
  dc_file_type :: string
  dc_content :: string
  dc_generated :: bool
  dc_template :: bool
  dc_type :: string
  dc_source :: string
  dc_via :: string
  dc_created_by :: "nat option"
  dc_archived :: bool
  dc_archived_at :: "instant option"
  dc_locked :: bool
  dc_max_versions :: "int option"
  dc_max_age :: "int option"
  dc_ttl :: "int option"
  dc_on_expire :: string
  dc_updated :: instant

record doc_version =
  ver_id :: nat
  ver_document :: nat
  ver_version :: int
  ver_body :: string  \<comment> \<open>the content of \<open>file\<close>\<close>
  ver_file_type :: string
  ver_content :: string
  ver_title :: string
  ver_description :: string
  ver_source :: string
  ver_via :: string
  ver_created_by :: "nat option"
  ver_created :: instant

record doc_image =
  img_id :: nat
  img_document :: nat
  img_ext :: string  \<comment> \<open>the extension of the stored name\<close>
  img_data :: string
  img_alt :: string
  img_uploaded_by :: "nat option"
  img_created :: instant

text \<open>The caller of an operation: \<open>None\<close> (trusted code), an anonymous visitor, or a user.\<close>

datatype actor = Internal | Anonymous | Person account

text \<open>The domain events of \<open>signals.py\<close>, the background tasks the receivers queue, and the mails sent.\<close>

datatype doc_event =
    Written nat "nat option" string "nat option" actor string string
  | Archived nat actor
  | Expired nat string
  | Image_Attached nat nat actor
  | Moved nat "nat option" "nat option" actor

datatype runbook_task = Prune_Versions nat | Notify_Subscribers nat string

text \<open>The tables. Primary keys are drawn from one counter (the code relies only on their being new);
  \<open>rd_subs\<close> has the pairs (document, subscriber).\<close>

record runbook_db =
  rd_seq :: nat
  rd_runbooks :: "runbook list"
  rd_sections :: "doc_section list"
  rd_documents :: "document list"
  rd_versions :: "doc_version list"
  rd_images :: "doc_image list"
  rd_subs :: "(nat \<times> nat) list"
  rd_events :: "doc_event list"
  rd_tasks :: "runbook_task list"
  rd_mails :: "(nat \<times> string \<times> string list) list"

record runbook_env =
  rv_str :: "json \<Rightarrow> string"  \<comment> \<open>Python's \<open>str\<close> of a JSON value\<close>
  rv_isoformat :: "instant \<Rightarrow> string"
  rv_slugify :: "string \<Rightarrow> string"
  rv_icontains :: "string \<Rightarrow> string \<Rightarrow> bool"  \<comment> \<open>text, needle\<close>
  rv_search :: "(string \<Rightarrow> int \<Rightarrow> runbook_db \<Rightarrow> nat list) option"
  rv_enqueue_works :: bool
  rv_mail_works :: bool
  rv_email :: "nat \<Rightarrow> string"
  rv_url_prefix :: string
  rv_uid :: "nat \<Rightarrow> string"  \<comment> \<open>the \<open>uuid4\<close> drawn for the document with this primary key\<close>
  rv_generated_max_versions :: "int option"
  rv_generated_max_age :: "int option"
  rv_generated_ttl :: "int option"

text \<open>What an operation raises: the errors of \<open>service.py\<close>, with the values their texts are built
  from, a violated constraint, and what Python raises for an unknown write mode or a document that
  has no version.\<close>

datatype doc_error =
    Runbook_Not_Found string
  | Section_Not_Found string string
  | Section_Elsewhere
  | Document_Not_Found
  | No_Such_Version int
  | No_Address
  | Document_Exists string string
  | Key_Exists string string
  | Runbook_Exists string
  | Slug_Required string
  | Version_Conflict json int
  | Document_Locked string
  | Not_Authorized string
  | Integrity_Error
  | Unknown_Mode string
  | No_Head

section \<open>Reading and saving rows\<close>

definition find_runbook :: "nat \<Rightarrow> runbook_db \<Rightarrow> runbook option" where
  "find_runbook n db = tbl_find rb_id n (rd_runbooks db)"

definition find_section :: "nat \<Rightarrow> runbook_db \<Rightarrow> doc_section option" where
  "find_section n db = tbl_find sec_id n (rd_sections db)"

definition find_document :: "nat \<Rightarrow> runbook_db \<Rightarrow> document option" where
  "find_document n db = tbl_find dc_id n (rd_documents db)"

definition find_version :: "nat \<Rightarrow> runbook_db \<Rightarrow> doc_version option" where
  "find_version n db = tbl_find ver_id n (rd_versions db)"

definition save_document :: "nat \<Rightarrow> (document \<Rightarrow> document) \<Rightarrow> runbook_db \<Rightarrow> runbook_db" where
  "save_document n f db = db\<lparr>rd_documents := tbl_update (\<lambda>r. dc_id r = n) f (rd_documents db)\<rparr>"

definition save_runbook :: "nat \<Rightarrow> (runbook \<Rightarrow> runbook) \<Rightarrow> runbook_db \<Rightarrow> runbook_db" where
  "save_runbook n f db = db\<lparr>rd_runbooks := tbl_update (\<lambda>r. rb_id r = n) f (rd_runbooks db)\<rparr>"

definition save_version :: "nat \<Rightarrow> (doc_version \<Rightarrow> doc_version) \<Rightarrow> runbook_db \<Rightarrow> runbook_db" where
  "save_version n f db = db\<lparr>rd_versions := tbl_update (\<lambda>r. ver_id r = n) f (rd_versions db)\<rparr>"

definition emit :: "doc_event \<Rightarrow> runbook_db \<Rightarrow> runbook_db" where
  "emit e db = db\<lparr>rd_events := rd_events db @ [e]\<rparr>"

text \<open>The constraint \<open>uniq_runbook_key\<close>: another document of the runbook with the key.\<close>

definition key_taken :: "nat \<Rightarrow> nat option \<Rightarrow> string option \<Rightarrow> runbook_db \<Rightarrow> bool" where
  "key_taken n rb key db \<longleftrightarrow>
     rb \<noteq> None \<and> key \<noteq> None \<and>
     list_ex (\<lambda>d. dc_id d \<noteq> n \<and> dc_runbook d = rb \<and> dc_key d = key) (rd_documents db)"

text \<open>\<open>Document.objects.create\<close>: the row with its new primary key, or a violated constraint.\<close>

definition insert_document :: "runbook_env \<Rightarrow> document \<Rightarrow> runbook_db \<Rightarrow> doc_error + document \<times> runbook_db" where
  "insert_document env d0 db =
     (let d = d0\<lparr>dc_id := rd_seq db, dc_uid := rv_uid env (rd_seq db),
                dc_slug := (if dc_slug d0 = '''' then rv_slugify env (dc_title d0) else dc_slug d0)\<rparr> in
      if key_taken (dc_id d) (dc_runbook d) (dc_key d) db
         \<or> list_ex (\<lambda>r. dc_uid r = dc_uid d) (rd_documents db)
      then Inl Integrity_Error
      else Inr (d, db\<lparr>rd_seq := Suc (rd_seq db), rd_documents := rd_documents db @ [d]\<rparr>))"

text \<open>\<open>doc.delete()\<close>: versions, images and subscriptions go with the document.\<close>

definition delete_rows :: "nat \<Rightarrow> runbook_db \<Rightarrow> runbook_db" where
  "delete_rows n db =
     db\<lparr>rd_documents := filter (\<lambda>d. dc_id d \<noteq> n) (rd_documents db),
        rd_versions := filter (\<lambda>v. ver_document v \<noteq> n) (rd_versions db),
        rd_images := filter (\<lambda>i. img_document i \<noteq> n) (rd_images db),
        rd_subs := filter (\<lambda>s. fst s \<noteq> n) (rd_subs db)\<rparr>"

section \<open>The version chain\<close>

text \<open>\<open>_sync_head\<close>: the columns it writes.\<close>

definition sync_head :: "instant \<Rightarrow> doc_version \<Rightarrow> document \<Rightarrow> document" where
  "sync_head now v d =
     d\<lparr>dc_current := Some (ver_id v), dc_version := ver_version v, dc_file_type := ver_file_type v,
       dc_content := ver_content v, dc_updated := now\<rparr>"

text \<open>The number of the next version, from the head the instance points at.\<close>

definition next_version :: "document \<Rightarrow> runbook_db \<Rightarrow> int option" where
  "next_version d db =
     (case dc_current d of
        None \<Rightarrow> Some 1
      | Some c \<Rightarrow> map_option (\<lambda>v. ver_version v + 1) (find_version c db))"

text \<open>\<open>create_new_version\<close> on an instance \<open>d\<close>, which may be older than its row. The constraint
  \<open>uniq_document_version\<close> and the foreign keys are checked by the insert. The name given to the
  file ends in \<open>.md\<close>.\<close>

definition create_new_version ::
    "instant \<Rightarrow> string \<Rightarrow> nat option \<Rightarrow> string \<Rightarrow> string \<Rightarrow> string \<Rightarrow> document \<Rightarrow> runbook_db \<Rightarrow>
     doc_error + document \<times> runbook_db" where
  "create_new_version now body created_by description source via d db =
     (case next_version d db of
        None \<Rightarrow> Inl No_Head
      | Some n \<Rightarrow>
         if list_ex (\<lambda>v. ver_document v = dc_id d \<and> ver_version v = n) (rd_versions db)
            \<or> find_document (dc_id d) db = None
         then Inl Integrity_Error
         else (let v = \<lparr>ver_id = rd_seq db, ver_document = dc_id d, ver_version = n, ver_body = body,
                        ver_file_type = ''md'', ver_content = strip_frontmatter body, ver_title = dc_title d,
                        ver_description = description, ver_source = source, ver_via = via,
                        ver_created_by = created_by, ver_created = now\<rparr> in
               Inr (sync_head now v d,
                    save_document (dc_id d) (sync_head now v)
                      (db\<lparr>rd_seq := Suc (rd_seq db), rd_versions := rd_versions db @ [v]\<rparr>))))"

definition read_head :: "document \<Rightarrow> runbook_db \<Rightarrow> string" where
  "read_head d db =
     (case dc_current d of
        None \<Rightarrow> ''''
      | Some c \<Rightarrow> (case find_version c db of Some v \<Rightarrow> ver_body v | None \<Rightarrow> ''''))"

section \<open>Ownership and visibility\<close>

fun actor_id :: "actor \<Rightarrow> nat option" where
  "actor_id (Person a) = Some (acc_id a)"
| "actor_id _ = None"

fun actor_staff :: "actor \<Rightarrow> bool" where
  "actor_staff (Person a) = acc_staff a"
| "actor_staff _ = False"

fun actor_superuser :: "actor \<Rightarrow> bool" where
  "actor_superuser (Person a) = acc_superuser a"
| "actor_superuser _ = False"

definition can_view :: "actor \<Rightarrow> runbook option \<Rightarrow> bool" where
  "can_view user runbook =
     (case runbook of
        None \<Rightarrow> actor_staff user
      | Some rb \<Rightarrow>
         if actor_staff user then True
         else if actor_id user = None then False
         else if rb_public rb then True
         else rb_owner rb \<noteq> None \<and> rb_owner rb = actor_id user)"

definition can_edit :: "actor \<Rightarrow> runbook option \<Rightarrow> bool" where
  "can_edit user runbook =
     (case runbook of
        None \<Rightarrow> actor_staff user
      | Some rb \<Rightarrow> actor_staff user \<or> (rb_owner rb \<noteq> None \<and> rb_owner rb = actor_id user))"

definition runbook_of :: "document \<Rightarrow> runbook_db \<Rightarrow> runbook option" where
  "runbook_of d db =
     (case dc_runbook d of
        Some n \<Rightarrow> find_runbook n db
      | None \<Rightarrow>
         (case dc_section d of
            None \<Rightarrow> None
          | Some s \<Rightarrow>
             (case find_section s db of None \<Rightarrow> None | Some sec \<Rightarrow> find_runbook (sec_runbook sec) db)))"

definition can_view_doc :: "actor \<Rightarrow> document \<Rightarrow> runbook_db \<Rightarrow> bool" where
  "can_view_doc user d db = can_view user (runbook_of d db)"

definition can_edit_doc :: "actor \<Rightarrow> document \<Rightarrow> runbook_db \<Rightarrow> bool" where
  "can_edit_doc user d db = can_edit user (runbook_of d db)"

text \<open>The query set scopers.\<close>

definition viewable_runbooks :: "actor \<Rightarrow> runbook list \<Rightarrow> runbook list" where
  "viewable_runbooks user qs =
     (if actor_staff user then qs
      else (case actor_id user of
          None \<Rightarrow> []
        | Some uid \<Rightarrow> filter (\<lambda>rb. rb_public rb \<or> rb_owner rb = Some uid) qs))"

definition viewable_documents :: "actor \<Rightarrow> runbook_db \<Rightarrow> document list \<Rightarrow> document list" where
  "viewable_documents user db qs =
     (if actor_staff user then qs
      else (case actor_id user of
          None \<Rightarrow> []
        | Some uid \<Rightarrow>
           filter (\<lambda>d. case dc_runbook d of
                         None \<Rightarrow> False
                       | Some n \<Rightarrow> (case find_runbook n db of
                           None \<Rightarrow> False
                         | Some rb \<Rightarrow> rb_public rb \<or> rb_owner rb = Some uid)) qs))"

end
