(* ===== verification/Runbook_Service.thy ===== *)
theory Runbook_Service
  imports Runbook_Store
begin

text \<open>
  The write path every surface shares, \<open>apps/runbook/service.py\<close>. An operation returns the error it
  raises, with the tables as they were (the code runs each in a transaction, or raises before it
  writes), or its result and the new tables. Events are emitted when the transaction commits. An
  operation that is handed a \<open>Document\<close> instance reads its columns from that instance, which may be
  older than the row.
\<close>

section \<open>Arguments and results\<close>

datatype runbook_ref = Runbook_Row runbook | Runbook_Slug string

datatype section_ref = No_Section | Section_Row doc_section | Section_Slug string

record doc_address =
  ad_runbook :: "runbook_ref option"
  ad_key :: "string option"
  ad_id :: "nat option"
  ad_uid :: "string option"

datatype doc_target = Doc_Row document | Doc_At doc_address

definition keyed :: "string \<Rightarrow> string \<Rightarrow> doc_address" where
  "keyed slug key = \<lparr>ad_runbook = Some (Runbook_Slug slug), ad_key = Some key, ad_id = None, ad_uid = None\<rparr>"

definition by_uid :: "string \<Rightarrow> doc_address" where
  "by_uid uid = \<lparr>ad_runbook = None, ad_key = None, ad_id = None, ad_uid = Some uid\<rparr>"

text \<open>\<open>DocumentSummary\<close> and \<open>DocumentResult\<close>: the columns of the instance, the slug of its runbook and,
  when asked for, the body.\<close>

record doc_result =
  dr_doc :: document
  dr_runbook :: "string option"
  dr_body :: "string option"

definition result_of :: "bool \<Rightarrow> document \<Rightarrow> runbook_db \<Rightarrow> doc_result" where
  "result_of with_body d db =
     \<lparr>dr_doc = d,
      dr_runbook = (case dc_runbook d of None \<Rightarrow> None | Some n \<Rightarrow> map_option rb_slug (find_runbook n db)),
      dr_body = (if with_body then Some (read_head d db) else None)\<rparr>"

section \<open>Resolution\<close>

definition resolve_runbook :: "runbook_ref \<Rightarrow> runbook_db \<Rightarrow> doc_error + runbook" where
  "resolve_runbook r db =
     (case r of
        Runbook_Row rb \<Rightarrow> Inr rb
      | Runbook_Slug s \<Rightarrow>
         (case find (\<lambda>rb. rb_slug rb = s) (rd_runbooks db) of
            None \<Rightarrow> Inl (Runbook_Not_Found s)
          | Some rb \<Rightarrow> Inr rb))"

definition resolve_section :: "runbook \<Rightarrow> section_ref \<Rightarrow> runbook_db \<Rightarrow> doc_error + doc_section option" where
  "resolve_section rb r db =
     (case r of
        No_Section \<Rightarrow> Inr None
      | Section_Row s \<Rightarrow> if sec_runbook s \<noteq> rb_id rb then Inl Section_Elsewhere else Inr (Some s)
      | Section_Slug s \<Rightarrow>
         (case find (\<lambda>sec. sec_runbook sec = rb_id rb \<and> sec_slug sec = s) (rd_sections db) of
            None \<Rightarrow> Inl (Section_Not_Found s (rb_slug rb))
          | Some sec \<Rightarrow> Inr (Some sec)))"

definition get_doc :: "doc_address \<Rightarrow> actor \<Rightarrow> runbook_db \<Rightarrow> doc_error + document" where
  "get_doc ad viewer db =
     bind_err
       (case (ad_uid ad, ad_id ad, ad_runbook ad, ad_key ad) of
          (Some u, _, _, _) \<Rightarrow> Inr (find (\<lambda>d. dc_uid d = u) (rd_documents db))
        | (None, Some n, _, _) \<Rightarrow> Inr (find_document n db)
        | (None, None, Some r, Some k) \<Rightarrow>
           bind_err (resolve_runbook r db)
             (\<lambda>rb. Inr (find (\<lambda>d. dc_runbook d = Some (rb_id rb) \<and> dc_key d = Some k) (rd_documents db)))
        | _ \<Rightarrow> Inl No_Address)
       (\<lambda>found. case found of
          None \<Rightarrow> Inl Document_Not_Found
        | Some d \<Rightarrow> if viewer \<noteq> Internal \<and> \<not> can_view_doc viewer d db then Inl Document_Not_Found else Inr d)"

definition target_doc :: "doc_target \<Rightarrow> runbook_db \<Rightarrow> doc_error + document" where
  "target_doc t db = (case t of Doc_Row d \<Rightarrow> Inr d | Doc_At ad \<Rightarrow> get_doc ad Internal db)"

section \<open>Guards\<close>

text \<open>\<open>doc.key or doc.uid\<close>.\<close>

definition doc_label :: "document \<Rightarrow> string" where
  "doc_label d = (case dc_key d of Some k \<Rightarrow> if k = '''' then dc_uid d else k | None \<Rightarrow> dc_uid d)"

definition check_writable :: "document \<Rightarrow> actor \<Rightarrow> bool \<Rightarrow> runbook_db \<Rightarrow> doc_error option" where
  "check_writable d actor bypass_lock db =
     (let trusted = (actor = Internal \<or> bypass_lock) in
      if \<not> trusted \<and> \<not> can_edit_doc actor d db then
        (if \<not> can_view_doc actor d db then Some Document_Not_Found else Some (Not_Authorized (''edit document '' @ doc_label d @ ''.'')))
      else if dc_locked d \<and> \<not> bypass_lock \<and> \<not> actor_superuser actor then Some (Document_Locked (doc_label d))
      else None)"

text \<open>A name in single quotes.\<close>

definition quoted :: "string \<Rightarrow> string" where
  "quoted s = [char_of (39 :: nat)] @ s @ [char_of (39 :: nat)]"

text \<open>The guard of \<open>create_document\<close>, \<open>move_document\<close>, \<open>create_section\<close> and \<open>set_runbook_public\<close> on
  the runbook; the deed is what the text of the refusal names.\<close>

definition check_runbook :: "string \<Rightarrow> actor \<Rightarrow> runbook \<Rightarrow> doc_error option" where
  "check_runbook deed actor rb =
     (if actor \<noteq> Internal \<and> \<not> can_edit actor (Some rb) then
        (if \<not> can_view actor (Some rb) then Some (Runbook_Not_Found (rb_slug rb))
         else Some (Not_Authorized (deed @ quoted (rb_slug rb) @ ''.'')))
      else None)"

definition guarded :: "doc_error option \<Rightarrow> (doc_error + 'a) \<Rightarrow> doc_error + 'a" where
  "guarded g r = (case g of Some e \<Rightarrow> Inl e | None \<Rightarrow> r)"

lemma guarded_simps [simp]: "guarded (Some e) r = Inl e" "guarded None r = r"
  by (simp_all add: guarded_def)

lemma guarded_eq_Inr: "guarded g r = Inr x \<longleftrightarrow> g = None \<and> r = Inr x"
  by (cases g) simp_all

section \<open>Writing a version\<close>

definition overwrite_head ::
    "instant \<Rightarrow> string \<Rightarrow> string \<Rightarrow> string \<Rightarrow> document \<Rightarrow> runbook_db \<Rightarrow> doc_error + document \<times> runbook_db" where
  "overwrite_head now body source via d db =
     (case dc_current d of
        None \<Rightarrow> Inl No_Head
      | Some c \<Rightarrow>
         (case find_version c db of
            None \<Rightarrow> Inl No_Head
          | Some v \<Rightarrow>
             (let content = strip_frontmatter body;
                  update = (\<lambda>r. r\<lparr>dc_content := content, dc_updated := now\<rparr>) in
              Inr (update d,
                   save_document (dc_id d) update
                     (save_version c
                        (\<lambda>v. v\<lparr>ver_body := body, ver_content := content,
                              ver_source := (if source = '''' then ver_source v else source), ver_via := via\<rparr>) db)))))"

text \<open>\<open>(read_head(doc).rstrip() + "\n\n" + body.strip() + "\n").lstrip("\n")\<close>.\<close>

definition newline :: char where
  "newline = char_of (10 :: nat)"

definition appended :: "string \<Rightarrow> string \<Rightarrow> string" where
  "appended old body =
     dropWhile (\<lambda>c. c = newline) (rstrip old @ [newline, newline] @ strip body @ [newline])"

definition write_version ::
    "instant \<Rightarrow> string \<Rightarrow> string \<Rightarrow> string \<Rightarrow> string \<Rightarrow> string \<Rightarrow> actor \<Rightarrow> bool \<Rightarrow> document \<Rightarrow> runbook_db \<Rightarrow>
     doc_error + document \<times> runbook_db" where
  "write_version now body mode description source via actor bypass_lock d db =
     guarded (check_writable d actor bypass_lock db)
       (bind_err
          (if mode = ''new_version'' then create_new_version now body (actor_id actor) description source via d db
           else if mode = ''overwrite'' then overwrite_head now body source via d db
           else if mode = ''append'' then overwrite_head now (appended (read_head d db) body) source via d db
           else if mode = ''append_version'' then
             create_new_version now (appended (read_head d db) body) (actor_id actor) description source via d db
           else Inl (Unknown_Mode mode))
          (\<lambda>(d', db').
             Inr (d', emit (Written (dc_id d) (dc_current d') mode
                              (if mode \<in> {''new_version'', ''append_version''} then dc_current d else None)
                              actor source via) db')))"

section \<open>Creating documents\<close>

record doc_fields =
  df_title :: string
  df_key :: "string option"
  df_section :: section_ref
  df_description :: string
  df_source :: string
  df_via :: string
  df_generated :: bool
  df_type :: string
  df_locked :: bool

text \<open>The row \<open>Document.objects.create(..)\<close> is called with, the other columns at their defaults.\<close>

definition new_document :: "instant \<Rightarrow> nat option \<Rightarrow> nat option \<Rightarrow> nat option \<Rightarrow> doc_fields \<Rightarrow> document" where
  "new_document now runbook sec created_by f =
     \<lparr>dc_id = 0, dc_uid = '''', dc_runbook = runbook, dc_section = sec, dc_key = df_key f, dc_slug = '''',
      dc_title = df_title f, dc_description = df_description f, dc_current = None, dc_version = 1,
      dc_file_type = '''', dc_content = '''', dc_generated = df_generated f, dc_template = False,
      dc_type = df_type f, dc_source = df_source f, dc_via = df_via f, dc_created_by = created_by,
      dc_archived = False, dc_archived_at = None, dc_locked = df_locked f, dc_max_versions = None,
      dc_max_age = None, dc_ttl = None, dc_on_expire = ''archive'', dc_updated = now\<rparr>"

definition create_document ::
    "runbook_env \<Rightarrow> instant \<Rightarrow> runbook_ref \<Rightarrow> string \<Rightarrow> doc_fields \<Rightarrow> actor \<Rightarrow> runbook_db \<Rightarrow>
     doc_error + document \<times> runbook_db" where
  "create_document env now r body f actor db =
     bind_err (resolve_runbook r db) (\<lambda>rb.
       guarded (check_runbook ''add documents to '' actor rb)
         (bind_err (resolve_section rb (df_section f) db) (\<lambda>sec.
            bind_err (insert_document env
                (new_document now (Some (rb_id rb)) (map_option sec_id sec) (actor_id actor) f) db) (\<lambda>(d, db1).
              bind_err (create_new_version now body (actor_id actor) '''' (df_source f) (df_via f) d db1)
                (\<lambda>(d', db').
                   Inr (d', emit (Written (dc_id d') (dc_current d') ''created'' None actor
                                    (df_source f) (df_via f)) db'))))))"

section \<open>The keyed upsert\<close>

text \<open>\<open>v == n\<close> of a JSON value and an integer.\<close>

fun equals_int :: "json \<Rightarrow> int \<Rightarrow> bool" where
  "equals_int (JInt i) n = (i = n)"
| "equals_int (JBool b) n = (n = (if b then 1 else 0))"
| "equals_int (JFloat r) n = (r = of_int n)"
| "equals_int _ n = False"

record put_args =
  pa_title :: "string option"
  pa_section :: section_ref
  pa_on_exists :: string
  pa_expected :: json
  pa_source :: string
  pa_via :: string
  pa_generated :: bool
  pa_type :: string
  pa_locked :: "bool option"

definition put_defaults :: put_args where
  "put_defaults = \<lparr>pa_title = None, pa_section = No_Section, pa_on_exists = ''new_version'', pa_expected = JNull,
     pa_source = '''', pa_via = ''api'', pa_generated = True, pa_type = '''', pa_locked = None\<rparr>"

definition put_document ::
    "runbook_env \<Rightarrow> instant \<Rightarrow> runbook_ref \<Rightarrow> string \<Rightarrow> string \<Rightarrow> put_args \<Rightarrow> actor \<Rightarrow> bool \<Rightarrow> runbook_db \<Rightarrow>
     doc_error + doc_result \<times> runbook_db" where
  "put_document env now r key body p actor bypass_lock db =
     bind_err (resolve_runbook r db) (\<lambda>rb.
       case find (\<lambda>d. dc_runbook d = Some (rb_id rb) \<and> dc_key d = Some key) (rd_documents db) of
         None \<Rightarrow>
           bind_err (create_document env now (Runbook_Row rb) body
               \<lparr>df_title = (case pa_title p of Some t \<Rightarrow> if t = '''' then key else t | None \<Rightarrow> key), df_key = Some key,
                df_section = pa_section p, df_description = '''', df_source = pa_source p, df_via = pa_via p,
                df_generated = pa_generated p, df_type = pa_type p, df_locked = (pa_locked p = Some True)\<rparr> actor db)
             (\<lambda>(d, db'). Inr (result_of False d db', db'))
       | Some d \<Rightarrow>
           guarded (check_writable d actor bypass_lock db)
             (if pa_on_exists p = ''fail'' then Inl (Document_Exists key (rb_slug rb))
              else if pa_expected p \<noteq> JNull \<and> \<not> equals_int (pa_expected p) (dc_version d)
              then Inl (Version_Conflict (pa_expected p) (dc_version d))
              else bind_err (resolve_section rb (pa_section p) db) (\<lambda>sec.
                let retitle = (pa_title p \<noteq> None \<and> pa_title p \<noteq> Some (dc_title d));
                    resect = (pa_section p \<noteq> No_Section);
                    relock = (pa_locked p \<noteq> None \<and> pa_locked p \<noteq> Some (dc_locked d));
                    meta = (\<lambda>r. r\<lparr>dc_title := (if retitle then the (pa_title p) else dc_title r),
                                  dc_section := (if resect then map_option sec_id sec else dc_section r),
                                  dc_locked := (if relock then the (pa_locked p) else dc_locked r),
                                  dc_updated := now\<rparr>);
                    changed = (retitle \<or> resect \<or> relock);
                    d1 = (if changed then meta d else d);
                    db1 = (if changed then save_document (dc_id d) meta db else db)
                in bind_err (write_version now body (pa_on_exists p) '''' (pa_source p) (pa_via p) actor bypass_lock d1 db1)
                     (\<lambda>(d', db'). Inr (result_of False d' db', db')))))"

definition append_to_document ::
    "runbook_env \<Rightarrow> instant \<Rightarrow> runbook_ref \<Rightarrow> string \<Rightarrow> string \<Rightarrow> put_args \<Rightarrow> actor \<Rightarrow> bool \<Rightarrow> runbook_db \<Rightarrow>
     doc_error + doc_result \<times> runbook_db" where
  "append_to_document env now r key body p = put_document env now r key body (p\<lparr>pa_on_exists := ''append''\<rparr>)"

definition append_version ::
    "runbook_env \<Rightarrow> instant \<Rightarrow> runbook_ref \<Rightarrow> string \<Rightarrow> string \<Rightarrow> put_args \<Rightarrow> actor \<Rightarrow> bool \<Rightarrow> runbook_db \<Rightarrow>
     doc_error + doc_result \<times> runbook_db" where
  "append_version env now r key body p = put_document env now r key body (p\<lparr>pa_on_exists := ''append_version''\<rparr>)"

definition get_document :: "doc_address \<Rightarrow> bool \<Rightarrow> actor \<Rightarrow> runbook_db \<Rightarrow> doc_error + doc_result" where
  "get_document ad with_body viewer db =
     bind_err (get_doc ad viewer db) (\<lambda>d. Inr (result_of with_body d db))"

end
