(* ===== verification/Runbook_Library.thy ===== *)
theory Runbook_Library
  imports Runbook_Service
begin

text \<open>
  The rest of \<open>apps/runbook/service.py\<close> (images, archiving, restoring, moving, listing, searching,
  runbooks and sections, templates and clones), \<open>retention.py\<close>, and the consumers of the events:
  \<open>receivers.py\<close>, \<open>tasks.py\<close>, \<open>subscriptions.py\<close>.
\<close>

section \<open>Images\<close>

definition IMAGE_EXTENSIONS :: "string list" where
  "IMAGE_EXTENSIONS = [''.png'', ''.jpg'', ''.jpeg'', ''.gif'', ''.webp'']"

text \<open>The extension \<open>document_image_upload_to\<close> stores a file under.\<close>

definition stored_ext :: "string \<Rightarrow> string" where
  "stored_ext filename =
     (let ext = (case rsplit_dot filename of Some (_, e) \<Rightarrow> CHR ''.'' # py_lower e | None \<Rightarrow> '''') in
      if ext \<in> set IMAGE_EXTENSIONS then ext else ''.bin'')"

definition serve_image_url :: "runbook_env \<Rightarrow> nat \<Rightarrow> string" where
  "serve_image_url env n = rv_url_prefix env @ ''images/'' @ nat_str n @ ''/''"

definition insert_image ::
    "instant \<Rightarrow> nat \<Rightarrow> string \<Rightarrow> string \<Rightarrow> string \<Rightarrow> actor \<Rightarrow> runbook_db \<Rightarrow> doc_image \<times> runbook_db" where
  "insert_image now document filename data alt actor db =
     (let i = \<lparr>img_id = rd_seq db, img_document = document, img_ext = stored_ext filename, img_data = data,
               img_alt = alt, img_uploaded_by = actor_id actor, img_created = now\<rparr> in
      (i, db\<lparr>rd_seq := Suc (rd_seq db), rd_images := rd_images db @ [i]\<rparr>))"

text \<open>\<open>attach_image\<close> returns the reference: the id, the URL and the markdown to embed.\<close>

definition attach_image ::
    "runbook_env \<Rightarrow> instant \<Rightarrow> doc_target \<Rightarrow> string \<Rightarrow> string \<Rightarrow> string \<Rightarrow> actor \<Rightarrow> runbook_db \<Rightarrow>
     doc_error + (nat \<times> string \<times> string) \<times> runbook_db" where
  "attach_image env now t filename data alt actor db =
     bind_err (target_doc t db) (\<lambda>d.
       case insert_image now (dc_id d) filename data alt actor db of
         (i, db') \<Rightarrow>
           (let url = serve_image_url env (img_id i) in
            Inr ((img_id i, url, ''!['' @ alt @ '']('' @ url @ '')''),
                 emit (Image_Attached (dc_id d) (img_id i) actor) db')))"

section \<open>Archiving, restoring, deleting\<close>

definition archive_document :: "instant \<Rightarrow> doc_target \<Rightarrow> actor \<Rightarrow> bool \<Rightarrow> runbook_db \<Rightarrow> doc_error + doc_result \<times> runbook_db" where
  "archive_document now t actor bypass_lock db =
     bind_err (target_doc t db) (\<lambda>d.
       guarded (check_writable d actor bypass_lock db)
         (let update = (\<lambda>r. r\<lparr>dc_archived := True, dc_archived_at := Some now, dc_updated := now\<rparr>) in
          if dc_archived d then Inr (result_of False d db, db)
          else Inr (result_of False (update d) db,
                    emit (Archived (dc_id d) actor) (save_document (dc_id d) update db))))"

definition unarchive_document :: "instant \<Rightarrow> doc_target \<Rightarrow> actor \<Rightarrow> bool \<Rightarrow> runbook_db \<Rightarrow> doc_error + doc_result \<times> runbook_db" where
  "unarchive_document now t actor bypass_lock db =
     bind_err (target_doc t db) (\<lambda>d.
       guarded (check_writable d actor bypass_lock db)
         (let update = (\<lambda>r. r\<lparr>dc_archived := False, dc_archived_at := None, dc_updated := now\<rparr>) in
          if dc_archived d then Inr (result_of False (update d) db, save_document (dc_id d) update db)
          else Inr (result_of False d db, db)))"

definition restored_note :: "int \<Rightarrow> string" where
  "restored_note n = ''Restored from version '' @ int_str n"

definition restore_version ::
    "instant \<Rightarrow> doc_target \<Rightarrow> int \<Rightarrow> string \<Rightarrow> actor \<Rightarrow> bool \<Rightarrow> runbook_db \<Rightarrow> doc_error + document \<times> runbook_db" where
  "restore_version now t n via actor bypass_lock db =
     bind_err (target_doc t db) (\<lambda>d.
       case find (\<lambda>v. ver_document v = dc_id d \<and> ver_version v = n) (rd_versions db) of
         None \<Rightarrow> Inl (No_Such_Version n)
       | Some old \<Rightarrow>
           write_version now (ver_body old) ''new_version'' (restored_note n) '''' via actor bypass_lock d db)"

definition delete_document ::
    "instant \<Rightarrow> doc_target \<Rightarrow> bool \<Rightarrow> actor \<Rightarrow> bool \<Rightarrow> runbook_db \<Rightarrow> doc_error + runbook_db" where
  "delete_document now t force actor bypass_lock db =
     bind_err (target_doc t db) (\<lambda>d.
       guarded (check_writable d actor bypass_lock db)
         (if \<not> force then bind_err (archive_document now (Doc_Row d) actor bypass_lock db) (\<lambda>(_, db'). Inr db')
          else Inr (delete_rows (dc_id d) db)))"

section \<open>Moving\<close>

definition move_document ::
    "instant \<Rightarrow> doc_target \<Rightarrow> runbook_ref option \<Rightarrow> section_ref \<Rightarrow> actor \<Rightarrow> bool \<Rightarrow> runbook_db \<Rightarrow>
     doc_error + doc_result \<times> runbook_db" where
  "move_document now t to_runbook to_section actor bypass_lock db =
     bind_err (target_doc t db) (\<lambda>d.
       guarded (check_writable d actor bypass_lock db)
         (bind_err
            (case to_runbook of
               None \<Rightarrow> Inr (None, None, None)
             | Some r \<Rightarrow>
                bind_err (resolve_runbook r db) (\<lambda>rb.
                  guarded (if bypass_lock then None else check_runbook ''move documents into '' actor rb)
                    (bind_err (resolve_section rb to_section db) (\<lambda>sec.
                       case dc_key d of
                         Some k \<Rightarrow>
                           if k \<noteq> '''' \<and> key_taken (dc_id d) (Some (rb_id rb)) (Some k) db
                           then Inl (Key_Exists k (rb_slug rb))
                           else Inr (Some (rb_id rb), map_option sec_id sec, Some k)
                       | None \<Rightarrow> Inr (Some (rb_id rb), map_option sec_id sec, None)))))
            (\<lambda>(rb, sec, key).
               let place = (\<lambda>r. r\<lparr>dc_runbook := rb, dc_section := sec, dc_key := key, dc_updated := now\<rparr>);
                   db' = save_document (dc_id d) place db in
               if key_taken (dc_id d) rb key db then Inl Integrity_Error
               else Inr (result_of False (place d) db', emit (Moved (dc_id d) (dc_runbook d) rb actor) db'))))"

section \<open>Listing and searching\<close>

record list_args =
  la_runbook :: "runbook_ref option"
  la_section :: section_ref
  la_source :: "string option"
  la_type :: "string option"
  la_query :: "string option"
  la_archived :: bool

definition list_defaults :: list_args where
  "list_defaults = \<lparr>la_runbook = None, la_section = No_Section, la_source = None, la_type = None, la_query = None,
     la_archived = False\<rparr>"

text \<open>The truth value of an optional text argument, as a filter.\<close>

definition when_given :: "string option \<Rightarrow> (string \<Rightarrow> bool) \<Rightarrow> bool" where
  "when_given x p = (case x of None \<Rightarrow> True | Some s \<Rightarrow> s = '''' \<or> p s)"

definition in_section :: "section_ref \<Rightarrow> document \<Rightarrow> runbook_db \<Rightarrow> bool" where
  "in_section r d db =
     (case r of
        No_Section \<Rightarrow> True
      | Section_Row s \<Rightarrow> dc_section d = Some (sec_id s)
      | Section_Slug slug \<Rightarrow>
         (case dc_section d of
            None \<Rightarrow> False
          | Some n \<Rightarrow> (case find_section n db of None \<Rightarrow> False | Some s \<Rightarrow> sec_slug s = slug)))"

text \<open>The query sets scoped to a viewer; \<open>Internal\<close> is no viewer. The default order is the latest
  update first.\<close>

definition scoped_documents :: "actor \<Rightarrow> runbook_db \<Rightarrow> document list" where
  "scoped_documents viewer db =
     (let qs = sort_key (\<lambda>d. - dc_updated d) (rd_documents db) in
      if viewer = Internal then qs else viewable_documents viewer db qs)"

definition list_documents :: "runbook_env \<Rightarrow> list_args \<Rightarrow> actor \<Rightarrow> runbook_db \<Rightarrow> doc_error + doc_result list" where
  "list_documents env a viewer db =
     bind_err
       (case la_runbook a of
          None \<Rightarrow> Inr (\<lambda>d. True)
        | Some r \<Rightarrow> bind_err (resolve_runbook r db) (\<lambda>rb. Inr (\<lambda>d. dc_runbook d = Some (rb_id rb))))
       (\<lambda>in_runbook.
          Inr (map (\<lambda>d. result_of False d db)
                (filter (\<lambda>d. (la_archived a \<or> \<not> dc_archived d) \<and> in_runbook d \<and> in_section (la_section a) d db
                     \<and> when_given (la_source a) (\<lambda>s. dc_source d = s)
                     \<and> when_given (la_type a) (\<lambda>s. dc_type d = s)
                     \<and> when_given (la_query a) (\<lambda>q. rv_icontains env (dc_title d) q \<or> rv_icontains env (dc_content d) q))
                   (scoped_documents viewer db))))"

text \<open>\<open>None\<close> as a result: there is no search engine. The engine's order is kept.\<close>

definition search_documents ::
    "runbook_env \<Rightarrow> string \<Rightarrow> actor \<Rightarrow> runbook_ref option \<Rightarrow> string option \<Rightarrow> int \<Rightarrow> runbook_db \<Rightarrow>
     doc_error + doc_result list option" where
  "search_documents env q viewer in_runbook source limit db =
     (case rv_search env of
        None \<Rightarrow> Inr None
      | Some engine \<Rightarrow>
         bind_err
           (case in_runbook of
              None \<Rightarrow> Inr (\<lambda>d. True)
            | Some r \<Rightarrow> bind_err (resolve_runbook r db) (\<lambda>rb. Inr (\<lambda>d. dc_runbook d = Some (rb_id rb))))
           (\<lambda>in_rb.
              let hits = engine q limit db;
                  qs = filter (\<lambda>d. dc_id d \<in> set hits \<and> \<not> dc_archived d \<and> in_rb d
                                 \<and> when_given source (\<lambda>s. dc_source d = s)) (scoped_documents viewer db) in
              Inr (Some (List.map_filter
                     (\<lambda>n. map_option (\<lambda>d. result_of False d db) (tbl_find dc_id n qs)) hits))))"

section \<open>Runbooks and sections\<close>

definition insert_runbook :: "runbook_env \<Rightarrow> runbook \<Rightarrow> runbook_db \<Rightarrow> doc_error + runbook \<times> runbook_db" where
  "insert_runbook env rb0 db =
     (let rb = rb0\<lparr>rb_id := rd_seq db,
                  rb_slug := (if rb_slug rb0 = '''' then rv_slugify env (rb_name rb0) else rb_slug rb0)\<rparr> in
      if list_ex (\<lambda>r. rb_slug r = rb_slug rb) (rd_runbooks db) then Inl Integrity_Error
      else Inr (rb, db\<lparr>rd_seq := Suc (rd_seq db), rd_runbooks := rd_runbooks db @ [rb]\<rparr>))"

definition insert_section :: "runbook_env \<Rightarrow> doc_section \<Rightarrow> runbook_db \<Rightarrow> doc_error + doc_section \<times> runbook_db" where
  "insert_section env s0 db =
     (let s = s0\<lparr>sec_id := rd_seq db,
                 sec_slug := (if sec_slug s0 = '''' then rv_slugify env (sec_name s0) else sec_slug s0)\<rparr> in
      if list_ex (\<lambda>r. sec_runbook r = sec_runbook s \<and> sec_slug r = sec_slug s) (rd_sections db) then Inl Integrity_Error
      else Inr (s, db\<lparr>rd_seq := Suc (rd_seq db), rd_sections := rd_sections db @ [s]\<rparr>))"

definition blank_runbook :: runbook where
  "blank_runbook = \<lparr>rb_id = 0, rb_slug = '''', rb_name = '''', rb_description = '''', rb_icon = '''', rb_owner = None,
     rb_public = False, rb_template = False, rb_max_versions = None, rb_max_age = None, rb_ttl = None\<rparr>"

text \<open>\<open>x or default\<close> for an optional text.\<close>

definition text_or :: "string option \<Rightarrow> string \<Rightarrow> string" where
  "text_or x s = (case x of Some t \<Rightarrow> if t = '''' then s else t | None \<Rightarrow> s)"

definition create_runbook ::
    "runbook_env \<Rightarrow> string \<Rightarrow> string option \<Rightarrow> string \<Rightarrow> actor \<Rightarrow> bool \<Rightarrow> runbook_db \<Rightarrow> doc_error + runbook \<times> runbook_db" where
  "create_runbook env slug0 name description owner is_public db =
     (let slug = rv_slugify env slug0 in
      if slug = '''' then Inl (Slug_Required ''runbook'')
      else if list_ex (\<lambda>r. rb_slug r = slug) (rd_runbooks db) then Inl (Runbook_Exists slug)
      else insert_runbook env (blank_runbook\<lparr>rb_slug := slug, rb_name := text_or name slug, rb_description := description,
             rb_owner := actor_id owner, rb_public := is_public\<rparr>) db)"

definition create_section ::
    "runbook_env \<Rightarrow> runbook_ref \<Rightarrow> string \<Rightarrow> string option \<Rightarrow> int \<Rightarrow> actor \<Rightarrow> runbook_db \<Rightarrow>
     doc_error + doc_section \<times> runbook_db" where
  "create_section env r slug0 name ord actor db =
     bind_err (resolve_runbook r db) (\<lambda>rb.
       guarded (check_runbook ''modify '' actor rb)
         (let slug = rv_slugify env slug0 in
          if slug = '''' then Inl (Slug_Required ''section'')
          else (case find (\<lambda>s. sec_runbook s = rb_id rb \<and> sec_slug s = slug) (rd_sections db) of
              Some s \<Rightarrow> Inr (s, db)
            | None \<Rightarrow> insert_section env \<lparr>sec_id = 0, sec_runbook = rb_id rb, sec_slug = slug, sec_name = text_or name slug,
                        sec_description = '''', sec_icon = '''', sec_order = ord\<rparr> db)))"

definition set_runbook_public :: "runbook_ref \<Rightarrow> bool \<Rightarrow> actor \<Rightarrow> runbook_db \<Rightarrow> doc_error + runbook \<times> runbook_db" where
  "set_runbook_public r public actor db =
     bind_err (resolve_runbook r db) (\<lambda>rb.
       guarded (check_runbook ''modify '' actor rb)
         (if rb_public rb \<noteq> public
          then Inr (rb\<lparr>rb_public := public\<rparr>, save_runbook (rb_id rb) (\<lambda>q. q\<lparr>rb_public := public\<rparr>) db)
          else Inr (rb, db)))"

section \<open>Templates and clones\<close>

text \<open>The loop of \<open>_unique_slug\<close>: \<open>base\<close>, \<open>base-2\<close>, \<dots>; among one more candidate than there are
  runbooks one is free.\<close>

definition slug_candidate :: "string \<Rightarrow> nat \<Rightarrow> string" where
  "slug_candidate base n = (if n < 2 then base else base @ ''-'' @ nat_str n)"

fun free_slug :: "nat \<Rightarrow> string \<Rightarrow> nat \<Rightarrow> runbook list \<Rightarrow> string" where
  "free_slug 0 base n rbs = slug_candidate base n"
| "free_slug (Suc fuel) base n rbs =
     (if list_ex (\<lambda>r. rb_slug r = slug_candidate base n) rbs then free_slug fuel base (Suc n) rbs
      else slug_candidate base n)"

definition unique_slug :: "string \<Rightarrow> runbook_db \<Rightarrow> string" where
  "unique_slug base0 db =
     free_slug (length (rd_runbooks db)) (if base0 = '''' then ''runbook'' else base0) 1 (rd_runbooks db)"

text \<open>\<open>clone_referenced_images\<close> over the images of the source, newest first.\<close>

fun clone_images ::
    "runbook_env \<Rightarrow> instant \<Rightarrow> nat \<Rightarrow> actor \<Rightarrow> doc_image list \<Rightarrow> string \<Rightarrow> runbook_db \<Rightarrow> string \<times> runbook_db" where
  "clone_images env now target actor [] body db = (body, db)"
| "clone_images env now target actor (i # is) body db =
     (if contains (serve_image_url env (img_id i)) body then
        (case insert_image now target (''image'' @ img_ext i) (img_data i) (img_alt i) actor db of
           (j, db') \<Rightarrow> clone_images env now target actor is
              (py_replace (serve_image_url env (img_id i)) (serve_image_url env (img_id j)) body) db')
      else clone_images env now target actor is body db)"

definition images_of :: "nat \<Rightarrow> runbook_db \<Rightarrow> doc_image list" where
  "images_of n db = sort_key (\<lambda>i. - img_created i) (filter (\<lambda>i. img_document i = n) (rd_images db))"

definition clone_referenced_images ::
    "runbook_env \<Rightarrow> instant \<Rightarrow> string \<Rightarrow> nat \<Rightarrow> nat \<Rightarrow> actor \<Rightarrow> runbook_db \<Rightarrow> string \<times> runbook_db" where
  "clone_referenced_images env now body source target actor db =
     clone_images env now target actor (images_of source db) body db"

text \<open>Rows without a runbook sort first.\<close>

definition list_template_documents :: "actor \<Rightarrow> runbook_db \<Rightarrow> document list" where
  "list_template_documents viewer db =
     (let home = (\<lambda>d. case dc_runbook d of None \<Rightarrow> None | Some n \<Rightarrow> find_runbook n db);
          qs = sort_key (\<lambda>d. (case home d of None \<Rightarrow> [] | Some rb \<Rightarrow> [rb_name rb], dc_title d))
                 (filter (\<lambda>d. (dc_template d \<or> (case home d of None \<Rightarrow> False | Some rb \<Rightarrow> rb_template rb))
                            \<and> \<not> dc_archived d) (rd_documents db)) in
      if viewer = Internal then qs else viewable_documents viewer db qs)"

definition create_from_template ::
    "runbook_env \<Rightarrow> instant \<Rightarrow> runbook_ref \<Rightarrow> string \<Rightarrow> document \<Rightarrow> section_ref \<Rightarrow> string \<Rightarrow> actor \<Rightarrow> runbook_db \<Rightarrow>
     doc_error + document \<times> runbook_db" where
  "create_from_template env now r title template sec description actor db =
     (let head = read_head template db;
          body = (if head = '''' then ''# '' @ title @ [newline, newline] else head) in
      bind_err (create_document env now r body
          \<lparr>df_title = title, df_key = None, df_section = sec, df_description = description, df_source = '''',
           df_via = ''web'', df_generated = False, df_type = dc_type template, df_locked = False\<rparr> actor db)
        (\<lambda>(d, db1).
           case clone_referenced_images env now body (dc_id template) (dc_id d) actor db1 of
             (rewritten, db2) \<Rightarrow>
               if rewritten \<noteq> body
               then write_version now rewritten ''overwrite'' '''' '''' ''web'' actor False d db2
               else Inr (d, db2)))"

text \<open>\<open>copy_document\<close>, in three steps that commit one after the other: the upsert, the images, the
  rewritten body. The result is paired with whatever was committed.\<close>

definition copy_document ::
    "runbook_env \<Rightarrow> instant \<Rightarrow> doc_target \<Rightarrow> actor \<Rightarrow> runbook_ref \<Rightarrow> string \<Rightarrow> string option \<Rightarrow> section_ref \<Rightarrow> string \<Rightarrow>
     string \<Rightarrow> actor \<Rightarrow> runbook_db \<Rightarrow> doc_error + doc_result \<times> runbook_db" where
  "copy_document env now t viewer to_runbook to_key title sec on_exists via actor db =
     bind_err (case t of Doc_Row d \<Rightarrow> Inr d | Doc_At ad \<Rightarrow> get_doc ad viewer db) (\<lambda>src.
       bind_err (resolve_runbook to_runbook db) (\<lambda>rb.
         bind_err (put_document env now (Runbook_Slug (rb_slug rb)) to_key (read_head src db)
             (put_defaults\<lparr>pa_title := Some (text_or title (dc_title src)), pa_section := sec, pa_on_exists := on_exists,
                pa_type := dc_type src, pa_source := dc_source src, pa_via := via\<rparr>) actor False db)
           (\<lambda>(result, db1).
              case find (\<lambda>d. dc_uid d = dc_uid (dr_doc result)) (rd_documents db1) of
                None \<Rightarrow> Inl Document_Not_Found
              | Some target \<Rightarrow>
                 (case clone_referenced_images env now (read_head src db) (dc_id src) (dc_id target) actor db1 of
                    (rewritten, db2) \<Rightarrow>
                      if rewritten \<noteq> read_head src db
                      then bind_err (write_version now rewritten ''overwrite'' '''' '''' via actor False target db2)
                             (\<lambda>(d', db3). Inr (result_of False d' db3, db3))
                      else Inr (result, db2)))))"

fun clone_sections :: "runbook_env \<Rightarrow> nat \<Rightarrow> doc_section list \<Rightarrow> runbook_db \<Rightarrow> doc_error + (nat \<times> nat) list \<times> runbook_db" where
  "clone_sections env target [] db = Inr ([], db)"
| "clone_sections env target (s # ss) db =
     bind_err (insert_section env (s\<lparr>sec_runbook := target\<rparr>) db) (\<lambda>(s', db1).
       bind_err (clone_sections env target ss db1) (\<lambda>(m, db2). Inr ((sec_id s, sec_id s') # m, db2)))"

fun clone_docs ::
    "runbook_env \<Rightarrow> instant \<Rightarrow> nat \<Rightarrow> (nat \<times> nat) list \<Rightarrow> bool \<Rightarrow> actor \<Rightarrow> document list \<Rightarrow> runbook_db \<Rightarrow>
     doc_error + runbook_db" where
  "clone_docs env now target smap copy_locked actor [] db = Inr db"
| "clone_docs env now target smap copy_locked actor (d # ds) db =
     bind_err (insert_document env
         ((new_document now (Some target) (case dc_section d of None \<Rightarrow> None | Some s \<Rightarrow> map_of smap s) (actor_id actor)
             \<lparr>df_title = dc_title d, df_key = dc_key d, df_section = No_Section, df_description = dc_description d,
              df_source = dc_source d, df_via = ''clone'', df_generated = dc_generated d, df_type = dc_type d,
              df_locked = dc_locked d \<and> copy_locked\<rparr>)\<lparr>dc_slug := dc_slug d\<rparr>) db) (\<lambda>(new, db1).
       case clone_referenced_images env now (read_head d db1) (dc_id d) (dc_id new) actor db1 of
         (body, db2) \<Rightarrow>
           bind_err (create_new_version now body (actor_id actor) '''' (dc_source d) ''clone'' new db2)
             (\<lambda>(_, db3). clone_docs env now target smap copy_locked actor ds db3))"

definition clone_runbook ::
    "runbook_env \<Rightarrow> instant \<Rightarrow> runbook_ref \<Rightarrow> string option \<Rightarrow> string option \<Rightarrow> bool \<Rightarrow> bool \<Rightarrow> actor \<Rightarrow> actor \<Rightarrow> runbook_db \<Rightarrow>
     doc_error + runbook \<times> runbook_db" where
  "clone_runbook env now source new_slug new_name as_template copy_locked actor owner db =
     bind_err (resolve_runbook source db) (\<lambda>src.
       bind_err (insert_runbook env (src\<lparr>rb_name := text_or new_name (rb_name src),
           rb_slug := text_or new_slug (unique_slug (case new_name of
               Some s \<Rightarrow> if s = '''' then rb_slug src else rv_slugify env s | None \<Rightarrow> rb_slug src) db),
           rb_owner := actor_id owner, rb_public := False, rb_template := as_template\<rparr>) db) (\<lambda>(target, db1).
         bind_err (clone_sections env (rb_id target)
             (sort_key (\<lambda>s. (sec_order s, sec_name s)) (filter (\<lambda>s. sec_runbook s = rb_id src) (rd_sections db1))) db1)
           (\<lambda>(smap, db2).
              bind_err (clone_docs env now (rb_id target) smap copy_locked actor
                  (sort_key dc_id (filter (\<lambda>d. dc_runbook d = Some (rb_id src) \<and> \<not> dc_archived d) (rd_documents db2))) db2)
                (\<lambda>db3. Inr (target, db3)))))"

section \<open>Retention\<close>

record retention_policy =
  rp_max_versions :: "int option"
  rp_max_age :: "int option"
  rp_ttl :: "int option"
  rp_on_expire :: string

text \<open>The first value that is set: the document's, its runbook's, the global default.\<close>

definition first_set :: "'a option \<Rightarrow> 'a option \<Rightarrow> 'a option \<Rightarrow> 'a option" where
  "first_set a b c = (case a of Some x \<Rightarrow> Some x | None \<Rightarrow> (case b of Some x \<Rightarrow> Some x | None \<Rightarrow> c))"

definition effective_policy :: "runbook_env \<Rightarrow> document \<Rightarrow> runbook_db \<Rightarrow> retention_policy" where
  "effective_policy env d db =
     (let rb = (case dc_runbook d of None \<Rightarrow> None | Some n \<Rightarrow> find_runbook n db);
          of_rb = (\<lambda>f. case rb of None \<Rightarrow> None | Some r \<Rightarrow> f r);
          global = (\<lambda>v. if dc_generated d then v else None) in
      \<lparr>rp_max_versions = first_set (dc_max_versions d) (of_rb rb_max_versions) (global (rv_generated_max_versions env)),
       rp_max_age = first_set (dc_max_age d) (of_rb rb_max_age) (global (rv_generated_max_age env)),
       rp_ttl = first_set (dc_ttl d) (of_rb rb_ttl) (global (rv_generated_ttl env)),
       rp_on_expire = (if dc_on_expire d = '''' then ''archive'' else dc_on_expire d)\<rparr>)"

text \<open>\<open>xs[n:]\<close>: a negative start counts from the end.\<close>

definition slice_from :: "int \<Rightarrow> 'a list \<Rightarrow> 'a list" where
  "slice_from n xs = drop (nat (if n < 0 then max 0 (int (length xs) + n) else n)) xs"

definition versions_of :: "nat \<Rightarrow> runbook_db \<Rightarrow> doc_version list" where
  "versions_of n db = sort_key (\<lambda>v. - ver_version v) (filter (\<lambda>v. ver_document v = n) (rd_versions db))"

text \<open>The superseded versions the policy gives up; the head the instance points at is never one.\<close>

definition doomed_versions :: "runbook_env \<Rightarrow> instant \<Rightarrow> document \<Rightarrow> runbook_db \<Rightarrow> doc_version list" where
  "doomed_versions env now d db =
     (let policy = effective_policy env d db;
          versions = versions_of (dc_id d) db;
          by_number = (case rp_max_versions policy of None \<Rightarrow> [] | Some n \<Rightarrow> slice_from n versions);
          by_age = (case rp_max_age policy of
                      None \<Rightarrow> []
                    | Some a \<Rightarrow> filter (\<lambda>v. ver_created v < now - days_span a) versions) in
      filter (\<lambda>v. (v \<in> set by_number \<or> v \<in> set by_age) \<and> Some (ver_id v) \<noteq> dc_current d) versions)"

definition prune_versions :: "runbook_env \<Rightarrow> instant \<Rightarrow> document \<Rightarrow> runbook_db \<Rightarrow> runbook_db \<times> nat" where
  "prune_versions env now d db =
     (let doomed = map ver_id (doomed_versions env now d db) in
      (db\<lparr>rd_versions := filter (\<lambda>v. ver_id v \<notin> set doomed) (rd_versions db),
          rd_documents := tbl_update (\<lambda>r. dc_current r \<in> Some ` set doomed) (\<lambda>r. r\<lparr>dc_current := None\<rparr>) (rd_documents db)\<rparr>,
       length doomed))"

definition is_expired :: "runbook_env \<Rightarrow> instant \<Rightarrow> document \<Rightarrow> runbook_db \<Rightarrow> bool" where
  "is_expired env now d db =
     (case rp_ttl (effective_policy env d db) of
        None \<Rightarrow> False
      | Some days \<Rightarrow> \<not> dc_archived d \<and> dc_updated d < now - days_span days)"

definition expire_document :: "runbook_env \<Rightarrow> instant \<Rightarrow> document \<Rightarrow> runbook_db \<Rightarrow> runbook_db \<times> string" where
  "expire_document env now d db =
     (let action = rp_on_expire (effective_policy env d db) in
      (emit (Expired (dc_id d) action)
         (if action = ''delete'' then delete_rows (dc_id d) db
          else save_document (dc_id d)
                 (\<lambda>r. r\<lparr>dc_archived := True, dc_archived_at := Some now, dc_updated := now\<rparr>) db),
       action))"

text \<open>One document of the sweep, and the sweep over the documents live when it starts.\<close>

definition sweep_one :: "runbook_env \<Rightarrow> instant \<Rightarrow> document \<Rightarrow> runbook_db \<times> nat \<times> nat \<Rightarrow> runbook_db \<times> nat \<times> nat" where
  "sweep_one env now d = (\<lambda>(db, pruned, expired).
     case prune_versions env now d db of
       (db1, n) \<Rightarrow>
         if is_expired env now d db1 then (fst (expire_document env now d db1), pruned + n, Suc expired)
         else (db1, pruned + n, expired))"

definition run_sweep :: "runbook_env \<Rightarrow> instant \<Rightarrow> runbook_db \<Rightarrow> runbook_db \<times> nat \<times> nat" where
  "run_sweep env now db =
     fold (sweep_one env now) (filter (\<lambda>d. \<not> dc_archived d) (rd_documents db)) (db, 0, 0)"

section \<open>The consumers of the events\<close>

definition subscribe :: "nat \<Rightarrow> nat \<Rightarrow> runbook_db \<Rightarrow> runbook_db" where
  "subscribe user n db = (if (n, user) \<in> set (rd_subs db) then db else db\<lparr>rd_subs := rd_subs db @ [(n, user)]\<rparr>)"

definition unsubscribe :: "nat \<Rightarrow> nat \<Rightarrow> runbook_db \<Rightarrow> runbook_db" where
  "unsubscribe user n db = db\<lparr>rd_subs := filter (\<lambda>s. s \<noteq> (n, user)) (rd_subs db)\<rparr>"

fun is_subscribed :: "actor \<Rightarrow> nat \<Rightarrow> runbook_db \<Rightarrow> bool" where
  "is_subscribed (Person a) n db = ((n, acc_id a) \<in> set (rd_subs db))"
| "is_subscribed _ n db = False"

definition subscribers_of :: "nat \<Rightarrow> runbook_db \<Rightarrow> nat list" where
  "subscribers_of n db = map snd (filter (\<lambda>(d, _). d = n) (rd_subs db))"

definition send_update_notifications :: "runbook_env \<Rightarrow> nat \<Rightarrow> string \<Rightarrow> runbook_db \<Rightarrow> runbook_db \<times> nat" where
  "send_update_notifications env n change db =
     (case find_document n db of
        None \<Rightarrow> (db, 0)
      | Some d \<Rightarrow>
         (let recipients = filter (\<lambda>e. e \<noteq> '''') (map (rv_email env) (subscribers_of n db)) in
          if recipients = [] \<or> \<not> rv_mail_works env then (db, 0)
          else (db\<lparr>rd_mails := rd_mails db @ [(n, change, recipients)]\<rparr>, length recipients)))"

definition prune_versions_task :: "runbook_env \<Rightarrow> instant \<Rightarrow> nat \<Rightarrow> runbook_db \<Rightarrow> runbook_db" where
  "prune_versions_task env now n db =
     (case find_document n db of None \<Rightarrow> db | Some d \<Rightarrow> fst (prune_versions env now d db))"

text \<open>A worker runs a task; when the backend takes no task its work is done on the spot.\<close>

fun run_runbook_task :: "runbook_env \<Rightarrow> instant \<Rightarrow> runbook_task \<Rightarrow> runbook_db \<Rightarrow> runbook_db" where
  "run_runbook_task env now (Prune_Versions n) db = prune_versions_task env now n db"
| "run_runbook_task env now (Notify_Subscribers n change) db = fst (send_update_notifications env n change db)"

definition enqueue_runbook_task :: "runbook_env \<Rightarrow> instant \<Rightarrow> runbook_task \<Rightarrow> runbook_db \<Rightarrow> runbook_db" where
  "enqueue_runbook_task env now t db =
     (if rv_enqueue_works env then db\<lparr>rd_tasks := rd_tasks db @ [t]\<rparr> else run_runbook_task env now t db)"

definition prune_on_write :: "runbook_env \<Rightarrow> instant \<Rightarrow> nat \<Rightarrow> string \<Rightarrow> runbook_db \<Rightarrow> runbook_db" where
  "prune_on_write env now n change db =
     (if change \<noteq> ''new_version'' then db else enqueue_runbook_task env now (Prune_Versions n) db)"

definition notify_subscribers_on_write :: "runbook_env \<Rightarrow> instant \<Rightarrow> nat \<Rightarrow> string \<Rightarrow> runbook_db \<Rightarrow> runbook_db" where
  "notify_subscribers_on_write env now n change db =
     (if subscribers_of n db = [] then db else enqueue_runbook_task env now (Notify_Subscribers n change) db)"

fun on_commit :: "runbook_env \<Rightarrow> instant \<Rightarrow> doc_event \<Rightarrow> runbook_db \<Rightarrow> runbook_db" where
  "on_commit env now (Written n v change prev actor source via) db =
     notify_subscribers_on_write env now n change (prune_on_write env now n change db)"
| "on_commit env now _ db = db"

end
