(* ===== verification/Runbook_Web.thy ===== *)
theory Runbook_Web
  imports Runbook_Library
begin

text \<open>
  The page views of \<open>apps/runbook/views.py\<close> that change something, and the access check of those that
  only show a document. Each takes the user of the request; what a form has cleaned (titles,
  the chosen section, the decoded upload) is an argument. Rendering and messages are left out.
\<close>

section \<open>Replies and checks\<close>

text \<open>The login page, a 404, a 403, the redirect away from a locked document, a rejected upload, an
  exception nothing catches, and the page the view redirects to or shows.\<close>

datatype page = To_Login | Page_Missing | Page_Forbidden | Page_Locked | Page_Rejected | Page_Crash | Page_Done

text \<open>\<open>LoginRequiredMixin\<close> in front of a view.\<close>

definition logged_in :: "actor \<Rightarrow> runbook_db \<Rightarrow> runbook_db \<times> page \<Rightarrow> runbook_db \<times> page" where
  "logged_in user db r = (if actor_id user = None then (db, To_Login) else r)"

definition with_runbook :: "string \<Rightarrow> runbook_db \<Rightarrow> (runbook \<Rightarrow> runbook_db \<times> page) \<Rightarrow> runbook_db \<times> page" where
  "with_runbook slug db f =
     (case find (\<lambda>rb. rb_slug rb = slug) (rd_runbooks db) of None \<Rightarrow> (db, Page_Missing) | Some rb \<Rightarrow> f rb)"

definition with_document :: "nat \<Rightarrow> runbook_db \<Rightarrow> (document \<Rightarrow> runbook_db \<times> page) \<Rightarrow> runbook_db \<times> page" where
  "with_document n db f = (case find_document n db of None \<Rightarrow> (db, Page_Missing) | Some d \<Rightarrow> f d)"

text \<open>\<open>_require_view\<close> and \<open>_require_edit\<close> raise \<open>PermissionDenied\<close>.\<close>

definition require :: "bool \<Rightarrow> runbook_db \<Rightarrow> runbook_db \<times> page \<Rightarrow> runbook_db \<times> page" where
  "require ok db r = (if ok then r else (db, Page_Forbidden))"

definition editable :: "actor \<Rightarrow> document \<Rightarrow> bool" where
  "editable user d \<longleftrightarrow> \<not> dc_locked d \<or> actor_superuser user"

definition unlocked :: "actor \<Rightarrow> document \<Rightarrow> runbook_db \<Rightarrow> runbook_db \<times> page \<Rightarrow> runbook_db \<times> page" where
  "unlocked user d db r = (if editable user d then r else (db, Page_Locked))"

text \<open>A service call: whatever it raises that is not handled is a crash.\<close>

definition page_of :: "runbook_db \<Rightarrow> (doc_error + 'a \<times> runbook_db) \<Rightarrow> runbook_db \<times> page" where
  "page_of db r = (case r of Inl e \<Rightarrow> (db, Page_Crash) | Inr (_, db') \<Rightarrow> (db', Page_Done))"

text \<open>A document page (detail, slides, steps, versions, preview, files): who is shown it.\<close>

definition document_page :: "actor \<Rightarrow> nat \<Rightarrow> runbook_db \<Rightarrow> runbook_db \<times> page" where
  "document_page user n db =
     logged_in user db (with_document n db (\<lambda>d. require (can_view_doc user d db) db (db, Page_Done)))"

section \<open>Runbooks and sections\<close>

record runbook_form =
  rf_name :: string
  rf_description :: string
  rf_icon :: string
  rf_public :: bool

definition runbook_create ::
    "runbook_env \<Rightarrow> instant \<Rightarrow> actor \<Rightarrow> runbook_form \<Rightarrow> runbook option \<Rightarrow> runbook_db \<Rightarrow> runbook_db \<times> page" where
  "runbook_create env now user f template db =
     logged_in user db
       (case template of
          Some t \<Rightarrow>
            require (can_view user (Some t)) db
              (case clone_runbook env now (Runbook_Row t) None (Some (rf_name f)) False False user user db of
                 Inl e \<Rightarrow> (db, Page_Crash)
               | Inr (rb, db1) \<Rightarrow>
                  (save_runbook (rb_id rb)
                     (\<lambda>r. r\<lparr>rb_public := rf_public f,
                           rb_description := (if rf_description f = '''' then rb_description r else rf_description f),
                           rb_icon := (if rf_icon f = '''' then rb_icon r else rf_icon f)\<rparr>) db1, Page_Done))
        | None \<Rightarrow>
            page_of db (insert_runbook env (blank_runbook\<lparr>rb_name := rf_name f, rb_description := rf_description f,
                rb_icon := rf_icon f, rb_public := rf_public f, rb_owner := actor_id user\<rparr>) db))"

definition runbook_update :: "actor \<Rightarrow> string \<Rightarrow> runbook_form \<Rightarrow> runbook_db \<Rightarrow> runbook_db \<times> page" where
  "runbook_update user slug f db =
     logged_in user db (with_runbook slug db (\<lambda>rb. require (can_edit user (Some rb)) db
       (save_runbook (rb_id rb) (\<lambda>r. r\<lparr>rb_name := rf_name f, rb_description := rf_description f, rb_icon := rf_icon f,
          rb_public := rf_public f\<rparr>) db, Page_Done)))"

text \<open>\<open>runbook.delete()\<close>: the sections go, the documents lose their runbook and their section.\<close>

definition delete_runbook_row :: "nat \<Rightarrow> runbook_db \<Rightarrow> runbook_db" where
  "delete_runbook_row n db =
     (let gone = (\<lambda>s. \<exists>sec \<in> set (rd_sections db). sec_id sec = s \<and> sec_runbook sec = n) in
      db\<lparr>rd_runbooks := filter (\<lambda>r. rb_id r \<noteq> n) (rd_runbooks db),
         rd_sections := filter (\<lambda>s. sec_runbook s \<noteq> n) (rd_sections db),
         rd_documents := map (\<lambda>d. d\<lparr>dc_runbook := (if dc_runbook d = Some n then None else dc_runbook d),
             dc_section := (case dc_section d of Some s \<Rightarrow> if gone s then None else Some s | None \<Rightarrow> None)\<rparr>)
             (rd_documents db)\<rparr>)"

definition runbook_delete :: "actor \<Rightarrow> string \<Rightarrow> bool \<Rightarrow> runbook_db \<Rightarrow> runbook_db \<times> page" where
  "runbook_delete user slug cascade db =
     logged_in user db (with_runbook slug db (\<lambda>rb. require (can_edit user (Some rb)) db
       (delete_runbook_row (rb_id rb)
          (if cascade
           then fold delete_rows (map dc_id (filter (\<lambda>d. dc_runbook d = Some (rb_id rb)) (rd_documents db))) db
           else db\<lparr>rd_documents := tbl_update (\<lambda>d. dc_runbook d = Some (rb_id rb)) (\<lambda>d. d\<lparr>dc_key := None\<rparr>)
                     (rd_documents db)\<rparr>), Page_Done)))"

definition runbook_make_template ::
    "runbook_env \<Rightarrow> instant \<Rightarrow> actor \<Rightarrow> string \<Rightarrow> string \<Rightarrow> runbook_db \<Rightarrow> runbook_db \<times> page" where
  "runbook_make_template env now user slug name db =
     logged_in user db (with_runbook slug db (\<lambda>rb.
       if rb_template rb then (db, Page_Missing)
       else require (can_edit user (Some rb)) db
         (page_of db (clone_runbook env now (Runbook_Row rb) None
            (Some (if name = '''' then rb_name rb @ '' Template'' else name)) True False user user db))))"

definition runbook_from_template ::
    "runbook_env \<Rightarrow> instant \<Rightarrow> actor \<Rightarrow> string \<Rightarrow> string \<Rightarrow> string \<Rightarrow> runbook_db \<Rightarrow> runbook_db \<times> page" where
  "runbook_from_template env now user slug name new_slug db =
     logged_in user db (with_runbook slug db (\<lambda>rb.
       if \<not> rb_template rb then (db, Page_Missing)
       else require (can_view user (Some rb)) db
         (if strip name = '''' then (db, Page_Rejected)
          else page_of db (clone_runbook env now (Runbook_Row rb)
                 (if strip new_slug = '''' then None else Some (strip new_slug)) (Some (strip name)) False False user user db))))"

definition runbook_publish_toggle :: "actor \<Rightarrow> string \<Rightarrow> runbook_db \<Rightarrow> runbook_db \<times> page" where
  "runbook_publish_toggle user slug db =
     logged_in user db (with_runbook slug db (\<lambda>rb. require (can_edit user (Some rb)) db
       (save_runbook (rb_id rb) (\<lambda>r. r\<lparr>rb_public := \<not> rb_public rb\<rparr>) db, Page_Done)))"

record section_form =
  sf_name :: string
  sf_description :: string
  sf_icon :: string
  sf_order :: int

text \<open>The creating views look the runbook up before they ask for a login.\<close>

definition section_create :: "runbook_env \<Rightarrow> actor \<Rightarrow> string \<Rightarrow> section_form \<Rightarrow> runbook_db \<Rightarrow> runbook_db \<times> page" where
  "section_create env user slug f db =
     with_runbook slug db (\<lambda>rb. logged_in user db (require (can_edit user (Some rb)) db
       (page_of db (insert_section env \<lparr>sec_id = 0, sec_runbook = rb_id rb, sec_slug = '''', sec_name = sf_name f,
          sec_description = sf_description f, sec_icon = sf_icon f, sec_order = sf_order f\<rparr> db))))"

definition with_section :: "nat \<Rightarrow> runbook_db \<Rightarrow> (doc_section \<Rightarrow> runbook_db \<times> page) \<Rightarrow> runbook_db \<times> page" where
  "with_section n db f = (case find_section n db of None \<Rightarrow> (db, Page_Missing) | Some s \<Rightarrow> f s)"

definition section_update :: "actor \<Rightarrow> nat \<Rightarrow> section_form \<Rightarrow> runbook_db \<Rightarrow> runbook_db \<times> page" where
  "section_update user n f db =
     logged_in user db (with_section n db (\<lambda>s. require (can_edit user (find_runbook (sec_runbook s) db)) db
       (db\<lparr>rd_sections := tbl_update (\<lambda>r. sec_id r = n) (\<lambda>r. r\<lparr>sec_name := sf_name f,
             sec_description := sf_description f, sec_icon := sf_icon f, sec_order := sf_order f\<rparr>) (rd_sections db)\<rparr>,
        Page_Done)))"

definition section_delete :: "actor \<Rightarrow> nat \<Rightarrow> runbook_db \<Rightarrow> runbook_db \<times> page" where
  "section_delete user n db =
     logged_in user db (with_section n db (\<lambda>s. require (can_edit user (find_runbook (sec_runbook s) db)) db
       (db\<lparr>rd_sections := filter (\<lambda>r. sec_id r \<noteq> n) (rd_sections db),
           rd_documents := tbl_update (\<lambda>d. dc_section d = Some n) (\<lambda>d. d\<lparr>dc_section := None\<rparr>) (rd_documents db)\<rparr>,
        Page_Done)))"

section \<open>Documents\<close>

text \<open>The section field of the document forms offers the sections of the runbook, all of them when
  there is no runbook.\<close>

definition section_choice_ok :: "nat option \<Rightarrow> nat option \<Rightarrow> runbook_db \<Rightarrow> bool" where
  "section_choice_ok rb choice db =
     (case choice of
        None \<Rightarrow> True
      | Some s \<Rightarrow> (case find_section s db of
          None \<Rightarrow> False | Some sec \<Rightarrow> (case rb of None \<Rightarrow> True | Some n \<Rightarrow> sec_runbook sec = n)))"

definition chosen_section :: "nat option \<Rightarrow> runbook_db \<Rightarrow> section_ref" where
  "chosen_section choice db =
     (case choice of
        None \<Rightarrow> No_Section
      | Some s \<Rightarrow> (case find_section s db of None \<Rightarrow> No_Section | Some sec \<Rightarrow> Section_Row sec))"

definition page_fields :: "string \<Rightarrow> section_ref \<Rightarrow> string \<Rightarrow> doc_fields" where
  "page_fields title sec description =
     \<lparr>df_title = title, df_key = None, df_section = sec, df_description = description, df_source = '''',
      df_via = ''web'', df_generated = False, df_type = '''', df_locked = False\<rparr>"

definition document_create ::
    "runbook_env \<Rightarrow> instant \<Rightarrow> actor \<Rightarrow> string \<Rightarrow> string \<Rightarrow> nat option \<Rightarrow> string \<Rightarrow> string \<Rightarrow> runbook_db \<Rightarrow>
     runbook_db \<times> page" where
  "document_create env now user slug title choice description upload db =
     with_runbook slug db (\<lambda>rb. logged_in user db (require (can_edit user (Some rb)) db
       (if \<not> section_choice_ok (Some (rb_id rb)) choice db then (db, Page_Rejected)
        else page_of db (create_document env now (Runbook_Row rb) upload
               (page_fields title (chosen_section choice db) description) user db))))"

definition document_create_from_scratch ::
    "runbook_env \<Rightarrow> instant \<Rightarrow> actor \<Rightarrow> string \<Rightarrow> string \<Rightarrow> nat option \<Rightarrow> string \<Rightarrow> document option \<Rightarrow> runbook_db \<Rightarrow>
     runbook_db \<times> page" where
  "document_create_from_scratch env now user slug title choice description template db =
     with_runbook slug db (\<lambda>rb. logged_in user db (require (can_edit user (Some rb)) db
       (if \<not> section_choice_ok (Some (rb_id rb)) choice db
           \<or> (case template of None \<Rightarrow> False | Some t \<Rightarrow> t \<notin> set (list_template_documents user db))
        then (db, Page_Rejected)
        else (case template of
            Some t \<Rightarrow> page_of db (create_from_template env now (Runbook_Row rb) title t (chosen_section choice db)
                                   description user db)
          | None \<Rightarrow> page_of db (create_document env now (Runbook_Row rb) (''# '' @ title @ [newline, newline])
                                 (page_fields title (chosen_section choice db) description) user db)))))"

definition document_make_template :: "instant \<Rightarrow> actor \<Rightarrow> nat \<Rightarrow> runbook_db \<Rightarrow> runbook_db \<times> page" where
  "document_make_template now user n db =
     logged_in user db (with_document n db (\<lambda>d. require (can_edit_doc user d db) db
       (save_document n (\<lambda>r. r\<lparr>dc_template := \<not> dc_template d, dc_updated := now\<rparr>) db, Page_Done)))"

text \<open>The metadata form saves the whole instance it was given, every column as the instance has it, and
  an upload becomes a version. The instance is read at the start of the request.\<close>

definition save_metadata ::
    "runbook_env \<Rightarrow> instant \<Rightarrow> document \<Rightarrow> string \<Rightarrow> nat option \<Rightarrow> string \<Rightarrow> runbook_db \<Rightarrow> document \<times> runbook_db" where
  "save_metadata env now d title choice description db =
     (let d1 = d\<lparr>dc_title := title, dc_section := choice, dc_description := description, dc_updated := now,
                 dc_slug := (if dc_slug d = [] then rv_slugify env title else dc_slug d)\<rparr> in
      (d1, save_document (dc_id d) (\<lambda>_. d1) db))"

definition document_update ::
    "runbook_env \<Rightarrow> instant \<Rightarrow> actor \<Rightarrow> nat \<Rightarrow> string \<Rightarrow> nat option \<Rightarrow> string \<Rightarrow> string option \<Rightarrow> runbook_db \<Rightarrow> runbook_db \<times> page" where
  "document_update env now user n title choice description upload db =
     with_document n db (\<lambda>d. logged_in user db (require (can_edit_doc user d db) db (unlocked user d db
       (if \<not> section_choice_ok (map_option rb_id (runbook_of d db)) choice db then (db, Page_Rejected)
        else (case save_metadata env now d title choice description db of
            (d1, db1) \<Rightarrow>
              (case upload of
                 None \<Rightarrow> (db1, Page_Done)
               | Some body \<Rightarrow> page_of db1 (write_version now body ''new_version'' '''' '''' ''web'' user False d1 db1)))))))"

definition document_delete :: "actor \<Rightarrow> nat \<Rightarrow> runbook_db \<Rightarrow> runbook_db \<times> page" where
  "document_delete user n db =
     logged_in user db (with_document n db (\<lambda>d. require (can_edit_doc user d db) db (unlocked user d db
       (delete_rows n db, Page_Done))))"

definition document_lock :: "instant \<Rightarrow> actor \<Rightarrow> nat \<Rightarrow> runbook_db \<Rightarrow> runbook_db \<times> page" where
  "document_lock now user n db =
     logged_in user db (if \<not> actor_superuser user then (db, Page_Forbidden)
       else with_document n db (\<lambda>d.
         (save_document n (\<lambda>r. r\<lparr>dc_locked := \<not> dc_locked d, dc_updated := now\<rparr>) db, Page_Done)))"

definition document_subscribe :: "actor \<Rightarrow> nat \<Rightarrow> runbook_db \<Rightarrow> runbook_db \<times> page" where
  "document_subscribe user n db =
     logged_in user db (with_document n db (\<lambda>d. require (can_view_doc user d db) db
       (if is_subscribed user n db then unsubscribe (the (actor_id user)) n db
        else subscribe (the (actor_id user)) n db, Page_Done)))"

definition new_version_upload ::
    "instant \<Rightarrow> actor \<Rightarrow> nat \<Rightarrow> string \<Rightarrow> string \<Rightarrow> runbook_db \<Rightarrow> runbook_db \<times> page" where
  "new_version_upload now user n upload description db =
     with_document n db (\<lambda>d. logged_in user db (require (can_edit_doc user d db) db (unlocked user d db
       (page_of db (write_version now upload ''new_version'' description '''' ''web'' user False d db)))))"

definition restore_version_page :: "instant \<Rightarrow> actor \<Rightarrow> nat \<Rightarrow> runbook_db \<Rightarrow> runbook_db \<times> page" where
  "restore_version_page now user n db =
     logged_in user db
       (case find_version n db of
          None \<Rightarrow> (db, Page_Missing)
        | Some old \<Rightarrow> with_document (ver_document old) db (\<lambda>d.
            require (can_edit_doc user d db) db (unlocked user d db
              (page_of db (write_version now (ver_body old) ''new_version'' (restored_note (ver_version old)) '''' ''web''
                 user False d db)))))"

definition document_edit_content ::
    "instant \<Rightarrow> actor \<Rightarrow> nat \<Rightarrow> string \<Rightarrow> bool \<Rightarrow> runbook_db \<Rightarrow> runbook_db \<times> page" where
  "document_edit_content now user n content as_version db =
     logged_in user db (with_document n db (\<lambda>d.
       if dc_file_type d \<noteq> ''md'' then (db, Page_Missing)
       else require (can_edit_doc user d db) db (unlocked user d db
         (if as_version then
            (if content = read_head d db then (db, Page_Done)
             else page_of db (write_version now content ''new_version'' ''Edited content'' '''' ''web'' user False d db))
          else page_of db (write_version now content ''overwrite'' '''' '''' ''web'' user False d db)))))"

text \<open>Whether the form accepts the upload as an image is an argument.\<close>

definition document_image_upload ::
    "runbook_env \<Rightarrow> instant \<Rightarrow> actor \<Rightarrow> nat \<Rightarrow> bool \<Rightarrow> string \<Rightarrow> string \<Rightarrow> string \<Rightarrow> runbook_db \<Rightarrow> runbook_db \<times> page" where
  "document_image_upload env now user n valid filename data alt db =
     logged_in user db (with_document n db (\<lambda>d. require (can_edit_doc user d db) db (unlocked user d db
       (if \<not> valid then (db, Page_Rejected)
        else page_of db (attach_image env now (Doc_Row d) filename data alt user db)))))"

end
