(* ===== verification/Token_Access.thy ===== *)
theory Token_Access
  imports Token_Store
begin

text \<open>
  Who a request acts as and what its token lets it do: the REST authentication and guards
  (\<open>apps/smallstack/api.py\<close>), the bearer-only authentication and the tool gate of the MCP server
  (\<open>apps/mcp/auth.py\<close>), and the user a feed is rendered for (\<open>apps/feeds/views.py\<close>).
\<close>

section \<open>Requests and replies\<close>

text \<open>The body of a request: empty, text that \<open>json.loads\<close> refuses, or a JSON value.\<close>

datatype http_body = No_Body | Not_Json | Json_Body json

record api_request =
  rq_method :: string
  rq_authorization :: string
  rq_session :: "account option"  \<comment> \<open>\<open>request.user\<close> when the session authenticates it\<close>
  rq_content_type :: string
  rq_body :: http_body

text \<open>The replies of the endpoints: \<open>_error(message, status, code)\<close>, errors by field, the lockout,
  a fresh key, a user (extended or not), a user with attributes assigned over it, a plain message,
  the allowed methods. \<open>Server_Error\<close> is an exception nothing catches; \<open>Still_Drawing\<close> stands for a
  request whose key generator has used up the draws it is given.\<close>

datatype api_reply =
    Api_Error string nat "string option"
  | Field_Errors "(string \<times> string list) list" nat
  | Locked_Out int
  | Key_Issued string account instant nat
  | User_Data account bool
  | User_Patched account "(string \<times> json) list"
  | Message string
  | Allowed_Methods "string list"
  | Data json nat
  | Server_Error
  | Still_Drawing

definition api_error :: "string \<Rightarrow> nat \<Rightarrow> api_reply" where
  "api_error message status = Api_Error message status None"

definition load_json_body :: "bool \<Rightarrow> api_request \<Rightarrow> api_reply + json" where
  "load_json_body require_object rq =
     (case rq_body rq of
        Json_Body v \<Rightarrow>
          (case v of
             JObj d \<Rightarrow> Inr v
           | _ \<Rightarrow> if require_object then Inl (api_error ''Invalid JSON'' 400) else Inr v)
      | _ \<Rightarrow> Inl (api_error ''Invalid JSON'' 400))"

definition load_json_object :: "api_request \<Rightarrow> api_reply + (string \<times> json) list" where
  "load_json_object rq =
     (case load_json_body True rq of
        Inr (JObj d) \<Rightarrow> Inr d
      | Inl e \<Rightarrow> Inl e
      | Inr _ \<Rightarrow> Inl (api_error ''Invalid JSON'' 400))"

section \<open>REST authentication\<close>

text \<open>The user and the token of the request, or the error it is answered with.\<close>

definition rejected_key :: "token_env \<Rightarrow> auth_db \<Rightarrow> instant \<Rightarrow> api_token \<Rightarrow> api_reply" where
  "rejected_key env db now t =
     (case rejection_reason db now t of
        Some Reject_Revoked \<Rightarrow> api_error ''Token revoked'' 401
      | Some Reject_Expired \<Rightarrow>
          api_error (''Token expired at '' @ (case ak_expires t of Some e \<Rightarrow> tv_isoformat env e | None \<Rightarrow> '''')) 401
      | Some Reject_User_Inactive \<Rightarrow> api_error ''Account is deactivated'' 401
      | None \<Rightarrow> api_error ''Token inactive'' 401)"

definition authenticate_api_request ::
    "token_env \<Rightarrow> instant \<Rightarrow> api_request \<Rightarrow> auth_db \<Rightarrow> auth_db \<times> (api_reply + account \<times> api_token option)" where
  "authenticate_api_request env now rq db =
     (if startswith (rq_authorization rq) ''Bearer '' then
        (case authenticate env now (drop 7 (rq_authorization rq)) db of
           None \<Rightarrow> (db, Inl Server_Error)
         | Some (db', None, Some t) \<Rightarrow> (db', Inl (rejected_key env db' now t))
         | Some (db', None, None) \<Rightarrow> (db', Inl (api_error ''Invalid token'' 401))
         | Some (db', Some u, tok) \<Rightarrow> (db', Inr (u, tok)))
      else (case rq_session rq of
          Some u \<Rightarrow> (db, Inr (u, None))
        | None \<Rightarrow> (db, Inl (api_error ''Authentication required'' 401))))"

section \<open>REST guards\<close>

definition safe_methods :: "string list" where
  "safe_methods = [''GET'', ''HEAD'', ''OPTIONS'']"

text \<open>A mixin of a view: whether it is a subclass of \<open>StaffRequiredMixin\<close>, and its name.\<close>

type_synonym mixin = "bool \<times> string"

definition staff_mixin :: "mixin \<Rightarrow> bool" where
  "staff_mixin m \<longleftrightarrow> fst m \<or> snd m = ''StaffRequiredMixin''"

definition read_only_write :: "api_token option \<Rightarrow> string \<Rightarrow> bool" where
  "read_only_write tok verb \<longleftrightarrow>
     (case tok of Some t \<Rightarrow> ak_level t = ''readonly'' \<and> verb \<notin> set safe_methods | None \<Rightarrow> False)"

definition check_api_permissions :: "account \<Rightarrow> api_token option \<Rightarrow> mixin list \<Rightarrow> string \<Rightarrow> api_reply option" where
  "check_api_permissions user tok mixins verb =
     (if list_ex staff_mixin mixins \<and> \<not> acc_staff user then Some (api_error ''Staff access required'' 403)
      else if read_only_write tok verb then Some (api_error ''Token is read-only'' 403)
      else None)"

definition require_auth_token :: "api_token option \<Rightarrow> api_reply option" where
  "require_auth_token tok =
     (case tok of
        Some t \<Rightarrow> if ak_type t = Manual_Token \<and> ak_level t = ''auth'' then None
                  else Some (api_error ''Auth-level token required'' 403)
      | None \<Rightarrow> Some (api_error ''Auth-level token required'' 403))"

subsection \<open>The decorator of hand-written endpoints\<close>

text \<open>What the decorated function does: it returns, or raises one of the exceptions the wrapper
  translates, or another one.\<close>

datatype view_result =
    Returned api_reply
  | Raised_404 string
  | Raised_Denied string
  | Raised_Disabled string string  \<comment> \<open>message and code\<close>
  | Raised_Other

record api_view_spec =
  av_methods :: "string list"
  av_require_auth :: bool
  av_require_staff :: bool
  av_require_auth_token :: bool

definition form_body :: "string \<Rightarrow> bool" where
  "form_body content_type =
     (let ct = py_lower content_type in
      startswith ct ''multipart/form-data'' \<or> startswith ct ''application/x-www-form-urlencoded'')"

text \<open>The guards before the function runs: the caller, or the error.\<close>

definition api_view_guard ::
    "token_env \<Rightarrow> api_view_spec \<Rightarrow> instant \<Rightarrow> api_request \<Rightarrow> auth_db \<Rightarrow>
     auth_db \<times> (api_reply + (account \<times> api_token option) option)" where
  "api_view_guard env av now rq db =
     (if av_require_auth av then
        (case authenticate_api_request env now rq db of
           (db', Inl e) \<Rightarrow> (db', Inl e)
         | (db', Inr (u, tok)) \<Rightarrow>
            (db',
             case (if av_require_auth_token av then require_auth_token tok else None) of
               Some e \<Rightarrow> Inl e
             | None \<Rightarrow>
                if av_require_staff av \<and> \<not> acc_staff u then Inl (api_error ''Staff access required'' 403)
                else if read_only_write tok (rq_method rq) then Inl (api_error ''Token is read-only'' 403)
                else Inr (Some (u, tok))))
      else (db, Inr None))"

definition parsed_body :: "api_request \<Rightarrow> api_reply + json option" where
  "parsed_body rq =
     (if rq_method rq \<notin> {''GET'', ''HEAD''} \<and> \<not> form_body (rq_content_type rq) \<and> rq_body rq \<noteq> No_Body
      then (case load_json_body False rq of Inl e \<Rightarrow> Inl e | Inr v \<Rightarrow> Inr (Some v))
      else Inr None)"

definition or_text :: "string \<Rightarrow> string \<Rightarrow> string" where
  "or_text s d = (if s = '''' then d else s)"

definition wrap_result :: "view_result \<Rightarrow> api_reply" where
  "wrap_result r =
     (case r of
        Returned reply \<Rightarrow> reply
      | Raised_404 m \<Rightarrow> Api_Error (or_text m ''Not found'') 404 (Some ''not_found'')
      | Raised_Denied m \<Rightarrow> Api_Error (or_text m ''Permission denied'') 403 (Some ''permission_denied'')
      | Raised_Disabled m c \<Rightarrow>
          Api_Error (or_text m ''This feature is disabled'') 503 (Some (or_text c ''feature_disabled''))
      | Raised_Other \<Rightarrow> Server_Error)"

definition api_view ::
    "token_env \<Rightarrow> api_view_spec \<Rightarrow>
     ((account \<times> api_token option) option \<Rightarrow> json option \<Rightarrow> auth_db \<Rightarrow> auth_db \<times> view_result) \<Rightarrow>
     instant \<Rightarrow> api_request \<Rightarrow> auth_db \<Rightarrow> auth_db \<times> api_reply" where
  "api_view env av fn now rq db =
     (if rq_method rq = ''OPTIONS'' then (db, Allowed_Methods (av_methods av))
      else if rq_method rq \<notin> set (av_methods av) then (db, api_error ''Method not allowed'' 405)
      else (case api_view_guard env av now rq db of
          (db', Inl e) \<Rightarrow> (db', e)
        | (db', Inr caller) \<Rightarrow>
           (case parsed_body rq of
              Inl e \<Rightarrow> (db', e)
            | Inr body \<Rightarrow> map_prod id wrap_result (fn caller body db'))))"

section \<open>MCP authentication\<close>

definition mcp_rejection :: "auth_db \<Rightarrow> instant \<Rightarrow> api_token option \<Rightarrow> string" where
  "mcp_rejection db now tok =
     (case tok of
        None \<Rightarrow> ''invalid_token''
      | Some t \<Rightarrow>
         (case rejection_reason db now t of
            Some Reject_Revoked \<Rightarrow> ''token_revoked''
          | Some Reject_Expired \<Rightarrow> ''token_expired''
          | Some Reject_User_Inactive \<Rightarrow> ''account_deactivated''
          | None \<Rightarrow> ''token_inactive''))"

text \<open>The outer \<open>None\<close> is an exception of the token lookup.\<close>

definition mcp_authenticate ::
    "token_env \<Rightarrow> instant \<Rightarrow> string \<Rightarrow> auth_db \<Rightarrow> (auth_db \<times> (string + account \<times> api_token)) option" where
  "mcp_authenticate env now header db =
     (if \<not> startswith header ''Bearer '' then Some (db, Inl ''missing_bearer'')
      else (let raw_key = strip (drop 7 header) in
        if raw_key = [] then Some (db, Inl ''empty_bearer'')
        else (case authenticate env now raw_key db of
            None \<Rightarrow> None
          | Some (db', Some u, Some t) \<Rightarrow> Some (db', Inr (u, t))
          | Some (db', _, tok) \<Rightarrow> Some (db', Inl (mcp_rejection db' now tok)))))"

section \<open>The tool gate\<close>

record tool_def =
  td_name :: string
  td_description :: string
  td_schema :: json
  td_write :: bool
  td_requires :: "string option"
  td_visible :: "(account \<Rightarrow> bool option) option"  \<comment> \<open>\<open>None\<close> for an exception\<close>

definition level_rank :: "string \<Rightarrow> nat" where
  "level_rank l = (if l = ''readonly'' then 0 else if l = ''auth'' then 1 else if l = ''staff'' then 2 else 0)"

definition effective_level :: "api_token \<Rightarrow> account option \<Rightarrow> string" where
  "effective_level t u = (if ak_level t \<noteq> '''' then ak_level t else if user_is_staff u then ''staff'' else ''auth'')"

definition truthy_text :: "string option \<Rightarrow> string option" where
  "truthy_text s = (if s = Some '''' then None else s)"

definition check_tool_access :: "api_token \<Rightarrow> account option \<Rightarrow> tool_def \<Rightarrow> mixin list \<Rightarrow> string option" where
  "check_tool_access t u td mixins =
     (case (case truthy_text (td_requires td) of
              None \<Rightarrow> None
            | Some needed \<Rightarrow>
               if level_rank (effective_level t u) < level_rank needed then Some (''access_required:'' @ needed)
               else if needed = ''staff'' \<and> \<not> user_is_staff u then Some ''staff_required''
               else None) of
        Some deny \<Rightarrow> Some deny
      | None \<Rightarrow>
         if td_write td \<and> ak_level t = ''readonly'' then Some ''readonly_blocked''
         else if list_ex staff_mixin mixins \<and> \<not> user_is_staff u then Some ''staff_required''
         else None)"

section \<open>Feeds\<close>

datatype feed_access = Feed_Anonymous | Feed_Authenticated | Feed_Staff

definition feed_key :: "string \<Rightarrow> string \<Rightarrow> string" where
  "feed_key header query_token =
     (let raw = (if startswith (py_lower header) ''bearer '' then strip (drop 7 header) else '''') in
      if raw = '''' then strip query_token else raw)"

text \<open>The user a feed is served to; \<open>None\<close> is the anonymous user. Exceptions of the token lookup
  are swallowed.\<close>

definition feed_user ::
    "token_env \<Rightarrow> instant \<Rightarrow> account option \<Rightarrow> string \<Rightarrow> string \<Rightarrow> auth_db \<Rightarrow> auth_db \<times> account option" where
  "feed_user env now session header query_token db =
     (case session of
        Some u \<Rightarrow> (db, Some u)
      | None \<Rightarrow>
         (let raw = feed_key header query_token in
          if raw = '''' then (db, None)
          else (case authenticate env now raw db of
              None \<Rightarrow> (db, None)
            | Some (db', u, _) \<Rightarrow> (db', u))))"

definition feed_authorized :: "feed_access \<Rightarrow> account option \<Rightarrow> bool" where
  "feed_authorized level u =
     (case level of
        Feed_Anonymous \<Rightarrow> True
      | Feed_Authenticated \<Rightarrow> u \<noteq> None
      | Feed_Staff \<Rightarrow> user_is_staff u)"

datatype feed_response = Feed_Not_Found | Feed_Unauthorized | Feed_Served "account option"

text \<open>\<open>feed_view\<close> up to the rendering: the switch, the feed by its slug, the caller.\<close>

definition feed_view ::
    "token_env \<Rightarrow> bool \<Rightarrow> (string \<Rightarrow> feed_access option) \<Rightarrow> instant \<Rightarrow> account option \<Rightarrow> string \<Rightarrow> string \<Rightarrow>
     string \<Rightarrow> auth_db \<Rightarrow> auth_db \<times> feed_response" where
  "feed_view env enabled feeds now session header query_token slug db =
     (if \<not> enabled then (db, Feed_Not_Found)
      else (case feeds slug of
          None \<Rightarrow> (db, Feed_Not_Found)
        | Some level \<Rightarrow>
           (case feed_user env now session header query_token db of
              (db', u) \<Rightarrow> (db', if feed_authorized level u then Feed_Served u else Feed_Unauthorized))))"

section \<open>What a successful authentication implies\<close>

text \<open>The key of a caller belongs to a live token of an active account; the tables only gain the
  stamp of the use.\<close>

definition live_key :: "token_env \<Rightarrow> instant \<Rightarrow> string \<Rightarrow> auth_db \<Rightarrow> account \<Rightarrow> api_token \<Rightarrow> bool" where
  "live_key env now raw db u t \<longleftrightarrow>
     t \<in> set (ad_tokens db) \<and> key_matches env raw t \<and> ak_active t \<and> ak_revoked t = None \<and>
     \<not> col_lt (ak_expires t) now \<and> token_user db t = Some u \<and> acc_active u"

lemma live_keyI:
  assumes "authenticate env now raw db = Some (db', Some u, tok)"
  shows "\<exists>t. live_key env now raw db u t \<and> tok = Some (stamp_use now t) \<and>
    db' = update_token (ak_id t) (stamp_use now) db"
  using authenticate_user [OF assms] by (auto simp: live_key_def rejection_reason_None)

lemma rest_caller:
  assumes "authenticate_api_request env now rq db = (db', Inr (u, tok))"
  shows "(tok = None \<and> rq_session rq = Some u \<and> db' = db \<and> \<not> startswith (rq_authorization rq) ''Bearer '') \<or>
    (\<exists>t. tok = Some (stamp_use now t) \<and> live_key env now (drop 7 (rq_authorization rq)) db u t \<and>
       db' = update_token (ak_id t) (stamp_use now) db \<and> startswith (rq_authorization rq) ''Bearer '')"
proof (cases "startswith (rq_authorization rq) ''Bearer ''")
  case True
  with assms have "authenticate env now (drop 7 (rq_authorization rq)) db = Some (db', Some u, tok)"
    by (auto simp: authenticate_api_request_def split: option.splits)
  from live_keyI [OF this] True show ?thesis by blast
next
  case False
  with assms show ?thesis by (auto simp: authenticate_api_request_def split: option.splits)
qed

lemma rest_error_keeps:
  assumes "authenticate_api_request env now rq db = (db', Inl e)"
  shows "db' = db"
  using assms
  by (auto simp: authenticate_api_request_def split: if_splits option.splits dest: authenticate_no_user_keeps)

lemma mcp_caller:
  assumes "mcp_authenticate env now header db = Some (db', Inr (u, t))"
  shows "\<exists>t0. t = stamp_use now t0 \<and> live_key env now (strip (drop 7 header)) db u t0 \<and>
    db' = update_token (ak_id t0) (stamp_use now) db \<and> startswith header ''Bearer ''"
proof -
  from assms have "authenticate env now (strip (drop 7 header)) db = Some (db', Some u, Some t)"
    and "startswith header ''Bearer ''"
    by (auto simp: mcp_authenticate_def Let_def split: if_splits option.splits)
  with live_keyI [OF this(1)] show ?thesis by auto
qed

lemma feed_caller:
  assumes "feed_user env now None header query_token db = (db', Some u)"
  shows "\<exists>t. live_key env now (feed_key header query_token) db u t"
proof -
  from assms obtain tok where
    "authenticate env now (feed_key header query_token) db = Some (db', Some u, tok)"
    by (auto simp: feed_user_def Let_def split: if_splits option.splits)
  from live_keyI [OF this] show ?thesis by blast
qed

end
