(* ===== verification/Runbook_Rest.thy ===== *)
theory Runbook_Rest
  imports Runbook_Library Token_Access
begin

text \<open>
  The REST endpoints of the document service (\<open>apps/runbook/api.py\<close>), behind the \<open>api_view\<close> decorator of
  \<open>Token_Access\<close>, and the delegates of the MCP tools (\<open>apps/runbook/mcp_tools.py\<close>). An endpoint is a
  function of the caller the decorator found, the query parameters, the parsed body and the
  tables. The OpenAPI documents and the registration of the tools are left out.
\<close>

section \<open>Texts and JSON\<close>

text \<open>Python's \<open>repr\<close> of a string of code points below 256.\<close>

definition repr_char :: "char \<Rightarrow> char \<Rightarrow> string" where
  "repr_char q c =
     (let n = code c; b = char_of (92 :: nat) in
      if c = q \<or> c = b then [b, c]
      else if n = 10 then [b, CHR ''n''] else if n = 13 then [b, CHR ''r''] else if n = 9 then [b, CHR ''t'']
      else if (32 \<le> n \<and> n \<le> 126) \<or> (161 \<le> n \<and> n \<noteq> 173) then [c]
      else [b, CHR ''x'', hex_digit (n div 16), hex_digit (n mod 16)])"

definition py_repr :: "string \<Rightarrow> string" where
  "py_repr s =
     (let q = (if char_of (39 :: nat) \<in> set s \<and> char_of (34 :: nat) \<notin> set s then char_of (34 :: nat)
               else char_of (39 :: nat))
      in q # concat (map (repr_char q) s) @ [q])"

text \<open>\<open>str(exc)\<close> of a service error.\<close>

fun error_text :: "runbook_env \<Rightarrow> doc_error \<Rightarrow> string" where
  "error_text env (Runbook_Not_Found s) = ''No runbook with slug '' @ py_repr s @ ''.''"
| "error_text env (Section_Not_Found s r) = ''No section '' @ py_repr s @ '' in runbook '' @ py_repr r @ ''.''"
| "error_text env Section_Elsewhere = ''Section does not belong to the runbook.''"
| "error_text env Document_Not_Found = ''Document not found.''"
| "error_text env (No_Such_Version n) = ''Document has no version '' @ int_str n @ ''.''"
| "error_text env No_Address = ''Provide uid, id, or (runbook, key).''"
| "error_text env (Document_Exists k s) = ''Document ('' @ py_repr s @ '', '' @ py_repr k @ '') already exists.''"
| "error_text env (Key_Exists k s) = ''Key '' @ py_repr k @ '' already exists in runbook '' @ py_repr s @ ''.''"
| "error_text env (Runbook_Exists s) = ''A runbook with slug '' @ py_repr s @ '' already exists.''"
| "error_text env (Slug_Required what) = ''A '' @ what @ '' slug is required.''"
| "error_text env (Version_Conflict v n) = ''Expected version '' @ rv_str env v @ '', head is '' @ int_str n @ ''.''"
| "error_text env (Document_Locked d) = ''Document '' @ d @ '' is locked; superuser required to change it.''"
| "error_text env (Not_Authorized what) = ''You do not have permission to '' @ what"
| "error_text env e = ''''"

definition document_url :: "runbook_env \<Rightarrow> nat \<Rightarrow> string" where
  "document_url env n = rv_url_prefix env @ ''documents/'' @ nat_str n @ ''/''"

definition opt_json :: "string option \<Rightarrow> json" where
  "opt_json x = (case x of None \<Rightarrow> JNull | Some s \<Rightarrow> JStr s)"

definition result_summary :: "runbook_env \<Rightarrow> doc_result \<Rightarrow> (string \<times> json) list" where
  "result_summary env r =
     (let d = dr_doc r in
      [(''id'', JInt (int (dc_id d))), (''uid'', JStr (dc_uid d)), (''runbook'', opt_json (dr_runbook r)),
       (''key'', opt_json (dc_key d)), (''title'', JStr (dc_title d)), (''version'', JInt (dc_version d)),
       (''url'', JStr (document_url env (dc_id d))), (''source'', JStr (dc_source d)),
       (''is_generated'', JBool (dc_generated d)), (''is_archived'', JBool (dc_archived d)),
       (''updated_at'', JStr (rv_isoformat env (dc_updated d)))])"

definition result_json :: "runbook_env \<Rightarrow> doc_result \<Rightarrow> (string \<times> json) list" where
  "result_json env r =
     (let d = dr_doc r in
      [(''id'', JInt (int (dc_id d))), (''uid'', JStr (dc_uid d)), (''runbook'', opt_json (dr_runbook r)),
       (''key'', opt_json (dc_key d)), (''title'', JStr (dc_title d)), (''version'', JInt (dc_version d)),
       (''url'', JStr (document_url env (dc_id d))), (''source'', JStr (dc_source d)), (''via'', JStr (dc_via d)),
       (''is_generated'', JBool (dc_generated d)), (''is_archived'', JBool (dc_archived d)),
       (''locked'', JBool (dc_locked d)), (''updated_at'', JStr (rv_isoformat env (dc_updated d))),
       (''content_markdown'', opt_json (dr_body r))])"

definition ok_dict :: "(string \<times> json) list \<Rightarrow> view_result" where
  "ok_dict d = Returned (Data (JObj d) 200)"

definition error_for :: "runbook_env \<Rightarrow> doc_error \<Rightarrow> view_result" where
  "error_for env e =
     (case e of
        Runbook_Not_Found _ \<Rightarrow> Returned (api_error ''Not found'' 404)
      | Section_Not_Found _ _ \<Rightarrow> Returned (api_error ''Not found'' 404)
      | Section_Elsewhere \<Rightarrow> Returned (api_error ''Not found'' 404)
      | Document_Not_Found \<Rightarrow> Returned (api_error ''Not found'' 404)
      | No_Such_Version _ \<Rightarrow> Returned (api_error ''Not found'' 404)
      | No_Address \<Rightarrow> Returned (api_error ''Not found'' 404)
      | Document_Locked _ \<Rightarrow> Returned (api_error (error_text env e) 403)
      | Not_Authorized _ \<Rightarrow> Returned (api_error (error_text env e) 403)
      | Version_Conflict _ _ \<Rightarrow> Returned (api_error (error_text env e) 409)
      | Document_Exists _ _ \<Rightarrow> Returned (api_error (error_text env e) 409)
      | Key_Exists _ _ \<Rightarrow> Returned (api_error (error_text env e) 409)
      | Runbook_Exists _ \<Rightarrow> Returned (api_error (error_text env e) 409)
      | Slug_Required _ \<Rightarrow> Returned (api_error (error_text env e) 400)
      | Integrity_Error \<Rightarrow> Raised_Other
      | Unknown_Mode _ \<Rightarrow> Raised_Other
      | No_Head \<Rightarrow> Raised_Other)"

text \<open>The outcome of a service call: the new tables and the reply.\<close>

definition reply_with ::
    "runbook_env \<Rightarrow> runbook_db \<Rightarrow> (doc_error + 'a \<times> runbook_db) \<Rightarrow> ('a \<Rightarrow> view_result) \<Rightarrow> runbook_db \<times> view_result" where
  "reply_with env db r f = (case r of Inl e \<Rightarrow> (db, error_for env e) | Inr (x, db') \<Rightarrow> (db', f x))"

section \<open>The decorator\<close>

type_synonym caller = "account \<times> api_token option"

type_synonym query = "(string \<times> string) list"

type_synonym runbook_endpoint = "caller \<Rightarrow> json option \<Rightarrow> runbook_db \<Rightarrow> runbook_db \<times> view_result"

text \<open>What \<open>api_view\<close> does before it calls the function: the reply, or the caller and the body.\<close>

definition api_view_entry ::
    "token_env \<Rightarrow> api_view_spec \<Rightarrow> instant \<Rightarrow> api_request \<Rightarrow> auth_db \<Rightarrow>
     auth_db \<times> (api_reply + caller option \<times> json option)" where
  "api_view_entry env av now rq db =
     (if rq_method rq = ''OPTIONS'' then (db, Inl (Allowed_Methods (av_methods av)))
      else if rq_method rq \<notin> set (av_methods av) then (db, Inl (api_error ''Method not allowed'' 405))
      else (case api_view_guard env av now rq db of
          (db', Inl e) \<Rightarrow> (db', Inl e)
        | (db', Inr caller) \<Rightarrow>
           (case parsed_body rq of Inl e \<Rightarrow> (db', Inl e) | Inr body \<Rightarrow> (db', Inr (caller, body)))))"

lemma api_view_entry:
  "api_view env av fn now rq db =
     (case api_view_entry env av now rq db of
        (db', Inl e) \<Rightarrow> (db', e)
      | (db', Inr (caller, body)) \<Rightarrow> map_prod id wrap_result (fn caller body db'))"
  by (auto simp: api_view_def api_view_entry_def split: prod.splits sum.splits)

definition runbook_spec :: "string list \<Rightarrow> api_view_spec" where
  "runbook_spec methods =
     \<lparr>av_methods = methods, av_require_auth = True, av_require_staff = False, av_require_auth_token = False\<rparr>"

text \<open>An endpoint behind the decorator, on the credential tables and the document tables.\<close>

definition runbook_api ::
    "token_env \<Rightarrow> string list \<Rightarrow> runbook_endpoint \<Rightarrow> instant \<Rightarrow> api_request \<Rightarrow> auth_db \<times> runbook_db \<Rightarrow>
     (auth_db \<times> runbook_db) \<times> api_reply" where
  "runbook_api tenv methods endpoint now rq s =
     (case api_view_entry tenv (runbook_spec methods) now rq (fst s) of
        (adb, Inr (Some c, body)) \<Rightarrow> map_prod (Pair adb) wrap_result (endpoint c body (snd s))
      | (adb, Inr (None, body)) \<Rightarrow> ((adb, snd s), Server_Error)
      | (adb, Inl e) \<Rightarrow> ((adb, snd s), e))"

definition require_write :: "caller \<Rightarrow> view_result option" where
  "require_write c =
     (case snd c of
        Some t \<Rightarrow> if ak_level t = ''readonly'' then Some (Returned (api_error ''Token is read-only'' 403)) else None
      | None \<Rightarrow> None)"

definition writing :: "caller \<Rightarrow> runbook_db \<Rightarrow> runbook_db \<times> view_result \<Rightarrow> runbook_db \<times> view_result" where
  "writing c db r = (case require_write c of Some e \<Rightarrow> (db, e) | None \<Rightarrow> r)"

text \<open>\<open>request.json or {}\<close>, and a text field of a dict as the ORM reads it. (A null for a text field with a
  default is not in the schema; it is read as the text \<open>None\<close>.)\<close>

definition request_data :: "json option \<Rightarrow> json" where
  "request_data body = (case body of Some v \<Rightarrow> if json_truthy v then v else JObj [] | None \<Rightarrow> JObj [])"

definition text_value :: "runbook_env \<Rightarrow> json \<Rightarrow> string option" where
  "text_value env v = (case v of JNull \<Rightarrow> None | JStr s \<Rightarrow> Some s | _ \<Rightarrow> Some (rv_str env v))"

definition text_field :: "runbook_env \<Rightarrow> string \<Rightarrow> (string \<times> json) list \<Rightarrow> string option" where
  "text_field env k d = text_value env (json_get k JNull d)"

definition text_default :: "runbook_env \<Rightarrow> string \<Rightarrow> string \<Rightarrow> (string \<times> json) list \<Rightarrow> string" where
  "text_default env k s d = (case text_value env (json_get k (JStr s) d) of Some t \<Rightarrow> t | None \<Rightarrow> ''None'')"

definition section_field :: "runbook_env \<Rightarrow> string \<Rightarrow> (string \<times> json) list \<Rightarrow> section_ref" where
  "section_field env k d = (case text_field env k d of None \<Rightarrow> No_Section | Some s \<Rightarrow> Section_Slug s)"

text \<open>A function on the dict of the body; \<open>data.get\<close> fails on another value.\<close>

definition with_dict :: "json option \<Rightarrow> runbook_db \<Rightarrow> ((string \<times> json) list \<Rightarrow> runbook_db \<times> view_result) \<Rightarrow>
    runbook_db \<times> view_result" where
  "with_dict body db f = (case request_data body of JObj d \<Rightarrow> f d | _ \<Rightarrow> (db, Raised_Other))"

text \<open>A function on the dict of a body that must have the key \<open>body\<close>: \<open>"body" in data\<close> also works on
  a list or a string, whose \<open>data["body"]\<close> then fails.\<close>

definition with_body :: "json option \<Rightarrow> runbook_db \<Rightarrow> ((string \<times> json) list \<Rightarrow> json \<Rightarrow> runbook_db \<times> view_result) \<Rightarrow>
    runbook_db \<times> view_result" where
  "with_body body db f =
     (let missing = (db, Returned (api_error ''body is required'' 400)) in
      case request_data body of
        JObj d \<Rightarrow> (case map_of d ''body'' of None \<Rightarrow> missing | Some v \<Rightarrow> f d v)
      | JList xs \<Rightarrow> if JStr ''body'' \<in> set xs then (db, Raised_Other) else missing
      | JStr s \<Rightarrow> if contains ''body'' s then (db, Raised_Other) else missing
      | _ \<Rightarrow> (db, Raised_Other))"

text \<open>A write with the value of \<open>body\<close>: the guards of the service come first, a value that is no string
  fails when it is encoded.\<close>

definition put_value ::
    "runbook_env \<Rightarrow> json \<Rightarrow> runbook_db \<Rightarrow> (string \<Rightarrow> doc_error + doc_result \<times> runbook_db) \<Rightarrow> runbook_db \<times> view_result" where
  "put_value env v db put =
     (case v of
        JStr body \<Rightarrow> reply_with env db (put body) (\<lambda>r. ok_dict (result_json env r))
      | _ \<Rightarrow> (db, case put '''' of Inl e \<Rightarrow> error_for env e | Inr _ \<Rightarrow> Raised_Other))"

section \<open>Documents\<close>

definition query_text :: "string \<Rightarrow> query \<Rightarrow> string option" where
  "query_text k q = (case map_of q k of Some s \<Rightarrow> if s = '''' then None else Some s | None \<Rightarrow> None)"

definition api_list_documents :: "runbook_env \<Rightarrow> query \<Rightarrow> runbook_endpoint" where
  "api_list_documents env q = (\<lambda>(u, _) body db.
     (db,
      case (case map_of q ''limit'' of None \<Rightarrow> Some 50 | Some s \<Rightarrow> py_int_str s) of
        None \<Rightarrow> Returned (api_error (quoted ''limit'' @ '' must be an integer'') 400)
      | Some limit \<Rightarrow>
         (let rb = map_option Runbook_Slug (query_text ''runbook'' q); source = query_text ''source'' q;
              plain = list_documents env (list_defaults\<lparr>la_runbook := rb, la_source := source,
                        la_query := query_text ''q'' q\<rparr>) (Person u) db;
              found = (case query_text ''q'' q of
                         None \<Rightarrow> plain
                       | Some needle \<Rightarrow>
                          (case search_documents env needle (Person u) rb source (min limit 200) db of
                             Inl e \<Rightarrow> Inl e
                           | Inr None \<Rightarrow> plain
                           | Inr (Some docs) \<Rightarrow> Inr docs))
          in (case found of
                Inl e \<Rightarrow> error_for env e
              | Inr docs \<Rightarrow> ok_dict [(''results'', JList (map (\<lambda>r. JObj (result_summary env r)) docs))]))))"

definition api_read :: "runbook_env \<Rightarrow> doc_address \<Rightarrow> runbook_endpoint" where
  "api_read env ad = (\<lambda>(u, _) body db.
     (db, case get_document ad True (Person u) db of
            Inl e \<Rightarrow> error_for env e | Inr r \<Rightarrow> ok_dict (result_json env r)))"

definition api_document_by_uid :: "runbook_env \<Rightarrow> string \<Rightarrow> runbook_endpoint" where
  "api_document_by_uid env uid = api_read env (by_uid uid)"

definition api_document_move :: "runbook_env \<Rightarrow> instant \<Rightarrow> string \<Rightarrow> string \<Rightarrow> runbook_endpoint" where
  "api_document_move env now slug key = (\<lambda>c body db.
     writing c db (with_dict body db (\<lambda>d.
       reply_with env db
         (move_document now (Doc_At (keyed slug key)) (map_option Runbook_Slug (text_field env ''to_runbook'' d))
            (section_field env ''to_section'' d) (Person (fst c)) False db)
         (\<lambda>r. ok_dict (result_json env r)))))"

text \<open>\<open>api_document\<close>, by its three methods.\<close>

definition api_document_get :: "runbook_env \<Rightarrow> string \<Rightarrow> string \<Rightarrow> runbook_endpoint" where
  "api_document_get env slug key = api_read env (keyed slug key)"

definition api_document_delete :: "runbook_env \<Rightarrow> instant \<Rightarrow> query \<Rightarrow> string \<Rightarrow> string \<Rightarrow> runbook_endpoint" where
  "api_document_delete env now q slug key = (\<lambda>c body db.
     (let force = (map_of q ''force'' = Some ''true'') in
      writing c db (reply_with env db
        (bind_err (delete_document now (Doc_At (keyed slug key)) force (Person (fst c)) False db) (\<lambda>db'. Inr ((), db')))
        (\<lambda>_. ok_dict [(''deleted'', JBool True), (''force'', JBool force)]))))"

definition api_document_put :: "runbook_env \<Rightarrow> instant \<Rightarrow> string \<Rightarrow> string \<Rightarrow> runbook_endpoint" where
  "api_document_put env now slug key = (\<lambda>c body db.
     writing c db (with_body body db (\<lambda>d v.
       put_value env v db (\<lambda>text0.
         put_document env now (Runbook_Slug slug) key text0
           (put_defaults\<lparr>pa_title := text_field env ''title'' d, pa_section := section_field env ''section'' d,
              pa_on_exists := text_default env ''on_exists'' ''new_version'' d,
              pa_expected := json_get ''expected_version'' JNull d, pa_source := text_default env ''source'' '''' d,
              pa_type := text_default env ''doc_type'' '''' d\<rparr>) (Person (fst c)) False db))))"

definition api_document :: "runbook_env \<Rightarrow> instant \<Rightarrow> string \<Rightarrow> query \<Rightarrow> string \<Rightarrow> string \<Rightarrow> runbook_endpoint" where
  "api_document env now verb q slug key =
     (if verb = ''GET'' then api_document_get env slug key
      else if verb = ''DELETE'' then api_document_delete env now q slug key
      else api_document_put env now slug key)"

definition api_document_append :: "runbook_env \<Rightarrow> instant \<Rightarrow> string \<Rightarrow> string \<Rightarrow> runbook_endpoint" where
  "api_document_append env now slug key = (\<lambda>c body db.
     writing c db (with_body body db (\<lambda>d v.
       put_value env v db (\<lambda>text0.
         append_to_document env now (Runbook_Slug slug) key text0
           (put_defaults\<lparr>pa_source := text_default env ''source'' '''' d\<rparr>) (Person (fst c)) False db))))"

definition api_document_archive :: "runbook_env \<Rightarrow> instant \<Rightarrow> string \<Rightarrow> string \<Rightarrow> runbook_endpoint" where
  "api_document_archive env now slug key = (\<lambda>c body db.
     writing c db (reply_with env db (archive_document now (Doc_At (keyed slug key)) (Person (fst c)) False db)
       (\<lambda>r. ok_dict (result_json env r))))"

definition api_document_unarchive :: "runbook_env \<Rightarrow> instant \<Rightarrow> string \<Rightarrow> string \<Rightarrow> runbook_endpoint" where
  "api_document_unarchive env now slug key = (\<lambda>c body db.
     writing c db (reply_with env db (unarchive_document now (Doc_At (keyed slug key)) (Person (fst c)) False db)
       (\<lambda>r. ok_dict (result_json env r))))"

definition api_document_revert :: "runbook_env \<Rightarrow> instant \<Rightarrow> string \<Rightarrow> string \<Rightarrow> runbook_endpoint" where
  "api_document_revert env now slug key = (\<lambda>c body db.
     writing c db (with_dict body db (\<lambda>d.
       case json_get ''to'' (json_get ''version'' JNull d) d of
         JNull \<Rightarrow> (db, Returned (api_error (quoted ''to'' @ '' (version number) is required'') 400))
       | raw \<Rightarrow>
          (case json_int raw of
             None \<Rightarrow> (db, Returned (api_error (quoted ''to'' @ '' must be an integer'') 400))
           | Some n \<Rightarrow>
              (case restore_version now (Doc_At (keyed slug key)) n ''api'' (Person (fst c)) False db of
                 Inl e \<Rightarrow> (db, error_for env e)
               | Inr (doc, db') \<Rightarrow>
                  (db', case get_document (by_uid (dc_uid doc)) True (Person (fst c)) db' of
                          Inl e \<Rightarrow> Raised_Other | Inr r \<Rightarrow> ok_dict (result_json env r)))))))"

definition api_document_copy :: "runbook_env \<Rightarrow> instant \<Rightarrow> string \<Rightarrow> string \<Rightarrow> runbook_endpoint" where
  "api_document_copy env now slug key = (\<lambda>c body db.
     writing c db (with_dict body db (\<lambda>d.
       let to_runbook = json_get ''to_runbook'' JNull d; to_key = json_get ''to_key'' JNull d in
       if \<not> json_truthy to_runbook \<or> \<not> json_truthy to_key
       then (db, Returned (api_error (quoted ''to_runbook'' @ '' and '' @ quoted ''to_key'' @ '' are required'') 400))
       else reply_with env db
         (copy_document env now (Doc_At (keyed slug key)) (Person (fst c))
            (Runbook_Slug (the (text_value env to_runbook))) (the (text_value env to_key)) (text_field env ''title'' d)
            (section_field env ''section'' d) (text_default env ''on_exists'' ''fail'' d) ''api'' (Person (fst c)) db)
         (\<lambda>r. ok_dict (result_json env r)))))"

section \<open>Runbooks\<close>

text \<open>\<open>owner_name\<close> is the user name of an account id.\<close>

definition runbook_summary :: "(nat \<Rightarrow> string) \<Rightarrow> runbook_db \<Rightarrow> runbook \<Rightarrow> (string \<times> json) list" where
  "runbook_summary owner_name db rb =
     [(''slug'', JStr (rb_slug rb)), (''name'', JStr (rb_name rb)), (''description'', JStr (rb_description rb)),
      (''owner'', opt_json (map_option owner_name (rb_owner rb))), (''is_public'', JBool (rb_public rb)),
      (''is_template'', JBool (rb_template rb)),
      (''pages'', JInt (int (tbl_count (\<lambda>d. dc_runbook d = Some (rb_id rb) \<and> \<not> dc_archived d) (rd_documents db))))]"

definition section_summary :: "doc_section \<Rightarrow> (string \<times> json) list" where
  "section_summary s = [(''slug'', JStr (sec_slug s)), (''name'', JStr (sec_name s)), (''order'', JInt (sec_order s))]"

definition sections_of :: "nat \<Rightarrow> runbook_db \<Rightarrow> doc_section list" where
  "sections_of n db = sort_key (\<lambda>s. (sec_order s, sec_name s)) (filter (\<lambda>s. sec_runbook s = n) (rd_sections db))"

definition api_runbooks_get :: "(nat \<Rightarrow> string) \<Rightarrow> runbook_endpoint" where
  "api_runbooks_get owner_name = (\<lambda>(u, _) body db.
     (db, ok_dict [(''results'', JList (map (\<lambda>rb. JObj (runbook_summary owner_name db rb))
            (sort_key rb_name (viewable_runbooks (Person u) (rd_runbooks db)))))]))"

definition api_runbooks_post :: "runbook_env \<Rightarrow> (nat \<Rightarrow> string) \<Rightarrow> runbook_endpoint" where
  "api_runbooks_post env owner_name = (\<lambda>c body db.
     writing c db (with_dict body db (\<lambda>d.
       let slug = (let s = json_get ''slug'' JNull d in if json_truthy s then s else json_get ''name'' JNull d) in
       if \<not> json_truthy slug then (db, Returned (api_error ''slug (or name) is required'' 400))
       else (case create_runbook env (the (text_value env slug)) (text_field env ''name'' d)
                (text_default env ''description'' '''' d) (Person (fst c))
                (json_truthy (json_get ''is_public'' (JBool False) d)) db of
           Inl e \<Rightarrow> (db, error_for env e)
         | Inr (rb, db') \<Rightarrow> (db', ok_dict (runbook_summary owner_name db' rb))))))"

text \<open>The reads of one runbook: \<open>Not found\<close> unless the caller may view it.\<close>

definition reading_runbook :: "runbook_env \<Rightarrow> account \<Rightarrow> string \<Rightarrow> runbook_db \<Rightarrow> (runbook \<Rightarrow> view_result) \<Rightarrow> view_result" where
  "reading_runbook env u slug db f =
     (case resolve_runbook (Runbook_Slug slug) db of
        Inl e \<Rightarrow> error_for env e
      | Inr rb \<Rightarrow> if \<not> can_view (Person u) (Some rb) then Returned (api_error ''Not found'' 404) else f rb)"

definition section_slug_of :: "runbook_db \<Rightarrow> document \<Rightarrow> string option" where
  "section_slug_of db d =
     (case dc_section d of None \<Rightarrow> None | Some n \<Rightarrow> map_option sec_slug (find_section n db))"

definition api_runbook_detail :: "runbook_env \<Rightarrow> (nat \<Rightarrow> string) \<Rightarrow> string \<Rightarrow> runbook_endpoint" where
  "api_runbook_detail env owner_name slug = (\<lambda>(u, _) body db.
     (db, reading_runbook env u slug db (\<lambda>rb.
        case list_documents env (list_defaults\<lparr>la_runbook := Some (Runbook_Slug (rb_slug rb))\<rparr>) (Person u) db of
          Inl e \<Rightarrow> Raised_Other
        | Inr docs \<Rightarrow>
           (let of_section = (\<lambda>s. JList (map (\<lambda>r. JObj (result_summary env r))
                                (filter (\<lambda>r. section_slug_of db (dr_doc r) = s) docs))) in
            ok_dict (runbook_summary owner_name db rb
              @ [(''sections'', JList (map (\<lambda>s. JObj (section_summary s @ [(''documents'', of_section (Some (sec_slug s)))]))
                    (sections_of (rb_id rb) db))),
                 (''sectionless'', of_section None)])))))"

definition api_runbook_sections_get :: "runbook_env \<Rightarrow> string \<Rightarrow> runbook_endpoint" where
  "api_runbook_sections_get env slug = (\<lambda>(u, _) body db.
     (db, reading_runbook env u slug db (\<lambda>rb.
        ok_dict [(''results'', JList (map (\<lambda>s. JObj (section_summary s)) (sections_of (rb_id rb) db)))])))"

text \<open>The field \<open>order\<close> is an integer, as the schema says.\<close>

definition api_runbook_sections_post :: "runbook_env \<Rightarrow> string \<Rightarrow> runbook_endpoint" where
  "api_runbook_sections_post env slug = (\<lambda>c body db.
     writing c db (with_dict body db (\<lambda>d.
       let sec_slug = (let s = json_get ''slug'' JNull d in if json_truthy s then s else json_get ''name'' JNull d) in
       if \<not> json_truthy sec_slug then (db, Returned (api_error ''slug (or name) is required'' 400))
       else reply_with env db
         (create_section env (Runbook_Slug slug) (the (text_value env sec_slug)) (text_field env ''name'' d)
            (case json_int (json_get ''order'' (JInt 0) d) of Some i \<Rightarrow> i | None \<Rightarrow> 0) (Person (fst c)) db)
         (\<lambda>s. ok_dict (section_summary s)))))"

definition set_runbook_visibility :: "runbook_env \<Rightarrow> (nat \<Rightarrow> string) \<Rightarrow> string \<Rightarrow> bool \<Rightarrow> runbook_endpoint" where
  "set_runbook_visibility env owner_name slug public = (\<lambda>c body db.
     writing c db
       (case set_runbook_public (Runbook_Slug slug) public (Person (fst c)) db of
          Inl e \<Rightarrow> (db, error_for env e)
        | Inr (rb, db') \<Rightarrow> (db', ok_dict (runbook_summary owner_name db' rb))))"

section \<open>MCP delegates\<close>

text \<open>The dict a delegate returns, or \<open>None\<close> for an exception it does not catch.\<close>

definition mcp_error :: "runbook_env \<Rightarrow> doc_error \<Rightarrow> json option" where
  "mcp_error env e =
     (case e of
        Integrity_Error \<Rightarrow> None
      | No_Head \<Rightarrow> None
      | Unknown_Mode _ \<Rightarrow> None
      | _ \<Rightarrow> Some (JObj [(''error'', JStr (error_text env e))]))"

definition mcp_reply ::
    "runbook_env \<Rightarrow> runbook_db \<Rightarrow> (doc_error + doc_result \<times> runbook_db) \<Rightarrow> runbook_db \<times> json option" where
  "mcp_reply env db r =
     (case r of Inl e \<Rightarrow> (db, mcp_error env e) | Inr (x, db') \<Rightarrow> (db', Some (JObj (result_json env x))))"

text \<open>\<open>docs[:limit]\<close>.\<close>

definition slice_to :: "int \<Rightarrow> 'a list \<Rightarrow> 'a list" where
  "slice_to n xs = take (nat (if n < 0 then max 0 (int (length xs) + n) else n)) xs"

definition do_list :: "runbook_env \<Rightarrow> string option \<Rightarrow> string option \<Rightarrow> string option \<Rightarrow> int \<Rightarrow> actor \<Rightarrow> runbook_db \<Rightarrow> json option" where
  "do_list env slug source q limit viewer db =
     (let given = (\<lambda>x. case x of Some s \<Rightarrow> if s = '''' then None else Some s | None \<Rightarrow> None) in
      case list_documents env (list_defaults\<lparr>la_runbook := map_option Runbook_Slug (given slug),
             la_source := given source, la_query := given q\<rparr>) viewer db of
        Inl e \<Rightarrow> mcp_error env e
      | Inr docs \<Rightarrow> Some (JObj [(''results'', JList (map (\<lambda>r. JObj (result_summary env r)) (slice_to limit docs)))]))"

text \<open>Only \<open>DocumentNotFound\<close> is caught.\<close>

definition do_get :: "runbook_env \<Rightarrow> doc_address \<Rightarrow> actor \<Rightarrow> runbook_db \<Rightarrow> json option" where
  "do_get env ad viewer db =
     (case get_document ad True viewer db of
        Inr r \<Rightarrow> Some (JObj (result_json env r))
      | Inl e \<Rightarrow> if e \<in> {Document_Not_Found, No_Address} then mcp_error env e else None)"

definition do_put ::
    "runbook_env \<Rightarrow> instant \<Rightarrow> actor \<Rightarrow> string \<Rightarrow> string \<Rightarrow> string \<Rightarrow> put_args \<Rightarrow> runbook_db \<Rightarrow> runbook_db \<times> json option" where
  "do_put env now actor slug key body p db =
     mcp_reply env db (put_document env now (Runbook_Slug slug) key body
       (p\<lparr>pa_source := (if pa_source p = '''' then ''mcp'' else pa_source p), pa_via := ''mcp''\<rparr>) actor False db)"

definition do_append ::
    "runbook_env \<Rightarrow> instant \<Rightarrow> actor \<Rightarrow> string \<Rightarrow> string \<Rightarrow> string \<Rightarrow> string \<Rightarrow> runbook_db \<Rightarrow> runbook_db \<times> json option" where
  "do_append env now actor slug key body source db =
     mcp_reply env db (append_to_document env now (Runbook_Slug slug) key body
       (put_defaults\<lparr>pa_source := (if source = '''' then ''mcp'' else source), pa_via := ''mcp''\<rparr>) actor False db)"

definition do_move ::
    "runbook_env \<Rightarrow> instant \<Rightarrow> actor \<Rightarrow> doc_address \<Rightarrow> string option \<Rightarrow> string option \<Rightarrow> runbook_db \<Rightarrow> runbook_db \<times> json option" where
  "do_move env now actor ad to_runbook to_section db =
     mcp_reply env db (move_document now (Doc_At ad) (map_option Runbook_Slug to_runbook)
       (case to_section of None \<Rightarrow> No_Section | Some s \<Rightarrow> Section_Slug s) actor False db)"

definition do_delete ::
    "runbook_env \<Rightarrow> instant \<Rightarrow> actor \<Rightarrow> doc_address \<Rightarrow> bool \<Rightarrow> runbook_db \<Rightarrow> runbook_db \<times> json option" where
  "do_delete env now actor ad force db =
     (case delete_document now (Doc_At ad) force actor False db of
        Inl e \<Rightarrow> (db, mcp_error env e)
      | Inr db' \<Rightarrow> (db', Some (JObj [(''deleted'', JBool True), (''force'', JBool force)])))"

end
