(* ===== verification/Runbook_Machine.thy ===== *)
theory Runbook_Machine
  imports Runbook_Web Runbook_Rest
begin

text \<open>
  The state machine of the document store: every operation of the service, with any caller, the
  pages that write without it, the background work, one after the other; and what holds in every
  state of it. The arguments an operation takes as model instances are rows of the current tables.
\<close>

section \<open>Steps\<close>

text \<open>The receivers run on the events of the transaction when it has committed.\<close>

definition settle :: "runbook_env \<Rightarrow> instant \<Rightarrow> runbook_db \<Rightarrow> runbook_db \<Rightarrow> runbook_db" where
  "settle env now db db' = fold (on_commit env now) (drop (length (rd_events db)) (rd_events db')) db'"

fun runbook_ref_ok :: "runbook_db \<Rightarrow> runbook_ref \<Rightarrow> bool" where
  "runbook_ref_ok db (Runbook_Row rb) = (rb \<in> set (rd_runbooks db))"
| "runbook_ref_ok db (Runbook_Slug s) = True"

fun section_ref_ok :: "runbook_db \<Rightarrow> section_ref \<Rightarrow> bool" where
  "section_ref_ok db (Section_Row s) = (s \<in> set (rd_sections db))"
| "section_ref_ok db _ = True"

fun target_ok :: "runbook_db \<Rightarrow> doc_target \<Rightarrow> bool" where
  "target_ok db (Doc_Row d) = (d \<in> set (rd_documents db))"
| "target_ok db (Doc_At ad) = (case ad_runbook ad of None \<Rightarrow> True | Some r \<Rightarrow> runbook_ref_ok db r)"

inductive runbook_step :: "runbook_env \<Rightarrow> runbook_db \<Rightarrow> runbook_db \<Rightarrow> bool" for env where
  Put: "put_document env now r key body p actor bypass db = Inr (res, db') \<Longrightarrow> runbook_ref_ok db r \<Longrightarrow>
    section_ref_ok db (pa_section p) \<Longrightarrow> runbook_step env db (settle env now db db')"
| Write: "write_version now body mode description source via actor bypass d db = Inr (d', db') \<Longrightarrow>
    d \<in> set (rd_documents db) \<Longrightarrow> runbook_step env db (settle env now db db')"
| Create: "create_document env now r body f actor db = Inr (d', db') \<Longrightarrow> runbook_ref_ok db r \<Longrightarrow>
    section_ref_ok db (df_section f) \<Longrightarrow> runbook_step env db (settle env now db db')"
| Attach: "attach_image env now t filename data alt actor db = Inr (ref, db') \<Longrightarrow> target_ok db t \<Longrightarrow>
    runbook_step env db (settle env now db db')"
| Archive: "archive_document now t actor bypass db = Inr (res, db') \<Longrightarrow> target_ok db t \<Longrightarrow>
    runbook_step env db (settle env now db db')"
| Unarchive: "unarchive_document now t actor bypass db = Inr (res, db') \<Longrightarrow> target_ok db t \<Longrightarrow>
    runbook_step env db (settle env now db db')"
| Restore: "restore_version now t n via actor bypass db = Inr (d', db') \<Longrightarrow> target_ok db t \<Longrightarrow>
    runbook_step env db (settle env now db db')"
| Delete: "delete_document now t force actor bypass db = Inr db' \<Longrightarrow> target_ok db t \<Longrightarrow>
    runbook_step env db (settle env now db db')"
| Move: "move_document now t to_runbook to_section actor bypass db = Inr (res, db') \<Longrightarrow> target_ok db t \<Longrightarrow>
    (\<And>r. to_runbook = Some r \<Longrightarrow> runbook_ref_ok db r) \<Longrightarrow> section_ref_ok db to_section \<Longrightarrow>
    runbook_step env db (settle env now db db')"
| New_Runbook: "create_runbook env slug name description owner public db = Inr (rb, db') \<Longrightarrow>
    runbook_step env db (settle env now db db')"
| New_Section: "create_section env r slug name ord actor db = Inr (s, db') \<Longrightarrow> runbook_ref_ok db r \<Longrightarrow>
    runbook_step env db (settle env now db db')"
| Set_Public: "set_runbook_public r public actor db = Inr (rb, db') \<Longrightarrow> runbook_ref_ok db r \<Longrightarrow>
    runbook_step env db (settle env now db db')"
| From_Template: "create_from_template env now r title template sec description actor db = Inr (d', db') \<Longrightarrow>
    runbook_ref_ok db r \<Longrightarrow> section_ref_ok db sec \<Longrightarrow> template \<in> set (rd_documents db) \<Longrightarrow>
    runbook_step env db (settle env now db db')"
| Copy: "copy_document env now t viewer to_runbook to_key title sec on_exists via actor db = Inr (res, db') \<Longrightarrow>
    target_ok db t \<Longrightarrow> runbook_ref_ok db to_runbook \<Longrightarrow> section_ref_ok db sec \<Longrightarrow>
    runbook_step env db (settle env now db db')"
| Clone: "clone_runbook env now source new_slug new_name as_template copy_locked actor owner db = Inr (rb, db') \<Longrightarrow>
    runbook_ref_ok db source \<Longrightarrow> runbook_step env db (settle env now db db')"
| Sweep: "runbook_step env db (fst (run_sweep env now db))"
| Task: "rd_tasks db = before @ t # after \<Longrightarrow>
    runbook_step env db (run_runbook_task env now t (db\<lparr>rd_tasks := before @ after\<rparr>))"
| Runbook_Form: "runbook_step env db (settle env now db (fst (runbook_create env now user f template db)))"
    if "\<And>t. template = Some t \<Longrightarrow> t \<in> set (rd_runbooks db)"
| Runbook_Edit: "runbook_step env db (fst (runbook_update user slug f db))"
| Runbook_Delete: "runbook_step env db (fst (runbook_delete user slug cascade db))"
| Publish: "runbook_step env db (fst (runbook_publish_toggle user slug db))"
| Section_Form: "runbook_step env db (fst (section_create env user slug sf db))"
| Section_Edit: "runbook_step env db (fst (section_update user n sf db))"
| Section_Delete: "runbook_step env db (fst (section_delete user n db))"
| Doc_Template: "runbook_step env db (fst (document_make_template now user n db))"
| Doc_Edit: "runbook_step env db
    (settle env now db (fst (document_update env now user n title choice description upload db)))"
| Doc_Delete: "runbook_step env db (fst (document_delete user n db))"
| Doc_Lock: "runbook_step env db (fst (document_lock now user n db))"
| Subscribe: "runbook_step env db (fst (document_subscribe user n db))"

definition empty_runbooks :: runbook_db where
  "empty_runbooks = \<lparr>rd_seq = 1, rd_runbooks = [], rd_sections = [], rd_documents = [], rd_versions = [],
     rd_images = [], rd_subs = [], rd_events = [], rd_tasks = [], rd_mails = []\<rparr>"

inductive runbook_reachable :: "runbook_env \<Rightarrow> runbook_db \<Rightarrow> bool" for env where
  start: "runbook_reachable env empty_runbooks"
| step: "runbook_reachable env db \<Longrightarrow> runbook_step env db db' \<Longrightarrow> runbook_reachable env db'"

section \<open>Consistent tables\<close>

text \<open>Primary keys are distinct and below the counter.\<close>

definition keyed_rows :: "nat \<Rightarrow> ('r \<Rightarrow> nat) \<Rightarrow> 'r list \<Rightarrow> bool" where
  "keyed_rows n key rows \<longleftrightarrow> distinct (map key rows) \<and> (\<forall>r \<in> set rows. key r < n)"

definition rows_ok :: "runbook_db \<Rightarrow> bool" where
  "rows_ok db \<longleftrightarrow>
     keyed_rows (rd_seq db) rb_id (rd_runbooks db) \<and> keyed_rows (rd_seq db) sec_id (rd_sections db)
     \<and> keyed_rows (rd_seq db) dc_id (rd_documents db) \<and> keyed_rows (rd_seq db) ver_id (rd_versions db)
     \<and> keyed_rows (rd_seq db) img_id (rd_images db)"

text \<open>The unique columns: slugs, uids, a section's slug in its runbook, a key in its runbook.\<close>

definition doc_place :: "document \<Rightarrow> (nat \<times> string) option" where
  "doc_place d = (case (dc_runbook d, dc_key d) of (Some n, Some k) \<Rightarrow> Some (n, k) | _ \<Rightarrow> None)"

definition names_ok :: "runbook_db \<Rightarrow> bool" where
  "names_ok db \<longleftrightarrow>
     distinct (map rb_slug (rd_runbooks db)) \<and> distinct (map dc_uid (rd_documents db))
     \<and> distinct (map (\<lambda>s. (sec_runbook s, sec_slug s)) (rd_sections db)) \<and> unique_opt doc_place (rd_documents db)"

text \<open>A section belongs to a runbook; a document's section is one of its runbook, when it has both.\<close>

definition home_ok :: "runbook list \<Rightarrow> doc_section list \<Rightarrow> document \<Rightarrow> bool" where
  "home_ok rbs ss d \<longleftrightarrow>
     (\<forall>n. dc_runbook d = Some n \<longrightarrow> n \<in> rb_id ` set rbs)
     \<and> (\<forall>n. dc_section d = Some n \<longrightarrow>
          (\<exists>s \<in> set ss. sec_id s = n \<and> (dc_runbook d = None \<or> dc_runbook d = Some (sec_runbook s))))"

definition places_ok :: "runbook_db \<Rightarrow> bool" where
  "places_ok db \<longleftrightarrow>
     (\<forall>s \<in> set (rd_sections db). sec_runbook s \<in> rb_id ` set (rd_runbooks db))
     \<and> (\<forall>d \<in> set (rd_documents db). home_ok (rd_runbooks db) (rd_sections db) d)"

text \<open>The head of a document is its newest version, and the head columns repeat that row.\<close>

definition head_ok :: "doc_version list \<Rightarrow> document \<Rightarrow> bool" where
  "head_ok vs d \<longleftrightarrow>
     (\<exists>v \<in> set vs. dc_current d = Some (ver_id v) \<and> ver_document v = dc_id d \<and> dc_version d = ver_version v
        \<and> dc_file_type d = ver_file_type v \<and> dc_content d = ver_content v
        \<and> (\<forall>w \<in> set vs. ver_document w = dc_id d \<longrightarrow> ver_version w \<le> ver_version v))"

definition version_ok :: "document list \<Rightarrow> doc_version \<Rightarrow> bool" where
  "version_ok ds v \<longleftrightarrow>
     1 \<le> ver_version v \<and> ver_file_type v = ''md'' \<and> ver_content v = strip_frontmatter (ver_body v)
     \<and> ver_document v \<in> dc_id ` set ds"

definition versions_ok :: "runbook_db \<Rightarrow> bool" where
  "versions_ok db \<longleftrightarrow>
     (\<forall>v \<in> set (rd_versions db). version_ok (rd_documents db) v)
     \<and> distinct (map (\<lambda>v. (ver_document v, ver_version v)) (rd_versions db))
     \<and> (\<forall>d \<in> set (rd_documents db). head_ok (rd_versions db) d)"

definition attached_ok :: "runbook_db \<Rightarrow> bool" where
  "attached_ok db \<longleftrightarrow>
     (\<forall>i \<in> set (rd_images db). img_document i \<in> dc_id ` set (rd_documents db))
     \<and> (\<forall>s \<in> set (rd_subs db). fst s \<in> dc_id ` set (rd_documents db)) \<and> distinct (rd_subs db)"

definition runbook_ok :: "runbook_db \<Rightarrow> bool" where
  "runbook_ok db \<longleftrightarrow> rows_ok db \<and> names_ok db \<and> places_ok db \<and> versions_ok db \<and> attached_ok db"

lemmas runbook_ok_defs = runbook_ok_def rows_ok_def names_ok_def places_ok_def versions_ok_def attached_ok_def

text \<open>What no step does: give a version another document or number, rewrite a version that is not a
  head, or make a superseded version a head again.\<close>

definition heads :: "runbook_db \<Rightarrow> nat set" where
  "heads db = {c. \<exists>d \<in> set (rd_documents db). dc_current d = Some c}"

definition history_kept :: "runbook_db \<Rightarrow> runbook_db \<Rightarrow> bool" where
  "history_kept db db' \<longleftrightarrow>
     rd_seq db \<le> rd_seq db'
     \<and> (\<forall>v' \<in> set (rd_versions db'). ver_id v' < rd_seq db \<longrightarrow>
          (\<exists>v \<in> set (rd_versions db). ver_id v = ver_id v' \<and> ver_document v = ver_document v'
             \<and> ver_version v = ver_version v' \<and> (v' = v \<or> ver_id v \<in> heads db)))
     \<and> (\<forall>c \<in> heads db'. c < rd_seq db \<longrightarrow> c \<in> heads db)"

end
