(* ===== verification/Runbook_Invariants.thy ===== *)
theory Runbook_Invariants
  imports Runbook_Machine
begin

text \<open>
  How the primitive changes of the document tables keep them consistent: saving rows, inserting
  and deleting them, adding a version, overwriting a head, pruning. While a document is being
  created it has a row and no version yet; \<open>ok_except\<close> is the invariant with such documents allowed.
\<close>

section \<open>The invariant during a creation\<close>

definition doc_head_ok :: "nat set \<Rightarrow> doc_version list \<Rightarrow> document \<Rightarrow> bool" where
  "doc_head_ok N vs d \<longleftrightarrow>
     (if dc_id d \<in> N then dc_current d = None \<and> (\<forall>v \<in> set vs. ver_document v \<noteq> dc_id d) else head_ok vs d)"

definition heads_except :: "nat set \<Rightarrow> runbook_db \<Rightarrow> bool" where
  "heads_except N db \<longleftrightarrow>
     (\<forall>v \<in> set (rd_versions db). version_ok (rd_documents db) v)
     \<and> distinct (map (\<lambda>v. (ver_document v, ver_version v)) (rd_versions db))
     \<and> (\<forall>d \<in> set (rd_documents db). doc_head_ok N (rd_versions db) d)"

definition ok_except :: "nat set \<Rightarrow> runbook_db \<Rightarrow> bool" where
  "ok_except N db \<longleftrightarrow> rows_ok db \<and> names_ok db \<and> places_ok db \<and> heads_except N db \<and> attached_ok db"

lemma ok_except_empty: "ok_except {} db = runbook_ok db"
  by (simp add: ok_except_def runbook_ok_def heads_except_def versions_ok_def doc_head_ok_def)

definition keeps_from :: "nat set \<Rightarrow> nat set \<Rightarrow> runbook_db \<Rightarrow> runbook_db \<Rightarrow> bool" where
  "keeps_from N M db db' \<longleftrightarrow> (ok_except N db \<longrightarrow> ok_except M db' \<and> history_kept db db')"

abbreviation keeps_rb :: "runbook_db \<Rightarrow> runbook_db \<Rightarrow> bool" where
  "keeps_rb \<equiv> keeps_from {} {}"

lemma history_refl: "history_kept db db"
  by (auto simp: history_kept_def)

lemma history_trans:
  assumes "history_kept a b" "history_kept b c" shows "history_kept a c"
  unfolding history_kept_def
proof (intro conjI ballI impI)
  show "rd_seq a \<le> rd_seq c" using assms by (simp add: history_kept_def)
next
  fix w assume w: "w \<in> set (rd_versions c)" "ver_id w < rd_seq a"
  with assms obtain v where v: "v \<in> set (rd_versions b)" "ver_id v = ver_id w" "ver_document v = ver_document w"
      "ver_version v = ver_version w" "w = v \<or> ver_id v \<in> heads b"
    unfolding history_kept_def by (metis order_less_le_trans)
  with w assms(1) obtain u where u: "u \<in> set (rd_versions a)" "ver_id u = ver_id v" "ver_document u = ver_document v"
      "ver_version u = ver_version v" "v = u \<or> ver_id u \<in> heads a"
    unfolding history_kept_def by metis
  have "ver_id u \<in> heads a" if "w \<noteq> u"
    using that u v w assms(1) unfolding history_kept_def by metis
  with u v show "\<exists>v\<in>set (rd_versions a). ver_id v = ver_id w \<and> ver_document v = ver_document w
      \<and> ver_version v = ver_version w \<and> (w = v \<or> ver_id v \<in> heads a)" by metis
next
  fix n assume "n \<in> heads c" "n < rd_seq a"
  with assms show "n \<in> heads a" unfolding history_kept_def by (meson order_less_le_trans)
qed

lemma keeps_from_refl: "keeps_from N N db db"
  by (simp add: keeps_from_def history_refl)

lemma keeps_from_trans [trans]: "keeps_from N M a b \<Longrightarrow> keeps_from M K b c \<Longrightarrow> keeps_from N K a c"
  by (auto simp: keeps_from_def intro: history_trans)

lemma keeps_from_eq: "keeps_from N M a b \<Longrightarrow> b = c \<Longrightarrow> keeps_from N M a c"
  by simp

section \<open>Keys\<close>

lemma keyed_rows_snoc:
  "keyed_rows n key rows \<Longrightarrow> key r = n \<Longrightarrow> keyed_rows (Suc n) key (rows @ [r])"
  by (auto simp: keyed_rows_def)

lemma keyed_rows_Suc: "keyed_rows n key rows \<Longrightarrow> keyed_rows (Suc n) key rows"
  by (auto simp: keyed_rows_def)

lemma keyed_rows_filter: "keyed_rows n key rows \<Longrightarrow> keyed_rows n key (filter P rows)"
  by (auto simp: keyed_rows_def distinct_map_filter)

lemma keyed_rows_map:
  assumes "\<And>r. r \<in> set rows \<Longrightarrow> key (g r) = key r"
  shows "keyed_rows n key (map g rows) = keyed_rows n key rows"
proof -
  have "map key (map g rows) = map key rows" using assms by simp
  moreover have "(\<forall>r \<in> set (map g rows). key r < n) = (\<forall>r \<in> set rows. key r < n)" using assms by simp
  ultimately show ?thesis unfolding keyed_rows_def by presburger
qed

lemma keyed_rows_update:
  assumes "\<And>r. key (f r) = key r"
  shows "keyed_rows n key (tbl_update P f rows) = keyed_rows n key rows"
  unfolding tbl_update_def by (rule keyed_rows_map) (simp add: assms)

lemma keyed_inj: "keyed_rows n key rows \<Longrightarrow> r \<in> set rows \<Longrightarrow> q \<in> set rows \<Longrightarrow> key r = key q \<Longrightarrow> r = q"
  by (auto simp: keyed_rows_def distinct_map dest: inj_onD)

lemma keyed_find: "keyed_rows n key rows \<Longrightarrow> r \<in> set rows \<Longrightarrow> tbl_find key (key r) rows = Some r"
  by (simp add: keyed_rows_def tbl_find_in)

lemma tbl_find_mem: "tbl_find key k rows = Some r \<Longrightarrow> r \<in> set rows" "tbl_find key k rows = Some r \<Longrightarrow> key r = k"
  using tbl_find_Some by metis+

lemma unique_opt_map:
  assumes "unique_opt key rows" and "\<And>r. r \<in> set rows \<Longrightarrow> key (g r) = key r \<or> key (g r) = None"
  shows "unique_opt key (map g rows)"
  using assms
proof (induction rows)
  case Nil
  then show ?case by (simp add: unique_opt_def)
next
  case (Cons r rows)
  have keep: "set (List.map_filter key (map g rows)) \<subseteq> set (List.map_filter key rows)"
  proof
    fix k assume "k \<in> set (List.map_filter key (map g rows))"
    then obtain q where q: "q \<in> set rows" "key (g q) = Some k" by (auto simp: set_map_filter_iff)
    with Cons.prems(2) [of q] have "key q = Some k" by auto
    with q show "k \<in> set (List.map_filter key rows)" by (auto simp: set_map_filter_iff)
  qed
  from Cons have "unique_opt key (map g rows)" by (simp add: unique_opt_def split: option.splits)
  with keep Cons.prems(1) Cons.prems(2) [of r] show ?case
    by (auto simp: unique_opt_def split: option.splits)
qed

lemma unique_opt_update_one:
  assumes "unique_opt key rows" and "distinct (map idf rows)"
    and "\<And>q. q \<in> set rows \<Longrightarrow> idf q \<noteq> n \<Longrightarrow> key q \<noteq> None \<Longrightarrow> (\<forall>r \<in> set rows. idf r = n \<longrightarrow> key (f r) \<noteq> key q)"
  shows "unique_opt key (tbl_update (\<lambda>r. idf r = n) f rows)"
  using assms
proof (induction rows)
  case Nil
  then show ?case by (simp add: unique_opt_def)
next
  case (Cons r rows)
  have tail: "unique_opt key rows" "distinct (map idf rows)" "idf r \<notin> idf ` set rows"
    using Cons.prems(1,2) by (auto simp: unique_opt_def split: option.splits)
  have IH: "unique_opt key (tbl_update (\<lambda>r. idf r = n) f rows)"
    using tail Cons.prems(3) by (intro Cons.IH) auto
  show ?case
  proof (cases "idf r = n")
    case True
    with tail(3) have "\<forall>q \<in> set rows. idf q \<noteq> n" by (metis image_eqI)
    then have same: "tbl_update (\<lambda>r. idf r = n) f rows = rows" by (rule tbl_update_idle)
    have "key (f r) \<noteq> key q" if "q \<in> set rows" "key q \<noteq> None" for q
    proof -
      have "idf q \<noteq> n" using that(1) True tail(3) by (metis image_eqI)
      then show ?thesis using Cons.prems(3) [of q] that True by simp
    qed
    then have "k \<notin> set (List.map_filter key rows)" if "key (f r) = Some k" for k
      using that by (fastforce simp: set_map_filter_iff)
    with tail(1) True same show ?thesis by (cases "key (f r)") (simp_all add: unique_opt_def)
  next
    case False
    have "key q' \<noteq> key r" if "q' \<in> set (tbl_update (\<lambda>r. idf r = n) f rows)" "key r \<noteq> None" for q'
    proof -
      from that(1) obtain q where q: "q \<in> set rows" "(idf q = n \<and> q' = f q) \<or> (idf q \<noteq> n \<and> q' = q)"
        unfolding set_tbl_update by blast
      from q(2) show ?thesis
      proof
        assume "idf q = n \<and> q' = f q"
        with q(1) False that(2) Cons.prems(3) [of r] show ?thesis by auto
      next
        assume "idf q \<noteq> n \<and> q' = q"
        with q(1) that(2) Cons.prems(1) show ?thesis
          by (auto simp: unique_opt_def set_map_filter_iff split: option.splits)
      qed
    qed
    with IH False show ?thesis by (cases "key r") (auto simp: unique_opt_def set_map_filter_iff)
  qed
qed

section \<open>Rows that keep their head\<close>

definition same_head :: "document \<Rightarrow> document \<Rightarrow> bool" where
  "same_head d' d \<longleftrightarrow>
     dc_id d' = dc_id d \<and> dc_uid d' = dc_uid d \<and> dc_current d' = dc_current d \<and> dc_version d' = dc_version d
     \<and> dc_file_type d' = dc_file_type d \<and> dc_content d' = dc_content d"

definition frame_ok :: "runbook_db \<Rightarrow> (document \<Rightarrow> document) \<Rightarrow> runbook_db \<Rightarrow> bool" where
  "frame_ok db g db' \<longleftrightarrow>
     keyed_rows (rd_seq db) rb_id (rd_runbooks db') \<and> keyed_rows (rd_seq db) sec_id (rd_sections db')
     \<and> distinct (map rb_slug (rd_runbooks db')) \<and> distinct (map (\<lambda>s. (sec_runbook s, sec_slug s)) (rd_sections db'))
     \<and> (\<forall>s \<in> set (rd_sections db'). sec_runbook s \<in> rb_id ` set (rd_runbooks db'))
     \<and> (\<forall>d \<in> set (rd_documents db). home_ok (rd_runbooks db') (rd_sections db') (g d))
     \<and> unique_opt doc_place (map g (rd_documents db))"

lemma head_ok_same: "same_head d' d \<Longrightarrow> head_ok vs d' = head_ok vs d"
  by (simp add: same_head_def head_ok_def)

lemma doc_head_same: "same_head d' d \<Longrightarrow> doc_head_ok N vs d' = doc_head_ok N vs d"
  using head_ok_same [of d' d vs] by (simp add: same_head_def doc_head_ok_def)

lemma heads_same:
  assumes "rd_documents db' = map g (rd_documents db)" and "\<And>d. d \<in> set (rd_documents db) \<Longrightarrow> same_head (g d) d"
  shows "heads db' = heads db"
  using assms by (auto simp: heads_def same_head_def)

lemma history_same:
  "rd_seq db \<le> rd_seq db' \<Longrightarrow> rd_versions db' = rd_versions db \<Longrightarrow> heads db' \<subseteq> heads db \<Longrightarrow> history_kept db db'"
  by (auto simp: history_kept_def)

lemma keeps_docs:
  assumes same: "rd_seq db' = rd_seq db" "rd_versions db' = rd_versions db" "rd_images db' = rd_images db"
      "rd_subs db' = rd_subs db"
    and docs: "rd_documents db' = map g (rd_documents db)"
    and g: "\<And>d. d \<in> set (rd_documents db) \<Longrightarrow> same_head (g d) d"
    and frame: "ok_except N db \<Longrightarrow> frame_ok db g db'"
  shows "keeps_from N N db db'"
  unfolding keeps_from_def
proof
  assume ok: "ok_except N db"
  have ids: "map dc_id (map g (rd_documents db)) = map dc_id (rd_documents db)"
    and uids: "map dc_uid (map g (rd_documents db)) = map dc_uid (rd_documents db)"
    using g by (simp_all add: same_head_def)
  then have set_ids: "dc_id ` set (rd_documents db') = dc_id ` set (rd_documents db)"
    using docs by (metis list.set_map)
  have rows: "rows_ok db'"
    using ok frame [OF ok] g by (simp add: ok_except_def rows_ok_def frame_ok_def same docs keyed_rows_map same_head_def)
  have "distinct (map dc_uid (map g (rd_documents db)))"
    unfolding uids using ok by (simp add: ok_except_def names_ok_def)
  then have "names_ok db'"
    using frame [OF ok] unfolding names_ok_def frame_ok_def docs by blast
  moreover have "places_ok db'"
    using frame [OF ok] by (auto simp: places_ok_def frame_ok_def docs)
  moreover have "\<forall>d \<in> set (rd_documents db). doc_head_ok N (rd_versions db) (g d)"
    using ok doc_head_same [OF g] by (auto simp: ok_except_def heads_except_def)
  then have "heads_except N db'"
    using ok unfolding ok_except_def heads_except_def same version_ok_def set_ids by (simp add: docs)
  moreover have "attached_ok db'"
    using ok unfolding ok_except_def attached_ok_def same set_ids by blast
  moreover have "history_kept db db'"
    using same heads_same [OF docs g] by (intro history_same) simp_all
  ultimately show "ok_except N db' \<and> history_kept db db'" using rows by (simp add: ok_except_def)
qed

text \<open>Tables other than documents, versions and their homes do not matter.\<close>

lemma keeps_log:
  assumes "rd_seq db' = rd_seq db" "rd_runbooks db' = rd_runbooks db" "rd_sections db' = rd_sections db"
    "rd_documents db' = rd_documents db" "rd_versions db' = rd_versions db" "rd_images db' = rd_images db"
    "ok_except N db \<Longrightarrow> set (rd_subs db') \<subseteq> set (rd_subs db) \<and> distinct (rd_subs db')"
  shows "keeps_from N N db db'"
  unfolding keeps_from_def
proof
  assume ok: "ok_except N db"
  have subs: "set (rd_subs db') \<subseteq> set (rd_subs db)" "distinct (rd_subs db')" using assms(7) [OF ok] by simp_all
  have "attached_ok db'" using ok assms(4,6) subs unfolding ok_except_def attached_ok_def by fastforce
  with ok assms(1-6) have "ok_except N db'"
    by (simp add: ok_except_def rows_ok_def names_ok_def places_ok_def heads_except_def)
  moreover have "history_kept db db'" using assms by (intro history_same) (auto simp: heads_def)
  ultimately show "ok_except N db' \<and> history_kept db db'" ..
qed

lemma keeps_emit: "keeps_from N N db (emit e db)"
  by (rule keeps_log) (simp_all add: emit_def ok_except_def attached_ok_def)

text \<open>Saving one row in place: its home stays valid and its place free.\<close>

lemma frame_ok_same: "ok_except N db \<Longrightarrow> rd_runbooks db' = rd_runbooks db \<Longrightarrow> rd_sections db' = rd_sections db \<Longrightarrow>
    (\<And>d. d \<in> set (rd_documents db) \<Longrightarrow> home_ok (rd_runbooks db) (rd_sections db) (g d)) \<Longrightarrow>
    unique_opt doc_place (map g (rd_documents db)) \<Longrightarrow> frame_ok db g db'"
  by (simp add: frame_ok_def ok_except_def rows_ok_def names_ok_def places_ok_def)

lemma home_ok_cong: "dc_runbook d' = dc_runbook d \<Longrightarrow> dc_section d' = dc_section d \<Longrightarrow> home_ok rbs ss d' = home_ok rbs ss d"
  by (simp add: home_ok_def)

lemma doc_place_cong: "dc_runbook d' = dc_runbook d \<Longrightarrow> dc_key d' = dc_key d \<Longrightarrow> doc_place d' = doc_place d"
  by (simp add: doc_place_def)

lemma keeps_save_place:
  assumes g: "\<And>d. same_head (f d) d"
    and home: "\<And>d. ok_except N db \<Longrightarrow> d \<in> set (rd_documents db) \<Longrightarrow> dc_id d = n \<Longrightarrow>
      home_ok (rd_runbooks db) (rd_sections db) (f d)"
    and free: "\<And>d q. ok_except N db \<Longrightarrow> d \<in> set (rd_documents db) \<Longrightarrow> dc_id d = n \<Longrightarrow> q \<in> set (rd_documents db) \<Longrightarrow>
      dc_id q \<noteq> n \<Longrightarrow> doc_place q \<noteq> None \<Longrightarrow> doc_place (f d) \<noteq> doc_place q"
  shows "keeps_from N N db (save_document n f db)"
proof (rule keeps_docs [where g = "\<lambda>d. if dc_id d = n then f d else d"])
  assume ok: "ok_except N db"
  show "frame_ok db (\<lambda>d. if dc_id d = n then f d else d) (save_document n f db)"
  proof (rule frame_ok_same [OF ok])
    fix d assume "d \<in> set (rd_documents db)"
    with ok home show "home_ok (rd_runbooks db) (rd_sections db) (if dc_id d = n then f d else d)"
      by (auto simp: ok_except_def places_ok_def)
  next
    have "unique_opt doc_place (tbl_update (\<lambda>d. dc_id d = n) f (rd_documents db))"
      using ok free by (intro unique_opt_update_one) (auto simp: ok_except_def names_ok_def rows_ok_def keyed_rows_def)
    then show "unique_opt doc_place (map (\<lambda>d. if dc_id d = n then f d else d) (rd_documents db))"
      by (simp add: tbl_update_def)
  qed (simp_all add: save_document_def)
qed (simp_all add: save_document_def tbl_update_def g, simp add: same_head_def)

lemma keeps_save:
  assumes "\<And>d. same_head (f d) d \<and> dc_runbook (f d) = dc_runbook d \<and> dc_section (f d) = dc_section d \<and> dc_key (f d) = dc_key d"
  shows "keeps_from N N db (save_document n f db)"
proof (rule keeps_save_place)
  fix d assume "ok_except N db" "d \<in> set (rd_documents db)"
  then show "home_ok (rd_runbooks db) (rd_sections db) (f d)"
    using assms [of d] home_ok_cong [of "f d" d] by (simp add: ok_except_def places_ok_def)
next
  fix d q assume ok: "ok_except N db" and d: "d \<in> set (rd_documents db)" "dc_id d = n"
    and q: "q \<in> set (rd_documents db)" "dc_id q \<noteq> n" "doc_place q \<noteq> None"
  from assms [of d] have "doc_place (f d) = doc_place d" by (intro doc_place_cong) simp_all
  with d q ok show "doc_place (f d) \<noteq> doc_place q"
    by (auto simp: ok_except_def names_ok_def dest: unique_opt_inj)
qed (simp add: assms)

section \<open>Versions\<close>

lemma found_row:
  "find_version c db = Some v \<Longrightarrow> v \<in> set (rd_versions db) \<and> ver_id v = c"
  "find_document n db = Some d \<Longrightarrow> d \<in> set (rd_documents db) \<and> dc_id d = n"
  "find_runbook n db = Some rb \<Longrightarrow> rb \<in> set (rd_runbooks db) \<and> rb_id rb = n"
  "find_section n db = Some s \<Longrightarrow> s \<in> set (rd_sections db) \<and> sec_id s = n"
  by (auto simp: find_version_def find_document_def find_runbook_def find_section_def dest: tbl_find_Some)

lemma found_version_iff:
  assumes "ok_except N db"
  shows "find_version c db = Some v \<longleftrightarrow> v \<in> set (rd_versions db) \<and> ver_id v = c"
  using assms keyed_find [of "rd_seq db" ver_id "rd_versions db" v] found_row(1)
  by (auto simp: ok_except_def rows_ok_def find_version_def)

lemma document_unique:
  "ok_except N db \<Longrightarrow> d \<in> set (rd_documents db) \<Longrightarrow> e \<in> set (rd_documents db) \<Longrightarrow> dc_id d = dc_id e \<Longrightarrow> d = e"
  by (auto simp: ok_except_def rows_ok_def intro: keyed_inj)

lemma found_document:
  "ok_except N db \<Longrightarrow> d \<in> set (rd_documents db) \<Longrightarrow> find_document (dc_id d) db = Some d"
  unfolding find_document_def by (rule keyed_find [of "rd_seq db"]) (auto simp: ok_except_def rows_ok_def)

text \<open>The head of a document, as a row.\<close>

lemma head_row:
  assumes "ok_except N db" "d \<in> set (rd_documents db)" "dc_id d \<notin> N"
  obtains v where "v \<in> set (rd_versions db)" "dc_current d = Some (ver_id v)" "ver_document v = dc_id d"
    "dc_version d = ver_version v" "dc_content d = ver_content v" "find_version (ver_id v) db = Some v"
    "\<forall>w \<in> set (rd_versions db). ver_document w = dc_id d \<longrightarrow> ver_version w \<le> ver_version v"
proof -
  from assms have "doc_head_ok N (rd_versions db) d" by (simp add: ok_except_def heads_except_def)
  with assms(3) have "head_ok (rd_versions db) d" by (simp add: doc_head_ok_def)
  then obtain v where "v \<in> set (rd_versions db)" "dc_current d = Some (ver_id v)" "ver_document v = dc_id d"
    "dc_version d = ver_version v" "dc_content d = ver_content v"
    "\<forall>w \<in> set (rd_versions db). ver_document w = dc_id d \<longrightarrow> ver_version w \<le> ver_version v"
    unfolding head_ok_def by blast
  moreover from this(1) have "find_version (ver_id v) db = Some v" using found_version_iff [OF assms(1)] by blast
  ultimately show ?thesis by (intro that)
qed

lemma next_version_value:
  assumes "ok_except N db" "d \<in> set (rd_documents db)"
  shows "next_version d db = Some (if dc_id d \<in> N then 1 else dc_version d + 1)"
proof (cases "dc_id d \<in> N")
  case True
  with assms have "dc_current d = None" by (auto simp: ok_except_def heads_except_def doc_head_ok_def)
  with True show ?thesis by (simp add: next_version_def)
next
  case False
  from assms False obtain v where "dc_current d = Some (ver_id v)" "dc_version d = ver_version v"
      "find_version (ver_id v) db = Some v" by (rule head_row)
  with False show ?thesis by (simp add: next_version_def)
qed

lemma version_numbers_below:
  assumes "ok_except N db" "d \<in> set (rd_documents db)" "v \<in> set (rd_versions db)" "ver_document v = dc_id d"
  shows "ver_version v < (if dc_id d \<in> N then 1 else dc_version d + 1)"
proof (cases "dc_id d \<in> N")
  case True
  with assms show ?thesis by (auto simp: ok_except_def heads_except_def doc_head_ok_def)
next
  case False
  from assms(1,2) False obtain h where "h \<in> set (rd_versions db)" "dc_version d = ver_version h"
      "\<forall>w \<in> set (rd_versions db). ver_document w = dc_id d \<longrightarrow> ver_version w \<le> ver_version h"
    by (rule head_row)
  with assms(3,4) have "ver_version v \<le> dc_version d" by simp
  with False show ?thesis by simp
qed

definition new_version ::
    "instant \<Rightarrow> string \<Rightarrow> nat option \<Rightarrow> string \<Rightarrow> string \<Rightarrow> string \<Rightarrow> document \<Rightarrow> int \<Rightarrow> nat \<Rightarrow> doc_version" where
  "new_version now body created_by description source via d n pk =
     \<lparr>ver_id = pk, ver_document = dc_id d, ver_version = n, ver_body = body, ver_file_type = ''md'',
      ver_content = strip_frontmatter body, ver_title = dc_title d, ver_description = description,
      ver_source = source, ver_via = via, ver_created_by = created_by, ver_created = now\<rparr>"

text \<open>On a row of the tables a new version is always stored, with the next number.\<close>

lemma create_new_version_row:
  assumes ok: "ok_except N db" and d: "d \<in> set (rd_documents db)"
    and v_def: "v = new_version now body created_by description source via d
      (if dc_id d \<in> N then 1 else dc_version d + 1) (rd_seq db)"
  shows "create_new_version now body created_by description source via d db =
    Inr (sync_head now v d, save_document (dc_id d) (sync_head now v)
      (db\<lparr>rd_seq := Suc (rd_seq db), rd_versions := rd_versions db @ [v]\<rparr>))"
proof -
  have "\<not> list_ex (\<lambda>v. ver_document v = dc_id d \<and> ver_version v = (if dc_id d \<in> N then 1 else dc_version d + 1))
      (rd_versions db)"
    using version_numbers_below [OF ok d] by (fastforce simp: list_ex_iff)
  then show ?thesis
    using next_version_value [OF ok d] found_document [OF ok d]
    by (simp add: create_new_version_def v_def new_version_def Let_def)
qed

lemma save_document_rows:
  "rd_documents (save_document n f db) = tbl_update (\<lambda>r. dc_id r = n) f (rd_documents db)"
  "rd_versions (save_document n f db) = rd_versions db" "rd_seq (save_document n f db) = rd_seq db"
  "rd_runbooks (save_document n f db) = rd_runbooks db" "rd_sections (save_document n f db) = rd_sections db"
  "rd_images (save_document n f db) = rd_images db" "rd_subs (save_document n f db) = rd_subs db"
  by (simp_all add: save_document_def)

lemma update_places:
  assumes "\<And>d. dc_runbook (f d) = dc_runbook d \<and> dc_key (f d) = dc_key d"
  shows "unique_opt doc_place (tbl_update P f ds) = unique_opt doc_place ds"
proof -
  have "doc_place (f d) = doc_place d" for d using assms by (intro doc_place_cong) simp_all
  then show ?thesis by (simp add: unique_opt_def map_filter_tbl_update)
qed

lemma sync_head_simps [simp]:
  "dc_id (sync_head now v d) = dc_id d" "dc_uid (sync_head now v d) = dc_uid d"
  "dc_runbook (sync_head now v d) = dc_runbook d" "dc_section (sync_head now v d) = dc_section d"
  "dc_key (sync_head now v d) = dc_key d" "dc_current (sync_head now v d) = Some (ver_id v)"
  "dc_version (sync_head now v d) = ver_version v" "dc_file_type (sync_head now v d) = ver_file_type v"
  "dc_content (sync_head now v d) = ver_content v" "dc_locked (sync_head now v d) = dc_locked d"
  "dc_title (sync_head now v d) = dc_title d" "dc_archived (sync_head now v d) = dc_archived d"
  by (simp_all add: sync_head_def)

lemma new_version_simps [simp]:
  "ver_id (new_version now body cb desc source via d n pk) = pk"
  "ver_document (new_version now body cb desc source via d n pk) = dc_id d"
  "ver_version (new_version now body cb desc source via d n pk) = n"
  "ver_body (new_version now body cb desc source via d n pk) = body"
  "ver_file_type (new_version now body cb desc source via d n pk) = ''md''"
  "ver_content (new_version now body cb desc source via d n pk) = strip_frontmatter body"
  by (simp_all add: new_version_def)

lemma keeps_add_version:
  assumes d: "d \<in> set (rd_documents db)" and v: "ver_id v = rd_seq db" "ver_document v = dc_id d"
      "ver_file_type v = ''md''" "ver_content v = strip_frontmatter (ver_body v)"
      "ver_version v = (if dc_id d \<in> N then 1 else dc_version d + 1)"
  shows "keeps_from N (N - {dc_id d}) db (save_document (dc_id d) (sync_head now v)
      (db\<lparr>rd_seq := Suc (rd_seq db), rd_versions := rd_versions db @ [v]\<rparr>))" (is "keeps_from _ _ _ ?db'")
  unfolding keeps_from_def
proof
  assume ok: "ok_except N db"
  have below: "ver_version w < ver_version v" if "w \<in> set (rd_versions db)" "ver_document w = dc_id d" for w
    using version_numbers_below [OF ok d that] v(5) by simp
  have ids: "map dc_id (rd_documents ?db') = map dc_id (rd_documents db)"
    by (simp add: save_document_rows map_tbl_update)
  then have set_ids: "dc_id ` set (rd_documents ?db') = dc_id ` set (rd_documents db)" by (metis list.set_map)
  have pos: "1 \<le> ver_version v"
  proof (cases "dc_id d \<in> N")
    case False
    from ok d False obtain h where "h \<in> set (rd_versions db)" "dc_version d = ver_version h" by (rule head_row)
    with ok v(5) False show ?thesis by (auto simp: ok_except_def heads_except_def version_ok_def)
  qed (simp add: v)
  have "rows_ok ?db'"
    using ok v(1) by (simp add: ok_except_def rows_ok_def save_document_rows keyed_rows_snoc keyed_rows_Suc keyed_rows_update)
  moreover have "names_ok ?db'"
    using ok by (simp add: ok_except_def names_ok_def save_document_rows map_tbl_update update_places)
  moreover have "places_ok ?db'"
  proof -
    have "home_ok rbs ss (sync_head now v e) = home_ok rbs ss e" for rbs ss e by (rule home_ok_cong) simp_all
    with ok show ?thesis by (auto simp: ok_except_def places_ok_def save_document_rows tbl_update_def)
  qed
  moreover have "heads_except (N - {dc_id d}) ?db'"
    unfolding heads_except_def
  proof (intro conjI)
    show "\<forall>w \<in> set (rd_versions ?db'). version_ok (rd_documents ?db') w"
      using ok v pos d unfolding ok_except_def heads_except_def version_ok_def set_ids
      by (auto simp: save_document_rows)
    show "distinct (map (\<lambda>w. (ver_document w, ver_version w)) (rd_versions ?db'))"
      using ok below v(2) by (fastforce simp: ok_except_def heads_except_def save_document_rows)
    show "\<forall>e \<in> set (rd_documents ?db'). doc_head_ok (N - {dc_id d}) (rd_versions ?db') e"
    proof
      fix e assume "e \<in> set (rd_documents ?db')"
      then obtain e0 where e0: "e0 \<in> set (rd_documents db)"
          "(dc_id e0 = dc_id d \<and> e = sync_head now v e0) \<or> (dc_id e0 \<noteq> dc_id d \<and> e = e0)"
        unfolding save_document_rows set_tbl_update by auto
      from e0(2) show "doc_head_ok (N - {dc_id d}) (rd_versions ?db') e"
      proof (elim disjE conjE)
        assume "dc_id e0 = dc_id d" "e = sync_head now v e0"
        then show ?thesis using v below by (auto simp: doc_head_ok_def head_ok_def save_document_rows less_imp_le)
      next
        assume ne: "dc_id e0 \<noteq> dc_id d" "e = e0"
        from ok e0(1) have "doc_head_ok N (rd_versions db) e0" by (auto simp: ok_except_def heads_except_def)
        with ne v(2) show ?thesis by (auto simp: doc_head_ok_def head_ok_def save_document_rows)
      qed
    qed
  qed
  moreover have "attached_ok ?db'"
    using ok unfolding ok_except_def attached_ok_def set_ids by (simp add: save_document_rows)
  moreover have "history_kept db ?db'"
  proof -
    have "c \<in> heads db" if "c \<in> heads ?db'" "c < rd_seq db" for c
      using that v(1) unfolding heads_def save_document_rows by (fastforce simp: set_tbl_update)
    then show ?thesis using v(1) by (auto simp: history_kept_def save_document_rows)
  qed
  ultimately show "ok_except (N - {dc_id d}) ?db' \<and> history_kept db ?db'" by (simp add: ok_except_def)
qed

lemma keeps_overwrite:
  assumes d: "d \<in> set (rd_documents db)" "dc_current d = Some c"
    and f: "\<And>v. ver_id (f v) = ver_id v \<and> ver_document (f v) = ver_document v \<and> ver_version (f v) = ver_version v
       \<and> ver_file_type (f v) = ver_file_type v \<and> ver_content (f v) = strip_frontmatter (ver_body (f v))"
    and content: "\<And>v. ver_content (f v) = content"
    and N: "dc_id d \<notin> N"
  shows "keeps_from N N db (save_document (dc_id d) (\<lambda>r. r\<lparr>dc_content := content, dc_updated := now\<rparr>) (save_version c f db))"
    (is "keeps_from _ _ _ ?db'")
  unfolding keeps_from_def
proof
  assume ok: "ok_except N db"
  obtain h where h: "h \<in> set (rd_versions db)" "dc_current d = Some (ver_id h)" "ver_document h = dc_id d"
      "dc_version d = ver_version h" using ok d(1) N by (rule head_row)
  let ?u = "\<lambda>r. r\<lparr>dc_content := content, dc_updated := now\<rparr>"
  have vs: "rd_versions ?db' = tbl_update (\<lambda>v. ver_id v = c) f (rd_versions db)"
    and ds: "rd_documents ?db' = tbl_update (\<lambda>r. dc_id r = dc_id d) ?u (rd_documents db)"
    by (simp_all add: save_document_def save_version_def)
  have rest: "rd_seq ?db' = rd_seq db" "rd_runbooks ?db' = rd_runbooks db" "rd_sections ?db' = rd_sections db"
      "rd_images ?db' = rd_images db" "rd_subs ?db' = rd_subs db"
    by (simp_all add: save_document_def save_version_def)
  have "map dc_id (rd_documents ?db') = map dc_id (rd_documents db)" unfolding ds by (rule map_tbl_update) simp
  then have set_ids: "dc_id ` set (rd_documents ?db') = dc_id ` set (rd_documents db)" by (metis list.set_map)
  have "rows_ok ?db'"
    using ok f by (simp add: ok_except_def rows_ok_def rest vs ds keyed_rows_update)
  moreover have "names_ok ?db'"
    using ok by (simp add: ok_except_def names_ok_def rest ds map_tbl_update update_places)
  moreover have "places_ok ?db'"
  proof -
    have "home_ok rbs ss (?u e) = home_ok rbs ss e" for rbs ss e by (rule home_ok_cong) simp_all
    with ok show ?thesis by (auto simp: ok_except_def places_ok_def rest ds tbl_update_def)
  qed
  moreover have "heads_except N ?db'"
    unfolding heads_except_def
  proof (intro conjI)
    show "\<forall>w \<in> set (rd_versions ?db'). version_ok (rd_documents ?db') w"
      using ok f unfolding ok_except_def heads_except_def version_ok_def set_ids by (auto simp: vs tbl_update_def)
    have "map (\<lambda>w. (ver_document w, ver_version w)) (rd_versions ?db') = map (\<lambda>w. (ver_document w, ver_version w)) (rd_versions db)"
      unfolding vs using f by (intro map_tbl_update) simp
    then show "distinct (map (\<lambda>w. (ver_document w, ver_version w)) (rd_versions ?db'))"
      using ok by (simp add: ok_except_def heads_except_def)
    show "\<forall>e \<in> set (rd_documents ?db'). doc_head_ok N (rd_versions ?db') e"
    proof
      fix e assume "e \<in> set (rd_documents ?db')"
      then obtain e0 where e0: "e0 \<in> set (rd_documents db)"
          "(dc_id e0 = dc_id d \<and> e = ?u e0) \<or> (dc_id e0 \<noteq> dc_id d \<and> e = e0)"
        unfolding ds set_tbl_update by auto
      from ok e0(1) have old: "doc_head_ok N (rd_versions db) e0" by (auto simp: ok_except_def heads_except_def)
      have bound: "\<forall>w \<in> set (rd_versions ?db'). ver_document w = dc_id e0 \<longrightarrow> ver_version w \<le> n"
        if "\<forall>w \<in> set (rd_versions db). ver_document w = dc_id e0 \<longrightarrow> ver_version w \<le> n" for n
        using that f by (auto simp: vs tbl_update_def)
      show "doc_head_ok N (rd_versions ?db') e"
      proof (cases "dc_id e0 = dc_id d")
        case True
        with e0 d(1) ok have e0d: "e0 = d" by (auto intro: document_unique)
        then have e: "e = ?u d" using e0 by simp
        have hv: "f h \<in> set (rd_versions ?db')" unfolding vs set_tbl_update using h d(2) by fastforce
        have "head_ok (rd_versions db) d" using old N e0d by (simp add: doc_head_ok_def)
        then have "\<forall>w \<in> set (rd_versions db). ver_document w = dc_id d \<longrightarrow> ver_version w \<le> ver_version h"
          and "dc_file_type d = ver_file_type h"
          using h ok by (auto simp: head_ok_def ok_except_def rows_ok_def dest: keyed_inj)
        with bound [of "ver_version h"] h f [of h] content [of h] hv N e0d show ?thesis
          by (auto simp: e doc_head_ok_def head_ok_def intro!: bexI [of _ "f h"])
      next
        case False
        with e0 have e: "e = e0" by simp
        show ?thesis
        proof (cases "dc_id e0 \<in> N")
          case True
          with old f show ?thesis by (auto simp: e doc_head_ok_def vs tbl_update_def)
        next
          case ne: False
          with old obtain g where g: "g \<in> set (rd_versions db)" "dc_current e0 = Some (ver_id g)"
              "ver_document g = dc_id e0" "dc_version e0 = ver_version g" "dc_file_type e0 = ver_file_type g"
              "dc_content e0 = ver_content g"
              "\<forall>w \<in> set (rd_versions db). ver_document w = dc_id e0 \<longrightarrow> ver_version w \<le> ver_version g"
            by (auto simp: doc_head_ok_def head_ok_def)
          have "ver_id g \<noteq> c"
          proof
            assume "ver_id g = c"
            with h d(2) g(1) ok have "g = h" by (auto simp: ok_except_def rows_ok_def intro: keyed_inj)
            with g(3) h(3) False show False by simp
          qed
          with g(1) have "g \<in> set (rd_versions ?db')" by (force simp: vs tbl_update_def)
          with g bound [OF g(7)] ne show ?thesis by (auto simp: e doc_head_ok_def head_ok_def)
        qed
      qed
    qed
  qed
  moreover have "attached_ok ?db'" using ok unfolding ok_except_def attached_ok_def set_ids rest by blast
  moreover have "history_kept db ?db'"
    unfolding history_kept_def
  proof (intro conjI ballI impI)
    fix w assume "w \<in> set (rd_versions ?db')"
    then obtain v where "v \<in> set (rd_versions db)" "(ver_id v = c \<and> w = f v) \<or> (ver_id v \<noteq> c \<and> w = v)"
      unfolding vs set_tbl_update by auto
    with f d show "\<exists>v\<in>set (rd_versions db). ver_id v = ver_id w \<and> ver_document v = ver_document w
        \<and> ver_version v = ver_version w \<and> (w = v \<or> ver_id v \<in> heads db)"
      by (auto simp: heads_def intro!: bexI [of _ v])
  next
    fix k assume "k \<in> heads ?db'"
    then show "k \<in> heads db" by (auto simp: heads_def ds tbl_update_def split: if_splits)
  qed (simp add: rest)
  ultimately show "ok_except N ?db' \<and> history_kept db ?db'" by (simp add: ok_except_def)
qed

section \<open>Inserting and deleting rows\<close>

lemma home_ok_mono: "home_ok rbs ss d \<Longrightarrow> set rbs \<subseteq> set rbs' \<Longrightarrow> set ss \<subseteq> set ss' \<Longrightarrow> home_ok rbs' ss' d"
  unfolding home_ok_def by blast

text \<open>A new document has no version yet.\<close>

lemma insert_document_row:
  assumes "insert_document env d0 db = Inr (d, db')"
  shows "dc_id d = rd_seq db \<and> dc_current d = dc_current d0 \<and> dc_runbook d = dc_runbook d0 \<and> dc_section d = dc_section d0
      \<and> dc_key d = dc_key d0 \<and> dc_locked d = dc_locked d0 \<and> dc_title d = dc_title d0 \<and> dc_archived d = dc_archived d0"
    "db' = db\<lparr>rd_seq := Suc (rd_seq db), rd_documents := rd_documents db @ [d]\<rparr>"
    "\<not> key_taken (dc_id d) (dc_runbook d) (dc_key d) db" "dc_uid d \<notin> dc_uid ` set (rd_documents db)"
  using assms by (auto simp: insert_document_def Let_def list_ex_iff split: if_splits)

lemma new_row_ids:
  "ok_except N db \<Longrightarrow> d \<in> set (rd_documents db) \<Longrightarrow> dc_id d < rd_seq db"
  "ok_except N db \<Longrightarrow> v \<in> set (rd_versions db) \<Longrightarrow> ver_id v < rd_seq db"
  "ok_except N db \<Longrightarrow> v \<in> set (rd_versions db) \<Longrightarrow> ver_document v \<in> dc_id ` set (rd_documents db)"
  by (auto simp: ok_except_def rows_ok_def keyed_rows_def heads_except_def version_ok_def)

lemma place_taken:
  "doc_place q \<noteq> None \<Longrightarrow> q \<in> set (rd_documents db) \<Longrightarrow> dc_id q \<noteq> n \<Longrightarrow> doc_place d = doc_place q \<Longrightarrow>
    key_taken n (dc_runbook d) (dc_key d) db"
  by (auto simp: doc_place_def key_taken_def list_ex_iff split: option.splits)

lemma keeps_insert_document:
  assumes ins: "insert_document env d0 db = Inr (d, db')"
    and home: "ok_except N db \<Longrightarrow> home_ok (rd_runbooks db) (rd_sections db) d" and fresh: "dc_current d0 = None"
  shows "keeps_from N (insert (dc_id d) N) db db'"
  unfolding keeps_from_def
proof
  assume ok: "ok_except N db"
  note row = insert_document_row [OF ins]
  have id: "dc_id d = rd_seq db" and cur: "dc_current d = None" using row(1) fresh by simp_all
  have new: "dc_id e \<noteq> rd_seq db" if "e \<in> set (rd_documents db)" for e using new_row_ids(1) [OF ok that] by simp
  have "rows_ok db'" using ok id by (simp add: ok_except_def rows_ok_def row(2) keyed_rows_snoc keyed_rows_Suc)
  moreover have "names_ok db'"
  proof -
    have "doc_place q \<noteq> doc_place d" if "q \<in> set (rd_documents db)" "doc_place d \<noteq> None" for q
      using place_taken [of q db "dc_id d" d] that new [OF that(1)] row(3) id by auto
    then have "unique_opt doc_place (rd_documents db @ [d])"
      using ok by (auto simp: unique_opt_snoc ok_except_def names_ok_def)
    then show ?thesis using ok row(4) by (simp add: ok_except_def names_ok_def row(2))
  qed
  moreover have "places_ok db'" using ok home [OF ok] by (simp add: ok_except_def places_ok_def row(2))
  moreover have "heads_except (insert (dc_id d) N) db'"
  proof -
    have "doc_head_ok (insert (dc_id d) N) (rd_versions db) e" if "e \<in> set (rd_documents db)" for e
      using ok that new [OF that] id by (simp add: ok_except_def heads_except_def doc_head_ok_def)
    moreover have "doc_head_ok (insert (dc_id d) N) (rd_versions db) d"
    proof -
      have "ver_document v \<noteq> rd_seq db" if "v \<in> set (rd_versions db)" for v
        using new_row_ids(3) [OF ok that] new by (metis imageE)
      with cur id show ?thesis by (simp add: doc_head_ok_def)
    qed
    ultimately show ?thesis
      using ok by (auto simp: ok_except_def heads_except_def row(2) version_ok_def)
  qed
  moreover have "attached_ok db'" using ok by (auto simp: ok_except_def attached_ok_def row(2))
  moreover have "history_kept db db'"
    using cur by (intro history_same) (auto simp: row(2) heads_def)
  ultimately show "ok_except (insert (dc_id d) N) db' \<and> history_kept db db'" by (simp add: ok_except_def)
qed

lemma insert_image_simps:
  "fst (insert_image now n filename data alt actor db) =
    \<lparr>img_id = rd_seq db, img_document = n, img_ext = stored_ext filename, img_data = data, img_alt = alt,
     img_uploaded_by = actor_id actor, img_created = now\<rparr>"
  "snd (insert_image now n filename data alt actor db) =
    db\<lparr>rd_seq := Suc (rd_seq db), rd_images := rd_images db @ [fst (insert_image now n filename data alt actor db)]\<rparr>"
  by (simp_all add: insert_image_def Let_def)

lemma keeps_insert_image:
  assumes "n \<in> dc_id ` set (rd_documents db)"
  shows "keeps_from N N db (snd (insert_image now n filename data alt actor db))" (is "keeps_from _ _ _ ?db'")
  unfolding keeps_from_def
proof
  assume ok: "ok_except N db"
  have "rows_ok ?db'" using ok
    by (simp add: ok_except_def rows_ok_def insert_image_simps keyed_rows_snoc keyed_rows_Suc)
  moreover have "names_ok ?db' \<and> places_ok ?db' \<and> heads_except N ?db'"
    using ok by (simp add: ok_except_def names_ok_def places_ok_def heads_except_def insert_image_simps)
  moreover have "attached_ok ?db'" using ok assms by (simp add: ok_except_def attached_ok_def insert_image_simps)
  moreover have "history_kept db ?db'" by (intro history_same) (simp_all add: insert_image_simps heads_def)
  ultimately show "ok_except N ?db' \<and> history_kept db ?db'" by (simp add: ok_except_def)
qed

lemma distinct_map_filterI: "distinct (map f xs) \<Longrightarrow> distinct (map f (filter P xs))"
  by (induction xs) auto

lemma unique_opt_filter: "unique_opt key rows \<Longrightarrow> unique_opt key (filter P rows)"
proof (induction rows)
  case (Cons r rows)
  then have "unique_opt key (filter P rows)" by (simp add: unique_opt_def split: option.splits)
  with Cons.prems show ?case by (cases "key r") (auto simp: unique_opt_def set_map_filter_iff)
qed simp

text \<open>Fewer documents, with what belongs to them, and fewer superseded versions.\<close>

lemma keeps_remove:
  assumes same: "rd_seq db' = rd_seq db" "rd_runbooks db' = rd_runbooks db" "rd_sections db' = rd_sections db"
    and docs: "rd_documents db' = filter (\<lambda>d. dc_id d \<notin> D) (rd_documents db)"
    and vers: "rd_versions db' = filter (\<lambda>v. ver_document v \<notin> D \<and> \<not> Q v) (rd_versions db)"
    and imgs: "rd_images db' = filter (\<lambda>i. img_document i \<notin> D) (rd_images db)"
    and subs: "rd_subs db' = filter (\<lambda>s. fst s \<notin> D) (rd_subs db)"
    and Q: "\<And>v d. ok_except N db \<Longrightarrow> d \<in> set (rd_documents db) \<Longrightarrow> dc_current d = Some (ver_id v) \<Longrightarrow> Q v \<Longrightarrow> False"
  shows "keeps_from N N db db'"
  unfolding keeps_from_def
proof
  assume ok: "ok_except N db"
  have "rows_ok db'"
    using ok by (simp add: ok_except_def rows_ok_def same docs vers imgs keyed_rows_filter)
  moreover have "names_ok db'"
    using ok by (simp add: ok_except_def names_ok_def same docs distinct_map_filterI unique_opt_filter)
  moreover have "places_ok db'" using ok by (simp add: ok_except_def places_ok_def same docs)
  moreover have "heads_except N db'"
    unfolding heads_except_def
  proof (intro conjI)
    show "\<forall>v \<in> set (rd_versions db'). version_ok (rd_documents db') v"
      using ok by (auto simp: ok_except_def heads_except_def version_ok_def docs vers)
    show "distinct (map (\<lambda>v. (ver_document v, ver_version v)) (rd_versions db'))"
      using ok by (simp add: ok_except_def heads_except_def vers distinct_map_filterI)
    show "\<forall>d \<in> set (rd_documents db'). doc_head_ok N (rd_versions db') d"
    proof
      fix d assume "d \<in> set (rd_documents db')"
      then have d: "d \<in> set (rd_documents db)" "dc_id d \<notin> D" by (auto simp: docs)
      with ok have old: "doc_head_ok N (rd_versions db) d" by (auto simp: ok_except_def heads_except_def)
      show "doc_head_ok N (rd_versions db') d"
      proof (cases "dc_id d \<in> N")
        case True
        with old show ?thesis by (auto simp: doc_head_ok_def vers)
      next
        case False
        with old obtain h where h: "h \<in> set (rd_versions db)" "dc_current d = Some (ver_id h)"
            "ver_document h = dc_id d" "dc_version d = ver_version h" "dc_file_type d = ver_file_type h"
            "dc_content d = ver_content h" "\<forall>w \<in> set (rd_versions db). ver_document w = dc_id d \<longrightarrow> ver_version w \<le> ver_version h"
          by (auto simp: doc_head_ok_def head_ok_def)
        with Q [OF ok d(1) h(2)] d(2) have "h \<in> set (rd_versions db')" by (auto simp: vers)
        moreover have "\<forall>w \<in> set (rd_versions db'). ver_document w = dc_id d \<longrightarrow> ver_version w \<le> ver_version h"
          using h(7) by (simp add: vers)
        ultimately show ?thesis using h False unfolding doc_head_ok_def head_ok_def by auto
      qed
    qed
  qed
  moreover have "attached_ok db'" using ok by (auto simp: ok_except_def attached_ok_def docs imgs subs)
  moreover have "history_kept db db'" by (auto simp: history_kept_def same vers docs heads_def)
  ultimately show "ok_except N db' \<and> history_kept db db'" by (simp add: ok_except_def)
qed

lemma keeps_delete_rows: "keeps_from N N db (delete_rows n db)"
proof (rule keeps_remove [where D = "{n}" and Q = "\<lambda>_. False"])
  show "rd_subs (delete_rows n db) = filter (\<lambda>s. fst s \<notin> {n}) (rd_subs db)"
    by (simp add: delete_rows_def)
qed (simp_all add: delete_rows_def)

text \<open>What a pruning gives up is a version of the document, never a head; so no row loses its head.\<close>

lemma doomed_row:
  assumes "v \<in> set (doomed_versions env now d db)"
  shows "v \<in> set (rd_versions db)" "ver_document v = dc_id d" "Some (ver_id v) \<noteq> dc_current d"
  using assms by (auto simp: doomed_versions_def versions_of_def Let_def)

lemma doomed_not_head:
  assumes ok: "ok_except {} db" and d: "d \<in> set (rd_documents db)"
    and e: "e \<in> set (rd_documents db)" "dc_current e = Some c"
  shows "c \<notin> ver_id ` set (doomed_versions env now d db)"
proof
  assume "c \<in> ver_id ` set (doomed_versions env now d db)"
  then obtain w where w: "w \<in> set (doomed_versions env now d db)" "ver_id w = c" by auto
  obtain h where h: "h \<in> set (rd_versions db)" "dc_current e = Some (ver_id h)" "ver_document h = dc_id e"
    using ok e(1) by (rule head_row) simp
  from h w doomed_row [OF w(1)] ok e(2) have "w = h" by (auto simp: ok_except_def rows_ok_def intro: keyed_inj)
  with h doomed_row [OF w(1)] have "dc_id e = dc_id d" by simp
  with ok e(1) d have "e = d" by (auto intro: document_unique)
  with doomed_row [OF w(1)] w(2) e(2) show False by simp
qed

lemma prune_documents:
  assumes ok: "ok_except {} db" and d: "d \<in> set (rd_documents db)"
  shows "rd_documents (fst (prune_versions env now d db)) = rd_documents db"
proof -
  have "\<not> dc_current r \<in> Some ` ver_id ` set (doomed_versions env now d db)" if "r \<in> set (rd_documents db)" for r
    using doomed_not_head [OF ok d that] by auto
  then show ?thesis by (simp add: prune_versions_def Let_def tbl_update_idle)
qed

lemma keeps_prune:
  assumes d: "d \<in> set (rd_documents db)"
  shows "keeps_from {} {} db (fst (prune_versions env now d db))"
proof -
  have "keeps_from {} {} db (fst (prune_versions env now d db))" if ok: "ok_except {} db"
  proof (rule keeps_remove [where D = "{}" and Q = "\<lambda>v. ver_id v \<in> ver_id ` set (doomed_versions env now d db)"])
    fix v e assume "e \<in> set (rd_documents db)" "dc_current e = Some (ver_id v)"
      "ver_id v \<in> ver_id ` set (doomed_versions env now d db)"
    then show False using doomed_not_head [OF ok d] by blast
  qed (use prune_documents [OF ok d] in \<open>simp_all add: prune_versions_def Let_def\<close>)
  then show ?thesis by (simp add: keeps_from_def)
qed

end
