(* ===== verification/Runbook_Steps.thy ===== *)
theory Runbook_Steps
  imports Runbook_Invariants
begin

text \<open>
  Every operation keeps the tables consistent and the history as it is: the operations of the
  service, the background work and the pages, and so every step of the machine.
\<close>

section \<open>Runbooks and sections\<close>

lemma frame_ok_D:
  assumes "ok_except N db"
  shows "keyed_rows (rd_seq db) rb_id (rd_runbooks db)" "keyed_rows (rd_seq db) sec_id (rd_sections db)"
    "distinct (map rb_slug (rd_runbooks db))" "distinct (map (\<lambda>s. (sec_runbook s, sec_slug s)) (rd_sections db))"
    "\<And>s. s \<in> set (rd_sections db) \<Longrightarrow> sec_runbook s \<in> rb_id ` set (rd_runbooks db)"
    "\<And>d. d \<in> set (rd_documents db) \<Longrightarrow> home_ok (rd_runbooks db) (rd_sections db) d"
    "unique_opt doc_place (rd_documents db)"
  using assms by (auto simp: ok_except_def rows_ok_def names_ok_def places_ok_def)

lemma same_head_refl [simp]: "same_head d d"
  by (simp add: same_head_def)

lemma home_ok_ids:
  assumes "rb_id ` set rbs' = rb_id ` set rbs"
    and "\<And>s. s \<in> set ss \<Longrightarrow> \<exists>s' \<in> set ss'. sec_id s' = sec_id s \<and> sec_runbook s' = sec_runbook s"
  shows "home_ok rbs ss d \<Longrightarrow> home_ok rbs' ss' d"
  using assms unfolding home_ok_def by metis

lemma keeps_save_runbook:
  assumes f: "\<And>r. rb_id (f r) = rb_id r" "\<And>r. rb_slug (f r) = rb_slug r"
  shows "keeps_from N N db (save_runbook n f db)" (is "keeps_from _ _ _ ?db'")
proof (rule keeps_docs [where g = "\<lambda>d. d"])
  assume ok: "ok_except N db"
  note frame = frame_ok_D [OF ok]
  have ids: "map rb_id (rd_runbooks ?db') = map rb_id (rd_runbooks db)"
    and slugs: "map rb_slug (rd_runbooks ?db') = map rb_slug (rd_runbooks db)"
    by (simp_all add: save_runbook_def map_tbl_update f)
  from ids have set_ids: "rb_id ` set (rd_runbooks ?db') = rb_id ` set (rd_runbooks db)" by (metis list.set_map)
  have "home_ok (rd_runbooks ?db') (rd_sections ?db') d" if "d \<in> set (rd_documents db)" for d
    by (rule home_ok_ids [OF set_ids _ frame(6) [OF that]]) (auto simp: save_runbook_def)
  moreover have "keyed_rows (rd_seq db) rb_id (rd_runbooks ?db')"
    using frame(1) f by (simp add: save_runbook_def keyed_rows_update)
  ultimately show "frame_ok db (\<lambda>d. d) ?db'"
    using frame unfolding frame_ok_def set_ids slugs by (auto simp: save_runbook_def)
qed (simp_all add: save_runbook_def)

lemma keeps_save_sections:
  assumes f: "\<And>s. sec_id (f s) = sec_id s" "\<And>s. sec_runbook (f s) = sec_runbook s" "\<And>s. sec_slug (f s) = sec_slug s"
  shows "keeps_from N N db (db\<lparr>rd_sections := tbl_update P f (rd_sections db)\<rparr>)" (is "keeps_from _ _ _ ?db'")
proof (rule keeps_docs [where g = "\<lambda>d. d"])
  assume ok: "ok_except N db"
  note frame = frame_ok_D [OF ok]
  have slugs: "map (\<lambda>s. (sec_runbook s, sec_slug s)) (rd_sections ?db') = map (\<lambda>s. (sec_runbook s, sec_slug s)) (rd_sections db)"
    using f by (simp add: map_tbl_update)
  have "home_ok (rd_runbooks ?db') (rd_sections ?db') d" if "d \<in> set (rd_documents db)" for d
  proof (rule home_ok_ids [OF _ _ frame(6) [OF that]])
    fix s assume "s \<in> set (rd_sections db)"
    then have "(if P s then f s else s) \<in> set (rd_sections ?db')" by (simp add: tbl_update_def)
    then show "\<exists>s' \<in> set (rd_sections ?db'). sec_id s' = sec_id s \<and> sec_runbook s' = sec_runbook s"
      by (rule rev_bexI) (simp add: f)
  qed simp
  moreover have "sec_runbook s \<in> rb_id ` set (rd_runbooks db)" if "s \<in> set (rd_sections ?db')" for s
    using that frame(5) f by (auto simp: tbl_update_def)
  moreover have "keyed_rows (rd_seq db) sec_id (rd_sections ?db')" using frame(2) f by (simp add: keyed_rows_update)
  ultimately show "frame_ok db (\<lambda>d. d) ?db'"
    using frame unfolding frame_ok_def slugs by auto
qed simp_all

lemma insert_runbook_row:
  assumes "insert_runbook env rb0 db = Inr (rb, db')"
  shows "rb_id rb = rd_seq db" "db' = db\<lparr>rd_seq := Suc (rd_seq db), rd_runbooks := rd_runbooks db @ [rb]\<rparr>"
    "rb_slug rb \<notin> rb_slug ` set (rd_runbooks db)" "rb_template rb = rb_template rb0" "rb_owner rb = rb_owner rb0"
    "rb_public rb = rb_public rb0" "rb_name rb = rb_name rb0"
  using assms by (auto simp: insert_runbook_def Let_def list_ex_iff split: if_splits)

lemma insert_section_row:
  assumes "insert_section env s0 db = Inr (s, db')"
  shows "sec_id s = rd_seq db" "db' = db\<lparr>rd_seq := Suc (rd_seq db), rd_sections := rd_sections db @ [s]\<rparr>"
    "(sec_runbook s, sec_slug s) \<notin> (\<lambda>s. (sec_runbook s, sec_slug s)) ` set (rd_sections db)"
    "sec_runbook s = sec_runbook s0" "sec_name s = sec_name s0" "sec_order s = sec_order s0"
  using assms by (auto simp: insert_section_def Let_def list_ex_iff split: if_splits)

lemma keeps_insert_runbook:
  assumes "insert_runbook env rb0 db = Inr (rb, db')"
  shows "keeps_from N N db db'"
  unfolding keeps_from_def
proof
  assume ok: "ok_except N db"
  note row = insert_runbook_row [OF assms]
  have "rows_ok db'" using ok row(1) by (simp add: ok_except_def rows_ok_def row(2) keyed_rows_snoc keyed_rows_Suc)
  moreover have "names_ok db'" using ok row(3) by (simp add: ok_except_def names_ok_def row(2))
  moreover have "places_ok db'"
  proof -
    have "home_ok (rd_runbooks db') (rd_sections db') d" if "d \<in> set (rd_documents db)" for d
      by (rule home_ok_mono [OF frame_ok_D(6) [OF ok that]]) (auto simp: row(2))
    with ok show ?thesis by (auto simp: ok_except_def places_ok_def row(2))
  qed
  moreover have "heads_except N db' \<and> attached_ok db'"
    using ok by (simp add: ok_except_def heads_except_def attached_ok_def row(2))
  moreover have "history_kept db db'" by (intro history_same) (simp_all add: row(2) heads_def)
  ultimately show "ok_except N db' \<and> history_kept db db'" by (simp add: ok_except_def)
qed

lemma keeps_insert_section:
  assumes "insert_section env s0 db = Inr (s, db')" "sec_runbook s0 \<in> rb_id ` set (rd_runbooks db)"
  shows "keeps_from N N db db'"
  unfolding keeps_from_def
proof
  assume ok: "ok_except N db"
  note row = insert_section_row [OF assms(1)]
  have "rows_ok db'" using ok row(1) by (simp add: ok_except_def rows_ok_def row(2) keyed_rows_snoc keyed_rows_Suc)
  moreover have "names_ok db'" using ok row(3) by (simp add: ok_except_def names_ok_def row(2))
  moreover have "places_ok db'"
  proof -
    have "home_ok (rd_runbooks db') (rd_sections db') d" if "d \<in> set (rd_documents db)" for d
      by (rule home_ok_mono [OF frame_ok_D(6) [OF ok that]]) (auto simp: row(2))
    with ok row(4) assms(2) show ?thesis by (auto simp: ok_except_def places_ok_def row(2))
  qed
  moreover have "heads_except N db' \<and> attached_ok db'"
    using ok by (simp add: ok_except_def heads_except_def attached_ok_def row(2))
  moreover have "history_kept db db'" by (intro history_same) (simp_all add: row(2) heads_def)
  ultimately show "ok_except N db' \<and> history_kept db db'" by (simp add: ok_except_def)
qed

lemma keeps_delete_section:
  "keeps_from N N db (db\<lparr>rd_sections := filter (\<lambda>r. sec_id r \<noteq> n) (rd_sections db),
     rd_documents := tbl_update (\<lambda>d. dc_section d = Some n) (\<lambda>d. d\<lparr>dc_section := None\<rparr>) (rd_documents db)\<rparr>)"
  (is "keeps_from _ _ _ ?db'")
proof (rule keeps_docs [where g = "\<lambda>d. if dc_section d = Some n then d\<lparr>dc_section := None\<rparr> else d"])
  assume ok: "ok_except N db"
  note frame = frame_ok_D [OF ok]
  let ?g = "\<lambda>d. if dc_section d = Some n then d\<lparr>dc_section := None\<rparr> else d"
  have "home_ok (rd_runbooks ?db') (rd_sections ?db') (?g d)" if "d \<in> set (rd_documents db)" for d
    using frame(6) [OF that] by (auto simp: home_ok_def)
  moreover have "unique_opt doc_place (map ?g (rd_documents db))"
  proof (rule unique_opt_map [OF frame(7)])
    show "doc_place (?g d) = doc_place d \<or> doc_place (?g d) = None" for d
      by (intro disjI1 doc_place_cong) simp_all
  qed
  ultimately show "frame_ok db ?g ?db'"
    using frame by (auto simp: frame_ok_def keyed_rows_filter distinct_map_filterI)
qed (simp_all add: tbl_update_def same_head_def)

lemma keeps_delete_runbook_row: "keeps_from N N db (delete_runbook_row n db)" (is "keeps_from _ _ _ ?db'")
proof -
  let ?gone = "\<lambda>s. \<exists>sec \<in> set (rd_sections db). sec_id sec = s \<and> sec_runbook sec = n"
  let ?g = "\<lambda>d. d\<lparr>dc_runbook := (if dc_runbook d = Some n then None else dc_runbook d),
      dc_section := (case dc_section d of Some s \<Rightarrow> if ?gone s then None else Some s | None \<Rightarrow> None)\<rparr>"
  show ?thesis
  proof (rule keeps_docs [where g = ?g])
    assume ok: "ok_except N db"
    note frame = frame_ok_D [OF ok]
    have "home_ok (rd_runbooks ?db') (rd_sections ?db') (?g d)" if "d \<in> set (rd_documents db)" for d
      unfolding home_ok_def
    proof (intro conjI allI impI)
      fix k assume "dc_runbook (?g d) = Some k"
      with frame(6) [OF that] show "k \<in> rb_id ` set (rd_runbooks ?db')"
        by (force simp: home_ok_def delete_runbook_row_def Let_def split: if_splits)
    next
      fix k assume k: "dc_section (?g d) = Some k"
      then have "dc_section d = Some k" "\<not> ?gone k" by (auto split: option.splits if_splits)
      with frame(6) [OF that] obtain s where "s \<in> set (rd_sections db)" "sec_id s = k"
          "dc_runbook d = None \<or> dc_runbook d = Some (sec_runbook s)" "sec_runbook s \<noteq> n"
        unfolding home_ok_def by blast
      then show "\<exists>s\<in>set (rd_sections ?db'). sec_id s = k \<and>
          (dc_runbook (?g d) = None \<or> dc_runbook (?g d) = Some (sec_runbook s))"
        by (auto simp: delete_runbook_row_def Let_def intro!: bexI [of _ s])
    qed
    moreover have "unique_opt doc_place (map ?g (rd_documents db))"
      by (rule unique_opt_map [OF frame(7)]) (simp add: doc_place_def)
    moreover have "sec_runbook s \<in> rb_id ` set (rd_runbooks ?db')" if "s \<in> set (rd_sections ?db')" for s
      using that frame(5) [of s] by (auto simp: delete_runbook_row_def Let_def)
    ultimately show "frame_ok db ?g ?db'"
      using frame(1-4) by (simp add: frame_ok_def delete_runbook_row_def Let_def keyed_rows_filter distinct_map_filterI)
  qed (simp_all add: delete_runbook_row_def Let_def same_head_def)
qed

section \<open>Versions and documents\<close>

lemma row_after_save: "d \<in> set (rd_documents db) \<Longrightarrow> f d \<in> set (rd_documents (save_document (dc_id d) f db))"
  by (force simp: save_document_def tbl_update_def)

lemma emit_tables [simp]:
  "rd_seq (emit e db) = rd_seq db" "rd_runbooks (emit e db) = rd_runbooks db" "rd_sections (emit e db) = rd_sections db"
  "rd_documents (emit e db) = rd_documents db" "rd_versions (emit e db) = rd_versions db"
  "rd_images (emit e db) = rd_images db" "rd_subs (emit e db) = rd_subs db" "rd_tasks (emit e db) = rd_tasks db"
  "rd_mails (emit e db) = rd_mails db"
  by (simp_all add: emit_def)

lemma keeps_create_new_version:
  assumes d: "d \<in> set (rd_documents db)"
    and r: "create_new_version now body created_by description source via d db = Inr (d', db')"
  shows "keeps_from N (N - {dc_id d}) db db'"
  unfolding keeps_from_def
proof
  assume ok: "ok_except N db"
  let ?v = "new_version now body created_by description source via d (if dc_id d \<in> N then 1 else dc_version d + 1) (rd_seq db)"
  have "db' = save_document (dc_id d) (sync_head now ?v)
      (db\<lparr>rd_seq := Suc (rd_seq db), rd_versions := rd_versions db @ [?v]\<rparr>)"
    using create_new_version_row [OF ok d refl] r by simp
  then show "ok_except (N - {dc_id d}) db' \<and> history_kept db db'"
    using keeps_add_version [OF d, of ?v N now] ok by (simp add: keeps_from_def)
qed

lemma create_new_version_result:
  assumes "d \<in> set (rd_documents db)" "create_new_version now body created_by description source via d db = Inr (d', db')"
  shows "d' \<in> set (rd_documents db')" "dc_id d' = dc_id d" "rd_runbooks db' = rd_runbooks db" "rd_sections db' = rd_sections db"
    "dc_id ` set (rd_documents db') = dc_id ` set (rd_documents db)" "rd_images db' = rd_images db"
    "dc_uid d' = dc_uid d" "dc_locked d' = dc_locked d" "dc_runbook d' = dc_runbook d" "dc_section d' = dc_section d"
proof -
  obtain v m where r: "d' = sync_head now v d" "db' = save_document (dc_id d) (sync_head now v) m"
      "rd_documents m = rd_documents db" "rd_runbooks m = rd_runbooks db" "rd_sections m = rd_sections db" "rd_images m = rd_images db"
    using assms(2) by (auto simp: create_new_version_def Let_def split: option.splits if_splits)
  show "d' \<in> set (rd_documents db')" using row_after_save [of d m "sync_head now v"] assms(1) r by simp
  have "map dc_id (rd_documents db') = map dc_id (rd_documents db)"
    using r by (simp add: save_document_rows map_tbl_update)
  then show "dc_id ` set (rd_documents db') = dc_id ` set (rd_documents db)" by (metis list.set_map)
qed (use assms(2) in \<open>auto simp: create_new_version_def Let_def save_document_rows split: option.splits if_splits\<close>)

lemma keeps_overwrite_head:
  assumes "d \<in> set (rd_documents db)" "overwrite_head now body source via d db = Inr (d', db')" "dc_id d \<notin> N"
  shows "keeps_from N N db db'"
proof -
  obtain c where c: "dc_current d = Some c" using assms(2) by (auto simp: overwrite_head_def split: option.splits)
  with assms(2) have db': "db' = save_document (dc_id d) (\<lambda>r. r\<lparr>dc_content := strip_frontmatter body, dc_updated := now\<rparr>)
      (save_version c (\<lambda>v. v\<lparr>ver_body := body, ver_content := strip_frontmatter body,
         ver_source := (if source = '''' then ver_source v else source), ver_via := via\<rparr>) db)"
    by (auto simp: overwrite_head_def Let_def split: option.splits)
  show ?thesis unfolding db' using assms(1,3) c by (intro keeps_overwrite) simp_all
qed

lemma overwrite_head_result:
  assumes "d \<in> set (rd_documents db)" "overwrite_head now body source via d db = Inr (d', db')"
  shows "d' \<in> set (rd_documents db')" "dc_id d' = dc_id d" "dc_uid d' = dc_uid d"
proof -
  obtain c m where r: "d' = d\<lparr>dc_content := strip_frontmatter body, dc_updated := now\<rparr>"
      "db' = save_document (dc_id d) (\<lambda>r. r\<lparr>dc_content := strip_frontmatter body, dc_updated := now\<rparr>) m"
      "rd_documents m = rd_documents db"
    using assms(2) by (auto simp: overwrite_head_def Let_def save_version_def split: option.splits)
  then show "d' \<in> set (rd_documents db')"
    using row_after_save [of d m "\<lambda>r. r\<lparr>dc_content := strip_frontmatter body, dc_updated := now\<rparr>"] assms(1) by simp
  show "dc_id d' = dc_id d" "dc_uid d' = dc_uid d" using r by simp_all
qed

lemma write_version_cases:
  assumes "write_version now body mode description source via actor bypass d db = Inr (d', db')"
  obtains (snapshot) e db1 body' where "create_new_version now body' (actor_id actor) description source via d db = Inr (d', db1)"
      "db' = emit e db1" "body' = (if mode = ''new_version'' then body else appended (read_head d db) body)"
      "mode \<in> {''new_version'', ''append_version''}" "check_writable d actor bypass db = None"
  | (in_place) e db1 body' where "overwrite_head now body' source via d db = Inr (d', db1)" "db' = emit e db1"
      "body' = (if mode = ''overwrite'' then body else appended (read_head d db) body)"
      "mode \<in> {''overwrite'', ''append''}" "check_writable d actor bypass db = None"
  using assms by (auto simp: write_version_def guarded_eq_Inr bind_err_Inr split: if_splits prod.splits)

lemma keeps_write_version:
  assumes "write_version now body mode description source via actor bypass d db = Inr (d', db')" "d \<in> set (rd_documents db)"
  shows "keeps_rb db db'"
  using assms(1)
proof (cases rule: write_version_cases)
  case (snapshot e db1 body')
  then show ?thesis using keeps_create_new_version [OF assms(2), of _ _ _ _ _ _ _ _ "{}"] keeps_emit keeps_from_trans by fastforce
next
  case (in_place e db1 body')
  then show ?thesis using keeps_overwrite_head [OF assms(2), of _ _ _ _ _ _ "{}"] keeps_emit keeps_from_trans by fastforce
qed

lemma write_version_result:
  assumes "write_version now body mode description source via actor bypass d db = Inr (d', db')" "d \<in> set (rd_documents db)"
  shows "d' \<in> set (rd_documents db')" "dc_id d' = dc_id d" "dc_uid d' = dc_uid d"
  using assms(1)
proof (atomize (full), cases rule: write_version_cases)
  case (snapshot e db1 body')
  then show "d' \<in> set (rd_documents db') \<and> dc_id d' = dc_id d \<and> dc_uid d' = dc_uid d"
    using create_new_version_result [OF assms(2) snapshot(1)] by simp
next
  case (in_place e db1 body')
  then show "d' \<in> set (rd_documents db') \<and> dc_id d' = dc_id d \<and> dc_uid d' = dc_uid d"
    using overwrite_head_result [OF assms(2) in_place(1)] by simp
qed

section \<open>Resolution\<close>

lemma resolve_runbook_row:
  "resolve_runbook r db = Inr rb \<Longrightarrow> runbook_ref_ok db r \<Longrightarrow> rb \<in> set (rd_runbooks db)"
  by (cases r) (auto simp: resolve_runbook_def split: option.splits dest: find_SomeD)

lemma resolve_section_row:
  "resolve_section rb r db = Inr (Some s) \<Longrightarrow> section_ref_ok db r \<Longrightarrow> s \<in> set (rd_sections db) \<and> sec_runbook s = rb_id rb"
  by (cases r) (auto simp: resolve_section_def split: option.splits if_splits dest: find_SomeD)

lemma get_doc_row: "get_doc ad viewer db = Inr d \<Longrightarrow> d \<in> set (rd_documents db)"
  by (auto simp: get_doc_def bind_err_Inr find_document_def split: option.splits if_splits
      dest: find_SomeD tbl_find_Some)

lemma target_row: "target_doc t db = Inr d \<Longrightarrow> target_ok db t \<Longrightarrow> d \<in> set (rd_documents db)"
  by (cases t) (auto simp: target_doc_def dest: get_doc_row)

lemma resolved_home:
  assumes "rb \<in> set (rd_runbooks db)" "resolve_section rb r db = Inr sec" "section_ref_ok db r"
    "dc_runbook d = Some (rb_id rb)" "dc_section d = map_option sec_id sec"
  shows "home_ok (rd_runbooks db) (rd_sections db) d"
  using assms resolve_section_row [OF _ assms(3)] by (cases sec) (force simp: home_ok_def)+

section \<open>The operations of the service\<close>

lemma new_document_simps [simp]:
  "dc_current (new_document now rb sec cb f) = None" "dc_runbook (new_document now rb sec cb f) = rb"
  "dc_section (new_document now rb sec cb f) = sec" "dc_key (new_document now rb sec cb f) = df_key f"
  "dc_locked (new_document now rb sec cb f) = df_locked f" "dc_title (new_document now rb sec cb f) = df_title f"
  "dc_archived (new_document now rb sec cb f) = False"
  by (simp_all add: new_document_def)

lemma create_document_cases:
  assumes "create_document env now r body f actor db = Inr (d', db')"
  obtains rb sec d db1 db2 where "resolve_runbook r db = Inr rb" "check_runbook ''add documents to '' actor rb = None"
    "resolve_section rb (df_section f) db = Inr sec"
    "insert_document env (new_document now (Some (rb_id rb)) (map_option sec_id sec) (actor_id actor) f) db = Inr (d, db1)"
    "create_new_version now body (actor_id actor) '''' (df_source f) (df_via f) d db1 = Inr (d', db2)"
    "db' = emit (Written (dc_id d') (dc_current d') ''created'' None actor (df_source f) (df_via f)) db2"
  using assms by (auto simp: create_document_def bind_err_Inr guarded_eq_Inr)

lemma keeps_create_document:
  assumes r: "create_document env now r body f actor db = Inr (d', db')"
    and ref: "runbook_ref_ok db r" "section_ref_ok db (df_section f)"
  shows "keeps_rb db db'" "d' \<in> set (rd_documents db')" "dc_id ` set (rd_documents db) \<subseteq> dc_id ` set (rd_documents db')"
    "dc_id d' = rd_seq db"
proof -
  from r obtain rb sec d db1 db2 where c: "resolve_runbook r db = Inr rb" "resolve_section rb (df_section f) db = Inr sec"
      "insert_document env (new_document now (Some (rb_id rb)) (map_option sec_id sec) (actor_id actor) f) db = Inr (d, db1)"
      "create_new_version now body (actor_id actor) '''' (df_source f) (df_via f) d db1 = Inr (d', db2)"
      "db' = emit (Written (dc_id d') (dc_current d') ''created'' None actor (df_source f) (df_via f)) db2"
    by (rule create_document_cases)
  note row = insert_document_row [OF c(3)]
  have d: "d \<in> set (rd_documents db1)" by (simp add: row(2))
  note res = create_new_version_result [OF d c(4)]
  have "home_ok (rd_runbooks db) (rd_sections db) d"
    by (rule resolved_home [OF resolve_runbook_row [OF c(1) ref(1)] c(2) ref(2)]) (simp_all add: row(1))
  then have "keeps_from {} {dc_id d} db db1" using keeps_insert_document [OF c(3), of "{}"] by simp
  also have "keeps_from {dc_id d} {} db1 db2" using keeps_create_new_version [OF d c(4), of "{dc_id d}"] by simp
  also have "keeps_rb db2 db'" unfolding c(5) by (rule keeps_emit)
  finally show "keeps_rb db db'" .
  show "d' \<in> set (rd_documents db')" using res(1) by (simp add: c(5))
  show "dc_id ` set (rd_documents db) \<subseteq> dc_id ` set (rd_documents db')" using res(5) by (auto simp: c(5) row(2))
  show "dc_id d' = rd_seq db" using res(2) row(1) by simp
qed

text \<open>The metadata columns \<open>put_document\<close> may change.\<close>

definition put_meta :: "instant \<Rightarrow> put_args \<Rightarrow> doc_section option \<Rightarrow> document \<Rightarrow> document \<Rightarrow> document" where
  "put_meta now p sec d r =
     (let retitle = (pa_title p \<noteq> None \<and> pa_title p \<noteq> Some (dc_title d));
          resect = (pa_section p \<noteq> No_Section);
          relock = (pa_locked p \<noteq> None \<and> pa_locked p \<noteq> Some (dc_locked d)) in
      if retitle \<or> resect \<or> relock
      then r\<lparr>dc_title := (if retitle then the (pa_title p) else dc_title r),
             dc_section := (if resect then map_option sec_id sec else dc_section r),
             dc_locked := (if relock then the (pa_locked p) else dc_locked r), dc_updated := now\<rparr>
      else r)"

lemma put_meta_same: "same_head (put_meta now p sec d r) r" "dc_runbook (put_meta now p sec d r) = dc_runbook r"
  "dc_key (put_meta now p sec d r) = dc_key r"
  by (simp_all add: put_meta_def same_head_def Let_def)

lemma put_meta_section:
  "dc_section (put_meta now p sec d r) = (if pa_section p \<noteq> No_Section then map_option sec_id sec else dc_section r)"
  by (simp add: put_meta_def Let_def)

lemma save_idle: "save_document n (\<lambda>r. r) db = db"
  by (simp add: save_document_def tbl_update_def)

lemma put_document_found:
  assumes rb: "resolve_runbook r db = Inr rb"
    and found: "find (\<lambda>d. dc_runbook d = Some (rb_id rb) \<and> dc_key d = Some key) (rd_documents db) = Some d"
  shows "put_document env now r key body p actor bypass db =
     guarded (check_writable d actor bypass db)
       (if pa_on_exists p = ''fail'' then Inl (Document_Exists key (rb_slug rb))
        else if pa_expected p \<noteq> JNull \<and> \<not> equals_int (pa_expected p) (dc_version d)
        then Inl (Version_Conflict (pa_expected p) (dc_version d))
        else bind_err (resolve_section rb (pa_section p) db) (\<lambda>sec.
          bind_err (write_version now body (pa_on_exists p) '''' (pa_source p) (pa_via p) actor bypass (put_meta now p sec d d)
              (save_document (dc_id d) (put_meta now p sec d) db))
            (\<lambda>(d', db'). Inr (result_of False d' db', db'))))"
proof -
  let ?retitle = "pa_title p \<noteq> None \<and> pa_title p \<noteq> Some (dc_title d)"
  let ?relock = "pa_locked p \<noteq> None \<and> pa_locked p \<noteq> Some (dc_locked d)"
  let ?resect = "pa_section p \<noteq> No_Section"
  let ?meta = "\<lambda>sec r. r\<lparr>dc_title := (if ?retitle then the (pa_title p) else dc_title r),
      dc_section := (if ?resect then map_option sec_id sec else dc_section r),
      dc_locked := (if ?relock then the (pa_locked p) else dc_locked r), dc_updated := now\<rparr>"
  have rows: "(if ?retitle \<or> ?resect \<or> ?relock then ?meta sec d else d) = put_meta now p sec d d"
    and dbs: "(if ?retitle \<or> ?resect \<or> ?relock then save_document (dc_id d) (?meta sec) db else db) =
      save_document (dc_id d) (put_meta now p sec d) db" for sec
    unfolding put_meta_def Let_def by (cases "?retitle \<or> ?resect \<or> ?relock"; simp only: if_True if_False save_idle)+
  show ?thesis
    unfolding put_document_def rb bind_err_simps found option.case Let_def rows dbs ..
qed

lemma put_document_cases:
  assumes "put_document env now r key body p actor bypass db = Inr (res, db')"
  obtains (created) rb f d where "resolve_runbook r db = Inr rb" "df_key f = Some key" "df_section f = pa_section p"
      "find (\<lambda>d. dc_runbook d = Some (rb_id rb) \<and> dc_key d = Some key) (rd_documents db) = None"
      "create_document env now (Runbook_Row rb) body f actor db = Inr (d, db')" "res = result_of False d db'"
  | (updated) rb d sec d' where "resolve_runbook r db = Inr rb"
      "find (\<lambda>d. dc_runbook d = Some (rb_id rb) \<and> dc_key d = Some key) (rd_documents db) = Some d"
      "check_writable d actor bypass db = None" "pa_on_exists p \<noteq> ''fail''"
      "pa_expected p = JNull \<or> equals_int (pa_expected p) (dc_version d)"
      "resolve_section rb (pa_section p) db = Inr sec"
      "write_version now body (pa_on_exists p) '''' (pa_source p) (pa_via p) actor bypass (put_meta now p sec d d)
         (save_document (dc_id d) (put_meta now p sec d) db) = Inr (d', db')" "res = result_of False d' db'"
proof -
  from assms obtain rb where rb: "resolve_runbook r db = Inr rb" by (auto simp: put_document_def bind_err_Inr)
  show thesis
  proof (cases "find (\<lambda>d. dc_runbook d = Some (rb_id rb) \<and> dc_key d = Some key) (rd_documents db)")
    case None
    with assms rb obtain d f where "create_document env now (Runbook_Row rb) body f actor db = Inr (d, db')"
        "df_key f = Some key" "df_section f = pa_section p" "res = result_of False d db'"
      by (auto simp: put_document_def bind_err_Inr)
    with None rb show thesis by (intro created)
  next
    case (Some d)
    note found = put_document_found [OF rb Some, of env now body p actor bypass]
    from assms obtain sec d' where "check_writable d actor bypass db = None" "pa_on_exists p \<noteq> ''fail''"
        "pa_expected p = JNull \<or> equals_int (pa_expected p) (dc_version d)" "resolve_section rb (pa_section p) db = Inr sec"
        "write_version now body (pa_on_exists p) '''' (pa_source p) (pa_via p) actor bypass (put_meta now p sec d d)
          (save_document (dc_id d) (put_meta now p sec d) db) = Inr (d', db')"
        "res = result_of False d' db'"
      unfolding found by (auto simp: bind_err_Inr guarded_eq_Inr split: if_splits)
    with rb Some show thesis by (intro updated)
  qed
qed

end
