(* ===== verification/Runbook_Operations.thy ===== *)
theory Runbook_Operations
  imports Runbook_Steps
begin

text \<open>
  The operations of the service, the background work and the pages, each a sequence of the changes
  that \<open>Runbook_Steps\<close> and \<open>Runbook_Invariants\<close> treat: they all keep the tables consistent.
\<close>

section \<open>The keyed upsert\<close>

lemma keeps_save_home:
  assumes f: "\<And>e. same_head (f e) e \<and> dc_runbook (f e) = dc_runbook e \<and> dc_key (f e) = dc_key e"
    and home: "ok_except N db \<Longrightarrow> home_ok (rd_runbooks db) (rd_sections db) (f d)"
    and d: "d \<in> set (rd_documents db)"
  shows "keeps_from N N db (save_document (dc_id d) f db)"
proof (rule keeps_save_place)
  fix e assume "ok_except N db" "e \<in> set (rd_documents db)" "dc_id e = dc_id d"
  with d home show "home_ok (rd_runbooks db) (rd_sections db) (f e)" by (metis document_unique)
next
  fix e q assume ok: "ok_except N db" and e: "e \<in> set (rd_documents db)" "dc_id e = dc_id d"
    and q: "q \<in> set (rd_documents db)" "dc_id q \<noteq> dc_id d" "doc_place q \<noteq> None"
  from f [of e] have "doc_place (f e) = doc_place e" by (intro doc_place_cong) simp_all
  with e q ok show "doc_place (f e) \<noteq> doc_place q"
    by (auto simp: ok_except_def names_ok_def dest: unique_opt_inj)
qed (simp add: f)

text \<open>The documents of a state by primary key.\<close>

abbreviation doc_ids :: "runbook_db \<Rightarrow> nat set" where
  "doc_ids db \<equiv> dc_id ` set (rd_documents db)"

lemma save_ids: "(\<And>e :: document. dc_id (f e) = dc_id e) \<Longrightarrow>
    doc_ids (save_document n f db) = doc_ids db"
proof -
  assume f: "\<And>e :: document. dc_id (f e) = dc_id e"
  have "map dc_id (rd_documents (save_document n f db)) = map dc_id (rd_documents db)"
    unfolding save_document_rows by (rule map_tbl_update) (rule f)
  then show ?thesis by (metis list.set_map)
qed

lemma create_new_version_shape:
  assumes "create_new_version now body created_by description source via d db = Inr (d', db')"
  obtains v n where "d' = sync_head now v d" "ver_body v = body" "ver_id v = rd_seq db" "next_version d db = Some n"
    "v = new_version now body created_by description source via d n (rd_seq db)"
    "db' = save_document (dc_id d) (sync_head now v) (db\<lparr>rd_seq := Suc (rd_seq db), rd_versions := rd_versions db @ [v]\<rparr>)"
proof -
  from assms obtain n where n: "next_version d db = Some n" by (auto simp: create_new_version_def split: option.splits)
  show thesis
    by (rule that [of "new_version now body created_by description source via d n (rd_seq db)" n])
      (use assms n in \<open>auto simp: create_new_version_def new_version_def Let_def split: if_splits\<close>)
qed

lemma overwrite_head_shape:
  assumes "overwrite_head now body source via d db = Inr (d', db')"
  obtains c where "dc_current d = Some c" "d' = d\<lparr>dc_content := strip_frontmatter body, dc_updated := now\<rparr>"
    "db' = save_document (dc_id d) (\<lambda>r. r\<lparr>dc_content := strip_frontmatter body, dc_updated := now\<rparr>)
       (save_version c (\<lambda>v. v\<lparr>ver_body := body, ver_content := strip_frontmatter body,
          ver_source := (if source = '''' then ver_source v else source), ver_via := via\<rparr>) db)"
  using assms by (auto simp: overwrite_head_def Let_def split: option.splits)

lemma write_version_ids:
  assumes "write_version now body mode description source via actor bypass d db = Inr (d', db')"
  shows "doc_ids db' = doc_ids db"
  using assms
proof (cases rule: write_version_cases)
  case (snapshot e db1 body')
  from snapshot(1) show ?thesis by (rule create_new_version_shape) (simp add: snapshot(2) save_ids)
next
  case (in_place e db1 body')
  from in_place(1) show ?thesis by (rule overwrite_head_shape) (simp add: in_place(2) save_ids save_version_def)
qed

lemma keeps_put_meta:
  assumes rb: "resolve_runbook r db = Inr rb" "resolve_section rb (pa_section p) db = Inr sec"
    and ref: "runbook_ref_ok db r" "section_ref_ok db (pa_section p)"
    and d: "d \<in> set (rd_documents db)" "dc_runbook d = Some (rb_id rb)"
  shows "keeps_from N N db (save_document (dc_id d) (put_meta now p sec d) db)"
proof (rule keeps_save_home [OF _ _ d(1)])
  assume ok: "ok_except N db"
  let ?f = "put_meta now p sec d"
  show "home_ok (rd_runbooks db) (rd_sections db) (?f d)"
  proof (cases "pa_section p = No_Section")
    case True
    then show ?thesis
      using frame_ok_D(6) [OF ok d(1)] home_ok_cong [of "?f d" d] by (simp add: put_meta_same put_meta_section)
  next
    case False
    then show ?thesis using resolved_home [OF resolve_runbook_row [OF rb(1) ref(1)] rb(2) ref(2)] d(2)
      by (simp add: put_meta_same put_meta_section)
  qed
qed (simp add: put_meta_same)

lemma keeps_put_document:
  assumes r: "put_document env now r key body p actor bypass db = Inr (res, db')"
    and ref: "runbook_ref_ok db r" "section_ref_ok db (pa_section p)"
  shows "keeps_rb db db'" "dr_doc res \<in> set (rd_documents db')" "doc_ids db \<subseteq> doc_ids db'"
  using r
proof (atomize (full), cases rule: put_document_cases)
  case (created rb f d)
  have "runbook_ref_ok db (Runbook_Row rb)" using resolve_runbook_row [OF created(1) ref(1)] by simp
  then show "keeps_rb db db' \<and> dr_doc res \<in> set (rd_documents db') \<and> doc_ids db \<subseteq> doc_ids db'"
    using keeps_create_document [OF created(5)] ref(2) created(3) by (simp add: created(6) result_of_def)
next
  case (updated rb d sec d')
  let ?f = "put_meta now p sec d"
  have d: "d \<in> set (rd_documents db)" "dc_runbook d = Some (rb_id rb)" using updated(2) by (auto dest: find_SomeD)
  have "keeps_rb db (save_document (dc_id d) ?f db)"
    using keeps_put_meta [OF updated(1,6) ref d] .
  moreover have row: "?f d \<in> set (rd_documents (save_document (dc_id d) ?f db))" using d(1) by (rule row_after_save)
  ultimately have "keeps_rb db db'" using keeps_write_version [OF updated(7)] keeps_from_trans by blast
  moreover have "doc_ids db' = doc_ids db"
    using write_version_ids [OF updated(7)] put_meta_same(1) by (simp add: save_ids same_head_def)
  ultimately show "keeps_rb db db' \<and> dr_doc res \<in> set (rd_documents db') \<and> doc_ids db \<subseteq> doc_ids db'"
    using write_version_result(1) [OF updated(7) row] by (simp add: updated(8) result_of_def)
qed

section \<open>One document\<close>

lemma keeps_set_archived:
  "keeps_from N N db (save_document n (\<lambda>r. r\<lparr>dc_archived := a, dc_archived_at := at', dc_updated := now\<rparr>) db)"
  by (rule keeps_save) (simp add: same_head_def)

lemma keeps_attach_image:
  assumes "attach_image env now t filename data alt actor db = Inr (ref, db')" "target_ok db t"
  shows "keeps_rb db db'"
proof -
  from assms(1) obtain d where t: "target_doc t db = Inr d" by (auto simp: attach_image_def bind_err_Inr)
  with assms(1) obtain e where d: "target_doc t db = Inr d"
      "db' = emit e (snd (insert_image now (dc_id d) filename data alt actor db))"
    by (cases "insert_image now (dc_id d) filename data alt actor db") (auto simp: attach_image_def Let_def)
  have "dc_id d \<in> doc_ids db" using target_row [OF d(1) assms(2)] by simp
  then show ?thesis unfolding d(2) by (rule keeps_from_trans [OF keeps_insert_image keeps_emit])
qed

lemma keeps_archive_document:
  assumes "archive_document now t actor bypass db = Inr (res, db')"
  shows "keeps_rb db db'"
  using assms keeps_from_refl keeps_from_trans [OF keeps_set_archived keeps_emit]
  by (auto simp: archive_document_def bind_err_Inr guarded_eq_Inr Let_def split: if_splits)

lemma keeps_unarchive_document:
  assumes "unarchive_document now t actor bypass db = Inr (res, db')"
  shows "keeps_rb db db'"
  using assms keeps_from_refl keeps_set_archived
  by (auto simp: unarchive_document_def bind_err_Inr guarded_eq_Inr Let_def split: if_splits)

lemma keeps_restore_version:
  assumes "restore_version now t n via actor bypass db = Inr (d', db')" "target_ok db t"
  shows "keeps_rb db db'"
proof -
  from assms(1) obtain d where t: "target_doc t db = Inr d" by (auto simp: restore_version_def bind_err_Inr)
  with assms(1) obtain old :: doc_version where d: "target_doc t db = Inr d"
      "write_version now (ver_body old) ''new_version'' (restored_note n) '''' via actor bypass d db = Inr (d', db')"
    by (auto simp: restore_version_def split: option.splits)
  show ?thesis using keeps_write_version [OF d(2) target_row [OF d(1) assms(2)]] .
qed

lemma keeps_delete_document:
  assumes "delete_document now t force actor bypass db = Inr db'"
  shows "keeps_rb db db'"
  using assms keeps_archive_document keeps_delete_rows
  by (auto simp: delete_document_def bind_err_Inr guarded_eq_Inr split: if_splits)

lemma move_document_cases:
  assumes "move_document now t to_runbook to_section actor bypass db = Inr (res, db')"
  obtains d rb sec key where "target_doc t db = Inr d" "check_writable d actor bypass db = None"
    "\<not> key_taken (dc_id d) rb key db"
    "db' = emit (Moved (dc_id d) (dc_runbook d) rb actor)
       (save_document (dc_id d) (\<lambda>r. r\<lparr>dc_runbook := rb, dc_section := sec, dc_key := key, dc_updated := now\<rparr>) db)"
    "(to_runbook = None \<and> rb = None \<and> sec = None) \<or>
     (\<exists>r q s. to_runbook = Some r \<and> resolve_runbook r db = Inr q \<and> resolve_section q to_section db = Inr s
        \<and> (bypass \<or> check_runbook ''move documents into '' actor q = None) \<and> rb = Some (rb_id q) \<and> sec = map_option sec_id s)"
proof -
  from assms obtain d rb sec key where "target_doc t db = Inr d" "check_writable d actor bypass db = None"
    "\<not> key_taken (dc_id d) rb key db" and db': "db' = emit (Moved (dc_id d) (dc_runbook d) rb actor)
       (save_document (dc_id d) (\<lambda>r. r\<lparr>dc_runbook := rb, dc_section := sec, dc_key := key, dc_updated := now\<rparr>) db)"
    and place: "(case to_runbook of
               None \<Rightarrow> Inr (None, None, None)
             | Some r \<Rightarrow>
                bind_err (resolve_runbook r db) (\<lambda>rb.
                  guarded (if bypass then None else check_runbook ''move documents into '' actor rb)
                    (bind_err (resolve_section rb to_section db) (\<lambda>sec.
                       case dc_key d of
                         Some k \<Rightarrow>
                           if k \<noteq> '''' \<and> key_taken (dc_id d) (Some (rb_id rb)) (Some k) db
                           then Inl (Key_Exists k (rb_slug rb))
                           else Inr (Some (rb_id rb), map_option sec_id sec, Some k)
                       | None \<Rightarrow> Inr (Some (rb_id rb), map_option sec_id sec, None))))) = Inr (rb, sec, key)"
    unfolding move_document_def by (auto simp: bind_err_Inr guarded_eq_Inr Let_def split: if_splits)
  moreover have "(to_runbook = None \<and> rb = None \<and> sec = None) \<or>
     (\<exists>r q s. to_runbook = Some r \<and> resolve_runbook r db = Inr q \<and> resolve_section q to_section db = Inr s
        \<and> (bypass \<or> check_runbook ''move documents into '' actor q = None) \<and> rb = Some (rb_id q) \<and> sec = map_option sec_id s)"
    using place by (auto simp: bind_err_Inr guarded_eq_Inr split: option.splits if_splits)
  ultimately show thesis by (intro that)
qed

lemma keeps_move_document:
  assumes r: "move_document now t to_runbook to_section actor bypass db = Inr (res, db')"
    and ref: "target_ok db t" "\<And>r. to_runbook = Some r \<Longrightarrow> runbook_ref_ok db r" "section_ref_ok db to_section"
  shows "keeps_rb db db'"
  using r
proof (cases rule: move_document_cases)
  case (1 d rb sec key)
  let ?f = "\<lambda>r::document. r\<lparr>dc_runbook := rb, dc_section := sec, dc_key := key, dc_updated := now\<rparr>"
  have d: "d \<in> set (rd_documents db)" using target_row [OF 1(1) ref(1)] .
  have "keeps_rb db (save_document (dc_id d) ?f db)"
  proof (rule keeps_save_place)
    fix e :: document show "home_ok (rd_runbooks db) (rd_sections db) (?f e)"
      using 1(5)
    proof
      assume "\<exists>r q s. to_runbook = Some r \<and> resolve_runbook r db = Inr q \<and> resolve_section q to_section db = Inr s
          \<and> (bypass \<or> check_runbook ''move documents into '' actor q = None) \<and> rb = Some (rb_id q) \<and> sec = map_option sec_id s"
      then obtain r q s where q: "to_runbook = Some r" "resolve_runbook r db = Inr q" "resolve_section q to_section db = Inr s"
          "rb = Some (rb_id q)" "sec = map_option sec_id s" by blast
      show ?thesis by (rule resolved_home [OF resolve_runbook_row [OF q(2) ref(2) [OF q(1)]] q(3) ref(3)]) (simp_all add: q)
    qed (simp add: home_ok_def)
  next
    fix e q :: document assume e: "dc_id e = dc_id d" and q: "q \<in> set (rd_documents db)" "dc_id q \<noteq> dc_id d" "doc_place q \<noteq> None"
    show "doc_place (?f e) \<noteq> doc_place q"
    proof
      assume same: "doc_place (?f e) = doc_place q"
      show False using place_taken [OF q(3,1,2) same] 1(3) by simp
    qed
  qed (simp add: same_head_def)
  then show ?thesis unfolding 1(4) by (rule keeps_from_trans) (rule keeps_emit)
qed

end
