(* ===== verification/Runbook_Consistent.thy ===== *)
theory Runbook_Consistent
  imports Runbook_Operations
begin

text \<open>
  Runbooks, templates and clones, the background work and the pages keep the tables consistent, and
  with them every step of the machine: what holds of every reachable state.
\<close>

section \<open>Runbooks, templates and clones\<close>

lemma keeps_create_runbook:
  "create_runbook env slug name description owner public db = Inr (rb, db') \<Longrightarrow> keeps_rb db db'"
  by (auto simp: create_runbook_def Let_def split: if_splits intro: keeps_insert_runbook)

lemma keeps_create_section:
  assumes "create_section env r slug name ord actor db = Inr (s, db')" "runbook_ref_ok db r"
  shows "keeps_rb db db'"
proof -
  from assms(1) obtain rb where rb: "resolve_runbook r db = Inr rb" by (auto simp: create_section_def bind_err_Inr)
  have "rb_id rb \<in> rb_id ` set (rd_runbooks db)" using resolve_runbook_row [OF rb assms(2)] by simp
  then show ?thesis using assms(1) rb
    by (auto simp: create_section_def guarded_eq_Inr Let_def keeps_from_refl split: if_splits option.splits
        elim!: keeps_insert_section)
qed

lemma keeps_set_runbook_public:
  "set_runbook_public r public actor db = Inr (rb, db') \<Longrightarrow> keeps_rb db db'"
  by (auto simp: set_runbook_public_def bind_err_Inr guarded_eq_Inr keeps_from_refl split: if_splits intro!: keeps_save_runbook)

text \<open>The images of a clone: they touch nothing but the table of images.\<close>

lemma clone_images_tables:
  "rd_documents (snd (clone_images env now target actor is body db)) = rd_documents db
   \<and> rd_runbooks (snd (clone_images env now target actor is body db)) = rd_runbooks db
   \<and> rd_sections (snd (clone_images env now target actor is body db)) = rd_sections db
   \<and> rd_versions (snd (clone_images env now target actor is body db)) = rd_versions db"
  by (induction env now target actor "is" body db rule: clone_images.induct)
    (simp_all add: insert_image_def Let_def)

lemma documents_image: "rd_documents (snd (insert_image now n filename data alt actor db)) = rd_documents db"
  by (simp add: insert_image_simps)

lemma keeps_clone_images:
  "target \<in> doc_ids db \<Longrightarrow> keeps_from N N db (snd (clone_images env now target actor is body db))"
proof (induction "is" arbitrary: body db)
  case Nil
  then show ?case by (simp add: keeps_from_refl)
next
  case (Cons i "is")
  show ?case
  proof (cases "contains (serve_image_url env (img_id i)) body")
    case True
    obtain j db1 where ins: "insert_image now target (''image'' @ img_ext i) (img_data i) (img_alt i) actor db = (j, db1)"
      by fastforce
    have "keeps_from N N db db1"
      using keeps_insert_image [OF Cons.prems] ins by (metis snd_conv)
    also have "target \<in> doc_ids db1"
      using Cons.prems documents_image ins by (metis snd_conv)
    then have "keeps_from N N db1 (snd (clone_images env now target actor is b db1))" for b by (rule Cons.IH)
    then have "keeps_from N N db1 (snd (clone_images env now target actor (i # is) body db))"
      unfolding clone_images.simps ins using True by simp
    finally show ?thesis .
  next
    case False
    with Cons.IH [OF Cons.prems] show ?thesis by simp
  qed
qed

lemma referenced_images:
  assumes "clone_referenced_images env now body source target actor db = (rewritten, db')"
  shows "rd_documents db' = rd_documents db" "rd_runbooks db' = rd_runbooks db" "rd_sections db' = rd_sections db"
    "rd_versions db' = rd_versions db" "target \<in> doc_ids db \<Longrightarrow> keeps_from N N db db'"
  using clone_images_tables [of env now target actor "images_of source db" body db]
    keeps_clone_images [of target db N env now actor "images_of source db" body] assms
  by (auto simp: clone_referenced_images_def)

lemma keeps_create_from_template:
  assumes r: "create_from_template env now r title template sec description actor db = Inr (d', db')"
    and ref: "runbook_ref_ok db r" "section_ref_ok db sec"
  shows "keeps_rb db db'"
proof -
  define head where "head = read_head template db"
  define body where "body = (if head = '''' then ''# '' @ title @ [newline, newline] else head)"
  from r obtain d db1 where c: "create_document env now r body
          \<lparr>df_title = title, df_key = None, df_section = sec, df_description = description, df_source = '''',
           df_via = ''web'', df_generated = False, df_type = dc_type template, df_locked = False\<rparr> actor db = Inr (d, db1)"
    and rest: "(case clone_referenced_images env now body (dc_id template) (dc_id d) actor db1 of
             (rewritten, db2) \<Rightarrow>
               if rewritten \<noteq> body
               then write_version now rewritten ''overwrite'' '''' '''' ''web'' actor False d db2
               else Inr (d, db2)) = Inr (d', db')"
    unfolding create_from_template_def head_def [symmetric] Let_def body_def [symmetric] bind_err_Inr by auto
  obtain rewritten db2 where i: "clone_referenced_images env now body (dc_id template) (dc_id d) actor db1 = (rewritten, db2)"
    by fastforce
  note created = keeps_create_document [OF c ref(1)]
  have d: "keeps_rb db db1" "d \<in> set (rd_documents db1)" using created(1,2) ref(2) by simp_all
  note images = referenced_images [OF i]
  have two: "keeps_rb db db2" using keeps_from_trans [OF d(1) images(5)] d(2) by simp
  show ?thesis
  proof (cases "rewritten = body")
    case True
    with rest i two show ?thesis by simp
  next
    case False
    with rest i have "write_version now rewritten ''overwrite'' '''' '''' ''web'' actor False d db2 = Inr (d', db')" by simp
    then have "keeps_rb db2 db'" by (rule keeps_write_version) (simp add: images(1) d(2))
    with two show ?thesis by (rule keeps_from_trans)
  qed
qed

lemma keeps_copy_document:
  assumes r: "copy_document env now t viewer to_runbook to_key title sec on_exists via actor db = Inr (res, db')"
    and ref: "section_ref_ok db sec"
  shows "keeps_rb db db'"
proof -
  from r obtain src rb where "(case t of Doc_Row d \<Rightarrow> Inr d | Doc_At ad \<Rightarrow> get_doc ad viewer db) = Inr src"
      "resolve_runbook to_runbook db = Inr rb" by (auto simp: copy_document_def bind_err_Inr)
  with r obtain result db1 p where put: "put_document env now (Runbook_Slug (rb_slug rb)) to_key (read_head src db)
        p actor False db = Inr (result, db1)" "pa_section p = sec"
    and rest: "(case find (\<lambda>d. dc_uid d = dc_uid (dr_doc result)) (rd_documents db1) of
                None \<Rightarrow> Inl Document_Not_Found
              | Some target \<Rightarrow>
                 (case clone_referenced_images env now (read_head src db) (dc_id src) (dc_id target) actor db1 of
                    (rewritten, db2) \<Rightarrow>
                      if rewritten \<noteq> read_head src db
                      then bind_err (write_version now rewritten ''overwrite'' '''' '''' via actor False target db2)
                             (\<lambda>(d', db3). Inr (result_of False d' db3, db3))
                      else Inr (result, db2))) = Inr (res, db')"
    unfolding copy_document_def bind_err_Inr by (fastforce simp: bind_err_Inr)
  have one: "keeps_rb db db1" using keeps_put_document(1) [OF put(1)] ref put(2) by simp
  from rest obtain target where t: "find (\<lambda>d. dc_uid d = dc_uid (dr_doc result)) (rd_documents db1) = Some target"
    by (auto split: option.splits)
  then have row: "target \<in> set (rd_documents db1)" by (auto dest: find_SomeD)
  obtain rewritten db2 where i: "clone_referenced_images env now (read_head src db) (dc_id src) (dc_id target) actor db1
      = (rewritten, db2)" by fastforce
  note images = referenced_images [OF i]
  have two: "keeps_rb db db2" using keeps_from_trans [OF one images(5)] row by simp
  show ?thesis
  proof (cases "rewritten = read_head src db")
    case True
    with rest t i two show ?thesis by simp
  next
    case False
    with rest t i obtain d' where "write_version now rewritten ''overwrite'' '''' '''' via actor False target db2 = Inr (d', db')"
      by (auto simp: bind_err_Inr)
    then have "keeps_rb db2 db'" by (rule keeps_write_version) (simp add: images(1) row)
    with two show ?thesis by (rule keeps_from_trans)
  qed
qed


definition sections_of_map :: "nat \<Rightarrow> (nat \<times> nat) list \<Rightarrow> runbook_db \<Rightarrow> bool" where
  "sections_of_map target m db \<longleftrightarrow>
     (\<forall>p \<in> set m. \<exists>s \<in> set (rd_sections db). sec_id s = snd p \<and> sec_runbook s = target)"

lemma clone_sections_result:
  assumes "clone_sections env target ss db = Inr (m, db')" "target \<in> rb_id ` set (rd_runbooks db)"
  shows "keeps_rb db db' \<and> rd_runbooks db' = rd_runbooks db \<and> set (rd_sections db) \<subseteq> set (rd_sections db')
    \<and> sections_of_map target m db'"
  using assms
proof (induction ss arbitrary: m db)
  case Nil
  then show ?case by (simp add: keeps_from_refl sections_of_map_def)
next
  case (Cons s ss)
  from Cons.prems(1) obtain s' db1 m' where c: "insert_section env (s\<lparr>sec_runbook := target\<rparr>) db = Inr (s', db1)"
      "clone_sections env target ss db1 = Inr (m', db')" "m = (sec_id s, sec_id s') # m'"
    by (auto simp: bind_err_Inr)
  note row = insert_section_row [OF c(1)]
  have "keeps_rb db db1" using keeps_insert_section [OF c(1)] Cons.prems(2) by simp
  moreover have IH: "keeps_rb db1 db' \<and> rd_runbooks db' = rd_runbooks db1 \<and> set (rd_sections db1) \<subseteq> set (rd_sections db')
      \<and> sections_of_map target m' db'"
    by (rule Cons.IH [OF c(2)]) (use Cons.prems(2) in \<open>simp add: row(2)\<close>)
  moreover have "s' \<in> set (rd_sections db')" "sec_runbook s' = target" using IH row(2,4) by auto
  ultimately show ?case using row(2) keeps_from_trans
    by (auto simp: sections_of_map_def c(3))
qed

lemma keeps_clone_docs:
  assumes "clone_docs env now target smap copy_locked actor ds db = Inr db'"
    "target \<in> rb_id ` set (rd_runbooks db)" "sections_of_map target smap db"
  shows "keeps_rb db db' \<and> rd_runbooks db' = rd_runbooks db"
  using assms
proof (induction ds arbitrary: db)
  case Nil
  then show ?case by (simp add: keeps_from_refl)
next
  case (Cons d ds)
  define row where "row = (new_document now (Some target) (case dc_section d of None \<Rightarrow> None | Some s \<Rightarrow> map_of smap s) (actor_id actor)
             \<lparr>df_title = dc_title d, df_key = dc_key d, df_section = No_Section, df_description = dc_description d,
              df_source = dc_source d, df_via = ''clone'', df_generated = dc_generated d, df_type = dc_type d,
              df_locked = dc_locked d \<and> copy_locked\<rparr>)\<lparr>dc_slug := dc_slug d\<rparr>"
  from Cons.prems(1) obtain new db1 where ins: "insert_document env row db = Inr (new, db1)"
    and rest: "(case clone_referenced_images env now (read_head d db1) (dc_id d) (dc_id new) actor db1 of
         (body, db2) \<Rightarrow>
           bind_err (create_new_version now body (actor_id actor) '''' (dc_source d) ''clone'' new db2)
             (\<lambda>(_, db3). clone_docs env now target smap copy_locked actor ds db3)) = Inr db'"
    unfolding clone_docs.simps row_def [symmetric] bind_err_Inr by auto
  obtain body db2 where i: "clone_referenced_images env now (read_head d db1) (dc_id d) (dc_id new) actor db1 = (body, db2)"
    by fastforce
  with rest obtain v db3 where v: "create_new_version now body (actor_id actor) '''' (dc_source d) ''clone'' new db2 = Inr (v, db3)"
      and last: "clone_docs env now target smap copy_locked actor ds db3 = Inr db'" by (auto simp: bind_err_Inr)
  note new = insert_document_row [OF ins]
  note images = referenced_images [OF i]
  have place: "dc_runbook new = Some target" "dc_section new = (case dc_section d of None \<Rightarrow> None | Some s \<Rightarrow> map_of smap s)"
    using new(1) by (simp_all add: row_def)
  have "keeps_from {} {dc_id new} db db1"
  proof (rule keeps_insert_document [OF ins, of "{}", simplified])
    show "home_ok (rd_runbooks db) (rd_sections db) new"
      unfolding home_ok_def place
    proof (intro conjI allI impI)
      fix k assume "(case dc_section d of None \<Rightarrow> None | Some s \<Rightarrow> map_of smap s) = Some k"
      then obtain s where "(s, k) \<in> set smap" by (auto split: option.splits dest: map_of_SomeD)
      with Cons.prems(3) show "\<exists>s \<in> set (rd_sections db). sec_id s = k \<and> (Some target = None \<or> Some target = Some (sec_runbook s))"
        unfolding sections_of_map_def by fastforce
    qed (use Cons.prems(2) in auto)
  qed (simp add: row_def)
  also have "keeps_from {dc_id new} {dc_id new} db1 db2" using images(5) by (simp add: new(2))
  also have "keeps_from {dc_id new} {} db2 db3"
    using keeps_create_new_version [OF _ v, of "{dc_id new}"] by (simp add: images(1) new(2))
  also have rows: "new \<in> set (rd_documents db2)" by (simp add: images(1) new(2))
  note kept = create_new_version_result [OF rows v]
  have tables: "rd_runbooks db3 = rd_runbooks db" "rd_sections db3 = rd_sections db"
    using kept images by (simp_all add: new(2))
  have IH: "keeps_rb db3 db' \<and> rd_runbooks db' = rd_runbooks db3"
    by (rule Cons.IH [OF last]) (use Cons.prems(2,3) tables in \<open>simp_all add: sections_of_map_def\<close>)
  then have "keeps_rb db3 db'" by simp
  finally show ?case using IH tables by simp
qed

lemma clone_runbook_cases:
  assumes "clone_runbook env now source new_slug new_name as_template copy_locked actor owner db = Inr (target, db')"
  obtains src rb0 db1 smap db2 where "resolve_runbook source db = Inr src" "insert_runbook env rb0 db = Inr (target, db1)"
    "rb_owner rb0 = actor_id owner" "\<not> rb_public rb0" "rb_template rb0 = as_template"
    "clone_sections env (rb_id target)
       (sort_key (\<lambda>s. (sec_order s, sec_name s)) (filter (\<lambda>s. sec_runbook s = rb_id src) (rd_sections db1))) db1 = Inr (smap, db2)"
    "clone_docs env now (rb_id target) smap copy_locked actor
       (sort_key dc_id (filter (\<lambda>d. dc_runbook d = Some (rb_id src) \<and> \<not> dc_archived d) (rd_documents db2))) db2 = Inr db'"
  using assms unfolding clone_runbook_def bind_err_Inr by (fastforce simp: bind_err_Inr)

lemma keeps_clone_runbook:
  assumes "clone_runbook env now source new_slug new_name as_template copy_locked actor owner db = Inr (rb, db')"
  shows "keeps_rb db db'"
  using assms
proof (cases rule: clone_runbook_cases)
  case (1 src rb0 db1 smap db2)
  have target: "rb_id rb \<in> rb_id ` set (rd_runbooks db1)" using insert_runbook_row(2) [OF 1(2)] by simp
  note sections = clone_sections_result [OF 1(6) target]
  have "keeps_rb db db1" using 1(2) by (rule keeps_insert_runbook)
  also have "keeps_rb db1 db2" using sections by simp
  also have "keeps_rb db2 db'" using keeps_clone_docs [OF 1(7)] sections target by simp
  finally show ?thesis .
qed

section \<open>The background work\<close>

lemma keeps_expire_document:
  "keeps_rb db (fst (expire_document env now d db))"
  using keeps_from_trans [OF keeps_delete_rows keeps_emit] keeps_from_trans [OF keeps_set_archived keeps_emit]
  by (simp add: expire_document_def Let_def)

lemma expire_others:
  "e \<in> set (rd_documents db) \<Longrightarrow> dc_id e \<noteq> dc_id d \<Longrightarrow> e \<in> set (rd_documents (fst (expire_document env now d db)))"
  by (force simp: expire_document_def Let_def delete_rows_def save_document_def tbl_update_def)

lemma keeps_sweep_fold:
  assumes "ok_except {} (fst s)" "set ds \<subseteq> set (rd_documents (fst s))" "distinct (map dc_id ds)"
  shows "keeps_rb (fst s) (fst (fold (sweep_one env now) ds s))"
  using assms
proof (induction ds arbitrary: s)
  case Nil
  then show ?case by (simp add: keeps_from_refl)
next
  case (Cons d ds)
  obtain db p e where s: "s = (db, p, e)" by (cases s)
  with Cons.prems have d: "ok_except {} db" "d \<in> set (rd_documents db)" by simp_all
  obtain db1 n where pr: "prune_versions env now d db = (db1, n)" by fastforce
  have docs: "rd_documents db1 = rd_documents db" using prune_documents [OF d, of env now] by (simp add: pr)
  define s' where "s' = sweep_one env now d s"
  have one: "keeps_rb db db1" using keeps_prune [OF d(2), of env now] by (simp add: pr)
  have two: "fst s' = db1 \<or> fst s' = fst (expire_document env now d db1)"
    by (simp add: s'_def sweep_one_def s pr)
  with one keeps_from_trans [OF one keeps_expire_document] have kept: "keeps_rb (fst s) (fst s')" by (auto simp: s)
  have "set ds \<subseteq> set (rd_documents (fst s'))"
  proof
    fix e assume e: "e \<in> set ds"
    then have "e \<in> set (rd_documents db1)" "dc_id e \<noteq> dc_id d" using Cons.prems s docs by (auto simp: image_iff)
    with two expire_others show "e \<in> set (rd_documents (fst s'))" by metis
  qed
  moreover have "ok_except {} (fst s')" using kept Cons.prems(1) by (simp add: keeps_from_def)
  ultimately have "keeps_rb (fst s') (fst (fold (sweep_one env now) ds s'))" using Cons by simp
  with kept show ?case by (auto simp: s'_def intro: keeps_from_trans)
qed

lemma keeps_sweep: "keeps_rb db (fst (run_sweep env now db))"
proof -
  have "keeps_rb db (fst (run_sweep env now db))" if ok: "ok_except {} db"
    using keeps_sweep_fold [of "(db, 0, 0)"] ok
    by (auto simp: run_sweep_def ok_except_def rows_ok_def keyed_rows_def distinct_map_filterI)
  then show ?thesis by (simp add: keeps_from_def)
qed

lemma keeps_tasks: "keeps_from N N db (db\<lparr>rd_tasks := ts\<rparr>)"
  by (rule keeps_log) (simp_all add: ok_except_def attached_ok_def)

lemma keeps_run_task: "keeps_rb db (run_runbook_task env now t db)"
proof (cases t)
  case (Prune_Versions n)
  then show ?thesis
    by (auto simp: prune_versions_task_def keeps_from_refl split: option.splits intro!: keeps_prune dest: found_row(2))
next
  case (Notify_Subscribers n change)
  have "keeps_rb db (db\<lparr>rd_mails := ms\<rparr>)" for ms
    by (rule keeps_log) (simp_all add: ok_except_def attached_ok_def)
  with Notify_Subscribers show ?thesis
    by (auto simp: send_update_notifications_def Let_def keeps_from_refl split: option.splits)
qed

lemma keeps_enqueue: "keeps_rb db (enqueue_runbook_task env now t db)"
  using keeps_tasks keeps_run_task by (simp add: enqueue_runbook_task_def)

lemma keeps_on_commit: "keeps_rb db (on_commit env now e db)"
proof (cases e)
  case (Written n v change prev actor source via)
  have "keeps_rb db (prune_on_write env now n change db)" by (simp add: prune_on_write_def keeps_enqueue keeps_from_refl)
  moreover have "keeps_rb db' (notify_subscribers_on_write env now n change db')" for db'
    by (simp add: notify_subscribers_on_write_def keeps_enqueue keeps_from_refl)
  ultimately show ?thesis unfolding Written on_commit.simps by (rule keeps_from_trans)
qed (simp_all add: keeps_from_refl)

lemma keeps_settle:
  assumes "keeps_rb db db'"
  shows "keeps_rb db (settle env now db db')"
proof -
  have "keeps_rb db (fold (on_commit env now) es db')" if "keeps_rb db db'" for es db'
    using that by (induction es arbitrary: db') (simp, metis fold_simps(2) keeps_from_trans keeps_on_commit)
  with assms show ?thesis by (simp add: settle_def)
qed

end
