(* ===== verification/Runbook_Reach.thy ===== *)
theory Runbook_Reach
  imports Runbook_Consistent
begin

text \<open>
  The pages keep the tables consistent, and so does every step of the machine: the invariant of the
  reachable states, and the history every step keeps.
\<close>

section \<open>The pages\<close>

lemma page_keeps:
  "keeps_rb db (fst r) \<Longrightarrow> keeps_rb db (fst (logged_in user db r))"
  "keeps_rb db (fst r) \<Longrightarrow> keeps_rb db (fst (require ok db r))"
  "keeps_rb db (fst r) \<Longrightarrow> keeps_rb db (fst (unlocked user d db r))"
  "(\<And>rb. rb \<in> set (rd_runbooks db) \<Longrightarrow> rb_slug rb = slug \<Longrightarrow> keeps_rb db (fst (f rb))) \<Longrightarrow>
    keeps_rb db (fst (with_runbook slug db f))"
  "(\<And>d. d \<in> set (rd_documents db) \<Longrightarrow> dc_id d = n \<Longrightarrow> keeps_rb db (fst (g d))) \<Longrightarrow>
    keeps_rb db (fst (with_document n db g))"
  "(\<And>s. s \<in> set (rd_sections db) \<Longrightarrow> sec_id s = n \<Longrightarrow> keeps_rb db (fst (h s))) \<Longrightarrow>
    keeps_rb db (fst (with_section n db h))"
  "keeps_rb db (fst (db, p))"
  by (auto simp: logged_in_def require_def unlocked_def with_runbook_def with_document_def with_section_def
      keeps_from_refl found_row split: option.splits dest: find_SomeD found_row)

lemma page_of_keeps: "(\<And>x db'. r = Inr (x, db') \<Longrightarrow> keeps_rb db db') \<Longrightarrow> keeps_rb db (fst (page_of db r))"
  by (auto simp: page_of_def keeps_from_refl split: sum.splits)

lemma keeps_runbook_create: "keeps_rb db (fst (runbook_create env now user f template db))"
proof -
  have "keeps_rb db (fst (case clone_runbook env now (Runbook_Row t) None (Some (rf_name f)) False False user user db of
      Inl e \<Rightarrow> (db, Page_Crash) | Inr (rb, db1) \<Rightarrow> (save_runbook (rb_id rb) (\<lambda>r. r\<lparr>rb_public := rf_public f,
         rb_description := (if rf_description f = '''' then rb_description r else rf_description f),
         rb_icon := (if rf_icon f = '''' then rb_icon r else rf_icon f)\<rparr>) db1, Page_Done)))" for t
    by (auto simp: keeps_from_refl split: sum.splits intro!: keeps_from_trans [OF keeps_clone_runbook keeps_save_runbook])
  then show ?thesis unfolding runbook_create_def
    by (intro page_keeps(1)) (auto intro!: page_keeps page_of_keeps elim: keeps_insert_runbook split: option.split)
qed

lemma keeps_runbook_update: "keeps_rb db (fst (runbook_update user slug f db))"
  unfolding runbook_update_def by (intro page_keeps) (simp add: keeps_save_runbook)

lemma keeps_publish: "keeps_rb db (fst (runbook_publish_toggle user slug db))"
  unfolding runbook_publish_toggle_def by (intro page_keeps) (simp add: keeps_save_runbook)

lemma keeps_clear_keys:
  "keeps_from N N db (db\<lparr>rd_documents := tbl_update P (\<lambda>d. d\<lparr>dc_key := None\<rparr>) (rd_documents db)\<rparr>)"
    (is "keeps_from _ _ _ ?db'")
proof (rule keeps_docs [where g = "\<lambda>d. if P d then d\<lparr>dc_key := None\<rparr> else d"])
  assume ok: "ok_except N db"
  note frame = frame_ok_D [OF ok]
  show "frame_ok db (\<lambda>d. if P d then d\<lparr>dc_key := None\<rparr> else d) ?db'"
  proof (rule frame_ok_same [OF ok])
    fix d assume "d \<in> set (rd_documents db)"
    then show "home_ok (rd_runbooks db) (rd_sections db) (if P d then d\<lparr>dc_key := None\<rparr> else d)"
      using frame(6) [of d] home_ok_cong [of "d\<lparr>dc_key := None\<rparr>" d] by simp
  next
    show "unique_opt doc_place (map (\<lambda>d. if P d then d\<lparr>dc_key := None\<rparr> else d) (rd_documents db))"
      by (rule unique_opt_map [OF frame(7)]) (simp add: doc_place_def split: option.split)
  qed simp_all
qed (simp_all add: tbl_update_def same_head_def)

lemma keeps_delete_each: "keeps_rb db (fold delete_rows ns db)"
proof (induction ns arbitrary: db)
  case (Cons n ns)
  have "keeps_rb db (delete_rows n db)" by (rule keeps_delete_rows)
  also have "keeps_rb (delete_rows n db) (fold delete_rows ns (delete_rows n db))" by (rule Cons.IH)
  finally show ?case by simp
qed (simp add: keeps_from_refl)

lemma keeps_runbook_delete: "keeps_rb db (fst (runbook_delete user slug cascade db))"
proof -
  have "keeps_rb db (delete_runbook_row n (if cascade then fold delete_rows ns db
      else db\<lparr>rd_documents := tbl_update P (\<lambda>d. d\<lparr>dc_key := None\<rparr>) (rd_documents db)\<rparr>))" for n ns P
    using keeps_from_trans [OF keeps_delete_each keeps_delete_runbook_row]
      keeps_from_trans [OF keeps_clear_keys keeps_delete_runbook_row] by simp
  then show ?thesis unfolding runbook_delete_def by (intro page_keeps) simp
qed

lemma keeps_section_create: "keeps_rb db (fst (section_create env user slug f db))"
  unfolding section_create_def by (intro page_keeps page_of_keeps, erule keeps_insert_section, simp)

lemma keeps_section_update: "keeps_rb db (fst (section_update user n f db))"
  unfolding section_update_def by (intro page_keeps, simp, rule keeps_save_sections) simp_all

lemma keeps_section_delete: "keeps_rb db (fst (section_delete user n db))"
  unfolding section_delete_def by (intro page_keeps, simp, rule keeps_delete_section)

lemma keeps_make_template: "keeps_rb db (fst (document_make_template now user n db))"
  unfolding document_make_template_def by (intro page_keeps, simp, rule keeps_save) (simp add: same_head_def)

lemma keeps_document_lock: "keeps_rb db (fst (document_lock now user n db))"
proof -
  have "keeps_rb db (fst (with_document n db (\<lambda>d.
      (save_document n (\<lambda>r. r\<lparr>dc_locked := \<not> dc_locked d, dc_updated := now\<rparr>) db, Page_Done))))"
    by (intro page_keeps, simp, rule keeps_save) (simp add: same_head_def)
  then show ?thesis unfolding document_lock_def by (intro page_keeps(1)) (simp add: keeps_from_refl)
qed

lemma keeps_document_delete: "keeps_rb db (fst (document_delete user n db))"
  unfolding document_delete_def by (intro page_keeps, simp, rule keeps_delete_rows)

lemma keeps_unsubscribe: "keeps_rb db (unsubscribe user n db)"
  by (rule keeps_log) (auto simp: unsubscribe_def ok_except_def attached_ok_def)

lemma keeps_subscribe:
  assumes "n \<in> doc_ids db"
  shows "keeps_rb db (subscribe user n db)"
  unfolding keeps_from_def
proof
  assume ok: "ok_except {} db"
  have "attached_ok (subscribe user n db)"
    using ok assms by (auto simp: ok_except_def attached_ok_def subscribe_def)
  then have "ok_except {} (subscribe user n db)"
    using ok by (simp add: ok_except_def subscribe_def rows_ok_def names_ok_def places_ok_def heads_except_def)
  moreover have "history_kept db (subscribe user n db)"
    by (intro history_same) (simp_all add: subscribe_def heads_def)
  ultimately show "ok_except {} (subscribe user n db) \<and> history_kept db (subscribe user n db)" ..
qed

lemma keeps_document_subscribe: "keeps_rb db (fst (document_subscribe user n db))"
  unfolding document_subscribe_def
  by (intro page_keeps) (auto simp: keeps_unsubscribe intro!: keeps_subscribe)

text \<open>Saving the whole row of a document, as it is in the tables.\<close>

lemma save_own_row:
  assumes "ok_except N db" "d \<in> set (rd_documents db)" "f d = g d"
  shows "save_document (dc_id d) f db = save_document (dc_id d) g db"
proof -
  have "(if dc_id r = dc_id d then f r else r) = (if dc_id r = dc_id d then g r else r)" if "r \<in> set (rd_documents db)" for r
    using document_unique [OF assms(1) that assms(2)] assms(3) by auto
  then have "tbl_update (\<lambda>r. dc_id r = dc_id d) f (rd_documents db) = tbl_update (\<lambda>r. dc_id r = dc_id d) g (rd_documents db)"
    unfolding tbl_update_def by (rule map_cong [OF refl])
  then show ?thesis by (simp add: save_document_def)
qed

lemma chosen_home:
  assumes ok: "ok_except N db" and d: "d \<in> set (rd_documents db)"
    and choice: "section_choice_ok (map_option rb_id (runbook_of d db)) choice db"
    and e: "dc_runbook e = dc_runbook d" "dc_section e = choice"
  shows "home_ok (rd_runbooks db) (rd_sections db) e"
  unfolding home_ok_def
proof (intro conjI allI impI)
  fix n assume "dc_runbook e = Some n"
  with e(1) frame_ok_D(6) [OF ok d] show "n \<in> rb_id ` set (rd_runbooks db)" by (auto simp: home_ok_def)
next
  fix n assume "dc_section e = Some n"
  with e(2) choice obtain s where s: "find_section n db = Some s"
      "\<And>m. map_option rb_id (runbook_of d db) = Some m \<Longrightarrow> sec_runbook s = m"
    by (auto simp: section_choice_ok_def split: option.splits)
  have "dc_runbook e = None \<or> dc_runbook e = Some (sec_runbook s)"
  proof (cases "dc_runbook d")
    case None
    with e(1) show ?thesis by simp
  next
    case (Some m)
    with frame_ok_D(6) [OF ok d] obtain rb where rb: "rb \<in> set (rd_runbooks db)" "rb_id rb = m" by (auto simp: home_ok_def)
    with frame_ok_D(1) [OF ok] have "find_runbook m db = Some rb" unfolding find_runbook_def by (auto dest: keyed_find)
    with Some rb(2) s(2) e(1) show ?thesis by (simp add: runbook_of_def)
  qed
  with found_row(4) [OF s(1)] show "\<exists>s \<in> set (rd_sections db). sec_id s = n \<and> (dc_runbook e = None \<or> dc_runbook e = Some (sec_runbook s))"
    by blast
qed

lemma keeps_save_metadata:
  assumes d: "d \<in> set (rd_documents db)" and choice: "section_choice_ok (map_option rb_id (runbook_of d db)) choice db"
    and r: "save_metadata env now d title choice description db = (d1, db1)"
  shows "keeps_rb db db1" "d1 \<in> set (rd_documents db1)"
proof -
  let ?f = "\<lambda>e. e\<lparr>dc_title := title, dc_section := choice, dc_description := description, dc_updated := now,
                 dc_slug := (if dc_slug e = [] then rv_slugify env title else dc_slug e)\<rparr>"
  have r': "d1 = ?f d" "db1 = save_document (dc_id d) (\<lambda>_. ?f d) db" using r by (auto simp: save_metadata_def Let_def)
  have "keeps_rb db (save_document (dc_id d) ?f db)"
    by (rule keeps_save_home [OF _ _ d]) (auto simp: same_head_def intro: chosen_home [OF _ d choice])
  moreover have "db1 = save_document (dc_id d) ?f db" if "ok_except {} db"
    unfolding r' by (rule save_own_row [OF that d]) simp
  ultimately show "keeps_rb db db1" by (simp add: keeps_from_def)
  show "d1 \<in> set (rd_documents db1)" unfolding r' by (rule row_after_save [OF d, of "\<lambda>_. ?f d"])
qed

lemma keeps_document_update: "keeps_rb db (fst (document_update env now user n title choice description upload db))"
  unfolding document_update_def
proof (intro page_keeps)
  fix d assume d: "d \<in> set (rd_documents db)"
  obtain d1 db1 where r: "save_metadata env now d title choice description db = (d1, db1)" by fastforce
  show "keeps_rb db (fst (if \<not> section_choice_ok (map_option rb_id (runbook_of d db)) choice db then (db, Page_Rejected)
        else (case save_metadata env now d title choice description db of
            (d1, db1) \<Rightarrow>
              (case upload of
                 None \<Rightarrow> (db1, Page_Done)
               | Some body \<Rightarrow> page_of db1 (write_version now body ''new_version'' '''' '''' ''web'' user False d1 db1)))))"
  proof (cases "section_choice_ok (map_option rb_id (runbook_of d db)) choice db")
    case True
    note saved = keeps_save_metadata [OF d True r]
    have "keeps_rb db1 (fst (page_of db1 (write_version now body ''new_version'' '''' '''' ''web'' user False d1 db1)))" for body
      by (intro page_of_keeps, erule keeps_write_version, rule saved(2))
    with saved(1) True r show ?thesis by (cases upload) (auto intro: keeps_from_trans)
  qed (simp add: keeps_from_refl)
qed

section \<open>The machine\<close>

lemma step_keeps:
  assumes "runbook_step env db db'" shows "keeps_rb db db'"
  using assms
proof (cases rule: runbook_step.cases)
  case (Task before t after now)
  then show ?thesis using keeps_from_trans [OF keeps_tasks keeps_run_task] by simp
qed (auto intro: keeps_settle keeps_put_document keeps_write_version keeps_create_document keeps_attach_image
      keeps_archive_document keeps_unarchive_document keeps_restore_version keeps_delete_document keeps_move_document
      keeps_create_runbook keeps_create_section keeps_set_runbook_public keeps_create_from_template keeps_copy_document
      keeps_clone_runbook keeps_sweep keeps_runbook_create keeps_runbook_update keeps_runbook_delete keeps_publish
      keeps_section_create keeps_section_update keeps_section_delete keeps_make_template keeps_document_update
      keeps_document_delete keeps_document_lock keeps_document_subscribe)

lemma step_ok: "runbook_step env db db' \<Longrightarrow> runbook_ok db \<Longrightarrow> runbook_ok db'"
  using step_keeps by (simp add: keeps_from_def ok_except_empty)

lemma step_history: "runbook_step env db db' \<Longrightarrow> runbook_ok db \<Longrightarrow> history_kept db db'"
  using step_keeps by (simp add: keeps_from_def ok_except_empty)

lemma empty_runbooks_ok: "runbook_ok empty_runbooks"
  by (simp add: empty_runbooks_def runbook_ok_defs keyed_rows_def unique_opt_def)

lemma runbook_reachable_ok: "runbook_reachable env db \<Longrightarrow> runbook_ok db"
  by (induction rule: runbook_reachable.induct) (auto intro: empty_runbooks_ok step_ok)

end
