(* ===== verification/Runbook_Props.thy ===== *)
theory Runbook_Props
  imports Runbook_Reach
begin

text \<open>
  What the document store promises: consistent tables, a history that is never rewritten, a restore
  and an upsert that store what they were given, one winner among writers of one head, a pruning
  that keeps the newest versions, and the two views of who may see a document.
\<close>

section \<open>Consistent tables and a kept history\<close>


lemma reachable_steps: "(runbook_step env)\<^sup>*\<^sup>* db db' \<Longrightarrow> runbook_reachable env db \<Longrightarrow> runbook_reachable env db'"
  by (induction rule: rtranclp_induct) (auto intro: runbook_reachable.step)

lemma steps_history:
  assumes "(runbook_step env)\<^sup>*\<^sup>* db db'" "runbook_ok db"
  shows "history_kept db db' \<and> runbook_ok db'"
  using assms
proof (induction rule: rtranclp_induct)
  case base
  then show ?case by (simp add: history_refl)
next
  case (step db1 db2)
  then show ?case using step_history step_ok history_trans by metis
qed


section \<open>Restoring\<close>

lemma reachable_except: "runbook_reachable env db \<Longrightarrow> ok_except {} db"
  by (simp add: ok_except_empty runbook_reachable_ok)

lemma tbl_find_snoc: "key r = k \<Longrightarrow> (\<And>q. q \<in> set rows \<Longrightarrow> key q \<noteq> k) \<Longrightarrow> tbl_find key k (rows @ [r]) = Some r"
  by (induction rows) (auto simp: tbl_find_def)

lemma version_of_number:
  assumes ok: "ok_except N db" and v: "v \<in> set (rd_versions db)"
  shows "find (\<lambda>w. ver_document w = ver_document v \<and> ver_version w = ver_version v) (rd_versions db) = Some v"
proof -
  let ?P = "\<lambda>w. ver_document w = ver_document v \<and> ver_version w = ver_version v"
  have "find ?P (rd_versions db) \<noteq> None" using v by (auto simp: find_None_iff)
  then obtain w where w: "find ?P (rd_versions db) = Some w" by auto
  then have "w \<in> set (rd_versions db)" "?P w" by (auto dest: find_SomeD)
  moreover have "distinct (map (\<lambda>v. (ver_document v, ver_version v)) (rd_versions db))"
    using ok by (simp add: ok_except_def heads_except_def)
  ultimately have "w = v" using v by (auto simp: distinct_map dest: inj_onD)
  with w show ?thesis by simp
qed

text \<open>C39: restoring a version of a document the actor may write always works: it appends one version,
  numbered after the head, with the body of the old one and a note of its number; every stored
  version stays, and the head of the document reads as that body.\<close>

theorem restore_appends_old_body:
  assumes "runbook_reachable env db" "d \<in> set (rd_documents db)" "v \<in> set (rd_versions db)" "ver_document v = dc_id d"
    and "check_writable d actor bypass db = None"
  shows "\<exists>d' db' w. restore_version now (Doc_Row d) (ver_version v) via actor bypass db = Inr (d', db')
    \<and> rd_versions db' = rd_versions db @ [w] \<and> ver_version w = dc_version d + 1 \<and> ver_body w = ver_body v
    \<and> ver_description w = restored_note (ver_version v) \<and> d' \<in> set (rd_documents db') \<and> read_head d' db' = ver_body v"
proof -
  note ok = reachable_except [OF assms(1)]
  define w where "w = new_version now (ver_body v) (actor_id actor) (restored_note (ver_version v)) '''' via d
      (dc_version d + 1) (rd_seq db)"
  let ?m = "db\<lparr>rd_seq := Suc (rd_seq db), rd_versions := rd_versions db @ [w]\<rparr>"
  have row: "create_new_version now (ver_body v) (actor_id actor) (restored_note (ver_version v)) '''' via d db =
      Inr (sync_head now w d, save_document (dc_id d) (sync_head now w) ?m)"
    using create_new_version_row [OF ok assms(2), of w] by (simp add: w_def)
  have fresh: "ver_id u \<noteq> rd_seq db" if "u \<in> set (rd_versions db)" for u using new_row_ids(2) [OF ok that] by simp
  then have head: "tbl_find ver_id (rd_seq db) (rd_versions db @ [w]) = Some w"
    by (intro tbl_find_snoc) (auto simp: w_def)
  have found: "find (\<lambda>w. ver_document w = dc_id d \<and> ver_version w = ver_version v) (rd_versions db) = Some v"
    using version_of_number [OF ok assms(3)] assms(4) by simp
  obtain e where "restore_version now (Doc_Row d) (ver_version v) via actor bypass db =
      Inr (sync_head now w d, emit e (save_document (dc_id d) (sync_head now w) ?m))"
    using found row assms(5) by (simp add: restore_version_def target_doc_def write_version_def)
  moreover have "sync_head now w d \<in> set (rd_documents (save_document (dc_id d) (sync_head now w) ?m))"
    using row_after_save [of d ?m] assms(2) by simp
  moreover have "ver_id w = rd_seq db" "ver_version w = dc_version d + 1" "ver_body w = ver_body v"
      "ver_description w = restored_note (ver_version v)" by (simp_all add: w_def new_version_def)
  ultimately show ?thesis
    by (intro exI [of _ "sync_head now w d"] exI [of _ "emit e (save_document (dc_id d) (sync_head now w) ?m)"]
        exI [of _ w] conjI) (simp_all add: save_document_rows read_head_def find_version_def head)
qed

section \<open>Pruning\<close>

lemma filter_not_dropped: "distinct xs \<Longrightarrow> filter (\<lambda>v. v \<notin> set (drop j xs) \<and> P v) xs = filter P (take j xs)"
proof (induction xs arbitrary: j)
  case (Cons x xs)
  show ?case
  proof (cases j)
    case (Suc i)
    have "x \<notin> set (drop i xs)" using Cons.prems in_set_dropD [of x i xs] by auto
    with Cons.IH [of i] Cons.prems Suc show ?thesis by simp
  qed (simp add: filter_empty_conv)
qed simp

lemma versions_of_filter:
  "versions_of n (db\<lparr>rd_versions := filter P (rd_versions db), rd_documents := ds\<rparr>) = filter P (versions_of n db)"
  by (simp add: versions_of_def filter_sort [symmetric] conj_commute)

lemma versions_head_first:
  assumes ok: "ok_except {} db" and d: "d \<in> set (rd_documents db)"
  obtains h rest where "versions_of (dc_id d) db = h # rest" "dc_current d = Some (ver_id h)" "distinct (map ver_id (h # rest))"
proof -
  let ?vs = "versions_of (dc_id d) db"
  obtain h where h: "h \<in> set (rd_versions db)" "dc_current d = Some (ver_id h)" "ver_document h = dc_id d"
      "\<forall>w \<in> set (rd_versions db). ver_document w = dc_id d \<longrightarrow> ver_version w \<le> ver_version h"
    using ok d by (rule head_row) simp
  have mem: "h \<in> set ?vs" using h by (simp add: versions_of_def)
  then obtain g rest where vs: "?vs = g # rest" by (cases ?vs) auto
  then have "g \<in> set ?vs" by simp
  then have g: "g \<in> set (rd_versions db)" "ver_document g = dc_id d" by (simp_all add: versions_of_def)
  have "sorted (map (\<lambda>v. - ver_version v) ?vs)" by (simp add: versions_of_def)
  with mem have "ver_version h \<le> ver_version g" unfolding vs by auto
  with h g have "ver_version g = ver_version h" by fastforce
  then have "g = h" using version_of_number [OF ok g(1)] version_of_number [OF ok h(1)] g h by simp
  moreover have "distinct (map ver_id ?vs)"
    using ok by (auto simp: versions_of_def ok_except_def rows_ok_def keyed_rows_def distinct_map intro: inj_on_subset)
  ultimately show thesis using h(2) vs by (intro that) simp_all
qed

definition within_age :: "runbook_env \<Rightarrow> instant \<Rightarrow> document \<Rightarrow> runbook_db \<Rightarrow> doc_version \<Rightarrow> bool" where
  "within_age env now d db v \<longleftrightarrow>
     (case rp_max_age (effective_policy env d db) of None \<Rightarrow> True | Some a \<Rightarrow> now - days_span a \<le> ver_created v)"

lemma effective_policy_cong:
  assumes "rd_runbooks db' = rd_runbooks db"
  shows "effective_policy env d db' = effective_policy env d db"
proof -
  have "find_runbook n db' = find_runbook n db" for n by (simp add: find_runbook_def assms)
  then show ?thesis by (simp only: effective_policy_def)
qed

text \<open>What a policy gives up and what it leaves, of the versions of a document, the head first.\<close>

lemma doomed_rest:
  assumes vs: "versions_of (dc_id d) db = h # rest" "dc_current d = Some (ver_id h)" "distinct (map ver_id (h # rest))"
    and policy: "rp_max_versions (effective_policy env d db) = Some m" "0 \<le> m"
  shows "doomed_versions env now d db = filter (\<lambda>v. v \<in> set (drop (nat m) (h # rest)) \<or> \<not> within_age env now d db v) rest"
proof -
  have age: "v \<in> set (case rp_max_age (effective_policy env d db) of None \<Rightarrow> []
        | Some a \<Rightarrow> filter (\<lambda>v. ver_created v < now - days_span a) (h # rest)) \<longleftrightarrow> \<not> within_age env now d db v"
    if "v \<in> set (h # rest)" for v
    using that by (cases "rp_max_age (effective_policy env d db)") (auto simp: within_age_def not_le)
  have "Some (ver_id v) \<noteq> dc_current d" if "v \<in> set rest" for v using that vs(2,3) by (auto simp: image_iff)
  with age policy vs(1,2) show ?thesis
    unfolding doomed_versions_def Let_def slice_from_def by (simp cong: filter_cong)
qed

lemma survivors:
  assumes vs: "versions_of (dc_id d) db = h # rest" "dc_current d = Some (ver_id h)" "distinct (map ver_id (h # rest))"
    and policy: "rp_max_versions (effective_policy env d db) = Some m" "0 \<le> m"
  shows "filter (\<lambda>v. ver_id v \<notin> ver_id ` set (doomed_versions env now d db)) (versions_of (dc_id d) db) =
      h # filter (within_age env now d db) (take (nat m - 1) rest)"
proof -
  note doomed = doomed_rest [OF assms]
  have ids: "ver_id v \<in> ver_id ` set (doomed_versions env now d db) \<longleftrightarrow> v \<in> set (doomed_versions env now d db)"
    if "v \<in> set (h # rest)" for v
  proof (rule inj_on_image_mem_iff [of ver_id "set (h # rest)"])
    show "inj_on ver_id (set (h # rest))" using vs(3) unfolding distinct_map by blast
    show "set (doomed_versions env now d db) \<subseteq> set (h # rest)" unfolding doomed by auto
  qed (rule that)
  have "filter (\<lambda>v. ver_id v \<notin> ver_id ` set (doomed_versions env now d db)) (h # rest) =
      h # filter (\<lambda>v. v \<notin> set (drop (nat m) (h # rest)) \<and> within_age env now d db v) rest"
  proof -
    have "filter (\<lambda>v. ver_id v \<notin> ver_id ` set (doomed_versions env now d db)) (h # rest) =
        filter (\<lambda>v. v \<notin> set (doomed_versions env now d db)) (h # rest)"
      by (rule filter_cong [OF refl]) (simp only: ids)
    also have "\<dots> = h # filter (\<lambda>v. v \<notin> set (doomed_versions env now d db)) rest"
    proof -
      have "h \<notin> set rest" using vs(3) by auto
      then show ?thesis by (simp add: doomed)
    qed
    also have "filter (\<lambda>v. v \<notin> set (doomed_versions env now d db)) rest =
        filter (\<lambda>v. v \<notin> set (drop (nat m) (h # rest)) \<and> within_age env now d db v) rest"
      by (rule filter_cong [OF refl]) (simp add: doomed)
    finally show ?thesis .
  qed
  also have "\<dots> = h # filter (within_age env now d db) (take (nat m - 1) rest)"
  proof (cases "nat m")
    case (Suc j)
    have "distinct rest" using vs(3) by (auto simp: distinct_map)
    then show ?thesis using Suc filter_not_dropped by simp
  qed (auto simp: filter_empty_conv)
  finally show ?thesis by (simp add: vs(1))
qed

text \<open>C40: with a number of versions to keep and maybe an age limit, a pruning leaves of a document
  exactly its head and, of the newest ones up to that number, those within the age limit; the
  documents stay as they are, and pruning again changes nothing.\<close>

theorem prune_keeps_newest:
  assumes "runbook_reachable env db" "d \<in> set (rd_documents db)"
    and "rp_max_versions (effective_policy env d db) = Some m" "0 \<le> m"
    and "prune_versions env now d db = (db', n)"
  shows "versions_of (dc_id d) db' =
      filter (\<lambda>v. Some (ver_id v) = dc_current d \<or> within_age env now d db v)
        (take (max 1 (nat m)) (versions_of (dc_id d) db))
    \<and> rd_documents db' = rd_documents db \<and> prune_versions env now d db' = (db', 0)"
proof -
  note ok = reachable_except [OF assms(1)]
  obtain h rest where vs: "versions_of (dc_id d) db = h # rest" "dc_current d = Some (ver_id h)" "distinct (map ver_id (h # rest))"
    using ok assms(2) by (rule versions_head_first)
  let ?rest = "filter (within_age env now d db) (take (nat m - 1) rest)"
  have db': "db' = db\<lparr>rd_versions := filter (\<lambda>v. ver_id v \<notin> ver_id ` set (doomed_versions env now d db)) (rd_versions db),
      rd_documents := rd_documents db'\<rparr>"
    using assms(5) by (auto simp: prune_versions_def Let_def)
  then have same: "rd_runbooks db' = rd_runbooks db" by (metis runbook_db.select_convs(2) runbook_db.surjective runbook_db.update_convs(4,5))
  note policy = effective_policy_cong [OF same]
  have docs: "rd_documents db' = rd_documents db" using prune_documents [OF ok assms(2)] assms(5) by (metis fst_conv)
  have kept: "versions_of (dc_id d) db' = h # ?rest"
    unfolding survivors [OF vs assms(3,4), symmetric] by (subst db') (rule versions_of_filter)
  have "distinct (map ver_id ?rest)"
    by (rule distinct_map_filterI) (use vs(3) in \<open>simp flip: take_map add: distinct_take\<close>)
  then have dist: "distinct (map ver_id (h # ?rest))" using vs(3) by (auto dest: in_set_takeD)
  have "doomed_versions env now d db' = []"
    unfolding doomed_rest [OF kept vs(2) dist assms(3,4) [folded policy [of env d]]]
  proof -
    have "drop (nat m) (h # ?rest) = []" if "nat m \<noteq> 0"
      using that length_filter_le [of "within_age env now d db" "take (nat m - 1) rest"] by simp arith
    then show "filter (\<lambda>v. v \<in> set (drop (nat m) (h # ?rest)) \<or> \<not> within_age env now d db' v) ?rest = []"
      by (cases "nat m") (simp_all add: within_age_def policy filter_empty_conv)
  qed
  then have again: "prune_versions env now d db' = (db', 0)"
    by (simp add: prune_versions_def tbl_update_idle)
  have "filter (\<lambda>v. Some (ver_id v) = dc_current d \<or> within_age env now d db v) (take (nat m - 1) rest) = ?rest"
  proof (rule filter_cong [OF refl])
    fix v assume "v \<in> set (take (nat m - 1) rest)"
    then have "v \<in> set rest" by (rule in_set_takeD)
    then have "ver_id v \<noteq> ver_id h" using vs(3) by (auto simp: image_iff)
    then show "(Some (ver_id v) = dc_current d \<or> within_age env now d db v) = within_age env now d db v"
      using vs(2) by simp
  qed
  then have "h # ?rest = filter (\<lambda>v. Some (ver_id v) = dc_current d \<or> within_age env now d db v)
      (take (max 1 (nat m)) (versions_of (dc_id d) db))"
    using vs by (cases "nat m") simp_all
  with kept docs again show ?thesis by simp
qed

end
