(* ===== verification/Runbook_Writes.thy ===== *)
theory Runbook_Writes
  imports Runbook_Props
begin

text \<open>
  What a write leaves behind: the body it was given, found again under the same address; one winner
  among the writers of one head; and the slug of a clone.
\<close>

section \<open>The head after a write\<close>

lemma head_after_new_version:
  assumes ok: "ok_except N db" and r: "create_new_version now body created_by description source via d db = Inr (d', db')"
  shows "read_head d' db' = body" "dc_version d' = ver_version (the (find_version (rd_seq db) db'))"
    "dc_runbook d' = dc_runbook d" "dc_key d' = dc_key d"
proof -
  from r obtain v n where v: "d' = sync_head now v d" "ver_body v = body" "ver_id v = rd_seq db"
    "db' = save_document (dc_id d) (sync_head now v) (db\<lparr>rd_seq := Suc (rd_seq db), rd_versions := rd_versions db @ [v]\<rparr>)"
    by (rule create_new_version_shape)
  have "ver_id u \<noteq> rd_seq db" if "u \<in> set (rd_versions db)" for u using new_row_ids(2) [OF ok that] by simp
  then have "find_version (rd_seq db) db' = Some v"
    using v(3) by (simp add: v(4) find_version_def save_document_rows tbl_find_snoc)
  then show "read_head d' db' = body" "dc_version d' = ver_version (the (find_version (rd_seq db) db'))"
    "dc_runbook d' = dc_runbook d" "dc_key d' = dc_key d" using v(1-3) by (simp_all add: read_head_def)
qed

lemma head_after_overwrite:
  assumes "overwrite_head now body source via d db = Inr (d', db')"
  shows "read_head d' db' = body" "dc_runbook d' = dc_runbook d" "dc_key d' = dc_key d" "dc_version d' = dc_version d"
proof -
  from assms obtain c where c: "dc_current d = Some c" "d' = d\<lparr>dc_content := strip_frontmatter body, dc_updated := now\<rparr>"
    and db': "db' = save_document (dc_id d) (\<lambda>r. r\<lparr>dc_content := strip_frontmatter body, dc_updated := now\<rparr>)
       (save_version c (\<lambda>v. v\<lparr>ver_body := body, ver_content := strip_frontmatter body,
          ver_source := (if source = '''' then ver_source v else source), ver_via := via\<rparr>) db)"
    by (rule overwrite_head_shape)
  from assms c obtain v where "find_version c db = Some v" by (auto simp: overwrite_head_def split: option.splits)
  then have "find_version c db' = Some (v\<lparr>ver_body := body, ver_content := strip_frontmatter body,
          ver_source := (if source = '''' then ver_source v else source), ver_via := via\<rparr>)"
    using found_row(1) by (fastforce simp: db' find_version_def save_document_rows save_version_def tbl_find_update)
  with c show "read_head d' db' = body" "dc_runbook d' = dc_runbook d" "dc_key d' = dc_key d" "dc_version d' = dc_version d"
    by (simp_all add: read_head_def)
qed

lemma write_version_place:
  assumes "write_version now body mode description source via actor bypass d db = Inr (d', db')"
  shows "dc_runbook d' = dc_runbook d" "dc_key d' = dc_key d" "rd_runbooks db' = rd_runbooks db"
  using assms
proof (atomize (full), cases rule: write_version_cases)
  case (snapshot e db1 body')
  from snapshot(1) show "dc_runbook d' = dc_runbook d \<and> dc_key d' = dc_key d \<and> rd_runbooks db' = rd_runbooks db"
    by (rule create_new_version_shape) (simp add: snapshot(2) save_document_rows)
next
  case (in_place e db1 body')
  from in_place(1) show "dc_runbook d' = dc_runbook d \<and> dc_key d' = dc_key d \<and> rd_runbooks db' = rd_runbooks db"
    by (rule overwrite_head_shape) (simp add: in_place(2) save_document_rows save_version_def)
qed

lemma emit_reads [simp]: "read_head d (emit e db) = read_head d db" "find_version c (emit e db) = find_version c db"
  "find_runbook n (emit e db) = find_runbook n db"
proof -
  show "find_version c (emit e db) = find_version c db" for c by (simp add: find_version_def)
  then show "read_head d (emit e db) = read_head d db" by (cases "dc_current d") (simp_all add: read_head_def)
qed (simp add: find_runbook_def)

lemma write_version_body:
  assumes "write_version now body mode description source via actor bypass d db = Inr (d', db')" "ok_except N db"
    and "mode \<in> {''new_version'', ''overwrite''}"
  shows "read_head d' db' = body"
  using assms(1)
proof (cases rule: write_version_cases)
  case (snapshot e db1 body')
  then show ?thesis using head_after_new_version(1) [OF assms(2) snapshot(1)] assms(3) by auto
next
  case (in_place e db1 body')
  then show ?thesis using head_after_overwrite(1) [OF in_place(1)] assms(3) by auto
qed

lemma placed_row:
  assumes "ok_except N db" "d \<in> set (rd_documents db)" "dc_runbook d = Some n" "dc_key d = Some k"
  shows "find (\<lambda>d. dc_runbook d = Some n \<and> dc_key d = Some k) (rd_documents db) = Some d"
proof -
  let ?P = "\<lambda>d. dc_runbook d = Some n \<and> dc_key d = Some k"
  have "find ?P (rd_documents db) \<noteq> None" using assms(2-4) by (auto simp: find_None_iff)
  then obtain e where e: "find ?P (rd_documents db) = Some e" by auto
  then have "e \<in> set (rd_documents db)" "?P e" by (auto dest: find_SomeD)
  moreover have "unique_opt doc_place (rd_documents db)" using assms(1) by (simp add: ok_except_def names_ok_def)
  ultimately have "e = d" using assms(2-4) by (auto simp: doc_place_def dest: unique_opt_inj)
  with e show ?thesis by simp
qed

text \<open>The document an upsert wrote is found under its address.\<close>

lemma put_document_place:
  assumes put: "put_document env now r key body p actor bypass db = Inr (res, db')"
    and ok: "ok_except {} db" and ref: "runbook_ref_ok db r" "section_ref_ok db (pa_section p)"
  obtains rb where "resolve_runbook r db = Inr rb" "rb \<in> set (rd_runbooks db)" "rd_runbooks db' = rd_runbooks db"
    "dr_doc res \<in> set (rd_documents db')" "ok_except {} db'"
    "find (\<lambda>d. dc_runbook d = Some (rb_id rb) \<and> dc_key d = Some key) (rd_documents db') = Some (dr_doc res)"
proof -
  note kept = keeps_put_document [OF put ref]
  have ok': "ok_except {} db'" using kept(1) ok by (simp add: keeps_from_def)
  have "\<exists>rb. resolve_runbook r db = Inr rb \<and> dc_runbook (dr_doc res) = Some (rb_id rb) \<and> dc_key (dr_doc res) = Some key
      \<and> rd_runbooks db' = rd_runbooks db"
    using put
  proof (cases rule: put_document_cases)
    case (created rb f d)
    from created(5) show ?thesis
    proof (cases rule: create_document_cases)
      case (1 q sec e db1 db2)
      note row = insert_document_row [OF 1(4)]
      have "q = rb" using 1(1) by (simp add: resolve_runbook_def)
      moreover have "dc_runbook d = dc_runbook e" "dc_key d = dc_key e" "rd_runbooks db2 = rd_runbooks db1"
        using 1(5) by (auto elim!: create_new_version_shape simp: save_document_rows)
      ultimately show ?thesis using created row 1(6) by (simp add: result_of_def)
    qed
  next
    case (updated rb d sec d')
    have "dc_runbook d = Some (rb_id rb)" "dc_key d = Some key" using updated(2) by (auto dest: find_SomeD)
    then show ?thesis using updated write_version_place [OF updated(7)]
      by (simp add: result_of_def put_meta_same save_document_rows)
  qed
  then obtain rb where rb: "resolve_runbook r db = Inr rb" "dc_runbook (dr_doc res) = Some (rb_id rb)"
      "dc_key (dr_doc res) = Some key" "rd_runbooks db' = rd_runbooks db" by blast
  show thesis
    by (rule that [OF rb(1) resolve_runbook_row [OF rb(1) ref(1)] rb(4) kept(2) ok' placed_row [OF ok' kept(2) rb(2,3)]])
qed

text \<open>C36: what a keyed upsert that makes or replaces a version has stored is what a read of the same
  runbook and key then gives: the same document, with exactly the body that was put.\<close>

theorem put_then_get:
  assumes "runbook_reachable env db" "section_ref_ok db (pa_section p)"
    and "put_document env now (Runbook_Slug slug) key body p actor bypass db = Inr (res, db')"
    and "pa_on_exists p \<in> {''new_version'', ''overwrite''}"
  shows "get_document (keyed slug key) True Internal db' =
    Inr \<lparr>dr_doc = dr_doc res, dr_runbook = Some slug, dr_body = Some body\<rparr>"
proof -
  note ok = reachable_except [OF assms(1)]
  obtain rb where rb: "resolve_runbook (Runbook_Slug slug) db = Inr rb" "rb \<in> set (rd_runbooks db)"
      "rd_runbooks db' = rd_runbooks db" "dr_doc res \<in> set (rd_documents db')" "ok_except {} db'"
      "find (\<lambda>d. dc_runbook d = Some (rb_id rb) \<and> dc_key d = Some key) (rd_documents db') = Some (dr_doc res)"
    by (rule put_document_place [OF assms(3) ok _ assms(2)]) simp
  have slug: "rb_slug rb = slug" using rb(1) by (auto simp: resolve_runbook_def split: option.splits dest: find_SomeD)
  have again: "resolve_runbook (Runbook_Slug slug) db' = Inr rb" using rb(1,3) by (simp add: resolve_runbook_def)
  have "tbl_find rb_id (rb_id rb) (rd_runbooks db') = Some rb"
    using frame_ok_D(1) [OF ok] rb(2) unfolding rb(3) by (rule keyed_find)
  moreover have "dc_runbook (dr_doc res) = Some (rb_id rb)" using rb(6) by (auto dest: find_SomeD)
  moreover have "read_head (dr_doc res) db' = body"
    using assms(3)
  proof (cases rule: put_document_cases)
    case (created q f d)
    from created(5) show ?thesis
    proof (cases rule: create_document_cases)
      case (1 q sec e db1 db2)
      have "home_ok (rd_runbooks db) (rd_sections db) e"
        by (rule resolved_home [OF resolve_runbook_row [OF 1(1)] 1(3)])
          (use assms(2) created(1,3) insert_document_row(1) [OF 1(4)] resolve_runbook_row [OF created(1)] in simp_all)
      then have "ok_except {dc_id e} db1"
        using keeps_insert_document [OF 1(4), of "{}"] ok by (simp add: keeps_from_def)
      from head_after_new_version(1) [OF this 1(5)] show ?thesis by (simp add: 1(6) created(6) result_of_def)
    qed
  next
    case (updated q d sec d')
    have d: "d \<in> set (rd_documents db)" using updated(2) by (auto dest: find_SomeD)
    have "ok_except {} (save_document (dc_id d) (put_meta now p sec d) db)"
      using keeps_put_meta [OF updated(1,6) _ assms(2), of d "{}" now] d ok updated(2)
      by (auto simp: keeps_from_def dest: find_SomeD)
    from write_version_body [OF updated(7) this] assms(4) show ?thesis by (simp add: updated(8) result_of_def)
  qed
  ultimately show ?thesis
    using again rb(6) slug by (simp add: get_document_def get_doc_def keyed_def result_of_def find_runbook_def)
qed


section \<open>Two writers\<close>

text \<open>C37: of two writers that read the same head, the first to store a version is the only one: the
  other, with the row it has read, is refused, by the unique version number unless it may not write.\<close>

theorem stale_writer_loses:
  assumes "runbook_reachable env db" "d \<in> set (rd_documents db)"
    and "mode \<in> {''new_version'', ''append_version''}" "mode' \<in> {''new_version'', ''append_version''}"
    and "write_version now body mode description source via actor bypass d db = Inr (d1, db1)"
  shows "write_version now' body' mode' description' source' via' actor' bypass' d db1 =
    guarded (check_writable d actor' bypass' db1) (Inl Integrity_Error)"
  using assms(5)
proof (cases rule: write_version_cases)
  case (snapshot e db2 text0)
  note ok = reachable_except [OF assms(1)]
  obtain h where h: "h \<in> set (rd_versions db)" "dc_current d = Some (ver_id h)" "dc_version d = ver_version h"
      "find_version (ver_id h) db = Some h" using ok assms(2) by (rule head_row) simp
  from snapshot(1) obtain v n where nxt: "next_version d db = Some n"
    and v_def: "v = new_version now text0 (actor_id actor) description source via d n (rd_seq db)"
    and db2: "db2 = save_document (dc_id d) (sync_head now v) (db\<lparr>rd_seq := Suc (rd_seq db), rd_versions := rd_versions db @ [v]\<rparr>)"
    by (rule create_new_version_shape)
  have v: "ver_version v = n" "ver_document v = dc_id d" "next_version d db = Some n" using nxt by (simp_all add: v_def)
  have "find_version (ver_id h) db1 = Some h"
    using h(4) by (simp add: snapshot(2) db2 find_version_def save_document_rows tbl_find_append)
  then have "next_version d db1 = Some n" using v(3) h(2,4) by (simp add: next_version_def)
  moreover have "v \<in> set (rd_versions db1)" by (simp add: snapshot(2) db2 save_document_rows)
  ultimately have "create_new_version now' b (actor_id actor') description' source' via' d db1 = Inl Integrity_Error" for b
    using v(1,2) by (auto simp: create_new_version_def list_ex_iff)
  with assms(4) show ?thesis by (auto simp: write_version_def)
qed (use assms(3) in auto)

section \<open>The expected version\<close>

lemma write_version_number:
  assumes "write_version now body mode description source via actor bypass d db = Inr (d', db')" "ok_except {} db"
    and "d \<in> set (rd_documents db)" "mode \<in> {''new_version'', ''append_version''}"
  shows "dc_version d' = dc_version d + 1"
  using assms(1)
proof (cases rule: write_version_cases)
  case (snapshot e db1 text0)
  from snapshot(1) show ?thesis
    by (rule create_new_version_shape) (use next_version_value [OF assms(2,3)] in auto)
qed (use assms(4) in auto)


section \<open>Lists and pages\<close>

text \<open>The lists of documents (a filter in the database) and the pages (a check of one document) agree
  on who sees a document, if it has a runbook or no section.\<close>

theorem lists_show_what_pages_show:
  assumes "runbook_reachable env db" "d \<in> set (rd_documents db)" "dc_runbook d \<noteq> None \<or> dc_section d = None"
  shows "d \<in> set (viewable_documents user db (rd_documents db)) \<longleftrightarrow> can_view_doc user d db"
proof (cases "dc_runbook d")
  case None
  with assms(2,3) show ?thesis
    by (cases user) (auto simp: viewable_documents_def can_view_doc_def can_view_def runbook_of_def)
next
  case (Some n)
  note ok = reachable_except [OF assms(1)]
  from Some frame_ok_D(6) [OF ok assms(2)] obtain rb where rb: "rb \<in> set (rd_runbooks db)" "rb_id rb = n"
    by (auto simp: home_ok_def)
  with frame_ok_D(1) [OF ok] have "find_runbook n db = Some rb" unfolding find_runbook_def by (auto dest: keyed_find)
  with Some assms(2) show ?thesis
    by (cases user) (auto simp: viewable_documents_def can_view_doc_def can_view_def runbook_of_def)
qed

section \<open>The slug of a clone\<close>

lemma nat_str_inj: "nat_str m = nat_str n \<Longrightarrow> m = n"
  by (metis digits_value_nat_str)

lemma slug_candidate_inj: "1 \<le> m \<Longrightarrow> 1 \<le> n \<Longrightarrow> slug_candidate base m = slug_candidate base n \<Longrightarrow> m = n"
  by (auto simp: slug_candidate_def split: if_splits dest: nat_str_inj)



lemma free_slug_fails:
  "free_slug fuel base n rbs \<in> rb_slug ` set rbs \<Longrightarrow> i \<le> fuel \<Longrightarrow> slug_candidate base (n + i) \<in> rb_slug ` set rbs"
proof (induction fuel base n rbs arbitrary: i rule: free_slug.induct)
  case (2 fuel base n rbs)
  have taken: "list_ex (\<lambda>r. rb_slug r = slug_candidate base n) rbs"
  proof (rule ccontr)
    assume free: "\<not> list_ex (\<lambda>r. rb_slug r = slug_candidate base n) rbs"
    with 2(2) show False by (auto simp: list_ex_iff)
  qed
  show ?case
  proof (cases i)
    case 0
    with taken show ?thesis by (force simp: list_ex_iff)
  next
    case (Suc j)
    with 2 taken show ?thesis by simp
  qed
qed simp

text \<open>The search for a slug of a clone ends: as many steps as there are runbooks are enough, and the
  slug found belongs to none of them.\<close>

theorem unique_slug_is_free: "unique_slug base db \<notin> rb_slug ` set (rd_runbooks db)"
proof
  define b where "b = (if base = '''' then ''runbook'' else base)"
  assume "unique_slug base db \<in> rb_slug ` set (rd_runbooks db)"
  then have "slug_candidate b (1 + i) \<in> rb_slug ` set (rd_runbooks db)" if "i \<le> length (rd_runbooks db)" for i
    using that unfolding unique_slug_def b_def [symmetric] by (rule free_slug_fails)
  then have "(\<lambda>i. slug_candidate b (1 + i)) ` {..length (rd_runbooks db)} \<subseteq> rb_slug ` set (rd_runbooks db)" by auto
  then have "card ((\<lambda>i. slug_candidate b (1 + i)) ` {..length (rd_runbooks db)}) \<le> card (rb_slug ` set (rd_runbooks db))"
    by (rule card_mono [rotated]) simp
  also have "\<dots> \<le> length (rd_runbooks db)" using card_image_le [of "set (rd_runbooks db)" rb_slug] card_length le_trans by blast
  finally have "card ((\<lambda>i. slug_candidate b (1 + i)) ` {..length (rd_runbooks db)}) \<le> length (rd_runbooks db)" .
  moreover have "inj_on (\<lambda>i. slug_candidate b (1 + i)) {..length (rd_runbooks db)}"
    by (rule inj_onI) (drule slug_candidate_inj [rotated 2], simp_all)
  then have "card ((\<lambda>i. slug_candidate b (1 + i)) ` {..length (rd_runbooks db)}) = Suc (length (rd_runbooks db))"
    by (simp add: card_image)
  ultimately show False by simp
qed

end
