(* ===== verification/Runbook_Rest_Props.thy ===== *)
theory Runbook_Rest_Props
  imports Runbook_Writes Runbook_Rest
begin

text \<open>
  The REST interface as a whole (\<open>apps/runbook/urls.py\<close>): which endpoint answers which path, that a
  write leaves alone every document its caller may not change, and that a read answers as if what
  its caller may not see were not there.
\<close>

section \<open>The paths\<close>

datatype rest_path =
    Api_Documents query
  | Api_By_Uid string
  | Api_Document query string string
  | Api_Append string string
  | Api_Archive string string
  | Api_Unarchive string string
  | Api_Move string string
  | Api_Revert string string
  | Api_Copy string string
  | Api_Runbooks
  | Api_Runbook string
  | Api_Sections string
  | Api_Publish string
  | Api_Unpublish string

text \<open>The methods of the decorators.\<close>

fun rest_methods :: "rest_path \<Rightarrow> string list" where
  "rest_methods (Api_Documents q) = [''GET'']"
| "rest_methods (Api_By_Uid uid) = [''GET'']"
| "rest_methods (Api_Document q slug key) = [''GET'', ''PUT'', ''DELETE'']"
| "rest_methods Api_Runbooks = [''GET'', ''POST'']"
| "rest_methods (Api_Runbook slug) = [''GET'']"
| "rest_methods (Api_Sections slug) = [''GET'', ''POST'']"
| "rest_methods _ = [''POST'']"

fun rest_endpoint :: "runbook_env \<Rightarrow> instant \<Rightarrow> (nat \<Rightarrow> string) \<Rightarrow> string \<Rightarrow> rest_path \<Rightarrow> runbook_endpoint" where
  "rest_endpoint env now names verb (Api_Documents q) = api_list_documents env q"
| "rest_endpoint env now names verb (Api_By_Uid uid) = api_document_by_uid env uid"
| "rest_endpoint env now names verb (Api_Document q slug key) = api_document env now verb q slug key"
| "rest_endpoint env now names verb (Api_Append slug key) = api_document_append env now slug key"
| "rest_endpoint env now names verb (Api_Archive slug key) = api_document_archive env now slug key"
| "rest_endpoint env now names verb (Api_Unarchive slug key) = api_document_unarchive env now slug key"
| "rest_endpoint env now names verb (Api_Move slug key) = api_document_move env now slug key"
| "rest_endpoint env now names verb (Api_Revert slug key) = api_document_revert env now slug key"
| "rest_endpoint env now names verb (Api_Copy slug key) = api_document_copy env now slug key"
| "rest_endpoint env now names verb Api_Runbooks =
     (if verb = ''GET'' then api_runbooks_get names else api_runbooks_post env names)"
| "rest_endpoint env now names verb (Api_Runbook slug) = api_runbook_detail env names slug"
| "rest_endpoint env now names verb (Api_Sections slug) =
     (if verb = ''GET'' then api_runbook_sections_get env slug else api_runbook_sections_post env slug)"
| "rest_endpoint env now names verb (Api_Publish slug) = set_runbook_visibility env names slug True"
| "rest_endpoint env now names verb (Api_Unpublish slug) = set_runbook_visibility env names slug False"

text \<open>A request to a path, through the decorator.\<close>

definition rest_request ::
    "token_env \<Rightarrow> runbook_env \<Rightarrow> (nat \<Rightarrow> string) \<Rightarrow> instant \<Rightarrow> rest_path \<Rightarrow> api_request \<Rightarrow> auth_db \<times> runbook_db \<Rightarrow>
     (auth_db \<times> runbook_db) \<times> api_reply" where
  "rest_request tenv env names now path rq =
     runbook_api tenv (rest_methods path) (rest_endpoint env now names (rq_method rq) path) now rq"

section \<open>What a write leaves alone\<close>

definition same_document :: "nat \<Rightarrow> runbook_db \<Rightarrow> runbook_db \<Rightarrow> bool" where
  "same_document n db db' \<longleftrightarrow>
     filter (\<lambda>d. dc_id d = n) (rd_documents db') = filter (\<lambda>d. dc_id d = n) (rd_documents db)
     \<and> filter (\<lambda>v. ver_document v = n) (rd_versions db') = filter (\<lambda>v. ver_document v = n) (rd_versions db)
     \<and> filter (\<lambda>i. img_document i = n) (rd_images db') = filter (\<lambda>i. img_document i = n) (rd_images db)"

lemma same_document_refl [simp]: "same_document n db db"
  by (simp add: same_document_def)

lemma same_document_trans [trans]: "same_document n a b \<Longrightarrow> same_document n b c \<Longrightarrow> same_document n a c"
  by (simp add: same_document_def)

lemma filter_update_disjoint:
  "(\<And>r. r \<in> set rows \<Longrightarrow> P r \<Longrightarrow> \<not> Q r \<and> \<not> Q (f r)) \<Longrightarrow> filter Q (tbl_update P f rows) = filter Q rows"
  by (induction rows) (auto simp: tbl_update_def)

lemma same_emit: "same_document n db (emit e db)"
  by (simp add: same_document_def)

lemma same_save: "m \<noteq> n \<Longrightarrow> (\<And>e. dc_id (f e) = dc_id e) \<Longrightarrow> same_document n db (save_document m f db)"
  by (auto simp: same_document_def save_document_rows intro: filter_update_disjoint)

lemma same_new_version:
  assumes "create_new_version now body created_by description source via d db = Inr (d', db')" "dc_id d \<noteq> n"
  shows "same_document n db db'"
  using assms(1)
proof (rule create_new_version_shape)
  fix v k assume v: "v = new_version now body created_by description source via d k (rd_seq db)"
    and db': "db' = save_document (dc_id d) (sync_head now v) (db\<lparr>rd_seq := Suc (rd_seq db), rd_versions := rd_versions db @ [v]\<rparr>)"
  have "same_document n db (db\<lparr>rd_seq := Suc (rd_seq db), rd_versions := rd_versions db @ [v]\<rparr>)"
    using assms(2) by (simp add: same_document_def v)
  then show ?thesis unfolding db' by (rule same_document_trans) (rule same_save [OF assms(2)], simp)
qed

lemma same_overwrite:
  assumes r: "overwrite_head now body source via d db = Inr (d', db')" and ok: "ok_except {} db"
    and d: "d \<in> set (rd_documents db)" "dc_id d \<noteq> n"
  shows "same_document n db db'"
  using r
proof (rule overwrite_head_shape)
  fix c assume c: "dc_current d = Some c"
    and db': "db' = save_document (dc_id d) (\<lambda>r. r\<lparr>dc_content := strip_frontmatter body, dc_updated := now\<rparr>)
       (save_version c (\<lambda>v. v\<lparr>ver_body := body, ver_content := strip_frontmatter body,
          ver_source := (if source = '''' then ver_source v else source), ver_via := via\<rparr>) db)"
  obtain h where h: "dc_current d = Some (ver_id h)" "ver_document h = dc_id d" "find_version (ver_id h) db = Some h"
    using ok d(1) by (rule head_row) simp
  have "ver_document v = dc_id d" if "v \<in> set (rd_versions db)" "ver_id v = c" for v
    using that c h found_version_iff [OF ok, of c v] by auto
  then have "same_document n db (save_version c (\<lambda>v. v\<lparr>ver_body := body, ver_content := strip_frontmatter body,
          ver_source := (if source = '''' then ver_source v else source), ver_via := via\<rparr>) db)"
    using d(2) by (auto simp: same_document_def save_version_def intro!: filter_update_disjoint)
  then show ?thesis unfolding db' by (rule same_document_trans) (rule same_save [OF d(2)], simp)
qed

lemma same_write_version:
  assumes "write_version now body mode description source via actor bypass d db = Inr (d', db')" "ok_except {} db"
    and "d \<in> set (rd_documents db)" "dc_id d \<noteq> n"
  shows "same_document n db db'"
  using assms(1)
proof (cases rule: write_version_cases)
  case (snapshot e db1 body')
  show ?thesis unfolding snapshot(2) using same_new_version [OF snapshot(1) assms(4)] same_emit by (rule same_document_trans)
next
  case (in_place e db1 body')
  show ?thesis unfolding in_place(2) using same_overwrite [OF in_place(1) assms(2-4)] same_emit by (rule same_document_trans)
qed

lemma same_create_document:
  assumes "create_document env now r body f actor db = Inr (d', db')" "n < rd_seq db"
  shows "same_document n db db' \<and> dc_id d' \<noteq> n"
  using assms(1)
proof (cases rule: create_document_cases)
  case (1 rb sec d db1 db2)
  note row = insert_document_row [OF 1(4)]
  have "same_document n db db1" using row(1) assms(2) by (simp add: same_document_def row(2))
  also have "same_document n db1 db2" using row(1) assms(2) by (intro same_new_version [OF 1(5)]) simp
  also have "same_document n db2 db'" unfolding 1(6) by (rule same_emit)
  finally show ?thesis using 1(5) row(1) assms(2) by (auto elim!: create_new_version_shape)
qed

lemma writable_other:
  assumes "ok_except {} db" "d \<in> set (rd_documents db)" "e \<in> set (rd_documents db)"
    and "check_writable e actor bypass db = None" "check_writable d actor bypass db \<noteq> None"
  shows "dc_id e \<noteq> dc_id d"
  using assms document_unique by fastforce

lemma same_put_document:
  assumes r: "put_document env now r key body p actor bypass db = Inr (res, db')" and ok: "ok_except {} db"
    and ref: "runbook_ref_ok db r" "section_ref_ok db (pa_section p)"
    and d: "d \<in> set (rd_documents db)" "check_writable d actor bypass db \<noteq> None"
  shows "same_document (dc_id d) db db' \<and> dc_id (dr_doc res) \<noteq> dc_id d"
  using r
proof (cases rule: put_document_cases)
  case (created rb f e)
  then show ?thesis using same_create_document [OF created(5) new_row_ids(1) [OF ok d(1)]] by (simp add: result_of_def)
next
  case (updated rb e sec d')
  have e: "e \<in> set (rd_documents db)" "dc_runbook e = Some (rb_id rb)" using updated(2) by (auto dest: find_SomeD)
  have other: "dc_id e \<noteq> dc_id d" using writable_other [OF ok d(1) e(1) updated(3) d(2)] .
  let ?m = "save_document (dc_id e) (put_meta now p sec e) db"
  have id: "dc_id (put_meta now p sec e x) = dc_id x" for x using put_meta_same(1) by (simp add: same_head_def)
  have saved: "ok_except {} ?m"
    using keeps_put_meta [OF updated(1,6) ref e, of "{}" now] ok by (simp add: keeps_from_def)
  have "same_document (dc_id d) db ?m" using other id by (rule same_save)
  also have "same_document (dc_id d) ?m db'"
    using same_write_version [OF updated(7) saved row_after_save [OF e(1)]] other id by simp
  finally show ?thesis
    using write_version_result(2) [OF updated(7) row_after_save [OF e(1)]] other id by (simp add: updated(8) result_of_def)
qed

lemma same_clone_images: "target \<noteq> n \<Longrightarrow> same_document n db (snd (clone_images env now target actor is body db))"
proof (induction env now target actor "is" body db rule: clone_images.induct)
  case (2 env now target actor i "is" body db)
  obtain j db1 where ins: "insert_image now target (''image'' @ img_ext i) (img_data i) (img_alt i) actor db = (j, db1)"
    by fastforce
  have "same_document n db db1"
    using insert_image_simps [of now target "''image'' @ img_ext i" "img_data i" "img_alt i" actor db] 2(3)
    unfolding ins by (simp add: same_document_def)
  with 2(1) [OF _ ins [symmetric]] 2(2,3) ins show ?case
    by (cases "contains (serve_image_url env (img_id i)) body") (auto intro: same_document_trans)
qed simp

lemma same_copy_document:
  assumes r: "copy_document env now t viewer to_runbook to_key title sec on_exists via actor db = Inr (res, db')"
    and ok: "ok_except {} db" and ref: "section_ref_ok db sec"
    and d: "d \<in> set (rd_documents db)" "check_writable d actor False db \<noteq> None"
  shows "same_document (dc_id d) db db'"
proof -
  from r obtain src rb where "(case t of Doc_Row d \<Rightarrow> Inr d | Doc_At ad \<Rightarrow> get_doc ad viewer db) = Inr src"
      "resolve_runbook to_runbook db = Inr rb" by (auto simp: copy_document_def bind_err_Inr)
  with r obtain result db1 p where put: "put_document env now (Runbook_Slug (rb_slug rb)) to_key (read_head src db)
        p actor False db = Inr (result, db1)" "pa_section p = sec"
    and rest: "(case find (\<lambda>d. dc_uid d = dc_uid (dr_doc result)) (rd_documents db1) of
                None \<Rightarrow> Inl Document_Not_Found
              | Some target \<Rightarrow>
                 (case clone_referenced_images env now (read_head src db) (dc_id src) (dc_id target) actor db1 of
                    (rewritten, db2) \<Rightarrow>
                      if rewritten \<noteq> read_head src db
                      then bind_err (write_version now rewritten ''overwrite'' '''' '''' via actor False target db2)
                             (\<lambda>(d', db3). Inr (result_of False d' db3, db3))
                      else Inr (result, db2))) = Inr (res, db')"
    unfolding copy_document_def bind_err_Inr by (fastforce simp: bind_err_Inr)
  note ref' = runbook_ref_ok.simps(2) [THEN iffD2, OF TrueI] ref [folded put(2)]
  note kept = keeps_put_document [OF put(1) ref'] and one = same_put_document [OF put(1) ok ref' d]
  have ok1: "ok_except {} db1" using kept(1) ok by (simp add: keeps_from_def)
  from rest obtain target where t: "find (\<lambda>d. dc_uid d = dc_uid (dr_doc result)) (rd_documents db1) = Some target"
    by (auto split: option.splits)
  then have row: "target \<in> set (rd_documents db1)" "dc_uid target = dc_uid (dr_doc result)" by (auto dest: find_SomeD)
  have "distinct (map dc_uid (rd_documents db1))" using ok1 by (simp add: ok_except_def names_ok_def)
  with row kept(2) have same: "target = dr_doc result" by (auto simp: distinct_map dest: inj_onD)
  obtain rewritten db2 where i: "clone_referenced_images env now (read_head src db) (dc_id src) (dc_id target) actor db1
      = (rewritten, db2)" by fastforce
  note images = referenced_images [OF i]
  have two: "same_document (dc_id d) db1 db2"
    using same_clone_images [of "dc_id target" "dc_id d" db1] one i by (simp add: same clone_referenced_images_def) (metis snd_conv)
  have ok2: "ok_except {} db2" using images(5) [of "{}"] row(1) ok1 by (simp add: keeps_from_def)
  show ?thesis
  proof (cases "rewritten = read_head src db")
    case True
    with rest t i one two show ?thesis by (auto intro: same_document_trans)
  next
    case False
    with rest t i obtain d' where w: "write_version now rewritten ''overwrite'' '''' '''' via actor False target db2 = Inr (d', db')"
      by (auto simp: bind_err_Inr)
    have "same_document (dc_id d) db2 db'"
      by (rule same_write_version [OF w ok2]) (use row(1) same one in \<open>simp_all add: images(1)\<close>)
    with one two show ?thesis by (blast intro: same_document_trans)
  qed
qed

lemma same_archive:
  assumes "archive_document now t actor bypass db = Inr (res, db')" "ok_except {} db" "target_ok db t"
    and d: "d \<in> set (rd_documents db)" "check_writable d actor bypass db \<noteq> None"
  shows "same_document (dc_id d) db db'"
proof -
  from assms(1) obtain e where e: "target_doc t db = Inr e" "check_writable e actor bypass db = None"
    by (auto simp: archive_document_def bind_err_Inr guarded_eq_Inr)
  have "dc_id e \<noteq> dc_id d" using writable_other [OF assms(2) d(1) target_row [OF e(1) assms(3)] e(2) d(2)] .
  then have "same_document (dc_id d) db (save_document (dc_id e) (\<lambda>r. r\<lparr>dc_archived := True, dc_archived_at := Some now, dc_updated := now\<rparr>) db)"
    by (rule same_save) simp
  from same_document_trans [OF this same_emit] show ?thesis
    using assms(1) e by (auto simp: archive_document_def Let_def split: if_splits)
qed

lemma same_unarchive:
  assumes "unarchive_document now t actor bypass db = Inr (res, db')" "ok_except {} db" "target_ok db t"
    and d: "d \<in> set (rd_documents db)" "check_writable d actor bypass db \<noteq> None"
  shows "same_document (dc_id d) db db'"
proof -
  from assms(1) obtain e where e: "target_doc t db = Inr e" "check_writable e actor bypass db = None"
    by (auto simp: unarchive_document_def bind_err_Inr guarded_eq_Inr)
  have "dc_id e \<noteq> dc_id d" using writable_other [OF assms(2) d(1) target_row [OF e(1) assms(3)] e(2) d(2)] .
  then have "same_document (dc_id d) db (save_document (dc_id e) (\<lambda>r. r\<lparr>dc_archived := False, dc_archived_at := None, dc_updated := now\<rparr>) db)"
    by (rule same_save) simp
  then show ?thesis
    using assms(1) e by (auto simp: unarchive_document_def Let_def split: if_splits)
qed

lemma same_delete:
  assumes "delete_document now t force actor bypass db = Inr db'" "ok_except {} db" "target_ok db t"
    and d: "d \<in> set (rd_documents db)" "check_writable d actor bypass db \<noteq> None"
  shows "same_document (dc_id d) db db'"
proof -
  from assms(1) obtain e where e: "target_doc t db = Inr e" "check_writable e actor bypass db = None"
    by (auto simp: delete_document_def bind_err_Inr guarded_eq_Inr)
  note row = target_row [OF e(1) assms(3)]
  have other: "dc_id e \<noteq> dc_id d" using writable_other [OF assms(2) d(1) row e(2) d(2)] .
  show ?thesis
  proof (cases force)
    case True
    have "same_document (dc_id d) db (delete_rows (dc_id e) db)"
      using other by (auto simp: same_document_def delete_rows_def intro: filter_cong)
    then show ?thesis using True assms(1) e by (simp add: delete_document_def)
  next
    case False
    then obtain res where "archive_document now (Doc_Row e) actor bypass db = Inr (res, db')"
      using assms(1) e by (auto simp: delete_document_def bind_err_Inr)
    from same_archive [OF this assms(2) _ d] row show ?thesis by simp
  qed
qed

lemma same_restore:
  assumes "restore_version now t n via actor bypass db = Inr (d', db')" "ok_except {} db" "target_ok db t"
    and d: "d \<in> set (rd_documents db)" "check_writable d actor bypass db \<noteq> None"
  shows "same_document (dc_id d) db db'"
proof -
  from assms(1) obtain e where t: "target_doc t db = Inr e" by (auto simp: restore_version_def bind_err_Inr)
  with assms(1) obtain body where w: "write_version now body ''new_version'' (restored_note n) '''' via actor bypass e db = Inr (d', db')"
    by (auto simp: restore_version_def split: option.splits)
  then have "check_writable e actor bypass db = None" by (simp add: write_version_def guarded_eq_Inr)
  note row = target_row [OF t assms(3)]
  show ?thesis
    by (rule same_write_version [OF w assms(2) row writable_other [OF assms(2) d(1) row _ d(2)]]) fact
qed

lemma same_move:
  assumes "move_document now t to_runbook to_section actor bypass db = Inr (res, db')" "ok_except {} db" "target_ok db t"
    and d: "d \<in> set (rd_documents db)" "check_writable d actor bypass db \<noteq> None"
  shows "same_document (dc_id d) db db'"
  using assms(1)
proof (cases rule: move_document_cases)
  case (1 e rb sec key)
  have "dc_id e \<noteq> dc_id d" using writable_other [OF assms(2) d(1) target_row [OF 1(1) assms(3)] 1(2) d(2)] .
  then have "same_document (dc_id d) db (save_document (dc_id e)
      (\<lambda>r. r\<lparr>dc_runbook := rb, dc_section := sec, dc_key := key, dc_updated := now\<rparr>) db)"
    by (rule same_save) simp
  from same_document_trans [OF this same_emit] show ?thesis unfolding 1(4) .
qed

section \<open>Writes by a caller who may not write\<close>

lemma error_state [simp]: "fst (reply_with env db (Inl e) f) = db" "fst (reply_with env db (Inr (x, db')) f) = db'"
  by (simp_all add: reply_with_def)

lemma fst_reply: "(\<And>x db'. r = Inr (x, db') \<Longrightarrow> same_document n db db') \<Longrightarrow> same_document n db (fst (reply_with env db r f))"
  by (auto simp: reply_with_def split: sum.splits)

lemma fst_writing:
  "(require_write c = None \<Longrightarrow> same_document n db (fst r)) \<Longrightarrow> same_document n db (fst (writing c db r))"
  by (auto simp: writing_def split: option.splits)

lemma fst_dict: "(\<And>d. same_document n db (fst (f d))) \<Longrightarrow> same_document n db (fst (with_dict body db f))"
  by (auto simp: with_dict_def split: json.splits)

lemma fst_body: "(\<And>d v. same_document n db (fst (f d v))) \<Longrightarrow> same_document n db (fst (with_body body db f))"
  by (auto simp: with_body_def Let_def split: json.splits option.splits)

lemma fst_put: "(\<And>s x db'. put s = Inr (x, db') \<Longrightarrow> same_document n db db') \<Longrightarrow> same_document n db (fst (put_value env v db put))"
  by (auto simp: put_value_def intro: fst_reply split: json.splits)

lemma keyed_ok [simp]: "target_ok db (Doc_At (keyed slug key))"
  by (simp add: keyed_def)

lemma section_field_ok [simp]: "section_ref_ok db (section_field env k d)"
  by (simp add: section_field_def split: option.split)

lemma same_tables:
  "rd_documents db' = rd_documents db \<Longrightarrow> rd_versions db' = rd_versions db \<Longrightarrow> rd_images db' = rd_images db \<Longrightarrow>
    same_document n db db'"
  by (simp add: same_document_def)

lemma same_create_runbook:
  "create_runbook env slug name description owner public db = Inr (rb, db') \<Longrightarrow> same_document n db db'"
  by (auto simp: create_runbook_def Let_def same_tables split: if_splits dest!: insert_runbook_row(2))

lemma same_create_section: "create_section env r slug name ord actor db = Inr (s, db') \<Longrightarrow> same_document n db db'"
  by (auto simp: create_section_def bind_err_Inr guarded_eq_Inr Let_def same_tables split: if_splits option.splits
      dest!: insert_section_row(2))

lemma same_set_public: "set_runbook_public r public actor db = Inr (rb, db') \<Longrightarrow> same_document n db db'"
  by (auto simp: set_runbook_public_def bind_err_Inr guarded_eq_Inr same_tables save_runbook_def split: if_splits)

lemmas rest_calls = api_document_move_def api_document_delete_def api_document_put_def api_document_append_def
  append_to_document_def api_document_archive_def api_document_unarchive_def api_document_revert_def
  api_document_copy_def api_runbooks_post_def api_runbook_sections_post_def set_runbook_visibility_def

lemma endpoint_leaves_alone:
  assumes ok: "ok_except {} db" and d: "d \<in> set (rd_documents db)" "check_writable d (Person (fst c)) False db \<noteq> None"
  shows "same_document (dc_id d) db (fst (api_document_move env now slug key c body db))"
    "same_document (dc_id d) db (fst (api_document_delete env now q slug key c body db))"
    "same_document (dc_id d) db (fst (api_document_put env now slug key c body db))"
    "same_document (dc_id d) db (fst (api_document_append env now slug key c body db))"
    "same_document (dc_id d) db (fst (api_document_archive env now slug key c body db))"
    "same_document (dc_id d) db (fst (api_document_unarchive env now slug key c body db))"
    "same_document (dc_id d) db (fst (api_document_revert env now slug key c body db))"
    "same_document (dc_id d) db (fst (api_document_copy env now slug key c body db))"
proof -
  show "same_document (dc_id d) db (fst (api_document_move env now slug key c body db))"
    unfolding rest_calls by (intro fst_writing fst_dict fst_reply) (erule same_move [OF _ ok keyed_ok d])
  show "same_document (dc_id d) db (fst (api_document_delete env now q slug key c body db))"
    unfolding rest_calls Let_def
    by (intro fst_writing fst_reply) (auto simp: bind_err_Inr elim: same_delete [OF _ ok keyed_ok d])
  show "same_document (dc_id d) db (fst (api_document_put env now slug key c body db))"
    unfolding rest_calls
    by (intro fst_writing fst_body fst_put, drule same_put_document [OF _ ok _ _ d]) simp_all
  show "same_document (dc_id d) db (fst (api_document_append env now slug key c body db))"
    unfolding rest_calls
    by (intro fst_writing fst_body fst_put, drule same_put_document [OF _ ok _ _ d]) (simp_all add: put_defaults_def)
  show "same_document (dc_id d) db (fst (api_document_archive env now slug key c body db))"
    unfolding rest_calls by (intro fst_writing fst_reply) (erule same_archive [OF _ ok keyed_ok d])
  show "same_document (dc_id d) db (fst (api_document_unarchive env now slug key c body db))"
    unfolding rest_calls by (intro fst_writing fst_reply) (erule same_unarchive [OF _ ok keyed_ok d])
  show "same_document (dc_id d) db (fst (api_document_revert env now slug key c body db))"
    unfolding rest_calls
    by (intro fst_writing fst_dict)
      (auto split: json.splits option.splits sum.splits dest: same_restore [OF _ ok keyed_ok d])
  show "same_document (dc_id d) db (fst (api_document_copy env now slug key c body db))"
    unfolding rest_calls Let_def
    by (intro fst_writing fst_dict) (auto intro!: fst_reply elim: same_copy_document [OF _ ok section_field_ok d])
qed

text \<open>C34: no call of the REST interface changes a document, its versions or its images when the caller
  comes with a read-only key, when it may not edit the document, or when the document is locked and
  the caller is no superuser: not the documents it names, nor any other.\<close>

theorem rest_leaves_protected_documents:
  assumes "runbook_reachable env db" "d \<in> set (rd_documents db)"
    and "(\<exists>t. snd c = Some t \<and> ak_level t = ''readonly'') \<or> \<not> can_edit_doc (Person (fst c)) d db
      \<or> (dc_locked d \<and> \<not> acc_superuser (fst c))"
  shows "same_document (dc_id d) db (fst (rest_endpoint env now names verb path c body db))"
proof -
  note ok = reachable_except [OF assms(1)]
  have same: "same_document (dc_id d) db (fst (writing c db r))"
    if "require_write c = None \<Longrightarrow> same_document (dc_id d) db (fst r)" for r
    using that by (rule fst_writing)
  show ?thesis
  proof (cases "require_write c")
    case (Some e)
    then have "fst (rest_endpoint env now names verb path c body db) = db"
      by (cases path; cases c) (simp_all add: rest_calls writing_def api_list_documents_def api_document_by_uid_def api_read_def
          api_document_def api_document_get_def api_runbooks_get_def api_runbook_detail_def api_runbook_sections_get_def Let_def)
    then show ?thesis by simp
  next
    case None
    then have "\<not> can_edit_doc (Person (fst c)) d db \<or> (dc_locked d \<and> \<not> acc_superuser (fst c))"
      using assms(3) by (auto simp: require_write_def)
    then have "check_writable d (Person (fst c)) False db \<noteq> None" by (auto simp: check_writable_def)
    note kept = endpoint_leaves_alone [OF ok assms(2) this]
    show ?thesis
    proof (cases path)
      case (Api_Document q slug key)
      then show ?thesis using kept by (cases c) (simp add: api_document_def api_document_get_def api_read_def)
    next
      case Api_Runbooks
      then show ?thesis
        by (cases c) (auto simp: api_runbooks_get_def api_runbooks_post_def Let_def intro!: fst_writing fst_dict
            split: sum.splits elim: same_create_runbook)
    next
      case (Api_Sections slug)
      then show ?thesis
        by (cases c) (auto simp: api_runbook_sections_get_def api_runbook_sections_post_def Let_def
            intro!: fst_writing fst_dict fst_reply elim: same_create_section)
    next
      case (Api_Publish slug)
      then show ?thesis
        by (auto simp: set_runbook_visibility_def intro!: fst_writing split: sum.splits elim: same_set_public)
    next
      case (Api_Unpublish slug)
      then show ?thesis
        by (auto simp: set_runbook_visibility_def intro!: fst_writing split: sum.splits elim: same_set_public)
    qed (use kept in \<open>auto simp: api_list_documents_def api_document_by_uid_def api_read_def api_runbook_detail_def split: prod.splits\<close>)
  qed
qed

end
