(* ===== verification/Runbook_Reads.thy ===== *)
theory Runbook_Reads
  imports Runbook_Rest_Props
begin

text \<open>
  What a caller may not see does not show: the reads of the REST interface answer as they would on
  the tables without it.
\<close>

section \<open>The part of the tables a caller sees\<close>

definition visible_part :: "actor \<Rightarrow> runbook_db \<Rightarrow> runbook_db" where
  "visible_part user db =
     (let seen = (\<lambda>n. \<exists>d \<in> set (rd_documents db). dc_id d = n \<and> can_view_doc user d db) in
      db\<lparr>rd_runbooks := filter (\<lambda>rb. can_view user (Some rb)) (rd_runbooks db),
         rd_sections := filter (\<lambda>s. can_view user (find_runbook (sec_runbook s) db)) (rd_sections db),
         rd_documents := filter (\<lambda>d. can_view_doc user d db) (rd_documents db),
         rd_versions := filter (\<lambda>v. seen (ver_document v)) (rd_versions db),
         rd_images := filter (\<lambda>i. seen (img_document i)) (rd_images db),
         rd_subs := filter (\<lambda>s. seen (fst s)) (rd_subs db)\<rparr>)"

lemma visible_tables:
  "rd_runbooks (visible_part user db) = filter (\<lambda>rb. can_view user (Some rb)) (rd_runbooks db)"
  "rd_sections (visible_part user db) = filter (\<lambda>s. can_view user (find_runbook (sec_runbook s) db)) (rd_sections db)"
  "rd_documents (visible_part user db) = filter (\<lambda>d. can_view_doc user d db) (rd_documents db)"
  "rd_versions (visible_part user db) =
     filter (\<lambda>v. \<exists>d \<in> set (rd_documents db). dc_id d = ver_document v \<and> can_view_doc user d db) (rd_versions db)"
  by (simp_all add: visible_part_def Let_def)

lemma find_filter:
  assumes "\<And>x y. x \<in> set xs \<Longrightarrow> y \<in> set xs \<Longrightarrow> Q x \<Longrightarrow> Q y \<Longrightarrow> x = y"
  shows "find Q (filter P xs) = (case find Q xs of None \<Rightarrow> None | Some x \<Rightarrow> if P x then Some x else None)"
  using assms
proof (induction xs)
  case (Cons x xs)
  show ?case
  proof (cases "Q x \<and> \<not> P x")
    case True
    have "\<not> Q y" if "y \<in> set xs" "P y" for y using Cons.prems [of x y] True that by auto
    then have "find Q (filter P xs) = None" by (auto simp: find_None_iff)
    with True show ?thesis by simp
  next
    case False
    with Cons show ?thesis by auto
  qed
qed simp

lemma tbl_find_filtered:
  assumes "distinct (map key rows)"
  shows "tbl_find key k (filter P rows) = (case tbl_find key k rows of None \<Rightarrow> None | Some r \<Rightarrow> if P r then Some r else None)"
  unfolding tbl_find_def using assms by (intro find_filter) (auto simp: distinct_map dest: inj_onD)

lemma visible_runbook:
  assumes "ok_except {} db"
  shows "find_runbook n (visible_part user db) =
      (case find_runbook n db of None \<Rightarrow> None | Some rb \<Rightarrow> if can_view user (Some rb) then Some rb else None)"
  using frame_ok_D(1) [OF assms] by (simp add: find_runbook_def visible_tables tbl_find_filtered keyed_rows_def)

lemma visible_section:
  assumes "ok_except {} db"
  shows "find_section n (visible_part user db) =
      (case find_section n db of None \<Rightarrow> None
       | Some s \<Rightarrow> if can_view user (find_runbook (sec_runbook s) db) then Some s else None)"
  using frame_ok_D(2) [OF assms] by (simp add: find_section_def visible_tables tbl_find_filtered keyed_rows_def)

lemma visible_slug:
  assumes "ok_except {} db"
  shows "find (\<lambda>rb. rb_slug rb = s) (rd_runbooks (visible_part user db)) =
      (case find (\<lambda>rb. rb_slug rb = s) (rd_runbooks db) of None \<Rightarrow> None
       | Some rb \<Rightarrow> if can_view user (Some rb) then Some rb else None)"
  unfolding visible_tables using frame_ok_D(3) [OF assms] by (intro find_filter) (auto simp: distinct_map dest: inj_onD)

lemma can_view_missing: "can_view user None \<Longrightarrow> can_view user r"
  by (auto simp: can_view_def split: option.split)

lemma visible_runbook_of:
  assumes "ok_except {} db" "can_view_doc user d db"
  shows "runbook_of d (visible_part user db) = runbook_of d db" "can_view_doc user d (visible_part user db)"
proof -
  show same: "runbook_of d (visible_part user db) = runbook_of d db"
  proof (cases "dc_runbook d")
    case (Some n)
    with assms(2) show ?thesis
      by (auto simp: runbook_of_def can_view_doc_def visible_runbook [OF assms(1)] split: option.splits)
  next
    case None
    with assms(2) show ?thesis
      by (auto simp: runbook_of_def can_view_doc_def visible_runbook [OF assms(1)] visible_section [OF assms(1)]
          can_view_missing split: option.splits)
  qed
  then show "can_view_doc user d (visible_part user db)" using assms(2) by (simp add: can_view_doc_def)
qed

lemma seen_runbook:
  assumes ok: "ok_except {} db" and d: "d \<in> set (rd_documents db)" "can_view_doc user d db" "dc_runbook d = Some n"
  obtains rb where "find_runbook n db = Some rb" "can_view user (Some rb)" "find_runbook n (visible_part user db) = Some rb"
proof -
  from d(3) frame_ok_D(6) [OF ok d(1)] obtain rb where "rb \<in> set (rd_runbooks db)" "rb_id rb = n" by (auto simp: home_ok_def)
  then have "find_runbook n db = Some rb" using frame_ok_D(1) [OF ok] unfolding find_runbook_def by (auto dest: keyed_find)
  moreover from this have "can_view user (Some rb)" using d by (simp add: can_view_doc_def runbook_of_def)
  ultimately show thesis using visible_runbook [OF ok] by (intro that) simp_all
qed

lemma visible_result:
  assumes ok: "ok_except {} db" and d: "d \<in> set (rd_documents db)" "can_view_doc user d db"
  shows "result_of b d (visible_part user db) = result_of b d db"
proof -
  obtain h where h: "dc_current d = Some (ver_id h)" "ver_document h = dc_id d" "find_version (ver_id h) db = Some h"
    using ok d(1) by (rule head_row) simp
  have "distinct (map ver_id (rd_versions db))" using ok by (simp add: ok_except_def rows_ok_def keyed_rows_def)
  then have "find_version (ver_id h) (visible_part user db) = Some h"
    using h d by (auto simp: find_version_def visible_tables tbl_find_filtered)
  with h have "read_head d (visible_part user db) = read_head d db" by (simp add: read_head_def)
  moreover have "(case dc_runbook d of None \<Rightarrow> None | Some n \<Rightarrow> map_option rb_slug (find_runbook n (visible_part user db))) =
      (case dc_runbook d of None \<Rightarrow> None | Some n \<Rightarrow> map_option rb_slug (find_runbook n db))"
    by (auto split: option.split elim!: seen_runbook [OF ok d])
  ultimately show ?thesis by (simp add: result_of_def)
qed

section \<open>Reading a document\<close>

lemma visible_find:
  assumes "\<And>x y. x \<in> set (rd_documents db) \<Longrightarrow> y \<in> set (rd_documents db) \<Longrightarrow> Q x \<Longrightarrow> Q y \<Longrightarrow> x = y"
  shows "find Q (rd_documents (visible_part user db)) =
    (case find Q (rd_documents db) of None \<Rightarrow> None | Some d \<Rightarrow> if can_view_doc user d db then Some d else None)"
  unfolding visible_tables using assms by (rule find_filter)

lemma visible_answer:
  assumes ok: "ok_except {} db" and u: "user \<noteq> Internal"
    and once: "\<And>x y. x \<in> set (rd_documents db) \<Longrightarrow> y \<in> set (rd_documents db) \<Longrightarrow> Q x \<Longrightarrow> Q y \<Longrightarrow> x = y"
  shows "(case find Q (rd_documents (visible_part user db)) of
        None \<Rightarrow> Inl Document_Not_Found
      | Some d \<Rightarrow> if user \<noteq> Internal \<and> \<not> can_view_doc user d (visible_part user db) then Inl Document_Not_Found
          else Inr (result_of True d (visible_part user db))) =
    (case find Q (rd_documents db) of
        None \<Rightarrow> Inl Document_Not_Found
      | Some d \<Rightarrow> if user \<noteq> Internal \<and> \<not> can_view_doc user d db then Inl Document_Not_Found else Inr (result_of True d db))"
proof (cases "find Q (rd_documents db)")
  case (Some d)
  then have "d \<in> set (rd_documents db)" by (auto dest: find_SomeD)
  with Some u visible_runbook_of(2) [OF ok] visible_result [OF ok] show ?thesis
    by (auto simp: visible_find [OF once])
qed (simp add: visible_find [OF once])

lemma get_document_cases:
  "get_document (by_uid uid) True user db =
     (case find (\<lambda>d. dc_uid d = uid) (rd_documents db) of
        None \<Rightarrow> Inl Document_Not_Found
      | Some d \<Rightarrow> if user \<noteq> Internal \<and> \<not> can_view_doc user d db then Inl Document_Not_Found else Inr (result_of True d db))"
  "get_document (keyed slug key) True user db =
     (case find (\<lambda>rb. rb_slug rb = slug) (rd_runbooks db) of
        None \<Rightarrow> Inl (Runbook_Not_Found slug)
      | Some rb \<Rightarrow>
         (case find (\<lambda>d. dc_runbook d = Some (rb_id rb) \<and> dc_key d = Some key) (rd_documents db) of
            None \<Rightarrow> Inl Document_Not_Found
          | Some d \<Rightarrow> if user \<noteq> Internal \<and> \<not> can_view_doc user d db then Inl Document_Not_Found else Inr (result_of True d db)))"
  by (auto simp: get_document_def get_doc_def by_uid_def keyed_def resolve_runbook_def split: option.split)

lemma visible_read:
  assumes ok: "ok_except {} db" and ad: "ad = by_uid uid \<or> ad = keyed slug key"
  shows "snd (api_read env ad (u, t) body (visible_part (Person u) db)) = snd (api_read env ad (u, t) body db)"
proof -
  have places: "x = y" if "x \<in> set (rd_documents db)" "y \<in> set (rd_documents db)" "dc_runbook x = Some n \<and> dc_key x = Some k"
      "dc_runbook y = Some n \<and> dc_key y = Some k" for x y n k
    using placed_row [OF ok that(1)] placed_row [OF ok that(2)] that by simp
  have uids: "x = y" if "x \<in> set (rd_documents db)" "y \<in> set (rd_documents db)" "dc_uid x = w" "dc_uid y = w" for x y w
    using ok that by (auto simp: ok_except_def names_ok_def distinct_map dest: inj_onD)
  have ans: "(case get_document ad True (Person u) (visible_part (Person u) db) of
        Inl e \<Rightarrow> error_for env e | Inr r \<Rightarrow> ok_dict (result_json env r)) =
      (case get_document ad True (Person u) db of Inl e \<Rightarrow> error_for env e | Inr r \<Rightarrow> ok_dict (result_json env r))"
    using ad
  proof
    assume "ad = by_uid uid"
    then show ?thesis
      using visible_answer [OF ok, of "Person u" "\<lambda>d. dc_uid d = uid"] uids by (simp add: get_document_cases)
  next
    assume key: "ad = keyed slug key"
    show ?thesis
    proof (cases "find (\<lambda>rb. rb_slug rb = slug) (rd_runbooks db)")
      case (Some rb)
      then have rb: "rb \<in> set (rd_runbooks db)" by (auto dest: find_SomeD)
      let ?Q = "\<lambda>d. dc_runbook d = Some (rb_id rb) \<and> dc_key d = Some key"
      show ?thesis
      proof (cases "can_view (Person u) (Some rb)")
        case True
        then show ?thesis
          using Some visible_answer [OF ok, of "Person u" ?Q] places by (simp add: key get_document_cases visible_slug [OF ok])
      next
        case False
        have "\<not> can_view_doc (Person u) d db" if "find ?Q (rd_documents db) = Some d" for d
        proof -
          have "find_runbook (rb_id rb) db = Some rb"
            using frame_ok_D(1) [OF ok] rb unfolding find_runbook_def by (rule keyed_find)
          with that False show ?thesis by (auto simp: can_view_doc_def runbook_of_def dest: find_SomeD)
        qed
        with False Some show ?thesis
          by (simp add: key get_document_cases visible_slug [OF ok] error_for_def split: option.split)
      qed
    qed (simp add: key get_document_cases visible_slug [OF ok])
  qed
  then show ?thesis by (simp add: api_read_def)
qed

section \<open>Lists\<close>

lemma sort_filter: "sort_key f (filter P xs) = filter P (sort_key f xs)"
  by (rule filter_sort [symmetric])

lemma listed_seen:
  assumes ok: "ok_except {} db" and d: "d \<in> set (rd_documents db)"
  shows "d \<in> set (viewable_documents (Person u) db ds) \<Longrightarrow> d \<in> set ds \<and> can_view_doc (Person u) d db"
    "d \<in> set (viewable_documents (Person u) db ds) \<Longrightarrow> acc_staff u \<or> dc_runbook d \<noteq> None"
proof -
  assume l: "d \<in> set (viewable_documents (Person u) db ds)"
  then show "acc_staff u \<or> dc_runbook d \<noteq> None" by (auto simp: viewable_documents_def split: if_splits option.splits)
  show "d \<in> set ds \<and> can_view_doc (Person u) d db"
  proof (cases "acc_staff u")
    case True
    with l show ?thesis by (auto simp: viewable_documents_def can_view_doc_def can_view_def split: option.split)
  next
    case False
    with l show ?thesis
      by (auto simp: viewable_documents_def can_view_doc_def can_view_def runbook_of_def split: option.splits)
  qed
qed

lemma visible_listed:
  assumes ok: "ok_except {} db" and ds: "set ds \<subseteq> set (rd_documents db)"
  shows "viewable_documents (Person u) (visible_part (Person u) db) (filter (\<lambda>d. can_view_doc (Person u) d db) ds) =
    viewable_documents (Person u) db ds"
proof (cases "acc_staff u")
  case True
  then show ?thesis by (auto simp: viewable_documents_def can_view_doc_def can_view_def filter_id_conv split: option.split)
next
  case False
  have "(can_view_doc (Person u) d db \<and> (case dc_runbook d of None \<Rightarrow> False
        | Some n \<Rightarrow> (case find_runbook n (visible_part (Person u) db) of None \<Rightarrow> False
            | Some rb \<Rightarrow> rb_public rb \<or> rb_owner rb = Some (acc_id u)))) =
      (case dc_runbook d of None \<Rightarrow> False
        | Some n \<Rightarrow> (case find_runbook n db of None \<Rightarrow> False | Some rb \<Rightarrow> rb_public rb \<or> rb_owner rb = Some (acc_id u)))" for d
    using False by (auto simp: visible_runbook [OF ok] can_view_doc_def can_view_def runbook_of_def split: option.splits)
  then show ?thesis using False by (simp add: viewable_documents_def conj_commute cong: filter_cong)
qed

lemma visible_scoped:
  assumes "ok_except {} db"
  shows "scoped_documents (Person u) (visible_part (Person u) db) = scoped_documents (Person u) db"
  using visible_listed [OF assms, of "sort_key (\<lambda>d. - dc_updated d) (rd_documents db)" u]
  by (simp add: scoped_documents_def Let_def visible_tables sort_filter)

lemma scoped_row:
  assumes "ok_except {} db" "d \<in> set (scoped_documents (Person u) db)"
  shows "d \<in> set (rd_documents db)" "can_view_doc (Person u) d db" "acc_staff u \<or> dc_runbook d \<noteq> None"
proof -
  have "set (viewable_documents (Person u) db ds) \<subseteq> set ds" for ds
    by (auto simp: viewable_documents_def split: if_splits)
  from this [of "sort_key (\<lambda>d. - dc_updated d) (rd_documents db)"] show row: "d \<in> set (rd_documents db)"
    using assms(2) by (auto simp: scoped_documents_def Let_def)
  then show "can_view_doc (Person u) d db" "acc_staff u \<or> dc_runbook d \<noteq> None"
    using listed_seen [OF assms(1) row, of u "sort_key (\<lambda>d. - dc_updated d) (rd_documents db)"] assms(2)
    by (simp_all add: scoped_documents_def Let_def)
qed

definition list_plain :: "runbook_env \<Rightarrow> nat option \<Rightarrow> list_args \<Rightarrow> actor \<Rightarrow> runbook_db \<Rightarrow> doc_result list" where
  "list_plain env n a viewer db =
     map (\<lambda>d. result_of False d db)
       (filter (\<lambda>d. (la_archived a \<or> \<not> dc_archived d) \<and> (n = None \<or> dc_runbook d = n)
            \<and> when_given (la_source a) (\<lambda>s. dc_source d = s) \<and> when_given (la_type a) (\<lambda>s. dc_type d = s)
            \<and> when_given (la_query a) (\<lambda>q. rv_icontains env (dc_title d) q \<or> rv_icontains env (dc_content d) q))
          (scoped_documents viewer db))"

lemma visible_plain:
  assumes "ok_except {} db"
  shows "list_plain env n a (Person u) (visible_part (Person u) db) = list_plain env n a (Person u) db"
  unfolding list_plain_def visible_scoped [OF assms]
  by (rule map_cong [OF refl], rule visible_result [OF assms]) (auto dest: scoped_row [OF assms])

lemma list_documents_plain:
  "la_section a = No_Section \<Longrightarrow> la_runbook a = None \<Longrightarrow> list_documents env a viewer db = Inr (list_plain env None a viewer db)"
  "la_section a = No_Section \<Longrightarrow> la_runbook a = Some r \<Longrightarrow> resolve_runbook r db = Inr rb \<Longrightarrow>
    list_documents env a viewer db = Inr (list_plain env (Some (rb_id rb)) a viewer db)"
  by (auto simp: list_documents_def list_plain_def in_section_def cong: filter_cong)

section \<open>Runbooks\<close>

lemma visible_summary:
  assumes ok: "ok_except {} db" and rb: "rb \<in> set (rd_runbooks db)" "can_view user (Some rb)"
  shows "runbook_summary names (visible_part user db) rb = runbook_summary names db rb"
proof -
  have row: "find_runbook (rb_id rb) db = Some rb"
    using frame_ok_D(1) [OF ok] rb(1) unfolding find_runbook_def by (rule keyed_find)
  have "can_view_doc user d db" if "dc_runbook d = Some (rb_id rb)" for d
    using that rb(2) row by (simp add: can_view_doc_def runbook_of_def)
  then have "filter (\<lambda>d. dc_runbook d = Some (rb_id rb) \<and> \<not> dc_archived d) (rd_documents (visible_part user db)) =
      filter (\<lambda>d. dc_runbook d = Some (rb_id rb) \<and> \<not> dc_archived d) (rd_documents db)"
    by (auto simp: visible_tables intro: filter_cong)
  then show ?thesis by (simp add: runbook_summary_def tbl_count_def)
qed

lemma viewable_runbooks_filter:
  "viewable_runbooks (Person u) rbs = filter (\<lambda>rb. can_view (Person u) (Some rb)) rbs"
  by (auto simp: viewable_runbooks_def can_view_def intro: filter_cong)

lemma visible_sections:
  assumes ok: "ok_except {} db" and rb: "rb \<in> set (rd_runbooks db)" "can_view user (Some rb)"
  shows "sections_of (rb_id rb) (visible_part user db) = sections_of (rb_id rb) db"
proof -
  have row: "find_runbook (rb_id rb) db = Some rb"
    using frame_ok_D(1) [OF ok] rb(1) unfolding find_runbook_def by (rule keyed_find)
  then have "filter (\<lambda>s. sec_runbook s = rb_id rb) (rd_sections (visible_part user db)) =
      filter (\<lambda>s. sec_runbook s = rb_id rb) (rd_sections db)"
    using rb(2) by (auto simp: visible_tables intro: filter_cong)
  then show ?thesis by (simp add: sections_of_def)
qed

lemma visible_runbooks:
  assumes ok: "ok_except {} db"
  shows "snd (api_runbooks_get names (u, t) body (visible_part (Person u) db)) = snd (api_runbooks_get names (u, t) body db)"
proof -
  have "map (\<lambda>rb. JObj (runbook_summary names (visible_part (Person u) db) rb))
        (sort_key rb_name (filter (\<lambda>rb. can_view (Person u) (Some rb)) (rd_runbooks db))) =
      map (\<lambda>rb. JObj (runbook_summary names db rb))
        (sort_key rb_name (filter (\<lambda>rb. can_view (Person u) (Some rb)) (rd_runbooks db)))"
    by (rule map_cong [OF refl]) (simp add: visible_summary [OF ok])
  then show ?thesis
    unfolding api_runbooks_get_def viewable_runbooks_filter visible_tables filter_filter conj_absorb prod.case snd_conv
    by (simp only:)
qed

lemma visible_reading:
  assumes ok: "ok_except {} db"
    and f: "\<And>rb. rb \<in> set (rd_runbooks db) \<Longrightarrow> rb_slug rb = slug \<Longrightarrow> can_view (Person u) (Some rb) \<Longrightarrow> g rb = f rb"
  shows "reading_runbook env u slug (visible_part (Person u) db) g = reading_runbook env u slug db f"
proof (cases "find (\<lambda>rb. rb_slug rb = slug) (rd_runbooks db)")
  case (Some rb)
  then have "rb \<in> set (rd_runbooks db)" "rb_slug rb = slug" by (auto dest: find_SomeD)
  with Some f show ?thesis by (simp add: reading_runbook_def resolve_runbook_def visible_slug [OF ok] error_for_def)
qed (simp add: reading_runbook_def resolve_runbook_def visible_slug [OF ok])

lemma visible_section_slug:
  assumes ok: "ok_except {} db" and d: "d \<in> set (scoped_documents (Person u) db)"
  shows "section_slug_of (visible_part (Person u) db) d = section_slug_of db d"
proof (cases "dc_section d")
  case (Some n)
  note row = scoped_row [OF ok d]
  from Some frame_ok_D(6) [OF ok row(1)] obtain s where s: "s \<in> set (rd_sections db)" "sec_id s = n"
      "dc_runbook d = None \<or> dc_runbook d = Some (sec_runbook s)" by (auto simp: home_ok_def)
  have found: "find_section n db = Some s"
    using frame_ok_D(2) [OF ok] s(1,2) unfolding find_section_def by (auto dest: keyed_find)
  have "can_view (Person u) (find_runbook (sec_runbook s) db)"
  proof (cases "acc_staff u")
    case True
    then show ?thesis by (simp add: can_view_def split: option.split)
  next
    case False
    with row(3) s(3) have "dc_runbook d = Some (sec_runbook s)" by auto
    with row(2) show ?thesis by (simp add: can_view_doc_def runbook_of_def)
  qed
  with Some found show ?thesis by (simp add: section_slug_of_def visible_section [OF ok])
qed (simp add: section_slug_of_def)

lemma visible_detail:
  assumes ok: "ok_except {} db"
  shows "snd (api_runbook_detail env names slug (u, t) body (visible_part (Person u) db)) =
    snd (api_runbook_detail env names slug (u, t) body db)"
proof -
  let ?v = "visible_part (Person u) db" and ?a = "\<lambda>rb. list_defaults\<lparr>la_runbook := Some (Runbook_Slug (rb_slug rb))\<rparr>"
  have same: "(case list_documents env (?a rb) (Person u) ?v of
          Inl e \<Rightarrow> Raised_Other
        | Inr docs \<Rightarrow>
           (let of_section = (\<lambda>s. JList (map (\<lambda>r. JObj (result_summary env r))
                                (filter (\<lambda>r. section_slug_of ?v (dr_doc r) = s) docs))) in
            ok_dict (runbook_summary names ?v rb
              @ [(''sections'', JList (map (\<lambda>s. JObj (section_summary s @ [(''documents'', of_section (Some (sec_slug s)))]))
                    (sections_of (rb_id rb) ?v))),
                 (''sectionless'', of_section None)]))) =
      (case list_documents env (?a rb) (Person u) db of
          Inl e \<Rightarrow> Raised_Other
        | Inr docs \<Rightarrow>
           (let of_section = (\<lambda>s. JList (map (\<lambda>r. JObj (result_summary env r))
                                (filter (\<lambda>r. section_slug_of db (dr_doc r) = s) docs))) in
            ok_dict (runbook_summary names db rb
              @ [(''sections'', JList (map (\<lambda>s. JObj (section_summary s @ [(''documents'', of_section (Some (sec_slug s)))]))
                    (sections_of (rb_id rb) db))),
                 (''sectionless'', of_section None)])))"
    if rb: "rb \<in> set (rd_runbooks db)" "rb_slug rb = slug" "can_view (Person u) (Some rb)" for rb
  proof -
    have "find (\<lambda>q. rb_slug q = rb_slug rb) (rd_runbooks db) = Some rb"
      using frame_ok_D(3) [OF ok] rb(1) tbl_find_in [of rb_slug "rd_runbooks db" rb] by (simp add: tbl_find_def)
    then have res: "resolve_runbook (Runbook_Slug (rb_slug rb)) db = Inr rb" "resolve_runbook (Runbook_Slug (rb_slug rb)) ?v = Inr rb"
      using rb(3) by (simp_all add: resolve_runbook_def visible_slug [OF ok])
    let ?docs = "list_plain env (Some (rb_id rb)) (?a rb) (Person u) db"
    have docs: "list_documents env (?a rb) (Person u) db = Inr ?docs" "list_documents env (?a rb) (Person u) ?v = Inr ?docs"
      using list_documents_plain(2) [OF _ _ res(1)] list_documents_plain(2) [OF _ _ res(2)]
      by (simp_all add: list_defaults_def visible_plain [OF ok])
    have "section_slug_of ?v (dr_doc r) = section_slug_of db (dr_doc r)" if "r \<in> set ?docs" for r
      using that visible_section_slug [OF ok] by (auto simp: list_plain_def result_of_def)
    then have "filter (\<lambda>r. section_slug_of ?v (dr_doc r) = s) ?docs = filter (\<lambda>r. section_slug_of db (dr_doc r) = s) ?docs" for s
      by (intro filter_cong) simp_all
    then show ?thesis
      by (simp add: docs visible_summary [OF ok rb(1,3)] visible_sections [OF ok rb(1,3)])
  qed
  show ?thesis
    unfolding api_runbook_detail_def prod.case snd_conv by (rule visible_reading [OF ok]) (rule same)
qed

lemma visible_section_list:
  assumes ok: "ok_except {} db"
  shows "snd (api_runbook_sections_get env slug (u, t) body (visible_part (Person u) db)) =
    snd (api_runbook_sections_get env slug (u, t) body db)"
  unfolding api_runbook_sections_get_def prod.case snd_conv
  by (rule visible_reading [OF ok]) (simp add: visible_sections [OF ok])

lemma visible_list:
  assumes ok: "ok_except {} db" and q: "query_text ''runbook'' q = None" "query_text ''q'' q = None \<or> rv_search env = None"
  shows "snd (api_list_documents env q (u, t) body (visible_part (Person u) db)) = snd (api_list_documents env q (u, t) body db)"
proof -
  have "list_documents env (list_defaults\<lparr>la_runbook := None, la_source := s, la_query := n\<rparr>) (Person u) (visible_part (Person u) db) =
      list_documents env (list_defaults\<lparr>la_runbook := None, la_source := s, la_query := n\<rparr>) (Person u) db" for s n
    by (simp add: list_documents_plain(1) list_defaults_def visible_plain [OF ok])
  moreover have "search_documents env needle v rb source m db' = Inr None" if "rv_search env = None" for needle v rb source m db'
    using that by (simp add: search_documents_def)
  ultimately show ?thesis
    using q by (auto simp: api_list_documents_def Let_def split: option.splits)
qed

text \<open>The reads this is about: all of them, a list only without the filter on a runbook and without the
  search engine.\<close>

fun plain_read :: "runbook_env \<Rightarrow> rest_path \<Rightarrow> bool" where
  "plain_read env (Api_Documents q) =
     (query_text ''runbook'' q = None \<and> (query_text ''q'' q = None \<or> rv_search env = None))"
| "plain_read env path = (''GET'' \<in> set (rest_methods path))"


end
