(* ===== verification/Runbook_Witnesses.thy ===== *)
theory Runbook_Witnesses
  imports Runbook_Reads
begin

text \<open>
  Concrete inputs of the properties of the document store: one runbook of one user with one
  document, after one, two and three versions of it.
\<close>

section \<open>A shelf\<close>

definition shelf_env :: runbook_env where
  "shelf_env = \<lparr>rv_str = (\<lambda>_. ''''), rv_isoformat = (\<lambda>_. ''''), rv_slugify = (\<lambda>s. s),
     rv_icontains = (\<lambda>t q. contains q t), rv_search = None, rv_enqueue_works = True, rv_mail_works = True,
     rv_email = (\<lambda>_. ''''), rv_url_prefix = ''/r/'', rv_uid = nat_str, rv_generated_max_versions = Some 1,
     rv_generated_max_age = None, rv_generated_ttl = None\<rparr>"

definition shelf_user :: "nat \<Rightarrow> account" where
  "shelf_user n = \<lparr>acc_id = n, acc_username = ''u'', acc_email = None, acc_first_name = '''', acc_last_name = '''',
     acc_password = '''', acc_staff = False, acc_superuser = False, acc_active = True\<rparr>"

text \<open>The tables an operation that does not fail leaves.\<close>

definition stored :: "doc_error + 'a \<times> runbook_db \<Rightarrow> runbook_db" where
  "stored r = snd (projr r)"

lemma stored_Inr: "\<not> isl r \<Longrightarrow> r = Inr (fst (projr r), stored r)"
  by (cases r) (simp_all add: stored_def)

abbreviation shelf_call0 :: "doc_error + runbook \<times> runbook_db" where
  "shelf_call0 \<equiv> create_runbook shelf_env ''ops'' None '''' (Person (shelf_user 1)) False empty_runbooks"

definition shelf0 :: runbook_db where
  "shelf0 = settle shelf_env 0 empty_runbooks (stored shelf_call0)"

abbreviation shelf_put :: "instant \<Rightarrow> string \<Rightarrow> put_args \<Rightarrow> runbook_db \<Rightarrow> doc_error + doc_result \<times> runbook_db" where
  "shelf_put now body p db \<equiv> put_document shelf_env now (Runbook_Slug ''ops'') ''log'' body p (Person (shelf_user 1)) False db"

definition shelf1 :: runbook_db where
  "shelf1 = settle shelf_env 1 shelf0 (stored (shelf_put 1 ''one'' put_defaults shelf0))"

definition shelf2 :: runbook_db where
  "shelf2 = settle shelf_env 2 shelf1 (stored (shelf_put 2 ''two'' put_defaults shelf1))"

definition shelf3 :: runbook_db where
  "shelf3 = settle shelf_env 3 shelf2 (stored (shelf_put 3 ''three'' put_defaults shelf2))"

lemma shelf_calls: "\<not> isl shelf_call0" "\<not> isl (shelf_put 1 ''one'' put_defaults shelf0)"
  "\<not> isl (shelf_put 2 ''two'' put_defaults shelf1)" "\<not> isl (shelf_put 3 ''three'' put_defaults shelf2)"
  by code_simp+

lemma shelf_put_step:
  assumes "\<not> isl (shelf_put now body p db)" "section_ref_ok db (pa_section p)"
  shows "runbook_step shelf_env db (settle shelf_env now db (stored (shelf_put now body p db)))"
  by (rule runbook_step.Put [OF stored_Inr [OF assms(1)]])
    (use assms(2) in simp_all)

lemma shelf_steps: "runbook_step shelf_env shelf0 shelf1" "runbook_step shelf_env shelf1 shelf2"
  "runbook_step shelf_env shelf2 shelf3"
  unfolding shelf1_def shelf2_def shelf3_def
  using shelf_put_step shelf_calls by (simp_all add: put_defaults_def shelf1_def shelf2_def)

lemma shelf_reachable: "runbook_reachable shelf_env shelf0" "runbook_reachable shelf_env shelf1"
  "runbook_reachable shelf_env shelf2"
proof -
  have "runbook_step shelf_env empty_runbooks shelf0"
    unfolding shelf0_def
    by (rule runbook_step.New_Runbook [OF stored_Inr [OF shelf_calls(1)]])
  then show zero: "runbook_reachable shelf_env shelf0" by (rule runbook_reachable.step [OF runbook_reachable.start])
  then show one: "runbook_reachable shelf_env shelf1" using shelf_steps(1) by (rule runbook_reachable.step)
  then show "runbook_reachable shelf_env shelf2" using shelf_steps(2) by (rule runbook_reachable.step)
qed

definition shelf_version :: "nat \<Rightarrow> int \<Rightarrow> string \<Rightarrow> doc_version" where
  "shelf_version pk n body = \<lparr>ver_id = pk, ver_document = 2, ver_version = n, ver_body = body, ver_file_type = ''md'',
     ver_content = body, ver_title = ''log'', ver_description = '''', ver_source = '''', ver_via = ''api'',
     ver_created_by = Some 1, ver_created = n\<rparr>"

definition shelf_doc :: document where
  "shelf_doc = \<lparr>dc_id = 2, dc_uid = ''2'', dc_runbook = Some 1, dc_section = None, dc_key = Some ''log'',
     dc_slug = ''log'', dc_title = ''log'', dc_description = '''', dc_current = Some 4, dc_version = 2,
     dc_file_type = ''md'', dc_content = ''two'', dc_generated = True, dc_template = False, dc_type = '''',
     dc_source = '''', dc_via = ''api'', dc_created_by = Some 1, dc_archived = False, dc_archived_at = None,
     dc_locked = False, dc_max_versions = None, dc_max_age = None, dc_ttl = None, dc_on_expire = ''archive'',
     dc_updated = 2\<rparr>"

definition shelf_old :: doc_version where "shelf_old = shelf_version 3 1 ''one''"

lemma shelf2_tables: "rd_documents shelf2 = [shelf_doc]"
  by code_simp

lemma shelf2_versions: "rd_versions shelf2 = [shelf_old, shelf_version 4 2 ''two'']"
  by code_simp

lemma shelf2_rest: "rd_seq shelf2 = 5 \<and> rd_sections shelf2 = []"
  by code_simp

lemma shelf3_versions: "hd (rd_versions shelf3) = shelf_old \<and> rd_versions shelf3 \<noteq> []"
  by code_simp

lemma shelf_rows: "shelf_doc \<in> set (rd_documents shelf2)" "shelf_old \<in> set (rd_versions shelf2)"
  "shelf_old \<in> set (rd_versions shelf3)" "ver_id shelf_old = 3" "rd_seq shelf2 = 5" "dc_id shelf_doc = 2"
  "ver_document shelf_old = 2" "ver_version shelf_old = 1" "ver_body shelf_old = ''one''" "dc_version shelf_doc = 2"
  "heads shelf2 = {4}" "dc_runbook shelf_doc = Some 1" "rd_sections shelf2 = []"
  using shelf2_rest shelf3_versions list.set_sel(1) [of "rd_versions shelf3"]
  by (auto simp: shelf2_tables shelf2_versions shelf_doc_def shelf_old_def shelf_version_def heads_def)

section \<open>Witnesses\<close>



lemma restore_appends_old_body_witness:
  "\<exists>d' db' w. restore_version 9 (Doc_Row shelf_doc) 1 ''api'' (Person (shelf_user 1)) False shelf2 = Inr (d', db')
    \<and> rd_versions db' = rd_versions shelf2 @ [w] \<and> ver_version w = 3 \<and> ver_body w = ''one''
    \<and> ver_description w = restored_note 1 \<and> d' \<in> set (rd_documents db') \<and> read_head d' db' = ''one''"
proof -
  have "check_writable shelf_doc (Person (shelf_user 1)) False shelf2 = None" by code_simp
  from restore_appends_old_body [OF shelf_reachable(3) shelf_rows(1,2) _ this, of 9 "''api''"] show ?thesis
    by (simp add: shelf_rows)
qed

lemma prune_keeps_newest_witness:
  "versions_of 2 (fst (prune_versions shelf_env 9 shelf_doc shelf2)) =
      filter (\<lambda>v. Some (ver_id v) = dc_current shelf_doc \<or> within_age shelf_env 9 shelf_doc shelf2 v)
        (take (max 1 (nat 1)) (versions_of 2 shelf2))
    \<and> length (versions_of 2 (fst (prune_versions shelf_env 9 shelf_doc shelf2))) = 1"
proof (intro conjI)
  have "rp_max_versions (effective_policy shelf_env shelf_doc shelf2) = Some 1" by code_simp
  from prune_keeps_newest [OF shelf_reachable(3) shelf_rows(1) this _ surjective_pairing, of 9]
  show "versions_of 2 (fst (prune_versions shelf_env 9 shelf_doc shelf2)) =
      filter (\<lambda>v. Some (ver_id v) = dc_current shelf_doc \<or> within_age shelf_env 9 shelf_doc shelf2 v)
        (take (max 1 (nat 1)) (versions_of 2 shelf2))"
    by (simp add: shelf_rows)
qed code_simp

lemma stale_writer_loses_witness:
  "write_version 9 ''b'' ''append_version'' '''' '''' ''web'' (Person (shelf_user 1)) False shelf_doc
      (stored (write_version 8 ''a'' ''new_version'' '''' '''' ''web'' (Person (shelf_user 1)) False shelf_doc shelf2)) =
    Inl Integrity_Error"
proof -
  let ?first = "write_version 8 ''a'' ''new_version'' '''' '''' ''web'' (Person (shelf_user 1)) False shelf_doc shelf2"
  have "\<not> isl ?first" "check_writable shelf_doc (Person (shelf_user 1)) False (stored ?first) = None" by code_simp+
  then show ?thesis
    using stale_writer_loses [OF shelf_reachable(3) shelf_rows(1) _ _ stored_Inr [of ?first],
        of "''append_version''" 9 "''b''" "''''" "''''" "''web''" "Person (shelf_user 1)" False]
    by simp
qed


lemma put_then_get_witness:
  "\<exists>d. get_document (keyed ''ops'' ''log'') True Internal (stored (shelf_put 8 ''fresh'' put_defaults shelf2)) =
    Inr \<lparr>dr_doc = d, dr_runbook = Some ''ops'', dr_body = Some ''fresh''\<rparr>"
proof -
  have "\<not> isl (shelf_put 8 ''fresh'' put_defaults shelf2)" by code_simp
  from put_then_get [OF shelf_reachable(3) _ stored_Inr [OF this]]
  show ?thesis by (auto simp: put_defaults_def)
qed

lemma lists_show_what_pages_show_witness:
  "shelf_doc \<in> set (viewable_documents (Person (shelf_user 1)) shelf2 (rd_documents shelf2))
   \<and> shelf_doc \<notin> set (viewable_documents (Person (shelf_user 2)) shelf2 (rd_documents shelf2))"
proof -
  have "can_view_doc (Person (shelf_user 1)) shelf_doc shelf2" "\<not> can_view_doc (Person (shelf_user 2)) shelf_doc shelf2"
    by code_simp+
  then show ?thesis
    using lists_show_what_pages_show [OF shelf_reachable(3) shelf_rows(1)] by (simp add: shelf_rows(12))
qed

lemma rest_leaves_protected_documents_witness:
  "same_document 2 shelf2 (fst (rest_endpoint shelf_env 9 (\<lambda>_. '''') ''PUT'' (Api_Document [] ''ops'' ''log'')
     (shelf_user 2, None) (Some (JObj [(''body'', JStr ''x'')])) shelf2))"
proof -
  have "\<not> can_edit_doc (Person (fst (shelf_user 2, None :: api_token option))) shelf_doc shelf2" by code_simp
  then show ?thesis
    using rest_leaves_protected_documents [OF shelf_reachable(3) shelf_rows(1), of "(shelf_user 2, None)" 9 "\<lambda>_. ''''"
        "''PUT''" "Api_Document [] ''ops'' ''log''"]
    by (simp only: shelf_rows(6)) simp
qed


section \<open>Corners\<close>

text \<open>The filter of the list on a runbook tells a hidden runbook from a missing one.\<close>

lemma list_filter_reveals_runbooks:
  "snd (rest_endpoint shelf_env 9 (\<lambda>_. '''') ''GET'' (Api_Documents [(''runbook'', ''ops'')]) (shelf_user 2, None) None shelf2) =
     ok_dict [(''results'', JList [])]"
  "snd (rest_endpoint shelf_env 9 (\<lambda>_. '''') ''GET'' (Api_Documents [(''runbook'', ''none'')]) (shelf_user 2, None) None shelf2) =
     Returned (api_error ''Not found'' 404)"
  by code_simp+

text \<open>So does the tool that reads a document: it raises for a missing runbook only.\<close>

lemma tool_reveals_runbooks:
  "do_get shelf_env (keyed ''none'' ''log'') (Person (shelf_user 2)) shelf2 = None"
  "do_get shelf_env (keyed ''ops'' ''log'') (Person (shelf_user 2)) shelf2 \<noteq> None"
  by code_simp+

text \<open>A metadata form that was read before another version was stored puts the old head back when it is
  saved; after that no version of the document can be stored.\<close>

lemma stale_form_wedges_document:
  "shelf_put 9 ''x'' put_defaults
     (snd (save_metadata shelf_env 8 (hd (rd_documents shelf1)) ''t'' None '''' shelf2)) = Inl Integrity_Error"
  by code_simp

text \<open>The form that creates a runbook fails on a name another runbook has.\<close>

lemma second_name_crashes:
  "snd (runbook_create shelf_env 9 (Person (shelf_user 2))
     \<lparr>rf_name = ''ops'', rf_description = '''', rf_icon = '''', rf_public = False\<rparr> None shelf2) = Page_Crash"
  by code_simp

end
