(* ===== verification/Token_Api.thy ===== *)
theory Token_Api
  imports Token_Access
begin

text \<open>
  The endpoints that create, rotate and end credentials: \<open>/api/auth/\<close> (\<open>apps/smallstack/api.py\<close>),
  the token manager (\<open>apps/tokenmgr\<close>), the \<open>create_api_token\<close> command and the admin's revoke
  action. A handler takes the instant, the draws of the key generator where it makes a key, the
  request and the tables; it returns the tables and the reply.
\<close>

section \<open>Logging in\<close>

definition resolve_token_expiry :: "token_env \<Rightarrow> json \<Rightarrow> int" where
  "resolve_token_expiry env requested =
     (let hours = (case requested of
                     JNull \<Rightarrow> tv_expiry_hours env
                   | v \<Rightarrow> (case json_int v of Some n \<Rightarrow> n | None \<Rightarrow> tv_expiry_hours env))
      in min (max 1 hours) (tv_max_hours env))"

lemma resolve_token_expiry_bounds:
  "1 \<le> tv_max_hours env \<Longrightarrow>
     1 \<le> resolve_token_expiry env v \<and> resolve_token_expiry env v \<le> tv_max_hours env"
  by (simp add: resolve_token_expiry_def Let_def)

text \<open>\<open>EmailOrUsernameBackend.authenticate\<close>, and the backends in the order of the settings. The
  first one, of \<open>django-axes\<close>, only refuses: its verdict is an argument of the endpoint.\<close>

definition email_or_username_backend :: "token_env \<Rightarrow> account list \<Rightarrow> string \<Rightarrow> json \<Rightarrow> account option" where
  "email_or_username_backend env accounts username password =
     (if password = JNull then None
      else (let ident = strip username in
        (case tbl_get (\<lambda>u. if CHR ''@'' \<in> set ident
                           then (case acc_email u of Some e \<Rightarrow> tv_iexact env e ident | None \<Rightarrow> False)
                           else tv_iexact env (acc_username u) ident) accounts of
           Row u \<Rightarrow> if tv_check_password env (acc_password u) password \<and> acc_active u then Some u else None
         | _ \<Rightarrow> None)))"

definition check_credentials :: "token_env \<Rightarrow> account list \<Rightarrow> string \<Rightarrow> json \<Rightarrow> account option" where
  "check_credentials env accounts username password =
     (case email_or_username_backend env accounts username password of
        Some u \<Rightarrow> Some u
      | None \<Rightarrow> tv_model_backend env accounts username password)"

text \<open>What axes says: locked before the attempt, or locked by it.\<close>

datatype axes_verdict = Axes_Locked | Axes_Trips | Axes_Passes

text \<open>The newest active login token of a user: the default order is \<open>-created_at\<close>.\<close>

definition active_login :: "nat \<Rightarrow> api_token \<Rightarrow> bool" where
  "active_login n t \<longleftrightarrow> ak_user t = n \<and> ak_type t = Login_Token \<and> ak_active t"

definition login_lookup :: "auth_db \<Rightarrow> nat \<Rightarrow> api_token option" where
  "login_lookup db n =
     (case sort_key (\<lambda>t. - ak_created t) (filter (active_login n) (ad_tokens db)) of
        [] \<Rightarrow> None
      | t # _ \<Rightarrow> Some t)"

definition rotate_key :: "instant \<Rightarrow> string \<Rightarrow> string \<Rightarrow> instant \<Rightarrow> api_token \<Rightarrow> api_token" where
  "rotate_key now prefix hashed expires_at t =
     t\<lparr>ak_prefix := prefix, ak_hashed := hashed, ak_expires := Some expires_at, ak_last_used := Some now\<rparr>"

text \<open>The second half of the upsert, with the row the first half found.\<close>

definition login_write ::
    "token_env \<Rightarrow> instant \<Rightarrow> string list \<Rightarrow> int \<Rightarrow> account \<Rightarrow> api_token option \<Rightarrow> auth_db \<Rightarrow> auth_db \<times> api_reply" where
  "login_write env now draws hours u existing db =
     (let expires_at = now + hours_span hours in
      (case existing of
         Some t \<Rightarrow>
           (case generate_raw_key env draws of
              None \<Rightarrow> (db, Still_Drawing)
            | Some (raw_key, prefix, hashed) \<Rightarrow>
                (update_token (ak_id t) (rotate_key now prefix hashed expires_at) db,
                 Key_Issued raw_key u expires_at 200))
       | None \<Rightarrow>
           (case create_token env now draws (acc_id u) ''Login token'' '''' (Some expires_at) Login_Token '''' db of
              None \<Rightarrow> (db, Still_Drawing)
            | Some (_, raw_key, db') \<Rightarrow> (db', Key_Issued raw_key u expires_at 200))))"

text \<open>The first half: the checks, up to the hours the token lives and the user it is for.\<close>

definition login_check ::
    "token_env \<Rightarrow> axes_verdict \<Rightarrow> api_request \<Rightarrow> auth_db \<Rightarrow> api_reply + int \<times> account" where
  "login_check env axes rq db =
     (if rq_method rq \<noteq> ''POST'' then Inl (api_error ''Method not allowed'' 405)
      else (case load_json_object rq of
          Inl e \<Rightarrow> Inl e
        | Inr d \<Rightarrow>
           (case json_get ''username'' (JStr '''') d of
              JStr name \<Rightarrow>
               (let username = strip name; password = json_get ''password'' (JStr '''') d in
                if username = '''' \<or> \<not> json_truthy password
                then Inl (api_error ''username and password are required'' 400)
                else if axes = Axes_Locked then Inl (Locked_Out (tv_lockout_seconds env))
                else (let user = check_credentials env (ad_accounts db) username password in
                  if axes = Axes_Trips then Inl (Locked_Out (tv_lockout_seconds env))
                  else (case user of
                      Some u \<Rightarrow>
                        if \<not> acc_active u then Inl (api_error ''Invalid credentials'' 401)
                        else Inr (resolve_token_expiry env (json_get ''expires_hours'' JNull d), u)
                    | None \<Rightarrow> Inl (api_error ''Invalid credentials'' 401))))
            | _ \<Rightarrow> Inl Server_Error)))"

definition api_auth_token ::
    "token_env \<Rightarrow> axes_verdict \<Rightarrow> instant \<Rightarrow> string list \<Rightarrow> api_request \<Rightarrow> auth_db \<Rightarrow> auth_db \<times> api_reply" where
  "api_auth_token env axes now draws rq db =
     (case login_check env axes rq db of
        Inl e \<Rightarrow> (db, e)
      | Inr (hours, u) \<Rightarrow> login_write env now draws hours u (login_lookup db (acc_id u)) db)"

text \<open>\<open>api_auth_token_refresh\<close>, with the token the caller presented.\<close>

definition requested_hours :: "api_request \<Rightarrow> json" where
  "requested_hours rq =
     (if rq_body rq = No_Body then JNull
      else (case load_json_object rq of Inr d \<Rightarrow> json_get ''expires_hours'' JNull d | Inl _ \<Rightarrow> JNull))"

definition api_auth_token_refresh ::
    "token_env \<Rightarrow> instant \<Rightarrow> string list \<Rightarrow> api_request \<Rightarrow> auth_db \<Rightarrow> auth_db \<times> api_reply" where
  "api_auth_token_refresh env now draws rq db =
     (if rq_method rq \<noteq> ''POST'' then (db, api_error ''Method not allowed'' 405)
      else (case authenticate_api_request env now rq db of
          (db1, Inl e) \<Rightarrow> (db1, e)
        | (db1, Inr (u, tok)) \<Rightarrow>
           (case tok of
              Some t \<Rightarrow>
               if ak_type t \<noteq> Login_Token then (db1, api_error ''Only login tokens can be refreshed'' 403)
               else (let expires_at = now + hours_span (resolve_token_expiry env (requested_hours rq)) in
                 (case generate_raw_key env draws of
                    None \<Rightarrow> (db1, Still_Drawing)
                  | Some (raw_key, prefix, hashed) \<Rightarrow>
                      (update_token (ak_id t) (rotate_key now prefix hashed expires_at) db1,
                       Key_Issued raw_key u expires_at 200)))
            | None \<Rightarrow> (db1, api_error ''Only login tokens can be refreshed'' 403))))"

definition api_auth_logout :: "token_env \<Rightarrow> instant \<Rightarrow> api_request \<Rightarrow> auth_db \<Rightarrow> auth_db \<times> api_reply" where
  "api_auth_logout env now rq db =
     (if rq_method rq \<noteq> ''POST'' then (db, api_error ''Method not allowed'' 405)
      else (case authenticate_api_request env now rq db of
          (db1, Inl e) \<Rightarrow> (db1, e)
        | (db1, Inr (_, tok)) \<Rightarrow>
            ((case tok of Some t \<Rightarrow> update_token (ak_id t) (revoke_token now) db1 | None \<Rightarrow> db1),
             Message ''Logged out'')))"

definition api_auth_me :: "token_env \<Rightarrow> instant \<Rightarrow> api_request \<Rightarrow> auth_db \<Rightarrow> auth_db \<times> api_reply" where
  "api_auth_me env now rq db =
     (if rq_method rq \<noteq> ''GET'' then (db, api_error ''Method not allowed'' 405)
      else (case authenticate_api_request env now rq db of
          (db1, Inl e) \<Rightarrow> (db1, e)
        | (db1, Inr (u, _)) \<Rightarrow> (db1, User_Data u False)))"

section \<open>Passwords\<close>

text \<open>\<open>validate_password\<close> of a value that is not a string raises a \<open>TypeError\<close>.\<close>

definition set_new_password ::
    "token_env \<Rightarrow> string \<Rightarrow> account \<Rightarrow> json \<Rightarrow> auth_db \<Rightarrow> auth_db \<times> api_reply" where
  "set_new_password env field u new_password db =
     (case new_password of
        JStr p \<Rightarrow>
         (case tv_password_errors env p (Some u) of
            [] \<Rightarrow> (update_account (acc_id u) (\<lambda>a. a\<lparr>acc_password := tv_make_password env p\<rparr>) db,
                   Message ''Password updated'')
          | messages \<Rightarrow> (db, Field_Errors [(field, messages)] 400))
      | _ \<Rightarrow> (db, Server_Error))"

definition api_auth_password :: "token_env \<Rightarrow> instant \<Rightarrow> api_request \<Rightarrow> auth_db \<Rightarrow> auth_db \<times> api_reply" where
  "api_auth_password env now rq db =
     (if rq_method rq \<noteq> ''POST'' then (db, api_error ''Method not allowed'' 405)
      else (case authenticate_api_request env now rq db of
          (db1, Inl e) \<Rightarrow> (db1, e)
        | (db1, Inr (u, _)) \<Rightarrow>
           (case load_json_object rq of
              Inl e \<Rightarrow> (db1, e)
            | Inr d \<Rightarrow>
               (let current = json_get ''current_password'' (JStr '''') d;
                    new = json_get ''new_password'' (JStr '''') d
                in if \<not> json_truthy current \<or> \<not> json_truthy new
                   then (db1, api_error ''current_password and new_password are required'' 400)
                   else if \<not> tv_check_password env (acc_password u) current
                   then (db1, api_error ''Current password is incorrect'' 400)
                   else set_new_password env ''new_password'' u new db1))))"

section \<open>Managing users with an auth-level token\<close>

text \<open>The guard the user endpoints share: a bearer of a manual auth-level token.\<close>

definition with_auth_token ::
    "token_env \<Rightarrow> string list \<Rightarrow> instant \<Rightarrow> api_request \<Rightarrow> (auth_db \<Rightarrow> auth_db \<times> api_reply) \<Rightarrow>
     auth_db \<Rightarrow> auth_db \<times> api_reply" where
  "with_auth_token env methods now rq k db =
     (if rq_method rq \<notin> set methods then (db, api_error ''Method not allowed'' 405)
      else (case authenticate_api_request env now rq db of
          (db1, Inl e) \<Rightarrow> (db1, e)
        | (db1, Inr (_, tok)) \<Rightarrow>
           (case require_auth_token tok of
              Some e \<Rightarrow> (db1, e)
            | None \<Rightarrow> k db1)))"

definition api_auth_user_password ::
    "token_env \<Rightarrow> instant \<Rightarrow> api_request \<Rightarrow> nat \<Rightarrow> auth_db \<Rightarrow> auth_db \<times> api_reply" where
  "api_auth_user_password env now rq user_id =
     with_auth_token env [''POST''] now rq (\<lambda>db1.
       (case load_json_object rq of
          Inl e \<Rightarrow> (db1, e)
        | Inr d \<Rightarrow>
           (let new = json_get ''new_password'' (JStr '''') d in
            if \<not> json_truthy new then (db1, api_error ''new_password is required'' 400)
            else (case account_by_id db1 user_id of
                None \<Rightarrow> (db1, api_error ''User not found'' 404)
              | Some target \<Rightarrow> set_new_password env ''new_password'' target new db1))))"

definition api_auth_user_deactivate ::
    "token_env \<Rightarrow> instant \<Rightarrow> api_request \<Rightarrow> nat \<Rightarrow> auth_db \<Rightarrow> auth_db \<times> api_reply" where
  "api_auth_user_deactivate env now rq user_id =
     with_auth_token env [''POST''] now rq (\<lambda>db1.
       (case account_by_id db1 user_id of
          None \<Rightarrow> (db1, api_error ''User not found'' 404)
        | Some target \<Rightarrow>
           (let db2 = update_account (acc_id target) (\<lambda>a. a\<lparr>acc_active := False\<rparr>) db1 in
            (db2\<lparr>ad_tokens := tbl_update (\<lambda>t. ak_user t = acc_id target \<and> ak_active t) (revoke_token now)
                               (ad_tokens db2)\<rparr>,
             Message ''User deactivated''))))"

text \<open>\<open>User.objects.create_user\<close>; \<open>None\<close> is the \<open>IntegrityError\<close> of an e-mail address in use.\<close>

definition email_taken :: "auth_db \<Rightarrow> nat \<Rightarrow> string option \<Rightarrow> bool" where
  "email_taken db n email \<longleftrightarrow>
     email \<noteq> None \<and> list_ex (\<lambda>u. acc_id u \<noteq> n \<and> acc_email u = email) (ad_accounts db)"

definition create_user :: "token_env \<Rightarrow> string \<Rightarrow> string \<Rightarrow> string \<Rightarrow> auth_db \<Rightarrow> (account \<times> auth_db) option" where
  "create_user env username email password db =
     (let u = \<lparr>acc_id = next_account_id db, acc_username = username,
          acc_email = (if email = '''' then None else Some (tv_normalize_email env email)),
          acc_first_name = '''', acc_last_name = '''', acc_password = tv_make_password env password,
          acc_staff = False, acc_superuser = False, acc_active = True\<rparr>
      in if email_taken db (acc_id u) (acc_email u) then None
         else Some (u, db\<lparr>ad_accounts := ad_accounts db @ [u]\<rparr>))"

definition register_user ::
    "token_env \<Rightarrow> instant \<Rightarrow> string list \<Rightarrow> string \<Rightarrow> string \<Rightarrow> json \<Rightarrow> auth_db \<Rightarrow> auth_db \<times> api_reply" where
  "register_user env now draws username email password db =
     (if list_ex (\<lambda>u. acc_username u = username) (ad_accounts db)
      then (db, Field_Errors [(''username'', [''A user with that username already exists.''])] 400)
      else (case password of
          JStr p \<Rightarrow>
           (case tv_password_errors env p None of
              [] \<Rightarrow>
               (case create_user env username email p db of
                  None \<Rightarrow> (db, Server_Error)
                | Some (u, db2) \<Rightarrow>
                   (let expires_at = now + hours_span (resolve_token_expiry env JNull) in
                    (case create_token env now draws (acc_id u) ''Login token'' '''' (Some expires_at)
                            Login_Token '''' db2 of
                       None \<Rightarrow> (db2, Still_Drawing)
                     | Some (_, raw_key, db3) \<Rightarrow> (db3, Key_Issued raw_key u expires_at 201))))
            | messages \<Rightarrow> (db, Field_Errors [(''password'', messages)] 400))
        | _ \<Rightarrow> (db, Server_Error)))"

definition api_auth_register ::
    "token_env \<Rightarrow> instant \<Rightarrow> string list \<Rightarrow> api_request \<Rightarrow> auth_db \<Rightarrow> auth_db \<times> api_reply" where
  "api_auth_register env now draws rq =
     with_auth_token env [''POST''] now rq (\<lambda>db1.
       if \<not> tv_register_enabled env then (db1, api_error ''Registration is disabled'' 403)
       else (case load_json_object rq of
           Inl e \<Rightarrow> (db1, e)
         | Inr d \<Rightarrow>
            (case (json_get ''username'' (JStr '''') d, json_get ''email'' (JStr '''') d) of
               (JStr name, JStr mail) \<Rightarrow>
                (let password = json_get ''password'' (JStr '''') d in
                 if strip name = '''' \<or> \<not> json_truthy password
                 then (db1, api_error ''username and password are required'' 400)
                 else register_user env now draws (strip name) (strip mail) password db1)
             | _ \<Rightarrow> (db1, Server_Error))))"

subsection \<open>Updating a user\<close>

text \<open>What a column makes of the value assigned to it: the stored value, a NULL in a column that
  has none (an \<open>IntegrityError\<close>), or a value it does not convert (an uncaught \<open>ValidationError\<close>).\<close>

datatype 'v column_value = Stored 'v | Null_Refused | Bad_Value

definition bool_column :: "json \<Rightarrow> bool column_value" where
  "bool_column v =
     (case v of
        JNull \<Rightarrow> Null_Refused
      | JBool b \<Rightarrow> Stored b
      | JInt i \<Rightarrow> if i = 1 then Stored True else if i = 0 then Stored False else Bad_Value
      | JFloat r \<Rightarrow> if r = 1 then Stored True else if r = 0 then Stored False else Bad_Value
      | JStr s \<Rightarrow> if s \<in> {''t'', ''True'', ''1''} then Stored True
                  else if s \<in> {''f'', ''False'', ''0''} then Stored False else Bad_Value
      | _ \<Rightarrow> Bad_Value)"

definition text_column :: "token_env \<Rightarrow> json \<Rightarrow> string column_value" where
  "text_column env v = (case v of JNull \<Rightarrow> Null_Refused | JStr s \<Rightarrow> Stored s | _ \<Rightarrow> Stored (tv_str env v))"

definition email_column :: "token_env \<Rightarrow> json \<Rightarrow> string option column_value" where
  "email_column env v =
     (case v of JNull \<Rightarrow> Stored None | JStr s \<Rightarrow> Stored (Some s) | _ \<Rightarrow> Stored (Some (tv_str env v)))"

definition set_column :: "'v column_value \<Rightarrow> ('v \<Rightarrow> account \<Rightarrow> account) \<Rightarrow> account column_value \<Rightarrow> account column_value" where
  "set_column v f row =
     (case (row, v) of
        (Bad_Value, _) \<Rightarrow> Bad_Value
      | (_, Bad_Value) \<Rightarrow> Bad_Value
      | (Null_Refused, _) \<Rightarrow> Null_Refused
      | (_, Null_Refused) \<Rightarrow> Null_Refused
      | (Stored u, Stored x) \<Rightarrow> Stored (f x u))"

definition PATCH_FIELDS :: "string list" where
  "PATCH_FIELDS = [''email'', ''first_name'', ''last_name'', ''is_staff'', ''is_active'']"

definition assign_field :: "token_env \<Rightarrow> string \<times> json \<Rightarrow> account column_value \<Rightarrow> account column_value" where
  "assign_field env kv row =
     (let (k, v) = kv in
      if k = ''email'' then set_column (email_column env v) (\<lambda>x u. u\<lparr>acc_email := x\<rparr>) row
      else if k = ''first_name'' then set_column (text_column env v) (\<lambda>x u. u\<lparr>acc_first_name := x\<rparr>) row
      else if k = ''last_name'' then set_column (text_column env v) (\<lambda>x u. u\<lparr>acc_last_name := x\<rparr>) row
      else if k = ''is_staff'' then set_column (bool_column v) (\<lambda>x u. u\<lparr>acc_staff := x\<rparr>) row
      else set_column (bool_column v) (\<lambda>x u. u\<lparr>acc_active := x\<rparr>) row)"

definition EMAIL_EXISTS :: api_reply where
  "EMAIL_EXISTS = Field_Errors [(''email'', [''A user with that email already exists.''])] 400"

definition patch_user :: "token_env \<Rightarrow> account \<Rightarrow> (string \<times> json) list \<Rightarrow> auth_db \<Rightarrow> auth_db \<times> api_reply" where
  "patch_user env target d db =
     (let unknown = filter (\<lambda>k. k \<notin> set PATCH_FIELDS) (map fst d) in
      if unknown \<noteq> []
      then (db, Field_Errors (map (\<lambda>k. (k, [''Field '' @ [CHR 0x27] @ k @ [CHR 0x27] @ '' is not allowed''])) unknown) 400)
      else (case fold (assign_field env) d (Stored target) of
          Bad_Value \<Rightarrow> (db, Server_Error)
        | Null_Refused \<Rightarrow> (db, EMAIL_EXISTS)
        | Stored u \<Rightarrow>
           if list_ex (\<lambda>(k, _). k = ''email'') d \<and> email_taken db (acc_id target) (acc_email u) then (db, EMAIL_EXISTS)
           else (update_account (acc_id target) (\<lambda>_. u) db, User_Patched target d)))"

definition api_auth_user_detail ::
    "token_env \<Rightarrow> instant \<Rightarrow> api_request \<Rightarrow> nat \<Rightarrow> auth_db \<Rightarrow> auth_db \<times> api_reply" where
  "api_auth_user_detail env now rq user_id =
     with_auth_token env [''GET'', ''PATCH''] now rq (\<lambda>db1.
       (case account_by_id db1 user_id of
          None \<Rightarrow> (db1, api_error ''User not found'' 404)
        | Some target \<Rightarrow>
           if rq_method rq = ''GET'' then (db1, User_Data target True)
           else (case load_json_object rq of
               Inl e \<Rightarrow> (db1, e)
             | Inr d \<Rightarrow> patch_user env target d db1)))"

end
