(* ===== verification/Token_Manager.thy ===== *)
theory Token_Manager
  imports Token_Access
begin

text \<open>
  The token manager (\<open>apps/tokenmgr\<close>): the form that mints a token within the role of the person
  who asks and of the owner, the one-shot reveal of the key, revoking, and the rows a person sees;
  with the \<open>create_api_token\<close> command and the admin's revoke action (\<open>apps/smallstack\<close>).
\<close>

section \<open>The form\<close>

text \<open>A submitted form: the fields as their widgets deliver them. The expiry is parsed: \<open>None\<close> for
  text that is not a date.\<close>

record token_form =
  tf_user :: "nat option"
  tf_name :: string
  tf_description :: string
  tf_level :: string
  tf_expires :: "instant option option"

record minted =
  mt_user :: account
  mt_name :: string
  mt_description :: string
  mt_level :: string
  mt_expires :: "instant option"

definition NON_STAFF_ACCESS_LEVELS :: "string list" where
  "NON_STAFF_ACCESS_LEVELS = [''readonly'']"

definition STAFF_ACCESS_LEVELS :: "string list" where
  "STAFF_ACCESS_LEVELS = [''staff'', ''readonly'']"

definition SUPERUSER_ACCESS_LEVELS :: "string list" where
  "SUPERUSER_ACCESS_LEVELS = [''auth'', ''staff'', ''readonly'']"

text \<open>What \<open>__init__\<close> leaves as choices: the levels and the accounts that may be picked.\<close>

definition level_choices :: "account \<Rightarrow> string list" where
  "level_choices u =
     (if \<not> acc_staff u then NON_STAFF_ACCESS_LEVELS
      else if acc_superuser u then SUPERUSER_ACCESS_LEVELS else STAFF_ACCESS_LEVELS)"

definition user_choices :: "account \<Rightarrow> account list \<Rightarrow> account list" where
  "user_choices u accounts = (if acc_staff u then accounts else filter (\<lambda>a. acc_id a = acc_id u) accounts)"

text \<open>The cleaning of the single fields: the field's own validation, then its \<open>clean_\<close> method.\<close>

definition clean_access_level :: "account \<Rightarrow> string \<Rightarrow> string option" where
  "clean_access_level u level =
     (if level \<notin> set (level_choices u) then None
      else if \<not> acc_staff u \<and> level \<noteq> ''readonly'' then None
      else if level = ''auth'' \<and> \<not> acc_superuser u then None
      else Some level)"

definition clean_user :: "account \<Rightarrow> account list \<Rightarrow> nat option \<Rightarrow> account option" where
  "clean_user u accounts picked =
     (case picked of
        None \<Rightarrow> None
      | Some n \<Rightarrow>
         (case tbl_find acc_id n (user_choices u accounts) of
            None \<Rightarrow> None
          | Some target \<Rightarrow> if \<not> acc_staff u \<and> acc_id target \<noteq> acc_id u then None else Some target))"

definition clean_name :: "string \<Rightarrow> string option" where
  "clean_name s = (let n = strip s in if n = '''' \<or> 100 < length n then None else Some n)"

text \<open>The whole form: the names of the fields with an error, or the cleaned data. The level is
  checked against the owner when both are clean.\<close>

definition missing :: "'a option \<Rightarrow> string \<Rightarrow> string list" where
  "missing v name = (if v = None then [name] else [])"

definition clean_token_form :: "account \<Rightarrow> account list \<Rightarrow> token_form \<Rightarrow> string list + minted" where
  "clean_token_form u accounts f =
     (let target = clean_user u accounts (tf_user f);
          name = clean_name (tf_name f);
          level = clean_access_level u (tf_level f);
          over_role = (case (target, level) of
                         (Some t, Some l) \<Rightarrow> l \<in> {''staff'', ''auth''} \<and> \<not> acc_staff t
                       | _ \<Rightarrow> False);
          errors = missing target ''user'' @ missing name ''name'' @ missing level ''access_level'' @
                   missing (tf_expires f) ''expires_at'' @ (if over_role then [''access_level''] else [])
      in (case (errors, target, name, level, tf_expires f) of
            ([], Some t, Some n, Some l, Some e) \<Rightarrow>
              Inr \<lparr>mt_user = t, mt_name = n, mt_description = strip (tf_description f), mt_level = l, mt_expires = e\<rparr>
          | _ \<Rightarrow> Inl errors))"

section \<open>Views\<close>

text \<open>\<open>TokenCreateView\<close>: the new token's key goes to the session of the person who asked. The
  outcome is the errors shown, or the id of the token; \<open>None\<close> when the draws are used up.\<close>

definition token_create ::
    "token_env \<Rightarrow> instant \<Rightarrow> string list \<Rightarrow> account \<Rightarrow> token_form \<Rightarrow> string option \<Rightarrow> auth_db \<Rightarrow>
     (auth_db \<times> string option \<times> (string list + nat)) option" where
  "token_create env now draws u f revealed db =
     (case clean_token_form u (ad_accounts db) f of
        Inl errors \<Rightarrow> Some (db, revealed, Inl errors)
      | Inr m \<Rightarrow>
         (case create_token env now draws (acc_id (mt_user m)) (mt_name m) (mt_description m) (mt_expires m)
                 Manual_Token (mt_level m) db of
            None \<Rightarrow> None
          | Some (t, raw_key, db') \<Rightarrow> Some (db', Some raw_key, Inr (ak_id t))))"

definition is_owner_or_staff :: "account option \<Rightarrow> api_token \<Rightarrow> bool" where
  "is_owner_or_staff u t = (case u of None \<Rightarrow> False | Some a \<Rightarrow> acc_staff a \<or> ak_user t = acc_id a)"

datatype token_page = Page_Not_Found | Page_Forbidden | Key_Shown string | Key_Gone | Token_Revoked | Already_Inactive

text \<open>\<open>TokenRevealView\<close>: the page, and what is left in the session.\<close>

definition token_reveal :: "account \<Rightarrow> nat \<Rightarrow> string option \<Rightarrow> auth_db \<Rightarrow> token_page \<times> string option" where
  "token_reveal u n revealed db =
     (case token_by_id db n of
        None \<Rightarrow> (Page_Not_Found, revealed)
      | Some t \<Rightarrow>
         if \<not> is_owner_or_staff (Some u) t then (Page_Forbidden, revealed)
         else (case revealed of
             None \<Rightarrow> (Key_Gone, None)
           | Some k \<Rightarrow> (if k = '''' then Key_Gone else Key_Shown k, None)))"

definition token_revoke :: "instant \<Rightarrow> account \<Rightarrow> nat \<Rightarrow> auth_db \<Rightarrow> auth_db \<times> token_page" where
  "token_revoke now u n db =
     (case token_by_id db n of
        None \<Rightarrow> (db, Page_Not_Found)
      | Some t \<Rightarrow>
         if \<not> is_owner_or_staff (Some u) t then (db, Page_Forbidden)
         else if ak_active t then (update_token (ak_id t) (revoke_token now) db, Token_Revoked)
         else (db, Already_Inactive))"

text \<open>\<open>TokenCRUDView\<close>: the rows of the list, and the check before a single row is shown.\<close>

definition token_list_rows :: "account option \<Rightarrow> bool \<Rightarrow> api_token list \<Rightarrow> api_token list" where
  "token_list_rows u is_active_given rows =
     (case u of
        None \<Rightarrow> []
      | Some a \<Rightarrow>
         (let mine = (if acc_staff a then rows else filter (\<lambda>t. ak_user t = acc_id a) rows) in
          if is_active_given then mine else filter ak_active mine))"

definition token_detail_allowed :: "account option \<Rightarrow> api_token \<Rightarrow> bool" where
  "token_detail_allowed u t = is_owner_or_staff u t"

text \<open>\<open>token_stat_detail\<close>: the rows behind the three counts, newest first.\<close>

definition token_stat_rows :: "account \<Rightarrow> string \<Rightarrow> api_token list \<Rightarrow> api_token list" where
  "token_stat_rows u stat_type rows =
     (let mine = sort_key (\<lambda>t. - ak_created t) (if acc_staff u then rows else filter (\<lambda>t. ak_user t = acc_id u) rows) in
      if stat_type = ''total'' then mine
      else if stat_type = ''active'' then filter ak_active mine
      else if stat_type = ''revoked'' then filter (\<lambda>t. \<not> ak_active t) mine
      else [])"

text \<open>\<open>TokenStatsView\<close>: the window of the request, in hours.\<close>

definition stats_hours :: "string option \<Rightarrow> int" where
  "stats_hours given =
     (let h = (case given of None \<Rightarrow> 24 | Some s \<Rightarrow> (case py_int_str s of Some n \<Rightarrow> n | None \<Rightarrow> 24))
      in max 1 (min h (24 * 30)))"

section \<open>Commands\<close>

text \<open>\<open>create_api_token\<close>; the argument parser only lets the three levels through.\<close>

definition create_api_token ::
    "token_env \<Rightarrow> instant \<Rightarrow> string list \<Rightarrow> string \<Rightarrow> string \<Rightarrow> string \<Rightarrow> auth_db \<Rightarrow>
     (auth_db \<times> (string + string)) option" where
  "create_api_token env now draws username name level db =
     (case find (\<lambda>u. acc_username u = username) (ad_accounts db) of
        None \<Rightarrow> Some (db, Inl (''User '' @ [CHR 0x27] @ username @ [CHR 0x27] @ '' does not exist''))
      | Some u \<Rightarrow>
         if level \<notin> set SUPERUSER_ACCESS_LEVELS then Some (db, Inl ''invalid choice'')
         else map_option (\<lambda>(_, raw_key, db'). (db', Inr raw_key))
                (create_token env now draws (acc_id u) name '''' None Manual_Token level db))"

definition admin_revoke_tokens :: "instant \<Rightarrow> nat list \<Rightarrow> auth_db \<Rightarrow> auth_db \<times> nat" where
  "admin_revoke_tokens now ids db =
     (let chosen = filter (\<lambda>t. ak_id t \<in> set ids \<and> ak_active t) (ad_tokens db) in
      (db\<lparr>ad_tokens := tbl_update (\<lambda>t. ak_id t \<in> set ids \<and> ak_active t) (revoke_token now) (ad_tokens db)\<rparr>,
       length chosen))"

section \<open>What the form lets through\<close>

lemma clean_token_form_Inr:
  assumes "clean_token_form u accounts f = Inr m"
  shows "mt_user m \<in> set accounts \<and>
    (mt_level m = ''readonly'' \<or> mt_level m = ''staff'' \<and> acc_staff u \<and> acc_staff (mt_user m) \<or>
     mt_level m = ''auth'' \<and> acc_staff u \<and> acc_superuser u \<and> acc_staff (mt_user m)) \<and>
    (acc_staff u \<or> acc_id (mt_user m) = acc_id u)"
proof -
  from assms obtain n where t: "clean_user u accounts (tf_user f) = Some (mt_user m)"
    and l: "clean_access_level u (tf_level f) = Some (mt_level m)"
    and over: "mt_level m \<in> {''staff'', ''auth''} \<longrightarrow> acc_staff (mt_user m)"
    by (auto simp: clean_token_form_def Let_def split: option.splits list.splits if_splits prod.splits)
  from t have "mt_user m \<in> set accounts \<and> (acc_staff u \<or> acc_id (mt_user m) = acc_id u)"
    by (auto simp: clean_user_def user_choices_def split: option.splits if_splits dest!: tbl_find_Some)
  moreover from l have "mt_level m \<in> set (level_choices u)"
    by (auto simp: clean_access_level_def split: if_splits)
  ultimately show ?thesis using over
    by (auto simp: level_choices_def NON_STAFF_ACCESS_LEVELS_def STAFF_ACCESS_LEVELS_def
        SUPERUSER_ACCESS_LEVELS_def split: if_splits)
qed

text \<open>The list shows exactly the rows whose detail page opens, up to the switch for inactive ones.\<close>

lemma token_list_agrees:
  "t \<in> set (token_list_rows u given rows) \<longleftrightarrow>
     t \<in> set rows \<and> token_detail_allowed u t \<and> (given \<or> ak_active t)"
  by (auto simp: token_list_rows_def token_detail_allowed_def is_owner_or_staff_def Let_def split: option.splits)

end
