(* ===== verification/Py_Net.thy ===== *)
theory Py_Net
  imports Py_Strings "HOL-Library.Word" "HOL-Library.Code_Target_Numeral"
begin

text \<open>
  The parts of Python's standard library that the network-facing code calls: \<open>fnmatch\<close>,
  \<open>urllib.parse.urlsplit\<close> with its \<open>hostname\<close> and \<open>port\<close>, and \<open>ipaddress.ip_address\<close> with the
  predicates \<open>is_private\<close>, \<open>is_loopback\<close>, \<open>is_link_local\<close>, \<open>is_reserved\<close>, \<open>is_multicast\<close> and
  \<open>is_unspecified\<close> (Python 3.12; the address tables are those of the \<open>ipaddress\<close> module). The
  NFKC check of a non-ASCII \<open>netloc\<close> is not modelled. A raised \<open>ValueError\<close> is \<open>None\<close>.
\<close>

section \<open>Shell patterns\<close>

datatype class_item = One char | Span char char

datatype glob_token = AnyRun | AnyOne | Lit char | Class bool "class_item list"

text \<open>The items of a bracket, left to right: \<open>a-b\<close> is a range; an empty range disappears.\<close>

fun class_items :: "string \<Rightarrow> class_item list" where
  "class_items (a # d # b # rest) =
     (if d = CHR ''-''
      then (if code a \<le> code b then [Span a b] else []) @ class_items rest
      else One a # class_items (d # b # rest))"
| "class_items [a, b] = [One a, One b]"
| "class_items [a] = [One a]"
| "class_items [] = []"

text \<open>The translation negates on a leading \<open>!\<close> of what is left after the empty ranges are
  dropped; a range that starts with it then leaves a literal hyphen and its end.\<close>

definition bracket_token :: "string \<Rightarrow> glob_token" where
  "bracket_token stuff =
     (case stuff of
        CHR ''!'' # rest \<Rightarrow> Class False (class_items rest)
      | _ \<Rightarrow>
         (case class_items stuff of
            One CHR ''!'' # items \<Rightarrow> Class False items
          | Span CHR ''!'' b # items \<Rightarrow> Class False (One CHR ''-'' # One b # items)
          | items \<Rightarrow> Class True items))"

text \<open>Where the bracket opened before \<open>s\<close> closes: a \<open>]\<close> in first place (after an optional \<open>!\<close>)
  is an ordinary character.\<close>

definition bracket_body :: "string \<Rightarrow> string option" where
  "bracket_body s =
     (let n0 = (case s of c # _ \<Rightarrow> if c = CHR ''!'' then 1 else 0 | [] \<Rightarrow> 0);
          n1 = (if n0 < length s \<and> s ! n0 = CHR '']'' then n0 + 1 else n0 :: nat);
          run = length (takeWhile (\<lambda>c. c \<noteq> CHR '']'') (drop n1 s))
      in if n1 + run < length s then Some (take (n1 + run) s) else None)"

lemma bracket_body_length: "bracket_body s = Some b \<Longrightarrow> length b < length s"
  by (auto simp: bracket_body_def Let_def split: if_splits)

function glob_tokens :: "string \<Rightarrow> glob_token list" where
  "glob_tokens [] = []"
| "glob_tokens (c # s) =
     (if c = CHR ''*'' then AnyRun # glob_tokens s
      else if c = CHR ''?'' then AnyOne # glob_tokens s
      else if c = CHR ''['' then
        (case bracket_body s of
           None \<Rightarrow> Lit c # glob_tokens s
         | Some body \<Rightarrow> bracket_token body # glob_tokens (drop (Suc (length body)) s))
      else Lit c # glob_tokens s)"
  by pat_completeness auto
termination by (relation "measure length") auto

fun in_item :: "char \<Rightarrow> class_item \<Rightarrow> bool" where
  "in_item c (One a) = (c = a)"
| "in_item c (Span a b) = (code a \<le> code c \<and> code c \<le> code b)"

fun glob_match :: "glob_token list \<Rightarrow> string \<Rightarrow> bool" where
  "glob_match [] s = (s = [])"
| "glob_match (AnyRun # ts) [] = glob_match ts []"
| "glob_match (AnyRun # ts) (c # s) = (glob_match ts (c # s) \<or> glob_match (AnyRun # ts) s)"
| "glob_match (AnyOne # ts) (c # s) = glob_match ts s"
| "glob_match (Lit a # ts) (c # s) = (a = c \<and> glob_match ts s)"
| "glob_match (Class b items # ts) (c # s) = (list_ex (in_item c) items = b \<and> glob_match ts s)"
| "glob_match (_ # ts) [] = False"

definition fnmatch :: "string \<Rightarrow> string \<Rightarrow> bool" where
  "fnmatch name pat = glob_match (glob_tokens pat) name"

definition plain_char :: "char \<Rightarrow> bool" where
  "plain_char c \<longleftrightarrow> c \<notin> {CHR ''*'', CHR ''?'', CHR ''[''}"

lemma glob_tokens_plain: "list_all plain_char s \<Longrightarrow> glob_tokens s = map Lit s"
  by (induction s) (auto simp: plain_char_def)

lemma glob_match_lits: "glob_match (map Lit p @ ts) s \<longleftrightarrow> (\<exists>r. s = p @ r \<and> glob_match ts r)"
proof (induction p arbitrary: s)
  case (Cons a p)
  then show ?case by (cases s) auto
qed simp

lemma glob_match_run: "glob_match (AnyRun # ts) s \<longleftrightarrow> (\<exists>a b. s = a @ b \<and> glob_match ts b)"
proof (induction s)
  case Nil
  then show ?case by simp
next
  case (Cons c s)
  have "(\<exists>a b. c # s = a @ b \<and> glob_match ts b) \<longleftrightarrow>
    glob_match ts (c # s) \<or> (\<exists>a b. s = a @ b \<and> glob_match ts b)"
    by (metis append_Cons append_Nil append_eq_Cons_conv)
  with Cons show ?case by simp
qed

lemma fnmatch_plain: "list_all plain_char p \<Longrightarrow> fnmatch s p \<longleftrightarrow> s = p"
  using glob_match_lits [of p "[]" s] by (auto simp: fnmatch_def glob_tokens_plain)

lemma fnmatch_star: "fnmatch s ''*''"
  by (simp add: fnmatch_def glob_match_run)

lemma glob_tokens_plain_append:
  "list_all plain_char p \<Longrightarrow> glob_tokens (p @ q) = map Lit p @ glob_tokens q"
  by (induction p) (auto simp: plain_char_def)

text \<open>\<open>prefix.*\<close> matches exactly the names under the prefix.\<close>

lemma fnmatch_prefix:
  "list_all plain_char p \<Longrightarrow> fnmatch s (p @ ''*'') \<longleftrightarrow> (\<exists>r. s = p @ r)"
  by (auto simp: fnmatch_def glob_tokens_plain_append glob_match_lits glob_match_run)

section \<open>URLs\<close>

definition before_char :: "char \<Rightarrow> string \<Rightarrow> string" where
  "before_char c s = takeWhile (\<lambda>x. x \<noteq> c) s"

definition after_char :: "char \<Rightarrow> string \<Rightarrow> string" where
  "after_char c s = tl (dropWhile (\<lambda>x. x \<noteq> c) s)"

definition after_last :: "char \<Rightarrow> string \<Rightarrow> string" where
  "after_last c s = rev (before_char c (rev s))"

definition is_alpha :: "char \<Rightarrow> bool" where
  "is_alpha c \<longleftrightarrow> (65 \<le> code c \<and> code c \<le> 90) \<or> (97 \<le> code c \<and> code c \<le> 122)"

definition scheme_char :: "char \<Rightarrow> bool" where
  "scheme_char c \<longleftrightarrow> is_alpha c \<or> py_digit c \<or> c \<in> {CHR ''+'', CHR ''-'', CHR ''.''}"

definition hex_value :: "char \<Rightarrow> nat option" where
  "hex_value c =
     (if py_digit c then Some (code c - 48)
      else if 97 \<le> code c \<and> code c \<le> 102 then Some (code c - 87)
      else if 65 \<le> code c \<and> code c \<le> 70 then Some (code c - 55)
      else None)"

section \<open>IP addresses\<close>

datatype ip_address = V4 "32 word" | V6 "128 word"

definition parse_octet :: "string \<Rightarrow> nat option" where
  "parse_octet s =
     (if s = [] \<or> \<not> list_all py_digit s \<or> 3 < length s \<or> (s \<noteq> ''0'' \<and> hd s = CHR ''0'')
         \<or> 255 < digits_value s
      then None else Some (digits_value s))"

fun all_some :: "'a option list \<Rightarrow> 'a list option" where
  "all_some [] = Some []"
| "all_some (None # xs) = None"
| "all_some (Some x # xs) = map_option ((#) x) (all_some xs)"

definition base_value :: "nat \<Rightarrow> nat list \<Rightarrow> nat" where
  "base_value b ds = foldl (\<lambda>n d. n * b + d) 0 ds"

definition parse_ipv4 :: "string \<Rightarrow> nat option" where
  "parse_ipv4 s =
     (let parts = split_where (\<lambda>c. c = CHR ''.'') s in
      if length parts \<noteq> 4 then None else map_option (base_value 256) (all_some (map parse_octet parts)))"

definition parse_hextet :: "string \<Rightarrow> nat option" where
  "parse_hextet s =
     (if 4 < length s then None else map_option (base_value 16) (all_some (map hex_value s)))"

text \<open>The text form of an IPv6 address: eight hextets, or fewer with one \<open>::\<close>, the last two
  possibly written as an IPv4 address. An empty hextet outside a \<open>::\<close> is refused.\<close>

definition hextets :: "string list \<Rightarrow> nat list option" where
  "hextets ps = all_some (map (\<lambda>p. if p = [] then None else parse_hextet p) ps)"

definition v4_tail :: "string list \<Rightarrow> (string list \<times> nat list) option" where
  "v4_tail parts =
     (if parts \<noteq> [] \<and> CHR ''.'' \<in> set (last parts)
      then map_option (\<lambda>v. (butlast parts, [v div 65536, v mod 65536])) (parse_ipv4 (last parts))
      else Some (parts, []))"

definition parse_ipv6 :: "string \<Rightarrow> nat option" where
  "parse_ipv6 s =
     (let parts = split_where (\<lambda>c. c = CHR '':'') s in
      if length parts < 3 then None
      else (case v4_tail parts of
        None \<Rightarrow> None
      | Some (ps, tail) \<Rightarrow>
         (let n = length ps + length tail;
              gaps = filter (\<lambda>i. ps ! i = [] \<and> i + 1 < n) [1..<length ps]
          in if 9 < n then None
             else (case gaps of
               [] \<Rightarrow> if n \<noteq> 8 then None
                      else map_option (\<lambda>hs. base_value 65536 (hs @ tail)) (hextets ps)
             | [i] \<Rightarrow>
                (let hi = (if i = 1 \<and> ps ! 0 = [] then [] else take i ps);
                     rest = drop (Suc i) ps;
                     lo = (if rest = [[]] \<and> tail = [] then [] else rest)
                 in if length hi + length lo + length tail \<ge> 8 then None
                    else (case (hextets hi, hextets lo) of
                      (Some a, Some b) \<Rightarrow>
                        Some (base_value 65536 (a @ replicate (8 - length a - length b - length tail) 0 @ b @ tail))
                    | _ \<Rightarrow> None))
             | _ \<Rightarrow> None))))"

definition ip_address :: "string \<Rightarrow> ip_address option" where
  "ip_address s =
     (case parse_ipv4 s of
        Some n \<Rightarrow> Some (V4 (of_nat n))
      | None \<Rightarrow> map_option (\<lambda>n. V6 (of_nat n)) (parse_ipv6 s))"

text \<open>Networks as an address and a prefix length.\<close>

definition in_net :: "'a::len word \<Rightarrow> 'a word \<times> nat \<Rightarrow> bool" where
  "in_net a n = (drop_bit (LENGTH('a) - snd n) a = drop_bit (LENGTH('a) - snd n) (fst n))"

definition ipv4 :: "nat \<Rightarrow> nat \<Rightarrow> nat \<Rightarrow> nat \<Rightarrow> 32 word" where
  "ipv4 a b c d = of_nat (base_value 256 [a, b, c, d])"

definition ipv6 :: "nat list \<Rightarrow> 128 word" where
  "ipv6 hs = of_nat (base_value 65536 (hs @ replicate (8 - length hs) 0))"

definition v4_private :: "(32 word \<times> nat) list" where
  "v4_private = [(ipv4 0 0 0 0, 8), (ipv4 10 0 0 0, 8), (ipv4 127 0 0 0, 8), (ipv4 169 254 0 0, 16),
     (ipv4 172 16 0 0, 12), (ipv4 192 0 0 0, 24), (ipv4 192 0 0 170, 31), (ipv4 192 0 2 0, 24),
     (ipv4 192 168 0 0, 16), (ipv4 198 18 0 0, 15), (ipv4 198 51 100 0, 24),
     (ipv4 203 0 113 0, 24), (ipv4 240 0 0 0, 4), (ipv4 255 255 255 255, 32)]"

definition v4_private_exceptions :: "(32 word \<times> nat) list" where
  "v4_private_exceptions = [(ipv4 192 0 0 9, 32), (ipv4 192 0 0 10, 32)]"

definition v6_private :: "(128 word \<times> nat) list" where
  "v6_private = [(ipv6 [0,0,0,0,0,0,0,1], 128), (ipv6 [], 128), (ipv6 [0,0,0,0,0,0xffff], 96),
     (ipv6 [0x64, 0xff9b, 1], 48), (ipv6 [0x100], 64), (ipv6 [0x2001], 23), (ipv6 [0x2001, 0xdb8], 32),
     (ipv6 [0x2002], 16), (ipv6 [0x3fff], 20), (ipv6 [0xfc00], 7), (ipv6 [0xfe80], 10)]"

definition v6_private_exceptions :: "(128 word \<times> nat) list" where
  "v6_private_exceptions = [(ipv6 [0x2001, 1, 0, 0, 0, 0, 0, 1], 128),
     (ipv6 [0x2001, 1, 0, 0, 0, 0, 0, 2], 128), (ipv6 [0x2001, 3], 32), (ipv6 [0x2001, 4, 0x112], 48),
     (ipv6 [0x2001, 0x20], 28), (ipv6 [0x2001, 0x30], 28)]"

definition v6_reserved :: "(128 word \<times> nat) list" where
  "v6_reserved = [(ipv6 [], 8), (ipv6 [0x100], 8), (ipv6 [0x200], 7), (ipv6 [0x400], 6), (ipv6 [0x800], 5),
     (ipv6 [0x1000], 4), (ipv6 [0x4000], 3), (ipv6 [0x6000], 3), (ipv6 [0x8000], 3), (ipv6 [0xa000], 3),
     (ipv6 [0xc000], 3), (ipv6 [0xe000], 4), (ipv6 [0xf000], 5), (ipv6 [0xf800], 6), (ipv6 [0xfe00], 9)]"

definition in_nets :: "'a::len word \<Rightarrow> ('a word \<times> nat) list \<Rightarrow> bool" where
  "in_nets a ns = list_ex (in_net a) ns"

fun is_private :: "ip_address \<Rightarrow> bool" where
  "is_private (V4 a) = (in_nets a v4_private \<and> \<not> in_nets a v4_private_exceptions)"
| "is_private (V6 a) = (in_nets a v6_private \<and> \<not> in_nets a v6_private_exceptions)"

fun is_loopback :: "ip_address \<Rightarrow> bool" where
  "is_loopback (V4 a) = in_net a (ipv4 127 0 0 0, 8)"
| "is_loopback (V6 a) = (a = 1)"

fun is_link_local :: "ip_address \<Rightarrow> bool" where
  "is_link_local (V4 a) = in_net a (ipv4 169 254 0 0, 16)"
| "is_link_local (V6 a) = in_net a (ipv6 [0xfe80], 10)"

fun is_reserved :: "ip_address \<Rightarrow> bool" where
  "is_reserved (V4 a) = in_net a (ipv4 240 0 0 0, 4)"
| "is_reserved (V6 a) = in_nets a v6_reserved"

fun is_multicast :: "ip_address \<Rightarrow> bool" where
  "is_multicast (V4 a) = in_net a (ipv4 224 0 0 0, 4)"
| "is_multicast (V6 a) = in_net a (ipv6 [0xff00], 8)"

fun is_unspecified :: "ip_address \<Rightarrow> bool" where
  "is_unspecified (V4 a) = (a = 0)"
| "is_unspecified (V6 a) = (a = 0)"

text \<open>\<open>IPv6Address.ipv4_mapped\<close>.\<close>

definition ipv4_mapped :: "128 word \<Rightarrow> 32 word option" where
  "ipv4_mapped a = (if drop_bit 32 a = 0xffff then Some (ucast a) else None)"

section \<open>urlsplit\<close>

record url_parts =
  up_scheme :: string
  up_netloc :: string
  up_path :: string
  up_query :: string
  up_fragment :: string

definition host_info :: "string \<Rightarrow> string \<times> string option" where
  "host_info netloc =
     (let info = after_last CHR ''@'' netloc;
          (host, port) =
            (if CHR ''['' \<in> set info
             then (let bracketed = after_char CHR ''['' info
                   in (before_char CHR '']'' bracketed, after_char CHR '':'' (after_char CHR '']'' bracketed)))
             else (before_char CHR '':'' info, after_char CHR '':'' info))
      in (host, if port = [] then None else Some port))"

definition up_hostname :: "url_parts \<Rightarrow> string option" where
  "up_hostname p =
     (let host = fst (host_info (up_netloc p)) in
      if host = [] then None
      else Some (py_lower (before_char CHR ''%'' host) @ dropWhile (\<lambda>c. c \<noteq> CHR ''%'') host))"

text \<open>\<open>parts.port\<close>: the outer \<open>None\<close> is its \<open>ValueError\<close>.\<close>

definition up_port :: "url_parts \<Rightarrow> nat option option" where
  "up_port p =
     (case snd (host_info (up_netloc p)) of
        None \<Rightarrow> Some None
      | Some s \<Rightarrow> if list_all py_digit s \<and> digits_value s \<le> 65535 then Some (Some (digits_value s)) else None)"

definition bracketed_ok :: "string \<Rightarrow> bool" where
  "bracketed_ok netloc =
     (let info = after_last CHR ''@'' netloc;
          has_open = CHR ''['' \<in> set info;
          bracketed = after_char CHR ''['' info;
          host = (if has_open then before_char CHR '']'' bracketed else before_char CHR '':'' info);
          rest = after_char CHR '']'' bracketed
      in (has_open \<longrightarrow> hd info = CHR ''['' \<and> (rest = [] \<or> hd rest = CHR '':'')) \<and>
         (if startswith host ''v''
          then (let v = before_char CHR ''.'' (tl host)
                in v \<noteq> [] \<and> list_all (\<lambda>c. hex_value c \<noteq> None) v \<and> after_char CHR ''.'' (tl host) \<noteq> [])
          else parse_ipv4 host = None \<and> parse_ipv6 (before_char CHR ''%'' host) \<noteq> None))"

definition urlsplit :: "string \<Rightarrow> url_parts option" where
  "urlsplit url0 =
     (let url1 = filter (\<lambda>c. code c \<notin> {9, 10, 13}) (dropWhile (\<lambda>c. code c \<le> 32) url0);
          pre = before_char CHR '':'' url1;
          has_scheme = CHR '':'' \<in> set url1 \<and> pre \<noteq> [] \<and> is_alpha (hd pre) \<and> list_all scheme_char pre;
          scheme = (if has_scheme then py_lower pre else '''');
          url2 = (if has_scheme then after_char CHR '':'' url1 else url1);
          has_net = startswith url2 ''//'';
          netloc = (if has_net then takeWhile (\<lambda>c. c \<notin> {CHR ''/'', CHR ''?'', CHR ''#''}) (drop 2 url2) else '''');
          url3 = (if has_net then dropWhile (\<lambda>c. c \<notin> {CHR ''/'', CHR ''?'', CHR ''#''}) (drop 2 url2) else url2);
          open_br = CHR ''['' \<in> set netloc; close_br = CHR '']'' \<in> set netloc
      in if open_br \<noteq> close_br \<or> (open_br \<and> close_br \<and> \<not> bracketed_ok netloc) then None
         else Some \<lparr>up_scheme = scheme, up_netloc = netloc,
           up_path = before_char CHR ''?'' (before_char CHR ''#'' url3),
           up_query = after_char CHR ''?'' (before_char CHR ''#'' url3),
           up_fragment = after_char CHR ''#'' url3\<rparr>)"

end
