(* ===== verification/Interfaces.thy ===== *)
theory Interfaces
  imports Prelude
begin

text \<open>
  The contracts several components share, as locales:

  \<^item> \<open>conditional_claim\<close>: the race-safe conditional UPDATE
    (\<open>filter(pk=.., status=..).update(..)\<close> and a test of the row count) that approvals,
    the scheduler tick, the webhook retry tick, the task reaper and the late-completion
    marker all rely on. The provider promises that a successful claim closes its key,
    that a closed key is lost and that it stays closed. The client lemma: in any sequence of
    competing claims at most one wins.
  \<^item> \<open>first_wins_registry\<close>: the code-declared registries, where autodiscovery may run a
    declaration twice and the first one stays.
  \<^item> \<open>backoff_policy\<close>: a wait table or formula with a floor and a ceiling.

  Each locale is interpreted on the definitions of the components that provide it, in
  their own theories.
\<close>

section \<open>Conditional claims\<close>

text \<open>
  \<open>race claim attempts s\<close> runs competing claims one after another, in the order the
  database serialises them; the losers leave the state alone. The result lists, for each
  attempt, whether it won.
\<close>

fun race :: "('k \<Rightarrow> 'w \<Rightarrow> 's \<Rightarrow> 's option) \<Rightarrow> ('k \<times> 'w) list \<Rightarrow> 's \<Rightarrow> 's \<times> bool list" where
  "race claim [] s = (s, [])"
| "race claim ((k, w) # rest) s =
     (case claim k w s of
        None \<Rightarrow> (let (s', wins) = race claim rest s in (s', False # wins))
      | Some s1 \<Rightarrow> (let (s', wins) = race claim rest s1 in (s', True # wins)))"

text \<open>How many of the attempts on key \<open>k\<close> won.\<close>

definition wins_for :: "'k \<Rightarrow> ('k \<times> 'w) list \<Rightarrow> bool list \<Rightarrow> nat" where
  "wins_for k attempts wins = length (filter (\<lambda>((k', _), b). b \<and> k' = k) (zip attempts wins))"

lemma wins_for_simps [simp]:
  "wins_for k [] ws = 0"
  "wins_for k ((k', w) # as) (b # bs) = (if b \<and> k' = k then 1 else 0) + wins_for k as bs"
  by (simp_all add: wins_for_def)

lemma race_Cons:
  "race claim ((k, w) # rest) s =
     (case claim k w s of
        None \<Rightarrow> (fst (race claim rest s), False # snd (race claim rest s))
      | Some s1 \<Rightarrow> (fst (race claim rest s1), True # snd (race claim rest s1)))"
  by (simp add: split_beta Let_def split: option.split)

lemma race_length: "length (snd (race claim attempts s)) = length attempts"
proof (induction attempts arbitrary: s)
  case Nil
  then show ?case by simp
next
  case (Cons a rest)
  then show ?case by (cases a) (simp add: race_Cons del: race.simps split: option.split)
qed

locale conditional_claim =
  fixes claim :: "'k \<Rightarrow> 'w \<Rightarrow> 's \<Rightarrow> 's option"
    and closed :: "'s \<Rightarrow> 'k \<Rightarrow> bool"
    and proper :: "'k \<Rightarrow> 'w \<Rightarrow> bool"
  assumes claim_closes: "proper k w \<Longrightarrow> claim k w s = Some s' \<Longrightarrow> closed s' k"
    and closed_loses: "closed s k \<Longrightarrow> claim k w s = None"
    and closed_stays: "closed s k \<Longrightarrow> proper k' w \<Longrightarrow> claim k' w s = Some s' \<Longrightarrow> closed s' k"
begin

lemma closed_race:
  assumes "closed s k" and "\<forall>(k', w) \<in> set attempts. proper k' w"
  shows "closed (fst (race claim attempts s)) k"
  using assms
proof (induction attempts arbitrary: s)
  case Nil
  then show ?case by simp
next
  case (Cons a rest)
  obtain k' w where a: "a = (k', w)" by (cases a)
  show ?case
  proof (cases "claim k' w s")
    case None
    with Cons a show ?thesis by (simp add: race_Cons del: race.simps)
  next
    case (Some s1)
    with Cons.prems a have "closed s1 k" by (auto intro: closed_stays)
    with Cons a Some show ?thesis by (simp add: race_Cons del: race.simps)
  qed
qed

lemma no_win_when_closed:
  assumes "closed s k" and "\<forall>(k', w) \<in> set attempts. proper k' w"
  shows "wins_for k attempts (snd (race claim attempts s)) = 0"
  using assms
proof (induction attempts arbitrary: s)
  case Nil
  then show ?case by simp
next
  case (Cons a rest)
  obtain k' w where a: "a = (k', w)" by (cases a)
  show ?case
  proof (cases "claim k' w s")
    case None
    with Cons a show ?thesis by (simp add: race_Cons del: race.simps)
  next
    case (Some s1)
    with Cons.prems a have "closed s1 k" and "k' \<noteq> k"
      using closed_loses by (auto intro: closed_stays)
    with Cons a Some show ?thesis by (simp add: race_Cons del: race.simps)
  qed
qed

lemma at_most_one_winner:
  assumes "\<forall>(k', w) \<in> set attempts. proper k' w"
  shows "wins_for k attempts (snd (race claim attempts s)) \<le> 1"
  using assms
proof (induction attempts arbitrary: s)
  case Nil
  then show ?case by simp
next
  case (Cons a rest)
  obtain k' w where a: "a = (k', w)" by (cases a)
  show ?case
  proof (cases "claim k' w s")
    case None
    with Cons a show ?thesis by (simp add: race_Cons del: race.simps)
  next
    case (Some s1)
    show ?thesis
    proof (cases "k' = k")
      case False
      with Cons a Some show ?thesis by (simp add: race_Cons del: race.simps)
    next
      case True
      with Cons.prems a Some have "closed s1 k" by (auto intro: claim_closes)
      with Cons.prems a have "wins_for k rest (snd (race claim rest s1)) = 0"
        by (auto intro: no_win_when_closed)
      with a Some show ?thesis by (simp add: race_Cons del: race.simps)
    qed
  qed
qed

text \<open>Two simultaneous claims on one key: the second one loses, whatever it would write.\<close>

lemma second_claim_loses:
  assumes "proper k w" and "claim k w s = Some s'"
  shows "claim k w' s' = None"
  using assms claim_closes closed_loses by blast

end

section \<open>First-wins registries\<close>

locale first_wins_registry =
  fixes register :: "'v \<Rightarrow> 'r \<Rightarrow> 'r"
    and lookup :: "'r \<Rightarrow> 'k \<Rightarrow> 'v option"
    and key_of :: "'v \<Rightarrow> 'k"
  assumes register_new: "lookup r (key_of v) = None \<Longrightarrow> lookup (register v r) (key_of v) = Some v"
    and register_keeps: "lookup r k = Some u \<Longrightarrow> lookup (register v r) k = Some u"
    and register_other: "k \<noteq> key_of v \<Longrightarrow> lookup (register v r) k = lookup r k"
begin

lemma fold_keeps: "lookup r k = Some u \<Longrightarrow> lookup (fold register vs r) k = Some u"
  by (induction vs arbitrary: r) (auto intro: register_keeps)

lemma fold_other:
  "\<forall>v \<in> set vs. key_of v \<noteq> k \<Longrightarrow> lookup (fold register vs r) k = lookup r k"
  by (induction vs arbitrary: r) (auto simp: register_other)

lemma fold_first:
  "lookup (fold register vs r) k =
     (case lookup r k of Some u \<Rightarrow> Some u | None \<Rightarrow> find (\<lambda>v. key_of v = k) vs)"
proof (induction vs arbitrary: r)
  case Nil
  then show ?case by (simp split: option.split)
next
  case (Cons v vs)
  show ?case
  proof (cases "lookup r k")
    case (Some u)
    then show ?thesis by (simp add: fold_keeps register_keeps)
  next
    case None
    show ?thesis
    proof (cases "key_of v = k")
      case True
      with None have "lookup (register v r) k = Some v" using register_new by blast
      with None True show ?thesis by (simp add: fold_keeps)
    next
      case False
      with None show ?thesis by (simp add: Cons.IH register_other)
    qed
  qed
qed

text \<open>Running the declarations a second time changes no lookup.\<close>

lemma rediscovery_idempotent:
  "lookup (fold register vs (fold register vs r)) k = lookup (fold register vs r) k"
  by (auto simp: fold_first split: option.splits)

end

section \<open>Backoff policies\<close>

text \<open>The waits before the attempts \<open>1, \<dots>, n\<close>, added up.\<close>

fun total_wait :: "(nat \<Rightarrow> rat) \<Rightarrow> nat \<Rightarrow> rat" where
  "total_wait w 0 = 0"
| "total_wait w (Suc n) = total_wait w n + w (Suc n)"

locale backoff_policy =
  fixes wait :: "nat \<Rightarrow> rat"
    and lowest :: rat
    and ceiling :: rat
  assumes wait_low: "1 \<le> n \<Longrightarrow> lowest \<le> wait n"
    and wait_high: "1 \<le> n \<Longrightarrow> wait n \<le> ceiling"
begin

lemma total_wait_bounds:
  "of_nat n * lowest \<le> total_wait wait n" "total_wait wait n \<le> of_nat n * ceiling"
proof (induction n)
  case 0
  case 1 show ?case by simp
  case 2 show ?case by simp
next
  case (Suc n)
  case 1
  have "of_nat (Suc n) * lowest = of_nat n * lowest + lowest" by (simp add: algebra_simps)
  also have "\<dots> \<le> total_wait wait n + wait (Suc n)" using Suc(1) wait_low [of "Suc n"] by simp
  finally show ?case by simp
  case 2
  have "total_wait wait (Suc n) \<le> of_nat n * ceiling + ceiling"
    using Suc(2) wait_high [of "Suc n"] by simp
  also have "\<dots> = of_nat (Suc n) * ceiling" by (simp add: algebra_simps)
  finally show ?case .
qed

end

end
