(* ===== verification/OAuth.thy ===== *)
theory OAuth
  imports Token_Access Py_Net Interfaces
begin

text \<open>
  The OAuth 2.0 surface of the MCP server (\<open>apps/mcp/oauth.py\<close>, \<open>apps/mcp/oauth_views.py\<close>,
  \<open>apps/mcp/models.py\<close>): PKCE, the URLs the metadata advertises, dynamic client registration, the
  consent page and its decision, the exchange of a code for a key, revocation, and the scrubbing of
  codes nobody redeemed. The exchange is also given in the two halves other requests can come
  between: reading the row and checking it, and claiming it.
\<close>

section \<open>PKCE and URLs\<close>

text \<open>\<open>verify_pkce\<close>; \<open>None\<close> is an exception: a verifier that is not ASCII has no \<open>encode("ascii")\<close>, and
  \<open>hmac.compare_digest\<close> refuses strings that are not ASCII.\<close>

definition pkce_challenge :: "token_env \<Rightarrow> string \<Rightarrow> string" where
  "pkce_challenge env verifier = rstrip_char CHR ''='' (urlsafe_b64encode (tv_sha256 env verifier))"

definition verify_pkce :: "token_env \<Rightarrow> string \<Rightarrow> string \<Rightarrow> string \<Rightarrow> bool option" where
  "verify_pkce env code_verifier code_challenge meth =
     (if code_verifier = '''' \<or> code_challenge = '''' then Some False
      else if meth \<noteq> ''S256'' then Some False
      else (case ascii_encode code_verifier of
          None \<Rightarrow> None
        | Some v \<Rightarrow>
           if list_all (\<lambda>c. code c < 128) code_challenge then Some (pkce_challenge env v = code_challenge)
           else None))"

definition issuer_url :: "string \<Rightarrow> bool \<Rightarrow> string \<Rightarrow> string" where
  "issuer_url forwarded_proto secure host =
     (let forwarded = py_lower (strip forwarded_proto);
          scheme = (if forwarded \<noteq> '''' then strip (before_char CHR '','' forwarded)
                    else if secure then ''https'' else ''http'')
      in scheme @ ''://'' @ host)"

definition absolute_url :: "string \<Rightarrow> string \<Rightarrow> string" where
  "absolute_url issuer path = issuer @ (if startswith path ''/'' then path else CHR ''/'' # path)"

text \<open>Dynamic client registration: stateless. The three outcomes are a refusal, an exception (a body
  or a name that is not of the expected type has no \<open>get\<close> or \<open>strip\<close>), and the name and redirect
  URIs that are echoed.\<close>

datatype registration = Refused string | Registration_Crash | Registered string "json list"

definition register_client :: "http_body \<Rightarrow> registration" where
  "register_client body =
     (case (case body of No_Body \<Rightarrow> Json_Body (JObj []) | b \<Rightarrow> b) of
        Json_Body (JObj d) \<Rightarrow>
         (case (let v = json_get ''client_name'' JNull d in if json_truthy v then v else JStr ''anonymous'') of
            JStr name \<Rightarrow>
             (case (let v = json_get ''redirect_uris'' JNull d in if json_truthy v then v else JList []) of
                JList uris \<Rightarrow> Registered (take 200 (strip name)) uris
              | _ \<Rightarrow> Refused ''invalid_redirect_uri'')
          | _ \<Rightarrow> Registration_Crash)
      | Json_Body _ \<Rightarrow> Registration_Crash
      | _ \<Rightarrow> Refused ''invalid_client_metadata'')"

section \<open>Consent\<close>

definition is_safe_redirect_uri :: "string \<Rightarrow> bool" where
  "is_safe_redirect_uri redirect_uri =
     (case urlsplit redirect_uri of
        None \<Rightarrow> False
      | Some p \<Rightarrow>
         if up_scheme p = '''' \<or> up_netloc p = '''' then False
         else if up_scheme p = ''https'' then True
         else if up_scheme p = ''http''
         then py_lower (case up_hostname p of Some h \<Rightarrow> h | None \<Rightarrow> '''') \<in> {''127.0.0.1'', ''::1'', ''localhost''}
         else False)"

datatype oauth_reply =
    Invalid_Redirect
  | Missing_Params
  | S256_Required
  | Consent_Page string "string list"          \<comment> \<open>the destination shown, the scopes in prose\<close>
  | Denied_Redirect string string              \<comment> \<open>where to, and the state sent along\<close>
  | Code_Redirect string string string         \<comment> \<open>where to, the code, the state\<close>
  | Unsupported_Grant
  | Invalid_Grant string
  | Access_Token string string                 \<comment> \<open>the key and the scope\<close>
  | Revoke_Done
  | OAuth_Server_Error
  | OAuth_Drawing

record authorize_params =
  ap_client :: string
  ap_redirect :: string
  ap_challenge :: string
  ap_method :: string
  ap_state :: string
  ap_scope :: string
  ap_decision :: string

definition scope_to_prose :: "string \<Rightarrow> string list" where
  "scope_to_prose scope =
     (let prose = (\<lambda>s. if s = ''read'' then ''Read: list and view your data''
                       else if s = ''write'' then ''Write: create, edit, and delete records on your behalf'' else s);
          scopes = map prose (words_of scope)
      in if scopes = [] then [''Read: list and view your data''] else scopes)"

definition authorize_get :: "authorize_params \<Rightarrow> oauth_reply" where
  "authorize_get ap =
     (if ap_client ap = '''' \<or> ap_redirect ap = '''' \<or> ap_challenge ap = '''' then Missing_Params
      else if ap_method ap \<noteq> ''S256'' then S256_Required
      else if \<not> is_safe_redirect_uri (ap_redirect ap) then Invalid_Redirect
      else Consent_Page (case urlsplit (ap_redirect ap) of Some p \<Rightarrow> up_netloc p | None \<Rightarrow> '''')
             (scope_to_prose (ap_scope ap)))"

text \<open>\<open>expire_unredeemed_codes\<close>.\<close>

definition stale_code :: "token_env \<Rightarrow> instant \<Rightarrow> auth_code \<Rightarrow> bool" where
  "stale_code env now c \<longleftrightarrow>
     oc_used c = None \<and> oc_created c < now - secs (tv_code_ttl env) \<and> oc_raw_key c \<noteq> ''''"

definition expire_unredeemed_codes :: "token_env \<Rightarrow> instant \<Rightarrow> auth_db \<Rightarrow> auth_db \<times> nat" where
  "expire_unredeemed_codes env now db =
     (let token_ids = map oc_token (filter (stale_code env now) (ad_codes db)) in
      if token_ids = [] then (db, 0)
      else (db\<lparr>ad_tokens := tbl_update (\<lambda>t. ak_id t \<in> set token_ids \<and> ak_type t = OAuth_Token \<and> ak_active t)
                               (revoke_token now) (ad_tokens db),
               ad_codes := tbl_update (stale_code env now) (\<lambda>c. c\<lparr>oc_raw_key := ''''\<rparr>) (ad_codes db)\<rparr>,
            tbl_count (stale_code env now) (ad_codes db)))"

definition oauth_level :: "account \<Rightarrow> string \<Rightarrow> string" where
  "oauth_level u scope = (if ''write'' \<in> set (words_of scope) \<and> acc_staff u then ''staff'' else ''readonly'')"

text \<open>The decision: \<open>code\<close> is the second random draw, of the code. The name of the token joins the
  configured prefix and the client with a dash (an em dash in the source).\<close>

definition authorize_post ::
    "token_env \<Rightarrow> instant \<Rightarrow> string list \<Rightarrow> string \<Rightarrow> account \<Rightarrow> authorize_params \<Rightarrow> auth_db \<Rightarrow> auth_db \<times> oauth_reply" where
  "authorize_post env now draws code_draw u ap db =
     (if \<not> is_safe_redirect_uri (ap_redirect ap) then (db, Invalid_Redirect)
      else if ap_decision ap \<noteq> ''allow'' then (db, Denied_Redirect (ap_redirect ap) (ap_state ap))
      else (case create_token env now draws (acc_id u) (tv_name_prefix env @ '' - '' @ ap_client ap)
              (''Auto-minted via OAuth (scope='' @ ap_scope ap @ '')'') None OAuth_Token
              (oauth_level u (ap_scope ap)) db of
          None \<Rightarrow> (db, OAuth_Drawing)
        | Some (t, raw_key, db1) \<Rightarrow>
           (let db2 = fst (expire_unredeemed_codes env now db1);
                c = \<lparr>oc_id = next_code_id db2, oc_code = code_draw, oc_user = acc_id u, oc_token = ak_id t,
                     oc_raw_key = raw_key, oc_redirect = ap_redirect ap, oc_challenge = ap_challenge ap,
                     oc_method = ''S256'', oc_scope = ap_scope ap, oc_client = ap_client ap,
                     oc_created = now, oc_used = None\<rparr>
            in if list_ex (\<lambda>c'. oc_code c' = code_draw) (ad_codes db2) then (db2, OAuth_Server_Error)
               else (db2\<lparr>ad_codes := ad_codes db2 @ [c]\<rparr>,
                     Code_Redirect (ap_redirect ap) code_draw (ap_state ap)))))"

section \<open>The exchange\<close>

record token_params =
  tp_grant :: string
  tp_code :: string
  tp_verifier :: string
  tp_client :: string
  tp_redirect :: string

text \<open>The checks: the row to claim and the key it held when it was read, or the error. An expired
  code has the scrub run.\<close>

definition token_check ::
    "token_env \<Rightarrow> instant \<Rightarrow> token_params \<Rightarrow> auth_db \<Rightarrow> auth_db \<times> (oauth_reply + auth_code)" where
  "token_check env now tp db =
     (if tp_grant tp \<noteq> ''authorization_code'' then (db, Inl Unsupported_Grant)
      else (case find (\<lambda>c. oc_code c = tp_code tp) (ad_codes db) of
          None \<Rightarrow> (db, Inl (Invalid_Grant ''Unknown code''))
        | Some row \<Rightarrow>
           if tp_redirect tp \<noteq> '''' \<and> tp_redirect tp \<noteq> oc_redirect row
           then (db, Inl (Invalid_Grant ''redirect_uri mismatch''))
           else if oc_used row \<noteq> None then (db, Inl (Invalid_Grant ''Code already used''))
           else if secs (tv_code_ttl env) < now - oc_created row
           then (fst (expire_unredeemed_codes env now db), Inl (Invalid_Grant ''Code expired''))
           else (case verify_pkce env (tp_verifier tp) (oc_challenge row) ''S256'' of
               None \<Rightarrow> (db, Inl OAuth_Server_Error)
             | Some False \<Rightarrow> (db, Inl (Invalid_Grant ''PKCE verification failed''))
             | Some True \<Rightarrow> (db, Inr row))))"

text \<open>The claim: one conditional UPDATE on the row's id.\<close>

definition claim_code :: "nat \<Rightarrow> instant \<Rightarrow> auth_code list \<Rightarrow> auth_code list option" where
  "claim_code n now codes =
     (let P = (\<lambda>c. oc_id c = n \<and> oc_used c = None) in
      if tbl_count P codes = 0 then None
      else Some (tbl_update P (\<lambda>c. c\<lparr>oc_used := Some now, oc_raw_key := ''''\<rparr>) codes))"

definition token_claim :: "instant \<Rightarrow> auth_code \<Rightarrow> auth_db \<Rightarrow> auth_db \<times> oauth_reply" where
  "token_claim now row db =
     (case claim_code (oc_id row) now (ad_codes db) of
        None \<Rightarrow> (db, Invalid_Grant ''Code already used'')
      | Some codes \<Rightarrow>
         (db\<lparr>ad_codes := codes\<rparr>,
          if oc_raw_key row = '''' then Invalid_Grant ''Key already revealed''
          else Access_Token (oc_raw_key row) (if oc_scope row = '''' then ''read'' else oc_scope row)))"

definition oauth_token :: "token_env \<Rightarrow> instant \<Rightarrow> token_params \<Rightarrow> auth_db \<Rightarrow> auth_db \<times> oauth_reply" where
  "oauth_token env now tp db =
     (case token_check env now tp db of
        (db1, Inl reply) \<Rightarrow> (db1, reply)
      | (db1, Inr row) \<Rightarrow> token_claim now row db1)"

text \<open>\<open>/revoke\<close>: always answered with 200, unless the token lookup raises.\<close>

definition oauth_revoke :: "token_env \<Rightarrow> instant \<Rightarrow> string \<Rightarrow> auth_db \<Rightarrow> auth_db \<times> oauth_reply" where
  "oauth_revoke env now raw_key db =
     (if raw_key = '''' then (db, Revoke_Done)
      else (case authenticate env now raw_key db of
          None \<Rightarrow> (db, OAuth_Server_Error)
        | Some (db1, _, None) \<Rightarrow> (db1, Revoke_Done)
        | Some (db1, _, Some t) \<Rightarrow> (update_token (ak_id t) (revoke_token now) db1, Revoke_Done)))"

section \<open>The claim is a conditional claim\<close>

definition code_closed :: "auth_code list \<Rightarrow> nat \<Rightarrow> bool" where
  "code_closed codes n \<longleftrightarrow> (\<forall>c \<in> set codes. oc_id c = n \<longrightarrow> oc_used c \<noteq> None)"

lemma claim_code_None: "claim_code n now codes = None \<longleftrightarrow> code_closed codes n"
  unfolding claim_code_def Let_def code_closed_def
  using tbl_count_0 [of "\<lambda>c. oc_id c = n \<and> oc_used c = None" codes] by auto

lemma claim_code_Some:
  assumes "claim_code n now codes = Some codes'"
  shows "codes' = tbl_update (\<lambda>c. oc_id c = n \<and> oc_used c = None) (\<lambda>c. c\<lparr>oc_used := Some now, oc_raw_key := ''''\<rparr>) codes"
  using assms by (auto simp: claim_code_def Let_def split: if_splits)

lemma claim_code_row:
  assumes "claim_code n now codes = Some codes'" "c' \<in> set codes'"
  shows "\<exists>c \<in> set codes. oc_id c' = oc_id c \<and> (oc_used c \<noteq> None \<longrightarrow> oc_used c' = oc_used c) \<and> (oc_id c = n \<longrightarrow> oc_used c' \<noteq> None)"
proof -
  let ?P = "\<lambda>c. oc_id c = n \<and> oc_used c = None"
  let ?f = "\<lambda>c. c\<lparr>oc_used := Some now, oc_raw_key := ''''\<rparr>"
  from assms(2) have "c' \<in> set (tbl_update ?P ?f codes)" unfolding claim_code_Some [OF assms(1)] .
  then obtain c where "c \<in> set codes" and "(?P c \<and> c' = ?f c) \<or> (\<not> ?P c \<and> c' = c)"
    unfolding set_tbl_update by (elim bexE) (rule that)
  then have "oc_id c' = oc_id c \<and> (oc_used c \<noteq> None \<longrightarrow> oc_used c' = oc_used c) \<and> (oc_id c = n \<longrightarrow> oc_used c' \<noteq> None)"
    by (elim disjE conjE) simp_all
  with \<open>c \<in> set codes\<close> show ?thesis by blast
qed

interpretation redeem: conditional_claim "\<lambda>n now. claim_code n now" code_closed "\<lambda>_ _. True"
proof unfold_locales
  fix k :: nat and w and s s' :: "auth_code list"
  assume "claim_code k w s = Some s'"
  from claim_code_row [OF this] show "code_closed s' k" unfolding code_closed_def by metis
next
  fix k :: nat and w and s :: "auth_code list"
  assume "code_closed s k"
  then show "claim_code k w s = None" by (simp add: claim_code_None)
next
  fix k k' :: nat and w and s s' :: "auth_code list"
  assume "code_closed s k" and "claim_code k' w s = Some s'"
  from claim_code_row [OF this(2)] this(1) show "code_closed s' k" unfolding code_closed_def by metis
qed

end
