(* ===== verification/Token_Machine.thy ===== *)
theory Token_Machine
  imports Token_Api Token_Manager OAuth
begin

text \<open>
  Everything that touches the credential tables as one step relation. A state also holds the
  requests that are between their halves (logins that have looked up a row, exchanges that have
  passed their checks), the digests drawn so far and the codes a key was handed out for. The
  invariant of reachable states: unique ids and digests, rows whose columns fit together, codes that
  hold a key only while they are unused, and that key being the one of the token they name.

  A step that makes a key draws one whose digest was never drawn before; this is what the random
  generator and SHA-256 are relied on for.
\<close>

section \<open>States\<close>

record token_world =
  tw_db :: auth_db
  tw_issued :: "string list"
  tw_logins :: "(int \<times> account \<times> api_token option) list"
  tw_checked :: "auth_code list"
  tw_handed :: "nat list"

definition fresh_draws :: "token_env \<Rightarrow> string list \<Rightarrow> string list \<Rightarrow> bool" where
  "fresh_draws env issued draws \<longleftrightarrow>
     (case generate_raw_key env draws of
        None \<Rightarrow> True
      | Some (raw, prefix, hashed) \<Rightarrow> hashed \<notin> set issued \<and> PREFIX_LENGTH \<le> length raw)"

definition note_draws :: "token_env \<Rightarrow> string list \<Rightarrow> string list \<Rightarrow> string list" where
  "note_draws env draws issued =
     (case generate_raw_key env draws of None \<Rightarrow> issued | Some (raw, prefix, hashed) \<Rightarrow> hashed # issued)"

definition set_db :: "token_world \<Rightarrow> auth_db \<Rightarrow> token_world" where
  "set_db w db = w\<lparr>tw_db := db\<rparr>"

definition set_drawn :: "token_env \<Rightarrow> string list \<Rightarrow> token_world \<Rightarrow> auth_db \<Rightarrow> token_world" where
  "set_drawn env draws w db = w\<lparr>tw_db := db, tw_issued := note_draws env draws (tw_issued w)\<rparr>"

section \<open>Steps\<close>

inductive token_step :: "token_env \<Rightarrow> token_world \<Rightarrow> token_world \<Rightarrow> bool" for env where
  use: "authenticate env now raw (tw_db w) = Some (db', u, tok) \<Longrightarrow> token_step env w (set_db w db')"
| login_begin: "login_check env axes rq (tw_db w) = Inr (hours, u) \<Longrightarrow>
     token_step env w (w\<lparr>tw_logins := (hours, u, login_lookup (tw_db w) (acc_id u)) # tw_logins w\<rparr>)"
| login_end: "(hours, u, existing) \<in> set (tw_logins w) \<Longrightarrow> fresh_draws env (tw_issued w) draws \<Longrightarrow>
     token_step env w (set_drawn env draws w (fst (login_write env now draws hours u existing (tw_db w))))"
| refresh: "fresh_draws env (tw_issued w) draws \<Longrightarrow>
     token_step env w (set_drawn env draws w (fst (api_auth_token_refresh env now draws rq (tw_db w))))"
| logout: "token_step env w (set_db w (fst (api_auth_logout env now rq (tw_db w))))"
| register: "fresh_draws env (tw_issued w) draws \<Longrightarrow>
     token_step env w (set_drawn env draws w (fst (api_auth_register env now draws rq (tw_db w))))"
| password: "token_step env w (set_db w (fst (api_auth_password env now rq (tw_db w))))"
| user_password: "token_step env w (set_db w (fst (api_auth_user_password env now rq n (tw_db w))))"
| deactivate: "token_step env w (set_db w (fst (api_auth_user_deactivate env now rq n (tw_db w))))"
| user_detail: "token_step env w (set_db w (fst (api_auth_user_detail env now rq n (tw_db w))))"
| mint: "token_create env now draws u f revealed (tw_db w) = Some (db', shown, outcome) \<Longrightarrow>
     fresh_draws env (tw_issued w) draws \<Longrightarrow> token_step env w (set_drawn env draws w db')"
| revoke: "token_step env w (set_db w (fst (token_revoke now u n (tw_db w))))"
| command: "create_api_token env now draws username name level (tw_db w) = Some (db', outcome) \<Longrightarrow>
     fresh_draws env (tw_issued w) draws \<Longrightarrow> token_step env w (set_drawn env draws w db')"
| admin: "token_step env w (set_db w (fst (admin_revoke_tokens now ids (tw_db w))))"
| consent: "account_by_id (tw_db w) (acc_id u) = Some u \<Longrightarrow> fresh_draws env (tw_issued w) draws \<Longrightarrow>
     token_step env w (set_drawn env draws w (fst (authorize_post env now draws code_draw u ap (tw_db w))))"
| exchange_begin: "token_check env now tp (tw_db w) = (db', Inr row) \<Longrightarrow>
     token_step env w (w\<lparr>tw_db := db', tw_checked := row # tw_checked w\<rparr>)"
| exchange_refused: "token_check env now tp (tw_db w) = (db', Inl reply) \<Longrightarrow> token_step env w (set_db w db')"
| exchange_end: "row \<in> set (tw_checked w) \<Longrightarrow> token_claim now row (tw_db w) = (db', reply) \<Longrightarrow>
     token_step env w (w\<lparr>tw_db := db',
       tw_handed := (case reply of Access_Token k s \<Rightarrow> oc_id row # tw_handed w | _ \<Rightarrow> tw_handed w)\<rparr>)"
| oauth_revoked: "token_step env w (set_db w (fst (oauth_revoke env now raw (tw_db w))))"

section \<open>The invariant\<close>

definition accounts_ok :: "auth_db \<Rightarrow> bool" where
  "accounts_ok db \<longleftrightarrow> distinct (map acc_id (ad_accounts db))"

definition token_row_ok :: "api_token \<Rightarrow> bool" where
  "token_row_ok t \<longleftrightarrow>
     (ak_active t \<longleftrightarrow> ak_revoked t = None) \<and>
     (case ak_type t of
        Login_Token \<Rightarrow> ak_level t = '''' \<and> ak_expires t \<noteq> None
      | Manual_Token \<Rightarrow> ak_level t \<in> {''readonly'', ''staff'', ''auth''}
      | OAuth_Token \<Rightarrow> ak_level t \<in> {''readonly'', ''staff''})"

definition has_account :: "auth_db \<Rightarrow> nat \<Rightarrow> bool" where
  "has_account db n \<longleftrightarrow> n \<in> set (map acc_id (ad_accounts db))"

definition tokens_ok :: "string list \<Rightarrow> auth_db \<Rightarrow> bool" where
  "tokens_ok issued db \<longleftrightarrow>
     distinct (map ak_id (ad_tokens db)) \<and> distinct (map ak_hashed (ad_tokens db)) \<and>
     set (map ak_hashed (ad_tokens db)) \<subseteq> set issued \<and>
     list_all token_row_ok (ad_tokens db) \<and> list_all (\<lambda>t. has_account db (ak_user t)) (ad_tokens db)"

text \<open>A code and the token it was issued for.\<close>

definition code_names :: "token_env \<Rightarrow> auth_code \<Rightarrow> api_token \<Rightarrow> bool" where
  "code_names env c t \<longleftrightarrow>
     ak_id t = oc_token c \<and> ak_type t = OAuth_Token \<and> ak_user t = oc_user c \<and>
     (oc_raw_key c \<noteq> '''' \<longrightarrow> key_matches env (oc_raw_key c) t)"

definition code_row_ok :: "token_env \<Rightarrow> auth_db \<Rightarrow> auth_code \<Rightarrow> bool" where
  "code_row_ok env db c \<longleftrightarrow>
     (oc_used c \<noteq> None \<longrightarrow> oc_raw_key c = '''') \<and> list_ex (code_names env c) (ad_tokens db)"

definition codes_ok :: "token_env \<Rightarrow> auth_db \<Rightarrow> bool" where
  "codes_ok env db \<longleftrightarrow>
     distinct (map oc_id (ad_codes db)) \<and> distinct (map oc_code (ad_codes db)) \<and>
     list_all (code_row_ok env db) (ad_codes db)"

definition db_ok :: "token_env \<Rightarrow> string list \<Rightarrow> auth_db \<Rightarrow> bool" where
  "db_ok env issued db \<longleftrightarrow> accounts_ok db \<and> tokens_ok issued db \<and> codes_ok env db"

text \<open>The requests under way and the codes that have been paid out.\<close>

definition login_pending_ok :: "auth_db \<Rightarrow> int \<times> account \<times> api_token option \<Rightarrow> bool" where
  "login_pending_ok db p \<longleftrightarrow>
     (case p of (hours, u, existing) \<Rightarrow>
        has_account db (acc_id u) \<and>
        (case existing of None \<Rightarrow> True
         | Some t \<Rightarrow> list_ex (\<lambda>t'. ak_id t' = ak_id t \<and> ak_type t' = Login_Token) (ad_tokens db)))"

definition checked_ok :: "token_env \<Rightarrow> auth_db \<Rightarrow> auth_code \<Rightarrow> bool" where
  "checked_ok env db c \<longleftrightarrow> code_row_ok env db c \<and> oc_id c \<in> set (map oc_id (ad_codes db))"

definition paid_out :: "auth_db \<Rightarrow> nat \<Rightarrow> bool" where
  "paid_out db n \<longleftrightarrow> n \<in> set (map oc_id (ad_codes db)) \<and> code_closed (ad_codes db) n"

definition world_ok :: "token_env \<Rightarrow> token_world \<Rightarrow> bool" where
  "world_ok env w \<longleftrightarrow>
     db_ok env (tw_issued w) (tw_db w) \<and>
     list_all (login_pending_ok (tw_db w)) (tw_logins w) \<and>
     list_all (checked_ok env (tw_db w)) (tw_checked w) \<and>
     distinct (tw_handed w) \<and> list_all (paid_out (tw_db w)) (tw_handed w)"

inductive token_reachable :: "token_env \<Rightarrow> token_world \<Rightarrow> bool" for env where
  start: "distinct (map acc_id accounts) \<Longrightarrow>
     token_reachable env \<lparr>tw_db = \<lparr>ad_accounts = accounts, ad_tokens = [], ad_codes = []\<rparr>, tw_issued = [],
       tw_logins = [], tw_checked = [], tw_handed = []\<rparr>"
| step: "token_reachable env w \<Longrightarrow> token_step env w w' \<Longrightarrow> token_reachable env w'"

inductive token_steps :: "token_env \<Rightarrow> token_world \<Rightarrow> token_world \<Rightarrow> bool" for env where
  none: "token_steps env w w"
| more: "token_steps env w w' \<Longrightarrow> token_step env w' w'' \<Longrightarrow> token_steps env w w''"

section \<open>How tables evolve\<close>

text \<open>Rows are never deleted, keep their id, type and owner, an inactive row stays inactive, and only
  a login token changes its key.\<close>

definition row_evolves :: "api_token \<Rightarrow> api_token \<Rightarrow> bool" where
  "row_evolves t t' \<longleftrightarrow>
     ak_id t' = ak_id t \<and> ak_type t' = ak_type t \<and> ak_user t' = ak_user t \<and> ak_level t' = ak_level t \<and>
     (ak_type t \<noteq> Login_Token \<longrightarrow> ak_prefix t' = ak_prefix t \<and> ak_hashed t' = ak_hashed t) \<and>
     (ak_active t' \<longrightarrow> ak_active t)"

lemma row_evolves_refl [simp]: "row_evolves t t"
  by (simp add: row_evolves_def)

lemma row_evolves_trans: "row_evolves a b \<Longrightarrow> row_evolves b c \<Longrightarrow> row_evolves a c"
  by (auto simp: row_evolves_def)

definition db_evolves :: "auth_db \<Rightarrow> auth_db \<Rightarrow> bool" where
  "db_evolves db db' \<longleftrightarrow>
     list_all (\<lambda>t. list_ex (row_evolves t) (ad_tokens db')) (ad_tokens db) \<and>
     set (map acc_id (ad_accounts db)) \<subseteq> set (map acc_id (ad_accounts db')) \<and>
     set (map oc_id (ad_codes db)) \<subseteq> set (map oc_id (ad_codes db')) \<and>
     (\<forall>n. paid_out db n \<longrightarrow> paid_out db' n)"

end
