(* ===== verification/Token_Invariants.thy ===== *)
theory Token_Invariants
  imports Token_Machine
begin

text \<open>
  Preservation of the invariant of \<open>Token_Machine\<close>. \<open>keeps\<close> composes along a handler: the writes the
  handlers share (a column of a row, a rotated key, a new token, an account, the scrub, a new code,
  a claim) each have one lemma, collected in \<open>keeps_intros\<close>, and a handler's lemma puts them together.
\<close>

named_theorems keeps_intros \<open>writes that keep the invariant\<close>

text \<open>A digest that was drawn before only sits on a row that had it before.\<close>

definition no_revival :: "string list \<Rightarrow> auth_db \<Rightarrow> auth_db \<Rightarrow> bool" where
  "no_revival issued db db' \<longleftrightarrow>
     (\<forall>t' \<in> set (ad_tokens db'). ak_hashed t' \<in> set issued \<longrightarrow>
        (\<exists>t \<in> set (ad_tokens db). row_evolves t t' \<and> ak_hashed t = ak_hashed t'))"

definition keeps :: "token_env \<Rightarrow> string list \<Rightarrow> auth_db \<Rightarrow> string list \<Rightarrow> auth_db \<Rightarrow> bool" where
  "keeps env issued db issued' db' \<longleftrightarrow>
     set issued \<subseteq> set issued' \<and>
     (db_ok env issued db \<longrightarrow> db_ok env issued' db' \<and> db_evolves db db' \<and> no_revival issued db db')"

lemma no_revival_same [simp]: "ad_tokens db' = ad_tokens db \<Longrightarrow> no_revival issued db db'"
  unfolding no_revival_def by (metis row_evolves_refl)

lemma no_revival_trans:
  assumes "no_revival i a b" "no_revival j b c" "set i \<subseteq> set j"
  shows "no_revival i a c"
  unfolding no_revival_def
proof (intro ballI impI)
  fix t'' assume t'': "t'' \<in> set (ad_tokens c)" "ak_hashed t'' \<in> set i"
  with assms(2,3) obtain t' where t': "t' \<in> set (ad_tokens b)" "row_evolves t' t''" "ak_hashed t' = ak_hashed t''"
    unfolding no_revival_def by blast
  moreover from this t'' assms(1) obtain t where "t \<in> set (ad_tokens a)" "row_evolves t t'" "ak_hashed t = ak_hashed t'"
    unfolding no_revival_def by metis
  ultimately show "\<exists>t \<in> set (ad_tokens a). row_evolves t t'' \<and> ak_hashed t = ak_hashed t''"
    using row_evolves_trans by metis
qed

lemma no_revival_update:
  assumes "\<And>t. P t \<Longrightarrow> row_evolves t (f t) \<and> ak_hashed (f t) = ak_hashed t \<or> ak_hashed (f t) \<notin> set i"
  shows "no_revival i db (db\<lparr>ad_tokens := tbl_update P f (ad_tokens db)\<rparr>)"
  unfolding no_revival_def
proof (intro ballI impI)
  fix t' assume "t' \<in> set (ad_tokens (db\<lparr>ad_tokens := tbl_update P f (ad_tokens db)\<rparr>))" and h: "ak_hashed t' \<in> set i"
  then have "t' \<in> set (tbl_update P f (ad_tokens db))" by simp
  then obtain t where "t \<in> set (ad_tokens db)" "(P t \<and> t' = f t) \<or> (\<not> P t \<and> t' = t)"
    unfolding set_tbl_update by (elim bexE) (rule that)
  moreover from this(2) have "row_evolves t t' \<and> ak_hashed t = ak_hashed t'"
  proof (elim disjE conjE)
    assume "P t" "t' = f t"
    from assms [OF this(1)] h this(2) show ?thesis by auto
  qed simp
  ultimately show "\<exists>t \<in> set (ad_tokens db). row_evolves t t' \<and> ak_hashed t = ak_hashed t'" by blast
qed

section \<open>Evolution is a preorder\<close>

lemma list_ex_evolves: "t \<in> set ts \<Longrightarrow> list_ex (row_evolves t) ts"
  unfolding list_ex_iff using row_evolves_refl by blast

lemma db_evolves_refl [simp]: "db_evolves db db"
  by (simp add: db_evolves_def list_all_iff list_ex_evolves)

lemma db_evolves_trans:
  assumes "db_evolves a b" "db_evolves b c"
  shows "db_evolves a c"
proof -
  have "list_all (\<lambda>t. list_ex (row_evolves t) (ad_tokens c)) (ad_tokens a)"
    using assms unfolding db_evolves_def list_all_iff list_ex_iff by (meson row_evolves_trans)
  with assms show ?thesis unfolding db_evolves_def by blast
qed

lemma keeps_refl [simp, keeps_intros]: "keeps env i db i db"
  by (simp add: keeps_def)

lemma keeps_trans: "keeps env i a j b \<Longrightarrow> keeps env j b k c \<Longrightarrow> keeps env i a k c"
  unfolding keeps_def using db_evolves_trans no_revival_trans by blast



section \<open>What survives evolution\<close>

lemma code_names_evolves: "code_names env c t \<Longrightarrow> row_evolves t t' \<Longrightarrow> code_names env c t'"
  by (auto simp: code_names_def row_evolves_def key_matches_def)

lemma code_row_evolves:
  assumes "code_row_ok env db c" "list_all (\<lambda>t. list_ex (row_evolves t) (ad_tokens db')) (ad_tokens db)"
  shows "code_row_ok env db' c"
  using assms unfolding code_row_ok_def list_all_iff list_ex_iff by (meson code_names_evolves)

lemma has_account_evolves: "has_account db n \<Longrightarrow> db_evolves db db' \<Longrightarrow> has_account db' n"
  by (auto simp: has_account_def db_evolves_def)

lemma checked_evolves: "checked_ok env db c \<Longrightarrow> db_evolves db db' \<Longrightarrow> checked_ok env db' c"
  using code_row_evolves by (auto simp: checked_ok_def db_evolves_def)

lemma login_pending_evolves: "login_pending_ok db p \<Longrightarrow> db_evolves db db' \<Longrightarrow> login_pending_ok db' p"
proof -
  assume ok: "login_pending_ok db p" and ev: "db_evolves db db'"
  obtain hours u existing where p: "p = (hours, u, existing)" by (cases p)
  show ?thesis
  proof (cases existing)
    case None
    with ok ev p show ?thesis by (simp add: login_pending_ok_def has_account_evolves)
  next
    case (Some t)
    with ok p obtain t1 where "t1 \<in> set (ad_tokens db)" "ak_id t1 = ak_id t" "ak_type t1 = Login_Token"
      by (auto simp: login_pending_ok_def list_ex_iff)
    moreover from this(1) ev obtain t2 where "t2 \<in> set (ad_tokens db')" "row_evolves t1 t2"
      by (auto simp: db_evolves_def list_all_iff list_ex_iff)
    ultimately show ?thesis using ok ev p Some
      by (auto simp: login_pending_ok_def has_account_evolves list_ex_iff row_evolves_def)
  qed
qed

section \<open>Writing to token rows\<close>

text \<open>A write that keeps ids, owners, levels, types and keys, and the row's consistency.\<close>

definition mild :: "(api_token \<Rightarrow> api_token) \<Rightarrow> bool" where
  "mild f \<longleftrightarrow> (\<forall>t. row_evolves t (f t) \<and> ak_hashed (f t) = ak_hashed t \<and> ak_prefix (f t) = ak_prefix t \<and>
     (token_row_ok t \<longrightarrow> token_row_ok (f t)))"

lemma mild_stamp: "mild (stamp_use now)"
  by (auto simp: mild_def stamp_use_def row_evolves_def token_row_ok_def split: token_type.splits)

lemma mild_revoke: "mild (revoke_token now)"
  by (auto simp: mild_def revoke_token_def row_evolves_def token_row_ok_def split: token_type.splits)

lemma list_all_tbl_update:
  assumes "list_all Q rows" "\<And>r. Q r \<Longrightarrow> P r \<Longrightarrow> Q (f r)"
  shows "list_all Q (tbl_update P f rows)"
  using assms by (induction rows) auto

lemma tbl_update_all:
  "(\<And>r. P r \<Longrightarrow> Q (f r)) \<Longrightarrow> (\<And>r. \<not> P r \<Longrightarrow> Q r) \<Longrightarrow> list_all Q (tbl_update P f rows)"
  by (induction rows) auto

lemma list_ex_tbl_update:
  assumes "\<And>r. R r r" "\<And>r. R r (f r)"
  shows "list_all (\<lambda>r. list_ex (R r) (tbl_update P f rows)) rows"
proof (induction rows)
  case (Cons r rows)
  have "list_all (\<lambda>q. list_ex (R q) (tbl_update P f (r # rows))) rows"
    using Cons by (auto simp: list_all_iff)
  then show ?case using assms by simp
qed simp

lemma evolves_tokens:
  assumes "list_all (\<lambda>t. list_ex (row_evolves t) ts) (ad_tokens db)"
  shows "db_evolves db (db\<lparr>ad_tokens := ts\<rparr>)"
  using assms by (auto simp: db_evolves_def paid_out_def)

lemma codes_ok_tokens:
  assumes "codes_ok env db" "list_all (\<lambda>t. list_ex (row_evolves t) ts) (ad_tokens db)"
  shows "codes_ok env (db\<lparr>ad_tokens := ts\<rparr>)"
proof -
  have "code_row_ok env (db\<lparr>ad_tokens := ts\<rparr>) c" if "code_row_ok env db c" for c
    using code_row_evolves [OF that, of "db\<lparr>ad_tokens := ts\<rparr>"] assms(2) by simp
  with assms(1) show ?thesis by (auto simp: codes_ok_def list_all_iff)
qed

lemma map_tbl_update_same:
  "(\<And>t. k (f t) = k t) \<Longrightarrow> map k (tbl_update P f rows) = map k rows"
  by (induction rows) auto

lemma keeps_mild [keeps_intros]:
  assumes "mild f"
  shows "keeps env i db i (db\<lparr>ad_tokens := tbl_update P f (ad_tokens db)\<rparr>)"
proof (unfold keeps_def, intro conjI [OF subset_refl] impI)
  let ?db = "db\<lparr>ad_tokens := tbl_update P f (ad_tokens db)\<rparr>"
  assume ok: "db_ok env i db"
  have ev: "list_all (\<lambda>t. list_ex (row_evolves t) (tbl_update P f (ad_tokens db))) (ad_tokens db)"
    using assms by (intro list_ex_tbl_update) (auto simp: mild_def)
  have ids: "map ak_id (tbl_update P f (ad_tokens db)) = map ak_id (ad_tokens db)"
    "map ak_hashed (tbl_update P f (ad_tokens db)) = map ak_hashed (ad_tokens db)"
    using assms by (auto intro!: map_tbl_update_same simp: mild_def row_evolves_def)
  have rows: "list_all token_row_ok (tbl_update P f (ad_tokens db))"
    "list_all (\<lambda>t. has_account ?db (ak_user t)) (tbl_update P f (ad_tokens db))"
    using ok assms
    by (auto intro!: list_all_tbl_update simp: db_ok_def tokens_ok_def mild_def row_evolves_def has_account_def)
  have "tokens_ok i ?db" using ok rows ids by (simp add: db_ok_def tokens_ok_def del: set_map)
  moreover have "no_revival i db ?db" using assms by (intro no_revival_update) (auto simp: mild_def)
  ultimately show "db_ok env i ?db \<and> db_evolves db ?db \<and> no_revival i db ?db"
    using ok codes_ok_tokens [OF _ ev] evolves_tokens [OF ev] by (simp add: db_ok_def accounts_ok_def)
qed

lemma keeps_update_token [keeps_intros]: "mild f \<Longrightarrow> keeps env i db i (update_token n f db)"
  unfolding update_token_def by (rule keeps_mild)

text \<open>A rotated key, on a login token.\<close>

lemma distinct_hash_update:
  assumes "distinct (map ak_id rows)" "distinct (map ak_hashed rows)" "h \<notin> set (map ak_hashed rows)"
    "\<And>t. ak_id (f t) = ak_id t" "\<And>t. ak_hashed (f t) = h"
  shows "distinct (map ak_hashed (tbl_update (\<lambda>t. ak_id t = n) f rows))"
  using assms
proof (induction rows)
  case (Cons t rows)
  show ?case
  proof (cases "ak_id t = n")
    case True
    with Cons.prems(1) have "\<forall>r \<in> set rows. ak_id r \<noteq> n" by (auto simp: image_iff)
    then have "tbl_update (\<lambda>t. ak_id t = n) f rows = rows" by (rule tbl_update_idle)
    with Cons True show ?thesis by simp
  next
    case False
    have "ak_hashed t \<notin> set (map ak_hashed (tbl_update (\<lambda>t. ak_id t = n) f rows))"
      using Cons.prems by (auto simp: set_tbl_update)
    with Cons False show ?thesis by simp
  qed
qed simp

lemma keeps_rotate:
  assumes "h \<notin> set i" "list_ex (\<lambda>t. ak_id t = n \<and> ak_type t = Login_Token) (ad_tokens db)"
  shows "keeps env i db (h # i) (update_token n (rotate_key now p h e) db)"
proof (unfold keeps_def, intro conjI [OF set_subset_Cons] impI)
  let ?f = "rotate_key now p h e"
  let ?ts = "tbl_update (\<lambda>t. ak_id t = n) ?f (ad_tokens db)"
  assume ok: "db_ok env i db"
  then have d: "distinct (map ak_id (ad_tokens db))" by (simp add: db_ok_def tokens_ok_def)
  have login: "ak_type t = Login_Token" if "t \<in> set (ad_tokens db)" "ak_id t = n" for t
  proof -
    from assms(2) obtain q where "q \<in> set (ad_tokens db)" "ak_id q = n" "ak_type q = Login_Token"
      by (auto simp: list_ex_iff)
    with token_id_unique [OF d that(1) this(1)] that(2) show ?thesis by simp
  qed
  have ev: "list_all (\<lambda>t. list_ex (row_evolves t) ?ts) (ad_tokens db)"
    unfolding list_all_iff list_ex_iff
  proof
    fix t assume t: "t \<in> set (ad_tokens db)"
    show "\<exists>t' \<in> set ?ts. row_evolves t t'"
    proof (cases "ak_id t = n")
      case True
      then have "?f t \<in> set ?ts" using t by (auto simp: set_tbl_update)
      moreover have "row_evolves t (?f t)" using login [OF t True] by (simp add: row_evolves_def rotate_key_def)
      ultimately show ?thesis by blast
    next
      case False
      then have "t \<in> set ?ts" using t by (auto simp: set_tbl_update)
      then show ?thesis by (intro bexI [of _ t]) simp_all
    qed
  qed
  have hashes: "distinct (map ak_hashed ?ts)"
    using ok assms(1) by (intro distinct_hash_update [where h = h]) (auto simp: rotate_key_def db_ok_def tokens_ok_def)
  have sub: "set (map ak_hashed ?ts) \<subseteq> set (h # i)"
  proof -
    have "ak_hashed ` set (ad_tokens db) \<subseteq> set i" using ok by (simp add: db_ok_def tokens_ok_def)
    then show ?thesis by (auto simp: set_tbl_update rotate_key_def image_subset_iff)
  qed
  have ids: "map ak_id ?ts = map ak_id (ad_tokens db)"
    by (intro map_tbl_update_same) (simp add: rotate_key_def)
  have row: "token_row_ok (?f t)" if "token_row_ok t" for t
    using that by (auto simp: token_row_ok_def rotate_key_def split: token_type.splits)
  have rows: "list_all token_row_ok ?ts" "list_all (\<lambda>t. has_account db (ak_user t)) ?ts"
    using ok row by (auto intro!: list_all_tbl_update simp: db_ok_def tokens_ok_def rotate_key_def)
  have "tokens_ok (h # i) (db\<lparr>ad_tokens := ?ts\<rparr>)"
    using d ids hashes sub rows by (simp add: tokens_ok_def has_account_def del: set_map)
  moreover have "no_revival i db (db\<lparr>ad_tokens := ?ts\<rparr>)"
    using assms(1) by (intro no_revival_update) (simp add: rotate_key_def)
  ultimately show "db_ok env (h # i) (update_token n ?f db) \<and> db_evolves db (update_token n ?f db) \<and>
      no_revival i db (update_token n ?f db)"
    using ok codes_ok_tokens [OF _ ev] evolves_tokens [OF ev]
    by (simp add: db_ok_def accounts_ok_def update_token_def)
qed

text \<open>Digests that were drawn and not used.\<close>

lemma keeps_issued: "keeps env i db (h # i) db"
  by (auto simp: keeps_def db_ok_def tokens_ok_def)

lemma keeps_note: "keeps env i db (note_draws env draws i) db"
  by (auto simp: note_draws_def keeps_issued split: option.split)

lemma note_draws_Some: "generate_raw_key env draws = Some (raw, p, h) \<Longrightarrow> note_draws env draws i = h # i"
  by (simp add: note_draws_def)

lemma fresh_draws_Some:
  "fresh_draws env i draws \<Longrightarrow> generate_raw_key env draws = Some (raw, p, h) \<Longrightarrow> h \<notin> set i \<and> PREFIX_LENGTH \<le> length raw"
  by (simp add: fresh_draws_def)

section \<open>New rows\<close>

lemma evolves_snoc: "list_all (\<lambda>t. list_ex (row_evolves t) (ad_tokens db @ ts)) (ad_tokens db)"
  by (simp add: list_all_iff list_ex_evolves del: list_ex_append)

lemma keeps_new_token:
  assumes "ak_hashed t \<notin> set i" "ak_id t = next_token_id db" "token_row_ok t" "has_account db (ak_user t)"
  shows "keeps env i db (ak_hashed t # i) (db\<lparr>ad_tokens := ad_tokens db @ [t]\<rparr>)"
proof (unfold keeps_def, intro conjI [OF set_subset_Cons] impI)
  let ?db = "db\<lparr>ad_tokens := ad_tokens db @ [t]\<rparr>"
  assume ok: "db_ok env i db"
  have "ak_id t \<notin> set (map ak_id (ad_tokens db))"
    using next_ids_unused(1) [of db] assms(2) by simp
  moreover have "ak_hashed t \<notin> set (map ak_hashed (ad_tokens db))"
    using ok assms(1) by (auto simp: db_ok_def tokens_ok_def)
  ultimately have "tokens_ok (ak_hashed t # i) ?db"
    using ok assms(3,4) by (auto simp: db_ok_def tokens_ok_def has_account_def)
  moreover have "no_revival i db ?db"
  proof -
    have "no_revival i db db" by simp
    with assms(1) show ?thesis unfolding no_revival_def by simp
  qed
  ultimately show "db_ok env (ak_hashed t # i) ?db \<and> db_evolves db ?db \<and> no_revival i db ?db"
    using ok codes_ok_tokens [OF _ evolves_snoc] evolves_tokens [OF evolves_snoc]
    by (simp add: db_ok_def accounts_ok_def)
qed

lemma create_token_Some:
  assumes "create_token env now draws user name desc expiry ty level db = Some (t, raw, db')"
  shows "\<exists>prefix. generate_raw_key env draws = Some (raw, prefix, ak_hashed t) \<and> ak_prefix t = prefix \<and>
    ak_id t = next_token_id db \<and> ak_user t = user \<and> ak_type t = ty \<and> ak_level t = level \<and>
    ak_expires t = expiry \<and> ak_active t \<and> ak_revoked t = None \<and> ak_created t = now \<and>
    key_matches env raw t \<and> db' = db\<lparr>ad_tokens := ad_tokens db @ [t]\<rparr>"
proof -
  from assms obtain prefix hashed where g: "generate_raw_key env draws = Some (raw, prefix, hashed)"
    and t: "t = \<lparr>ak_id = next_token_id db, ak_name = name, ak_prefix = prefix, ak_hashed = hashed,
              ak_description = desc, ak_type = ty, ak_level = level, ak_created = now,
              ak_last_used = None, ak_expires = expiry, ak_revoked = None, ak_active = True,
              ak_requests = 0, ak_user = user\<rparr>"
    and db': "db' = db\<lparr>ad_tokens := ad_tokens db @ [t]\<rparr>"
    by (auto simp: create_token_def Let_def split: option.splits)
  from generate_raw_key_Some [OF g] have "prefix = take PREFIX_LENGTH raw" "hashed = hash_key env raw" by simp_all
  with g t db' show ?thesis by (simp add: key_matches_def)
qed

definition level_fits :: "token_type \<Rightarrow> string \<Rightarrow> instant option \<Rightarrow> bool" where
  "level_fits ty level expiry \<longleftrightarrow>
     (case ty of
        Login_Token \<Rightarrow> level = '''' \<and> expiry \<noteq> None
      | Manual_Token \<Rightarrow> level \<in> {''readonly'', ''staff'', ''auth''}
      | OAuth_Token \<Rightarrow> level \<in> {''readonly'', ''staff''})"

lemma keeps_create:
  assumes "create_token env now draws user name desc expiry ty level db = Some (t, raw, db')"
    and "fresh_draws env i draws" "has_account db user" "level_fits ty level expiry"
  shows "keeps env i db (note_draws env draws i) db'"
proof -
  from create_token_Some [OF assms(1)] obtain prefix where
    g: "generate_raw_key env draws = Some (raw, prefix, ak_hashed t)" and
    t: "ak_id t = next_token_id db" "ak_user t = user" "ak_type t = ty" "ak_level t = level" "ak_expires t = expiry"
      "ak_active t" "ak_revoked t = None" and
    db': "db' = db\<lparr>ad_tokens := ad_tokens db @ [t]\<rparr>" by blast
  have "token_row_ok t" using assms(4) t by (simp add: token_row_ok_def level_fits_def split: token_type.splits)
  with keeps_new_token [of t i db env] fresh_draws_Some [OF assms(2) g] assms(3) t
  show ?thesis by (simp add: db' note_draws_Some [OF g])
qed

section \<open>Accounts\<close>

lemma keeps_accounts:
  assumes "distinct (map acc_id (ad_accounts db)) \<Longrightarrow> distinct (map acc_id us)"
    "set (map acc_id (ad_accounts db)) \<subseteq> set (map acc_id us)"
  shows "keeps env i db i (db\<lparr>ad_accounts := us\<rparr>)"
proof (unfold keeps_def, intro conjI [OF subset_refl] impI)
  let ?db = "db\<lparr>ad_accounts := us\<rparr>"
  assume ok: "db_ok env i db"
  have "db_evolves db ?db" using assms(2) by (simp add: db_evolves_def paid_out_def list_all_iff list_ex_evolves)
  moreover have "has_account ?db n" if "has_account db n" for n using that assms(2) by (auto simp: has_account_def)
  moreover have "code_row_ok env ?db c = code_row_ok env db c" for c by (simp add: code_row_ok_def)
  ultimately show "db_ok env i ?db \<and> db_evolves db ?db \<and> no_revival i db ?db"
    using ok assms(1) by (auto simp: db_ok_def tokens_ok_def codes_ok_def accounts_ok_def list_all_iff)
qed

lemma keeps_update_account [keeps_intros]:
  assumes "\<And>a. acc_id a = n \<Longrightarrow> acc_id (f a) = n"
  shows "keeps env i db i (update_account n f db)"
proof -
  have "map acc_id (tbl_update (\<lambda>u. acc_id u = n) f (ad_accounts db)) = map acc_id (ad_accounts db)"
    using assms by (induction "ad_accounts db" arbitrary: db) (auto simp: tbl_update_def)
  then show ?thesis unfolding update_account_def by (intro keeps_accounts) (simp_all del: set_map)
qed

lemma keeps_new_account:
  "acc_id u = next_account_id db \<Longrightarrow> keeps env i db i (db\<lparr>ad_accounts := ad_accounts db @ [u]\<rparr>)"
  using next_ids_unused(2) [of db] by (intro keeps_accounts) auto


section \<open>Codes\<close>

lemma code_row_update:
  assumes "code_row_ok env db c" "oc_token c' = oc_token c" "oc_user c' = oc_user c" "oc_raw_key c' = ''''"
  shows "code_row_ok env db c'"
  using assms by (auto simp: code_row_ok_def list_ex_iff code_names_def)

lemma keeps_codes:
  assumes "map oc_id cs = map oc_id (ad_codes db)" "map oc_code cs = map oc_code (ad_codes db)"
    "list_all (code_row_ok env db) (ad_codes db) \<Longrightarrow> list_all (code_row_ok env db) cs"
    "\<And>n. code_closed (ad_codes db) n \<Longrightarrow> code_closed cs n"
  shows "keeps env i db i (db\<lparr>ad_codes := cs\<rparr>)"
proof (unfold keeps_def, intro conjI [OF subset_refl] impI)
  let ?db = "db\<lparr>ad_codes := cs\<rparr>"
  assume ok: "db_ok env i db"
  have ids: "oc_id ` set cs = oc_id ` set (ad_codes db)" using assms(1) by (metis set_map)
  have "code_row_ok env ?db c = code_row_ok env db c" for c by (simp add: code_row_ok_def)
  then have "codes_ok env ?db"
    using ok assms by (simp add: db_ok_def codes_ok_def list_all_iff)
  moreover have "tokens_ok i ?db" using ok by (simp add: db_ok_def tokens_ok_def has_account_def)
  moreover have "db_evolves db ?db"
    using ids assms(4) by (simp add: db_evolves_def paid_out_def list_all_iff list_ex_evolves)
  ultimately show "db_ok env i ?db \<and> db_evolves db ?db \<and> no_revival i db ?db" using ok by (simp add: db_ok_def accounts_ok_def)
qed

lemma list_all_update:
  assumes "list_all Q rows" "\<And>r. Q r \<Longrightarrow> Q (f r)"
  shows "list_all Q (tbl_update P f rows)"
  using assms by (intro list_all_tbl_update)

lemma code_closed_update:
  assumes "code_closed codes n" "\<And>c. oc_id (f c) = oc_id c" "\<And>c. oc_used c \<noteq> None \<Longrightarrow> oc_used (f c) \<noteq> None"
  shows "code_closed (tbl_update P f codes) n"
  using assms by (auto simp: code_closed_def set_tbl_update)

lemma keeps_blank_keys [keeps_intros]:
  assumes "\<And>c. oc_id (f c) = oc_id c" "\<And>c. oc_code (f c) = oc_code c" "\<And>c. oc_token (f c) = oc_token c"
    "\<And>c. oc_user (f c) = oc_user c" "\<And>c. oc_raw_key (f c) = ''''" "\<And>c. oc_used c \<noteq> None \<Longrightarrow> oc_used (f c) \<noteq> None"
  shows "keeps env i db i (db\<lparr>ad_codes := tbl_update P f (ad_codes db)\<rparr>)"
proof (rule keeps_codes)
  show "map oc_id (tbl_update P f (ad_codes db)) = map oc_id (ad_codes db)"
    by (rule map_tbl_update_same) (rule assms(1))
  show "map oc_code (tbl_update P f (ad_codes db)) = map oc_code (ad_codes db)"
    by (rule map_tbl_update_same) (rule assms(2))
  show "code_closed (tbl_update P f (ad_codes db)) n" if "code_closed (ad_codes db) n" for n
    using that by (rule code_closed_update) (use assms in auto)
  show "list_all (code_row_ok env db) (tbl_update P f (ad_codes db))" if "list_all (code_row_ok env db) (ad_codes db)"
    using that by (rule list_all_update) (rule code_row_update, assumption, simp_all add: assms)
qed

lemma keeps_expire: "keeps env i db i (fst (expire_unredeemed_codes env now db))"
proof -
  let ?ids = "map oc_token (filter (stale_code env now) (ad_codes db))"
  let ?db1 = "db\<lparr>ad_tokens := tbl_update (\<lambda>t. ak_id t \<in> set ?ids \<and> ak_type t = OAuth_Token \<and> ak_active t)
                               (revoke_token now) (ad_tokens db)\<rparr>"
  have "keeps env i db i ?db1" by (rule keeps_mild [OF mild_revoke])
  moreover have "keeps env i ?db1 i (?db1\<lparr>ad_codes := tbl_update (stale_code env now) (\<lambda>c. c\<lparr>oc_raw_key := ''''\<rparr>) (ad_codes ?db1)\<rparr>)"
    by (rule keeps_blank_keys) simp_all
  ultimately have "keeps env i db i (?db1\<lparr>ad_codes := tbl_update (stale_code env now) (\<lambda>c. c\<lparr>oc_raw_key := ''''\<rparr>) (ad_codes ?db1)\<rparr>)"
    by (rule keeps_trans)
  then show ?thesis by (simp add: expire_unredeemed_codes_def Let_def)
qed

lemma keeps_claim: "claim_code n now (ad_codes db) = Some codes \<Longrightarrow> keeps env i db i (db\<lparr>ad_codes := codes\<rparr>)"
  by (drule claim_code_Some, erule ssubst) (rule keeps_blank_keys; simp)

lemma keeps_new_code:
  assumes "oc_id c = next_code_id db" "\<not> list_ex (\<lambda>c'. oc_code c' = oc_code c) (ad_codes db)" "code_row_ok env db c"
  shows "keeps env i db i (db\<lparr>ad_codes := ad_codes db @ [c]\<rparr>)"
proof (unfold keeps_def, intro conjI [OF subset_refl] impI)
  let ?db = "db\<lparr>ad_codes := ad_codes db @ [c]\<rparr>"
  assume ok: "db_ok env i db"
  have fresh: "oc_id c \<notin> oc_id ` set (ad_codes db)" using next_ids_unused(3) [of db] assms(1) by simp
  have "code_row_ok env ?db c' = code_row_ok env db c'" for c' by (simp add: code_row_ok_def)
  moreover have "oc_code c \<notin> oc_code ` set (ad_codes db)" using assms(2) by (auto simp: list_ex_iff)
  ultimately have "codes_ok env ?db" using ok assms(3) fresh by (simp add: db_ok_def codes_ok_def list_all_iff)
  moreover have "tokens_ok i ?db" using ok by (simp add: db_ok_def tokens_ok_def has_account_def)
  moreover have "paid_out ?db n" if "paid_out db n" for n
    using that fresh by (auto simp: paid_out_def code_closed_def)
  then have "db_evolves db ?db" by (auto simp: db_evolves_def list_all_iff list_ex_evolves)
  ultimately show "db_ok env i ?db \<and> db_evolves db ?db \<and> no_revival i db ?db" using ok by (simp add: db_ok_def accounts_ok_def)
qed

section \<open>The handlers\<close>

lemma keeps_authenticate:
  assumes "authenticate env now raw db = Some (db', u, tok)"
  shows "keeps env i db i db'"
  using assms
  by (auto simp: authenticate_def split: if_splits lookup.splits intro!: keeps_update_token mild_stamp)

lemma keeps_rest_auth:
  assumes "authenticate_api_request env now rq db = (db', r)"
  shows "keeps env i db i db'"
proof (cases r)
  case (Inl e)
  with assms rest_error_keeps [of env now rq db db' e] show ?thesis by simp
next
  case (Inr p)
  obtain u tok where "p = (u, tok)" by (cases p)
  with rest_caller [of env now rq db db' u tok] assms Inr show ?thesis
    by (auto intro: keeps_update_token mild_stamp)
qed

text \<open>The token a request presented is a row of the tables after its use is stamped.\<close>

lemma rest_token_row:
  assumes "authenticate_api_request env now rq db = (db', Inr (u, Some t))"
  shows "t \<in> set (ad_tokens db')"
proof -
  from rest_caller [OF assms] obtain t0 where "t = stamp_use now t0" "t0 \<in> set (ad_tokens db)"
    "db' = update_token (ak_id t0) (stamp_use now) db" by (auto simp: live_key_def)
  then show ?thesis by (auto simp: update_token_def set_tbl_update)
qed

lemma keeps_with_auth:
  assumes "\<And>db1. keeps env i db1 j (fst (k db1))" "\<And>db1. keeps env i db1 j db1"
  shows "keeps env i db j (fst (with_auth_token env methods now rq k db))"
proof -
  obtain db1 r where a: "authenticate_api_request env now rq db = (db1, r)" by (cases "authenticate_api_request env now rq db")
  note k = keeps_trans [OF keeps_rest_auth [OF a]]
  show ?thesis
  proof (cases r)
    case (Inl e)
    with a k [OF assms(2)] assms(2) show ?thesis by (simp add: with_auth_token_def)
  next
    case (Inr p)
    with a k [OF assms(2)] k [OF assms(1)] assms(2) show ?thesis
      by (cases p) (simp add: with_auth_token_def split: option.split)
  qed
qed

lemma keeps_login:
  assumes "login_pending_ok db (hours, u, existing)" "fresh_draws env i draws"
  shows "keeps env i db (note_draws env draws i) (fst (login_write env now draws hours u existing db))"
proof (cases existing)
  case None
  show ?thesis
  proof (cases "create_token env now draws (acc_id u) ''Login token'' '''' (Some (now + hours_span hours)) Login_Token '''' db")
    case (Some p)
    then obtain t raw db' where p: "p = (t, raw, db')" by (cases p)
    have "has_account db (acc_id u)" using assms(1) by (simp add: login_pending_ok_def)
    with keeps_create [OF Some [unfolded p] assms(2)] Some p None show ?thesis
      by (simp add: login_write_def Let_def level_fits_def)
  qed (use None keeps_note in \<open>simp add: login_write_def Let_def\<close>)
next
  case (Some t)
  then have login: "list_ex (\<lambda>t'. ak_id t' = ak_id t \<and> ak_type t' = Login_Token) (ad_tokens db)"
    using assms(1) by (simp add: login_pending_ok_def)
  show ?thesis
  proof (cases "generate_raw_key env draws")
    case g: (Some p)
    obtain raw prefix h where p: "p = (raw, prefix, h)" by (cases p)
    have "h \<notin> set i" using fresh_draws_Some [OF assms(2)] g p by blast
    from keeps_rotate [OF this login] show ?thesis
      by (simp add: login_write_def Let_def Some g p note_draws_Some)
  qed (use Some keeps_note in \<open>simp add: login_write_def Let_def\<close>)
qed

lemma keeps_refresh:
  assumes "fresh_draws env i draws"
  shows "keeps env i db (note_draws env draws i) (fst (api_auth_token_refresh env now draws rq db))"
proof -
  obtain db1 r where a: "authenticate_api_request env now rq db = (db1, r)" by (cases "authenticate_api_request env now rq db")
  note k = keeps_trans [OF keeps_rest_auth [OF a]]
  note idle = k [OF keeps_note]
  show ?thesis
  proof (cases r)
    case (Inl e)
    with a idle keeps_note show ?thesis by (simp add: api_auth_token_refresh_def)
  next
    case (Inr q)
    obtain u tok where q: "q = (u, tok)" by (cases q)
    show ?thesis
    proof (cases tok)
      case None
      with a Inr q idle keeps_note show ?thesis by (simp add: api_auth_token_refresh_def)
    next
      case (Some t)
      have t: "t \<in> set (ad_tokens db1)" using rest_token_row a Inr q Some by simp
      show ?thesis
      proof (cases "ak_type t = Login_Token \<and> generate_raw_key env draws \<noteq> None")
        case False
        with a Inr q Some idle keeps_note show ?thesis
          by (auto simp: api_auth_token_refresh_def Let_def split: option.split)
      next
        case True
        then obtain raw prefix h where g: "generate_raw_key env draws = Some (raw, prefix, h)"
          by (cases "generate_raw_key env draws") auto
        have "list_ex (\<lambda>t'. ak_id t' = ak_id t \<and> ak_type t' = Login_Token) (ad_tokens db1)"
          using t True by (auto simp: list_ex_iff)
        with k [OF keeps_rotate] fresh_draws_Some [OF assms g] a Inr q Some g True show ?thesis
          by (simp add: api_auth_token_refresh_def Let_def note_draws_Some keeps_issued)
      qed
    qed
  qed
qed

end
