(* ===== verification/Token_Steps.thy ===== *)
theory Token_Steps
  imports Token_Invariants
begin

text \<open>
  The other handlers keep the invariant of \<open>Token_Machine\<close>, every step does, and so every reachable
  state has it.
\<close>

section \<open>Endpoints\<close>

lemma keeps_logout: "keeps env i db i (fst (api_auth_logout env now rq db))"
proof -
  obtain db1 r where a: "authenticate_api_request env now rq db = (db1, r)" by (cases "authenticate_api_request env now rq db")
  note k = keeps_trans [OF keeps_rest_auth [OF a]]
  show ?thesis using a k [OF keeps_refl] k [OF keeps_update_token [OF mild_revoke]]
    by (simp add: api_auth_logout_def split: sum.split prod.split option.split)
qed

lemma keeps_set_password: "keeps env i db i (fst (set_new_password env field u new db))"
  by (simp add: set_new_password_def split: json.split list.split) (auto intro: keeps_update_account)

lemma keeps_password: "keeps env i db i (fst (api_auth_password env now rq db))"
proof -
  obtain db1 r where a: "authenticate_api_request env now rq db = (db1, r)" by (cases "authenticate_api_request env now rq db")
  note k = keeps_trans [OF keeps_rest_auth [OF a]]
  show ?thesis using a k [OF keeps_refl] k [OF keeps_set_password]
    by (simp add: api_auth_password_def Let_def split: sum.split prod.split)
qed

lemma keeps_user_password: "keeps env i db i (fst (api_auth_user_password env now rq n db))"
  unfolding api_auth_user_password_def
  by (rule keeps_with_auth) (simp_all add: Let_def keeps_set_password split: sum.split option.split)

lemma keeps_deactivate: "keeps env i db i (fst (api_auth_user_deactivate env now rq n db))"
  unfolding api_auth_user_deactivate_def
proof (rule keeps_with_auth)
  fix db1
  show "keeps env i db1 i (fst (case account_by_id db1 n of None \<Rightarrow> (db1, api_error ''User not found'' 404)
    | Some target \<Rightarrow>
       (let db2 = update_account (acc_id target) (\<lambda>a. a\<lparr>acc_active := False\<rparr>) db1 in
        (db2\<lparr>ad_tokens := tbl_update (\<lambda>t. ak_user t = acc_id target \<and> ak_active t) (revoke_token now) (ad_tokens db2)\<rparr>,
         Message ''User deactivated''))))"
  proof (cases "account_by_id db1 n")
    case (Some target)
    have "keeps env i db1 i (update_account (acc_id target) (\<lambda>a. a\<lparr>acc_active := False\<rparr>) db1)"
      by (rule keeps_update_account) simp
    from keeps_trans [OF this keeps_mild [OF mild_revoke]] Some show ?thesis by (simp add: Let_def)
  qed simp
qed simp

lemma assign_field_id:
  "assign_field env kv (Stored u) = Stored u' \<Longrightarrow> acc_id u' = acc_id u"
  by (cases kv) (auto simp: assign_field_def set_column_def split: column_value.splits if_splits)

lemma assign_field_stuck: "assign_field env kv Null_Refused \<noteq> Stored u'" "assign_field env kv Bad_Value \<noteq> Stored u'"
  by (cases kv; auto simp: assign_field_def set_column_def split: column_value.splits if_splits)+

lemma fold_assign_field_id:
  "fold (assign_field env) d (Stored u) = Stored u' \<Longrightarrow> acc_id u' = acc_id u"
proof (induction d arbitrary: u)
  case (Cons kv d)
  have stuck: "fold (assign_field env) d x \<noteq> Stored u'" if "\<And>v. x \<noteq> Stored v" for x
    using that
  proof (induction d arbitrary: x)
    case (Cons kv d)
    have "assign_field env kv x \<noteq> Stored v" for v
      using Cons.prems assign_field_stuck by (cases x) auto
    with Cons.IH show ?case by simp
  qed simp
  show ?case
  proof (cases "assign_field env kv (Stored u)")
    case (Stored v)
    with Cons assign_field_id [OF Stored] show ?thesis by simp
  qed (use Cons.prems stuck [of Null_Refused] stuck [of Bad_Value] in auto)
qed simp

lemma keeps_patch: "keeps env i db i (fst (patch_user env target d db))"
  by (auto simp: patch_user_def Let_def split: column_value.split intro!: keeps_update_account
      dest: fold_assign_field_id)

lemma keeps_user_detail: "keeps env i db i (fst (api_auth_user_detail env now rq n db))"
  unfolding api_auth_user_detail_def
  by (rule keeps_with_auth) (simp_all add: keeps_patch split: sum.split option.split)

lemma keeps_create_user:
  assumes "create_user env username email p db = Some (u, db2)"
  shows "keeps env i db i db2" "has_account db2 (acc_id u)"
proof -
  from assms have u: "acc_id u = next_account_id db" and db2: "db2 = db\<lparr>ad_accounts := ad_accounts db @ [u]\<rparr>"
    by (auto simp: create_user_def Let_def split: if_splits)
  show "keeps env i db i db2" unfolding db2 by (rule keeps_new_account [OF u])
  show "has_account db2 (acc_id u)" by (simp add: db2 has_account_def)
qed

lemma keeps_register_user:
  assumes "fresh_draws env i draws"
  shows "keeps env i db (note_draws env draws i) (fst (register_user env now draws username email password db))"
proof -
  have drawing: "keeps env i db (note_draws env draws i) db2" if "create_user env username email p db = Some (u, db2)" for p u db2
    by (rule keeps_trans [OF keeps_create_user(1) [OF that] keeps_note])
  have made: "keeps env i db (note_draws env draws i) db3"
    if "create_user env username email p db = Some (u, db2)"
      "create_token env now draws (acc_id u) ''Login token'' '''' (Some e) Login_Token '''' db2 = Some (t, raw, db3)"
    for p u db2 e t raw db3
    by (rule keeps_trans [OF keeps_create_user(1) [OF that(1)] keeps_create [OF that(2) assms keeps_create_user(2) [OF that(1)]]])
      (simp add: level_fits_def)
  show ?thesis
    unfolding register_user_def Let_def
    by (auto simp: keeps_note dest: drawing made split: json.split list.split option.split)
qed

lemma keeps_register:
  assumes "fresh_draws env i draws"
  shows "keeps env i db (note_draws env draws i) (fst (api_auth_register env now draws rq db))"
  unfolding api_auth_register_def
  by (rule keeps_with_auth)
    (simp_all add: Let_def keeps_note keeps_register_user [OF assms] split: sum.split json.split)

section \<open>Token manager, command, admin\<close>

lemma keeps_token_create:
  assumes "token_create env now draws u f revealed db = Some (db', shown, outcome)" "fresh_draws env i draws"
  shows "keeps env i db (note_draws env draws i) db'"
proof (cases "clean_token_form u (ad_accounts db) f")
  case (Inl e)
  with assms keeps_note show ?thesis by (simp add: token_create_def)
next
  case (Inr m)
  with assms(1) obtain t raw where c: "create_token env now draws (acc_id (mt_user m)) (mt_name m)
      (mt_description m) (mt_expires m) Manual_Token (mt_level m) db = Some (t, raw, db')"
    by (auto simp: token_create_def split: option.splits)
  note clean_token_form_Inr [OF Inr]
  then show ?thesis
    by (intro keeps_create [OF c assms(2)]) (auto simp: has_account_def level_fits_def)
qed

lemma keeps_token_revoke: "keeps env i db i (fst (token_revoke now u n db))"
  by (simp add: token_revoke_def keeps_update_token mild_revoke split: option.split)

lemma keeps_command:
  assumes "create_api_token env now draws username name level db = Some (db', outcome)" "fresh_draws env i draws"
  shows "keeps env i db (note_draws env draws i) db'"
proof (cases "find (\<lambda>u. acc_username u = username) (ad_accounts db)")
  case None
  with assms keeps_note show ?thesis by (simp add: create_api_token_def)
next
  case (Some u)
  show ?thesis
  proof (cases "level \<in> set SUPERUSER_ACCESS_LEVELS")
    case False
    with Some assms keeps_note show ?thesis by (simp add: create_api_token_def)
  next
    case True
    with Some assms(1) obtain t raw where c: "create_token env now draws (acc_id u) name '''' None Manual_Token level db = Some (t, raw, db')"
      by (auto simp: create_api_token_def)
    show ?thesis using find_SomeD [OF Some] True
      by (intro keeps_create [OF c assms(2)]) (auto simp: has_account_def level_fits_def SUPERUSER_ACCESS_LEVELS_def)
  qed
qed

lemma keeps_admin: "keeps env i db i (fst (admin_revoke_tokens now ids db))"
  by (simp add: admin_revoke_tokens_def Let_def keeps_mild mild_revoke)

section \<open>OAuth\<close>

lemma expire_tokens:
  assumes "t \<in> set (ad_tokens db)"
  shows "\<exists>t' \<in> set (ad_tokens (fst (expire_unredeemed_codes env now db))). t' = t \<or> t' = revoke_token now t"
proof -
  have "\<exists>t' \<in> set (tbl_update P (revoke_token now) (ad_tokens db)). t' = t \<or> t' = revoke_token now t" for P
  proof (cases "P t")
    case True
    with assms have "revoke_token now t \<in> set (tbl_update P (revoke_token now) (ad_tokens db))"
      unfolding set_tbl_update by blast
    then show ?thesis by blast
  next
    case False
    with assms have "t \<in> set (tbl_update P (revoke_token now) (ad_tokens db))" unfolding set_tbl_update by blast
    then show ?thesis by blast
  qed
  with assms show ?thesis by (auto simp: expire_unredeemed_codes_def Let_def)
qed

lemma keeps_consent:
  assumes "account_by_id db (acc_id u) = Some u" "fresh_draws env i draws"
  shows "keeps env i db (note_draws env draws i) (fst (authorize_post env now draws code_draw u ap db))"
proof (cases "is_safe_redirect_uri (ap_redirect ap) \<and> ap_decision ap = ''allow''")
  case False
  with keeps_note show ?thesis by (auto simp: authorize_post_def)
next
  case go: True
  let ?create = "create_token env now draws (acc_id u) (tv_name_prefix env @ '' - '' @ ap_client ap)
              (''Auto-minted via OAuth (scope='' @ ap_scope ap @ '')'') None OAuth_Token
              (oauth_level u (ap_scope ap)) db"
  show ?thesis
  proof (cases ?create)
    case None
    with go keeps_note show ?thesis by (simp add: authorize_post_def)
  next
    case (Some q)
    obtain t raw db1 where q: "q = (t, raw, db1)" by (cases q)
    note created = Some [unfolded q]
    have "has_account db (acc_id u)" using assms(1) tbl_find_Some [of acc_id] by (force simp: account_by_id_def has_account_def)
    then have k1: "keeps env i db (note_draws env draws i) db1"
      by (intro keeps_create [OF created assms(2)]) (simp_all add: level_fits_def oauth_level_def)
    let ?db2 = "fst (expire_unredeemed_codes env now db1)"
    have k2: "keeps env i db (note_draws env draws i) ?db2" by (rule keeps_trans [OF k1 keeps_expire])
    let ?c = "\<lparr>oc_id = next_code_id ?db2, oc_code = code_draw, oc_user = acc_id u, oc_token = ak_id t,
                     oc_raw_key = raw, oc_redirect = ap_redirect ap, oc_challenge = ap_challenge ap,
                     oc_method = ''S256'', oc_scope = ap_scope ap, oc_client = ap_client ap,
                     oc_created = now, oc_used = None\<rparr>"
    from create_token_Some [OF created] have t: "ak_user t = acc_id u" "ak_type t = OAuth_Token" "key_matches env raw t"
      "t \<in> set (ad_tokens db1)" by auto
    from expire_tokens [OF t(4), of env now] obtain t' where "t' \<in> set (ad_tokens ?db2)" "t' = t \<or> t' = revoke_token now t" by blast
    moreover from this(2) t have "code_names env ?c t'"
      by (auto simp: code_names_def key_matches_def revoke_token_def)
    ultimately have row: "code_row_ok env ?db2 ?c" by (auto simp: code_row_ok_def list_ex_iff)
    show ?thesis
    proof (cases "list_ex (\<lambda>c'. oc_code c' = code_draw) (ad_codes ?db2)")
      case True
      with go created k2 show ?thesis by (simp add: authorize_post_def Let_def)
    next
      case False
      with keeps_trans [OF k2 keeps_new_code [of ?c ?db2 env]] row go created show ?thesis
        by (simp add: authorize_post_def Let_def)
    qed
  qed
qed

lemma token_check_Inr:
  assumes "token_check env now tp db = (db', Inr row)"
  shows "db' = db \<and> find (\<lambda>c. oc_code c = tp_code tp) (ad_codes db) = Some row \<and>
    tp_grant tp = ''authorization_code'' \<and> (tp_redirect tp = '''' \<or> tp_redirect tp = oc_redirect row) \<and>
    oc_used row = None \<and> now - oc_created row \<le> secs (tv_code_ttl env) \<and>
    verify_pkce env (tp_verifier tp) (oc_challenge row) ''S256'' = Some True"
  using assms by (auto simp: token_check_def split: if_splits option.splits bool.splits)

lemma keeps_token_check:
  assumes "token_check env now tp db = (db', r)"
  shows "keeps env i db i db'"
  using assms keeps_expire [of env i db now]
  by (auto simp: token_check_def split: if_splits option.splits bool.splits)

lemma keeps_token_claim:
  assumes "token_claim now row db = (db', reply)"
  shows "keeps env i db i db'"
  using assms by (auto simp: token_claim_def keeps_claim split: option.splits)

lemma keeps_oauth_revoke: "keeps env i db i (fst (oauth_revoke env now raw db))"
proof (cases "raw = '''' \<or> authenticate env now raw db = None")
  case True
  then show ?thesis by (auto simp: oauth_revoke_def)
next
  case False
  then obtain db1 u tok where a: "authenticate env now raw db = Some (db1, u, tok)" by auto
  note k = keeps_trans [OF keeps_authenticate [OF a]]
  show ?thesis using False a k [OF keeps_refl] k [OF keeps_update_token [OF mild_revoke]]
    by (cases tok) (simp_all add: oauth_revoke_def)
qed

section \<open>Steps\<close>

lemma login_check_user:
  assumes "login_check env axes rq db = Inr (hours, u)"
  shows "\<exists>username password. check_credentials env (ad_accounts db) username password = Some u"
    "acc_active u" "axes = Axes_Passes" "rq_method rq = ''POST''"
  using assms by (auto simp: login_check_def Let_def split: if_splits sum.splits json.splits option.splits
      intro: axes_verdict.exhaust)

text \<open>What Django's \<open>ModelBackend\<close> promises: the account it returns is a row of the table.\<close>

definition backend_ok :: "token_env \<Rightarrow> bool" where
  "backend_ok env \<longleftrightarrow> (\<forall>accounts username password u.
     tv_model_backend env accounts username password = Some u \<longrightarrow> u \<in> set accounts)"

lemma check_credentials_row:
  assumes "backend_ok env" "check_credentials env accounts username password = Some u"
  shows "u \<in> set accounts"
proof (cases "email_or_username_backend env accounts username password")
  case None
  with assms show ?thesis by (auto simp: check_credentials_def backend_ok_def)
next
  case (Some u')
  then have "u' \<in> set accounts"
    by (auto simp: email_or_username_backend_def Let_def split: if_splits lookup.splits dest!: tbl_get_RowD)
  with Some assms(2) show ?thesis by (simp add: check_credentials_def)
qed

lemma login_lookup_Some:
  assumes "login_lookup db n = Some t"
  shows "t \<in> set (ad_tokens db) \<and> active_login n t"
proof -
  let ?rows = "filter (active_login n) (ad_tokens db)"
  from assms obtain ts where "sort_key (\<lambda>t. - ak_created t) ?rows = t # ts"
    by (auto simp: login_lookup_def split: list.splits)
  then have "t \<in> set (sort_key (\<lambda>t. - ak_created t) ?rows)" by (simp only: list.set_intros)
  then show ?thesis by simp
qed

lemma set_world [simp]:
  "tw_db (set_db w db) = db" "tw_issued (set_db w db) = tw_issued w" "tw_handed (set_db w db) = tw_handed w"
  "tw_db (set_drawn env draws w db) = db" "tw_issued (set_drawn env draws w db) = note_draws env draws (tw_issued w)"
  "tw_logins (set_db w db) = tw_logins w" "tw_logins (set_drawn env draws w db) = tw_logins w"
  "tw_checked (set_db w db) = tw_checked w" "tw_checked (set_drawn env draws w db) = tw_checked w"
  "tw_handed (set_drawn env draws w db) = tw_handed w"
  by (simp_all add: set_db_def set_drawn_def)

lemmas handler_keeps = keeps_refresh keeps_logout keeps_register keeps_password keeps_user_password
  keeps_deactivate keeps_user_detail keeps_token_revoke keeps_admin keeps_consent keeps_oauth_revoke

text \<open>A step is a write that keeps the invariant.\<close>

lemma token_step_keeps:
  assumes "token_step env w w'" "world_ok env w"
  shows "keeps env (tw_issued w) (tw_db w) (tw_issued w') (tw_db w')"
  using assms(1)
proof cases
  case (use now raw db' u tok)
  with keeps_authenticate [OF use(2)] show ?thesis by simp
next
  case (login_end hours u existing draws now)
  from assms(2) login_end(2) have "login_pending_ok (tw_db w) (hours, u, existing)" by (auto simp: world_ok_def list_all_iff)
  from keeps_login [OF this login_end(3)] show ?thesis by (simp add: login_end(1))
next
  case (mint now draws u f revealed db' shown outcome)
  from keeps_token_create [OF mint(2,3)] show ?thesis by (simp add: mint(1))
next
  case (command now draws username name level db' outcome)
  from keeps_command [OF command(2,3)] show ?thesis by (simp add: command(1))
next
  case (exchange_begin now tp db' row)
  from keeps_token_check [OF exchange_begin(2)] show ?thesis by (simp add: exchange_begin(1))
next
  case (exchange_refused now tp db' reply)
  from keeps_token_check [OF exchange_refused(2)] show ?thesis by (simp add: exchange_refused(1))
next
  case (exchange_end row now db' reply)
  from keeps_token_claim [OF exchange_end(3)] show ?thesis by (simp add: exchange_end(1))
qed (simp_all add: handler_keeps)

text \<open>The requests under way and the codes paid out stay in order.\<close>

lemma token_step_pending:
  assumes "backend_ok env" "token_step env w w'" "world_ok env w"
  shows "list_all (login_pending_ok (tw_db w')) (tw_logins w')"
    and "list_all (checked_ok env (tw_db w')) (tw_checked w')"
proof -
  from assms(3) token_step_keeps [OF assms(2,3)] have ok: "db_ok env (tw_issued w) (tw_db w)" and
    ev: "db_evolves (tw_db w) (tw_db w')" by (auto simp: world_ok_def keeps_def)
  from assms(3) have "list_all (login_pending_ok (tw_db w')) (tw_logins w)" "list_all (checked_ok env (tw_db w')) (tw_checked w)"
    using login_pending_evolves [OF _ ev] checked_evolves [OF _ ev] by (auto simp: world_ok_def list_all_iff)
  moreover have "login_pending_ok (tw_db w) (hours, u, login_lookup (tw_db w) (acc_id u))"
    if "login_check env axes rq (tw_db w) = Inr (hours, u)" for axes rq hours u
  proof -
    from login_check_user(1) [OF that] check_credentials_row [OF assms(1)]
    have "has_account (tw_db w) (acc_id u)" by (fastforce simp: has_account_def)
    then show ?thesis using login_lookup_Some [of "tw_db w" "acc_id u"]
      by (auto simp: login_pending_ok_def list_ex_iff active_login_def split: option.split)
  qed
  moreover have "checked_ok env (tw_db w) row \<and> db' = tw_db w"
    if "token_check env now tp (tw_db w) = (db', Inr row)" for now tp db' row
  proof -
    from token_check_Inr [OF that] have "db' = tw_db w" "row \<in> set (ad_codes (tw_db w))" by (auto dest: find_SomeD)
    with ok show ?thesis by (auto simp: db_ok_def codes_ok_def checked_ok_def list_all_iff)
  qed
  ultimately have old: "list_all (login_pending_ok (tw_db w')) (tw_logins w)"
      "list_all (checked_ok env (tw_db w')) (tw_checked w)"
    and new_login: "\<And>axes rq hours u. login_check env axes rq (tw_db w) = Inr (hours, u) \<Longrightarrow>
      login_pending_ok (tw_db w) (hours, u, login_lookup (tw_db w) (acc_id u))"
    and new_check: "\<And>now tp db' row. token_check env now tp (tw_db w) = (db', Inr row) \<Longrightarrow>
      checked_ok env (tw_db w) row \<and> db' = tw_db w" by blast+
  have "list_all (login_pending_ok (tw_db w')) (tw_logins w') \<and> list_all (checked_ok env (tw_db w')) (tw_checked w')"
    using assms(2)
  proof cases
    case (login_begin axes rq hours u)
    with old new_login [OF login_begin(2)] show ?thesis by simp
  next
    case (exchange_begin now tp db' row)
    with old new_check [OF exchange_begin(2)] show ?thesis by simp
  qed (use old in simp_all)
  then show "list_all (login_pending_ok (tw_db w')) (tw_logins w')"
    and "list_all (checked_ok env (tw_db w')) (tw_checked w')" by simp_all
qed

lemma token_step_paid:
  assumes "token_step env w w'" "world_ok env w"
  shows "distinct (tw_handed w') \<and> list_all (paid_out (tw_db w')) (tw_handed w')"
proof -
  from assms(2) token_step_keeps [OF assms] have ev: "db_evolves (tw_db w) (tw_db w')"
    by (auto simp: world_ok_def keeps_def)
  from assms(2) ev have old: "list_all (paid_out (tw_db w')) (tw_handed w)" "distinct (tw_handed w)"
    by (auto simp: world_ok_def list_all_iff db_evolves_def)
  show ?thesis
    using assms(1)
  proof cases
    case (exchange_end row now db' reply)
    show ?thesis
    proof (cases "\<exists>k s. reply = Access_Token k s")
      case False
      then have "tw_handed w' = tw_handed w" by (cases reply) (auto simp: exchange_end(1))
      with old show ?thesis by simp
    next
      case True
      then obtain k s where r: "reply = Access_Token k s" by blast
      with exchange_end(3) obtain codes where c: "claim_code (oc_id row) now (ad_codes (tw_db w)) = Some codes"
        and db': "db' = (tw_db w)\<lparr>ad_codes := codes\<rparr>" by (auto simp: token_claim_def split: option.splits)
      have "\<not> code_closed (ad_codes (tw_db w)) (oc_id row)"
        using c claim_code_None [of "oc_id row" now "ad_codes (tw_db w)"] by simp
      then have fresh: "oc_id row \<notin> set (tw_handed w)"
        using assms(2) by (auto simp: world_ok_def list_all_iff paid_out_def)
      have "checked_ok env (tw_db w) row" using assms(2) exchange_end(2) by (auto simp: world_ok_def list_all_iff)
      from checked_evolves [OF this ev] have "paid_out db' (oc_id row)"
        using redeem.claim_closes [OF _ c] by (auto simp: paid_out_def checked_ok_def db' exchange_end(1))
      with old fresh r show ?thesis by (simp add: exchange_end(1))
    qed
  qed (use old in simp_all)
qed

lemma token_step_world_ok:
  assumes "backend_ok env" "token_step env w w'" "world_ok env w"
  shows "world_ok env w'"
  using token_step_keeps [OF assms(2,3)] token_step_pending [OF assms] token_step_paid [OF assms(2,3)] assms(3)
  by (simp add: world_ok_def keeps_def)

lemma reachable_world_ok:
  assumes "backend_ok env" "token_reachable env w"
  shows "world_ok env w"
  using assms(2)
proof induction
  case (start accounts)
  then show ?case by (simp add: world_ok_def db_ok_def accounts_ok_def tokens_ok_def codes_ok_def)
next
  case (step w w')
  then show ?case using token_step_world_ok [OF assms(1)] by blast
qed

end
