(* ===== verification/Token_Props.thy ===== *)
theory Token_Props
  imports Token_Steps
begin

text \<open>
  What the credential layer promises: consistent tables, one payout per code, keys that stay dead
  once they are ended, what ends them, and the levels the token manager mints.
\<close>

section \<open>Dead keys\<close>

text \<open>A key is dead when it was drawn and no active row carries its digest.\<close>

definition dead_key :: "token_env \<Rightarrow> token_world \<Rightarrow> string \<Rightarrow> bool" where
  "dead_key env w raw \<longleftrightarrow>
     hash_key env raw \<in> set (tw_issued w) \<and>
     list_all (\<lambda>t. ak_hashed t = hash_key env raw \<longrightarrow> \<not> ak_active t) (ad_tokens (tw_db w))"

lemma dead_key_step:
  assumes "token_step env w w'" "world_ok env w" "dead_key env w raw"
  shows "dead_key env w' raw"
proof -
  from token_step_keeps [OF assms(1,2)] assms(2)
  have sub: "set (tw_issued w) \<subseteq> set (tw_issued w')" and nr: "no_revival (tw_issued w) (tw_db w) (tw_db w')"
    by (auto simp: keeps_def world_ok_def)
  have "\<not> ak_active t'" if t': "t' \<in> set (ad_tokens (tw_db w'))" "ak_hashed t' = hash_key env raw" for t'
  proof -
    from t' nr assms(3) obtain t where "t \<in> set (ad_tokens (tw_db w))" "row_evolves t t'" "ak_hashed t = ak_hashed t'"
      unfolding no_revival_def dead_key_def by metis
    with t'(2) assms(3) show ?thesis by (auto simp: dead_key_def list_all_iff row_evolves_def)
  qed
  with sub assms(3) show ?thesis by (auto simp: dead_key_def list_all_iff)
qed

lemma dead_key_steps:
  assumes "backend_ok env" "token_steps env w w'" "world_ok env w" "dead_key env w raw"
  shows "world_ok env w' \<and> dead_key env w' raw"
  using assms(2-4)
proof induction
  case none
  then show ?case by simp
next
  case (more w' w'')
  then show ?case using token_step_world_ok [OF assms(1)] dead_key_step by blast
qed

lemma dead_key_rejected:
  assumes "dead_key env w raw"
  shows "\<not> live_key env now raw (tw_db w) u t"
  using assms by (auto simp: dead_key_def live_key_def key_matches_def list_all_iff)

section \<open>What ends a key\<close>

lemma other_rows_differ:
  assumes "tokens_ok i db" "t \<in> set (ad_tokens db)" "t' \<in> set (ad_tokens db)" "ak_hashed t' = ak_hashed t"
  shows "t' = t"
  using assms inj_onD [of ak_hashed "set (ad_tokens db)" t' t] by (simp add: tokens_ok_def distinct_map)

lemma dead_after_revoke:
  assumes "tokens_ok i db" "t \<in> set (ad_tokens db)" "ak_id t = n"
  shows "list_all (\<lambda>t'. ak_hashed t' = ak_hashed t \<longrightarrow> \<not> ak_active t') (ad_tokens (update_token n (revoke_token now) db))"
proof -
  have "\<not> ak_active t'"
    if "t' \<in> set (tbl_update (\<lambda>t. ak_id t = n) (revoke_token now) (ad_tokens db))" "ak_hashed t' = ak_hashed t" for t'
  proof -
    from that(1) obtain q where q: "q \<in> set (ad_tokens db)"
      "(ak_id q = n \<and> t' = revoke_token now q) \<or> (ak_id q \<noteq> n \<and> t' = q)"
      unfolding set_tbl_update by (elim bexE) (rule that)
    then have "ak_hashed q = ak_hashed t" using \<open>ak_hashed t' = ak_hashed t\<close> by (auto simp: revoke_token_def)
    then have "q = t" using other_rows_differ [OF assms(1,2) q(1)] by simp
    with q(2) assms(3) show ?thesis by (auto simp: revoke_token_def)
  qed
  then show ?thesis by (simp add: list_all_iff update_token_def)
qed

lemma dead_after_rotate:
  assumes "tokens_ok i db" "t \<in> set (ad_tokens db)" "ak_id t = n" "h \<notin> set i"
  shows "list_all (\<lambda>t'. ak_hashed t' = ak_hashed t \<longrightarrow> \<not> ak_active t') (ad_tokens (update_token n (rotate_key now p h e) db))"
proof -
  have h: "h \<noteq> ak_hashed t" using assms by (auto simp: tokens_ok_def)
  have False
    if "t' \<in> set (tbl_update (\<lambda>t. ak_id t = n) (rotate_key now p h e) (ad_tokens db))" "ak_hashed t' = ak_hashed t" for t'
  proof -
    from that(1) obtain q where q: "q \<in> set (ad_tokens db)"
      "(ak_id q = n \<and> t' = rotate_key now p h e q) \<or> (ak_id q \<noteq> n \<and> t' = q)"
      unfolding set_tbl_update by (elim bexE) (rule that)
    with \<open>ak_hashed t' = ak_hashed t\<close> h have "ak_id q \<noteq> n" "ak_hashed q = ak_hashed t"
      by (auto simp: rotate_key_def)
    with other_rows_differ [OF assms(1,2) q(1)] assms(3) show False by simp
  qed
  then show ?thesis by (auto simp: list_all_iff update_token_def)
qed

lemma issued_hash: "tokens_ok i db \<Longrightarrow> t \<in> set (ad_tokens db) \<Longrightarrow> ak_hashed t \<in> set i"
  by (auto simp: tokens_ok_def)

text \<open>A bearer's token, after its use is stamped: a row with the presented key.\<close>

definition bearer :: "string \<Rightarrow> api_request \<Rightarrow> bool" where
  "bearer raw rq \<longleftrightarrow> rq_authorization rq = ''Bearer '' @ raw"

lemma bearer_key: "bearer raw rq \<Longrightarrow> startswith (rq_authorization rq) ''Bearer '' \<and> drop 7 (rq_authorization rq) = raw"
  by (simp add: bearer_def startswith_def)

lemma bearer_caller:
  assumes "bearer raw rq" "authenticate_api_request env now rq db = (db1, Inr (u, tok))" "db_ok env i db"
  shows "\<exists>t. tok = Some t \<and> t \<in> set (ad_tokens db1) \<and> key_matches env raw t \<and> db_ok env i db1 \<and> ak_active t"
proof -
  from rest_caller [OF assms(2)] bearer_key [OF assms(1)] obtain t0 where t0: "tok = Some (stamp_use now t0)"
    "live_key env now raw db u t0" by auto
  from rest_token_row [OF assms(2) [unfolded t0(1)]] have "stamp_use now t0 \<in> set (ad_tokens db1)" .
  moreover have "db_ok env i db1" using keeps_rest_auth [OF assms(2)] assms(3) by (auto simp: keeps_def)
  ultimately show ?thesis using t0 by (auto simp: live_key_def key_matches_def stamp_use_def)
qed

lemma logout_ends_key:
  assumes "world_ok env w" "bearer raw rq" "api_auth_logout env now rq (tw_db w) = (db', Message m)"
  shows "dead_key env (set_db w db') raw"
proof -
  have ok: "db_ok env (tw_issued w) (tw_db w)" using assms(1) by (simp add: world_ok_def)
  from assms(3) obtain db1 u tok where a: "authenticate_api_request env now rq (tw_db w) = (db1, Inr (u, tok))"
    and db': "db' = (case tok of Some t \<Rightarrow> update_token (ak_id t) (revoke_token now) db1 | None \<Rightarrow> db1)"
    by (auto simp: api_auth_logout_def api_error_def split: if_splits prod.splits sum.splits)
       (auto simp: authenticate_api_request_def rejected_key_def api_error_def split: if_splits option.splits reject_reason.splits)
  from bearer_caller [OF assms(2) a ok] obtain t where t: "tok = Some t" "t \<in> set (ad_tokens db1)" "key_matches env raw t"
    "tokens_ok (tw_issued w) db1" by (auto simp: db_ok_def)
  with dead_after_revoke [OF t(4,2) refl] issued_hash [OF t(4,2)] db' show ?thesis
    by (simp add: dead_key_def key_matches_def)
qed

lemma rest_error_not_message:
  "authenticate_api_request env now rq db = (db1, Inl e) \<Longrightarrow> e \<noteq> Key_Issued k a x n"
  by (auto simp: authenticate_api_request_def rejected_key_def api_error_def split: if_splits option.splits reject_reason.splits)

lemma refresh_ends_key:
  assumes "world_ok env w" "bearer raw rq" "fresh_draws env (tw_issued w) draws"
    "api_auth_token_refresh env now draws rq (tw_db w) = (db', Key_Issued k u e 200)"
  shows "dead_key env (set_drawn env draws w db') raw"
proof -
  have ok: "db_ok env (tw_issued w) (tw_db w)" using assms(1) by (simp add: world_ok_def)
  obtain db1 r where a: "authenticate_api_request env now rq (tw_db w) = (db1, r)"
    by (cases "authenticate_api_request env now rq (tw_db w)")
  with assms(4) rest_error_not_message obtain u' tok where r: "r = Inr (u', tok)"
    by (cases r) (auto simp: api_auth_token_refresh_def api_error_def split: if_splits)
  from bearer_caller [OF assms(2) a [unfolded r] ok] obtain t where t: "tok = Some t" "t \<in> set (ad_tokens db1)"
    "key_matches env raw t" "tokens_ok (tw_issued w) db1" by (auto simp: db_ok_def)
  from assms(4) a r t(1) obtain raw' prefix h e' where g: "generate_raw_key env draws = Some (raw', prefix, h)"
    and db': "db' = update_token (ak_id t) (rotate_key now prefix h e') db1"
    by (auto simp: api_auth_token_refresh_def api_error_def Let_def split: if_splits option.splits)
  from dead_after_rotate [OF t(4,2) refl] fresh_draws_Some [OF assms(3) g] issued_hash [OF t(4,2)] t(3) show ?thesis
    by (simp add: dead_key_def key_matches_def db' note_draws_Some [OF g])
qed

lemma login_ends_key:
  assumes "world_ok env w" "t \<in> set (ad_tokens (tw_db w))" "fresh_draws env (tw_issued w) draws"
    "login_write env now draws hours u (Some t) (tw_db w) = (db', Key_Issued k u' e 200)" "ak_hashed t = hash_key env raw"
  shows "dead_key env (set_drawn env draws w db') raw"
proof -
  have ok: "tokens_ok (tw_issued w) (tw_db w)" using assms(1) by (simp add: world_ok_def db_ok_def)
  from assms(4) obtain raw' prefix h e' where g: "generate_raw_key env draws = Some (raw', prefix, h)"
    and db': "db' = update_token (ak_id t) (rotate_key now prefix h e') (tw_db w)"
    by (auto simp: login_write_def Let_def split: option.splits)
  from dead_after_rotate [OF ok assms(2) refl] fresh_draws_Some [OF assms(3) g] issued_hash [OF ok assms(2)] assms(5) show ?thesis
    by (simp add: dead_key_def db' note_draws_Some [OF g])
qed

lemma revoke_endpoint_ends_key:
  assumes "world_ok env w" "t \<in> set (ad_tokens (tw_db w))" "key_matches env raw t" "PREFIX_LENGTH \<le> length raw"
  shows "dead_key env (set_db w (fst (oauth_revoke env now raw (tw_db w)))) raw"
proof -
  let ?db = "tw_db w"
  have ok: "tokens_ok (tw_issued w) ?db" "db_ok env (tw_issued w) ?db" using assms(1) by (simp_all add: world_ok_def db_ok_def)
  have raw: "raw \<noteq> ''''" using assms(4) by (auto simp: PREFIX_LENGTH_def)
  have found: "tbl_get (key_matches env raw) (ad_tokens ?db) = Row t"
  proof (rule tbl_get_unique [where P = "key_matches env raw", OF assms(2,3)])
    show "distinct (ad_tokens ?db)" using ok(1) by (simp add: tokens_ok_def distinct_map)
    show "q = t" if "q \<in> set (ad_tokens ?db)" "key_matches env raw q" for q
      using other_rows_differ [OF ok(1) assms(2) that(1)] that(2) assms(3) by (simp add: key_matches_def)
  qed
  show ?thesis
  proof (cases "rejection_reason ?db now t = None")
    case False
    then have "authenticate env now raw ?db = Some (?db, None, Some t)"
      using found raw assms(4) by (simp add: authenticate_def)
    with dead_after_revoke [OF ok(1) assms(2) refl] issued_hash [OF ok(1) assms(2)] assms(3) raw show ?thesis
      by (simp add: oauth_revoke_def dead_key_def key_matches_def)
  next
    case True
    let ?db1 = "update_token (ak_id t) (stamp_use now) ?db"
    from True have a: "authenticate env now raw ?db = Some (?db1, token_user ?db t, Some (stamp_use now t))"
      using found raw assms(4) by (simp add: authenticate_def)
    have ok1: "tokens_ok (tw_issued w) ?db1" using keeps_authenticate [OF a] ok(2) by (auto simp: keeps_def db_ok_def)
    have t1: "stamp_use now t \<in> set (ad_tokens ?db1)" using assms(2) by (auto simp: update_token_def set_tbl_update)
    from dead_after_revoke [OF ok1 t1 refl] issued_hash [OF ok1 t1] a assms(3) raw show ?thesis
      by (simp add: oauth_revoke_def dead_key_def key_matches_def stamp_use_def)
  qed
qed

lemma with_auth_token_reply:
  assumes "with_auth_token env methods now rq k db = (db', Message m)"
  shows "\<exists>db1 u tok. authenticate_api_request env now rq db = (db1, Inr (u, tok)) \<and> require_auth_token tok = None \<and>
    k db1 = (db', Message m)"
  using assms
  by (auto simp: with_auth_token_def api_error_def authenticate_api_request_def rejected_key_def require_auth_token_def
      split: if_splits sum.splits option.splits prod.splits reject_reason.splits)

lemma deactivation_ends_keys:
  assumes "world_ok env w" "api_auth_user_deactivate env now rq n (tw_db w) = (db', Message m)"
    "t \<in> set (ad_tokens (tw_db w))" "ak_user t = n" "ak_hashed t = hash_key env raw"
  shows "dead_key env (set_db w db') raw \<and> list_all (\<lambda>u. acc_id u = n \<longrightarrow> \<not> acc_active u) (ad_accounts db')"
proof -
  have ok: "db_ok env (tw_issued w) (tw_db w)" using assms(1) by (simp add: world_ok_def)
  from with_auth_token_reply [OF assms(2) [unfolded api_auth_user_deactivate_def]] obtain db1 u tok target where
    a: "authenticate_api_request env now rq (tw_db w) = (db1, Inr (u, tok))" and target: "account_by_id db1 n = Some target"
    and tokens: "ad_tokens db' = tbl_update (\<lambda>t. ak_user t = acc_id target \<and> ak_active t) (revoke_token now) (ad_tokens db1)"
    and accounts: "ad_accounts db' = tbl_update (\<lambda>u. acc_id u = acc_id target) (\<lambda>a. a\<lparr>acc_active := False\<rparr>) (ad_accounts db1)"
    by (auto simp: Let_def update_account_def api_error_def split: option.splits)
  from target have id: "acc_id target = n" by (auto simp: account_by_id_def dest: tbl_find_Some)
  have k: "keeps env (tw_issued w) (tw_db w) (tw_issued w) db1" by (rule keeps_rest_auth [OF a])
  with ok have ok1: "tokens_ok (tw_issued w) db1" and ev: "db_evolves (tw_db w) db1"
    and nr: "no_revival (tw_issued w) (tw_db w) db1" by (auto simp: keeps_def db_ok_def)
  have user: "ak_user q = n" if q: "q \<in> set (ad_tokens db1)" "ak_hashed q = hash_key env raw" for q
  proof -
    have "ak_hashed q \<in> set (tw_issued w)" by (rule issued_hash [OF ok1 q(1)])
    with nr q(1) obtain t0 where "t0 \<in> set (ad_tokens (tw_db w))" "row_evolves t0 q" "ak_hashed t0 = ak_hashed q"
      unfolding no_revival_def by blast
    with other_rows_differ [of "tw_issued w" "tw_db w" t t0] ok assms(3-5) q(2) show ?thesis
      by (auto simp: db_ok_def row_evolves_def)
  qed
  have "\<not> ak_active t'" if t': "t' \<in> set (ad_tokens db')" "ak_hashed t' = hash_key env raw" for t'
  proof -
    from t'(1) obtain q where q: "q \<in> set (ad_tokens db1)"
      "(ak_user q = acc_id target \<and> ak_active q) \<and> t' = revoke_token now q \<or> \<not> (ak_user q = acc_id target \<and> ak_active q) \<and> t' = q"
      unfolding tokens set_tbl_update by (elim bexE) (rule that)
    then have "ak_hashed q = hash_key env raw" using t'(2) by (auto simp: revoke_token_def)
    with user [OF q(1)] q(2) id show ?thesis by (auto simp: revoke_token_def)
  qed
  moreover have "hash_key env raw \<in> set (tw_issued w)" using issued_hash [of _ "tw_db w" t] ok assms(3,5) by (auto simp: db_ok_def)
  moreover have "list_all (\<lambda>u. acc_id u = n \<longrightarrow> \<not> acc_active u) (ad_accounts db')"
    unfolding accounts id by (rule tbl_update_all) auto
  ultimately show ?thesis by (simp add: dead_key_def list_all_iff)
qed


section \<open>Properties\<close>


text \<open>C24: A code pays out its key at most once. Whatever the order in which exchanges read the row
  and claim it: of competing claims on one code at most one wins, the codes that were paid out are
  distinct, and an exchange that passed its checks before another one was paid is told that the
  code is used and changes nothing.\<close>

theorem code_paid_out_once:
  assumes "backend_ok env" "token_reachable env w"
    and "row \<in> set (tw_checked w)" "oc_id row \<in> set (tw_handed w)"
  shows "distinct (tw_handed w) \<and>
    token_claim now row (tw_db w) = (tw_db w, Invalid_Grant ''Code already used'') \<and>
    wins_for n attempts (snd (race (\<lambda>n now. claim_code n now) attempts (ad_codes (tw_db w)))) \<le> 1"
proof -
  have ok: "world_ok env w" using assms(1,2) by (rule reachable_world_ok)
  with assms(4) have "code_closed (ad_codes (tw_db w)) (oc_id row)"
    by (auto simp: world_ok_def list_all_iff paid_out_def)
  then have "claim_code (oc_id row) now (ad_codes (tw_db w)) = None" by (rule redeem.closed_loses)
  moreover have "wins_for n attempts (snd (race (\<lambda>n now. claim_code n now) attempts (ad_codes (tw_db w)))) \<le> 1"
    by (rule redeem.at_most_one_winner) simp
  ultimately show ?thesis using ok by (simp add: token_claim_def world_ok_def)
qed

text \<open>C23: Once a key is dead it stays dead: in every later state it authenticates nobody, not as a
  REST bearer, not over MCP, not for a feed, as long as the keys that are drawn are new.\<close>

theorem ended_keys_stay_dead:
  assumes "backend_ok env" "token_reachable env w" "dead_key env w raw" "token_steps env w w'"
  shows "dead_key env w' raw \<and>
    (\<nexists>db u tok. authenticate env now raw (tw_db w') = Some (db, Some u, tok)) \<and>
    (bearer raw rq \<longrightarrow> (\<nexists>db u tok. authenticate_api_request env now rq (tw_db w') = (db, Inr (u, tok)))) \<and>
    (strip (drop 7 header) = raw \<longrightarrow> (\<nexists>db u t. mcp_authenticate env now header (tw_db w') = Some (db, Inr (u, t)))) \<and>
    (feed_key header query_token = raw \<longrightarrow>
       (\<nexists>db u. feed_user env now None header query_token (tw_db w') = (db, Some u)))"
proof -
  have "world_ok env w" using assms(1,2) by (rule reachable_world_ok)
  from dead_key_steps [OF assms(1,4) this assms(3)] have dead: "dead_key env w' raw" by blast
  note no = dead_key_rejected [OF dead, of now]
  show ?thesis
    using dead no
    by (auto dest!: live_keyI rest_caller mcp_caller feed_caller dest: bearer_key)
qed

text \<open>C28: What ends a key: logging out with it, refreshing it, handing it to the revocation
  endpoint (whether or not it is still accepted), and deactivating its owner, which ends every key
  the account holds and closes the account. The next login also ends the key of the login token it
  finds.\<close>

theorem credentials_are_ended:
  assumes "backend_ok env" "token_reachable env w"
    and "t \<in> set (ad_tokens (tw_db w))" "key_matches env raw t" "PREFIX_LENGTH \<le> length raw" "bearer raw rq"
    and "fresh_draws env (tw_issued w) draws"
  shows "(\<forall>db m. api_auth_logout env now rq (tw_db w) = (db, Message m) \<longrightarrow> dead_key env (set_db w db) raw) \<and>
    (\<forall>db k u e. api_auth_token_refresh env now draws rq (tw_db w) = (db, Key_Issued k u e 200) \<longrightarrow>
       dead_key env (set_drawn env draws w db) raw) \<and>
    dead_key env (set_db w (fst (oauth_revoke env now raw (tw_db w)))) raw \<and>
    (\<forall>db m rq'. api_auth_user_deactivate env now rq' (ak_user t) (tw_db w) = (db, Message m) \<longrightarrow>
       dead_key env (set_db w db) raw \<and> list_all (\<lambda>u. acc_id u = ak_user t \<longrightarrow> \<not> acc_active u) (ad_accounts db)) \<and>
    (\<forall>db hours u k v e. login_write env now draws hours u (Some t) (tw_db w) = (db, Key_Issued k v e 200) \<longrightarrow>
       dead_key env (set_drawn env draws w db) raw)"
proof -
  have ok: "world_ok env w" using assms(1,2) by (rule reachable_world_ok)
  have hash: "ak_hashed t = hash_key env raw" using assms(4) by (simp add: key_matches_def)
  show ?thesis
    using logout_ends_key [OF ok assms(6)] refresh_ends_key [OF ok assms(6,7)]
      revoke_endpoint_ends_key [OF ok assms(3-5)] deactivation_ends_keys [OF ok _ assms(3) refl hash]
      login_ends_key [OF ok assms(3,7) _ hash]
    by blast
qed

text \<open>The token manager mints nothing above a role. A token it creates is a manual one, appended
  to the table; its level is readonly, or staff when both the person who asks and the owner are
  staff, or auth when the person is also a superuser; and a person who is not staff only mints for
  themselves.\<close>

theorem minted_levels_capped:
  assumes "token_create env now draws u f revealed db = Some (db', shown, Inr n)"
  shows "\<exists>t owner. ad_tokens db' = ad_tokens db @ [t] \<and> ak_id t = n \<and> owner \<in> set (ad_accounts db) \<and>
    ak_user t = acc_id owner \<and> ak_type t = Manual_Token \<and>
    (ak_level t = ''readonly'' \<or> ak_level t = ''staff'' \<and> acc_staff u \<and> acc_staff owner \<or>
     ak_level t = ''auth'' \<and> acc_staff u \<and> acc_superuser u \<and> acc_staff owner) \<and>
    (acc_staff u \<or> acc_id owner = acc_id u) \<and> (\<exists>raw. shown = Some raw \<and> key_matches env raw t)"
proof -
  from assms obtain m where form: "clean_token_form u (ad_accounts db) f = Inr m"
    by (auto simp: token_create_def split: sum.splits)
  with assms obtain t raw where c: "create_token env now draws (acc_id (mt_user m)) (mt_name m)
      (mt_description m) (mt_expires m) Manual_Token (mt_level m) db = Some (t, raw, db')"
    and out: "shown = Some raw" "n = ak_id t"
    by (auto simp: token_create_def split: option.splits)
  from create_token_Some [OF c] clean_token_form_Inr [OF form] out show ?thesis
    by (intro exI [of _ t] exI [of _ "mt_user m"]) auto
qed

end
