(* ===== verification/OAuth_Props.thy ===== *)
theory OAuth_Props
  imports Token_Props
begin

text \<open>
  What the OAuth surface promises: exactly when a code is exchanged for a key, the way from consent
  to an authenticated caller, and what happens to codes nobody redeems.
\<close>

section \<open>Lookups by unique columns\<close>

lemma find_unique:
  assumes "distinct (map k rows)" "r \<in> set rows"
  shows "find (\<lambda>q. k q = k r) rows = Some r"
  using tbl_find_in [OF assms] by (simp add: tbl_find_def)

lemma find_code:
  assumes "codes_ok env db"
  shows "find (\<lambda>c. oc_code c = x) (ad_codes db) = Some row \<longleftrightarrow> row \<in> set (ad_codes db) \<and> oc_code row = x"
  using assms find_unique [of oc_code "ad_codes db" row] by (auto simp: codes_ok_def dest: find_SomeD)

lemma claim_open_code:
  assumes "row \<in> set codes" "oc_used row = None"
  shows "claim_code (oc_id row) now codes =
    Some (tbl_update (\<lambda>c. oc_id c = oc_id row \<and> oc_used c = None) (\<lambda>c. c\<lparr>oc_used := Some now, oc_raw_key := ''''\<rparr>) codes)"
proof -
  have "claim_code (oc_id row) now codes \<noteq> None"
    using assms by (auto simp: claim_code_None code_closed_def)
  then obtain codes' where "claim_code (oc_id row) now codes = Some codes'" by blast
  with claim_code_Some [OF this] show ?thesis by simp
qed

section \<open>The exchange\<close>

definition may_exchange :: "token_env \<Rightarrow> instant \<Rightarrow> token_params \<Rightarrow> auth_code \<Rightarrow> bool" where
  "may_exchange env now tp row \<longleftrightarrow>
     tp_grant tp = ''authorization_code'' \<and> oc_code row = tp_code tp \<and>
     (tp_redirect tp = '''' \<or> tp_redirect tp = oc_redirect row) \<and>
     oc_used row = None \<and> now - oc_created row \<le> secs (tv_code_ttl env) \<and>
     verify_pkce env (tp_verifier tp) (oc_challenge row) ''S256'' = Some True"

lemma token_check_passes:
  assumes "codes_ok env db" "row \<in> set (ad_codes db)" "may_exchange env now tp row"
  shows "token_check env now tp db = (db, Inr row)"
  using assms find_code [OF assms(1), of "tp_code tp" row]
  by (auto simp: token_check_def may_exchange_def)

lemma exchange_works:
  assumes "codes_ok env db" "row \<in> set (ad_codes db)" "may_exchange env now tp row" "oc_raw_key row \<noteq> ''''"
  shows "oauth_token env now tp db =
    (db\<lparr>ad_codes := tbl_update (\<lambda>c. oc_id c = oc_id row \<and> oc_used c = None) (\<lambda>c. c\<lparr>oc_used := Some now, oc_raw_key := ''''\<rparr>) (ad_codes db)\<rparr>,
     Access_Token (oc_raw_key row) (if oc_scope row = '''' then ''read'' else oc_scope row))"
  using token_check_passes [OF assms(1-3)] claim_open_code [OF assms(2)] assms(3,4)
  by (simp add: oauth_token_def token_claim_def may_exchange_def)

lemma exchange_needs:
  assumes "oauth_token env now tp db = (db', Access_Token k s)"
  shows "\<exists>row \<in> set (ad_codes db). may_exchange env now tp row \<and> oc_raw_key row = k \<and> k \<noteq> '''' \<and>
    s = (if oc_scope row = '''' then ''read'' else oc_scope row)"
proof -
  from assms obtain db1 row where c: "token_check env now tp db = (db1, Inr row)" and
    k: "oc_raw_key row = k" "k \<noteq> ''''" "s = (if oc_scope row = '''' then ''read'' else oc_scope row)"
    by (auto simp: oauth_token_def token_claim_def token_check_def
        split: prod.splits sum.splits option.splits if_splits bool.splits)
  from token_check_Inr [OF c] have "row \<in> set (ad_codes db)" "may_exchange env now tp row"
    by (auto simp: may_exchange_def dest: find_SomeD)
  with k show ?thesis by blast
qed

text \<open>C26: A key is handed out exactly when the request is an authorization-code grant for a code of
  the table that is unused and within its lifetime, names the redirect URI of the consent or none,
  and its verifier hashes to the challenge of the consent; and it is then the key the row holds. In
  every other case the reply is an error, and nothing changes but the scrub of stale codes.\<close>

theorem code_exchange_exact:
  assumes "codes_ok env db"
  shows "((\<exists>db'. oauth_token env now tp db = (db', Access_Token k s)) \<longleftrightarrow>
      (\<exists>row \<in> set (ad_codes db). may_exchange env now tp row \<and> oc_raw_key row = k \<and> k \<noteq> '''' \<and>
         s = (if oc_scope row = '''' then ''read'' else oc_scope row))) \<and>
    (\<not> (\<exists>row \<in> set (ad_codes db). may_exchange env now tp row) \<longrightarrow>
      fst (oauth_token env now tp db) \<in> {db, fst (expire_unredeemed_codes env now db)})"
proof (intro conjI iffI impI)
  assume "\<exists>db'. oauth_token env now tp db = (db', Access_Token k s)"
  then show "\<exists>row \<in> set (ad_codes db). may_exchange env now tp row \<and> oc_raw_key row = k \<and> k \<noteq> '''' \<and>
         s = (if oc_scope row = '''' then ''read'' else oc_scope row)"
    using exchange_needs by blast
next
  assume "\<exists>row \<in> set (ad_codes db). may_exchange env now tp row \<and> oc_raw_key row = k \<and> k \<noteq> '''' \<and>
         s = (if oc_scope row = '''' then ''read'' else oc_scope row)"
  then show "\<exists>db'. oauth_token env now tp db = (db', Access_Token k s)"
    using exchange_works [OF assms] by blast
next
  assume none: "\<not> (\<exists>row \<in> set (ad_codes db). may_exchange env now tp row)"
  obtain db1 r where c: "token_check env now tp db = (db1, r)" by (cases "token_check env now tp db")
  show "fst (oauth_token env now tp db) \<in> {db, fst (expire_unredeemed_codes env now db)}"
  proof (cases r)
    case (Inl reply)
    with c show ?thesis
      by (auto simp: oauth_token_def token_check_def split: if_splits option.splits bool.splits)
  next
    case (Inr row)
    with token_check_Inr [OF c [unfolded Inr]] none show ?thesis
      by (auto simp: may_exchange_def dest: find_SomeD)
  qed
qed

section \<open>From consent to a caller\<close>

definition no_blanks :: "string \<Rightarrow> bool" where
  "no_blanks s \<longleftrightarrow> list_all (\<lambda>c. \<not> py_space c) s"

lemma strip_no_blanks: "no_blanks s \<Longrightarrow> strip s = s"
proof -
  have id: "dropWhile py_space t = t" if "list_all (\<lambda>c. \<not> py_space c) t" for t
    using that by (cases t) simp_all
  assume "no_blanks s"
  then show ?thesis by (simp add: strip_def lstrip_def rstrip_def no_blanks_def id)
qed

text \<open>The rows of the tokens after the scrub.\<close>

abbreviation stale_tokens :: "token_env \<Rightarrow> instant \<Rightarrow> auth_db \<Rightarrow> nat list" where
  "stale_tokens env now db \<equiv> map oc_token (filter (stale_code env now) (ad_codes db))"

lemma expire_tokens_eq:
  "ad_tokens (fst (expire_unredeemed_codes env now db)) =
     tbl_update (\<lambda>t. ak_id t \<in> set (stale_tokens env now db) \<and> ak_type t = OAuth_Token \<and> ak_active t)
       (revoke_token now) (ad_tokens db)"
proof (cases "stale_tokens env now db = []")
  case True
  have "tbl_update (\<lambda>t. ak_id t \<in> set (stale_tokens env now db) \<and> ak_type t = OAuth_Token \<and> ak_active t)
       (revoke_token now) (ad_tokens db) = ad_tokens db"
    unfolding True by (rule tbl_update_idle) simp
  with True show ?thesis by (simp add: expire_unredeemed_codes_def Let_def)
qed (simp add: expire_unredeemed_codes_def Let_def)

lemma expire_row:
  assumes "t' \<in> set (ad_tokens (fst (expire_unredeemed_codes env now db)))"
  shows "\<exists>t \<in> set (ad_tokens db).
    ak_id t \<in> set (stale_tokens env now db) \<and> ak_type t = OAuth_Token \<and> ak_active t \<and> t' = revoke_token now t \<or>
    \<not> (ak_id t \<in> set (stale_tokens env now db) \<and> ak_type t = OAuth_Token \<and> ak_active t) \<and> t' = t"
  using assms unfolding expire_tokens_eq set_tbl_update by blast

lemma expire_spares:
  assumes "t \<in> set (ad_tokens db)" "ak_id t \<notin> set (stale_tokens env now db)"
  shows "t \<in> set (ad_tokens (fst (expire_unredeemed_codes env now db)))"
  using assms unfolding expire_tokens_eq set_tbl_update by blast

lemma consent_state:
  assumes "db_ok env i db" "account_by_id db (acc_id u) = Some u" "fresh_draws env i draws"
    "authorize_post env now draws code_draw u ap db = (db', Code_Redirect r c st)"
  shows "\<exists>raw prefix h c' t. generate_raw_key env draws = Some (raw, prefix, h) \<and> raw \<in> set draws \<and>
    PREFIX_LENGTH \<le> length raw \<and> db_ok env (note_draws env draws i) db' \<and>
    c' \<in> set (ad_codes db') \<and> oc_code c' = code_draw \<and> oc_raw_key c' = raw \<and> oc_used c' = None \<and>
    oc_created c' = now \<and> oc_redirect c' = ap_redirect ap \<and> oc_challenge c' = ap_challenge ap \<and> oc_scope c' = ap_scope ap \<and>
    t \<in> set (ad_tokens db') \<and> key_matches env raw t \<and> ak_user t = acc_id u \<and> ak_type t = OAuth_Token \<and>
    ak_level t = oauth_level u (ap_scope ap) \<and> ak_expires t = None \<and> ak_active t \<and> ak_revoked t = None \<and>
    ad_accounts db' = ad_accounts db \<and> r = ap_redirect ap \<and> c = code_draw \<and> is_safe_redirect_uri r"
proof -
  let ?create = "create_token env now draws (acc_id u) (tv_name_prefix env @ '' - '' @ ap_client ap)
              (''Auto-minted via OAuth (scope='' @ ap_scope ap @ '')'') None OAuth_Token
              (oauth_level u (ap_scope ap)) db"
  have safe: "is_safe_redirect_uri (ap_redirect ap)" and allow: "ap_decision ap = ''allow''"
    using assms(4) by (simp_all add: authorize_post_def split: if_splits)
  obtain t raw db1 where c: "?create = Some (t, raw, db1)"
    using assms(4) safe allow by (cases ?create) (auto simp: authorize_post_def)
  let ?db2 = "fst (expire_unredeemed_codes env now db1)"
  let ?c = "\<lparr>oc_id = next_code_id ?db2, oc_code = code_draw, oc_user = acc_id u, oc_token = ak_id t,
                     oc_raw_key = raw, oc_redirect = ap_redirect ap, oc_challenge = ap_challenge ap,
                     oc_method = ''S256'', oc_scope = ap_scope ap, oc_client = ap_client ap,
                     oc_created = now, oc_used = None\<rparr>"
  have "\<not> list_ex (\<lambda>c'. oc_code c' = code_draw) (ad_codes ?db2)"
    using assms(4) safe allow c by (simp add: authorize_post_def Let_def split: if_splits)
  then have "authorize_post env now draws code_draw u ap db =
      (?db2\<lparr>ad_codes := ad_codes ?db2 @ [?c]\<rparr>, Code_Redirect (ap_redirect ap) code_draw (ap_state ap))"
    using safe allow c by (simp add: authorize_post_def Let_def)
  note reply = trans [OF assms(4) [symmetric] this]
  have db': "db' = ?db2\<lparr>ad_codes := ad_codes ?db2 @ [?c]\<rparr>"
    using arg_cong [where f = fst, OF reply] by (simp only: fst_conv)
  have r: "r = ap_redirect ap" "c = code_draw"
    using arg_cong [where f = snd, OF reply] by simp_all
  from create_token_Some [OF c] obtain prefix where g: "generate_raw_key env draws = Some (raw, prefix, ak_hashed t)" and
    t: "ak_id t = next_token_id db" "ak_user t = acc_id u" "ak_type t = OAuth_Token"
       "ak_level t = oauth_level u (ap_scope ap)" "ak_expires t = None" "ak_active t" "ak_revoked t = None"
       "key_matches env raw t" and db1: "db1 = db\<lparr>ad_tokens := ad_tokens db @ [t]\<rparr>" by blast
  have "ak_id t \<notin> set (stale_tokens env now db1)"
  proof
    assume "ak_id t \<in> set (stale_tokens env now db1)"
    then obtain c0 where c0: "c0 \<in> set (ad_codes db)" "oc_token c0 = ak_id t" by (auto simp: db1)
    from c0(1) assms(1) have "list_ex (code_names env c0) (ad_tokens db)"
      by (simp add: db_ok_def codes_ok_def code_row_ok_def list_all_iff)
    then obtain t0 where "t0 \<in> set (ad_tokens db)" "ak_id t0 = oc_token c0"
      unfolding list_ex_iff code_names_def by blast
    with next_token_id_fresh [of t0 db] t(1) c0(2) show False by simp
  qed
  moreover have "t \<in> set (ad_tokens db1)" by (simp add: db1)
  ultimately have kept: "t \<in> set (ad_tokens (fst (expire_unredeemed_codes env now db1)))" by (rule expire_spares [rotated])
  have acc: "ad_accounts (fst (expire_unredeemed_codes env now db1)) = ad_accounts db"
    by (simp add: expire_unredeemed_codes_def Let_def db1)
  have ok: "db_ok env (note_draws env draws i) db'"
    using keeps_consent [OF assms(2,3), of now code_draw ap] assms(1,4) by (simp add: keeps_def)
  have codes: "?c \<in> set (ad_codes db')" and rows: "ad_tokens db' = ad_tokens ?db2" "ad_accounts db' = ad_accounts ?db2"
    by (simp_all add: db')
  show ?thesis
    using g t safe r fresh_draws_Some [OF assms(3) g] generate_raw_key_Some [OF g] codes rows acc ok kept
    by (intro exI [of _ raw] exI [of _ prefix] exI [of _ "ak_hashed t"] exI [of _ ?c] exI [of _ t]) simp
qed

lemma code_names_key:
  assumes "db_ok env i db" "c \<in> set (ad_codes db)" "oc_raw_key c \<noteq> ''''"
  shows "\<exists>t \<in> set (ad_tokens db). ak_id t = oc_token c \<and> key_matches env (oc_raw_key c) t \<and> ak_type t = OAuth_Token"
  using assms by (auto simp: db_ok_def codes_ok_def code_row_ok_def list_all_iff list_ex_iff code_names_def)

text \<open>C25: The way from consent to a caller. After a person with an active account allowed a client,
  the redirect goes to a URI that passed the check; whoever presents the code with a verifier that
  fits the challenge, within the code's lifetime, receives a key; presenting the code again yields
  no key; and the key authenticates over MCP as the person who consented, through an OAuth token
  whose level is staff only if that person is staff and the scope asked to write, and readonly
  otherwise.\<close>

theorem consent_round_trip:
  assumes "db_ok env i db" "account_by_id db (acc_id u) = Some u" "acc_active u"
    and "fresh_draws env i draws" "list_all no_blanks draws"
    and "authorize_post env now draws code_draw u ap db = (db1, Code_Redirect r c st)"
    and "tp_grant tp = ''authorization_code''" "tp_code tp = c" "tp_redirect tp \<in> {'''', r}"
    and "verify_pkce env (tp_verifier tp) (ap_challenge ap) ''S256'' = Some True"
    and "later \<le> now + secs (tv_code_ttl env)"
  shows "is_safe_redirect_uri r \<and>
    (\<exists>raw scope db2. oauth_token env later tp db1 = (db2, Access_Token raw scope) \<and>
      snd (oauth_token env later' tp db2) = Invalid_Grant ''Code already used'' \<and>
      (\<exists>t db3. mcp_authenticate env later' (''Bearer '' @ raw) db2 = Some (db3, Inr (u, t)) \<and>
         ak_type t = OAuth_Token \<and>
         ak_level t = (if ''write'' \<in> set (words_of (ap_scope ap)) \<and> acc_staff u then ''staff'' else ''readonly'')))"
proof -
  from consent_state [OF assms(1,2,4,6)] obtain raw c' t where raw: "raw \<in> set draws" "PREFIX_LENGTH \<le> length raw" and
    ok: "db_ok env (note_draws env draws i) db1" and
    c': "c' \<in> set (ad_codes db1)" "oc_code c' = c" "oc_raw_key c' = raw" "oc_used c' = None" "oc_created c' = now"
      "oc_redirect c' = r" "oc_challenge c' = ap_challenge ap" and
    t: "t \<in> set (ad_tokens db1)" "key_matches env raw t" "ak_user t = acc_id u" "ak_type t = OAuth_Token"
      "ak_level t = oauth_level u (ap_scope ap)" "ak_expires t = None" "ak_active t" "ak_revoked t = None" and
    acc: "ad_accounts db1 = ad_accounts db" and safe: "is_safe_redirect_uri r" by blast
  have ne: "raw \<noteq> ''''" using raw(2) by (auto simp: PREFIX_LENGTH_def)
  have may: "may_exchange env later tp c'" using assms(7-11) c' by (auto simp: may_exchange_def)
  let ?codes = "tbl_update (\<lambda>c. oc_id c = oc_id c' \<and> oc_used c = None) (\<lambda>c. c\<lparr>oc_used := Some later, oc_raw_key := ''''\<rparr>) (ad_codes db1)"
  let ?db2 = "db1\<lparr>ad_codes := ?codes\<rparr>"
  have codes1: "codes_ok env db1" using ok by (simp add: db_ok_def)
  from exchange_works [OF codes1 c'(1) may] c'(3) ne have first: "\<exists>scope. oauth_token env later tp db1 = (?db2, Access_Token raw scope)" by simp
  have "keeps env (note_draws env draws i) db1 (note_draws env draws i) ?db2"
    by (rule keeps_claim [OF claim_open_code [OF c'(1,4)]])
  with ok have ok2: "db_ok env (note_draws env draws i) ?db2" by (simp add: keeps_def)
  let ?c2 = "c'\<lparr>oc_used := Some later, oc_raw_key := ''''\<rparr>"
  have "?c2 \<in> set ?codes" using c'(1,4) unfolding set_tbl_update by blast
  then have "find (\<lambda>x. oc_code x = tp_code tp) (ad_codes ?db2) = Some ?c2"
    using find_code [of env ?db2 "tp_code tp" ?c2] ok2 assms(8) c'(2) by (simp add: db_ok_def)
  then have second: "snd (oauth_token env later' tp ?db2) = Invalid_Grant ''Code already used''"
    using assms(7,9) c'(6) by (auto simp: oauth_token_def token_check_def)
  have "authenticate env later' raw ?db2 =
      Some (update_token (ak_id t) (stamp_use later') ?db2, token_user ?db2 t, Some (stamp_use later' t))"
  proof (rule authenticate_live)
    show "rejection_reason ?db2 later' t = None"
      using t assms(2,3) acc by (simp add: rejection_reason_None token_user_def account_by_id_def user_is_active_def)
  qed (use t raw ok2 in \<open>auto simp: db_ok_def tokens_ok_def\<close>)
  moreover have "token_user ?db2 t = Some u"
    using t(3) assms(2) acc by (simp add: token_user_def account_by_id_def)
  moreover have "strip raw = raw" using assms(5) raw(1) by (auto simp: list_all_iff intro: strip_no_blanks)
  ultimately have "mcp_authenticate env later' (''Bearer '' @ raw) ?db2 =
      Some (update_token (ak_id t) (stamp_use later') ?db2, Inr (u, stamp_use later' t))"
    using ne by (simp add: mcp_authenticate_def startswith_def)
  moreover have "ak_type (stamp_use later' t) = OAuth_Token" "ak_level (stamp_use later' t) = oauth_level u (ap_scope ap)"
    using t by (simp_all add: stamp_use_def)
  ultimately show ?thesis using safe first second by (auto simp: oauth_level_def)
qed

section \<open>Codes nobody redeems\<close>

text \<open>The scrub ends what nobody picked up. After it no code is stale; every code that was stale
  holds no key any more and the key it held authenticates nobody, at any time; codes that were not
  stale are as before, and no token is touched but the OAuth tokens of stale codes.\<close>

theorem abandoned_codes_scrubbed:
  assumes "db_ok env i db" "c \<in> set (ad_codes db)" "stale_code env now c"
  shows "(let db' = fst (expire_unredeemed_codes env now db) in
    list_all (\<lambda>c'. \<not> stale_code env now c') (ad_codes db') \<and>
    (\<nexists>db'' u tok. authenticate env any_time (oc_raw_key c) db' = Some (db'', Some u, tok)) \<and>
    filter (\<lambda>c'. \<not> stale_code env now c') (ad_codes db) =
      filter (\<lambda>c'. oc_id c' \<notin> oc_id ` set (filter (stale_code env now) (ad_codes db))) (ad_codes db') \<and>
    (\<forall>t \<in> set (ad_tokens db). t \<in> set (ad_tokens db') \<or>
       ak_type t = OAuth_Token \<and> ak_id t \<in> oc_token ` set (filter (stale_code env now) (ad_codes db))))"
proof -
  let ?db' = "fst (expire_unredeemed_codes env now db)"
  let ?stale = "filter (stale_code env now) (ad_codes db)"
  have ne: "?stale \<noteq> []" using assms(2,3) by (auto simp: filter_empty_conv)
  have codes: "ad_codes ?db' = tbl_update (stale_code env now) (\<lambda>c. c\<lparr>oc_raw_key := ''''\<rparr>) (ad_codes db)"
    using ne by (simp add: expire_unredeemed_codes_def Let_def)
  have tokens: "ad_tokens ?db' = tbl_update (\<lambda>t. ak_id t \<in> set (map oc_token ?stale) \<and> ak_type t = OAuth_Token \<and> ak_active t)
                               (revoke_token now) (ad_tokens db)"
    by (rule expire_tokens_eq)
  have "list_all (\<lambda>c'. \<not> stale_code env now c') (ad_codes ?db')"
    unfolding codes by (rule tbl_update_all) (simp_all add: stale_code_def)
  moreover have "\<not> live_key env any_time (oc_raw_key c) ?db' u t'" for u t'
  proof
    assume live: "live_key env any_time (oc_raw_key c) ?db' u t'"
    then have "t' \<in> set (ad_tokens ?db')" by (simp add: live_key_def)
    from expire_row [OF this] obtain t where t: "t \<in> set (ad_tokens db)" and
      t': "ak_id t \<in> set (stale_tokens env now db) \<and> ak_type t = OAuth_Token \<and> ak_active t \<and> t' = revoke_token now t \<or>
        \<not> (ak_id t \<in> set (stale_tokens env now db) \<and> ak_type t = OAuth_Token \<and> ak_active t) \<and> t' = t" by blast
    from code_names_key [OF assms(1,2)] assms(3) obtain q where q: "q \<in> set (ad_tokens db)" "ak_id q = oc_token c"
      "key_matches env (oc_raw_key c) q" "ak_type q = OAuth_Token" by (auto simp: stale_code_def)
    have "ak_hashed t' = ak_hashed t" using t' by (auto simp: revoke_token_def)
    then have "ak_hashed t = ak_hashed q" using live q(3) by (simp add: live_key_def key_matches_def)
    then have "t = q" using other_rows_differ [of i db q t] assms(1) q(1) t by (simp add: db_ok_def)
    moreover have "oc_token c \<in> set (stale_tokens env now db)" using assms(2,3) by simp
    moreover have "ak_active t'" using live by (simp add: live_key_def)
    ultimately show False using t' q by (auto simp: revoke_token_def)
  qed
  moreover have "filter (\<lambda>c'. \<not> stale_code env now c') (ad_codes db) =
      filter (\<lambda>c'. oc_id c' \<notin> oc_id ` set ?stale) (ad_codes ?db')"
  proof -
    have d: "distinct (map oc_id (ad_codes db))" using assms(1) by (simp add: db_ok_def codes_ok_def)
    have id: "oc_id c' \<in> oc_id ` set ?stale \<longleftrightarrow> stale_code env now c'" if "c' \<in> set (ad_codes db)" for c'
      using d that by (auto simp: distinct_map dest: inj_onD)
    have "filter (\<lambda>c'. \<not> stale_code env now c') rows = filter (\<lambda>c'. oc_id c' \<notin> S)
        (tbl_update (stale_code env now) (\<lambda>c. c\<lparr>oc_raw_key := ''''\<rparr>) rows)"
      if "\<forall>c' \<in> set rows. oc_id c' \<in> S \<longleftrightarrow> stale_code env now c'" for S rows
      using that by (induction rows) auto
    with id show ?thesis unfolding codes by simp
  qed
  moreover have "t \<in> set (ad_tokens ?db') \<or> ak_type t = OAuth_Token \<and> ak_id t \<in> oc_token ` set ?stale"
    if "t \<in> set (ad_tokens db)" for t
  proof (cases "ak_id t \<in> set (map oc_token ?stale) \<and> ak_type t = OAuth_Token \<and> ak_active t")
    case False
    with that have "t \<in> set (ad_tokens ?db')" unfolding tokens set_tbl_update by blast
    then show ?thesis ..
  qed simp
  ultimately show ?thesis unfolding Let_def by (auto dest: live_keyI)
qed

end
