(* ===== verification/Mcp_Tools.thy ===== *)
theory Mcp_Tools
  imports Token_Access Py_Net Interfaces
begin

text \<open>
  The MCP server (\<open>apps/mcp/server.py\<close>, \<open>apps/mcp/views.py\<close>, \<open>apps/mcp/factory.py\<close>): the registry of
  tools, the JSON-RPC dispatcher, and what the factory derives from a CRUD view: which tools it
  registers, behind which gate, and how the generated tools read their arguments.

  A tool's handler is a parameter: it gets the arguments, the user and the token and returns a JSON
  value or the text of the exception it raised. \<open>json.dumps\<close> is a parameter.
\<close>

section \<open>The registry\<close>

type_synonym tool_handler = "json \<Rightarrow> account \<Rightarrow> api_token \<Rightarrow> string + json"

record tool_registry =
  tr_defs :: "(string \<times> tool_def) list"
  tr_handlers :: "(string \<times> tool_handler) list"

text \<open>The decorator: a name that is taken keeps its first registration.\<close>

definition register_tool :: "tool_def \<times> tool_handler \<Rightarrow> tool_registry \<Rightarrow> tool_registry" where
  "register_tool p reg =
     (case p of (td, fn) \<Rightarrow>
        if map_of (tr_defs reg) (td_name td) \<noteq> None then reg
        else reg\<lparr>tr_defs := tr_defs reg @ [(td_name td, td)],
                 tr_handlers := dict_set (td_name td) fn (tr_handlers reg)\<rparr>)"

definition lookup_tool :: "tool_registry \<Rightarrow> string \<Rightarrow> (tool_def \<times> tool_handler) option" where
  "lookup_tool reg name =
     (case (map_of (tr_defs reg) name, map_of (tr_handlers reg) name) of
        (Some td, Some fn) \<Rightarrow> Some (td, fn)
      | _ \<Rightarrow> None)"

text \<open>Registries built by the decorator: the two dicts have the same keys.\<close>

definition registry_ok :: "tool_registry \<Rightarrow> bool" where
  "registry_ok reg \<longleftrightarrow>
     list_all (\<lambda>(n, td). map_of (tr_handlers reg) n \<noteq> None \<and> td_name td = n) (tr_defs reg) \<and>
     list_all (\<lambda>(n, fn). map_of (tr_defs reg) n \<noteq> None) (tr_handlers reg)"

section \<open>The dispatcher\<close>

record mcp_env =
  me_tokens :: token_env
  me_versions :: "string list"
  me_name :: string
  me_version :: string
  me_dumps :: "json \<Rightarrow> string"

datatype rpc_reply =
    Rpc_Error json int string nat
  | Rpc_Result json json
  | Rpc_Accepted
  | Rpc_Crash

definition RPC_PARSE_ERROR :: int where "RPC_PARSE_ERROR = -32700"
definition RPC_INVALID_REQUEST :: int where "RPC_INVALID_REQUEST = -32600"
definition RPC_METHOD_NOT_FOUND :: int where "RPC_METHOD_NOT_FOUND = -32601"
definition RPC_INTERNAL_ERROR :: int where "RPC_INTERNAL_ERROR = -32603"

definition negotiate_protocol_version :: "mcp_env \<Rightarrow> string \<Rightarrow> string option" where
  "negotiate_protocol_version env client_version =
     (if client_version \<noteq> '''' \<and> client_version \<in> set (me_versions env) then Some client_version
      else (case me_versions env of v # _ \<Rightarrow> Some v | [] \<Rightarrow> None))"

definition server_info :: "mcp_env \<Rightarrow> json" where
  "server_info env = JObj [(''name'', JStr (me_name env)), (''version'', JStr (me_version env))]"

definition capabilities :: json where
  "capabilities =
     JObj [(''tools'', JObj [(''listChanged'', JBool False)]), (''resources'', JObj [(''listChanged'', JBool False)]),
           (''prompts'', JObj [(''listChanged'', JBool False)])]"

text \<open>\<open>(d.get(k) or "").strip()\<close>; \<open>None\<close> when the value has no \<open>strip\<close>.\<close>

definition stripped_text :: "string \<Rightarrow> (string \<times> json) list \<Rightarrow> string option" where
  "stripped_text k d =
     (let v = json_get k JNull d in
      if \<not> json_truthy v then Some ''''
      else (case v of JStr s \<Rightarrow> Some (strip s) | _ \<Rightarrow> None))"

text \<open>The methods that need no authentication; \<open>None\<close> for the others.\<close>

definition open_method :: "mcp_env \<Rightarrow> string \<Rightarrow> json \<Rightarrow> (string \<times> json) list \<Rightarrow> rpc_reply option" where
  "open_method env verb rpc_id params =
     (if startswith verb ''notifications/'' then Some Rpc_Accepted
      else if verb = ''initialize'' then
        Some (case stripped_text ''protocolVersion'' params of
                None \<Rightarrow> Rpc_Crash
              | Some v \<Rightarrow>
                 (case negotiate_protocol_version env v of
                    None \<Rightarrow> Rpc_Crash
                  | Some negotiated \<Rightarrow>
                      Rpc_Result rpc_id (JObj [(''protocolVersion'', JStr negotiated),
                        (''serverInfo'', server_info env), (''capabilities'', capabilities)])))
      else if verb = ''ping'' then Some (Rpc_Result rpc_id (JObj []))
      else if verb = ''resources/list'' then Some (Rpc_Result rpc_id (JObj [(''resources'', JList [])]))
      else if verb = ''prompts/list'' then Some (Rpc_Result rpc_id (JObj [(''prompts'', JList [])]))
      else None)"

definition tool_listed :: "account \<Rightarrow> api_token \<Rightarrow> tool_def \<Rightarrow> bool" where
  "tool_listed u t td \<longleftrightarrow>
     check_tool_access t (Some u) td [] = None \<and>
     (case td_visible td of None \<Rightarrow> True | Some visible \<Rightarrow> visible u = Some True)"

definition tools_list :: "tool_registry \<Rightarrow> account \<Rightarrow> api_token \<Rightarrow> tool_def list" where
  "tools_list reg u t = filter (tool_listed u t) (map snd (tr_defs reg))"

definition tool_entry :: "tool_def \<Rightarrow> json" where
  "tool_entry td =
     JObj [(''name'', JStr (td_name td)), (''description'', JStr (td_description td)), (''inputSchema'', td_schema td)]"

definition is_error_value :: "json \<Rightarrow> bool" where
  "is_error_value v = (case v of JObj d \<Rightarrow> map_of d ''error'' \<noteq> None | _ \<Rightarrow> False)"

text \<open>What a call comes to: the handler that is run with its arguments, or the reply without one.\<close>

definition select_tool ::
    "tool_registry \<Rightarrow> account \<Rightarrow> api_token \<Rightarrow> json \<Rightarrow> (string \<times> json) list \<Rightarrow> rpc_reply + (string \<times> tool_handler \<times> json)" where
  "select_tool reg u t rpc_id params =
     (case stripped_text ''name'' params of
        None \<Rightarrow> Inl Rpc_Crash
      | Some name \<Rightarrow>
         (let given = json_get ''arguments'' JNull params;
              args = (if json_truthy given then given else JObj [])
          in (case map_of (tr_defs reg) name of
              None \<Rightarrow> Inl (Rpc_Error rpc_id RPC_METHOD_NOT_FOUND (''Unknown tool: '' @ name) 200)
            | Some td \<Rightarrow>
               (case check_tool_access t (Some u) td [] of
                  Some deny \<Rightarrow> Inl (Rpc_Error rpc_id RPC_INVALID_REQUEST (''Forbidden: '' @ deny) 403)
                | None \<Rightarrow>
                   (case map_of (tr_handlers reg) name of
                      None \<Rightarrow> Inl (Rpc_Error rpc_id RPC_INTERNAL_ERROR (''Tool '' @ name @ '' has no handler'') 200)
                    | Some fn \<Rightarrow> Inr (name, fn, args))))))"

definition run_tool :: "mcp_env \<Rightarrow> account \<Rightarrow> api_token \<Rightarrow> json \<Rightarrow> string \<times> tool_handler \<times> json \<Rightarrow> rpc_reply" where
  "run_tool env u t rpc_id call =
     (case call of (name, fn, args) \<Rightarrow>
       (case fn args u t of
          Inl exn \<Rightarrow> Rpc_Error rpc_id RPC_INTERNAL_ERROR (''Tool '' @ name @ '' raised: '' @ exn) 200
        | Inr v \<Rightarrow>
            Rpc_Result rpc_id
              (JObj [(''content'', JList [JObj [(''type'', JStr ''text''), (''text'', JStr (me_dumps env v))]]),
                     (''isError'', JBool (is_error_value v))])))"

text \<open>The methods behind authentication.\<close>

definition guarded_method ::
    "mcp_env \<Rightarrow> tool_registry \<Rightarrow> account \<Rightarrow> api_token \<Rightarrow> string \<Rightarrow> json \<Rightarrow> (string \<times> json) list \<Rightarrow> rpc_reply" where
  "guarded_method env reg u t verb rpc_id params =
     (if verb = ''tools/list'' then
        Rpc_Result rpc_id (JObj [(''tools'', JList (map tool_entry (tools_list reg u t)))])
      else if verb = ''tools/call'' then
        (case select_tool reg u t rpc_id params of
           Inl reply \<Rightarrow> reply
         | Inr call \<Rightarrow> run_tool env u t rpc_id call)
      else Rpc_Error rpc_id RPC_METHOD_NOT_FOUND (''Method not found: '' @ verb) 200)"

text \<open>\<open>McpHttpView.post\<close>: the body, the parameters, the open methods, then the caller.\<close>

definition mcp_post ::
    "mcp_env \<Rightarrow> tool_registry \<Rightarrow> instant \<Rightarrow> string \<Rightarrow> http_body \<Rightarrow> auth_db \<Rightarrow> auth_db \<times> rpc_reply" where
  "mcp_post env reg now header body db =
     (case (case body of No_Body \<Rightarrow> Json_Body (JObj []) | b \<Rightarrow> b) of
        Json_Body (JObj payload) \<Rightarrow>
         (let rpc_id = json_get ''id'' JNull payload;
              given = json_get ''params'' JNull payload
          in (case (if json_truthy given then given else JObj []) of
              JObj params \<Rightarrow>
               (case json_get ''method'' (JStr '''') payload of
                  JStr verb \<Rightarrow>
                   (case open_method env verb rpc_id params of
                      Some reply \<Rightarrow> (db, reply)
                    | None \<Rightarrow>
                       (case mcp_authenticate (me_tokens env) now header db of
                          None \<Rightarrow> (db, Rpc_Crash)
                        | Some (db', Inl reason) \<Rightarrow>
                            (db', Rpc_Error rpc_id RPC_INVALID_REQUEST (''Unauthorized: '' @ reason) 401)
                        | Some (db', Inr (u, t)) \<Rightarrow> (db', guarded_method env reg u t verb rpc_id params)))
                | _ \<Rightarrow> (db, Rpc_Crash))
            | _ \<Rightarrow> (db, Rpc_Error rpc_id RPC_INVALID_REQUEST ''Invalid Request: params must be an object'' 400)))
      | Json_Body _ \<Rightarrow>
          (db, Rpc_Error JNull RPC_INVALID_REQUEST ''Invalid Request: body must be a JSON object'' 400)
      | _ \<Rightarrow> (db, Rpc_Error JNull RPC_PARSE_ERROR ''Parse error'' 400))"

section \<open>Tools of a CRUD view\<close>

datatype crud_action = Act_List | Act_Detail | Act_Create | Act_Update | Act_Delete

record crud_tools =
  ct_enabled :: bool
  ct_has_model :: bool
  ct_actions :: "crud_action list"
  ct_mcp_actions :: "crud_action list option"
  ct_mixins :: "mixin list"
  ct_plural :: string    \<comment> \<open>\<open>mcp_plural\<close>, \<open>url_base\<close> or the verbose name, the first that is set\<close>
  ct_singular :: string

definition tool_slug :: "string \<Rightarrow> string" where
  "tool_slug s = map (\<lambda>c. if c \<in> {CHR '' '', CHR ''/'', CHR ''-''} then CHR ''_'' else c) (py_lower s)"

fun tool_name :: "crud_tools \<Rightarrow> crud_action \<Rightarrow> string" where
  "tool_name cv Act_List = ''list_'' @ tool_slug (ct_plural cv)"
| "tool_name cv Act_Detail = ''get_'' @ tool_slug (ct_singular cv)"
| "tool_name cv Act_Create = ''create_'' @ tool_slug (ct_singular cv)"
| "tool_name cv Act_Update = ''update_'' @ tool_slug (ct_singular cv)"
| "tool_name cv Act_Delete = ''delete_'' @ tool_slug (ct_singular cv)"

definition write_action :: "crud_action \<Rightarrow> bool" where
  "write_action a \<longleftrightarrow> a \<in> {Act_Create, Act_Update, Act_Delete}"

definition has_staff_mixin :: "crud_tools \<Rightarrow> bool" where
  "has_staff_mixin cv = list_ex staff_mixin (ct_mixins cv)"

text \<open>The definition the builders register; the description and the schema are arguments.\<close>

definition action_tool :: "crud_tools \<Rightarrow> crud_action \<Rightarrow> string \<Rightarrow> json \<Rightarrow> tool_def" where
  "action_tool cv a description schema =
     \<lparr>td_name = tool_name cv a, td_description = description, td_schema = schema, td_write = write_action a,
      td_requires = (if has_staff_mixin cv then Some ''staff'' else None), td_visible = None\<rparr>"

definition mcp_action_list :: "crud_tools \<Rightarrow> crud_action list" where
  "mcp_action_list cv =
     (if \<not> ct_enabled cv \<or> \<not> ct_has_model cv then []
      else (let selected = (case ct_mcp_actions cv of Some xs \<Rightarrow> xs | None \<Rightarrow> ct_actions cv) in
        filter (\<lambda>a. a \<in> set (ct_actions cv) \<and> a \<in> set selected)
          [Act_List, Act_Detail, Act_Create, Act_Update, Act_Delete]))"

definition register_view_tools ::
    "crud_tools \<Rightarrow> (crud_action \<Rightarrow> string \<times> json \<times> tool_handler) \<Rightarrow> tool_registry \<Rightarrow> tool_registry \<times> string list" where
  "register_view_tools cv built reg =
     (let acts = mcp_action_list cv;
          made = map (\<lambda>a. case built a of (d, s, fn) \<Rightarrow> (action_tool cv a d s, fn)) acts;
          reg' = fold register_tool made reg
      in (reg', filter (\<lambda>n. map_of (tr_defs reg') n \<noteq> None) (map (tool_name cv) acts)))"

subsection \<open>Arguments of the generated tools\<close>

text \<open>The row limit of a list tool.\<close>

definition tool_limit :: "(string \<times> json) list \<Rightarrow> int" where
  "tool_limit args =
     (let v = json_get ''limit'' JNull args in
      if \<not> json_truthy v then max 1 (min 50 200)
      else (case json_int v of Some n \<Rightarrow> max 1 (min n 200) | None \<Rightarrow> 50))"

text \<open>The identifier of a single-object tool: \<open>id\<close> wins over \<open>pk\<close>.\<close>

definition object_id :: "(string \<times> json) list \<Rightarrow> json" where
  "object_id args =
     (let i = json_get ''id'' JNull args in if i = JNull then json_get ''pk'' JNull args else i)"

datatype 'o fetched = Fetched 'o | Fetch_Error string

text \<open>\<open>_fetch_one\<close>: the row in the scope of the caller, or an error code. The scoped query (\<open>None\<close> when it
  finds no row or refuses the key) and the object check are the view's.\<close>

definition fetch_one :: "(json \<Rightarrow> 'o option) \<Rightarrow> ('o \<Rightarrow> bool) \<Rightarrow> (string \<times> json) list \<Rightarrow> 'o fetched" where
  "fetch_one scoped permitted args =
     (if object_id args = JNull then Fetch_Error ''invalid_argument''
      else (case scoped (object_id args) of
          None \<Rightarrow> Fetch_Error ''not_found''
        | Some obj \<Rightarrow> if permitted obj then Fetched obj else Fetch_Error ''not_found''))"

subsection \<open>Search terms\<close>

text \<open>\<open>QueryDict\<close> of a query string: fields split at \<open>&\<close>, name and value at the first \<open>=\<close>, \<open>+\<close> read
  as a blank, percent escapes decoded by \<open>unquote\<close> (a parameter); a field without \<open>=\<close> has an empty
  value, an empty field is dropped. \<open>get\<close> returns the last value.\<close>

definition plus_to_blank :: "string \<Rightarrow> string" where
  "plus_to_blank s = map (\<lambda>c. if c = CHR ''+'' then CHR '' '' else c) s"

definition query_field :: "(string \<Rightarrow> string) \<Rightarrow> string \<Rightarrow> string \<times> string" where
  "query_field unquote f =
     (unquote (plus_to_blank (before_char CHR ''='' f)), unquote (plus_to_blank (after_char CHR ''='' f)))"

definition query_dict :: "(string \<Rightarrow> string) \<Rightarrow> string \<Rightarrow> (string \<times> string) list" where
  "query_dict unquote s = map (query_field unquote) (filter (\<lambda>f. f \<noteq> []) (split_where (\<lambda>c. c = CHR ''&'') s))"

definition query_get :: "string \<Rightarrow> string \<Rightarrow> (string \<times> string) list \<Rightarrow> string" where
  "query_get k d pairs = (case map_of (rev pairs) k of Some v \<Rightarrow> v | None \<Rightarrow> d)"

text \<open>The term a list tool searches for: the argument is put into a query string as it is and read
  back by \<open>apply_search\<close>; the empty text stands for no search.\<close>

definition tool_search_term :: "(string \<Rightarrow> string) \<Rightarrow> (string \<times> json) list \<Rightarrow> string" where
  "tool_search_term unquote args =
     (case json_get ''q'' JNull args of
        JStr s \<Rightarrow>
         (let q = strip s in
          if q = '''' then '''' else strip (query_get ''q'' '''' (query_dict unquote (''q='' @ q))))
      | _ \<Rightarrow> '''')"

section \<open>The registry keeps the first registration\<close>

lemma map_of_snoc:
  "map_of (xs @ [(k, v)]) j = (case map_of xs j of Some u \<Rightarrow> Some u | None \<Rightarrow> if j = k then Some v else None)"
  by (induction xs) auto

lemma lookup_register_new:
  "map_of (tr_defs reg) (td_name (fst p)) = None \<Longrightarrow> lookup_tool (register_tool p reg) (td_name (fst p)) = Some p"
  by (cases p) (simp add: lookup_tool_def register_tool_def map_of_snoc del: map_of_append)

lemma lookup_register_other:
  "n \<noteq> td_name (fst p) \<Longrightarrow> lookup_tool (register_tool p reg) n = lookup_tool reg n"
  by (cases p) (auto simp: lookup_tool_def register_tool_def map_of_snoc simp del: map_of_append split: option.split)

text \<open>In a registry the decorator has built, a name is in both dicts or in neither.\<close>

lemma registry_keys:
  assumes "registry_ok reg"
  shows "map_of (tr_defs reg) n = None \<longleftrightarrow> map_of (tr_handlers reg) n = None"
proof
  assume "map_of (tr_handlers reg) n = None"
  with assms show "map_of (tr_defs reg) n = None"
    by (auto simp: registry_ok_def list_all_iff map_of_eq_None_iff)
next
  assume "map_of (tr_defs reg) n = None"
  with assms show "map_of (tr_handlers reg) n = None"
    by (auto simp: registry_ok_def list_all_iff map_of_eq_None_iff)
qed

lemma map_of_snoc_some: "map_of xs j \<noteq> None \<Longrightarrow> map_of (xs @ ys) j \<noteq> None"
  by (induction xs) auto

lemma dict_set_some: "map_of d j \<noteq> None \<Longrightarrow> map_of (dict_set k v d) j \<noteq> None"
  by simp

lemma registry_ok_register:
  assumes "registry_ok reg" shows "registry_ok (register_tool p reg)"
proof (cases p)
  case (Pair td fn)
  show ?thesis
  proof (cases "map_of (tr_defs reg) (td_name td) = None")
    case False
    with assms Pair show ?thesis by (simp add: register_tool_def)
  next
    case True
    let ?hs = "dict_set (td_name td) fn (tr_handlers reg)" and ?ds = "tr_defs reg @ [(td_name td, td)]"
    have "list_all (\<lambda>(n, td). map_of ?hs n \<noteq> None \<and> td_name td = n) ?ds"
      using assms by (auto simp: registry_ok_def list_all_iff)
    moreover have "map_of ?ds n \<noteq> None" if "(n, f) \<in> set ?hs" for n f
    proof -
      from that dict_set_keys [of "td_name td" fn "tr_handlers reg"]
      have "n = td_name td \<or> n \<in> fst ` set (tr_handlers reg)" by force
      then show ?thesis
      proof
        assume "n \<in> fst ` set (tr_handlers reg)"
        then have "map_of (tr_defs reg) n \<noteq> None" using assms by (auto simp: registry_ok_def list_all_iff)
        then show ?thesis by (rule map_of_snoc_some)
      qed (simp add: map_of_snoc split: option.split del: map_of_append)
    qed
    ultimately show ?thesis using True Pair
      by (auto simp: register_tool_def registry_ok_def list_all_iff simp del: map_of_append)
  qed
qed

lemma registry_ok_lookup: "registry_ok reg \<Longrightarrow> lookup_tool reg n = None \<longleftrightarrow> map_of (tr_defs reg) n = None"
  using registry_keys [of reg n] by (auto simp: lookup_tool_def split: option.splits)

text \<open>So the decorator is a first-wins registry, looked up through \<open>lookup_tool\<close> on the registries
  that satisfy \<open>registry_ok\<close> (the others are given the empty one).\<close>

definition sound_registry :: "tool_registry \<Rightarrow> tool_registry" where
  "sound_registry reg = (if registry_ok reg then reg else \<lparr>tr_defs = [], tr_handlers = []\<rparr>)"

lemma registry_ok_sound: "registry_ok (sound_registry reg)"
  by (simp add: sound_registry_def registry_ok_def)

interpretation tools: first_wins_registry
  "\<lambda>p reg. register_tool p (sound_registry reg)" "\<lambda>reg. lookup_tool (sound_registry reg)" "\<lambda>p. td_name (fst p)"
proof unfold_locales
  fix reg and p :: "tool_def \<times> tool_handler"
  assume "lookup_tool (sound_registry reg) (td_name (fst p)) = None"
  then have "map_of (tr_defs (sound_registry reg)) (td_name (fst p)) = None"
    by (simp add: registry_ok_lookup registry_ok_sound)
  then show "lookup_tool (sound_registry (register_tool p (sound_registry reg))) (td_name (fst p)) = Some p"
    using registry_ok_register [OF registry_ok_sound] by (simp add: sound_registry_def lookup_register_new)
next
  fix reg k u and p :: "tool_def \<times> tool_handler"
  assume found: "lookup_tool (sound_registry reg) k = Some u"
  show "lookup_tool (sound_registry (register_tool p (sound_registry reg))) k = Some u"
  proof (cases "k = td_name (fst p)")
    case True
    with found have "map_of (tr_defs (sound_registry reg)) (td_name (fst p)) \<noteq> None"
      by (auto simp: lookup_tool_def split: option.splits)
    then have "register_tool p (sound_registry reg) = sound_registry reg"
      by (cases p) (simp add: register_tool_def)
    then show ?thesis using found registry_ok_sound by (simp add: sound_registry_def split: if_splits)
  next
    case False
    then show ?thesis using found registry_ok_register [OF registry_ok_sound]
      by (simp add: sound_registry_def lookup_register_other)
  qed
next
  fix reg k and p :: "tool_def \<times> tool_handler"
  assume "k \<noteq> td_name (fst p)"
  then show "lookup_tool (sound_registry (register_tool p (sound_registry reg))) k = lookup_tool (sound_registry reg) k"
    using registry_ok_register [OF registry_ok_sound] by (simp add: sound_registry_def lookup_register_other)
qed

end
