(* ===== verification/Mcp_Props.thy ===== *)
theory Mcp_Props
  imports OAuth_Props Mcp_Tools
begin

text \<open>
  What the surfaces promise together: a key means the same on all of them, the generated tools are
  narrower than the REST endpoints of the same view, a tool runs only for a caller its gate lets
  through, and which requests the dispatcher does not survive.
\<close>

section \<open>One key on every surface\<close>

lemma authenticate_iff_live:
  assumes "tokens_ok issued db" "PREFIX_LENGTH \<le> length raw"
  shows "(\<exists>db' tok. authenticate env now raw db = Some (db', Some u, tok)) \<longleftrightarrow> (\<exists>t. live_key env now raw db u t)"
proof
  assume "\<exists>db' tok. authenticate env now raw db = Some (db', Some u, tok)"
  then show "\<exists>t. live_key env now raw db u t" using live_keyI by blast
next
  assume "\<exists>t. live_key env now raw db u t"
  then obtain t where t: "live_key env now raw db u t" by blast
  then have "rejection_reason db now t = None" by (simp add: live_key_def rejection_reason_None user_is_active_def)
  with authenticate_live [of t db env raw now] t assms
  show "\<exists>db' tok. authenticate env now raw db = Some (db', Some u, tok)"
    by (simp add: live_key_def tokens_ok_def)
qed

lemma rest_accepts_iff:
  assumes "bearer raw rq"
  shows "(\<exists>db' tok. authenticate_api_request env now rq db = (db', Inr (u, tok))) \<longleftrightarrow>
    (\<exists>db' tok. authenticate env now raw db = Some (db', Some u, tok))"
  using bearer_key [OF assms] by (auto simp: authenticate_api_request_def split: option.split)

lemma authenticate_token:
  "authenticate env now raw db = Some (db', Some u, tok) \<Longrightarrow> \<exists>t. tok = Some t"
  using live_keyI by blast

lemma mcp_accepts_iff:
  assumes "no_blanks raw" "raw \<noteq> ''''"
  shows "(\<exists>db' t. mcp_authenticate env now (''Bearer '' @ raw) db = Some (db', Inr (u, t))) \<longleftrightarrow>
    (\<exists>db' tok. authenticate env now raw db = Some (db', Some u, tok))"
  using assms(2) strip_no_blanks [OF assms(1)] authenticate_token [of env now raw db]
  by (fastforce simp: mcp_authenticate_def startswith_def Let_def split: option.splits)

lemma feed_accepts_iff:
  assumes "no_blanks raw" "raw \<noteq> ''''"
  shows "(\<exists>db'. feed_user env now None (''Bearer '' @ raw) '''' db = (db', Some u)) \<longleftrightarrow>
    (\<exists>db' tok. authenticate env now raw db = Some (db', Some u, tok))"
proof -
  have "startswith (py_lower (''Bearer '' @ raw)) ''bearer ''"
  proof -
    have "py_lower (''Bearer '' @ raw) = py_lower ''Bearer '' @ py_lower raw" by (simp add: py_lower_def)
    moreover have "py_lower ''Bearer '' = ''bearer ''" by code_simp
    ultimately show ?thesis by (simp add: startswith_def)
  qed
  then have "feed_key (''Bearer '' @ raw) '''' = raw"
    using assms(2) strip_no_blanks [OF assms(1)] by (simp add: feed_key_def Let_def)
  then show ?thesis using assms(2) by (auto simp: feed_user_def split: option.splits)
qed

text \<open>C29: A key means the same everywhere. REST, the MCP server and the feeds accept a bearer key
  exactly when it belongs to a token that is active, not revoked, not expired and whose owner's
  account is active, and they act as that owner.\<close>

theorem key_means_same_everywhere:
  assumes "tokens_ok issued db" "no_blanks raw" "PREFIX_LENGTH \<le> length raw" "bearer raw rq"
  shows "((\<exists>db' tok. authenticate_api_request env now rq db = (db', Inr (u, tok))) \<longleftrightarrow> (\<exists>t. live_key env now raw db u t)) \<and>
    ((\<exists>db' t. mcp_authenticate env now (''Bearer '' @ raw) db = Some (db', Inr (u, t))) \<longleftrightarrow> (\<exists>t. live_key env now raw db u t)) \<and>
    ((\<exists>db'. feed_user env now None (''Bearer '' @ raw) '''' db = (db', Some u)) \<longleftrightarrow> (\<exists>t. live_key env now raw db u t))"
proof -
  have "raw \<noteq> ''''" using assms(3) by (auto simp: PREFIX_LENGTH_def)
  then show ?thesis
    using rest_accepts_iff [OF assms(4)] mcp_accepts_iff [OF assms(2)] feed_accepts_iff [OF assms(2)]
      authenticate_iff_live [OF assms(1,3)] by simp
qed

section \<open>The gates\<close>

lemma level_rank_staff: "\<not> level_rank l < 2 \<longleftrightarrow> l = ''staff''"
  by (simp add: level_rank_def)

text \<open>The tools generated from a view never let through more than its REST endpoints, and it is
  known what less: a generated tool is open to a token exactly when the REST endpoint is open to
  it for the same kind of action and, on a view for staff, the token's level is staff (of its own or,
  for a login token, through its owner).\<close>

theorem generated_tools_narrower:
  assumes "write_action a \<longleftrightarrow> verb \<notin> set safe_methods"
  shows "check_tool_access t (Some u) (action_tool cv a desc schema) [] = None \<longleftrightarrow>
    check_api_permissions u (Some t) (ct_mixins cv) verb = None \<and>
    (has_staff_mixin cv \<longrightarrow> effective_level t (Some u) = ''staff'')"
proof (cases "has_staff_mixin cv")
  case True
  then have m: "list_ex staff_mixin (ct_mixins cv)" by (simp add: has_staff_mixin_def)
  have two: "level_rank ''staff'' = 2" by (simp add: level_rank_def)
  show ?thesis
    using True m assms level_rank_staff [of "effective_level t (Some u)"]
    by (auto simp: check_tool_access_def action_tool_def truthy_text_def two check_api_permissions_def
        read_only_write_def user_is_staff_def)
next
  case False
  then have "\<not> list_ex staff_mixin (ct_mixins cv)" by (simp add: has_staff_mixin_def)
  with False assms show ?thesis
    by (simp add: check_tool_access_def action_tool_def truthy_text_def check_api_permissions_def read_only_write_def)
qed

text \<open>A token of the level \<open>auth\<close> is refused on the tools of a staff view, whoever owns it.\<close>

lemma auth_level_refused:
  "ak_level t = ''auth'' \<Longrightarrow> has_staff_mixin cv \<Longrightarrow>
     check_tool_access t u (action_tool cv a desc schema) [] = Some ''access_required:staff''"
  by (simp add: check_tool_access_def action_tool_def truthy_text_def effective_level_def level_rank_def)

lemma tool_access_stamped: "check_tool_access (stamp_use now t) u td ms = check_tool_access t u td ms"
proof -
  have "effective_level (stamp_use now t) u = effective_level t u" "ak_level (stamp_use now t) = ak_level t"
    by (simp_all add: effective_level_def stamp_use_def)
  then show ?thesis by (simp only: check_tool_access_def)
qed

lemma tool_access_None:
  assumes "check_tool_access t (Some u) td [] = None"
  shows "(td_write td \<longrightarrow> ak_level t \<noteq> ''readonly'') \<and> (td_requires td = Some ''staff'' \<longrightarrow> acc_staff u)"
  using assms
  by (auto simp: check_tool_access_def truthy_text_def user_is_staff_def split: option.splits if_splits)

lemma select_tool_Inr:
  assumes "select_tool reg u t rpc_id params = Inr (name, fn, args)"
  shows "\<exists>td. map_of (tr_defs reg) name = Some td \<and> map_of (tr_handlers reg) name = Some fn \<and>
    check_tool_access t (Some u) td [] = None"
  using assms by (auto simp: select_tool_def Let_def split: option.splits)

text \<open>Replies by their shape: a result with content comes from a tool that ran.\<close>

definition tool_reply :: "rpc_reply \<Rightarrow> json \<Rightarrow> json \<Rightarrow> bool" where
  "tool_reply reply content is_error \<longleftrightarrow>
     (\<exists>rpc_id. reply = Rpc_Result rpc_id (JObj [(''content'', content), (''isError'', is_error)]))"

lemma not_tool_reply [simp]: "\<not> tool_reply (Rpc_Error i e m n) c x" "\<not> tool_reply Rpc_Crash c x"
  by (simp_all add: tool_reply_def)

lemma select_tool_Inl: "select_tool reg u t rpc_id params = Inl reply \<Longrightarrow> \<not> tool_reply reply c e"
  by (auto simp: select_tool_def tool_reply_def Let_def split: option.splits)

lemma open_method_no_tool: "open_method env verb rpc_id params = Some reply \<Longrightarrow> \<not> tool_reply reply c e"
  by (auto simp: open_method_def tool_reply_def split: if_splits option.splits)

lemma guarded_tool:
  assumes "tool_reply (guarded_method env reg u t verb rpc_id params) c e"
  shows "\<exists>name fn args v. select_tool reg u t rpc_id params = Inr (name, fn, args) \<and> fn args u t = Inr v \<and>
    e = JBool (is_error_value v)"
proof -
  from assms have call: "verb = ''tools/call''"
    by (auto simp: guarded_method_def tool_reply_def split: if_splits)
  show ?thesis
  proof (cases "select_tool reg u t rpc_id params")
    case (Inl reply)
    with select_tool_Inl [OF Inl] assms call show ?thesis by (simp add: guarded_method_def)
  next
    case (Inr p)
    obtain name fn args where p: "p = (name, fn, args)" by (cases p)
    with assms call Inr show ?thesis
      by (cases "fn args u t") (auto simp: guarded_method_def run_tool_def tool_reply_def)
  qed
qed

text \<open>C30: A tool runs only behind its gate. Whenever a request is answered with the result of a tool,
  its bearer key is live, the tool is registered and its gate lets the token through: a tool that
  writes never runs for a readonly token, a staff tool never for an account that is not staff now;
  and a value that carries an error is flagged as one.\<close>

theorem tools_run_behind_their_gate:
  assumes "mcp_post env reg now header body db = (db', reply)" "tool_reply reply content is_error"
  shows "\<exists>u t name td fn args v. live_key (me_tokens env) now (strip (drop 7 header)) db u t \<and>
    map_of (tr_defs reg) name = Some td \<and> map_of (tr_handlers reg) name = Some fn \<and>
    check_tool_access t (Some u) td [] = None \<and> fn args u (stamp_use now t) = Inr v \<and>
    (td_write td \<longrightarrow> ak_level t \<noteq> ''readonly'') \<and> (td_requires td = Some ''staff'' \<longrightarrow> acc_staff u) \<and>
    is_error = JBool (is_error_value v)"
proof -
  have "\<exists>rpc_id params verb u t. mcp_authenticate (me_tokens env) now header db = Some (db', Inr (u, t)) \<and>
    reply = guarded_method env reg u t verb rpc_id params"
    using assms open_method_no_tool [of env]
    by (auto simp: mcp_post_def Let_def split: http_body.splits json.splits option.splits sum.splits if_splits prod.splits)
  then obtain rpc_id params verb u t where m: "mcp_authenticate (me_tokens env) now header db = Some (db', Inr (u, t))"
    and g: "reply = guarded_method env reg u t verb rpc_id params" by blast
  from mcp_caller [OF m] obtain t0 where t0: "t = stamp_use now t0" "live_key (me_tokens env) now (strip (drop 7 header)) db u t0" by blast
  from guarded_tool [OF assms(2) [unfolded g]] obtain name fn args v where
    s: "select_tool reg u t rpc_id params = Inr (name, fn, args)" "fn args u t = Inr v" "is_error = JBool (is_error_value v)" by blast
  from select_tool_Inr [OF s(1)] obtain td where td: "map_of (tr_defs reg) name = Some td"
    "map_of (tr_handlers reg) name = Some fn" "check_tool_access t0 (Some u) td [] = None"
    by (auto simp: t0(1) tool_access_stamped)
  with tool_access_None [OF td(3)] t0 s show ?thesis by blast
qed

section \<open>Requests the dispatcher does not survive\<close>

definition is_text :: "json \<Rightarrow> bool" where
  "is_text v \<longleftrightarrow> (case v of JStr s \<Rightarrow> True | _ \<Rightarrow> False)"

definition rpc_params :: "(string \<times> json) list \<Rightarrow> (string \<times> json) list option" where
  "rpc_params payload =
     (let given = json_get ''params'' JNull payload in
      case (if json_truthy given then given else JObj []) of JObj d \<Rightarrow> Some d | _ \<Rightarrow> None)"

lemma mcp_post_object:
  "mcp_post env reg now header (Json_Body (JObj payload)) db =
     (case rpc_params payload of
        None \<Rightarrow> (db, Rpc_Error (json_get ''id'' JNull payload) RPC_INVALID_REQUEST
                  ''Invalid Request: params must be an object'' 400)
      | Some params \<Rightarrow>
         (case json_get ''method'' (JStr '''') payload of
            JStr verb \<Rightarrow>
             (case open_method env verb (json_get ''id'' JNull payload) params of
                Some reply \<Rightarrow> (db, reply)
              | None \<Rightarrow>
                 (case mcp_authenticate (me_tokens env) now header db of
                    None \<Rightarrow> (db, Rpc_Crash)
                  | Some (db', Inl reason) \<Rightarrow>
                      (db', Rpc_Error (json_get ''id'' JNull payload) RPC_INVALID_REQUEST (''Unauthorized: '' @ reason) 401)
                  | Some (db', Inr (u, t)) \<Rightarrow>
                      (db', guarded_method env reg u t verb (json_get ''id'' JNull payload) params)))
          | _ \<Rightarrow> (db, Rpc_Crash)))"
  unfolding mcp_post_def rpc_params_def Let_def
  by (cases "if json_truthy (json_get ''params'' JNull payload) then json_get ''params'' JNull payload else JObj []") simp_all

text \<open>C31: Anybody can make the dispatcher fail with an uncaught exception: without a bearer key, a
  request whose body is an object ends that way exactly when its method is not a string, or when it
  is an initialize whose protocol version is a value other than a string. (The body check before it
  was added to stop unauthenticated requests from raising.)\<close>

theorem unauthenticated_crashes:
  assumes "\<not> startswith header ''Bearer ''" "me_versions env \<noteq> []"
  shows "snd (mcp_post env reg now header (Json_Body (JObj payload)) db) = Rpc_Crash \<longleftrightarrow>
    (case rpc_params payload of
       None \<Rightarrow> False
     | Some params \<Rightarrow>
         \<not> is_text (json_get ''method'' (JStr '''') payload) \<or>
         json_get ''method'' (JStr '''') payload = JStr ''initialize'' \<and>
         json_truthy (json_get ''protocolVersion'' JNull params) \<and> \<not> is_text (json_get ''protocolVersion'' JNull params))"
proof -
  have auth: "mcp_authenticate (me_tokens env) now header db = Some (db, Inl ''missing_bearer'')"
    using assms(1) by (simp add: mcp_authenticate_def)
  obtain v vs where versions: "me_versions env = v # vs" using assms(2) by (cases "me_versions env") auto
  have negotiated: "negotiate_protocol_version env x \<noteq> None" for x
    by (simp add: negotiate_protocol_version_def versions)
  have opened: "open_method env verb rpc_id params = Some Rpc_Crash \<longleftrightarrow>
      verb = ''initialize'' \<and> json_truthy (json_get ''protocolVersion'' JNull params) \<and>
      \<not> is_text (json_get ''protocolVersion'' JNull params)" for verb rpc_id params
  proof (cases "verb = ''initialize''")
    case False
    then have "open_method env verb rpc_id params \<noteq> Some Rpc_Crash" unfolding open_method_def by simp
    with False show ?thesis by simp
  next
    case True
    let ?v = "json_get ''protocolVersion'' JNull params"
    have "open_method env verb rpc_id params = Some (case stripped_text ''protocolVersion'' params of
        None \<Rightarrow> Rpc_Crash
      | Some v \<Rightarrow> Rpc_Result rpc_id (JObj [(''protocolVersion'', JStr (the (negotiate_protocol_version env v))),
                        (''serverInfo'', server_info env), (''capabilities'', capabilities)]))"
    proof (cases "stripped_text ''protocolVersion'' params")
      case (Some x)
      with negotiated [of x] True show ?thesis by (auto simp: open_method_def startswith_def)
    qed (use True in \<open>simp add: open_method_def startswith_def\<close>)
    then have "open_method env verb rpc_id params = Some Rpc_Crash \<longleftrightarrow> stripped_text ''protocolVersion'' params = None"
      by (simp split: option.split)
    also have "\<dots> \<longleftrightarrow> json_truthy ?v \<and> \<not> is_text ?v"
      by (cases ?v) (simp_all add: stripped_text_def is_text_def Let_def)
    finally show ?thesis using True by simp
  qed
  show ?thesis
  proof (cases "rpc_params payload")
    case None
    then show ?thesis by (simp add: mcp_post_object)
  next
    case (Some d)
    show ?thesis
    proof (cases "json_get ''method'' (JStr '''') payload")
      case (JStr verb)
      have "snd (mcp_post env reg now header (Json_Body (JObj payload)) db) = Rpc_Crash \<longleftrightarrow>
          open_method env verb (json_get ''id'' JNull payload) d = Some Rpc_Crash"
        using Some JStr auth by (simp add: mcp_post_object split: option.split)
      with opened Some JStr show ?thesis by (simp add: is_text_def)
    qed (use Some in \<open>simp_all add: mcp_post_object is_text_def\<close>)
  qed
qed

section \<open>Search terms of the generated tools\<close>

text \<open>A term with an ampersand is cut off there, a plus sign is read as a blank.\<close>

lemma search_term_cut:
  "tool_search_term (\<lambda>s. s) [(''q'', JStr ''AT&T'')] = ''AT''"
  "tool_search_term (\<lambda>s. s) [(''q'', JStr ''C++ guide'')] = ''C   guide''"
  by code_simp+

end
