(* ===== verification/Credential_Witnesses.thy ===== *)
theory Credential_Witnesses
  imports Mcp_Props
begin

text \<open>
  Concrete inputs of the properties of the credential layer: an environment, an account, and the
  states after a consent, after its code was paid out, after the key was revoked.
\<close>

section \<open>An environment and an account\<close>

definition demo_env :: token_env where
  "demo_env = \<lparr>tv_sha256 = (\<lambda>s. s), tv_check_password = (\<lambda>h p. p = JStr h), tv_make_password = (\<lambda>p. p),
     tv_password_errors = (\<lambda>_ _. []), tv_iexact = (=), tv_model_backend = (\<lambda>_ _ _. None),
     tv_normalize_email = (\<lambda>e. e), tv_str = (\<lambda>_. ''''), tv_isoformat = (\<lambda>_. ''''), tv_expiry_hours = 24,
     tv_max_hours = 168, tv_register_enabled = True, tv_lockout_seconds = 900, tv_name_prefix = ''MCP'',
     tv_code_ttl = 600\<rparr>"

definition demo_account :: account where
  "demo_account = \<lparr>acc_id = 1, acc_username = ''ann'', acc_email = None, acc_first_name = '''', acc_last_name = '''',
     acc_password = ''pw'', acc_staff = True, acc_superuser = False, acc_active = True\<rparr>"

definition demo_raw :: string where "demo_raw = ''abcdefgh1''"

definition demo_consent :: authorize_params where
  "demo_consent = \<lparr>ap_client = ''m'', ap_redirect = ''https://c'', ap_challenge = ''YWJj'', ap_method = ''S256'',
     ap_state = ''s'', ap_scope = ''read write'', ap_decision = ''allow''\<rparr>"

definition demo_exchange :: token_params where
  "demo_exchange = \<lparr>tp_grant = ''authorization_code'', tp_code = ''k1'', tp_verifier = ''abc'', tp_client = ''m'',
     tp_redirect = ''''\<rparr>"

definition world0 :: token_world where
  "world0 = \<lparr>tw_db = \<lparr>ad_accounts = [demo_account], ad_tokens = [], ad_codes = []\<rparr>, tw_issued = [], tw_logins = [],
     tw_checked = [], tw_handed = []\<rparr>"

definition world1 :: token_world where
  "world1 = set_drawn demo_env [demo_raw] world0
     (fst (authorize_post demo_env 0 [demo_raw] ''k1'' demo_account demo_consent (tw_db world0)))"

definition demo_row :: auth_code where
  "demo_row = hd (ad_codes (tw_db world1))"

definition demo_token :: api_token where
  "demo_token = hd (ad_tokens (tw_db world1))"

definition world2 :: token_world where
  "world2 = world1\<lparr>tw_checked := [demo_row]\<rparr>"

definition world3 :: token_world where
  "world3 = world2\<lparr>tw_db := fst (token_claim 1 demo_row (tw_db world2)), tw_handed := [1]\<rparr>"

definition world4 :: token_world where
  "world4 = set_db world1 (fst (oauth_revoke demo_env 5 demo_raw (tw_db world1)))"

lemma demo_backend: "backend_ok demo_env"
  by (simp add: backend_ok_def demo_env_def)

lemma world0_reachable: "token_reachable demo_env world0"
  unfolding world0_def by (rule token_reachable.start) simp

lemma demo_fresh: "fresh_draws demo_env (tw_issued world0) [demo_raw]"
  by code_simp

lemma world1_reachable: "token_reachable demo_env world1"
  unfolding world1_def
proof (rule token_reachable.step [OF world0_reachable token_step.consent])
  show "account_by_id (tw_db world0) (acc_id demo_account) = Some demo_account" by code_simp
qed (rule demo_fresh)

lemma world1_code: "snd (authorize_post demo_env 0 [demo_raw] ''k1'' demo_account demo_consent (tw_db world0)) =
    Code_Redirect ''https://c'' ''k1'' ''s''"
  by code_simp

lemma world2_reachable: "token_reachable demo_env world2"
proof -
  have "token_check demo_env 1 demo_exchange (tw_db world1) = (tw_db world1, Inr demo_row)" by code_simp
  from token_reachable.step [OF world1_reachable token_step.exchange_begin [OF this]]
  have "token_reachable demo_env (world1\<lparr>tw_db := tw_db world1, tw_checked := demo_row # tw_checked world1\<rparr>)" .
  moreover have "tw_checked world1 = []" by code_simp
  ultimately show ?thesis by (simp add: world2_def)
qed

lemma world3_reachable: "token_reachable demo_env world3"
proof -
  have row: "demo_row \<in> set (tw_checked world2)" by (simp add: world2_def)
  have claim: "token_claim 1 demo_row (tw_db world2) = (fst (token_claim 1 demo_row (tw_db world2)), Access_Token demo_raw ''read write'')"
    by (rule prod_eqI) (simp, code_simp)
  have ids: "oc_id demo_row = 1" "tw_handed world2 = []" by code_simp+
  from token_reachable.step [OF world2_reachable token_step.exchange_end [OF row claim]] ids
  show ?thesis by (simp add: world3_def)
qed

lemma world4_reachable: "token_reachable demo_env world4"
  unfolding world4_def by (rule token_reachable.step [OF world1_reachable token_step.oauth_revoked])

section \<open>Witnesses\<close>


theorem code_paid_out_once_witness:
  "token_claim 2 demo_row (tw_db world3) = (tw_db world3, Invalid_Grant ''Code already used'')"
proof -
  have "demo_row \<in> set (tw_checked world3)" "oc_id demo_row \<in> set (tw_handed world3)"
    by (simp_all add: world3_def world2_def) code_simp
  from code_paid_out_once [OF demo_backend world3_reachable this] show ?thesis by blast
qed

theorem ended_keys_stay_dead_witness:
  "dead_key demo_env (set_db world4 (fst (admin_revoke_tokens 9 [1] (tw_db world4)))) demo_raw"
proof -
  have "dead_key demo_env world4 demo_raw" by code_simp
  moreover have "token_steps demo_env world4 (set_db world4 (fst (admin_revoke_tokens 9 [1] (tw_db world4))))"
    by (rule token_steps.more [OF token_steps.none token_step.admin])
  ultimately show ?thesis using ended_keys_stay_dead [OF demo_backend world4_reachable] by blast
qed

definition demo_request :: api_request where
  "demo_request = \<lparr>rq_method = ''POST'', rq_authorization = ''Bearer '' @ demo_raw, rq_session = None,
     rq_content_type = '''', rq_body = No_Body\<rparr>"

definition demo_draw :: string where "demo_draw = ''zyxwvuts2''"

theorem credentials_are_ended_witness:
  "dead_key demo_env (set_db world1 (fst (api_auth_logout demo_env 7 demo_request (tw_db world1)))) demo_raw"
proof -
  have t: "demo_token \<in> set (ad_tokens (tw_db world1))" "key_matches demo_env demo_raw demo_token"
    "PREFIX_LENGTH \<le> length demo_raw" "fresh_draws demo_env (tw_issued world1) [demo_draw]"
    by code_simp+
  have b: "bearer demo_raw demo_request" by (simp add: bearer_def demo_request_def)
  have "api_auth_logout demo_env 7 demo_request (tw_db world1) =
      (fst (api_auth_logout demo_env 7 demo_request (tw_db world1)), Message ''Logged out'')"
    by (rule prod_eqI) (simp, code_simp)
  with credentials_are_ended [OF demo_backend world1_reachable t(1-3) b t(4)] show ?thesis by blast
qed

definition demo_form :: token_form where
  "demo_form = \<lparr>tf_user = Some 1, tf_name = ''ci'', tf_description = '''', tf_level = ''staff'', tf_expires = Some None\<rparr>"

theorem minted_levels_capped_witness:
  "\<exists>db' t. token_create demo_env 0 [demo_raw] demo_account demo_form None (tw_db world0) = Some (db', Some demo_raw, Inr 1) \<and>
     ad_tokens db' = [t] \<and> ak_type t = Manual_Token"
proof -
  let ?r = "token_create demo_env 0 [demo_raw] demo_account demo_form None (tw_db world0)"
  have "map_option snd ?r = Some (Some demo_raw, Inr 1)" by code_simp
  then obtain db' where r: "?r = Some (db', Some demo_raw, Inr 1)" by auto
  moreover have "ad_tokens (tw_db world0) = []" by code_simp
  ultimately show ?thesis using minted_levels_capped [OF r] by auto
qed

theorem code_exchange_exact_witness:
  "\<exists>db'. oauth_token demo_env 1 demo_exchange (tw_db world1) = (db', Access_Token demo_raw ''read write'')"
proof -
  have "codes_ok demo_env (tw_db world1)" "demo_row \<in> set (ad_codes (tw_db world1))"
    "may_exchange demo_env 1 demo_exchange demo_row" "oc_raw_key demo_row = demo_raw" "demo_raw \<noteq> ''''"
    "''read write'' = (if oc_scope demo_row = '''' then ''read'' else oc_scope demo_row)"
    by code_simp+
  with code_exchange_exact [of demo_env "tw_db world1" 1 demo_exchange demo_raw "''read write''"] show ?thesis by blast
qed

theorem consent_round_trip_witness:
  "\<exists>raw scope db2. oauth_token demo_env 1 demo_exchange (tw_db world1) = (db2, Access_Token raw scope) \<and>
    (\<exists>t db3. mcp_authenticate demo_env 2 (''Bearer '' @ raw) db2 = Some (db3, Inr (demo_account, t)))"
proof -
  have start: "db_ok demo_env [] (tw_db world0)" "account_by_id (tw_db world0) (acc_id demo_account) = Some demo_account"
    "acc_active demo_account" "fresh_draws demo_env [] [demo_raw]" "list_all no_blanks [demo_raw]"
    "tp_grant demo_exchange = ''authorization_code''" "tp_code demo_exchange = ''k1''"
    "tp_redirect demo_exchange \<in> {'''', ''https://c''}"
    "verify_pkce demo_env (tp_verifier demo_exchange) (ap_challenge demo_consent) ''S256'' = Some True"
    "1 \<le> 0 + secs (tv_code_ttl demo_env)"
    by code_simp+
  have reply: "authorize_post demo_env 0 [demo_raw] ''k1'' demo_account demo_consent (tw_db world0) =
      (tw_db world1, Code_Redirect ''https://c'' ''k1'' ''s'')"
    by (rule prod_eqI) (simp_all add: world1_def world1_code)
  from consent_round_trip [OF start(1-5) reply start(6-10), where later' = 2] show ?thesis by blast
qed

theorem abandoned_codes_scrubbed_witness:
  "\<nexists>db u tok. authenticate demo_env (secs 700) demo_raw (fst (expire_unredeemed_codes demo_env (secs 601) (tw_db world1))) =
     Some (db, Some u, tok)"
proof -
  have "db_ok demo_env (tw_issued world1) (tw_db world1)" "demo_row \<in> set (ad_codes (tw_db world1))"
    "stale_code demo_env (secs 601) demo_row"
    by code_simp+
  note scrub = abandoned_codes_scrubbed [OF this, of "secs 700"]
  moreover have "oc_raw_key demo_row = demo_raw" by code_simp
  ultimately show ?thesis by (simp add: Let_def)
qed

theorem key_means_same_everywhere_witness:
  "\<exists>db' t. mcp_authenticate demo_env 3 (''Bearer '' @ demo_raw) (tw_db world1) = Some (db', Inr (demo_account, t))"
proof -
  have "tokens_ok (tw_issued world1) (tw_db world1)" "no_blanks demo_raw" "PREFIX_LENGTH \<le> length demo_raw"
    by code_simp+
  moreover have "bearer demo_raw demo_request" by (simp add: bearer_def demo_request_def)
  moreover have "live_key demo_env 3 demo_raw (tw_db world1) demo_account demo_token" by code_simp
  ultimately show ?thesis
    using key_means_same_everywhere [of "tw_issued world1" "tw_db world1" demo_raw demo_request demo_env 3 demo_account] by blast
qed

definition demo_view :: crud_tools where
  "demo_view = \<lparr>ct_enabled = True, ct_has_model = True, ct_actions = [Act_List, Act_Create], ct_mcp_actions = None,
     ct_mixins = [(True, ''StaffRequiredMixin'')], ct_plural = ''jobs'', ct_singular = ''job''\<rparr>"

theorem generated_tools_narrower_witness:
  "check_tool_access demo_token (Some demo_account) (action_tool demo_view Act_Create '''' JNull) [] = None"
proof -
  have "write_action Act_Create \<longleftrightarrow> ''POST'' \<notin> set safe_methods" by code_simp
  moreover have "check_api_permissions demo_account (Some demo_token) (ct_mixins demo_view) ''POST'' = None"
    "effective_level demo_token (Some demo_account) = ''staff''"
    by code_simp+
  ultimately show ?thesis using generated_tools_narrower [of Act_Create "''POST''" demo_token demo_account demo_view] by blast
qed

definition demo_mcp :: mcp_env where
  "demo_mcp = \<lparr>me_tokens = demo_env, me_versions = [''2025-06-18''], me_name = ''s'', me_version = ''1'', me_dumps = (\<lambda>_. '''')\<rparr>"

definition demo_registry :: tool_registry where
  "demo_registry = register_tool (action_tool demo_view Act_List '''' JNull, \<lambda>args u t. Inr (JObj [(''error'', JNull)]))
     \<lparr>tr_defs = [], tr_handlers = []\<rparr>"

definition demo_call :: http_body where
  "demo_call = Json_Body (JObj [(''method'', JStr ''tools/call''), (''id'', JInt 1),
     (''params'', JObj [(''name'', JStr ''list_jobs'')])])"

theorem tools_run_behind_their_gate_witness:
  "\<exists>u t. live_key demo_env 3 demo_raw (tw_db world1) u t \<and>
    snd (mcp_post demo_mcp demo_registry 3 (''Bearer '' @ demo_raw) demo_call (tw_db world1)) =
      Rpc_Result (JInt 1) (JObj [(''content'', JList [JObj [(''type'', JStr ''text''), (''text'', JStr '''')]]), (''isError'', JBool True)])"
proof -
  let ?p = "mcp_post demo_mcp demo_registry 3 (''Bearer '' @ demo_raw) demo_call (tw_db world1)"
  have reply: "snd ?p = Rpc_Result (JInt 1)
      (JObj [(''content'', JList [JObj [(''type'', JStr ''text''), (''text'', JStr '''')]]), (''isError'', JBool True)])"
    by code_simp
  then have shape: "tool_reply (snd ?p) (JList [JObj [(''type'', JStr ''text''), (''text'', JStr '''')]]) (JBool True)"
    by (simp add: tool_reply_def)
  have "?p = (fst ?p, snd ?p)" by simp
  from tools_run_behind_their_gate [OF this shape] obtain u t where
    "live_key (me_tokens demo_mcp) 3 (strip (drop 7 (''Bearer '' @ demo_raw))) (tw_db world1) u t" by blast
  moreover have "strip (drop 7 (''Bearer '' @ demo_raw)) = demo_raw" by code_simp
  ultimately show ?thesis using reply by (auto simp: demo_mcp_def)
qed

theorem unauthenticated_crashes_witness:
  "snd (mcp_post demo_mcp demo_registry 3 '''' (Json_Body (JObj [(''method'', JInt 5)])) (tw_db world1)) = Rpc_Crash"
proof -
  have "\<not> startswith '''' ''Bearer ''" "me_versions demo_mcp \<noteq> []" by code_simp+
  note iff = unauthenticated_crashes [OF this, of demo_registry 3 "[(''method'', JInt 5)]" "tw_db world1"]
  have "rpc_params [(''method'', JInt 5)] = Some []" "json_get ''method'' (JStr '''') [(''method'', JInt 5)] = JInt 5"
    by code_simp+
  with iff show ?thesis by (simp add: is_text_def)
qed


section \<open>Behaviour beyond the documentation\<close>

text \<open>The password endpoint does not look at the level of the token: a readonly bearer changes a
  password.\<close>

definition readonly_world :: token_world where
  "readonly_world = set_drawn demo_env [demo_raw] world0
     (fst (authorize_post demo_env 0 [demo_raw] ''k1'' demo_account (demo_consent\<lparr>ap_scope := ''read''\<rparr>) (tw_db world0)))"

definition password_request :: api_request where
  "password_request = demo_request\<lparr>rq_body :=
     Json_Body (JObj [(''current_password'', JStr ''pw''), (''new_password'', JStr ''other'')])\<rparr>"

lemma readonly_token_changes_password:
  "map ak_level (ad_tokens (tw_db readonly_world)) = [''readonly'']"
  "snd (api_auth_password demo_env 3 password_request (tw_db readonly_world)) = Message ''Password updated''"
  "map acc_password (ad_accounts (fst (api_auth_password demo_env 3 password_request (tw_db readonly_world)))) = [''other'']"
  by code_simp+

text \<open>Two first logins that both look for a login token before either has written one leave two live
  keys; the next login rotates only the newest of the two tokens.\<close>

definition two_logins :: auth_db where
  "two_logins =
     (let db0 = tw_db world0; found = login_lookup db0 1;
          db1 = fst (login_write demo_env 0 [demo_raw] 24 demo_account found db0)
      in fst (login_write demo_env 1 [demo_draw] 24 demo_account found db1))"

lemma concurrent_logins_leave_two_keys:
  "live_key demo_env 9 demo_raw two_logins demo_account (ad_tokens two_logins ! 0)"
  "live_key demo_env 9 demo_draw two_logins demo_account (ad_tokens two_logins ! 1)"
  "live_key demo_env 9 demo_raw (fst (login_write demo_env 5 [''third-key''] 24 demo_account (login_lookup two_logins 1) two_logins))
     demo_account (ad_tokens two_logins ! 0)"
  by code_simp+

text \<open>A number as a user name is not a client error of the login endpoint but an uncaught exception.\<close>

lemma login_crashes:
  "snd (api_auth_token demo_env Axes_Passes 0 [demo_raw]
     (demo_request\<lparr>rq_body := Json_Body (JObj [(''username'', JInt 5)])\<rparr>) (tw_db world0)) = Server_Error"
  by code_simp

text \<open>Registering with an e-mail address in use is one, too; a NULL for a flag is reported as an e-mail
  address in use.\<close>

lemma register_crashes:
  "snd (register_user demo_env 0 [demo_raw] ''bob'' ''a@b'' (JStr ''pw'')
     (update_account 1 (\<lambda>a. a\<lparr>acc_email := Some ''a@b''\<rparr>) (tw_db world0))) = Server_Error"
  "snd (patch_user demo_env demo_account [(''is_staff'', JNull)] (tw_db world0)) = EMAIL_EXISTS"
  by code_simp+

text \<open>A verifier that is not ASCII ends the exchange with an uncaught exception.\<close>

lemma exchange_crashes:
  "snd (oauth_token demo_env 1 (demo_exchange\<lparr>tp_verifier := [CHR 0xE9]\<rparr>) (tw_db world1)) = OAuth_Server_Error"
  by code_simp

end
