(* ===== verification/Schedule_Math.thy ===== *)
theory Schedule_Math
  imports Interfaces Py_Strings
begin

text \<open>
  The pure next-run arithmetic of the scheduler (\<open>apps/scheduler/schedules.py\<close>).

  Parameters (record \<open>calendar\<close>), for code outside the repository: \<open>relativedelta\<close> steps of
  months and years, \<open>croniter\<close>'s next fire of an expression in a zone, the names of
  \<open>zoneinfo.available_timezones()\<close> and the current zone of Django. An instant is within the
  range of \<open>datetime\<close>; arithmetic that leaves it raises \<open>OverflowError\<close>, which is a value of the
  error type here. The quotient of two \<open>total_seconds()\<close> is taken exactly.
\<close>

section \<open>Errors and calendars\<close>

datatype schedule_error = Config_Error | Overflow_Error | Calendar_Error

datatype calendar_unit = Months | Years

record calendar =
  cal_add :: "calendar_unit \<Rightarrow> nat \<Rightarrow> instant \<Rightarrow> instant option"
  cal_cron_next :: "string \<Rightarrow> string \<Rightarrow> instant \<Rightarrow> instant option"
  cal_zones :: "string list"
  cal_current_zone :: string

definition MIN_INSTANT :: instant where "MIN_INSTANT = days_span (- 719162)"
definition MAX_INSTANT :: instant where "MAX_INSTANT = days_span 2932897 - 1"

definition checked_instant :: "instant \<Rightarrow> schedule_error + instant" where
  "checked_instant t = (if MIN_INSTANT \<le> t \<and> t \<le> MAX_INSTANT then Inr t else Inl Overflow_Error)"

section \<open>Interval specs\<close>

datatype interval_delta = Fixed span | Calendar calendar_unit nat

text \<open>The match of \<open>_INTERVAL_RE\<close>: the count and the lower-cased unit.\<close>

definition match_interval :: "string \<Rightarrow> (nat \<times> string) option" where
  "match_interval s =
     (let s1 = lstrip s;
          ds = takeWhile py_digit s1;
          s2 = lstrip (dropWhile py_digit s1);
          unit = (if py_lower (take 2 s2) = ''mo'' then Some (''mo'', drop 2 s2)
                  else if s2 \<noteq> [] \<and> py_lower (take 1 s2) \<in> {''s'', ''m'', ''h'', ''d'', ''w'', ''y''}
                       then Some (py_lower (take 1 s2), drop 1 s2) else None)
      in if ds = [] then None
         else case unit of
                None \<Rightarrow> None
              | Some (u, rest) \<Rightarrow> if lstrip rest = [] then Some (digits_value ds, u) else None)"

definition unit_seconds :: "string \<Rightarrow> int option" where
  "unit_seconds u =
     (if u = ''s'' then Some 1 else if u = ''m'' then Some 60 else if u = ''h'' then Some 3600
      else if u = ''d'' then Some 86400 else if u = ''w'' then Some 604800 else None)"

text \<open>\<open>timedelta(days=10**9)\<close> is the first one that overflows.\<close>

definition MAX_TIMEDELTA :: span where "MAX_TIMEDELTA = days_span 1000000000 - 1"

definition parse_interval :: "string \<Rightarrow> schedule_error + interval_delta" where
  "parse_interval spec =
     (case match_interval spec of
        None \<Rightarrow> Inl Config_Error
      | Some (cnt, u) \<Rightarrow>
          if cnt = 0 then Inl Config_Error
          else case unit_seconds u of
                 Some k \<Rightarrow> (if secs (int cnt * k) \<le> MAX_TIMEDELTA then Inr (Fixed (secs (int cnt * k)))
                            else Inl Overflow_Error)
               | None \<Rightarrow> Inr (Calendar (if u = ''mo'' then Months else Years) cnt))"

section \<open>Steps\<close>

definition cal_step :: "calendar \<Rightarrow> calendar_unit \<Rightarrow> nat \<Rightarrow> instant \<Rightarrow> schedule_error + instant" where
  "cal_step cal u n t = (case cal_add cal u n t of None \<Rightarrow> Inl Calendar_Error | Some t' \<Rightarrow> Inr t')"

text \<open>The bounded walk of \<open>_step_interval\<close>; \<open>fuel\<close> is the 10,000 of the \<open>range\<close>.\<close>

fun calendar_walk :: "nat \<Rightarrow> calendar \<Rightarrow> calendar_unit \<Rightarrow> nat \<Rightarrow> instant \<Rightarrow> instant \<Rightarrow> schedule_error + instant" where
  "calendar_walk 0 cal u n after nxt = Inr nxt"
| "calendar_walk (Suc fuel) cal u n after nxt =
     (if after < nxt then Inr nxt
      else bind_err (cal_step cal u n nxt) (\<lambda>t. calendar_walk fuel cal u n after t))"

definition MAX_STEPS :: nat where "MAX_STEPS = 10000"

definition step_interval :: "calendar \<Rightarrow> instant \<Rightarrow> string \<Rightarrow> instant \<Rightarrow> schedule_error + instant" where
  "step_interval cal anchor spec after =
     bind_err (parse_interval spec)
       (\<lambda>delta. case delta of
          Fixed period \<Rightarrow>
            let gap = after - anchor
            in if gap < 0 then Inr anchor
               else let steps = gap div period + 1 in checked_instant (anchor + steps * period)
        | Calendar u n \<Rightarrow> calendar_walk MAX_STEPS cal u n after anchor)"

section \<open>Time zones\<close>

text \<open>The names differ in their lower-case form, so the order of the set does not matter.\<close>

definition canonical_timezone :: "calendar \<Rightarrow> string \<Rightarrow> string option" where
  "canonical_timezone cal name =
     (if name = '''' then None
      else find (\<lambda>z. py_lower z = py_lower (strip name)) (cal_zones cal))"

definition schedule_tz :: "calendar \<Rightarrow> string \<Rightarrow> schedule_error + string" where
  "schedule_tz cal name =
     (if name = '''' then Inr (cal_current_zone cal)
      else case canonical_timezone cal name of None \<Rightarrow> Inl Config_Error | Some z \<Rightarrow> Inr z)"

definition cron_next :: "calendar \<Rightarrow> string \<Rightarrow> string \<Rightarrow> instant \<Rightarrow> schedule_error + instant" where
  "cron_next cal expr tz after =
     (case cal_cron_next cal expr tz after of None \<Rightarrow> Inl Config_Error | Some t \<Rightarrow> Inr t)"

section \<open>The next run\<close>

text \<open>The fields a schedule is computed from (the \<open>ScheduleLike\<close> protocol).\<close>

record schedule =
  sc_type :: string
  sc_interval_spec :: string
  sc_anchor_at :: "instant option"
  sc_cron_expression :: string
  sc_run_at :: "instant option"
  sc_timezone :: string

definition next_run :: "calendar \<Rightarrow> schedule \<Rightarrow> instant \<Rightarrow> schedule_error + instant option" where
  "next_run cal s after =
     (if sc_type s = ''once'' then
        (case sc_run_at s of
           None \<Rightarrow> Inl Config_Error
         | Some t \<Rightarrow> Inr (if after < t then Some t else None))
      else if sc_type s = ''interval'' then
        (if sc_interval_spec s = '''' then Inl Config_Error
         else bind_err (step_interval cal (case sc_anchor_at s of None \<Rightarrow> after | Some a \<Rightarrow> a) (sc_interval_spec s) after)
                (\<lambda>t. Inr (Some t)))
      else if sc_type s = ''cron'' then
        (if sc_cron_expression s = '''' then Inl Config_Error
         else bind_err (schedule_tz cal (sc_timezone s))
                (\<lambda>tz. bind_err (cron_next cal (sc_cron_expression s) tz after) (\<lambda>t. Inr (Some t))))
      else Inl Config_Error)"

section \<open>Missed periods\<close>

text \<open>The counting loop over calendar or cron steps: how many of them do not pass \<open>now\<close>.\<close>

fun count_steps :: "nat \<Rightarrow> (instant \<Rightarrow> schedule_error + instant) \<Rightarrow> instant \<Rightarrow> instant \<Rightarrow> schedule_error + int" where
  "count_steps 0 step now cursor = Inr 0"
| "count_steps (Suc fuel) step now cursor =
     bind_err (step cursor)
       (\<lambda>t. if now < t then Inr 0 else bind_err (count_steps fuel step now t) (\<lambda>n. Inr (n + 1)))"

definition missed_periods :: "calendar \<Rightarrow> schedule \<Rightarrow> instant \<Rightarrow> instant \<Rightarrow> schedule_error + int" where
  "missed_periods cal s scheduled_for now =
     (if now \<le> scheduled_for then Inr 0
      else if sc_type s = ''interval'' \<and> sc_interval_spec s \<noteq> '''' then
        bind_err (parse_interval (sc_interval_spec s))
          (\<lambda>delta. case delta of
             Fixed period \<Rightarrow> Inr ((now - scheduled_for) div period)
           | Calendar u n \<Rightarrow> count_steps MAX_STEPS (cal_step cal u n) now scheduled_for)
      else if sc_type s = ''cron'' \<and> sc_cron_expression s \<noteq> '''' then
        bind_err (schedule_tz cal (sc_timezone s))
          (\<lambda>tz. count_steps MAX_STEPS (cron_next cal (sc_cron_expression s) tz) now scheduled_for)
      else Inr 0)"

section \<open>What the arithmetic guarantees\<close>

lemma parse_interval_positive:
  "parse_interval spec = Inr (Fixed p) \<Longrightarrow> 0 < p"
  "parse_interval spec = Inr (Calendar u n) \<Longrightarrow> 0 < n"
  by (auto simp: parse_interval_def unit_seconds_def secs_def split: option.splits if_splits)

text \<open>What the code relies on: \<open>croniter\<close> advances, and a step of \<open>n\<close> months or years is at least
  \<open>n\<close> times 27 days.\<close>

definition calendar_ok :: "calendar \<Rightarrow> bool" where
  "calendar_ok cal \<longleftrightarrow>
     (\<forall>u n t t'. cal_add cal u n t = Some t' \<longrightarrow> t + int n * days_span 27 \<le> t')
     \<and> (\<forall>e z t t'. cal_cron_next cal e z t = Some t' \<longrightarrow> t < t')"

lemma calendar_walk_passes:
  assumes "calendar_ok cal" "0 < n" "calendar_walk fuel cal u n after nxt = Inr t"
    "after < nxt + int (fuel - 1) * days_span 27" "0 < fuel"
  shows "after < t"
  using assms(3-5)
proof (induction fuel arbitrary: nxt)
  case 0
  then show ?case by simp
next
  case (Suc fuel)
  show ?case
  proof (cases "after < nxt")
    case True
    with Suc.prems show ?thesis by simp
  next
    case False
    with Suc.prems obtain t' where t': "cal_add cal u n nxt = Some t'" "calendar_walk fuel cal u n after t' = Inr t"
      by (auto simp: cal_step_def split: option.splits)
    have pos: "0 \<le> days_span 27" by (simp add: days_span_def secs_def)
    have "nxt + int n * days_span 27 \<le> t'" using assms(1) t'(1) by (auto simp: calendar_ok_def)
    moreover have "days_span 27 \<le> int n * days_span 27"
      using mult_right_mono [of 1 "int n" "days_span 27"] assms(2) pos by simp
    ultimately have step: "nxt + days_span 27 \<le> t'" by simp
    have fuel: "0 < fuel" using Suc.prems(2) False by (cases fuel) auto
    then have "int fuel = int (fuel - 1) + 1" by simp
    then have "int fuel * days_span 27 = int (fuel - 1) * days_span 27 + days_span 27"
      by (metis distrib_right mult_1)
    with Suc.prems(2) step have "after < t' + int (fuel - 1) * days_span 27" by simp
    with Suc.IH t' fuel show ?thesis by blast
  qed
qed

lemma step_interval_fixed:
  assumes "parse_interval spec = Inr (Fixed p)"
  shows "step_interval cal anchor spec after =
    (if after < anchor then Inr anchor else checked_instant (anchor + ((after - anchor) div p + 1) * p))"
  using assms by (simp add: step_interval_def Let_def)

lemma multiple_above:
  fixes p :: int
  assumes "0 < p" "0 \<le> gap"
  shows "gap < (gap div p + 1) * p" "(gap div p + 1) * p \<le> gap + p"
    "gap < k * p \<Longrightarrow> (gap div p + 1) * p \<le> k * p"
proof -
  define q where "q = gap div p"
  have "gap = q * p + gap mod p" "0 \<le> gap mod p" "gap mod p < p"
    unfolding q_def using assms(1) by simp_all
  then have split: "q * p \<le> gap" "gap < q * p + p" by linarith+
  have dist: "(q + 1) * p = q * p + p" by (simp add: distrib_right)
  show "gap < (gap div p + 1) * p" "(gap div p + 1) * p \<le> gap + p"
    using split by (simp_all add: dist flip: q_def)
  assume "gap < k * p"
  with split(1) have "q * p < k * p" by simp
  with assms(1) have "q + 1 \<le> k" by simp
  then have "(q + 1) * p \<le> k * p" using assms(1) by (intro mult_right_mono) auto
  then show "(gap div p + 1) * p \<le> k * p" by (simp add: q_def)
qed

text \<open>An interval of a fixed length fires on the grid of its anchor, at the first point of it that
  is later than \<open>after\<close>: the result is the anchor plus a whole number of periods, it is later
  than \<open>after\<close>, and no earlier point of the grid is. It fails only by leaving the range of
  \<open>datetime\<close>.\<close>

theorem interval_fires_on_grid:
  assumes "parse_interval spec = Inr (Fixed p)"
  shows "(case step_interval cal anchor spec after of
      Inl e \<Rightarrow> e = Overflow_Error \<and> MAX_INSTANT < after + p \<or> e = Overflow_Error \<and> anchor < MIN_INSTANT
    | Inr t \<Rightarrow> after < t \<and> (\<exists>k. 0 \<le> k \<and> t = anchor + k * p)
        \<and> (\<forall>j::nat. after < anchor + int j * p \<longrightarrow> t \<le> anchor + int j * p))"
proof -
  have p: "0 < p" using assms by (rule parse_interval_positive)
  show ?thesis
  proof (cases "after < anchor")
    case True
    with p show ?thesis by (auto simp: step_interval_fixed [OF assms] intro: exI [of _ 0])
  next
    case False
    define k where "k = (after - anchor) div p + 1"
    have gap: "0 \<le> after - anchor" using False by simp
    note above = multiple_above [OF p gap, folded k_def]
    have k: "1 \<le> k" using p gap by (simp add: k_def pos_imp_zdiv_nonneg_iff)
    then have kp: "0 < k * p" using p by simp
    have least: "anchor + k * p \<le> anchor + int j * p" if "after < anchor + int j * p" for j
      using above(3) [of "int j"] that by auto
    show ?thesis
    proof (cases "MIN_INSTANT \<le> anchor + k * p \<and> anchor + k * p \<le> MAX_INSTANT")
      case True
      with False above(1) k least show ?thesis
        by (auto simp: step_interval_fixed [OF assms] checked_instant_def simp flip: k_def intro!: exI [of _ k])
    next
      case False
      with \<open>\<not> after < anchor\<close> above(2) kp show ?thesis
        by (auto simp: step_interval_fixed [OF assms] checked_instant_def simp flip: k_def)
    qed
  qed
qed

lemma parse_90d: "parse_interval '' 90 D'' = Inr (Fixed (days_span 90))"
  by code_simp

lemma parse_1mo: "parse_interval ''1MO'' = Inr (Calendar Months 1)"
  by code_simp

lemma interval_fires_on_grid_witness:
  "\<exists>t. step_interval \<lparr>cal_add = (\<lambda>_ _ _. None), cal_cron_next = (\<lambda>_ _ _. None), cal_zones = [], cal_current_zone = ''UTC''\<rparr>
       0 '' 90 D'' (days_span 100) = Inr t \<and> t = days_span 180"
  using interval_fires_on_grid [OF parse_90d, where cal = "\<lparr>cal_add = (\<lambda>_ _ _. None), cal_cron_next = (\<lambda>_ _ _. None),
      cal_zones = [], cal_current_zone = ''UTC''\<rparr>" and anchor = 0 and after = "days_span 100"]
  by (auto simp: step_interval_fixed [OF parse_90d] days_span_def secs_def checked_instant_def MIN_INSTANT_def MAX_INSTANT_def)

lemma next_run_passes:
  assumes "calendar_ok cal" "next_run cal s after = Inr (Some t)"
    and "sc_type s = ''interval'' \<longrightarrow> after < (case sc_anchor_at s of None \<Rightarrow> after | Some a \<Rightarrow> a) + int (MAX_STEPS - 1) * days_span 27"
  shows "after < t"
proof -
  consider (interval) "sc_type s = ''interval''" | (cron) "sc_type s = ''cron''" | (once) "sc_type s = ''once''"
    using assms(2) by (auto simp: next_run_def split: if_splits)
  then show ?thesis
  proof cases
    case interval
    let ?anchor = "case sc_anchor_at s of None \<Rightarrow> after | Some a \<Rightarrow> a"
    from interval assms(2) have step: "step_interval cal ?anchor (sc_interval_spec s) after = Inr t"
      by (auto simp: next_run_def bind_err_Inr split: if_splits)
    then obtain delta where delta: "parse_interval (sc_interval_spec s) = Inr delta"
      by (auto simp: step_interval_def bind_err_Inr)
    show ?thesis
    proof (cases delta)
      case (Fixed p)
      with delta have p: "0 < p" by (auto intro: parse_interval_positive)
      show ?thesis
      proof (cases "after < ?anchor")
        case True
        with step delta Fixed show ?thesis by (simp add: step_interval_fixed)
      next
        case False
        with multiple_above(1) [OF p, of "after - ?anchor"] step delta Fixed show ?thesis
          by (auto simp: step_interval_fixed checked_instant_def split: if_splits)
      qed
    next
      case (Calendar u n)
      with delta have n: "0 < n" by (auto intro: parse_interval_positive)
      have walk: "calendar_walk MAX_STEPS cal u n after ?anchor = Inr t"
        using step delta Calendar by (simp add: step_interval_def)
      have "0 < MAX_STEPS" by (simp add: MAX_STEPS_def)
      with assms(3) interval show ?thesis by (auto intro: calendar_walk_passes [OF assms(1) n walk])
    qed
  next
    case cron
    with assms(1,2) show ?thesis
      by (auto simp: next_run_def cron_next_def calendar_ok_def bind_err_Inr split: if_splits option.splits)
  next
    case once
    with assms(2) show ?thesis by (auto simp: next_run_def split: if_splits option.splits)
  qed
qed

text \<open>The next run of a schedule is later than the instant it is computed after, whatever its
  type; for a calendar interval the 10,000 steps of the walk suffice while the anchor is at most
  9,999 times 27 days back.\<close>

theorem next_run_later:
  assumes "calendar_ok cal" "next_run cal s after = Inr (Some t)"
    and "sc_type s = ''interval'' \<longrightarrow> after < (case sc_anchor_at s of None \<Rightarrow> after | Some a \<Rightarrow> a) + int (MAX_STEPS - 1) * days_span 27"
  shows "after < t"
  using assms by (rule next_run_passes)

text \<open>A calendar whose months have 30 days and whose cron fires every hour.\<close>

definition demo_calendar :: calendar where
  "demo_calendar = \<lparr>cal_add = (\<lambda>u n t. Some (t + int n * days_span (case u of Months \<Rightarrow> 30 | Years \<Rightarrow> 365))),
     cal_cron_next = (\<lambda>_ _ t. Some ((t div secs 3600 + 1) * secs 3600)), cal_zones = [''UTC'', ''Europe/Paris''],
     cal_current_zone = ''UTC''\<rparr>"

lemma demo_calendar_ok: "calendar_ok demo_calendar"
proof -
  have "int n * days_span 27 \<le> int n * days_span d" if "27 \<le> d" for n d
    using that by (intro mult_left_mono) (auto simp: days_span_def secs_def)
  moreover have "t < (t div secs 3600 + 1) * secs 3600" for t
  proof -
    have "0 < secs 3600" by (simp add: secs_def)
    then have "t = t div secs 3600 * secs 3600 + t mod secs 3600" "t mod secs 3600 < secs 3600" by simp_all
    moreover have "(t div secs 3600 + 1) * secs 3600 = t div secs 3600 * secs 3600 + secs 3600"
      by (simp only: distrib_right mult_1)
    ultimately show ?thesis by linarith
  qed
  ultimately show ?thesis by (auto simp: calendar_ok_def demo_calendar_def split: calendar_unit.split)
qed

lemma next_run_later_witness:
  "0 < days_span 30 \<and> next_run demo_calendar \<lparr>sc_type = ''interval'', sc_interval_spec = ''1MO'', sc_anchor_at = None,
     sc_cron_expression = '''', sc_run_at = None, sc_timezone = ''''\<rparr> 0 = Inr (Some (days_span 30))"
proof -
  have run: "next_run demo_calendar \<lparr>sc_type = ''interval'', sc_interval_spec = ''1MO'', sc_anchor_at = None,
     sc_cron_expression = '''', sc_run_at = None, sc_timezone = ''''\<rparr> 0 = Inr (Some (days_span 30))"
    by code_simp
  then show ?thesis
    using next_run_later [OF demo_calendar_ok run] by (auto simp: MAX_STEPS_def days_span_def secs_def)
qed

end
