(* ===== verification/Task_Store.thy ===== *)
theory Task_Store
  imports Interfaces
begin

text \<open>
  The rows the task layer keeps (\<open>apps/tasks/models.py\<close>, \<open>apps/tasks/exceptions.py\<close>) and
  the engine's \<open>DBTaskResult\<close> rows it reads and updates, with the database as one record.
  \<open>DBTaskResult\<close> belongs to django-tasks-db: the model has the columns the source uses,
  and \<open>enqueue\<close> is a parameter (\<open>te_enqueue\<close> of Task_Retry).
\<close>

section \<open>Engine rows\<close>

type_synonym uuid = string  \<comment> \<open>its canonical text, as \<open>str(id)\<close> gives it\<close>

datatype task_status = Ready | Running | Successful | Failed

fun status_str :: "task_status \<Rightarrow> string" where
  "status_str Ready = ''READY''"
| "status_str Running = ''RUNNING''"
| "status_str Successful = ''SUCCESSFUL''"
| "status_str Failed = ''FAILED''"

record task_result =
  tr_id :: uuid
  tr_status :: task_status
  tr_task_path :: string
  tr_queue_name :: string
  tr_priority :: int
  tr_backend_name :: string
  tr_args :: "string list option"
  tr_kwargs :: "(string \<times> string) list option"
  tr_exc_path :: string
  tr_traceback :: string
  tr_worker_ids :: "string list"
  tr_enqueued_at :: instant
  tr_started_at :: "instant option"
  tr_finished_at :: "instant option"
  tr_run_after :: "instant option"
  tr_return_value :: "string option"

section \<open>Recorded exception classes (exceptions.py)\<close>

definition WORKER_LOST_PATH :: string where
  "WORKER_LOST_PATH = ''apps.tasks.exceptions.WorkerLost''"

definition RETRY_SUPERSEDED_PATH :: string where
  "RETRY_SUPERSEDED_PATH = ''apps.tasks.exceptions.RetrySuperseded''"

definition BOOKKEEPING_PATHS :: "string list" where
  "BOOKKEEPING_PATHS = [RETRY_SUPERSEDED_PATH]"

definition INTERRUPTED_PATHS :: "string list" where
  "INTERRUPTED_PATHS = [''builtins.SystemExit'', ''builtins.KeyboardInterrupt'']"

lemma lost_not_bookkeeping: "WORKER_LOST_PATH \<notin> set BOOKKEEPING_PATHS"
  by (simp add: WORKER_LOST_PATH_def BOOKKEEPING_PATHS_def RETRY_SUPERSEDED_PATH_def)

section \<open>Attempts and heartbeats (models.py)\<close>

datatype cause = C_First | C_Failed | C_Lost | C_Interrupted | C_Manual

record task_attempt =
  ta_result_id :: uuid
  ta_root_id :: uuid
  ta_parent_id :: "uuid option"
  ta_attempt :: int
  ta_cause :: cause
  ta_max_attempts :: "int option"
  ta_created_at :: instant
  ta_parent_completed_at :: "instant option"
  ta_parent_status :: string
  ta_retry_cancelled :: bool

record worker_heartbeat =
  hb_worker_id :: string
  hb_label :: string
  hb_hostname :: string
  hb_pid :: "nat option"
  hb_queues :: string
  hb_started_at :: instant
  hb_last_seen_at :: instant
  hb_stopped_at :: "instant option"

record task_db =
  db_results :: "task_result list"
  db_attempts :: "task_attempt list"
  db_beats :: "worker_heartbeat list"

abbreviation get_result :: "uuid \<Rightarrow> task_db \<Rightarrow> task_result option" where
  "get_result rid db \<equiv> tbl_find tr_id rid (db_results db)"

text \<open>The row of \<open>TaskAttempt\<close> that describes a result, and the one that retried it.\<close>

definition attempt_row :: "uuid \<Rightarrow> task_attempt list \<Rightarrow> task_attempt option" where
  "attempt_row rid atts = tbl_find ta_result_id rid atts"

definition child_row :: "uuid \<Rightarrow> task_attempt list \<Rightarrow> task_attempt option" where
  "child_row rid atts = tbl_find ta_parent_id (Some rid) atts"

text \<open>
  \<open>TaskAttempt.objects.create\<close>: \<open>None\<close> is the IntegrityError of the unique columns
  \<open>result_id\<close> and (where not NULL) \<open>parent_id\<close>.
\<close>

definition insert_attempt :: "task_attempt \<Rightarrow> task_attempt list \<Rightarrow> task_attempt list option" where
  "insert_attempt a atts =
     (if (\<exists>b \<in> set atts. ta_result_id b = ta_result_id a)
        \<or> (ta_parent_id a \<noteq> None \<and> (\<exists>b \<in> set atts. ta_parent_id b = ta_parent_id a))
      then None else Some (atts @ [a]))"

definition unique_attempts :: "task_attempt list \<Rightarrow> bool" where
  "unique_attempts atts \<longleftrightarrow> distinct (map ta_result_id atts) \<and> unique_opt ta_parent_id atts"

lemma child_rowD: "child_row rid atts = Some c \<Longrightarrow> c \<in> set atts \<and> ta_parent_id c = Some rid"
  by (auto simp: child_row_def dest: tbl_find_Some)

lemma child_row_None: "child_row rid atts = None \<longleftrightarrow> (\<forall>a \<in> set atts. ta_parent_id a \<noteq> Some rid)"
  by (simp add: child_row_def tbl_find_None)

lemma attempt_rowD: "attempt_row rid atts = Some a \<Longrightarrow> a \<in> set atts \<and> ta_result_id a = rid"
  by (auto simp: attempt_row_def dest: tbl_find_Some)

lemma child_row_unique:
  assumes "unique_attempts atts" "c \<in> set atts" "ta_parent_id c = Some rid"
  shows "child_row rid atts = Some c"
proof (cases "child_row rid atts")
  case None
  with assms show ?thesis by (auto simp: child_row_None)
next
  case (Some d)
  with assms show ?thesis
    using unique_opt_inj [of ta_parent_id atts c d rid] by (auto simp: unique_attempts_def dest: child_rowD)
qed

lemma attempt_row_unique:
  "unique_attempts atts \<Longrightarrow> a \<in> set atts \<Longrightarrow> attempt_row (ta_result_id a) atts = Some a"
  by (simp add: attempt_row_def tbl_find_in unique_attempts_def)

lemma insert_attempt_Some:
  "insert_attempt a atts = Some atts' \<longleftrightarrow>
     atts' = atts @ [a] \<and> (\<forall>b \<in> set atts. ta_result_id b \<noteq> ta_result_id a) \<and>
     (\<forall>p. ta_parent_id a = Some p \<longrightarrow> (\<forall>b \<in> set atts. ta_parent_id b \<noteq> Some p))"
  by (auto simp: insert_attempt_def)

lemma insert_attempt_appends: "insert_attempt a atts = Some atts' \<Longrightarrow> atts' = atts @ [a]"
  by (simp add: insert_attempt_Some)

lemma insert_attempt_unique:
  assumes "insert_attempt a atts = Some atts'" "unique_attempts atts"
  shows "unique_attempts atts'"
  using assms by (auto simp: insert_attempt_Some unique_attempts_def unique_opt_snoc)

lemma insert_attempt_child_taken:
  "ta_parent_id a = Some p \<Longrightarrow> child_row p atts \<noteq> None \<Longrightarrow> insert_attempt a atts = None"
  by (auto simp: insert_attempt_def child_row_None)

text \<open>
  An update that leaves the identifying columns alone keeps uniqueness and every lookup up
  to the update.
\<close>

lemma unique_attempts_update:
  assumes "\<And>a. ta_result_id (f a) = ta_result_id a" "\<And>a. ta_parent_id (f a) = ta_parent_id a"
  shows "unique_attempts (tbl_update P f atts) = unique_attempts atts"
  by (simp add: unique_attempts_def unique_opt_def map_filter_tbl_update map_tbl_update assms)

lemma child_row_update:
  assumes "\<And>a. ta_parent_id (f a) = ta_parent_id a"
  shows "child_row rid (tbl_update P f atts) = map_option (\<lambda>a. if P a then f a else a) (child_row rid atts)"
  unfolding child_row_def by (rule tbl_find_update) (simp add: assms)

lemma attempt_row_update:
  assumes "\<And>a. ta_result_id (f a) = ta_result_id a"
  shows "attempt_row rid (tbl_update P f atts) = map_option (\<lambda>a. if P a then f a else a) (attempt_row rid atts)"
  unfolding attempt_row_def by (rule tbl_find_update) (simp add: assms)

end
