(* ===== verification/Task_Retry.thy ===== *)
theory Task_Retry
  imports Task_Store
begin

text \<open>
  Retries with backoff (\<open>apps/tasks/reliability.py\<close>, first half): the policy a task
  declares, the delay before an attempt, the decision for a failed row and the enqueue of the
  next attempt, with the invariant of the attempt chains.

  Outside the repository and therefore parameters (record \<open>task_env\<close>): which policies the
  import of a task's module registers, whether the dotted task path imports, what an exception
  path resolves to, the engine's \<open>enqueue\<close>, and the random draw of the jitter. What the code
  relies on is \<open>engine_ok\<close>: a new result has an id that occurs nowhere yet, is \<open>READY\<close>, was not
  run, and carries the requested task, queue, priority, backend, arguments and \<open>run_after\<close>.
\<close>

section \<open>Policies\<close>

record retry_policy =
  rp_max_attempts :: "int option"
  rp_backoff :: "rat option"
  rp_backoff_max :: "rat option"
  rp_retry_on :: "string list"
  rp_retry_lost :: bool

definition EXCEPTION :: string where "EXCEPTION = ''builtins.Exception''"
definition BASE_EXCEPTION :: string where "BASE_EXCEPTION = ''builtins.BaseException''"

definition DEFAULT_POLICY :: retry_policy where
  "DEFAULT_POLICY = \<lparr>rp_max_attempts = None, rp_backoff = None, rp_backoff_max = None,
     rp_retry_on = [EXCEPTION], rp_retry_lost = True\<rparr>"

definition IMPLICIT_PINNED_POLICY :: retry_policy where
  "IMPLICIT_PINNED_POLICY = DEFAULT_POLICY\<lparr>rp_retry_lost := False\<rparr>"

record task_settings =
  ts_default_max_attempts :: int
  ts_backoff_seconds :: rat
  ts_backoff_max_seconds :: rat
  ts_lost_after_seconds :: int
  ts_orphan_seconds :: int
  ts_soften_retryable_logs :: bool

text \<open>The defaults of the \<open>getattr(settings, ..)\<close> calls.\<close>

definition default_task_settings :: task_settings where
  "default_task_settings = \<lparr>ts_default_max_attempts = 1, ts_backoff_seconds = 5,
     ts_backoff_max_seconds = 600, ts_lost_after_seconds = 90, ts_orphan_seconds = 86400,
     ts_soften_retryable_logs = True\<rparr>"

text \<open>\<open>RetryPolicy.attempts\<close> and \<open>RetryPolicy.delay\<close>; \<open>u\<close> is the draw in \<open>[0, 1]\<close> behind
  \<open>random.uniform(0, base / 2)\<close>.\<close>

definition policy_attempts :: "task_settings \<Rightarrow> retry_policy \<Rightarrow> int" where
  "policy_attempts cfg p = (case rp_max_attempts p of Some n \<Rightarrow> n | None \<Rightarrow> ts_default_max_attempts cfg)"

definition delay_base :: "task_settings \<Rightarrow> retry_policy \<Rightarrow> int \<Rightarrow> rat" where
  "delay_base cfg p attempt =
     (let initial = (case rp_backoff p of Some b \<Rightarrow> b | None \<Rightarrow> ts_backoff_seconds cfg);
          cap = (case rp_backoff_max p of Some b \<Rightarrow> b | None \<Rightarrow> ts_backoff_max_seconds cfg)
      in min cap (initial * 2 ^ nat (max 0 (attempt - 1))))"

definition policy_delay :: "task_settings \<Rightarrow> retry_policy \<Rightarrow> int \<Rightarrow> rat \<Rightarrow> rat" where
  "policy_delay cfg p attempt u = (let base = delay_base cfg p attempt in base / 2 + u * (base / 2))"

text \<open>
  The decorator: it rejects a budget below one, then needs a task object (one with a
  \<open>module_path\<close>), and records the policy under that path, replacing an earlier one.
\<close>

datatype policy_error = Bad_Max_Attempts | Not_A_Task

definition declare_policy ::
  "retry_policy \<Rightarrow> string option \<Rightarrow> (string \<rightharpoonup> retry_policy) \<Rightarrow> policy_error + (string \<rightharpoonup> retry_policy)" where
  "declare_policy p module_path policies =
     (if (case rp_max_attempts p of Some n \<Rightarrow> n < 1 | None \<Rightarrow> False) then Inl Bad_Max_Attempts
      else case module_path of
             None \<Rightarrow> Inl Not_A_Task
           | Some path \<Rightarrow> Inr (policies(path \<mapsto> p)))"

section \<open>What is outside the repository\<close>

datatype resolved = Not_A_Class | Class "string list"  \<comment> \<open>a class, by the paths of its MRO\<close>

record enqueue_request =
  eq_task_path :: string
  eq_queue_name :: string
  eq_priority :: int
  eq_backend :: string
  eq_run_after :: "instant option"
  eq_args :: "string list"
  eq_kwargs :: "(string \<times> string) list"

record task_env =
  te_policies :: "string \<rightharpoonup> retry_policy"
  te_import_policies :: "string \<Rightarrow> (string \<rightharpoonup> retry_policy)"
  te_importable :: "string \<Rightarrow> bool"
  te_resolve_class :: "string \<Rightarrow> resolved option"
  te_enqueue :: "enqueue_request \<Rightarrow> task_db \<Rightarrow> task_result option"
  te_jitter :: "uuid \<Rightarrow> rat"

definition used_ids :: "task_db \<Rightarrow> uuid list" where
  "used_ids db = map tr_id (db_results db) @ map ta_result_id (db_attempts db)
     @ map ta_root_id (db_attempts db) @ List.map_filter ta_parent_id (db_attempts db)"

definition engine_ok :: "task_env \<Rightarrow> bool" where
  "engine_ok env \<longleftrightarrow> (\<forall>req db new. te_enqueue env req db = Some new \<longrightarrow>
     tr_id new \<notin> set (used_ids db) \<and> tr_status new = Ready \<and> tr_task_path new = eq_task_path req \<and>
     tr_queue_name new = eq_queue_name req \<and> tr_priority new = eq_priority req \<and>
     tr_backend_name new = eq_backend req \<and> tr_run_after new = eq_run_after req \<and>
     tr_args new = Some (eq_args req) \<and> tr_kwargs new = Some (eq_kwargs req) \<and>
     tr_finished_at new = None \<and> tr_worker_ids new = [])"

text \<open>
  \<open>policy_for\<close> imports the task's module unless its policy is known, and falls back on the
  \<^emph>\<open>object\<close> \<open>DEFAULT_POLICY\<close>: \<open>_decide\<close> compares by identity, so a declared policy that
  happens to equal the default is not the default.
\<close>

datatype policy_ref = Default_Policy | Declared retry_policy | Implicit_Pinned

fun deref_policy :: "policy_ref \<Rightarrow> retry_policy" where
  "deref_policy Default_Policy = DEFAULT_POLICY"
| "deref_policy (Declared p) = p"
| "deref_policy Implicit_Pinned = IMPLICIT_PINNED_POLICY"

definition policy_for :: "task_env \<Rightarrow> string \<Rightarrow> policy_ref" where
  "policy_for env path =
     (let registry = (if te_policies env path = None
                      then te_policies env ++ te_import_policies env path
                      else te_policies env)
      in case registry path of Some p \<Rightarrow> Declared p | None \<Rightarrow> Default_Policy)"

section \<open>The decision\<close>

record attempt_info =
  ai_root_id :: uuid
  ai_attempt :: int
  ai_max_attempts :: "int option"

definition attempt_info :: "uuid \<Rightarrow> task_attempt list \<Rightarrow> attempt_info" where
  "attempt_info rid atts =
     (case attempt_row rid atts of
        None \<Rightarrow> \<lparr>ai_root_id = rid, ai_attempt = 1, ai_max_attempts = None\<rparr>
      | Some row \<Rightarrow> \<lparr>ai_root_id = ta_root_id row, ai_attempt = ta_attempt row,
                     ai_max_attempts = ta_max_attempts row\<rparr>)"

text \<open>\<open>TaskAttempt.objects.update_or_create(result_id=.., defaults=..)\<close>.\<close>

definition pin_max_attempts :: "instant \<Rightarrow> uuid \<Rightarrow> int \<Rightarrow> task_db \<Rightarrow> task_db" where
  "pin_max_attempts now rid n db =
     (case attempt_row rid (db_attempts db) of
        Some _ \<Rightarrow> db\<lparr>db_attempts := tbl_update (\<lambda>a. ta_result_id a = rid)
                   (\<lambda>a. a\<lparr>ta_root_id := rid, ta_attempt := 1, ta_max_attempts := Some n\<rparr>) (db_attempts db)\<rparr>
      | None \<Rightarrow> db\<lparr>db_attempts := db_attempts db @
                   [\<lparr>ta_result_id = rid, ta_root_id = rid, ta_parent_id = None, ta_attempt = 1,
                     ta_cause = C_First, ta_max_attempts = Some n, ta_created_at = now,
                     ta_parent_completed_at = None, ta_parent_status = '''', ta_retry_cancelled = False\<rparr>]\<rparr>)"

definition classify :: "task_result \<Rightarrow> cause \<Rightarrow> cause" where
  "classify row c =
     (if tr_exc_path row = WORKER_LOST_PATH then C_Lost
      else if tr_exc_path row \<in> set INTERRUPTED_PATHS then C_Interrupted
      else c)"

definition exc_matches :: "task_env \<Rightarrow> string \<Rightarrow> string list \<Rightarrow> bool" where
  "exc_matches env exc_path retry_on =
     (case te_resolve_class env exc_path of
        None \<Rightarrow> (\<exists>c \<in> set retry_on. c = EXCEPTION \<or> c = BASE_EXCEPTION)
      | Some Not_A_Class \<Rightarrow> False
      | Some (Class mro) \<Rightarrow> (\<exists>c \<in> set retry_on. c \<in> set mro))"

record decision =
  de_cause :: cause
  de_policy :: policy_ref
  de_info :: attempt_info
  de_budget :: int

definition decide :: "task_env \<Rightarrow> task_settings \<Rightarrow> task_attempt list \<Rightarrow> task_result \<Rightarrow> cause \<Rightarrow> decision option" where
  "decide env cfg atts row c0 =
     (if tr_status row \<noteq> Failed then None
      else if tr_exc_path row \<in> set BOOKKEEPING_PATHS then None
      else
        let c = classify row c0;
            declared = policy_for env (tr_task_path row);
            info = attempt_info (tr_id row) atts;
            pol = (if ai_max_attempts info \<noteq> None \<and> declared = Default_Policy then Implicit_Pinned else declared);
            budget = (case ai_max_attempts info of Some m \<Rightarrow> m | None \<Rightarrow> policy_attempts cfg (deref_policy pol))
        in if budget \<le> ai_attempt info then None
           else if c = C_Lost \<or> c = C_Interrupted then
             (if \<not> rp_retry_lost (deref_policy pol) then None
              else Some \<lparr>de_cause = c, de_policy = pol, de_info = info, de_budget = budget\<rparr>)
           else if \<not> exc_matches env (tr_exc_path row) (rp_retry_on (deref_policy pol)) then None
           else Some \<lparr>de_cause = c, de_policy = pol, de_info = info, de_budget = budget\<rparr>)"

section \<open>The enqueue\<close>

datatype task_error = Import_Failed | Enqueue_Failed

definition retry_request :: "instant \<Rightarrow> rat \<Rightarrow> task_result \<Rightarrow> enqueue_request" where
  "retry_request now delay row =
     \<lparr>eq_task_path = tr_task_path row, eq_queue_name = tr_queue_name row, eq_priority = tr_priority row,
      eq_backend = tr_backend_name row, eq_run_after = Some (now + span_of_seconds delay),
      eq_args = (case tr_args row of Some xs \<Rightarrow> xs | None \<Rightarrow> []),
      eq_kwargs = (case tr_kwargs row of Some xs \<Rightarrow> xs | None \<Rightarrow> [])\<rparr>"

definition next_attempt :: "instant \<Rightarrow> uuid \<Rightarrow> task_result \<Rightarrow> decision \<Rightarrow> task_attempt" where
  "next_attempt now new_id row d =
     \<lparr>ta_result_id = new_id, ta_root_id = ai_root_id (de_info d), ta_parent_id = Some (tr_id row),
      ta_attempt = ai_attempt (de_info d) + 1, ta_cause = de_cause d,
      ta_max_attempts = ai_max_attempts (de_info d), ta_created_at = now,
      ta_parent_completed_at = None, ta_parent_status = '''', ta_retry_cancelled = False\<rparr>"

text \<open>
  The transaction of \<open>maybe_retry\<close>: the enqueue and the attempt row commit together. When the
  insert violates a unique column the whole transaction is rolled back and another path was
  first (\<open>Inr None\<close>); an exception of the enqueue leaves the database as it was.
\<close>

definition commit_retry ::
  "task_env \<Rightarrow> task_settings \<Rightarrow> instant \<Rightarrow> task_result \<Rightarrow> decision \<Rightarrow> task_db \<Rightarrow> task_error + (uuid \<times> task_db) option" where
  "commit_retry env cfg now row d db =
     (let delay = policy_delay cfg (deref_policy (de_policy d)) (ai_attempt (de_info d)) (te_jitter env (tr_id row))
      in case te_enqueue env (retry_request now delay row) db of
           None \<Rightarrow> Inl Enqueue_Failed
         | Some new \<Rightarrow>
             (case insert_attempt (next_attempt now (tr_id new) row d) (db_attempts db) of
                None \<Rightarrow> Inr None
              | Some atts \<Rightarrow>
                  Inr (Some (tr_id new, db\<lparr>db_results := db_results db @ [new], db_attempts := atts\<rparr>))))"

text \<open>\<open>maybe_retry\<close>: read the row, decide, import the task, commit.\<close>

definition maybe_retry ::
  "task_env \<Rightarrow> task_settings \<Rightarrow> instant \<Rightarrow> cause \<Rightarrow> uuid \<Rightarrow> task_db \<Rightarrow> (task_error + uuid option) \<times> task_db" where
  "maybe_retry env cfg now c0 rid db =
     (case get_result rid db of
        None \<Rightarrow> (Inr None, db)
      | Some row \<Rightarrow>
          (case decide env cfg (db_attempts db) row c0 of
             None \<Rightarrow> (Inr None, db)
           | Some d \<Rightarrow>
               if \<not> te_importable env (tr_task_path row) then (Inl Import_Failed, db)
               else case commit_retry env cfg now row d db of
                      Inl e \<Rightarrow> (Inl e, db)
                    | Inr None \<Rightarrow> (Inr None, db)
                    | Inr (Some (new_id, db')) \<Rightarrow> (Inr (Some new_id), db')))"

text \<open>\<open>retry_of\<close>: the result id of the retry enqueued for a result.\<close>

definition retry_of :: "uuid \<Rightarrow> task_db \<Rightarrow> uuid option" where
  "retry_of rid db = map_option ta_result_id (child_row rid (db_attempts db))"

section \<open>Lookups after an insert\<close>

lemma attempt_info_snoc:
  "ta_result_id a \<noteq> r \<Longrightarrow> attempt_info r (atts @ [a]) = attempt_info r atts"
  by (simp add: attempt_info_def attempt_row_def tbl_find_append split: option.split)

lemma attempt_info_new:
  "\<forall>b \<in> set atts. ta_result_id b \<noteq> ta_result_id a \<Longrightarrow>
   attempt_info (ta_result_id a) (atts @ [a]) =
     \<lparr>ai_root_id = ta_root_id a, ai_attempt = ta_attempt a, ai_max_attempts = ta_max_attempts a\<rparr>"
  by (simp add: attempt_info_def attempt_row_def tbl_find_append tbl_find_None [THEN iffD2])

lemma child_row_snoc:
  "child_row p (atts @ [a]) =
     (case child_row p atts of Some c \<Rightarrow> Some c | None \<Rightarrow> if ta_parent_id a = Some p then Some a else None)"
  by (simp add: child_row_def tbl_find_append split: option.split)

section \<open>What a decision says\<close>

lemma decide_Some:
  assumes "decide env cfg atts row c0 = Some d"
  shows "tr_status row = Failed" "tr_exc_path row \<notin> set BOOKKEEPING_PATHS"
    "de_cause d = classify row c0" "de_info d = attempt_info (tr_id row) atts"
    "ai_attempt (de_info d) < de_budget d"
    "ai_max_attempts (de_info d) = Some m \<Longrightarrow> de_budget d = m"
    "ai_max_attempts (de_info d) = None \<Longrightarrow>
       de_budget d = policy_attempts cfg (deref_policy (policy_for env (tr_task_path row)))"
    "de_policy d = (if ai_max_attempts (de_info d) \<noteq> None \<and> policy_for env (tr_task_path row) = Default_Policy
                    then Implicit_Pinned else policy_for env (tr_task_path row))"
  using assms by (auto simp: decide_def Let_def split: if_splits option.splits)

lemma decide_not_failed [simp]: "tr_status row \<noteq> Failed \<Longrightarrow> decide env cfg atts row c0 = None"
  by (simp add: decide_def)

lemma decide_bookkeeping [simp]:
  "tr_exc_path row \<in> set BOOKKEEPING_PATHS \<Longrightarrow> decide env cfg atts row c0 = None"
  by (simp add: decide_def)

section \<open>What a commit does\<close>

lemma commit_retry_Some:
  "commit_retry env cfg now row d db = Inr (Some (new_id, db')) \<longleftrightarrow>
     (\<exists>new. te_enqueue env (retry_request now (policy_delay cfg (deref_policy (de_policy d))
              (ai_attempt (de_info d)) (te_jitter env (tr_id row))) row) db = Some new \<and>
        new_id = tr_id new \<and>
        insert_attempt (next_attempt now (tr_id new) row d) (db_attempts db)
          = Some (db_attempts db @ [next_attempt now (tr_id new) row d]) \<and>
        db' = db\<lparr>db_results := db_results db @ [new],
                 db_attempts := db_attempts db @ [next_attempt now (tr_id new) row d]\<rparr>)"
  by (auto simp: commit_retry_def Let_def dest: insert_attempt_appends split: option.splits)

text \<open>The commit as a conditional claim on the retried result.\<close>

definition commit_claim ::
  "task_env \<Rightarrow> task_settings \<Rightarrow> instant \<Rightarrow> uuid \<Rightarrow> task_result \<times> decision \<Rightarrow> task_db \<Rightarrow> task_db option" where
  "commit_claim env cfg now rid w db =
     (if tr_id (fst w) \<noteq> rid then None
      else case commit_retry env cfg now (fst w) (snd w) db of
             Inr (Some (_, db')) \<Rightarrow> Some db'
           | _ \<Rightarrow> None)"

lemma commit_claim_Some:
  "commit_claim env cfg now rid w db = Some db' \<longleftrightarrow>
     tr_id (fst w) = rid \<and> (\<exists>n. commit_retry env cfg now (fst w) (snd w) db = Inr (Some (n, db')))"
  by (auto simp: commit_claim_def split: sum.splits option.splits)

interpretation retry_commit: conditional_claim "commit_claim env cfg now"
    "\<lambda>db rid. child_row rid (db_attempts db) \<noteq> None" "\<lambda>_ _. True" for env cfg now
proof (unfold_locales, goal_cases)
  case (1 k w s s')
  then show ?case
    by (auto simp: commit_claim_Some commit_retry_Some child_row_snoc next_attempt_def split: option.split)
next
  case (2 s k w)
  show ?case
  proof (rule ccontr)
    assume "commit_claim env cfg now k w s \<noteq> None"
    then obtain s' n where "tr_id (fst w) = k" "commit_retry env cfg now (fst w) (snd w) s = Inr (Some (n, s'))"
      by (auto simp: commit_claim_Some)
    with 2 show False
      using insert_attempt_child_taken [of _ k "db_attempts s"]
      by (fastforce simp: commit_retry_Some next_attempt_def)
  qed
next
  case (3 s k k' w s')
  then show ?case
    by (auto simp: commit_claim_Some commit_retry_Some child_row_snoc)
qed

text \<open>Inversion of \<open>maybe_retry\<close>: either nothing changes, or one decision was committed.\<close>

lemma maybe_retry_cases:
  obtains (idle) "snd (maybe_retry env cfg now c0 rid db) = db"
      "\<forall>n. fst (maybe_retry env cfg now c0 rid db) \<noteq> Inr (Some n)"
  | (retried) row d n db' where "get_result rid db = Some row" "tr_id row = rid"
      "decide env cfg (db_attempts db) row c0 = Some d"
      "te_importable env (tr_task_path row)"
      "commit_retry env cfg now row d db = Inr (Some (n, db'))"
      "maybe_retry env cfg now c0 rid db = (Inr (Some n), db')"
proof (cases "get_result rid db")
  case None
  then show ?thesis using idle by (simp add: maybe_retry_def)
next
  case (Some row)
  note row = this
  then have id: "tr_id row = rid" by (auto dest: tbl_find_Some)
  show ?thesis
  proof (cases "decide env cfg (db_attempts db) row c0")
    case None
    with row show ?thesis using idle by (simp add: maybe_retry_def)
  next
    case (Some d)
    show ?thesis
    proof (cases "te_importable env (tr_task_path row)")
      case False
      with row Some show ?thesis using idle by (simp add: maybe_retry_def)
    next
      case imp: True
      show ?thesis
      proof (cases "\<exists>n db'. commit_retry env cfg now row d db = Inr (Some (n, db'))")
        case True
        with row Some imp id show ?thesis using retried by (auto simp: maybe_retry_def)
      next
        case False
        with row Some imp show ?thesis
          by (intro idle) (auto simp: maybe_retry_def split: sum.splits option.splits)
      qed
    qed
  qed
qed

end
