(* ===== verification/Task_Chain.thy ===== *)
theory Task_Chain
  imports Task_Retry
begin

text \<open>
  Following a chain of attempts (\<open>apps/tasks/reliability.py\<close>, second half): late completions of
  attempts that were declared lost, the outcome of a chain, and the sweep that retries failures
  whose retry was never enqueued.
\<close>

definition REPAIR_WINDOW :: span where "REPAIR_WINDOW = hours_span 1"
definition REPAIR_GRACE :: span where "REPAIR_GRACE = secs 30"
definition REPAIR_BATCH :: nat where "REPAIR_BATCH = 100"
definition LATE_COMPLETION_WINDOW :: span where "LATE_COMPLETION_WINDOW = days_span 1"

section \<open>Late completions\<close>

record late_completion =
  lc_parent_id :: uuid
  lc_retry_id :: uuid
  lc_task_path :: string
  lc_status :: string
  lc_retry_cancelled :: bool

text \<open>The rows of \<open>reaped_child\<close>: the retry that replaced an attempt declared lost, unmarked.\<close>

definition reaped_child :: "uuid \<Rightarrow> task_attempt \<Rightarrow> bool" where
  "reaped_child pid a \<longleftrightarrow>
     ta_parent_id a = Some pid \<and> ta_parent_completed_at a = None \<and> ta_cause a = C_Lost"

definition superseded_traceback :: "uuid \<Rightarrow> task_status \<Rightarrow> string" where
  "superseded_traceback pid status =
     ''RetrySuperseded: attempt '' @ pid @ '' was declared lost and replaced by this retry, '' @
     ''but then completed ('' @ status_str status @ '') before this retry started''"

definition cancel_retry :: "uuid \<Rightarrow> task_status \<Rightarrow> instant \<Rightarrow> task_result \<Rightarrow> task_result" where
  "cancel_retry pid status now r = r\<lparr>tr_status := Failed, tr_finished_at := Some now,
     tr_return_value := None, tr_exc_path := RETRY_SUPERSEDED_PATH,
     tr_traceback := superseded_traceback pid status\<rparr>"

text \<open>
  The conditional UPDATE that records a late completion, and \<open>_mark_superseded\<close>: nothing happens
  unless an unmarked \<open>cause=lost\<close> child exists; the child's result is cancelled only while it
  is still \<open>READY\<close>.
\<close>

definition mark_parent_completed :: "uuid \<Rightarrow> instant \<times> task_status \<Rightarrow> task_db \<Rightarrow> task_db option" where
  "mark_parent_completed pid w db =
     (if tbl_count (reaped_child pid) (db_attempts db) = 0 then None
      else Some (db\<lparr>db_attempts := tbl_update (reaped_child pid)
             (\<lambda>a. a\<lparr>ta_parent_completed_at := Some (fst w), ta_parent_status := take 16 (status_str (snd w))\<rparr>)
             (db_attempts db)\<rparr>))"

definition mark_superseded ::
  "uuid \<Rightarrow> task_status \<Rightarrow> string \<Rightarrow> instant \<Rightarrow> instant \<Rightarrow> task_db \<Rightarrow> late_completion option \<times> task_db" where
  "mark_superseded pid status path completed_at now db =
     (case find (reaped_child pid) (db_attempts db) of
        None \<Rightarrow> (None, db)
      | Some c \<Rightarrow>
          (case mark_parent_completed pid (completed_at, status) db of
             None \<Rightarrow> (None, db)
           | Some db1 \<Rightarrow>
               let child = ta_result_id c;
                   is_ready = (\<lambda>r. tr_id r = child \<and> tr_status r = Ready);
                   cancelled = (0 < tbl_count is_ready (db_results db1));
                   db2 = db1\<lparr>db_results := tbl_update is_ready (cancel_retry pid status now) (db_results db1)\<rparr>;
                   db3 = (if cancelled
                          then db2\<lparr>db_attempts := tbl_update (\<lambda>a. ta_parent_id a = Some pid)
                                    (\<lambda>a. a\<lparr>ta_retry_cancelled := True\<rparr>) (db_attempts db2)\<rparr>
                          else db2)
               in (Some \<lparr>lc_parent_id = pid, lc_retry_id = child, lc_task_path = path,
                         lc_status = status_str status, lc_retry_cancelled = cancelled\<rparr>, db3)))"

definition record_late_completion :: "instant \<Rightarrow> uuid \<Rightarrow> task_db \<Rightarrow> late_completion option \<times> task_db" where
  "record_late_completion now rid db =
     (case get_result rid db of
        None \<Rightarrow> (None, db)
      | Some row \<Rightarrow>
          if tr_status row = Ready \<or> tr_status row = Running then (None, db)
          else mark_superseded rid (tr_status row) (tr_task_path row)
                 (case tr_finished_at row of Some t \<Rightarrow> t | None \<Rightarrow> now) now db)"

text \<open>
  The sweep. The rows are read before the loop marks any of them; an attempt that still
  carries the reaper's verdict is skipped.
\<close>

definition late_candidates :: "instant \<Rightarrow> nat \<Rightarrow> task_db \<Rightarrow> uuid list" where
  "late_candidates now limit db =
     List.map_filter ta_parent_id (take limit (sort_key (\<lambda>a. (ta_root_id a, ta_attempt a))
       (filter (\<lambda>a. ta_cause a = C_Lost \<and> ta_parent_completed_at a = None \<and> ta_parent_id a \<noteq> None
                  \<and> now - LATE_COMPLETION_WINDOW \<le> ta_created_at a) (db_attempts db))))"

fun mark_late :: "instant \<Rightarrow> task_result list \<Rightarrow> task_db \<Rightarrow> late_completion list \<times> task_db" where
  "mark_late now [] db = ([], db)"
| "mark_late now (r # rs) db =
     (if tr_status r = Failed \<and> tr_exc_path r = WORKER_LOST_PATH then mark_late now rs db
      else case mark_superseded (tr_id r) (tr_status r) (tr_task_path r)
                  (case tr_finished_at r of Some t \<Rightarrow> t | None \<Rightarrow> now) now db of
             (late, db1) \<Rightarrow>
               (case mark_late now rs db1 of
                  (found, db2) \<Rightarrow> ((case late of Some l \<Rightarrow> l # found | None \<Rightarrow> found), db2)))"

definition detect_late_completions :: "instant \<Rightarrow> nat \<Rightarrow> task_db \<Rightarrow> late_completion list \<times> task_db" where
  "detect_late_completions now limit db =
     (let candidates = late_candidates now limit db
      in if candidates = [] then ([], db)
         else mark_late now (filter (\<lambda>r. tr_id r \<in> set candidates
                \<and> (tr_status r = Successful \<or> tr_status r = Failed)) (db_results db)) db)"

section \<open>The outcome of a chain\<close>

datatype chain_status = Engine task_status | Retrying

record chain_outcome =
  co_status :: chain_status
  co_row :: task_result
  co_attempt :: int
  co_executed_more_than_once :: bool
  co_superseded_attempt :: "int option"
  co_superseded_status :: string
  co_resurrected :: bool

definition double_execution_note :: "chain_outcome \<Rightarrow> string" where
  "double_execution_note co =
     (if co_resurrected co
      then ''ran again unexpectedly: a cancelled retry was re-enqueued and continued''
      else if \<not> co_executed_more_than_once co then ''''
      else
        let which = (case co_superseded_attempt co of
                       Some n \<Rightarrow> if n \<noteq> 0 then ''attempt '' @ int_str n else ''an earlier attempt''
                     | None \<Rightarrow> ''an earlier attempt'');
            ended = (if co_superseded_status co \<noteq> '''' then '' ('' @ co_superseded_status co @ '')'' else '''')
        in ''ran more than once: '' @ which @ '' completed'' @ ended @ '' after being declared lost'')"

definition MAX_CHAIN :: nat where "MAX_CHAIN = 1000"

record chain_walk =
  cw_current :: uuid
  cw_attempt :: int
  cw_superseded_attempt :: "int option"
  cw_superseded_status :: string
  cw_forked :: bool
  cw_resurrected :: bool

definition walk_start :: "uuid \<Rightarrow> chain_walk" where
  "walk_start rid = \<lparr>cw_current = rid, cw_attempt = 1, cw_superseded_attempt = None,
     cw_superseded_status = '''', cw_forked = False, cw_resurrected = False\<rparr>"

text \<open>One round of the loop: \<open>Inl\<close> is the \<open>break\<close>, \<open>Inr\<close> the state of the next round.\<close>

definition walk_step :: "task_attempt list \<Rightarrow> chain_walk \<Rightarrow> chain_walk + chain_walk" where
  "walk_step atts w =
     (case child_row (cw_current w) atts of
        None \<Rightarrow> Inl w
      | Some c \<Rightarrow>
          let move = (\<lambda>v. v\<lparr>cw_current := ta_result_id c, cw_attempt := ta_attempt c\<rparr>)
          in case ta_parent_completed_at c of
               None \<Rightarrow> Inr (move w)
             | Some _ \<Rightarrow>
                 let w1 = w\<lparr>cw_superseded_attempt := Some (cw_attempt w), cw_superseded_status := ta_parent_status c\<rparr>
                 in if ta_retry_cancelled c
                    then (if child_row (ta_result_id c) atts = None then Inl w1
                          else Inr (move (w1\<lparr>cw_resurrected := True\<rparr>)))
                    else Inr (move (w1\<lparr>cw_forked := True\<rparr>)))"

fun walk_chain :: "nat \<Rightarrow> task_attempt list \<Rightarrow> chain_walk \<Rightarrow> chain_walk" where
  "walk_chain 0 atts w = w"
| "walk_chain (Suc n) atts w = (case walk_step atts w of Inl w' \<Rightarrow> w' | Inr w' \<Rightarrow> walk_chain n atts w')"

definition chain_outcome :: "task_env \<Rightarrow> task_settings \<Rightarrow> instant \<Rightarrow> uuid \<Rightarrow> task_db \<Rightarrow> chain_outcome option" where
  "chain_outcome env cfg now rid db =
     (let w = walk_chain MAX_CHAIN (db_attempts db) (walk_start rid)
      in case get_result (cw_current w) db of
           None \<Rightarrow> None
         | Some row \<Rightarrow>
             let recent = (case tr_finished_at row of None \<Rightarrow> True | Some t \<Rightarrow> now - REPAIR_WINDOW \<le> t);
                 status = (if tr_status row = Failed \<and> recent
                              \<and> decide env cfg (db_attempts db) row C_Failed \<noteq> None
                           then Retrying else Engine (tr_status row))
             in Some \<lparr>co_status = status, co_row = row, co_attempt = cw_attempt w,
                      co_executed_more_than_once = (cw_forked w \<or> (cw_resurrected w \<and> status \<noteq> Engine Ready)),
                      co_superseded_attempt = cw_superseded_attempt w,
                      co_superseded_status = cw_superseded_status w,
                      co_resurrected = cw_resurrected w\<rparr>)"

section \<open>The repair sweep\<close>

definition repair_recent :: "instant \<Rightarrow> task_db \<Rightarrow> task_result list" where
  "repair_recent now db =
     filter (\<lambda>r. tr_status r = Failed \<and> col_gte (tr_finished_at r) (now - REPAIR_WINDOW)
               \<and> col_lte (tr_finished_at r) (now - REPAIR_GRACE)
               \<and> tr_id r \<notin> set (List.map_filter ta_parent_id (db_attempts db))
               \<and> tr_exc_path r \<notin> set BOOKKEEPING_PATHS) (db_results db)"

definition repair_candidates :: "task_env \<Rightarrow> task_settings \<Rightarrow> instant \<Rightarrow> task_db \<Rightarrow> uuid list" where
  "repair_candidates env cfg now db =
     (let recent = repair_recent now db;
          retryable_paths = filter (\<lambda>p. 1 < policy_attempts cfg (deref_policy (policy_for env p)))
                              (remdups (map tr_task_path recent));
          pinned = map ta_result_id (filter (\<lambda>a. case ta_max_attempts a of Some m \<Rightarrow> 1 < m | None \<Rightarrow> False)
                                       (db_attempts db))
      in take REPAIR_BATCH (map tr_id (sort_key (\<lambda>r. case tr_finished_at r of Some t \<Rightarrow> t | None \<Rightarrow> 0)
           (filter (\<lambda>r. tr_task_path r \<in> set retryable_paths \<or> tr_id r \<in> set pinned) recent))))"

text \<open>The loop: an exception of one row is logged and the sweep goes on.\<close>

fun retry_each :: "task_env \<Rightarrow> task_settings \<Rightarrow> instant \<Rightarrow> uuid list \<Rightarrow> task_db \<Rightarrow> nat \<times> task_db" where
  "retry_each env cfg now [] db = (0, db)"
| "retry_each env cfg now (rid # rids) db =
     (case maybe_retry env cfg now C_Failed rid db of
        (res, db1) \<Rightarrow> (case retry_each env cfg now rids db1 of
           (n, db2) \<Rightarrow> ((case res of Inr (Some _) \<Rightarrow> Suc n | _ \<Rightarrow> n), db2)))"

definition repair_missed_retries :: "task_env \<Rightarrow> task_settings \<Rightarrow> instant \<Rightarrow> task_db \<Rightarrow> nat \<times> task_db" where
  "repair_missed_retries env cfg now db = retry_each env cfg now (repair_candidates env cfg now db) db"

end
