(* ===== verification/Task_Reaper.thy ===== *)
theory Task_Reaper
  imports Task_Chain
begin

text \<open>
  Worker liveness and the reaper (\<open>apps/tasks/reaper.py\<close>, \<open>apps/tasks/heartbeat.py\<close>) and the
  receivers of \<open>task_finished\<close> (\<open>apps/tasks/signals.py\<close>).

  Two clocks appear, as in the code: \<open>now\<close> is the caller's, \<open>db_now\<close> the database's, the one
  heartbeats are written with. Both are arguments.
\<close>

section \<open>Worker rows (heartbeat.py)\<close>

text \<open>The operator's label and the token minted for this process.\<close>

definition new_incarnation :: "string \<Rightarrow> string \<Rightarrow> string" where
  "new_incarnation label token = label @ ''#'' @ take 12 token"

definition register_worker ::
  "instant \<Rightarrow> string \<Rightarrow> nat \<Rightarrow> string \<Rightarrow> string \<Rightarrow> string \<Rightarrow> task_db \<Rightarrow> task_db" where
  "register_worker db_now hostname pid worker_id label queues db =
     (let fill = (\<lambda>h. h\<lparr>hb_label := take 64 label, hb_hostname := take 255 hostname, hb_pid := Some pid,
                        hb_queues := take 255 queues, hb_last_seen_at := db_now, hb_stopped_at := None\<rparr>)
      in case tbl_find hb_worker_id worker_id (db_beats db) of
           Some _ \<Rightarrow> db\<lparr>db_beats := tbl_update (\<lambda>h. hb_worker_id h = worker_id) fill (db_beats db)\<rparr>
         | None \<Rightarrow> db\<lparr>db_beats := db_beats db @
             [fill \<lparr>hb_worker_id = worker_id, hb_label = '''', hb_hostname = '''', hb_pid = None,
                    hb_queues = '''', hb_started_at = db_now, hb_last_seen_at = db_now, hb_stopped_at = None\<rparr>]\<rparr>)"

definition beat :: "instant \<Rightarrow> string \<Rightarrow> task_db \<Rightarrow> task_db" where
  "beat db_now worker_id db =
     db\<lparr>db_beats := tbl_update (\<lambda>h. hb_worker_id h = worker_id) (\<lambda>h. h\<lparr>hb_last_seen_at := db_now\<rparr>) (db_beats db)\<rparr>"

definition mark_stopped :: "instant \<Rightarrow> string \<Rightarrow> task_db \<Rightarrow> task_db" where
  "mark_stopped db_now worker_id db =
     db\<lparr>db_beats := tbl_update (\<lambda>h. hb_worker_id h = worker_id)
          (\<lambda>h. h\<lparr>hb_last_seen_at := db_now, hb_stopped_at := Some db_now\<rparr>) (db_beats db)\<rparr>"

section \<open>Which tasks are lost\<close>

text \<open>
  The reason is text for operators; the model keeps which rule gave it, with the values it
  prints.
\<close>

datatype lost_reason =
    Worker_Exited string instant
  | Worker_Silent string instant int int
  | Worker_Unknown string instant int

definition lost_reason ::
  "task_settings \<Rightarrow> instant \<Rightarrow> instant \<Rightarrow> task_result \<Rightarrow> string \<Rightarrow> worker_heartbeat option \<Rightarrow> lost_reason option" where
  "lost_reason cfg now db_now row worker_id hb =
     (case hb of
        Some h \<Rightarrow>
          let name = (if hb_label h \<noteq> '''' then hb_label h else worker_id) in
          (case hb_stopped_at h of
             Some t \<Rightarrow> Some (Worker_Exited name t)
           | None \<Rightarrow>
               if secs (ts_lost_after_seconds cfg) < db_now - hb_last_seen_at h
               then Some (Worker_Silent name (hb_last_seen_at h) (int_seconds (db_now - hb_last_seen_at h))
                            (ts_lost_after_seconds cfg))
               else None)
      | None \<Rightarrow>
          let started = (case tr_started_at row of Some t \<Rightarrow> t | None \<Rightarrow> tr_enqueued_at row) in
          if started < now - secs (ts_orphan_seconds cfg)
          then Some (Worker_Unknown (if worker_id \<noteq> '''' then worker_id else ''unknown'') started (ts_orphan_seconds cfg))
          else None)"

record lost_task =
  lt_result_id :: uuid
  lt_task_path :: string
  lt_worker_id :: string
  lt_reason :: lost_reason

definition claimant :: "task_result \<Rightarrow> string" where
  "claimant row = (if tr_worker_ids row = [] then '''' else last (tr_worker_ids row))"

definition running_rows :: "task_db \<Rightarrow> task_result list" where
  "running_rows db = filter (\<lambda>r. tr_status r = Running) (db_results db)"

definition find_lost_tasks ::
  "task_settings \<Rightarrow> instant \<Rightarrow> instant \<Rightarrow> string list \<Rightarrow> task_db \<Rightarrow> nat \<times> lost_task list" where
  "find_lost_tasks cfg now db_now exclude db =
     (let worker_ids = map (\<lambda>r. last (tr_worker_ids r)) (filter (\<lambda>r. tr_worker_ids r \<noteq> []) (running_rows db));
          heartbeats = filter (\<lambda>h. hb_worker_id h \<in> set worker_ids) (db_beats db)
      in (length (running_rows db),
          List.map_filter
            (\<lambda>row. let w = claimant row in
               if w \<noteq> '''' \<and> w \<in> set exclude then None
               else map_option (\<lambda>why. \<lparr>lt_result_id = tr_id row, lt_task_path = tr_task_path row,
                                        lt_worker_id = w, lt_reason = why\<rparr>)
                      (lost_reason cfg now db_now row w (tbl_find hb_worker_id w heartbeats)))
            (running_rows db)))"

section \<open>The reaper pass\<close>

definition HEARTBEAT_RETENTION :: span where "HEARTBEAT_RETENTION = days_span 7"

definition prune_heartbeats :: "instant \<Rightarrow> task_db \<Rightarrow> nat \<times> task_db" where
  "prune_heartbeats now db =
     (let cutoff = now - HEARTBEAT_RETENTION;
          old = (\<lambda>h. col_lt (hb_stopped_at h) cutoff \<or> hb_last_seen_at h < cutoff)
      in (tbl_count old (db_beats db), db\<lparr>db_beats := filter (\<lambda>h. \<not> old h) (db_beats db)\<rparr>))"

record reap_result =
  rr_running :: nat
  rr_reaped :: "lost_task list"
  rr_raced :: nat
  rr_reaped_then_completed :: nat
  rr_retried :: nat
  rr_repaired :: nat
  rr_heartbeats_pruned :: nat

definition reap_result_start :: "nat \<Rightarrow> reap_result" where
  "reap_result_start n = \<lparr>rr_running = n, rr_reaped = [], rr_raced = 0, rr_reaped_then_completed = 0,
     rr_retried = 0, rr_repaired = 0, rr_heartbeats_pruned = 0\<rparr>"

text \<open>The text \<open>"WorkerLost: " + reason\<close>; how instants print is left out of the model.\<close>

definition reap_row :: "(lost_reason \<Rightarrow> string) \<Rightarrow> instant \<Rightarrow> lost_reason \<Rightarrow> task_result \<Rightarrow> task_result" where
  "reap_row show_reason now why r = r\<lparr>tr_status := Failed, tr_finished_at := Some now, tr_return_value := None,
     tr_exc_path := WORKER_LOST_PATH, tr_traceback := ''WorkerLost: '' @ show_reason why\<rparr>"

text \<open>The conditional UPDATE on \<open>status=RUNNING\<close>.\<close>

definition reap_claim ::
  "(lost_reason \<Rightarrow> string) \<Rightarrow> uuid \<Rightarrow> instant \<times> lost_reason \<Rightarrow> task_db \<Rightarrow> task_db option" where
  "reap_claim show_reason rid w db =
     (let is_running = (\<lambda>r. tr_id r = rid \<and> tr_status r = Running)
      in if tbl_count is_running (db_results db) = 0 then None
         else Some (db\<lparr>db_results := tbl_update is_running (reap_row show_reason (fst w) (snd w)) (db_results db)\<rparr>))"

fun reap_each ::
  "task_env \<Rightarrow> task_settings \<Rightarrow> (lost_reason \<Rightarrow> string) \<Rightarrow> instant \<Rightarrow> lost_task list \<Rightarrow> reap_result \<times> task_db \<Rightarrow> reap_result \<times> task_db" where
  "reap_each env cfg show_reason now [] (res, db) = (res, db)"
| "reap_each env cfg show_reason now (t # ts) (res, db) =
     (case reap_claim show_reason (lt_result_id t) (now, lt_reason t) db of
        None \<Rightarrow> reap_each env cfg show_reason now ts (res\<lparr>rr_raced := Suc (rr_raced res)\<rparr>, db)
      | Some db1 \<Rightarrow>
          (let res1 = res\<lparr>rr_reaped := rr_reaped res @ [t]\<rparr>
           in case maybe_retry env cfg now C_Lost (lt_result_id t) db1 of
                (Inr (Some _), db2) \<Rightarrow> reap_each env cfg show_reason now ts (res1\<lparr>rr_retried := Suc (rr_retried res1)\<rparr>, db2)
              | (_, db2) \<Rightarrow> reap_each env cfg show_reason now ts (res1, db2)))"

definition reap_lost_tasks ::
  "task_env \<Rightarrow> task_settings \<Rightarrow> (lost_reason \<Rightarrow> string) \<Rightarrow> instant \<Rightarrow> instant \<Rightarrow> bool \<Rightarrow> string list \<Rightarrow> task_db \<Rightarrow> reap_result \<times> task_db" where
  "reap_lost_tasks env cfg show_reason now db_now dry_run exclude db =
     (case find_lost_tasks cfg now db_now exclude db of
        (running, lost) \<Rightarrow>
          let res0 = reap_result_start running in
          if dry_run then (res0\<lparr>rr_reaped := lost\<rparr>, db)
          else
            (case reap_each env cfg show_reason now lost (res0, db) of (res1, db1) \<Rightarrow>
             case repair_missed_retries env cfg now db1 of (repaired, db2) \<Rightarrow>
             case detect_late_completions now REPAIR_BATCH db2 of (late, db3) \<Rightarrow>
             case prune_heartbeats now db3 of (pruned, db4) \<Rightarrow>
               (res1\<lparr>rr_repaired := repaired, rr_reaped_then_completed := length late,
                     rr_heartbeats_pruned := pruned\<rparr>, db4)))"

section \<open>The heartbeat thread\<close>

definition REAP_EVERY :: nat where "REAP_EVERY = 4"
definition MAX_MISSED_BEATS_BEFORE_YIELDING :: nat where "MAX_MISSED_BEATS_BEFORE_YIELDING = 2"

record beat_thread =
  bt_worker_id :: string
  bt_reap_every :: nat
  bt_beats :: nat
  bt_missed :: nat

definition thread_start :: "string \<Rightarrow> nat \<Rightarrow> beat_thread" where
  "thread_start wid every = \<lparr>bt_worker_id = wid, bt_reap_every = max 1 every, bt_beats = 0, bt_missed = 0\<rparr>"

text \<open>
  One round of \<open>run\<close>: a beat that succeeds or fails, and every \<open>reap_every\<close> rounds a reaper pass,
  unless this thread has itself missed too many beats. The second component says whether a
  pass was made; \<open>safe_reap\<close> makes it with the thread's own incarnation excluded.
\<close>

definition thread_beat :: "bool \<Rightarrow> beat_thread \<Rightarrow> beat_thread" where
  "thread_beat ok t = t\<lparr>bt_missed := (if ok then 0 else Suc (bt_missed t))\<rparr>"

definition thread_reaps :: "beat_thread \<Rightarrow> bool" where
  "thread_reaps t \<longleftrightarrow> bt_missed t < MAX_MISSED_BEATS_BEFORE_YIELDING"

definition thread_round :: "bool \<Rightarrow> beat_thread \<Rightarrow> beat_thread \<times> bool" where
  "thread_round ok t =
     (let t1 = thread_beat ok t; t2 = t1\<lparr>bt_beats := Suc (bt_beats t1)\<rparr>
      in (t2, bt_beats t2 mod bt_reap_every t2 = 0 \<and> thread_reaps t2))"

fun thread_run :: "bool list \<Rightarrow> beat_thread \<Rightarrow> beat_thread \<times> bool list" where
  "thread_run [] t = (t, [])"
| "thread_run (ok # oks) t =
     (case thread_round ok t of (t1, r) \<Rightarrow> case thread_run oks t1 of (t2, rs) \<Rightarrow> (t2, r # rs))"

text \<open>\<open>safe_reap\<close>: a pass that excludes the caller's own incarnation.\<close>

definition safe_reap ::
  "task_env \<Rightarrow> task_settings \<Rightarrow> (lost_reason \<Rightarrow> string) \<Rightarrow> instant \<Rightarrow> instant \<Rightarrow> string \<Rightarrow> task_db \<Rightarrow> reap_result \<times> task_db" where
  "safe_reap env cfg show_reason now db_now worker_id db =
     reap_lost_tasks env cfg show_reason now db_now False [worker_id] db"

section \<open>The receivers (signals.py)\<close>

text \<open>What \<open>task_finished\<close> was sent by: an instance or a class, of a database backend or of
  another one, or something that is no backend at all.\<close>

datatype sender = Database_Backend | Other_Backend | No_Backend

definition from_database_worker :: "sender \<Rightarrow> bool \<Rightarrow> bool \<times> bool" where
  "from_database_worker s warned =
     (case s of
        Database_Backend \<Rightarrow> (True, warned)
      | Other_Backend \<Rightarrow> (False, warned)
      | No_Backend \<Rightarrow> (False, True))"

definition retry_failed_task ::
  "task_env \<Rightarrow> task_settings \<Rightarrow> instant \<Rightarrow> sender \<Rightarrow> uuid \<Rightarrow> task_status \<Rightarrow> task_db \<Rightarrow> task_db" where
  "retry_failed_task env cfg now s rid status db =
     (if \<not> fst (from_database_worker s True) then db
      else case record_late_completion now rid db of
             (late, db1) \<Rightarrow>
               if late = None \<and> status = Failed
               then snd (maybe_retry env cfg now C_Failed rid db1)
               else db1)"

datatype log_level = Log_Warning uuid | Log_Error | Log_Info

definition log_task_outcome :: "task_settings \<Rightarrow> uuid \<Rightarrow> task_status \<Rightarrow> task_db \<Rightarrow> log_level" where
  "log_task_outcome cfg rid status db =
     (let retry_id = (if ts_soften_retryable_logs cfg \<and> status = Failed then retry_of rid db else None)
      in case retry_id of
           Some r \<Rightarrow> Log_Warning r
         | None \<Rightarrow> if status = Failed then Log_Error else Log_Info)"

end
