(* ===== verification/Task_Invariants.thy ===== *)
theory Task_Invariants
  imports Task_Reaper
begin

text \<open>
  The invariant of the attempt chains and its preservation by every operation of the task
  layer, the budget of a chain, and the machine of all operations, whose reachable states
  have both.
\<close>

section \<open>Well-formed chains\<close>

text \<open>
  Ids are unique; a row without a parent is attempt 1 of its own chain; a retry is one more
  than the attempt it retried, in the same chain and with the same pinned budget.
\<close>

definition attempt_follows :: "task_attempt list \<Rightarrow> task_attempt \<Rightarrow> bool" where
  "attempt_follows atts a \<longleftrightarrow>
     (case ta_parent_id a of
        None \<Rightarrow> ta_attempt a = 1 \<and> ta_root_id a = ta_result_id a
      | Some p \<Rightarrow> ta_attempt a = ai_attempt (attempt_info p atts) + 1
                \<and> ta_root_id a = ai_root_id (attempt_info p atts)
                \<and> ta_max_attempts a = ai_max_attempts (attempt_info p atts))"

definition chains_ok :: "task_attempt list \<Rightarrow> bool" where
  "chains_ok atts \<longleftrightarrow> unique_attempts atts \<and> (\<forall>a \<in> set atts. attempt_follows atts a)"

definition chain_wf :: "task_db \<Rightarrow> bool" where
  "chain_wf db \<longleftrightarrow> distinct (map tr_id (db_results db)) \<and> chains_ok (db_attempts db)"

lemma wf_row_unique:
  "chain_wf db \<Longrightarrow> r \<in> set (db_results db) \<Longrightarrow> q \<in> set (db_results db) \<Longrightarrow> tr_id r = tr_id q \<Longrightarrow> r = q"
  by (auto simp: chain_wf_def distinct_map inj_on_def)

lemma wf_get_result:
  "chain_wf db \<Longrightarrow> r \<in> set (db_results db) \<Longrightarrow> get_result (tr_id r) db = Some r"
  by (auto simp: chain_wf_def intro: tbl_find_in)

lemma used_ids_simps:
  "r \<in> set (db_results db) \<Longrightarrow> tr_id r \<in> set (used_ids db)"
  "a \<in> set (db_attempts db) \<Longrightarrow> ta_result_id a \<in> set (used_ids db)"
  "a \<in> set (db_attempts db) \<Longrightarrow> ta_parent_id a = Some p \<Longrightarrow> p \<in> set (used_ids db)"
  by (auto simp: used_ids_def set_map_filter_iff)

text \<open>Adding a row whose result id is new to the chains.\<close>

lemma chains_ok_snoc:
  assumes ok: "chains_ok atts" and ins: "insert_attempt a atts = Some (atts @ [a])"
    and fresh: "\<forall>b \<in> set atts. ta_parent_id b \<noteq> Some (ta_result_id a)"
    and self: "ta_parent_id a \<noteq> Some (ta_result_id a)"
    and follows: "attempt_follows atts a"
  shows "chains_ok (atts @ [a])"
proof -
  have "attempt_follows (atts @ [a]) b" if b: "b \<in> set (atts @ [a])" for b
  proof -
    have old: "attempt_follows atts b" using b ok follows by (auto simp: chains_ok_def)
    have "ta_parent_id b \<noteq> Some (ta_result_id a)" using b fresh self by auto
    with old show ?thesis
      by (auto simp: attempt_follows_def attempt_info_snoc split: option.splits)
  qed
  with ok ins show ?thesis by (auto simp: chains_ok_def dest: insert_attempt_unique)
qed

text \<open>Updates of the columns that do not place a row in its chain.\<close>

lemma attempt_info_update:
  assumes "\<And>a. ta_result_id (f a) = ta_result_id a" "\<And>a. ta_root_id (f a) = ta_root_id a"
    "\<And>a. ta_attempt (f a) = ta_attempt a" "\<And>a. ta_max_attempts (f a) = ta_max_attempts a"
  shows "attempt_info r (tbl_update P f atts) = attempt_info r atts"
  by (simp add: attempt_info_def attempt_row_update assms split: option.split)

lemma chains_ok_update:
  assumes "\<And>a. ta_result_id (f a) = ta_result_id a" "\<And>a. ta_root_id (f a) = ta_root_id a"
    "\<And>a. ta_attempt (f a) = ta_attempt a" "\<And>a. ta_max_attempts (f a) = ta_max_attempts a"
    "\<And>a. ta_parent_id (f a) = ta_parent_id a"
    and "chains_ok atts"
  shows "chains_ok (tbl_update P f atts)"
proof -
  have "attempt_follows (tbl_update P f atts) (f a) = attempt_follows atts a"
    "attempt_follows (tbl_update P f atts) a = attempt_follows atts a" for a
    by (simp_all add: attempt_follows_def attempt_info_update assms split: option.split)
  with assms show ?thesis by (auto simp: chains_ok_def unique_attempts_update tbl_simps)
qed

section \<open>Preservation\<close>

text \<open>A commit puts the new row at the end of its chain.\<close>

lemma chain_wf_commit:
  assumes wf: "chain_wf db" and eng: "engine_ok env"
    and d: "de_info d = attempt_info (tr_id row) (db_attempts db)"
    and row: "row \<in> set (db_results db)"
    and commit: "commit_retry env cfg now row d db = Inr (Some (n, db'))"
  shows "chain_wf db'"
proof -
  from commit obtain req new where new: "te_enqueue env req db = Some new" and
    ins: "insert_attempt (next_attempt now (tr_id new) row d) (db_attempts db)
            = Some (db_attempts db @ [next_attempt now (tr_id new) row d])" and
    db': "db' = db\<lparr>db_results := db_results db @ [new],
                 db_attempts := db_attempts db @ [next_attempt now (tr_id new) row d]\<rparr>"
    by (auto simp: commit_retry_Some)
  from eng new have fresh: "tr_id new \<notin> set (used_ids db)" by (auto simp: engine_ok_def)
  let ?a = "next_attempt now (tr_id new) row d"
  have "chains_ok (db_attempts db @ [?a])"
  proof (rule chains_ok_snoc [OF _ ins])
    show "chains_ok (db_attempts db)" using wf by (simp add: chain_wf_def)
    show "\<forall>b \<in> set (db_attempts db). ta_parent_id b \<noteq> Some (ta_result_id ?a)"
      using fresh used_ids_simps(3) by (fastforce simp: next_attempt_def)
    show "ta_parent_id ?a \<noteq> Some (ta_result_id ?a)"
      using fresh used_ids_simps(1) [OF row] by (auto simp: next_attempt_def)
    show "attempt_follows (db_attempts db) ?a"
      using d by (simp add: attempt_follows_def next_attempt_def)
  qed
  moreover have "tr_id new \<notin> tr_id ` set (db_results db)"
    using fresh used_ids_simps(1) by fastforce
  ultimately show ?thesis using wf by (simp add: chain_wf_def db')
qed

lemma chain_wf_maybe_retry:
  assumes "chain_wf db" "engine_ok env"
  shows "chain_wf (snd (maybe_retry env cfg now c rid db))"
proof (cases rule: maybe_retry_cases [of env cfg now c rid db])
  case idle
  with assms show ?thesis by simp
next
  case (retried row d n db')
  from retried(1) have "row \<in> set (db_results db)" by (auto dest: tbl_find_Some)
  with assms retried show ?thesis
    using chain_wf_commit [of db env d row] decide_Some(4) by fastforce
qed

lemma chain_wf_results_update:
  assumes "chain_wf db" "\<And>r. tr_id (f r) = tr_id r"
  shows "chain_wf (db\<lparr>db_results := tbl_update P f (db_results db)\<rparr>)"
  using assms by (simp add: chain_wf_def map_tbl_update)

lemma chain_wf_attempts_update:
  assumes "chain_wf db" "\<And>a. ta_result_id (f a) = ta_result_id a" "\<And>a. ta_root_id (f a) = ta_root_id a"
    "\<And>a. ta_attempt (f a) = ta_attempt a" "\<And>a. ta_max_attempts (f a) = ta_max_attempts a"
    "\<And>a. ta_parent_id (f a) = ta_parent_id a"
  shows "chain_wf (db\<lparr>db_attempts := tbl_update P f (db_attempts db)\<rparr>)"
  using assms chains_ok_update [of f "db_attempts db" P] by (simp add: chain_wf_def)

lemma chain_wf_beats [simp]: "chain_wf (db\<lparr>db_beats := bs\<rparr>) = chain_wf db"
  by (simp add: chain_wf_def)

lemma cancel_retry_id [simp]: "tr_id (cancel_retry p st now r) = tr_id r"
  by (simp add: cancel_retry_def)

lemma cancel_retry_path [simp]: "tr_task_path (cancel_retry p st now r) = tr_task_path r"
  by (simp add: cancel_retry_def)

lemma reap_row_id [simp]: "tr_id (reap_row sr now why r) = tr_id r"
  by (simp add: reap_row_def)

lemma reap_row_path [simp]: "tr_task_path (reap_row sr now why r) = tr_task_path r"
  by (simp add: reap_row_def)

text \<open>
  \<open>_mark_superseded\<close> and everything built on it only updates rows: the shape of its effect, from
  which each invariant follows.
\<close>

lemma mark_superseded_effect:
  obtains P f Q g where "snd (mark_superseded pid status path t now db) =
      db\<lparr>db_results := tbl_update P f (db_results db), db_attempts := tbl_update Q g (db_attempts db)\<rparr>"
    "\<And>r. tr_id (f r) = tr_id r" "\<And>r. tr_task_path (f r) = tr_task_path r"
    "\<And>r. P r \<Longrightarrow> tr_status r = Ready"
    "\<And>a. ta_result_id (g a) = ta_result_id a" "\<And>a. ta_root_id (g a) = ta_root_id a"
    "\<And>a. ta_attempt (g a) = ta_attempt a" "\<And>a. ta_max_attempts (g a) = ta_max_attempts a"
    "\<And>a. ta_parent_id (g a) = ta_parent_id a"
proof -
  let ?idle = "db\<lparr>db_results := tbl_update (\<lambda>_. False) id (db_results db),
                 db_attempts := tbl_update (\<lambda>_. False) id (db_attempts db)\<rparr>"
  have idle: "?idle = db" by (simp add: tbl_update_idle)
  show thesis
  proof (cases "find (reaped_child pid) (db_attempts db)")
    case None
    then show thesis using that [of "\<lambda>_. False" id "\<lambda>_. False" id] idle
      by (simp add: mark_superseded_def)
  next
    case (Some c)
    let ?mark = "\<lambda>a. a\<lparr>ta_parent_completed_at := Some t, ta_parent_status := take 16 (status_str status)\<rparr>"
    let ?canc = "\<lambda>a::task_attempt. a\<lparr>ta_retry_cancelled := True\<rparr>"
    let ?rdy = "\<lambda>r. tr_id r = ta_result_id c \<and> tr_status r = Ready"
    let ?hit = "0 < tbl_count ?rdy (db_results db)"
    let ?g = "\<lambda>a. let b = (if reaped_child pid a then ?mark a else a)
                  in if ?hit \<and> ta_parent_id b = Some pid then ?canc b else b"
    from Some have "c \<in> set (db_attempts db)" "reaped_child pid c" by (auto dest: find_SomeD)
    then have cnt: "tbl_count (reaped_child pid) (db_attempts db) \<noteq> 0" by (auto simp: tbl_count_0)
    have "snd (mark_superseded pid status path t now db) =
      db\<lparr>db_results := tbl_update ?rdy (cancel_retry pid status now) (db_results db),
         db_attempts := tbl_update (\<lambda>_. True) ?g (db_attempts db)\<rparr>"
      using Some cnt
      by (auto simp: mark_superseded_def mark_parent_completed_def Let_def tbl_update_def)
    then show thesis by (rule that) (auto simp: Let_def)
  qed
qed

section \<open>Invariants of every operation\<close>

text \<open>
  What a predicate of the database must survive to be an invariant of the whole layer: updates
  of result rows that keep id and task, updates of attempt rows that keep their place in the
  chain, changes of heartbeat rows, and a retry.
\<close>

locale task_invariant =
  fixes env :: task_env and cfg :: task_settings and holds :: "task_db \<Rightarrow> bool"
  assumes results_update: "holds db \<Longrightarrow> (\<And>r. tr_id (f r) = tr_id r) \<Longrightarrow>
      (\<And>r. tr_task_path (f r) = tr_task_path r) \<Longrightarrow>
      holds (db\<lparr>db_results := tbl_update P f (db_results db)\<rparr>)"
    and attempts_update: "holds db \<Longrightarrow> (\<And>a. ta_result_id (g a) = ta_result_id a) \<Longrightarrow>
      (\<And>a. ta_root_id (g a) = ta_root_id a) \<Longrightarrow> (\<And>a. ta_attempt (g a) = ta_attempt a) \<Longrightarrow>
      (\<And>a. ta_max_attempts (g a) = ta_max_attempts a) \<Longrightarrow> (\<And>a. ta_parent_id (g a) = ta_parent_id a) \<Longrightarrow>
      holds (db\<lparr>db_attempts := tbl_update Q g (db_attempts db)\<rparr>)"
    and beats_update: "holds db \<Longrightarrow> holds (db\<lparr>db_beats := bs\<rparr>)"
    and retry: "holds db \<Longrightarrow> holds (snd (maybe_retry env cfg now c rid db))"
begin

lemma mark_superseded: 
  assumes "holds db" shows "holds (snd (mark_superseded pid status path t now db))"
proof -
  obtain P f Q g where eff: "snd (mark_superseded pid status path t now db) =
      db\<lparr>db_results := tbl_update P f (db_results db), db_attempts := tbl_update Q g (db_attempts db)\<rparr>"
    and f: "\<And>r. tr_id (f r) = tr_id r" "\<And>r. tr_task_path (f r) = tr_task_path r"
    and g: "\<And>a. ta_result_id (g a) = ta_result_id a" "\<And>a. ta_root_id (g a) = ta_root_id a"
    "\<And>a. ta_attempt (g a) = ta_attempt a" "\<And>a. ta_max_attempts (g a) = ta_max_attempts a"
    "\<And>a. ta_parent_id (g a) = ta_parent_id a"
    by (rule mark_superseded_effect) (rule that)
  have "holds (db\<lparr>db_results := tbl_update P f (db_results db)\<rparr>)"
    using assms f by (rule results_update)
  from attempts_update [OF this g, of Q] show ?thesis by (simp add: eff)
qed

lemma record_late: "holds db \<Longrightarrow> holds (snd (record_late_completion now rid db))"
  by (auto simp: record_late_completion_def intro: mark_superseded split: option.splits)

lemma mark_late: "holds db \<Longrightarrow> holds (snd (mark_late now rs db))"
  by (induction rs arbitrary: db) (auto simp: split_beta intro: mark_superseded)

lemma detect_late: "holds db \<Longrightarrow> holds (snd (detect_late_completions now limit db))"
  by (auto simp: detect_late_completions_def Let_def intro: mark_late)

lemma retry_each: "holds db \<Longrightarrow> holds (snd (retry_each env cfg now rids db))"
  by (induction rids arbitrary: db) (auto simp: split_beta intro: retry)

lemma repair: "holds db \<Longrightarrow> holds (snd (repair_missed_retries env cfg now db))"
  by (simp add: repair_missed_retries_def retry_each)

lemma reap_claim: "holds db \<Longrightarrow> reap_claim sr rid w db = Some db' \<Longrightarrow> holds db'"
  by (auto simp: reap_claim_def Let_def intro: results_update split: if_splits)

lemma reap_each: "holds db \<Longrightarrow> holds (snd (reap_each env cfg sr now ts (res, db)))"
proof (induction ts arbitrary: res db)
  case Nil
  then show ?case by simp
next
  case (Cons t ts)
  show ?case
  proof (cases "reap_claim sr (lt_result_id t) (now, lt_reason t) db")
    case None
    with Cons show ?thesis by simp
  next
    case (Some db1)
    with Cons.prems have "holds (snd (maybe_retry env cfg now C_Lost (lt_result_id t) db1))"
      by (auto intro: retry reap_claim)
    with Cons.IH Some show ?thesis by (auto simp: Let_def split: prod.splits sum.splits option.splits)
  qed
qed

lemma prune: "holds db \<Longrightarrow> holds (snd (prune_heartbeats now db))"
  by (simp add: prune_heartbeats_def Let_def beats_update)

lemma reap_lost_tasks:
  assumes "holds db"
  shows "holds (snd (reap_lost_tasks env cfg sr now db_now dry exclude db))"
proof -
  let ?lost = "snd (find_lost_tasks cfg now db_now exclude db)"
  let ?res = "reap_result_start (fst (find_lost_tasks cfg now db_now exclude db))"
  have "holds (snd (prune_heartbeats now (snd (detect_late_completions now REPAIR_BATCH
          (snd (repair_missed_retries env cfg now (snd (reap_each env cfg sr now ?lost (?res, db)))))))))"
    using assms by (intro prune detect_late repair reap_each)
  with assms show ?thesis by (simp add: reap_lost_tasks_def Let_def split_beta)
qed

lemma receiver: "holds db \<Longrightarrow> holds (retry_failed_task env cfg now s rid status db)"
  by (auto simp: retry_failed_task_def split_beta intro: record_late retry)

lemma workers:
  assumes "holds db"
  shows "holds (register_worker t h p w l q db)" "holds (beat t w db)" "holds (mark_stopped t w db)"
  using assms by (auto simp: register_worker_def beat_def mark_stopped_def Let_def beats_update split: option.split)

end

section \<open>Budgets\<close>

text \<open>The number of attempts a chain may have: its pinned budget, else the policy's.\<close>

definition chain_budget :: "task_env \<Rightarrow> task_settings \<Rightarrow> int option \<Rightarrow> string \<Rightarrow> int" where
  "chain_budget env cfg pinned path =
     (case pinned of Some m \<Rightarrow> m | None \<Rightarrow> policy_attempts cfg (deref_policy (policy_for env path)))"

definition within_budget :: "task_env \<Rightarrow> task_settings \<Rightarrow> task_db \<Rightarrow> bool" where
  "within_budget env cfg db \<longleftrightarrow>
     (\<forall>a \<in> set (db_attempts db). ta_parent_id a \<noteq> None \<longrightarrow>
        (\<forall>r \<in> set (db_results db). tr_id r = ta_result_id a \<longrightarrow>
           ta_attempt a \<le> chain_budget env cfg (ta_max_attempts a) (tr_task_path r)))"

lemma within_budget_commit:
  assumes b: "within_budget env cfg db" and eng: "engine_ok env"
    and d: "decide env cfg (db_attempts db) row c = Some d"
    and commit: "commit_retry env cfg now row d db = Inr (Some (n, db'))"
  shows "within_budget env cfg db'"
proof -
  from commit obtain req new where new: "te_enqueue env req db = Some new" and
    path: "eq_task_path req = tr_task_path row" and
    db': "db' = db\<lparr>db_results := db_results db @ [new],
                 db_attempts := db_attempts db @ [next_attempt now (tr_id new) row d]\<rparr>"
    by (auto simp: commit_retry_Some retry_request_def)
  from eng new path have fresh: "tr_id new \<notin> set (used_ids db)" and p: "tr_task_path new = tr_task_path row"
    by (auto simp: engine_ok_def)
  have old: "ta_result_id a \<noteq> tr_id new" if "a \<in> set (db_attempts db)" for a
    using that fresh used_ids_simps(2) by metis
  have new_only: "tr_id r \<noteq> tr_id new" if "r \<in> set (db_results db)" for r
    using that fresh used_ids_simps(1) by metis
  have "ai_attempt (de_info d) + 1 \<le> chain_budget env cfg (ai_max_attempts (de_info d)) (tr_task_path row)"
    using decide_Some(5,6,7) [OF d] by (cases "ai_max_attempts (de_info d)") (auto simp: chain_budget_def)
  with b p show ?thesis
    by (auto simp: within_budget_def db' next_attempt_def dest: old new_only)
qed

lemma within_budget_maybe_retry:
  assumes "within_budget env cfg db" "engine_ok env"
  shows "within_budget env cfg (snd (maybe_retry env cfg now c rid db))"
proof (cases rule: maybe_retry_cases [of env cfg now c rid db])
  case idle
  with assms show ?thesis by simp
next
  case (retried row d n db')
  with assms show ?thesis using within_budget_commit by fastforce
qed

lemma within_budget_results_update:
  assumes "within_budget env cfg db" "\<And>r. tr_id (f r) = tr_id r" "\<And>r. tr_task_path (f r) = tr_task_path r"
  shows "within_budget env cfg (db\<lparr>db_results := tbl_update P f (db_results db)\<rparr>)"
  using assms by (fastforce simp: within_budget_def tbl_simps)

lemma within_budget_attempts_update:
  assumes "within_budget env cfg db" "\<And>a. ta_result_id (g a) = ta_result_id a"
    "\<And>a. ta_attempt (g a) = ta_attempt a" "\<And>a. ta_max_attempts (g a) = ta_max_attempts a"
    "\<And>a. ta_parent_id (g a) = ta_parent_id a"
  shows "within_budget env cfg (db\<lparr>db_attempts := tbl_update Q g (db_attempts db)\<rparr>)"
  using assms by (fastforce simp: within_budget_def tbl_simps)

definition task_inv :: "task_env \<Rightarrow> task_settings \<Rightarrow> task_db \<Rightarrow> bool" where
  "task_inv env cfg db \<longleftrightarrow> (engine_ok env \<longrightarrow> chain_wf db \<and> within_budget env cfg db)"

interpretation task_inv: task_invariant env cfg "task_inv env cfg" for env cfg
proof (unfold_locales, goal_cases)
  case (1 db f P)
  then show ?case
    by (auto simp: task_inv_def intro: chain_wf_results_update within_budget_results_update)
next
  case (2 db g Q)
  then show ?case
    by (auto simp: task_inv_def intro: chain_wf_attempts_update within_budget_attempts_update)
next
  case (3 db bs)
  then show ?case by (simp add: task_inv_def within_budget_def)
next
  case (4 db now c rid)
  then show ?case by (auto simp: task_inv_def intro: chain_wf_maybe_retry within_budget_maybe_retry)
qed

section \<open>The machine of all operations\<close>

text \<open>
  A step is one operation of the layer, or one of the engine and its workers: a fresh enqueue
  (pinned by the scheduler or not), and any change a worker makes to the result rows it holds,
  a late completion that overwrites the reaper's verdict included.
\<close>

inductive task_step :: "task_env \<Rightarrow> task_settings \<Rightarrow> task_db \<Rightarrow> task_db \<Rightarrow> bool" for env cfg where
  enqueue: "te_enqueue env req db = Some new \<Longrightarrow>
     task_step env cfg db (db\<lparr>db_results := db_results db @ [new]\<rparr>)"
| enqueue_pinned: "te_enqueue env req db = Some new \<Longrightarrow>
     task_step env cfg db (pin_max_attempts now (tr_id new) m (db\<lparr>db_results := db_results db @ [new]\<rparr>))"
| worker_writes: "(\<And>r. tr_id (f r) = tr_id r) \<Longrightarrow> (\<And>r. tr_task_path (f r) = tr_task_path r) \<Longrightarrow>
     task_step env cfg db (db\<lparr>db_results := tbl_update P f (db_results db)\<rparr>)"
| task_finished: "task_step env cfg db (retry_failed_task env cfg now s rid status db)"
| reap: "task_step env cfg db (snd (reap_lost_tasks env cfg sr now db_now dry exclude db))"
| register: "task_step env cfg db (register_worker t host pid wid label queues db)"
| beats: "task_step env cfg db (beat t wid db)"
| stops: "task_step env cfg db (mark_stopped t wid db)"

inductive task_reachable :: "task_env \<Rightarrow> task_settings \<Rightarrow> task_db \<Rightarrow> bool" for env cfg where
  start: "task_reachable env cfg \<lparr>db_results = [], db_attempts = [], db_beats = []\<rparr>"
| step: "task_reachable env cfg db \<Longrightarrow> task_step env cfg db db' \<Longrightarrow> task_reachable env cfg db'"

lemma fresh_row_inv:
  assumes eng: "engine_ok env" and new: "te_enqueue env req db = Some new"
    and wf: "chain_wf db" and b: "within_budget env cfg db"
  shows "chain_wf (db\<lparr>db_results := db_results db @ [new]\<rparr>)"
    "within_budget env cfg (db\<lparr>db_results := db_results db @ [new]\<rparr>)"
    "\<forall>a \<in> set (db_attempts db). ta_result_id a \<noteq> tr_id new \<and> ta_parent_id a \<noteq> Some (tr_id new)"
proof -
  from eng new have fresh: "tr_id new \<notin> set (used_ids db)" by (auto simp: engine_ok_def)
  then have res: "tr_id new \<notin> tr_id ` set (db_results db)" using used_ids_simps(1) by fastforce
  show att: "\<forall>a \<in> set (db_attempts db). ta_result_id a \<noteq> tr_id new \<and> ta_parent_id a \<noteq> Some (tr_id new)"
    using fresh used_ids_simps(2,3) by fastforce
  show "chain_wf (db\<lparr>db_results := db_results db @ [new]\<rparr>)" using wf res by (simp add: chain_wf_def)
  show "within_budget env cfg (db\<lparr>db_results := db_results db @ [new]\<rparr>)"
    using b att by (auto simp: within_budget_def)
qed

lemma pinned_row_inv:
  assumes "chain_wf db" "within_budget env cfg db"
    and att: "\<forall>a \<in> set (db_attempts db). ta_result_id a \<noteq> rid \<and> ta_parent_id a \<noteq> Some rid"
  shows "chain_wf (pin_max_attempts now rid m db)" "within_budget env cfg (pin_max_attempts now rid m db)"
proof -
  have none: "attempt_row rid (db_attempts db) = None" using att by (simp add: attempt_row_def tbl_find_None)
  let ?a = "\<lparr>ta_result_id = rid, ta_root_id = rid, ta_parent_id = None, ta_attempt = 1,
             ta_cause = C_First, ta_max_attempts = Some m, ta_created_at = now,
             ta_parent_completed_at = None, ta_parent_status = '''', ta_retry_cancelled = False\<rparr>"
  have "chains_ok (db_attempts db @ [?a])"
    using assms(1) att by (intro chains_ok_snoc) (auto simp: chain_wf_def insert_attempt_Some attempt_follows_def)
  with assms show "chain_wf (pin_max_attempts now rid m db)"
    "within_budget env cfg (pin_max_attempts now rid m db)"
    by (auto simp: pin_max_attempts_def none chain_wf_def within_budget_def)
qed

lemma task_inv_enqueue:
  assumes inv: "task_inv env cfg db" and new: "te_enqueue env req db = Some new"
  shows "task_inv env cfg (db\<lparr>db_results := db_results db @ [new]\<rparr>)"
    "task_inv env cfg (pin_max_attempts now (tr_id new) m (db\<lparr>db_results := db_results db @ [new]\<rparr>))"
  using inv fresh_row_inv [OF _ new, of cfg]
    pinned_row_inv [of "db\<lparr>db_results := db_results db @ [new]\<rparr>" env cfg "tr_id new" now m]
  by (auto simp: task_inv_def)

lemma task_step_inv: "task_step env cfg db db' \<Longrightarrow> task_inv env cfg db \<Longrightarrow> task_inv env cfg db'"
  by (induction rule: task_step.induct)
    (auto intro: task_inv_enqueue task_inv.results_update task_inv.receiver task_inv.reap_lost_tasks task_inv.workers)

lemma task_reachable_inv: "task_reachable env cfg db \<Longrightarrow> task_inv env cfg db"
proof (induction rule: task_reachable.induct)
  case start
  show ?case
    by (simp add: task_inv_def chain_wf_def within_budget_def chains_ok_def unique_attempts_def unique_opt_def)
next
  case (step db db')
  then show ?case by (blast intro: task_step_inv)
qed

end
