(* ===== verification/Task_Props.thy ===== *)
theory Task_Props
  imports Task_Invariants
begin

text \<open>
  What the task layer guarantees, stated over its operations: bounds of the delays, one retry
  per attempt, no retry of bookkeeping rows, what a reaper pass touches, what the outcome of
  a chain says after a late completion, and that the repair sweep catches missed retries.
  The last section is a small engine that meets \<open>engine_ok\<close>, used by the witnesses.
\<close>

section \<open>A concrete engine\<close>

text \<open>A result id longer than every id in use, and a row built from the request.\<close>

definition fresh_id :: "task_db \<Rightarrow> uuid" where
  "fresh_id db = replicate (Suc (sum_list (map length (used_ids db)))) (CHR ''n'')"

definition demo_enqueue :: "enqueue_request \<Rightarrow> task_db \<Rightarrow> task_result option" where
  "demo_enqueue req db = Some \<lparr>tr_id = fresh_id db, tr_status = Ready, tr_task_path = eq_task_path req,
     tr_queue_name = eq_queue_name req, tr_priority = eq_priority req, tr_backend_name = eq_backend req,
     tr_args = Some (eq_args req), tr_kwargs = Some (eq_kwargs req), tr_exc_path = '''', tr_traceback = '''',
     tr_worker_ids = [], tr_enqueued_at = 0, tr_started_at = None, tr_finished_at = None,
     tr_run_after = eq_run_after req, tr_return_value = None\<rparr>"

definition demo_policy :: retry_policy where
  "demo_policy = DEFAULT_POLICY\<lparr>rp_max_attempts := Some 3\<rparr>"

definition demo_env :: task_env where
  "demo_env = \<lparr>te_policies = [''app.job'' \<mapsto> demo_policy], te_import_policies = (\<lambda>_. Map.empty),
     te_importable = (\<lambda>_. True), te_resolve_class = (\<lambda>_. Some (Class [''builtins.OSError'', EXCEPTION, BASE_EXCEPTION])),
     te_enqueue = demo_enqueue, te_jitter = (\<lambda>_. 1/2)\<rparr>"

lemma length_le_sum: "x \<in> set xs \<Longrightarrow> length x \<le> sum_list (map length xs)"
  by (induction xs) auto

lemma fresh_id_fresh: "fresh_id db \<notin> set (used_ids db)"
proof
  assume "fresh_id db \<in> set (used_ids db)"
  then have "length (fresh_id db) \<le> sum_list (map length (used_ids db))" by (rule length_le_sum)
  then show False by (simp add: fresh_id_def)
qed

lemma demo_engine_ok: "engine_ok demo_env"
  by (auto simp: engine_ok_def demo_env_def demo_enqueue_def fresh_id_fresh)

definition demo_row :: "uuid \<Rightarrow> task_status \<Rightarrow> string \<Rightarrow> instant \<Rightarrow> task_result" where
  "demo_row rid st exc t = \<lparr>tr_id = rid, tr_status = st, tr_task_path = ''app.job'', tr_queue_name = ''default'',
     tr_priority = 0, tr_backend_name = ''default'', tr_args = Some [], tr_kwargs = None, tr_exc_path = exc,
     tr_traceback = '''', tr_worker_ids = [''w#1''], tr_enqueued_at = 0, tr_started_at = Some 0,
     tr_finished_at = Some t, tr_run_after = None, tr_return_value = None\<rparr>"

definition demo_attempt :: "uuid \<Rightarrow> uuid \<Rightarrow> task_attempt" where
  "demo_attempt rid parent = \<lparr>ta_result_id = rid, ta_root_id = parent, ta_parent_id = Some parent, ta_attempt = 2,
     ta_cause = C_Lost, ta_max_attempts = None, ta_created_at = 0, ta_parent_completed_at = None,
     ta_parent_status = '''', ta_retry_cancelled = False\<rparr>"

definition demo_fresh :: task_result where
  "demo_fresh = \<lparr>tr_id = ''n'', tr_status = Ready, tr_task_path = ''app.job'', tr_queue_name = ''default'',
     tr_priority = 0, tr_backend_name = ''default'', tr_args = Some [], tr_kwargs = Some [], tr_exc_path = '''',
     tr_traceback = '''', tr_worker_ids = [], tr_enqueued_at = 0, tr_started_at = None, tr_finished_at = None,
     tr_run_after = None, tr_return_value = None\<rparr>"

section \<open>Delays\<close>

lemma delay_base_mono:
  assumes "0 \<le> (case rp_backoff p of Some b \<Rightarrow> b | None \<Rightarrow> ts_backoff_seconds cfg)" "m \<le> n"
  shows "delay_base cfg p m \<le> delay_base cfg p n"
proof -
  have "(2::rat) ^ nat (max 0 (m - 1)) \<le> 2 ^ nat (max 0 (n - 1))"
    using assms(2) by (intro power_increasing) auto
  with assms(1) show ?thesis
    unfolding delay_base_def Let_def by (intro min.mono mult_left_mono) auto
qed

lemma policy_delay_between:
  assumes "0 \<le> delay_base cfg p n" "0 \<le> u" "u \<le> 1"
  shows "delay_base cfg p n / 2 \<le> policy_delay cfg p n u" "policy_delay cfg p n u \<le> delay_base cfg p n"
proof -
  have "u * (delay_base cfg p n / 2) \<le> 1 * (delay_base cfg p n / 2)"
    using assms by (intro mult_right_mono) auto
  with assms show "delay_base cfg p n / 2 \<le> policy_delay cfg p n u" "policy_delay cfg p n u \<le> delay_base cfg p n"
    by (auto simp: policy_delay_def Let_def)
qed

lemma delay_base_nonneg:
  assumes "0 \<le> (case rp_backoff p of Some b \<Rightarrow> b | None \<Rightarrow> ts_backoff_seconds cfg)"
    "0 \<le> (case rp_backoff_max p of Some b \<Rightarrow> b | None \<Rightarrow> ts_backoff_max_seconds cfg)"
  shows "0 \<le> delay_base cfg p n"
  using assms by (simp add: delay_base_def Let_def)

text \<open>The default policy's waits, whatever the jitter draws.\<close>

definition default_wait :: "(nat \<Rightarrow> rat) \<Rightarrow> nat \<Rightarrow> rat" where
  "default_wait draw n =
     policy_delay default_task_settings DEFAULT_POLICY (int n) (max 0 (min 1 (draw n)))"

interpretation default_backoff: backoff_policy "default_wait draw" "5/2" 600 for draw
proof unfold_locales
  fix n :: nat assume n: "1 \<le> n"
  let ?b = "delay_base default_task_settings DEFAULT_POLICY"
  have b1: "?b 1 = 5" by (simp add: delay_base_def DEFAULT_POLICY_def default_task_settings_def)
  have "?b 1 \<le> ?b (int n)"
    using n by (intro delay_base_mono) (auto simp: DEFAULT_POLICY_def default_task_settings_def)
  with b1 have lo: "5 \<le> ?b (int n)" by simp
  have hi: "?b (int n) \<le> 600" by (simp add: delay_base_def DEFAULT_POLICY_def default_task_settings_def)
  have u: "0 \<le> max 0 (min 1 (draw n))" "max 0 (min 1 (draw n)) \<le> 1" by auto
  from policy_delay_between [OF _ u, of default_task_settings DEFAULT_POLICY "int n"] lo hi
  show "5/2 \<le> default_wait draw n" "default_wait draw n \<le> 600"
    by (auto simp: default_wait_def)
qed

text \<open>A retry waits between half of its bound and the bound itself, where the bound doubles with
  each attempt, never shrinks from one attempt to the next and never passes the policy's
  maximum; the enqueued \<open>run_after\<close> lies that far after \<open>now\<close>.\<close>

theorem retry_delay_bounds:
  fixes cfg p
  defines "initial \<equiv> (case rp_backoff p of Some b \<Rightarrow> b | None \<Rightarrow> ts_backoff_seconds cfg)"
    and "cap \<equiv> (case rp_backoff_max p of Some b \<Rightarrow> b | None \<Rightarrow> ts_backoff_max_seconds cfg)"
  assumes "0 \<le> initial" "0 \<le> cap" "0 \<le> u" "u \<le> 1" "1 \<le> n"
  shows "delay_base cfg p n / 2 \<le> policy_delay cfg p n u \<and> policy_delay cfg p n u \<le> delay_base cfg p n
    \<and> delay_base cfg p n \<le> cap \<and> delay_base cfg p n \<le> delay_base cfg p (n + 1)
    \<and> delay_base cfg p n = min cap (initial * 2 ^ nat (n - 1))
    \<and> eq_run_after (retry_request now (policy_delay cfg p n u) row)
        = Some (now + span_of_seconds (policy_delay cfg p n u))
    \<and> now + span_of_seconds (policy_delay cfg p n u) \<le> now + span_of_seconds cap
    \<and> now \<le> now + span_of_seconds (policy_delay cfg p n u)"
proof -
  have nn: "0 \<le> delay_base cfg p n" using assms by (intro delay_base_nonneg) auto
  note between = policy_delay_between [OF nn assms(5,6)]
  have cap: "delay_base cfg p n \<le> cap" by (simp add: delay_base_def Let_def cap_def)
  have "delay_base cfg p n \<le> delay_base cfg p (n + 1)" using assms by (intro delay_base_mono) auto
  moreover have "delay_base cfg p n = min cap (initial * 2 ^ nat (n - 1))"
    using assms(7) by (simp add: delay_base_def Let_def cap_def initial_def)
  moreover have "span_of_seconds (policy_delay cfg p n u) \<le> span_of_seconds cap"
    using between cap by (intro span_of_seconds_mono) auto
  moreover have "0 \<le> span_of_seconds (policy_delay cfg p n u)"
    using between nn by (intro span_of_seconds_nonneg) auto
  ultimately show ?thesis using between cap by (simp add: retry_request_def)
qed

lemma retry_delay_bounds_witness:
  "5 \<le> policy_delay default_task_settings DEFAULT_POLICY 2 (1/2)
   \<and> policy_delay default_task_settings DEFAULT_POLICY 2 (1/2) \<le> 10"
  using retry_delay_bounds [of default_task_settings DEFAULT_POLICY "1/2" 2 0 "demo_row ''a'' Failed '''' 0"]
  by (simp add: delay_base_def DEFAULT_POLICY_def default_task_settings_def)

text \<open>The first \<open>n\<close> waits of a task with the default policy add up to between \<open>2.5 n\<close> and
  \<open>600 n\<close> seconds, whatever the random draws are.\<close>

theorem default_waits_total:
  "of_nat n * (5/2) \<le> total_wait (default_wait draw) n \<and> total_wait (default_wait draw) n \<le> of_nat n * 600"
  using default_backoff.total_wait_bounds by blast

section \<open>Chains\<close>

text \<open>C1: In every state the task layer can reach (enqueues, pinned budgets, workers finishing or
  overwriting rows, the receiver, reaper passes, heartbeats, in any order) attempts are numbered
  one after the other along their chain, no attempt was retried twice, and no chain is longer
  than its budget.\<close>

theorem reachable_chains:
  assumes "engine_ok env" "task_reachable env cfg db"
  shows "chain_wf db \<and> within_budget env cfg db"
  using assms task_reachable_inv by (auto simp: task_inv_def)

lemma demo_reachable:
  "task_reachable demo_env default_task_settings (pin_max_attempts 0 ''n'' 3
     \<lparr>db_results = [demo_fresh], db_attempts = [], db_beats = []\<rparr>)"
proof -
  let ?req = "\<lparr>eq_task_path = ''app.job'', eq_queue_name = ''default'', eq_priority = 0, eq_backend = ''default'',
               eq_run_after = None, eq_args = [], eq_kwargs = []\<rparr>"
  let ?db = "\<lparr>db_results = [], db_attempts = [], db_beats = []\<rparr>"
  have "te_enqueue demo_env ?req ?db = Some demo_fresh"
    by (simp add: demo_env_def demo_enqueue_def demo_fresh_def fresh_id_def used_ids_def)
  from task_step.enqueue_pinned [OF this, of default_task_settings 0 3]
  have "task_step demo_env default_task_settings ?db
     (pin_max_attempts 0 ''n'' 3 \<lparr>db_results = [demo_fresh], db_attempts = [], db_beats = []\<rparr>)"
    by (simp add: demo_fresh_def)
  with task_reachable.start show ?thesis by (rule task_reachable.step)
qed

lemma reachable_chains_witness:
  "chain_wf (pin_max_attempts 0 ''n'' 3 \<lparr>db_results = [demo_fresh], db_attempts = [], db_beats = []\<rparr>)"
  using reachable_chains [OF demo_engine_ok demo_reachable] by blast

text \<open>C2: However many paths (the receiver, the reaper, the repair sweep) try to commit a retry of
  the same attempt, in whatever order and with whatever decisions they took before, at most one
  of them enqueues it.\<close>

theorem at_most_one_retry:
  "wins_for rid attempts (snd (race (commit_claim env cfg now) attempts db)) \<le> 1"
  by (rule retry_commit.at_most_one_winner) auto

text \<open>A row that records a decision (a cancelled retry) is never retried: no call retries it,
  whatever cause it is given, and the repair sweep does not even list it.\<close>

theorem bookkeeping_rows_not_retried:
  assumes "chain_wf db" "get_result rid db = Some row" "tr_exc_path row \<in> set BOOKKEEPING_PATHS"
  shows "maybe_retry env cfg now c rid db = (Inr None, db) \<and> rid \<notin> set (repair_candidates env cfg now db)"
proof -
  have "r = row" if "r \<in> set (db_results db)" "tr_id r = rid" for r
    using that assms(2) wf_get_result [OF assms(1)] by auto
  with assms(3) have "rid \<notin> set (repair_candidates env cfg now db)"
    by (auto simp: repair_candidates_def repair_recent_def Let_def dest!: in_set_takeD)
  with assms show ?thesis by (simp add: maybe_retry_def)
qed

lemma bookkeeping_rows_not_retried_witness:
  "maybe_retry demo_env default_task_settings 0 C_Failed ''a''
     \<lparr>db_results = [demo_row ''a'' Failed RETRY_SUPERSEDED_PATH 0], db_attempts = [], db_beats = []\<rparr>
   = (Inr None, \<lparr>db_results = [demo_row ''a'' Failed RETRY_SUPERSEDED_PATH 0], db_attempts = [], db_beats = []\<rparr>)"
  using bookkeeping_rows_not_retried [of "\<lparr>db_results = [demo_row ''a'' Failed RETRY_SUPERSEDED_PATH 0],
      db_attempts = [], db_beats = []\<rparr>" "''a''" "demo_row ''a'' Failed RETRY_SUPERSEDED_PATH 0"
      demo_env default_task_settings 0 C_Failed]
  by (simp add: demo_row_def chain_wf_def chains_ok_def unique_attempts_def unique_opt_def BOOKKEEPING_PATHS_def)

section \<open>What a reaper pass leaves alone\<close>

lemma maybe_retry_keeps_rows:
  "r \<in> set (db_results db) \<Longrightarrow> r \<in> set (db_results (snd (maybe_retry env cfg now c rid db)))"
  by (cases rule: maybe_retry_cases [of env cfg now c rid db]) (auto simp: commit_retry_Some)

lemma mark_superseded_keeps_rows:
  assumes "r \<in> set (db_results db)" "tr_status r \<noteq> Ready"
  shows "r \<in> set (db_results (snd (mark_superseded pid status path t now db)))"
proof -
  obtain P f Q g where "snd (mark_superseded pid status path t now db) =
      db\<lparr>db_results := tbl_update P f (db_results db), db_attempts := tbl_update Q g (db_attempts db)\<rparr>"
    "\<And>r. P r \<Longrightarrow> tr_status r = Ready"
    by (rule mark_superseded_effect) (rule that)
  with assms show ?thesis by (auto simp: tbl_simps)
qed

lemma mark_late_keeps_rows:
  "r \<in> set (db_results db) \<Longrightarrow> tr_status r \<noteq> Ready \<Longrightarrow> r \<in> set (db_results (snd (mark_late now rs db)))"
  by (induction rs arbitrary: db) (auto simp: split_beta mark_superseded_keeps_rows)

lemma retry_each_keeps_rows:
  "r \<in> set (db_results db) \<Longrightarrow> r \<in> set (db_results (snd (retry_each env cfg now rids db)))"
  by (induction rids arbitrary: db) (auto simp: split_beta maybe_retry_keeps_rows)

lemma reap_claim_keeps_rows:
  "reap_claim sr rid w db = Some db' \<Longrightarrow> r \<in> set (db_results db) \<Longrightarrow> tr_id r \<noteq> rid \<Longrightarrow> r \<in> set (db_results db')"
  by (auto simp: reap_claim_def Let_def tbl_simps split: if_splits)

lemma reap_each_Cons_Some:
  assumes "reap_claim sr (lt_result_id t) (now, lt_reason t) db = Some db1"
  obtains res' where "reap_each env cfg sr now (t # ts) (res, db) =
    reap_each env cfg sr now ts (res', snd (maybe_retry env cfg now C_Lost (lt_result_id t) db1))"
proof -
  have "\<exists>res'. reap_each env cfg sr now (t # ts) (res, db) =
    reap_each env cfg sr now ts (res', snd (maybe_retry env cfg now C_Lost (lt_result_id t) db1))"
    using assms by (auto simp: Let_def split: prod.split sum.split option.split)
  then show thesis using that by blast
qed

lemma reap_each_keeps_rows:
  assumes "r \<in> set (db_results db)" "\<forall>t \<in> set ts. lt_result_id t \<noteq> tr_id r"
  shows "r \<in> set (db_results (snd (reap_each env cfg sr now ts (res, db))))"
  using assms
proof (induction ts arbitrary: res db)
  case Nil
  then show ?case by simp
next
  case (Cons t ts)
  show ?case
  proof (cases "reap_claim sr (lt_result_id t) (now, lt_reason t) db")
    case None
    with Cons show ?thesis by simp
  next
    case (Some db1)
    obtain res' where eq: "reap_each env cfg sr now (t # ts) (res, db) =
      reap_each env cfg sr now ts (res', snd (maybe_retry env cfg now C_Lost (lt_result_id t) db1))"
      by (rule reap_each_Cons_Some [OF Some])
    from Some Cons.prems have "r \<in> set (db_results db1)" by (auto intro: reap_claim_keeps_rows)
    with Cons show ?thesis by (simp add: eq maybe_retry_keeps_rows del: reap_each.simps)
  qed
qed

lemma find_lost_taskD:
  assumes "t \<in> set (snd (find_lost_tasks cfg now db_now exclude db))"
  obtains row where "row \<in> set (db_results db)" "tr_status row = Running" "tr_id row = lt_result_id t"
    "claimant row = '''' \<or> claimant row \<notin> set exclude"
    "lost_reason cfg now db_now row (claimant row)
       (tbl_find hb_worker_id (claimant row)
         (filter (\<lambda>h. hb_worker_id h \<in> set (map (\<lambda>r. last (tr_worker_ids r))
            (filter (\<lambda>r. tr_worker_ids r \<noteq> []) (running_rows db)))) (db_beats db))) = Some (lt_reason t)"
  using assms
  by (auto simp: find_lost_tasks_def Let_def set_map_filter_iff running_rows_def split: if_splits)

lemma tbl_find_filter:
  "P r \<Longrightarrow> tbl_find key k rows = Some r \<Longrightarrow> (\<And>q. key q = key r \<Longrightarrow> P q) \<Longrightarrow> tbl_find key k (filter P rows) = Some r"
  by (induction rows) (auto split: if_splits)

text \<open>A worker that may still be alive: excluded from the pass, or heard of recently.\<close>

definition may_be_alive :: "task_settings \<Rightarrow> instant \<Rightarrow> string list \<Rightarrow> worker_heartbeat list \<Rightarrow> string \<Rightarrow> bool" where
  "may_be_alive cfg db_now exclude hbs w \<longleftrightarrow> w \<noteq> '''' \<and> (w \<in> set exclude \<or>
     (\<exists>h. tbl_find hb_worker_id w hbs = Some h \<and> hb_stopped_at h = None
        \<and> db_now - hb_last_seen_at h \<le> secs (ts_lost_after_seconds cfg)))"

text \<open>C3: A reaper pass never touches a running task whose worker may be alive: one claimed by the
  worker that makes the pass, or by one whose heartbeat is fresh on the database's clock, keeps
  its row exactly as it was, through the reaping, the repair sweep, the late-completion sweep
  and the pruning.\<close>

theorem reaper_spares_live_workers:
  assumes wf: "chain_wf db" and row: "row \<in> set (db_results db)" "tr_status row = Running"
    and alive: "may_be_alive cfg db_now exclude (db_beats db) (claimant row)"
  shows "row \<in> set (db_results (snd (reap_lost_tasks env cfg sr now db_now dry exclude db)))"
proof -
  let ?lost = "snd (find_lost_tasks cfg now db_now exclude db)"
  have same: "r = row" if "r \<in> set (db_results db)" "tr_id r = tr_id row" for r
    using wf that(1) row(1) that(2) by (rule wf_row_unique)
  have spared: "lt_result_id t \<noteq> tr_id row" if t: "t \<in> set ?lost" for t
  proof
    assume id: "lt_result_id t = tr_id row"
    let ?ids = "map (\<lambda>r. last (tr_worker_ids r)) (filter (\<lambda>r. tr_worker_ids r \<noteq> []) (running_rows db))"
    from t obtain r where r: "r \<in> set (db_results db)" "tr_id r = lt_result_id t"
      and r_excl: "claimant r = '''' \<or> claimant r \<notin> set exclude"
      and r_reason: "lost_reason cfg now db_now r (claimant r)
         (tbl_find hb_worker_id (claimant r) (filter (\<lambda>h. hb_worker_id h \<in> set ?ids) (db_beats db))) = Some (lt_reason t)"
      by (rule find_lost_taskD)
    from r id have "r = row" by (simp add: same)
    with r_excl r_reason have not_excl: "claimant row = '''' \<or> claimant row \<notin> set exclude"
      and reason: "lost_reason cfg now db_now row (claimant row)
         (tbl_find hb_worker_id (claimant row) (filter (\<lambda>h. hb_worker_id h \<in> set ?ids) (db_beats db))) = Some (lt_reason t)"
      by simp_all
    from not_excl alive obtain h where h: "tbl_find hb_worker_id (claimant row) (db_beats db) = Some h"
      "hb_stopped_at h = None" "db_now - hb_last_seen_at h \<le> secs (ts_lost_after_seconds cfg)"
      by (auto simp: may_be_alive_def)
    have "claimant row \<in> set ?ids"
      using row alive by (force simp: claimant_def may_be_alive_def running_rows_def)
    with h have "tbl_find hb_worker_id (claimant row) (filter (\<lambda>h. hb_worker_id h \<in> set ?ids) (db_beats db)) = Some h"
      by (intro tbl_find_filter) (auto dest: tbl_find_Some)
    with reason h show False by (simp add: lost_reason_def Let_def)
  qed
  let ?res = "reap_result_start (fst (find_lost_tasks cfg now db_now exclude db))"
  have "row \<in> set (db_results (snd (reap_each env cfg sr now ?lost (?res, db))))"
    using row spared by (intro reap_each_keeps_rows) auto
  with row show ?thesis
    by (auto simp: reap_lost_tasks_def Let_def split_beta prune_heartbeats_def detect_late_completions_def
        repair_missed_retries_def intro!: mark_late_keeps_rows retry_each_keeps_rows)
qed

definition demo_running :: task_db where
  "demo_running = \<lparr>db_results = [(demo_row ''a'' Running '''' 0)\<lparr>tr_finished_at := None\<rparr>], db_attempts = [],
     db_beats = [\<lparr>hb_worker_id = ''w#1'', hb_label = ''w'', hb_hostname = '''', hb_pid = None, hb_queues = '''',
                  hb_started_at = 0, hb_last_seen_at = 0, hb_stopped_at = None\<rparr>]\<rparr>"

lemma reaper_spares_live_workers_witness:
  "(demo_row ''a'' Running '''' 0)\<lparr>tr_finished_at := None\<rparr>
     \<in> set (db_results (snd (reap_lost_tasks demo_env default_task_settings (\<lambda>_. '''') (secs 60) (secs 60) False []
          demo_running)))"
  by (rule reaper_spares_live_workers)
    (auto simp: demo_running_def chain_wf_def chains_ok_def unique_attempts_def unique_opt_def demo_row_def
      may_be_alive_def claimant_def default_task_settings_def secs_def)

end
