(* ===== verification/Task_Recovery.thy ===== *)
theory Task_Recovery
  imports Task_Props
begin

text \<open>
  What the task layer gets done: a lost task is failed and recorded by the pass that finds it,
  the sweep reaches every failure whose retry was missed, a late completion cancels the retry
  that has not started, and a worker that cannot write its own heartbeat stops reaping.
\<close>

section \<open>Lost tasks\<close>

text \<open>The two conditional updates of the reaper and of the late-completion marker are claims.\<close>

lemma reap_claim_rows:
  assumes "reap_claim sr rid w db = Some db'" "r \<in> set (db_results db')"
  shows "(r \<in> set (db_results db) \<and> (tr_id r = rid \<longrightarrow> tr_status r \<noteq> Running)) \<or> tr_status r = Failed"
proof -
  have "db_results db' = tbl_update (\<lambda>r. tr_id r = rid \<and> tr_status r = Running) (reap_row sr (fst w) (snd w)) (db_results db)"
    using assms(1) by (simp add: reap_claim_def Let_def split: if_splits) auto
  with assms(2) show ?thesis by (auto simp: tbl_update_def reap_row_def)
qed

interpretation reaper: conditional_claim "reap_claim sr"
    "\<lambda>db rid. \<forall>r \<in> set (db_results db). tr_id r = rid \<longrightarrow> tr_status r \<noteq> Running" "\<lambda>_ _. True" for sr
proof (unfold_locales, goal_cases)
  case (1 k w s s')
  then show ?case using reap_claim_rows by fastforce
next
  case (2 s k w)
  then show ?case by (auto simp: reap_claim_def tbl_count_0)
next
  case (3 s k k' w s')
  then show ?case using reap_claim_rows by fastforce
qed

interpretation late_marker: conditional_claim mark_parent_completed
    "\<lambda>db pid. \<forall>a \<in> set (db_attempts db). \<not> reaped_child pid a" "\<lambda>_ _. True"
proof (unfold_locales, goal_cases)
  case (1 k w s s')
  then show ?case by (auto simp: mark_parent_completed_def tbl_simps reaped_child_def split: if_splits)
next
  case (2 s k w)
  then show ?case by (simp add: mark_parent_completed_def tbl_count_0)
next
  case (3 s k k' w s')
  then show ?case by (fastforce simp: mark_parent_completed_def tbl_simps reaped_child_def split: if_splits)
qed

lemma reap_claim_running:
  assumes "row \<in> set (db_results db)" "tr_status row = Running"
  shows "\<exists>db'. reap_claim sr (tr_id row) w db = Some db' \<and> reap_row sr (fst w) (snd w) row \<in> set (db_results db')"
  using assms by (force simp: reap_claim_def tbl_count_0 tbl_simps)

lemma reap_each_fails_lost:
  assumes "distinct (map lt_result_id ts)" "t \<in> set ts" "row \<in> set (db_results db)"
    "tr_id row = lt_result_id t" "tr_status row = Running"
  shows "reap_row sr now (lt_reason t) row \<in> set (db_results (snd (reap_each env cfg sr now ts (res, db))))"
  using assms
proof (induction ts arbitrary: res db)
  case Nil
  then show ?case by simp
next
  case (Cons u ts)
  show ?case
  proof (cases "u = t")
    case True
    from Cons.prems obtain db1 where c: "reap_claim sr (lt_result_id t) (now, lt_reason t) db = Some db1"
      and in1: "reap_row sr now (lt_reason t) row \<in> set (db_results db1)"
      using reap_claim_running [of row db sr "(now, lt_reason t)"] by auto
    obtain res' where "reap_each env cfg sr now (t # ts) (res, db) =
        reap_each env cfg sr now ts (res', snd (maybe_retry env cfg now C_Lost (lt_result_id t) db1))"
      by (rule reap_each_Cons_Some [OF c])
    moreover have "\<forall>v \<in> set ts. lt_result_id v \<noteq> tr_id (reap_row sr now (lt_reason t) row)"
      using Cons.prems True by (auto simp: image_iff)
    ultimately show ?thesis
      using in1 True by (simp add: reap_each_keeps_rows maybe_retry_keeps_rows del: reap_each.simps)
  next
    case False
    with Cons.prems have t: "t \<in> set ts" and other: "tr_id row \<noteq> lt_result_id u" by (auto simp: image_iff)
    show ?thesis
    proof (cases "reap_claim sr (lt_result_id u) (now, lt_reason u) db")
      case None
      with Cons t show ?thesis by simp
    next
      case (Some db1)
      obtain res' where "reap_each env cfg sr now (u # ts) (res, db) =
          reap_each env cfg sr now ts (res', snd (maybe_retry env cfg now C_Lost (lt_result_id u) db1))"
        by (rule reap_each_Cons_Some [OF Some])
      with Cons t reap_claim_keeps_rows [OF Some Cons.prems(3) other] show ?thesis
        by (simp add: maybe_retry_keeps_rows del: reap_each.simps)
    qed
  qed
qed

lemma map_filter_keys_distinct:
  assumes "distinct (map k rows)" "\<And>r t. f r = Some t \<Longrightarrow> g t = k r"
  shows "distinct (map g (List.map_filter f rows))"
  using assms by (induction rows) (force simp: set_map_filter_iff split: option.splits)+

lemma lost_ids_distinct:
  assumes "distinct (map tr_id (db_results db))"
  shows "distinct (map lt_result_id (snd (find_lost_tasks cfg now db_now exclude db)))"
proof -
  have "distinct (map tr_id (running_rows db))"
    using assms by (simp add: running_rows_def distinct_map_filter)
  then show ?thesis
    by (auto simp: find_lost_tasks_def Let_def intro!: map_filter_keys_distinct split: if_splits)
qed

text \<open>The later parts of a pass do not touch a row that is not \<open>READY\<close>.\<close>

lemma reap_pass_keeps:
  assumes "r \<in> set (db_results (snd (reap_each env cfg sr now (snd (find_lost_tasks cfg now db_now exclude db))
      (reap_result_start (fst (find_lost_tasks cfg now db_now exclude db)), db))))" "tr_status r \<noteq> Ready"
  shows "r \<in> set (db_results (snd (reap_lost_tasks env cfg sr now db_now False exclude db)))"
  using assms
  by (auto simp: reap_lost_tasks_def Let_def split_beta prune_heartbeats_def detect_late_completions_def
      repair_missed_retries_def intro!: mark_late_keeps_rows retry_each_keeps_rows)

text \<open>A pass that is not a dry run fails every task it finds lost: the row ends FAILED with
  \<open>WorkerLost\<close> as its exception class, \<open>now\<close> as its end and the reason on record, even after
  the retry, the repair sweep and the late-completion sweep of the same pass. A dry run changes
  nothing and reports the same tasks.\<close>

theorem reaper_fails_lost_tasks:
  assumes "chain_wf db" "t \<in> set (snd (find_lost_tasks cfg now db_now exclude db))"
  shows "(\<exists>row \<in> set (db_results (snd (reap_lost_tasks env cfg sr now db_now False exclude db))).
       tr_id row = lt_result_id t \<and> tr_status row = Failed \<and> tr_exc_path row = WORKER_LOST_PATH
       \<and> tr_finished_at row = Some now \<and> tr_traceback row = ''WorkerLost: '' @ sr (lt_reason t))
    \<and> snd (reap_lost_tasks env cfg sr now db_now True exclude db) = db
    \<and> t \<in> set (rr_reaped (fst (reap_lost_tasks env cfg sr now db_now True exclude db)))"
proof -
  let ?lost = "snd (find_lost_tasks cfg now db_now exclude db)"
  from assms(2) obtain row where row: "row \<in> set (db_results db)" "tr_status row = Running"
    "tr_id row = lt_result_id t" by (rule find_lost_taskD)
  have "reap_row sr now (lt_reason t) row \<in> set (db_results (snd (reap_each env cfg sr now ?lost
      (reap_result_start (fst (find_lost_tasks cfg now db_now exclude db)), db))))"
    using assms row by (intro reap_each_fails_lost lost_ids_distinct) (auto simp: chain_wf_def)
  then have "reap_row sr now (lt_reason t) row
      \<in> set (db_results (snd (reap_lost_tasks env cfg sr now db_now False exclude db)))"
    by (rule reap_pass_keeps) (simp add: reap_row_def)
  with row have "\<exists>row \<in> set (db_results (snd (reap_lost_tasks env cfg sr now db_now False exclude db))).
       tr_id row = lt_result_id t \<and> tr_status row = Failed \<and> tr_exc_path row = WORKER_LOST_PATH
       \<and> tr_finished_at row = Some now \<and> tr_traceback row = ''WorkerLost: '' @ sr (lt_reason t)"
    by (auto simp: reap_row_def intro!: bexI [of _ "reap_row sr now (lt_reason t) row"])
  with assms(2) show ?thesis
    by (simp add: reap_lost_tasks_def Let_def split_beta reap_result_start_def)
qed

lemma reaper_fails_lost_tasks_witness:
  "\<exists>row \<in> set (db_results (snd (reap_lost_tasks demo_env default_task_settings (\<lambda>_. ''silent'')
      (secs 120) (secs 120) False [] demo_running))).
     tr_id row = ''a'' \<and> tr_status row = Failed \<and> tr_exc_path row = WORKER_LOST_PATH"
proof -
  let ?t = "\<lparr>lt_result_id = ''a'', lt_task_path = ''app.job'', lt_worker_id = ''w#1'',
             lt_reason = Worker_Silent ''w'' 0 120 90\<rparr>"
  have "chain_wf demo_running"
    by (simp add: demo_running_def chain_wf_def chains_ok_def unique_attempts_def unique_opt_def)
  moreover have "?t \<in> set (snd (find_lost_tasks default_task_settings (secs 120) (secs 120) [] demo_running))"
    by (simp add: demo_running_def find_lost_tasks_def running_rows_def demo_row_def claimant_def lost_reason_def
        default_task_settings_def secs_def int_seconds_def)
  ultimately show ?thesis
    using reaper_fails_lost_tasks [of demo_running ?t default_task_settings "secs 120" "secs 120" "[]" demo_env
        "\<lambda>_. ''silent''"] by auto
qed

section \<open>The repair sweep\<close>

text \<open>Attempts are numbered from one: a row with a smaller number would need a parent with a
  smaller one still.\<close>

lemma attempt_positive:
  assumes "chains_ok atts" "a \<in> set atts"
  shows "1 \<le> ta_attempt a"
proof (rule ccontr)
  assume "\<not> 1 \<le> ta_attempt a"
  define m where "m = Min (ta_attempt ` set atts)"
  have fin: "finite (ta_attempt ` set atts)" "ta_attempt ` set atts \<noteq> {}" using assms(2) by auto
  then have "m \<in> ta_attempt ` set atts" unfolding m_def by (rule Min_in)
  then obtain b where b: "b \<in> set atts" "ta_attempt b = m" by auto
  have least: "m \<le> ta_attempt c" if "c \<in> set atts" for c using that fin by (simp add: m_def)
  have "m < 1" using least [OF assms(2)] \<open>\<not> 1 \<le> ta_attempt a\<close> by simp
  moreover have "attempt_follows atts b" using assms(1) b(1) by (simp add: chains_ok_def)
  ultimately obtain p where p: "m = ai_attempt (attempt_info p atts) + 1"
    using b(2) by (auto simp: attempt_follows_def split: option.splits)
  show False
  proof (cases "attempt_row p atts")
    case None
    with p \<open>m < 1\<close> show False by (simp add: attempt_info_def)
  next
    case (Some c)
    with p least [of c] show False by (auto simp: attempt_info_def dest: attempt_rowD)
  qed
qed

lemma attempt_info_positive: "chains_ok atts \<Longrightarrow> 1 \<le> ai_attempt (attempt_info rid atts)"
  by (auto simp: attempt_info_def split: option.split dest!: attempt_rowD attempt_positive)

lemma decide_info_cong:
  assumes "attempt_info (tr_id row) atts = attempt_info (tr_id row) atts'"
  shows "decide env cfg atts row c = decide env cfg atts' row c"
  using assms by (simp add: decide_def)

text \<open>The engine accepts every request, as a database that is up does.\<close>

definition enqueue_total :: "task_env \<Rightarrow> bool" where
  "enqueue_total env \<longleftrightarrow> (\<forall>req db. te_enqueue env req db \<noteq> None)"

lemma maybe_retry_succeeds:
  assumes "engine_ok env" "enqueue_total env" "get_result rid db = Some row"
    "decide env cfg (db_attempts db) row c = Some d" "te_importable env (tr_task_path row)"
    "child_row rid (db_attempts db) = None"
  shows "child_row rid (db_attempts (snd (maybe_retry env cfg now c rid db))) \<noteq> None"
proof -
  have id: "tr_id row = rid" using assms(3) by (auto dest: tbl_find_Some)
  define req where "req = retry_request now (policy_delay cfg (deref_policy (de_policy d))
      (ai_attempt (de_info d)) (te_jitter env (tr_id row))) row"
  obtain new where new: "te_enqueue env req db = Some new" using assms(2) by (auto simp: enqueue_total_def)
  with assms(1) have fresh: "tr_id new \<notin> set (used_ids db)" by (auto simp: engine_ok_def)
  have "insert_attempt (next_attempt now (tr_id new) row d) (db_attempts db)
      = Some (db_attempts db @ [next_attempt now (tr_id new) row d])"
    using assms(6) fresh id by (auto simp: insert_attempt_Some child_row_None next_attempt_def dest: used_ids_simps(2))
  with new have "commit_retry env cfg now row d db = Inr (Some (tr_id new,
      db\<lparr>db_results := db_results db @ [new], db_attempts := db_attempts db @ [next_attempt now (tr_id new) row d]\<rparr>))"
    by (auto simp: commit_retry_Some req_def)
  with assms id show ?thesis
    by (simp add: maybe_retry_def child_row_snoc next_attempt_def)
qed

text \<open>Retrying other rows changes neither a row nor what is decided about it.\<close>

lemma maybe_retry_keeps_case:
  assumes "engine_ok env" "get_result rid db = Some row"
  shows "get_result rid (snd (maybe_retry env cfg now c r db)) = Some row
    \<and> attempt_info rid (db_attempts (snd (maybe_retry env cfg now c r db))) = attempt_info rid (db_attempts db)
    \<and> (child_row rid (db_attempts db) \<noteq> None \<longrightarrow> child_row rid (db_attempts (snd (maybe_retry env cfg now c r db))) \<noteq> None)"
proof (cases rule: maybe_retry_cases [of env cfg now c r db])
  case idle
  with assms show ?thesis by simp
next
  case (retried r' d n db')
  then obtain req new where new: "te_enqueue env req db = Some new"
    and db': "db' = db\<lparr>db_results := db_results db @ [new], db_attempts := db_attempts db @ [next_attempt now (tr_id new) r' d]\<rparr>"
    by (auto simp: commit_retry_Some)
  from assms(2) have "rid \<in> set (used_ids db)" using used_ids_simps(1) by (fastforce dest: tbl_find_Some)
  with assms(1) new have "tr_id new \<noteq> rid" by (auto simp: engine_ok_def)
  with retried db' assms(2) show ?thesis
    by (auto simp: tbl_find_append attempt_info_snoc child_row_snoc next_attempt_def split: option.split)
qed

lemma retry_each_keeps_child:
  assumes "engine_ok env" "get_result rid db = Some row" "child_row rid (db_attempts db) \<noteq> None"
  shows "child_row rid (db_attempts (snd (retry_each env cfg now rids db))) \<noteq> None"
  using assms(2,3)
proof (induction rids arbitrary: db)
  case Nil
  then show ?case by simp
next
  case (Cons r rids)
  with maybe_retry_keeps_case [OF assms(1), of rid db row cfg now C_Failed r] show ?case
    by (simp add: split_beta)
qed

lemma retry_each_reaches:
  assumes "engine_ok env" "enqueue_total env" "te_importable env (tr_task_path row)"
    and "rid \<in> set rids" "get_result rid db = Some row" "decide env cfg (db_attempts db) row C_Failed \<noteq> None"
  shows "child_row rid (db_attempts (snd (retry_each env cfg now rids db))) \<noteq> None"
  using assms(4-6)
proof (induction rids arbitrary: db)
  case Nil
  then show ?case by simp
next
  case (Cons r rids)
  let ?db1 = "snd (maybe_retry env cfg now C_Failed r db)"
  note keeps = maybe_retry_keeps_case [OF assms(1) Cons.prems(2), of cfg now C_Failed r]
  have id: "tr_id row = rid" using Cons.prems(2) by (auto dest: tbl_find_Some)
  have dec: "decide env cfg (db_attempts ?db1) row C_Failed \<noteq> None"
    using decide_info_cong [of row "db_attempts ?db1" "db_attempts db"] keeps id Cons.prems(3) by simp
  show ?case
  proof (cases "r = rid")
    case False
    with Cons.prems have "rid \<in> set rids" by simp
    from Cons.IH [OF this] keeps dec show ?thesis by (simp add: split_beta)
  next
    case True
    have "child_row rid (db_attempts ?db1) \<noteq> None"
    proof (cases "child_row rid (db_attempts db)")
      case None
      with True Cons.prems assms show ?thesis using maybe_retry_succeeds by blast
    next
      case (Some a)
      with keeps show ?thesis by simp
    qed
    with keeps assms(1) have "child_row rid (db_attempts (snd (retry_each env cfg now rids ?db1))) \<noteq> None"
      by (intro retry_each_keeps_child) simp_all
    then show ?thesis by (simp add: split_beta)
  qed
qed

text \<open>A failure whose next attempt is due is among the candidates.\<close>

lemma repair_candidate:
  assumes wf: "chain_wf db" and row: "row \<in> set (db_results db)"
    and dec: "decide env cfg (db_attempts db) row C_Failed = Some d"
    and fin: "tr_finished_at row = Some t" "now - REPAIR_WINDOW \<le> t" "t \<le> now - REPAIR_GRACE"
    and no_child: "child_row (tr_id row) (db_attempts db) = None"
    and few: "length (repair_recent now db) \<le> REPAIR_BATCH"
  shows "tr_id row \<in> set (repair_candidates env cfg now db)"
proof -
  note dec' = decide_Some [OF dec]
  have recent: "row \<in> set (repair_recent now db)"
    using row dec' fin no_child by (auto simp: repair_recent_def child_row_None set_map_filter_iff sql_simps)
  have one: "1 < de_budget d"
    using dec'(4,5) attempt_info_positive [of "db_attempts db" "tr_id row"] wf by (simp add: chain_wf_def)
  let ?paths = "set (filter (\<lambda>p. 1 < policy_attempts cfg (deref_policy (policy_for env p)))
      (remdups (map tr_task_path (repair_recent now db))))"
  let ?pinned = "set (map ta_result_id (filter (\<lambda>a. case ta_max_attempts a of Some m \<Rightarrow> 1 < m | None \<Rightarrow> False)
      (db_attempts db)))"
  have "tr_task_path row \<in> ?paths \<or> tr_id row \<in> ?pinned"
  proof (cases "ai_max_attempts (de_info d)")
    case None
    with dec'(7) one recent show ?thesis by auto
  next
    case (Some m)
    then obtain a where "attempt_row (tr_id row) (db_attempts db) = Some a" "ta_max_attempts a = Some m"
      using dec'(4) by (auto simp: attempt_info_def split: option.splits)
    with dec'(6) [OF Some] one show ?thesis by (force dest: attempt_rowD)
  qed
  moreover have "length (filter P (repair_recent now db)) \<le> REPAIR_BATCH" for P
    using few length_filter_le le_trans by blast
  ultimately show ?thesis using recent by (auto simp: repair_candidates_def Let_def)
qed

text \<open>C4: The sweep catches every missed retry: a failure that ended within the window, that has no
  retry and for which the policy allows one has one after the sweep, when the engine accepts
  requests, the task imports and the batch is not overfull.\<close>

theorem repair_sweep_catches:
  assumes "chain_wf db" "engine_ok env" "enqueue_total env"
    and "row \<in> set (db_results db)" "te_importable env (tr_task_path row)"
    and "decide env cfg (db_attempts db) row C_Failed \<noteq> None"
    and "tr_finished_at row = Some t" "now - REPAIR_WINDOW \<le> t" "t \<le> now - REPAIR_GRACE"
    and "length (repair_recent now db) \<le> REPAIR_BATCH"
  shows "retry_of (tr_id row) (snd (repair_missed_retries env cfg now db)) \<noteq> None"
proof -
  from assms obtain d where d: "decide env cfg (db_attempts db) row C_Failed = Some d" by auto
  have get: "get_result (tr_id row) db = Some row" using assms by (intro wf_get_result)
  have "child_row (tr_id row) (db_attempts (snd (repair_missed_retries env cfg now db))) \<noteq> None"
  proof (cases "child_row (tr_id row) (db_attempts db)")
    case None
    with assms d have "tr_id row \<in> set (repair_candidates env cfg now db)" by (intro repair_candidate)
    with assms get show ?thesis by (simp add: repair_missed_retries_def retry_each_reaches)
  next
    case (Some a)
    with assms get show ?thesis by (simp add: repair_missed_retries_def retry_each_keeps_child)
  qed
  then show ?thesis by (simp add: retry_of_def)
qed

lemma repair_sweep_catches_witness:
  "retry_of ''a'' (snd (repair_missed_retries demo_env default_task_settings (secs 60)
     \<lparr>db_results = [demo_row ''a'' Failed EXCEPTION 0], db_attempts = [], db_beats = []\<rparr>)) \<noteq> None"
proof -
  have "decide demo_env default_task_settings [] (demo_row ''a'' Failed EXCEPTION 0) C_Failed \<noteq> None"
    by (simp add: decide_def demo_row_def demo_env_def demo_policy_def Let_def classify_def attempt_info_def attempt_row_def
        policy_for_def policy_attempts_def exc_matches_def DEFAULT_POLICY_def EXCEPTION_def BOOKKEEPING_PATHS_def
        RETRY_SUPERSEDED_PATH_def WORKER_LOST_PATH_def INTERRUPTED_PATHS_def)
  moreover have "enqueue_total demo_env" by (simp add: enqueue_total_def demo_env_def demo_enqueue_def)
  ultimately show ?thesis
    using repair_sweep_catches [of "\<lparr>db_results = [demo_row ''a'' Failed EXCEPTION 0], db_attempts = [], db_beats = []\<rparr>"
        demo_env "demo_row ''a'' Failed EXCEPTION 0" default_task_settings 0 "secs 60"] demo_engine_ok
    by (simp add: chain_wf_def chains_ok_def unique_attempts_def unique_opt_def demo_row_def demo_env_def
        REPAIR_WINDOW_def REPAIR_GRACE_def REPAIR_BATCH_def repair_recent_def hours_span_def secs_def sql_simps)
qed

section \<open>Late completions\<close>

text \<open>The result that the \<open>k\<close>-th retry after \<open>rid\<close> produced.\<close>

fun nth_retry :: "nat \<Rightarrow> uuid \<Rightarrow> task_attempt list \<Rightarrow> uuid option" where
  "nth_retry 0 rid atts = Some rid"
| "nth_retry (Suc k) rid atts =
     (case child_row rid atts of None \<Rightarrow> None | Some c \<Rightarrow> nth_retry k (ta_result_id c) atts)"

lemma nth_retry_update:
  assumes "\<And>a. ta_result_id (f a) = ta_result_id a" "\<And>a. ta_parent_id (f a) = ta_parent_id a"
  shows "nth_retry k rid (tbl_update P f atts) = nth_retry k rid atts"
  by (induction k arbitrary: rid) (simp_all add: child_row_update assms split: option.split)

text \<open>The walk passes through every retry that was itself retried, cancelled or not.\<close>

lemma walk_reaches:
  assumes "nth_retry k (cw_current w) atts = Some p" "child_row p atts \<noteq> None"
  shows "\<exists>w'. cw_current w' = p \<and> walk_chain (k + n) atts w = walk_chain n atts w'"
  using assms(1)
proof (induction k arbitrary: w)
  case 0
  then show ?case by auto
next
  case (Suc k)
  then obtain c where c: "child_row (cw_current w) atts = Some c" "nth_retry k (ta_result_id c) atts = Some p"
    by (auto split: option.splits)
  have "child_row (ta_result_id c) atts \<noteq> None"
    using c(2) assms(2) by (cases k) (auto split: option.splits)
  with c(1) have "\<exists>w1. walk_step atts w = Inr w1 \<and> cw_current w1 = ta_result_id c"
    by (cases "ta_parent_completed_at c") (auto simp: walk_step_def Let_def)
  then obtain w1 where w1: "walk_step atts w = Inr w1" "cw_current w1 = ta_result_id c" by blast
  from Suc.IH [of w1] c(2) w1 show ?case by simp
qed

lemma walk_reaches_within:
  assumes "nth_retry k (cw_current w) atts = Some p" "child_row p atts \<noteq> None" "k < N"
  obtains w' m where "cw_current w' = p" "walk_chain N atts w = walk_chain (Suc m) atts w'"
proof -
  obtain m where "N = k + Suc m" using less_imp_Suc_add [OF assms(3)] by auto
  with walk_reaches [OF assms(1,2), of "Suc m"] that show thesis by auto
qed

lemma walk_step_keeps_fork: "walk_step atts w = Inr w' \<Longrightarrow> cw_forked w \<Longrightarrow> cw_forked w'"
  and walk_stop_keeps_fork: "walk_step atts w = Inl w' \<Longrightarrow> cw_forked w \<Longrightarrow> cw_forked w'"
  by (auto simp: walk_step_def Let_def split: option.splits if_splits)

lemma walk_keeps_fork: "cw_forked w \<Longrightarrow> cw_forked (walk_chain n atts w)"
  by (induction n arbitrary: w)
    (auto split: sum.split intro: walk_step_keeps_fork dest: walk_stop_keeps_fork)

text \<open>What a late completion writes about the attempt it is recorded for.\<close>

lemma record_late_effect:
  fixes now :: instant
  assumes wf: "chain_wf db" and row: "get_result pid db = Some row" "tr_status row = Successful \<or> tr_status row = Failed"
    and child: "child_row pid (db_attempts db) = Some c" "ta_cause c = C_Lost" "ta_parent_completed_at c = None"
    and cr: "get_result (ta_result_id c) db = Some cr"
  defines "done_at \<equiv> (case tr_finished_at row of Some t \<Rightarrow> t | None \<Rightarrow> now)"
  defines "c' \<equiv> c\<lparr>ta_parent_completed_at := Some done_at, ta_parent_status := take 16 (status_str (tr_status row)),
      ta_retry_cancelled := (tr_status cr = Ready \<or> ta_retry_cancelled c)\<rparr>"
  obtains l f where "record_late_completion now pid db = (Some l,
        db\<lparr>db_results := tbl_update (\<lambda>r. tr_id r = ta_result_id c \<and> tr_status r = Ready)
              (cancel_retry pid (tr_status row) now) (db_results db),
           db_attempts := tbl_update (\<lambda>_. True) f (db_attempts db)\<rparr>)"
    "lc_retry_cancelled l = (tr_status cr = Ready)" "lc_retry_id l = ta_result_id c"
    "\<And>a. ta_result_id (f a) = ta_result_id a" "\<And>a. ta_parent_id (f a) = ta_parent_id a" "f c = c'"
proof -
  let ?mark = "\<lambda>a. a\<lparr>ta_parent_completed_at := Some done_at, ta_parent_status := take 16 (status_str (tr_status row))\<rparr>"
  let ?rdy = "\<lambda>r. tr_id r = ta_result_id c \<and> tr_status r = Ready"
  let ?f = "\<lambda>a. let b = (if reaped_child pid a then ?mark a else a)
                in if tr_status cr = Ready \<and> ta_parent_id b = Some pid then b\<lparr>ta_retry_cancelled := True\<rparr> else b"
  have cp: "c \<in> set (db_attempts db)" "ta_parent_id c = Some pid" using child(1) by (auto dest: child_rowD)
  have rc: "reaped_child pid c" using child cp by (simp add: reaped_child_def)
  have uniq: "a = c" if "a \<in> set (db_attempts db)" "reaped_child pid a" for a
    using wf that cp unique_opt_inj [of ta_parent_id "db_attempts db" a c pid]
    by (auto simp: chain_wf_def chains_ok_def unique_attempts_def reaped_child_def)
  have fnd: "find (reaped_child pid) (db_attempts db) = Some c"
  proof (cases "find (reaped_child pid) (db_attempts db)")
    case None
    with cp rc show ?thesis by (simp add: find_NoneD)
  next
    case (Some a)
    with uniq [of a] find_SomeD [OF Some] show ?thesis by simp
  qed
  have hits: "0 < tbl_count ?rdy (db_results db) \<longleftrightarrow> tr_status cr = Ready"
  proof -
    have "r = cr" if "r \<in> set (db_results db)" "tr_id r = ta_result_id c" for r
      using wf_get_result [OF wf that(1)] that(2) cr by simp
    moreover have "cr \<in> set (db_results db)" "tr_id cr = ta_result_id c" using cr by (auto dest: tbl_find_Some)
    ultimately show ?thesis unfolding tbl_count_pos by blast
  qed
  have "tbl_count (reaped_child pid) (db_attempts db) \<noteq> 0" using cp rc by (auto simp: tbl_count_0)
  moreover have "\<not> (tr_status row = Ready \<or> tr_status row = Running)" using row by auto
  ultimately have "record_late_completion now pid db = (Some \<lparr>lc_parent_id = pid, lc_retry_id = ta_result_id c,
        lc_task_path = tr_task_path row, lc_status = status_str (tr_status row), lc_retry_cancelled = (tr_status cr = Ready)\<rparr>,
      db\<lparr>db_results := tbl_update ?rdy (cancel_retry pid (tr_status row) now) (db_results db),
         db_attempts := tbl_update (\<lambda>_. True) ?f (db_attempts db)\<rparr>)"
    using row fnd hits
    by (auto simp: record_late_completion_def mark_superseded_def mark_parent_completed_def Let_def tbl_update_def done_at_def)
  then show thesis
  proof (rule that)
    show "?f c = c'" using rc cp by (auto simp: c'_def Let_def)
  qed (auto simp: Let_def)
qed

text \<open>C5: An attempt that was declared lost but completed anyway wins over a retry that has not
  started: the retry is cancelled (it ends FAILED with \<open>RetrySuperseded\<close>), and from every earlier
  attempt of the chain the outcome is the row of the attempt that completed, with its status when
  it succeeded.\<close>

theorem late_completion_cancels_retry:
  assumes wf: "chain_wf db" and row: "get_result pid db = Some row" "tr_status row = Successful"
    and child: "child_row pid (db_attempts db) = Some c" "ta_cause c = C_Lost" "ta_parent_completed_at c = None"
    and cr: "get_result (ta_result_id c) db = Some cr" "tr_status cr = Ready"
    and last: "child_row (ta_result_id c) (db_attempts db) = None"
    and root: "nth_retry k orig (db_attempts db) = Some pid" "k < MAX_CHAIN"
  shows "\<exists>l db' co. record_late_completion now pid db = (Some l, db') \<and> lc_retry_cancelled l
    \<and> get_result (ta_result_id c) db' = Some (cancel_retry pid Successful now cr)
    \<and> chain_outcome env cfg now orig db' = Some co \<and> co_row co = row \<and> co_status co = Engine Successful"
proof -
  obtain l f where eff: "record_late_completion now pid db = (Some l,
        db\<lparr>db_results := tbl_update (\<lambda>r. tr_id r = ta_result_id c \<and> tr_status r = Ready)
              (cancel_retry pid (tr_status row) now) (db_results db),
           db_attempts := tbl_update (\<lambda>_. True) f (db_attempts db)\<rparr>)" (is "_ = (_, ?db')")
    and l: "lc_retry_cancelled l = (tr_status cr = Ready)" "lc_retry_id l = ta_result_id c"
    and f: "\<And>a. ta_result_id (f a) = ta_result_id a" "\<And>a. ta_parent_id (f a) = ta_parent_id a"
    and fc: "f c = c\<lparr>ta_parent_completed_at := Some (case tr_finished_at row of Some t \<Rightarrow> t | None \<Rightarrow> now),
      ta_parent_status := take 16 (status_str (tr_status row)),
      ta_retry_cancelled := (tr_status cr = Ready \<or> ta_retry_cancelled c)\<rparr>"
    by (rule record_late_effect [OF wf row(1) disjI1 [OF row(2)] child cr(1), of now]) (rule that)
  have kids: "child_row r (tbl_update (\<lambda>_. True) f (db_attempts db)) = map_option f (child_row r (db_attempts db))" for r
    by (simp add: child_row_update [OF f(2)])
  have "nth_retry k orig (db_attempts ?db') = Some pid" using root by (simp add: nth_retry_update f)
  moreover have "child_row pid (db_attempts ?db') \<noteq> None" using child by (simp add: kids)
  ultimately obtain w m where w: "cw_current w = pid"
    "walk_chain MAX_CHAIN (db_attempts ?db') (walk_start orig) = walk_chain (Suc m) (db_attempts ?db') w"
    using walk_reaches_within [of k "walk_start orig" "db_attempts ?db'" pid MAX_CHAIN] root(2)
    by (auto simp: walk_start_def simp del: walk_chain.simps)
  have "cw_current (walk_chain (Suc m) (db_attempts ?db') w) = pid"
    using w(1) kids child fc cr last f by (simp add: walk_step_def Let_def)
  with w(2) have cur: "cw_current (walk_chain MAX_CHAIN (db_attempts ?db') (walk_start orig)) = pid" by (simp only:)
  have "get_result r ?db' = map_option (\<lambda>q. if tr_id q = ta_result_id c \<and> tr_status q = Ready
      then cancel_retry pid (tr_status row) now q else q) (get_result r db)" for r
    by (simp add: tbl_find_update)
  then have "get_result (ta_result_id c) ?db' = Some (cancel_retry pid (tr_status row) now cr)" "get_result pid ?db' = Some row"
    using cr row by (auto dest: tbl_find_Some)
  with eff l cr row cur show ?thesis by (auto simp: chain_outcome_def Let_def)
qed

text \<open>A late completion whose retry had already started is reported: from every earlier attempt
  of the chain the outcome says the chain executed more than once, with a note that is not
  empty.\<close>

theorem double_execution_reported:
  assumes wf: "chain_wf db" and row: "get_result pid db = Some row" "tr_status row = Successful \<or> tr_status row = Failed"
    and child: "child_row pid (db_attempts db) = Some c" "ta_cause c = C_Lost" "ta_parent_completed_at c = None"
    and cr: "get_result (ta_result_id c) db = Some cr" "tr_status cr \<noteq> Ready" "\<not> ta_retry_cancelled c"
    and root: "nth_retry k orig (db_attempts db) = Some pid" "k < MAX_CHAIN"
    and co: "chain_outcome env cfg now orig (snd (record_late_completion now pid db)) = Some co"
  shows "co_executed_more_than_once co \<and> double_execution_note co \<noteq> ''''"
proof -
  obtain l f where eff: "record_late_completion now pid db = (Some l,
        db\<lparr>db_results := tbl_update (\<lambda>r. tr_id r = ta_result_id c \<and> tr_status r = Ready)
              (cancel_retry pid (tr_status row) now) (db_results db),
           db_attempts := tbl_update (\<lambda>_. True) f (db_attempts db)\<rparr>)" (is "_ = (_, ?db')")
    and l: "lc_retry_cancelled l = (tr_status cr = Ready)" "lc_retry_id l = ta_result_id c"
    and f: "\<And>a. ta_result_id (f a) = ta_result_id a" "\<And>a. ta_parent_id (f a) = ta_parent_id a"
    and fc: "f c = c\<lparr>ta_parent_completed_at := Some (case tr_finished_at row of Some t \<Rightarrow> t | None \<Rightarrow> now),
      ta_parent_status := take 16 (status_str (tr_status row)),
      ta_retry_cancelled := (tr_status cr = Ready \<or> ta_retry_cancelled c)\<rparr>"
    by (rule record_late_effect [OF wf row child cr(1), of now]) (rule that)
  have kids: "child_row r (tbl_update (\<lambda>_. True) f (db_attempts db)) = map_option f (child_row r (db_attempts db))" for r
    by (simp add: child_row_update [OF f(2)])
  have "nth_retry k orig (db_attempts ?db') = Some pid" using root by (simp add: nth_retry_update f)
  moreover have "child_row pid (db_attempts ?db') \<noteq> None" using child by (simp add: kids)
  ultimately obtain w m where w: "cw_current w = pid"
    "walk_chain MAX_CHAIN (db_attempts ?db') (walk_start orig) = walk_chain (Suc m) (db_attempts ?db') w"
    using walk_reaches_within [of k "walk_start orig" "db_attempts ?db'" pid MAX_CHAIN] root(2)
    by (auto simp: walk_start_def simp del: walk_chain.simps)
  have "cw_forked (walk_chain (Suc m) (db_attempts ?db') w)"
    using w(1) kids child fc cr by (simp add: walk_step_def Let_def walk_keeps_fork)
  with w(2) have "cw_forked (walk_chain MAX_CHAIN (db_attempts ?db') (walk_start orig))" by (simp only:)
  with co eff have "co_executed_more_than_once co" by (auto simp: chain_outcome_def Let_def split: option.splits)
  then show ?thesis by (simp add: double_execution_note_def Let_def)
qed

definition demo_late :: "task_status \<Rightarrow> task_db" where
  "demo_late st = \<lparr>db_results = [demo_row ''p'' Successful '''' 0, demo_row ''c'' st '''' 0],
     db_attempts = [demo_attempt ''c'' ''p''], db_beats = []\<rparr>"

lemma demo_late_facts:
  "chain_wf (demo_late st)" "get_result ''p'' (demo_late st) = Some (demo_row ''p'' Successful '''' 0)"
  "get_result ''c'' (demo_late st) = Some (demo_row ''c'' st '''' 0)"
  "db_attempts (demo_late st) = [demo_attempt ''c'' ''p'']"
  by (simp_all add: demo_late_def demo_row_def demo_attempt_def chain_wf_def chains_ok_def unique_attempts_def
      unique_opt_def attempt_follows_def attempt_info_def attempt_row_def)

lemma late_completion_cancels_retry_witness:
  "\<exists>co. chain_outcome demo_env default_task_settings 5 ''p'' (snd (record_late_completion 5 ''p'' (demo_late Ready))) = Some co
     \<and> co_status co = Engine Successful"
proof -
  have "\<exists>l db' co. record_late_completion 5 ''p'' (demo_late Ready) = (Some l, db') \<and> lc_retry_cancelled l
    \<and> get_result (ta_result_id (demo_attempt ''c'' ''p'')) db'
        = Some (cancel_retry ''p'' Successful 5 (demo_row ''c'' Ready '''' 0))
    \<and> chain_outcome demo_env default_task_settings 5 ''p'' db' = Some co
    \<and> co_row co = demo_row ''p'' Successful '''' 0 \<and> co_status co = Engine Successful"
    by (rule late_completion_cancels_retry [where k = 0])
      (simp_all add: demo_late_facts demo_row_def demo_attempt_def child_row_def MAX_CHAIN_def)
  then show ?thesis by auto
qed

lemma walk_chain_rounds:
  "walk_step atts w = Inl w' \<Longrightarrow> 0 < n \<Longrightarrow> walk_chain n atts w = w'"
  "walk_step atts w = Inr w' \<Longrightarrow> 0 < n \<Longrightarrow> walk_chain n atts w = walk_chain (n - 1) atts w'"
  by (cases n; simp)+

lemma demo_late_outcome:
  "\<exists>co. chain_outcome demo_env default_task_settings 5 ''p'' (snd (record_late_completion 5 ''p'' (demo_late Running))) = Some co"
proof -
  have "cw_current (walk_chain MAX_CHAIN (db_attempts (snd (record_late_completion 5 ''p'' (demo_late Running))))
      (walk_start ''p'')) = ''c''"
    by (simp add: demo_late_def demo_row_def demo_attempt_def record_late_completion_def mark_superseded_def
        mark_parent_completed_def reaped_child_def tbl_count_def Let_def walk_chain_rounds walk_step_def walk_start_def
        child_row_def MAX_CHAIN_def)
  then show ?thesis
    by (simp add: chain_outcome_def Let_def)
      (simp add: demo_late_def demo_row_def demo_attempt_def record_late_completion_def mark_superseded_def
        mark_parent_completed_def reaped_child_def tbl_count_def Let_def)
qed

lemma double_execution_reported_witness:
  "\<exists>co. chain_outcome demo_env default_task_settings 5 ''p'' (snd (record_late_completion 5 ''p'' (demo_late Running))) = Some co
     \<and> co_executed_more_than_once co"
proof -
  have "co_executed_more_than_once co \<and> double_execution_note co \<noteq> ''''"
    if "chain_outcome demo_env default_task_settings 5 ''p'' (snd (record_late_completion 5 ''p'' (demo_late Running))) = Some co" for co
    by (rule double_execution_reported [where k = 0 and c = "demo_attempt ''c'' ''p''" and cr = "demo_row ''c'' Running '''' 0",
          OF demo_late_facts(1,2) _ _ _ _ _ _ _ _ _ that])
      (simp_all add: demo_late_facts demo_row_def demo_attempt_def child_row_def MAX_CHAIN_def)
  with demo_late_outcome show ?thesis by blast
qed

section \<open>The heartbeat thread\<close>

lemma thread_round_simps:
  "snd (thread_round ok t) \<longleftrightarrow>
     Suc (bt_beats t) mod bt_reap_every t = 0 \<and> (ok \<or> Suc (bt_missed t) < MAX_MISSED_BEATS_BEFORE_YIELDING)"
  "bt_beats (fst (thread_round ok t)) = Suc (bt_beats t)"
  "bt_missed (fst (thread_round ok t)) = (if ok then 0 else Suc (bt_missed t))"
  "bt_reap_every (fst (thread_round ok t)) = bt_reap_every t"
  by (auto simp: thread_round_def thread_beat_def thread_reaps_def Let_def MAX_MISSED_BEATS_BEFORE_YIELDING_def)

lemma thread_run_nth:
  "i < length oks \<Longrightarrow> snd (thread_run oks t) ! i = snd (thread_round (oks ! i) (fst (thread_run (take i oks) t)))"
  by (induction oks arbitrary: t i) (auto simp: split_beta nth_Cons split: nat.split)

lemma thread_run_snoc:
  "fst (thread_run (oks @ [ok]) t) = fst (thread_round ok (fst (thread_run oks t)))"
  by (induction oks arbitrary: t) (auto simp: split_beta)

lemma thread_run_fields:
  "bt_beats (fst (thread_run oks t)) = bt_beats t + length oks"
  "bt_reap_every (fst (thread_run oks t)) = bt_reap_every t"
  by (induction oks arbitrary: t) (auto simp: split_beta thread_round_simps)

text \<open>A worker's thread makes a reaper pass at every \<open>reap_every\<close>-th round whose own heartbeat
  was written, and none in a round that follows a missed heartbeat and misses its own: a worker
  that cannot be seen alive does not judge others.\<close>

theorem thread_reaps_only_when_alive:
  assumes "i < length oks"
  shows "(oks ! i \<longrightarrow> snd (thread_run oks (thread_start wid every)) ! i = (Suc i mod max 1 every = 0))
    \<and> (0 < i \<and> \<not> oks ! i \<and> \<not> oks ! (i - 1) \<longrightarrow> \<not> snd (thread_run oks (thread_start wid every)) ! i)"
proof (intro conjI impI)
  let ?t = "thread_start wid every"
  assume "oks ! i"
  with assms show "snd (thread_run oks ?t) ! i = (Suc i mod max 1 every = 0)"
    by (simp add: thread_run_nth thread_round_simps thread_run_fields thread_start_def)
next
  let ?t = "thread_start wid every"
  assume missed: "0 < i \<and> \<not> oks ! i \<and> \<not> oks ! (i - 1)"
  then obtain j where j: "i = Suc j" by (cases i) auto
  then have "take i oks = take j oks @ [oks ! j]" using assms by (simp add: take_Suc_conv_app_nth)
  with missed j have "bt_missed (fst (thread_run (take i oks) ?t)) \<ge> 1"
    by (simp add: thread_run_snoc thread_round_simps)
  with missed assms show "\<not> snd (thread_run oks ?t) ! i"
    by (simp add: thread_run_nth thread_round_simps MAX_MISSED_BEATS_BEFORE_YIELDING_def)
qed

lemma thread_reaps_only_when_alive_witness:
  "snd (thread_run [True, True, True, True, False, False, False, False] (thread_start ''w#1'' 4)) ! 3
   \<and> \<not> snd (thread_run [True, True, True, True, False, False, False, False] (thread_start ''w#1'' 4)) ! 7"
  using thread_reaps_only_when_alive [of 3 "[True, True, True, True, False, False, False, False]" "''w#1''" 4]
    thread_reaps_only_when_alive [of 7 "[True, True, True, True, False, False, False, False]" "''w#1''" 4]
  by simp

end
