(* ===== verification/Scheduler.thy ===== *)
theory Scheduler
  imports Schedule_Math Task_Recovery
begin

text \<open>
  The scheduler: its rows (\<open>apps/scheduler/models.py\<close>), the tick
  (\<open>apps/scheduler/services.py\<close>) and the sync of code-declared jobs
  (\<open>apps/scheduler/registry.py\<close>).

  The tick runs on top of the task layer: \<open>sd_tasks\<close> is its database, an enqueue goes through
  the engine of \<open>task_env\<close>, a retry budget is pinned by \<open>pin_max_attempts\<close> and a run's status is
  read by \<open>chain_outcome\<close>. Parameters (record \<open>sched_env\<close>): the calendar of Schedule_Math, the
  task environment, what a dotted path imports to, the resolution of an anchor text in a zone,
  JSON texts and the texts of notification mails. \<open>now\<close> is the tick's clock; \<open>stamp\<close> is the
  clock of the \<open>auto_now_add\<close> columns.
\<close>

section \<open>Rows\<close>

datatype run_status = Run_Queued | Run_Skipped | Run_Success | Run_Failed

fun run_status_str :: "run_status \<Rightarrow> string" where
  "run_status_str Run_Queued = ''queued''"
| "run_status_str Run_Skipped = ''skipped''"
| "run_status_str Run_Success = ''success''"
| "run_status_str Run_Failed = ''failed''"

datatype job_source = Code_Source | UI_Source

record scheduled_job =
  sj_id :: nat
  sj_name :: string
  sj_task_path :: string
  sj_kwargs :: "(string \<times> string) list"
  sj_queue_name :: string
  sj_schedule :: schedule
  sj_enabled :: bool
  sj_allow_overlap :: bool
  sj_catch_up :: string
  sj_max_retries :: nat
  sj_source :: job_source
  sj_schedule_overridden :: bool
  sj_auto_retired :: bool
  sj_next_run_at :: "instant option"
  sj_last_enqueued_at :: "instant option"
  sj_last_status :: string
  sj_total_runs :: nat

record job_run =
  jr_job :: nat
  jr_status :: run_status
  jr_scheduled_for :: instant
  jr_created_at :: instant
  jr_task_result_id :: string
  jr_message :: string

record sched_db =
  sd_jobs :: "scheduled_job list"
  sd_runs :: "job_run list"
  sd_tasks :: task_db
  sd_code_jobs_synced :: bool

section \<open>What is outside\<close>

datatype resolution = Unresolvable string | Import_Crash string | Task_Object string int string

datatype fire_error = Task_Unresolvable string | Fire_Raised string

record sched_env =
  sv_calendar :: calendar
  sv_tasks :: task_env
  sv_task_settings :: task_settings
  sv_import :: "string \<Rightarrow> string \<Rightarrow> resolution"
  sv_enqueue_message :: string
  sv_anchor :: "string \<Rightarrow> string \<Rightarrow> instant \<Rightarrow> instant option"
  sv_json_text :: "string \<Rightarrow> string"
  sv_failure_emails :: "string list"
  sv_failure_text :: "job_run \<Rightarrow> string"
  sv_email_task :: "string \<times> string \<times> int \<times> string"
  sv_stale_run_seconds :: int
  sv_backend_queues :: "string \<Rightarrow> string list"

definition compute_next_run :: "sched_env \<Rightarrow> scheduled_job \<Rightarrow> instant \<Rightarrow> schedule_error + instant option" where
  "compute_next_run env job after = next_run (sv_calendar env) (sj_schedule job) after"

section \<open>Validation and saving (models.py)\<close>

datatype clean_error =
    Bad_Type | Field_Required | Bad_Timezone | Bad_Cadence | Bad_Queue
  | Clean_Raises schedule_error  \<comment> \<open>an exception that \<open>clean\<close> does not turn into a field error\<close>

definition canonical_or_same :: "calendar \<Rightarrow> string \<Rightarrow> string" where
  "canonical_or_same cal tz = (case canonical_timezone cal tz of Some z \<Rightarrow> z | None \<Rightarrow> tz)"

definition cadence_value_missing :: "schedule \<Rightarrow> bool option" where
  "cadence_value_missing s =
     (if sc_type s = ''once'' then Some (sc_run_at s = None)
      else if sc_type s = ''interval'' then Some (sc_interval_spec s = '''')
      else if sc_type s = ''cron'' then Some (sc_cron_expression s = '''')
      else None)"

definition clean_job :: "sched_env \<Rightarrow> instant \<Rightarrow> scheduled_job \<Rightarrow> clean_error + scheduled_job" where
  "clean_job env now job =
     (let s = sj_schedule job; cal = sv_calendar env in
      case cadence_value_missing s of
        None \<Rightarrow> Inl Bad_Type
      | Some True \<Rightarrow> Inl Field_Required
      | Some False \<Rightarrow>
          if sc_timezone s \<noteq> '''' \<and> canonical_timezone cal (sc_timezone s) = None then Inl Bad_Timezone
          else
            let job1 = job\<lparr>sj_schedule := s\<lparr>sc_timezone := canonical_or_same cal (sc_timezone s)\<rparr>\<rparr>
            in case next_run cal (sj_schedule job1) now of
                 Inl Config_Error \<Rightarrow> Inl Bad_Cadence
               | Inl e \<Rightarrow> Inl (Clean_Raises e)
               | Inr _ \<Rightarrow>
                   let queues = sv_backend_queues env (sj_task_path job)
                   in if queues \<noteq> [] \<and> sj_queue_name job \<notin> set queues then Inl Bad_Queue else Inr job1)"

text \<open>
  \<open>save\<close>: the zone is made canonical, and an enabled job whose cursor is missing or whose
  cadence differs from the stored row gets a new cursor. \<open>stored\<close> is the row in the database.
\<close>

definition reseed :: "sched_env \<Rightarrow> instant \<Rightarrow> scheduled_job \<Rightarrow> schedule_error + scheduled_job" where
  "reseed env now job =
     (case compute_next_run env job now of
        Inr t \<Rightarrow> Inr (job\<lparr>sj_next_run_at := t\<rparr>)
      | Inl Config_Error \<Rightarrow> Inr (job\<lparr>sj_next_run_at := None\<rparr>)
      | Inl e \<Rightarrow> Inl e)"

definition save_job ::
  "sched_env \<Rightarrow> instant \<Rightarrow> scheduled_job option \<Rightarrow> scheduled_job \<Rightarrow> schedule_error + scheduled_job" where
  "save_job env now stored job =
     (let s = sj_schedule job;
          job1 = job\<lparr>sj_schedule := s\<lparr>sc_timezone := canonical_or_same (sv_calendar env) (sc_timezone s)\<rparr>\<rparr>;
          changed = (case stored of None \<Rightarrow> False | Some old \<Rightarrow> sj_schedule old \<noteq> sj_schedule job1)
      in if sj_enabled job1 \<and> (sj_next_run_at job1 = None \<or> changed) then reseed env now job1 else Inr job1)"

section \<open>Results of runs (services.py)\<close>

fun chain_status_str :: "chain_status \<Rightarrow> string" where
  "chain_status_str (Engine st) = status_str st"
| "chain_status_str Retrying = ''RETRYING''"

definition UNFINISHED :: "string list" where "UNFINISHED = [''READY'', ''RUNNING'', ''RETRYING'']"
definition SUMMARY_MAX :: nat where "SUMMARY_MAX = 240"
definition MESSAGE_MAX :: nat where "MESSAGE_MAX = 255"

text \<open>The separator has three characters in the source too (its dash is a long one there).\<close>

definition NOTE_JOIN :: string where "NOTE_JOIN = '' - ''"

record engine_result =
  er_status :: "string option"
  er_return_value :: "string option"
  er_traceback :: string
  er_attempt :: int
  er_note :: string

definition no_result :: engine_result where
  "no_result = \<lparr>er_status = None, er_return_value = None, er_traceback = '''', er_attempt = 1, er_note = ''''\<rparr>"

definition engine_result :: "sched_env \<Rightarrow> instant \<Rightarrow> string \<Rightarrow> task_db \<Rightarrow> engine_result" where
  "engine_result env now rid tasks =
     (if rid = '''' then no_result
      else case chain_outcome (sv_tasks env) (sv_task_settings env) now rid tasks of
             None \<Rightarrow> no_result
           | Some co \<Rightarrow> \<lparr>er_status = Some (chain_status_str (co_status co)), er_return_value = tr_return_value (co_row co),
                         er_traceback = tr_traceback (co_row co), er_attempt = co_attempt co,
                         er_note = double_execution_note co\<rparr>)"

definition previous_run_active :: "sched_env \<Rightarrow> instant \<Rightarrow> scheduled_job \<Rightarrow> sched_db \<Rightarrow> bool" where
  "previous_run_active env now job db =
     (case sort_key (\<lambda>r. - jr_created_at r) (filter (\<lambda>r. jr_job r = sj_id job \<and> jr_status r = Run_Queued
              \<and> jr_task_result_id r \<noteq> '''') (sd_runs db)) of
        [] \<Rightarrow> False
      | last_run # _ \<Rightarrow>
          if jr_created_at last_run < now - secs (sv_stale_run_seconds env) then False
          else case er_status (engine_result env now (jr_task_result_id last_run) (sd_tasks db)) of
                 None \<Rightarrow> False
               | Some st \<Rightarrow> st \<in> set UNFINISHED)"

definition with_double_execution_note :: "string \<Rightarrow> string \<Rightarrow> string" where
  "with_double_execution_note message note =
     (if note = '''' then take MESSAGE_MAX message
      else
        let note1 = take MESSAGE_MAX note;
            room = int MESSAGE_MAX - int (length note1) - int (length NOTE_JOIN)
        in if room \<le> 0 \<or> message = '''' then note1
           else take (nat room) message @ NOTE_JOIN @ note1)"

definition summarize_result :: "sched_env \<Rightarrow> string option \<Rightarrow> string" where
  "summarize_result env v =
     (case v of None \<Rightarrow> '''' | Some x \<Rightarrow> take SUMMARY_MAX (join_with '' '' (words_of (sv_json_text env x))))"

definition summarize_error :: "string \<Rightarrow> string" where
  "summarize_error tb = (let ls = stripped_lines tb in if ls = [] then ''task failed'' else take SUMMARY_MAX (last ls))"

section \<open>The tick (services.py)\<close>

record tick_result =
  tk_enqueued :: nat
  tk_skipped :: nat
  tk_retired :: nat
  tk_errors :: nat

definition tick_start :: tick_result where
  "tick_start = \<lparr>tk_enqueued = 0, tk_skipped = 0, tk_retired = 0, tk_errors = 0\<rparr>"

definition update_job :: "nat \<Rightarrow> (scheduled_job \<Rightarrow> scheduled_job) \<Rightarrow> sched_db \<Rightarrow> sched_db" where
  "update_job pk f db = db\<lparr>sd_jobs := tbl_update (\<lambda>j. sj_id j = pk) f (sd_jobs db)\<rparr>"

definition record_run :: "instant \<Rightarrow> scheduled_job \<Rightarrow> run_status \<Rightarrow> instant \<Rightarrow> string \<Rightarrow> string \<Rightarrow> sched_db \<Rightarrow> sched_db" where
  "record_run stamp job st scheduled_for rid message db =
     db\<lparr>sd_runs := sd_runs db @ [\<lparr>jr_job = sj_id job, jr_status = st, jr_scheduled_for = scheduled_for,
          jr_created_at = stamp, jr_task_result_id = rid, jr_message = message\<rparr>]\<rparr>"

text \<open>The claim: the conditional UPDATE of the cursor; \<open>observed\<close> is what the tick read.\<close>

definition claim_job :: "instant \<Rightarrow> nat \<Rightarrow> instant option \<Rightarrow> sched_db \<Rightarrow> sched_db option" where
  "claim_job observed pk new_next db =
     (let due = (\<lambda>j. sj_id j = pk \<and> sj_next_run_at j = Some observed)
      in if tbl_count due (sd_jobs db) = 0 then None
         else Some (db\<lparr>sd_jobs := tbl_update due (\<lambda>j. j\<lparr>sj_next_run_at := new_next\<rparr>) (sd_jobs db)\<rparr>))"

definition resolve_task :: "sched_env \<Rightarrow> string \<Rightarrow> resolution" where
  "resolve_task env dotted =
     (case rsplit_dot dotted of
        None \<Rightarrow> Unresolvable ''not enough values to unpack (expected 2, got 1)''
      | Some (module_path, attr) \<Rightarrow> sv_import env module_path attr)"

definition enqueue_job :: "sched_env \<Rightarrow> scheduled_job \<Rightarrow> task_db \<Rightarrow> fire_error + task_result" where
  "enqueue_job env job tasks =
     (case resolve_task env (sj_task_path job) of
        Unresolvable msg \<Rightarrow> Inl (Task_Unresolvable msg)
      | Import_Crash msg \<Rightarrow> Inl (Fire_Raised msg)
      | Task_Object path prio backend \<Rightarrow>
          (case te_enqueue (sv_tasks env) \<lparr>eq_task_path = path, eq_queue_name = sj_queue_name job, eq_priority = prio,
                  eq_backend = backend, eq_run_after = None, eq_args = [], eq_kwargs = sj_kwargs job\<rparr> tasks of
             None \<Rightarrow> Inl (Fire_Raised (sv_enqueue_message env))
           | Some new \<Rightarrow> Inr new))"

definition enqueue_and_record ::
  "sched_env \<Rightarrow> instant \<Rightarrow> instant \<Rightarrow> scheduled_job \<Rightarrow> instant \<Rightarrow> sched_db \<Rightarrow> (fire_error + string) \<times> sched_db" where
  "enqueue_and_record env now stamp job scheduled_for db =
     (case enqueue_job env job (sd_tasks db) of
        Inl e \<Rightarrow> (Inl e, db)
      | Inr new \<Rightarrow>
          let rid = tr_id new;
              tasks1 = (sd_tasks db)\<lparr>db_results := db_results (sd_tasks db) @ [new]\<rparr>;
              tasks2 = (if sj_max_retries job \<noteq> 0 \<and> rid \<noteq> ''''
                        then pin_max_attempts stamp rid (int (sj_max_retries job) + 1) tasks1 else tasks1);
              db1 = record_run stamp job Run_Queued scheduled_for rid '''' (db\<lparr>sd_tasks := tasks2\<rparr>)
          in (Inr rid, update_job (sj_id job)
                (\<lambda>j. j\<lparr>sj_last_enqueued_at := Some now, sj_last_status := run_status_str Run_Queued,
                       sj_total_runs := Suc (sj_total_runs j)\<rparr>) db1))"

text \<open>The fire with its two handlers.\<close>

definition fire_job ::
  "sched_env \<Rightarrow> instant \<Rightarrow> instant \<Rightarrow> scheduled_job \<Rightarrow> instant \<Rightarrow> tick_result \<times> sched_db \<Rightarrow> tick_result \<times> sched_db" where
  "fire_job env now stamp job observed rs =
     (case rs of (res, db) \<Rightarrow>
      case enqueue_and_record env now stamp job observed db of
        (Inr rid, db1) \<Rightarrow> (res\<lparr>tk_enqueued := Suc (tk_enqueued res)\<rparr>, db1)
      | (Inl (Task_Unresolvable msg), db1) \<Rightarrow>
          (res\<lparr>tk_errors := Suc (tk_errors res)\<rparr>,
           update_job (sj_id job) (\<lambda>j. j\<lparr>sj_enabled := False, sj_last_status := ''invalid''\<rparr>)
             (record_run stamp job Run_Failed observed '''' (take 255 (''task_path unresolvable: '' @ msg)) db1))
      | (Inl (Fire_Raised msg), db1) \<Rightarrow>
          (res\<lparr>tk_errors := Suc (tk_errors res)\<rparr>,
           update_job (sj_id job) (\<lambda>j. j\<lparr>sj_last_status := run_status_str Run_Failed\<rparr>)
             (record_run stamp job Run_Failed observed '''' (take 255 (''enqueue failed: '' @ msg)) db1)))"

text \<open>
  \<open>_process_job_body\<close>: \<open>Inl\<close> is an exception that leaves it, with the state at that moment.
\<close>

definition process_job ::
  "sched_env \<Rightarrow> instant \<Rightarrow> instant \<Rightarrow> scheduled_job \<Rightarrow> tick_result \<times> sched_db \<Rightarrow>
     (tick_result \<times> sched_db) + (tick_result \<times> sched_db)" where
  "process_job env now stamp job rs =
     (case rs of (res, db) \<Rightarrow>
      case sj_next_run_at job of
        None \<Rightarrow> Inr (res, db)
      | Some observed \<Rightarrow>
          (case compute_next_run env job now of
             Inl Config_Error \<Rightarrow>
               Inr (res\<lparr>tk_errors := Suc (tk_errors res)\<rparr>,
                    update_job (sj_id job) (\<lambda>j. j\<lparr>sj_enabled := False, sj_last_status := ''invalid''\<rparr>) db)
           | Inl e \<Rightarrow> Inl (res, db)
           | Inr new_next \<Rightarrow>
               (case claim_job observed (sj_id job) new_next db of
                  None \<Rightarrow> Inr (res, db)
                | Some db1 \<Rightarrow>
                    let res1 = (if new_next = None then res\<lparr>tk_retired := Suc (tk_retired res)\<rparr> else res);
                        skip = (\<lambda>msg. (res1\<lparr>tk_skipped := Suc (tk_skipped res1)\<rparr>,
                                       record_run stamp job Run_Skipped observed '''' msg db1))
                    in if \<not> sj_allow_overlap job \<and> previous_run_active env now job db1
                       then Inr (skip ''previous run still active'')
                       else if sj_catch_up job = ''skip'' then
                         (case missed_periods (sv_calendar env) (sj_schedule job) observed now of
                            Inl e \<Rightarrow> Inl (res1, db1)
                          | Inr missed \<Rightarrow>
                              if 1 \<le> missed then Inr (skip (''missed '' @ int_str missed @ '' run(s)''))
                              else Inr (fire_job env now stamp job observed (res1, db1)))
                       else Inr (fire_job env now stamp job observed (res1, db1)))))"

definition due_jobs :: "instant \<Rightarrow> sched_db \<Rightarrow> scheduled_job list" where
  "due_jobs now db = sort_key sj_name (filter (\<lambda>j. sj_enabled j \<and> col_lte (sj_next_run_at j) now) (sd_jobs db))"

fun process_each :: "sched_env \<Rightarrow> instant \<Rightarrow> instant \<Rightarrow> scheduled_job list \<Rightarrow> tick_result \<times> sched_db \<Rightarrow> tick_result \<times> sched_db" where
  "process_each env now stamp [] rs = rs"
| "process_each env now stamp (j # js) rs =
     (case process_job env now stamp j rs of
        Inr rs1 \<Rightarrow> process_each env now stamp js rs1
      | Inl (res1, db1) \<Rightarrow> process_each env now stamp js (res1\<lparr>tk_errors := Suc (tk_errors res1)\<rparr>, db1))"

section \<open>Code-declared jobs (registry.py)\<close>

record schedule_spec =
  sp_task_path :: string
  sp_name :: string
  sp_cadence :: schedule   \<comment> \<open>its \<open>sc_anchor_at\<close> is not used\<close>
  sp_anchor :: string
  sp_queue_name :: string
  sp_kwargs :: "(string \<times> string) list"
  sp_catch_up :: string
  sp_allow_overlap :: bool

text \<open>The decorator: exactly one of \<open>every\<close>, \<open>cron\<close>, \<open>at\<close>; a name defaults to the function's.\<close>

definition declare_scheduled ::
  "string \<Rightarrow> string \<Rightarrow> instant option \<Rightarrow> string \<Rightarrow> string \<Rightarrow> string \<Rightarrow> schedule_spec \<Rightarrow> string \<Rightarrow>
     schedule_spec list \<Rightarrow> schedule_spec list option" where
  "declare_scheduled every cron run_at anchor name tz rest path registry =
     (if length (filter id [every \<noteq> '''', cron \<noteq> '''', run_at \<noteq> None]) \<noteq> 1 then None
      else
        let empty = \<lparr>sc_type = ''once'', sc_interval_spec = '''', sc_anchor_at = None, sc_cron_expression = '''',
                     sc_run_at = None, sc_timezone = tz\<rparr>;
            cadence = (if every \<noteq> '''' then empty\<lparr>sc_type := ''interval'', sc_interval_spec := every\<rparr>
                       else if cron \<noteq> '''' then empty\<lparr>sc_type := ''cron'', sc_cron_expression := cron\<rparr>
                       else empty\<lparr>sc_run_at := run_at\<rparr>);
            default_name = (case rsplit_dot path of Some (_, attr) \<Rightarrow> attr | None \<Rightarrow> path)
        in Some (registry @ [rest\<lparr>sp_task_path := path, sp_name := (if name \<noteq> '''' then name else default_name),
                  sp_cadence := cadence, sp_anchor := (if every \<noteq> '''' then anchor else '''')\<rparr>]))"

text \<open>The key of the next row.\<close>

definition next_pk :: "sched_db \<Rightarrow> nat" where
  "next_pk db = Suc (fold max (map sj_id (sd_jobs db)) 0)"

text \<open>The row \<open>get_or_create\<close> makes for a spec that has none.\<close>

definition new_code_job :: "nat \<Rightarrow> schedule_spec \<Rightarrow> scheduled_job" where
  "new_code_job pk sp = \<lparr>sj_id = pk, sj_name = sp_name sp, sj_task_path = sp_task_path sp, sj_kwargs = sp_kwargs sp,
     sj_queue_name = sp_queue_name sp, sj_schedule = (sp_cadence sp)\<lparr>sc_anchor_at := None\<rparr>, sj_enabled = True,
     sj_allow_overlap = sp_allow_overlap sp, sj_catch_up = sp_catch_up sp, sj_max_retries = 0, sj_source = Code_Source,
     sj_schedule_overridden = False, sj_auto_retired = False, sj_next_run_at = None, sj_last_enqueued_at = None,
     sj_last_status = '''', sj_total_runs = 0\<rparr>"

text \<open>The update of an existing row, before it is saved; the flags say whether the cadence, and
  whether anything, changed.\<close>

definition refresh_job :: "schedule_spec \<Rightarrow> instant option \<Rightarrow> scheduled_job \<Rightarrow> scheduled_job \<times> bool \<times> bool" where
  "refresh_job sp anchor_at job =
     (let s = sj_schedule job;
          s1 = (if sj_schedule_overridden job then s
                else (sp_cadence sp)\<lparr>sc_anchor_at := (case anchor_at of Some a \<Rightarrow> Some a | None \<Rightarrow> sc_anchor_at s)\<rparr>);
          job1 = job\<lparr>sj_task_path := sp_task_path sp, sj_kwargs := sp_kwargs sp, sj_schedule := s1\<rparr>;
          job2 = (if sj_auto_retired job1 then job1\<lparr>sj_enabled := True, sj_auto_retired := False\<rparr> else job1)
      in (job2, s1 \<noteq> s, job2 \<noteq> job))"

text \<open>
  The write of a partial \<open>save\<close>: the zone that \<open>save\<close> made canonical is written only when
  the zone is among the changed fields.
\<close>

definition write_job :: "scheduled_job \<Rightarrow> scheduled_job \<Rightarrow> scheduled_job \<Rightarrow> scheduled_job" where
  "write_job stored changed_job saved =
     (if sc_timezone (sj_schedule changed_job) = sc_timezone (sj_schedule stored)
      then saved\<lparr>sj_schedule := (sj_schedule saved)\<lparr>sc_timezone := sc_timezone (sj_schedule stored)\<rparr>\<rparr>
      else saved)"

definition sync_created :: "sched_env \<Rightarrow> instant \<Rightarrow> schedule_spec \<Rightarrow> sched_db \<Rightarrow> schedule_error option \<times> sched_db" where
  "sync_created env now sp db =
     (case save_job env now None (new_code_job (next_pk db) sp) of
        Inl e \<Rightarrow> (Some e, db)
      | Inr job \<Rightarrow>
          let db1 = db\<lparr>sd_jobs := sd_jobs db @ [job]\<rparr> in
          case schedule_tz (sv_calendar env) (sc_timezone (sj_schedule job)) of
            Inl e \<Rightarrow> (Some e, db1)
          | Inr tz \<Rightarrow>
              let s = sj_schedule job;
                  job1 = (case sv_anchor env (sp_anchor sp) tz now of
                            Some a \<Rightarrow> job\<lparr>sj_schedule := s\<lparr>sc_anchor_at := Some a\<rparr>\<rparr> | None \<Rightarrow> job)
              in case bind_err (reseed env now job1) (\<lambda>j. save_job env now (Some job) j) of
                   Inl e \<Rightarrow> (Some e, db1)
                 | Inr saved \<Rightarrow> (None, update_job (sj_id job) (\<lambda>_. write_job job job1 saved) db1))"

definition sync_existing :: "sched_env \<Rightarrow> instant \<Rightarrow> schedule_spec \<Rightarrow> scheduled_job \<Rightarrow> sched_db \<Rightarrow> schedule_error option \<times> sched_db" where
  "sync_existing env now sp job db =
     (case schedule_tz (sv_calendar env) (sc_timezone (sj_schedule job)) of
        Inl e \<Rightarrow> (Some e, db)
      | Inr tz \<Rightarrow>
          (case refresh_job sp (sv_anchor env (sp_anchor sp) tz now) job of
             (job1, cadence_changed, any_changed) \<Rightarrow>
               let seed = sj_enabled job1 \<and> (cadence_changed \<or> sj_next_run_at job1 = None) in
               if \<not> seed \<and> \<not> any_changed then (None, db)
               else case bind_err (if seed then reseed env now job1 else Inr job1) (\<lambda>j. save_job env now (Some job) j) of
                      Inl e \<Rightarrow> (Some e, db)
                    | Inr saved \<Rightarrow> (None, update_job (sj_id job) (\<lambda>_. write_job job job1 saved) db)))"

definition sync_spec :: "sched_env \<Rightarrow> instant \<Rightarrow> schedule_spec \<Rightarrow> sched_db \<Rightarrow> schedule_error option \<times> sched_db" where
  "sync_spec env now sp db =
     (case tbl_find sj_name (sp_name sp) (sd_jobs db) of
        None \<Rightarrow> sync_created env now sp db
      | Some job \<Rightarrow> sync_existing env now sp job db)"

definition retirement_is_plausible :: "nat \<Rightarrow> nat \<Rightarrow> bool" where
  "retirement_is_plausible orphans live_names = (orphans * 2 \<le> live_names + orphans)"

definition orphan_job :: "string list \<Rightarrow> scheduled_job \<Rightarrow> bool" where
  "orphan_job live j \<longleftrightarrow> sj_source j = Code_Source \<and> sj_enabled j \<and> sj_name j \<notin> set live"

definition retire_job :: "scheduled_job \<Rightarrow> scheduled_job" where
  "retire_job j = j\<lparr>sj_enabled := False, sj_auto_retired := True, sj_next_run_at := None\<rparr>"

definition retire_orphans :: "schedule_spec list \<Rightarrow> sched_db \<Rightarrow> sched_db" where
  "retire_orphans specs db =
     (let live = remdups (map sp_name specs);
          orphans = tbl_count (orphan_job live) (sd_jobs db)
      in if live = [] \<or> (0 < orphans \<and> \<not> retirement_is_plausible orphans (length live)) then db
         else db\<lparr>sd_jobs := tbl_update (orphan_job live) retire_job (sd_jobs db)\<rparr>)"

text \<open>An exception leaves the loop; the specs before it stay synced and nothing is retired.\<close>

fun sync_specs :: "sched_env \<Rightarrow> instant \<Rightarrow> schedule_spec list \<Rightarrow> sched_db \<Rightarrow> schedule_error option \<times> sched_db" where
  "sync_specs env now [] db = (None, db)"
| "sync_specs env now (sp # sps) db =
     (case sync_spec env now sp db of
        (None, db1) \<Rightarrow> sync_specs env now sps db1
      | (Some e, db1) \<Rightarrow> (Some e, db1))"

definition sync_code_jobs :: "sched_env \<Rightarrow> instant \<Rightarrow> schedule_spec list \<Rightarrow> sched_db \<Rightarrow> schedule_error option \<times> sched_db" where
  "sync_code_jobs env now specs db =
     (case sync_specs env now specs db of
        (Some e, db1) \<Rightarrow> (Some e, db1)
      | (None, db1) \<Rightarrow> (None, retire_orphans specs db1))"

section \<open>The whole tick, and reconciliation\<close>

definition ensure_code_jobs_synced :: "sched_env \<Rightarrow> instant \<Rightarrow> schedule_spec list \<Rightarrow> sched_db \<Rightarrow> sched_db" where
  "ensure_code_jobs_synced env now specs db =
     (if sd_code_jobs_synced db then db
      else snd (sync_code_jobs env now specs (db\<lparr>sd_code_jobs_synced := True\<rparr>)))"

definition run_due_jobs ::
  "sched_env \<Rightarrow> schedule_spec list \<Rightarrow> instant \<Rightarrow> instant \<Rightarrow> sched_db \<Rightarrow> tick_result \<times> sched_db" where
  "run_due_jobs env specs now stamp db =
     (let db1 = ensure_code_jobs_synced env stamp specs db
      in process_each env now stamp (due_jobs now db1) (tick_start, db1))"

definition notify_failure :: "sched_env \<Rightarrow> string \<Rightarrow> job_run \<Rightarrow> task_db \<Rightarrow> task_db" where
  "notify_failure env job_name run tasks =
     (if sv_failure_emails env = [] then tasks
      else case sv_email_task env of (path, queue, prio, backend) \<Rightarrow>
        (case te_enqueue (sv_tasks env) \<lparr>eq_task_path = path, eq_queue_name = queue, eq_priority = prio, eq_backend = backend,
                eq_run_after = None, eq_args = [],
                eq_kwargs = [(''recipient'', join_with '','' (sv_failure_emails env)),
                             (''subject'', ''[scheduler] job failed: '' @ job_name),
                             (''message'', sv_failure_text env run)]\<rparr> tasks of
           None \<Rightarrow> tasks
         | Some new \<Rightarrow> tasks\<lparr>db_results := db_results tasks @ [new]\<rparr>))"

text \<open>The message of a finished run.\<close>

definition outcome_message :: "sched_env \<Rightarrow> bool \<Rightarrow> engine_result \<Rightarrow> string" where
  "outcome_message env success er =
     (let message =
        (if success then
           (let m = summarize_result env (er_return_value er)
            in if 1 < er_attempt er then m @ '' (attempt '' @ int_str (er_attempt er) @ '')'' else m)
         else
           (let m = summarize_error (er_traceback er)
            in if 1 < er_attempt er then ''after '' @ int_str (er_attempt er) @ '' attempts: '' @ m else m))
      in with_double_execution_note message (er_note er))"

text \<open>Runs carry no key in the model: a run is the row at a position.\<close>

definition reconcile_run :: "sched_env \<Rightarrow> instant \<Rightarrow> nat \<Rightarrow> nat \<times> sched_db \<Rightarrow> nat \<times> sched_db" where
  "reconcile_run env now i st =
     (case st of (updated, db) \<Rightarrow>
      let run = sd_runs db ! i;
          er = engine_result env now (jr_task_result_id run) (sd_tasks db)
      in case (if er_status er = Some ''SUCCESSFUL'' then Some Run_Success
               else if er_status er = Some ''FAILED'' then Some Run_Failed else None) of
           None \<Rightarrow> (updated, db)
         | Some new \<Rightarrow>
             let run1 = run\<lparr>jr_status := new, jr_message := outcome_message env (new = Run_Success) er\<rparr>;
                 db1 = db\<lparr>sd_runs := (sd_runs db)[i := run1]\<rparr>;
                 is_latest = (\<forall>r \<in> set (sd_runs db1). jr_job r = jr_job run \<longrightarrow> jr_created_at r \<le> jr_created_at run);
                 db2 = (if is_latest then update_job (jr_job run) (\<lambda>j. j\<lparr>sj_last_status := run_status_str new\<rparr>) db1 else db1);
                 name = (case tbl_find sj_id (jr_job run) (sd_jobs db2) of Some j \<Rightarrow> sj_name j | None \<Rightarrow> '''')
             in (Suc updated,
                 if new = Run_Failed then db2\<lparr>sd_tasks := notify_failure env name run1 (sd_tasks db2)\<rparr> else db2))"

definition queued_runs :: "nat \<Rightarrow> sched_db \<Rightarrow> nat list" where
  "queued_runs limit db =
     take limit (sort_key (\<lambda>i. - jr_created_at (sd_runs db ! i))
       (filter (\<lambda>i. jr_status (sd_runs db ! i) = Run_Queued \<and> jr_task_result_id (sd_runs db ! i) \<noteq> '''')
          [0..<length (sd_runs db)]))"

definition reconcile_run_outcomes :: "sched_env \<Rightarrow> instant \<Rightarrow> nat \<Rightarrow> sched_db \<Rightarrow> nat \<times> sched_db" where
  "reconcile_run_outcomes env now limit db = fold (reconcile_run env now) (queued_runs limit db) (0, db)"

end
