(* ===== verification/Scheduler_Props.thy ===== *)
theory Scheduler_Props
  imports Scheduler
begin

text \<open>
  What the scheduler guarantees: a slot fires at most once under concurrent ticks, a tick leaves
  nothing due, a job whose previous run is unfinished is skipped, a run's retry budget is
  pinned before a worker can see it, the note of a double execution survives truncation, and a
  sync keeps what an operator decided.
\<close>

section \<open>One fire per slot\<close>

lemma claim_job_rows:
  assumes "claim_job observed pk w db = Some db'" "j \<in> set (sd_jobs db')"
  shows "(j \<in> set (sd_jobs db) \<and> \<not> (sj_id j = pk \<and> sj_next_run_at j = Some observed))
    \<or> (sj_id j = pk \<and> sj_next_run_at j = w)"
proof -
  have "sd_jobs db' = tbl_update (\<lambda>j. sj_id j = pk \<and> sj_next_run_at j = Some observed)
      (\<lambda>j. j\<lparr>sj_next_run_at := w\<rparr>) (sd_jobs db)"
    using assms(1) by (auto simp: claim_job_def Let_def split: if_splits)
  with assms(2) show ?thesis by (auto simp: tbl_update_def)
qed

interpretation slot: conditional_claim "claim_job observed"
    "\<lambda>db pk. \<forall>j \<in> set (sd_jobs db). sj_id j = pk \<longrightarrow> sj_next_run_at j \<noteq> Some observed"
    "\<lambda>_ new_next. new_next \<noteq> Some observed" for observed
proof (unfold_locales, goal_cases)
  case (1 k w s s')
  then show ?case using claim_job_rows by fastforce
next
  case (2 s k w)
  then show ?case by (simp add: claim_job_def tbl_count_0)
next
  case (3 s k k' w s')
  then show ?case using claim_job_rows by fastforce
qed

text \<open>The bound on anchors under which the walk over a calendar interval is long enough.\<close>

definition anchor_in_reach :: "instant \<Rightarrow> schedule \<Rightarrow> bool" where
  "anchor_in_reach now s \<longleftrightarrow> sc_type s \<noteq> ''interval'' \<or>
     now < (case sc_anchor_at s of None \<Rightarrow> now | Some a \<Rightarrow> a) + int (MAX_STEPS - 1) * days_span 27"

lemma compute_next_run_later:
  assumes "calendar_ok (sv_calendar env)" "anchor_in_reach now (sj_schedule job)"
    "compute_next_run env job now = Inr (Some t)"
  shows "now < t"
  using assms by (auto simp: compute_next_run_def anchor_in_reach_def intro: next_run_passes)

text \<open>C6: When concurrent ticks read the same cursor \<open>observed\<close> of a job and each tries to claim it
  with the next run it computed, at most one of them goes on to fire the job.\<close>

theorem slot_fires_once:
  assumes "calendar_ok (sv_calendar env)"
    and "\<forall>(pk', new_next) \<in> set attempts. \<exists>job now. observed \<le> now \<and> anchor_in_reach now (sj_schedule job)
           \<and> compute_next_run env job now = Inr new_next"
  shows "wins_for pk attempts (snd (race (claim_job observed) attempts db)) \<le> 1"
proof (rule slot.at_most_one_winner)
  have "new_next \<noteq> Some observed" if "(pk', new_next) \<in> set attempts" for pk' new_next
  proof
    assume "new_next = Some observed"
    with assms(2) that obtain job now where "observed \<le> now" "anchor_in_reach now (sj_schedule job)"
      "compute_next_run env job now = Inr (Some observed)" by fastforce
    with compute_next_run_later [OF assms(1)] show False by fastforce
  qed
  then show "\<forall>(k', w) \<in> set attempts. w \<noteq> Some observed" by auto
qed

section \<open>A tick leaves nothing due\<close>

definition due :: "instant \<Rightarrow> scheduled_job \<Rightarrow> bool" where
  "due now j \<longleftrightarrow> sj_enabled j \<and> col_lte (sj_next_run_at j) now"

lemma set_due_jobs: "set (due_jobs now db) = {j \<in> set (sd_jobs db). due now j}"
  by (auto simp: due_jobs_def due_def)

text \<open>What a step may do to the jobs, as far as being due goes: a row that is due afterwards was
  so before with the same cursor, and it is not the row of the processed job.\<close>

definition settles :: "instant \<Rightarrow> scheduled_job \<Rightarrow> scheduled_job list \<Rightarrow> scheduled_job list \<Rightarrow> bool" where
  "settles now k js js' \<longleftrightarrow> (\<forall>j' \<in> set js'. due now j' \<longrightarrow>
     (\<exists>j \<in> set js. due now j \<and> sj_id j = sj_id j' \<and> sj_next_run_at j = sj_next_run_at j'
        \<and> \<not> (sj_id j = sj_id k \<and> sj_next_run_at j = sj_next_run_at k)))"

lemma settles_update:
  assumes "settles now k js js'" "\<And>j. due now (f j) \<Longrightarrow> due now j" "\<And>j. sj_id (f j) = sj_id j"
    "\<And>j. sj_next_run_at (f j) = sj_next_run_at j"
  shows "settles now k js (tbl_update P f js')"
  using assms unfolding settles_def by (fastforce simp: tbl_simps)

lemma settles_claim:
  assumes "claim_job obs (sj_id k) new_next db = Some db'" "sj_next_run_at k = Some obs"
    "\<And>t. new_next = Some t \<Longrightarrow> now < t"
  shows "settles now k (sd_jobs db) (sd_jobs db')"
proof -
  have not_due: "\<not> due now (j\<lparr>sj_next_run_at := new_next\<rparr>)" for j
    using assms(3) by (cases new_next) (auto simp: due_def col_lte_def)
  have "sd_jobs db' = tbl_update (\<lambda>j. sj_id j = sj_id k \<and> sj_next_run_at j = Some obs)
      (\<lambda>j. j\<lparr>sj_next_run_at := new_next\<rparr>) (sd_jobs db)"
    using assms(1) by (auto simp: claim_job_def Let_def split: if_splits)
  with assms(2) not_due show ?thesis by (auto simp: settles_def tbl_simps)
qed

lemma sd_jobs_record_run [simp]: "sd_jobs (record_run stamp job st t rid msg db) = sd_jobs db"
  by (simp add: record_run_def)

lemma sd_jobs_update_job: "sd_jobs (update_job pk f db) = tbl_update (\<lambda>j. sj_id j = pk) f (sd_jobs db)"
  by (simp add: update_job_def)

lemma settles_fire:
  assumes "settles now k js (sd_jobs db)"
  shows "settles now k js (sd_jobs (snd (fire_job env now' stamp k obs (res, db))))"
  using assms
  by (auto simp: fire_job_def enqueue_and_record_def Let_def sd_jobs_update_job due_def
      split: sum.split prod.split fire_error.split intro!: settles_update)

text \<open>Inversion of one job's processing, by the state it leaves.\<close>

fun left_db :: "(tick_result \<times> sched_db) + (tick_result \<times> sched_db) \<Rightarrow> sched_db" where
  "left_db (Inl rs) = snd rs"
| "left_db (Inr rs) = snd rs"

lemma process_job_cases:
  obtains (idle) "left_db (process_job env now stamp k (res, db)) = db"
      "sj_next_run_at k = None \<or> (\<exists>e. compute_next_run env k now = Inl e \<and> e \<noteq> Config_Error)
         \<or> (\<exists>obs new_next. sj_next_run_at k = Some obs \<and> claim_job obs (sj_id k) new_next db = None)"
  | (invalid) "left_db (process_job env now stamp k (res, db)) =
      update_job (sj_id k) (\<lambda>j. j\<lparr>sj_enabled := False, sj_last_status := ''invalid''\<rparr>) db"
      "compute_next_run env k now = Inl Config_Error"
  | (claimed) obs new_next db1 res1 where "sj_next_run_at k = Some obs" "compute_next_run env k now = Inr new_next"
      "claim_job obs (sj_id k) new_next db = Some db1"
      "left_db (process_job env now stamp k (res, db)) = db1
       \<or> (\<exists>msg. left_db (process_job env now stamp k (res, db)) = record_run stamp k Run_Skipped obs '''' msg db1)
       \<or> left_db (process_job env now stamp k (res, db)) = snd (fire_job env now stamp k obs (res1, db1))"
proof (cases "sj_next_run_at k")
  case None
  then show thesis by (intro idle) (simp_all add: process_job_def)
next
  case obs: (Some obs)
  show thesis
  proof (cases "compute_next_run env k now")
    case (Inl e)
    show thesis
    proof (cases "e = Config_Error")
      case True
      with obs Inl show thesis by (intro invalid) (simp_all add: process_job_def)
    next
      case False
      with obs Inl show thesis by (intro idle) (cases e; simp add: process_job_def)+
    qed
  next
    case (Inr new_next)
    show thesis
    proof (cases "claim_job obs (sj_id k) new_next db")
      case None
      with obs Inr show thesis by (intro idle) (auto simp: process_job_def)
    next
      case (Some db1)
      with obs Inr show thesis
        by (intro claimed [OF obs Inr Some, of "if new_next = None then res\<lparr>tk_retired := Suc (tk_retired res)\<rparr> else res"])
          (simp add: process_job_def Let_def split: sum.split; blast)
    qed
  qed
qed

lemma settles_process:
  assumes ok: "\<And>e. compute_next_run env k now = Inl e \<Longrightarrow> e = Config_Error"
    and later: "\<And>t. compute_next_run env k now = Inr (Some t) \<Longrightarrow> now < t"
    and cur: "sj_next_run_at k = Some obs"
  shows "settles now k (sd_jobs db) (sd_jobs (left_db (process_job env now stamp k (res, db))))"
proof (cases rule: process_job_cases [of env now stamp k res db])
  case idle
  with ok cur obtain new_next where "claim_job obs (sj_id k) new_next db = None" by auto
  then have "\<forall>j \<in> set (sd_jobs db). \<not> (sj_id j = sj_id k \<and> sj_next_run_at j = Some obs)"
    by (auto simp: claim_job_def Let_def tbl_count_0 split: if_splits)
  with idle cur show ?thesis by (auto simp: settles_def)
next
  case invalid
  with cur show ?thesis by (auto simp: sd_jobs_update_job settles_def tbl_simps due_def)
next
  case (claimed obs' new_next db1 res1)
  with later cur have "settles now k (sd_jobs db) (sd_jobs db1)" by (auto intro: settles_claim)
  with claimed(4) show ?thesis by (auto simp: settles_fire)
qed

text \<open>Rows that are due are among the jobs still to be processed.\<close>

definition covered :: "instant \<Rightarrow> scheduled_job list \<Rightarrow> sched_db \<Rightarrow> bool" where
  "covered now ks db \<longleftrightarrow> (\<forall>j \<in> set (sd_jobs db). due now j \<longrightarrow>
     (\<exists>k \<in> set ks. sj_id k = sj_id j \<and> sj_next_run_at k = sj_next_run_at j))"

lemma covered_settles:
  "covered now (k # ks) db \<Longrightarrow> settles now k (sd_jobs db) (sd_jobs db') \<Longrightarrow> covered now ks db'"
  unfolding covered_def settles_def by (metis set_ConsD)

lemma process_each_settles:
  assumes "\<And>k e. k \<in> set ks \<Longrightarrow> compute_next_run env k now = Inl e \<Longrightarrow> e = Config_Error"
    and "\<And>k t. k \<in> set ks \<Longrightarrow> compute_next_run env k now = Inr (Some t) \<Longrightarrow> now < t"
    and "\<And>k. k \<in> set ks \<Longrightarrow> sj_next_run_at k \<noteq> None"
    and "covered now ks db"
  shows "covered now [] (snd (process_each env now stamp ks (res, db)))"
  using assms
proof (induction ks arbitrary: res db)
  case Nil
  then show ?case by simp
next
  case (Cons k ks)
  from Cons.prems(3) obtain obs where "sj_next_run_at k = Some obs" by fastforce
  with Cons.prems(1,2) [of k]
  have "settles now k (sd_jobs db) (sd_jobs (left_db (process_job env now stamp k (res, db))))"
    by (intro settles_process) auto
  with Cons.prems(4) have "covered now ks (left_db (process_job env now stamp k (res, db)))"
    by (rule covered_settles)
  moreover have "covered now [] (snd (process_each env now stamp ks (r, d)))" if "covered now ks d" for r d
    by (rule Cons.IH) (use Cons.prems(1-3) that in auto)
  ultimately show ?case by (auto split: sum.split prod.split)
qed

lemma process_job_synced:
  "sd_code_jobs_synced (left_db (process_job env now stamp k (res, db))) = sd_code_jobs_synced db"
proof -
  have fire: "sd_code_jobs_synced (snd (fire_job env now stamp k obs (r, d))) = sd_code_jobs_synced d" for obs r d
    by (simp add: fire_job_def enqueue_and_record_def Let_def update_job_def record_run_def
        split: sum.split prod.split fire_error.split)
  have claim: "claim_job obs pk w d = Some d' \<Longrightarrow> sd_code_jobs_synced d' = sd_code_jobs_synced d" for obs pk w d d'
    by (auto simp: claim_job_def Let_def split: if_splits)
  show ?thesis
    by (cases rule: process_job_cases [of env now stamp k res db])
      (auto simp: record_run_def update_job_def fire claim)
qed

lemma process_each_synced: "sd_code_jobs_synced (snd (process_each env now stamp ks (res, db))) = sd_code_jobs_synced db"
proof (induction ks arbitrary: res db)
  case (Cons k ks)
  with process_job_synced [of env now stamp k res db] show ?case by (auto split: sum.split prod.split)
qed simp

text \<open>C7: A tick settles what was due: when the cadence of each due job computes (or is invalid, which
  disables the job), no job is due at the tick's instant any more, so a second tick at that
  instant changes nothing and reports nothing.\<close>

theorem tick_settles:
  fixes specs stamp
  assumes "calendar_ok (sv_calendar env)" "sd_code_jobs_synced db"
    and "\<forall>j \<in> set (due_jobs now db). anchor_in_reach now (sj_schedule j)
           \<and> compute_next_run env j now \<notin> {Inl Overflow_Error, Inl Calendar_Error}"
  defines "db' \<equiv> snd (run_due_jobs env specs now stamp db)"
  shows "due_jobs now db' = [] \<and> run_due_jobs env specs now stamp' db' = (tick_start, db')"
proof -
  have start: "covered now (due_jobs now db) db" by (auto simp: covered_def set_due_jobs)
  have "covered now [] db'"
    unfolding db'_def run_due_jobs_def Let_def using assms(2)
  proof (simp add: ensure_code_jobs_synced_def, intro process_each_settles [OF _ _ _ start])
    fix k e assume "k \<in> set (due_jobs now db)" "compute_next_run env k now = Inl e"
    with assms(3) show "e = Config_Error" by (cases e) auto
  next
    fix k t assume "k \<in> set (due_jobs now db)" "compute_next_run env k now = Inr (Some t)"
    with assms(1,3) show "now < t" by (auto intro: compute_next_run_later)
  next
    fix k assume "k \<in> set (due_jobs now db)"
    then show "sj_next_run_at k \<noteq> None" by (auto simp: set_due_jobs due_def col_lte_def split: option.splits)
  qed
  then have "set (due_jobs now db') = {}" by (auto simp: covered_def set_due_jobs)
  moreover have "sd_code_jobs_synced db'"
    using assms(2) by (simp add: db'_def run_due_jobs_def ensure_code_jobs_synced_def Let_def process_each_synced)
  ultimately show ?thesis by (simp add: run_due_jobs_def ensure_code_jobs_synced_def)
qed

section \<open>The tick and the task layer\<close>

lemma sd_tasks_simps [simp]:
  "sd_tasks (record_run stamp job st t rid msg db) = sd_tasks db"
  "sd_tasks (update_job pk f db) = sd_tasks db"
  by (simp_all add: record_run_def update_job_def)

lemma claim_job_tasks: "claim_job obs pk w db = Some db' \<Longrightarrow> sd_tasks db' = sd_tasks db \<and> sd_runs db' = sd_runs db"
  by (auto simp: claim_job_def Let_def split: if_splits)

lemma enqueue_job_Inr:
  "enqueue_job env job tasks = Inr new \<Longrightarrow> \<exists>req. te_enqueue (sv_tasks env) req tasks = Some new"
  by (auto simp: enqueue_job_def split: resolution.splits option.splits)

text \<open>Every change the scheduler makes to the task tables is a step of the task machine.\<close>

lemma fire_reachable:
  assumes "task_reachable (sv_tasks env) cfg (sd_tasks db)"
  shows "task_reachable (sv_tasks env) cfg (sd_tasks (snd (fire_job env now stamp k obs (res, db))))"
proof (cases "enqueue_job env k (sd_tasks db)")
  case (Inl e)
  with assms show ?thesis
    by (cases e) (simp_all add: fire_job_def enqueue_and_record_def)
next
  case (Inr new)
  then obtain req where req: "te_enqueue (sv_tasks env) req (sd_tasks db) = Some new"
    using enqueue_job_Inr by blast
  let ?plain = "(sd_tasks db)\<lparr>db_results := db_results (sd_tasks db) @ [new]\<rparr>"
  have "task_step (sv_tasks env) cfg (sd_tasks db) ?plain"
    "task_step (sv_tasks env) cfg (sd_tasks db) (pin_max_attempts stamp (tr_id new) (int (sj_max_retries k) + 1) ?plain)"
    using req by (auto intro: task_step.enqueue task_step.enqueue_pinned)
  with assms Inr show ?thesis
    by (auto simp: fire_job_def enqueue_and_record_def Let_def intro: task_reachable.step)
qed

lemma process_reachable:
  assumes "task_reachable (sv_tasks env) cfg (sd_tasks db)"
  shows "task_reachable (sv_tasks env) cfg (sd_tasks (left_db (process_job env now stamp k (res, db))))"
proof (cases rule: process_job_cases [of env now stamp k res db])
  case (claimed obs new_next db1 res1)
  then have "sd_tasks db1 = sd_tasks db" by (simp add: claim_job_tasks)
  with assms claimed(4) fire_reachable [of env cfg db1 now stamp k obs res1] show ?thesis by auto
qed (use assms in simp_all)

lemma process_each_reachable:
  "task_reachable (sv_tasks env) cfg (sd_tasks db) \<Longrightarrow>
   task_reachable (sv_tasks env) cfg (sd_tasks (snd (process_each env now stamp ks (res, db))))"
proof (induction ks arbitrary: res db)
  case (Cons k ks)
  with process_reachable [of env cfg db now stamp k res] show ?case by (auto split: sum.split prod.split)
qed simp

lemma sync_keeps_tasks: "sd_tasks (snd (sync_code_jobs env now specs db)) = sd_tasks db"
proof -
  have spec: "sd_tasks (snd (sync_spec env now sp d)) = sd_tasks d" for sp d
    by (simp add: sync_spec_def sync_created_def sync_existing_def Let_def split: option.split sum.split prod.split)
  have specs: "sd_tasks (snd (sync_specs env now specs d)) = sd_tasks d" for d
  proof (induction specs arbitrary: d)
    case (Cons sp sps)
    obtain e d' where step: "sync_spec env now sp d = (e, d')" by (cases "sync_spec env now sp d")
    with spec [of sp d] Cons show ?case by (cases e) simp_all
  qed simp
  obtain e d' where all: "sync_specs env now specs db = (e, d')" by (cases "sync_specs env now specs db")
  with specs [of db] show ?thesis
    by (cases e) (simp_all add: sync_code_jobs_def retire_orphans_def Let_def)
qed

lemma run_due_reachable:
  "task_reachable (sv_tasks env) cfg (sd_tasks db) \<Longrightarrow>
   task_reachable (sv_tasks env) cfg (sd_tasks (snd (run_due_jobs env specs now stamp db)))"
  by (simp add: run_due_jobs_def Let_def ensure_code_jobs_synced_def process_each_reachable sync_keeps_tasks)

lemma reconcile_run_reachable:
  "task_reachable (sv_tasks env) cfg (sd_tasks db) \<Longrightarrow>
   task_reachable (sv_tasks env) cfg (sd_tasks (snd (reconcile_run env now i (n, db))))"
  by (auto simp: reconcile_run_def notify_failure_def Let_def split: option.split prod.split
      intro!: task_reachable.step [OF _ task_step.enqueue])

lemma reconcile_reachable:
  "task_reachable (sv_tasks env) cfg (sd_tasks db) \<Longrightarrow>
   task_reachable (sv_tasks env) cfg (sd_tasks (snd (reconcile_run_outcomes env now limit db)))"
proof -
  have step: "task_reachable (sv_tasks env) cfg (sd_tasks (snd (reconcile_run env now i nd)))"
    if "task_reachable (sv_tasks env) cfg (sd_tasks (snd nd))" for i nd
    using that reconcile_run_reachable [of env cfg "snd nd" now i "fst nd"] by simp
  have "task_reachable (sv_tasks env) cfg (sd_tasks (snd (fold (reconcile_run env now) is nd)))"
    if "task_reachable (sv_tasks env) cfg (sd_tasks (snd nd))" for "is" nd
    using that step by (induction "is" arbitrary: nd) auto
  then show "task_reachable (sv_tasks env) cfg (sd_tasks db) \<Longrightarrow> ?thesis"
    by (simp add: reconcile_run_outcomes_def)
qed

section \<open>Overlap\<close>

lemma hd_sort_key_least:
  fixes f :: "'a \<Rightarrow> int"
  assumes "x \<in> set xs" "\<And>y. y \<in> set xs \<Longrightarrow> y \<noteq> x \<Longrightarrow> f x < f y"
  obtains ys where "sort_key f xs = x # ys"
proof (cases "sort_key f xs")
  case Nil
  with assms(1) have False by (metis set_sort empty_iff empty_set)
  then show thesis ..
next
  case (Cons z zs)
  then have z: "z \<in> set xs" and least: "f z \<le> f x"
    using assms(1) sorted_sort_key [of f xs] set_sort [of f xs] by auto
  with assms(2) [OF z] have "z = x" by force
  with Cons that show thesis by blast
qed

lemma previous_run_active_latest:
  assumes "r \<in> set (sd_runs db)" "jr_job r = sj_id job" "jr_status r = Run_Queued" "jr_task_result_id r \<noteq> ''''"
    and "\<forall>q \<in> set (sd_runs db). q \<noteq> r \<longrightarrow> jr_job q = sj_id job \<longrightarrow> jr_status q = Run_Queued \<longrightarrow>
           jr_created_at q < jr_created_at r"
    and "now - secs (sv_stale_run_seconds env) \<le> jr_created_at r"
    and "chain_outcome (sv_tasks env) (sv_task_settings env) now (jr_task_result_id r) (sd_tasks db) = Some co"
    and "co_status co \<in> {Engine Ready, Engine Running, Retrying}"
  shows "previous_run_active env now job db"
proof -
  let ?runs = "filter (\<lambda>r. jr_job r = sj_id job \<and> jr_status r = Run_Queued \<and> jr_task_result_id r \<noteq> '''') (sd_runs db)"
  have "r \<in> set ?runs" "\<And>q. q \<in> set ?runs \<Longrightarrow> q \<noteq> r \<Longrightarrow> - jr_created_at r < - jr_created_at q"
    using assms(1-5) by auto
  from hd_sort_key_least [where f = "\<lambda>r. - jr_created_at r", OF this] obtain ys where "sort_key (\<lambda>r. - jr_created_at r) ?runs = r # ys" by blast
  with assms(4,6-8) show ?thesis
    by (auto simp: previous_run_active_def engine_result_def UNFINISHED_def)
qed

text \<open>A job that does not allow overlap is not fired while its latest queued run is unfinished:
  when that run is not stale and its chain is ready, running or being retried, the tick only
  advances the cursor and records a skipped run; no task is enqueued.\<close>

theorem overlap_is_skipped:
  assumes "sj_next_run_at job = Some observed" "\<not> sj_allow_overlap job"
    and "compute_next_run env job now = Inr new_next" "claim_job observed (sj_id job) new_next db = Some db1"
    and "r \<in> set (sd_runs db)" "jr_job r = sj_id job" "jr_status r = Run_Queued" "jr_task_result_id r \<noteq> ''''"
    and "\<forall>q \<in> set (sd_runs db). q \<noteq> r \<longrightarrow> jr_job q = sj_id job \<longrightarrow> jr_status q = Run_Queued \<longrightarrow>
           jr_created_at q < jr_created_at r"
    and "now - secs (sv_stale_run_seconds env) \<le> jr_created_at r"
    and "chain_outcome (sv_tasks env) (sv_task_settings env) now (jr_task_result_id r) (sd_tasks db) = Some co"
    and "co_status co \<in> {Engine Ready, Engine Running, Retrying}"
  shows "\<exists>res' db'. process_job env now stamp job (res, db) = Inr (res', db')
    \<and> tk_enqueued res' = tk_enqueued res \<and> tk_skipped res' = Suc (tk_skipped res)
    \<and> sd_tasks db' = sd_tasks db \<and> (\<exists>run. sd_runs db' = sd_runs db @ [run] \<and> jr_status run = Run_Skipped)"
proof -
  have same: "sd_runs db1 = sd_runs db" "sd_tasks db1 = sd_tasks db" using claim_job_tasks [OF assms(4)] by simp_all
  have "previous_run_active env now job db1"
    by (rule previous_run_active_latest [where r = r and co = co]) (use assms same in simp_all)
  with assms(1-4) same show ?thesis by (auto simp: process_job_def Let_def record_run_def)
qed

section \<open>Retry budgets of scheduled runs\<close>

text \<open>A fired run of a job with \<open>max_retries\<close> \<open>m\<close> has its budget of \<open>m + 1\<close> attempts pinned in the
  transaction that enqueues it, it is recorded as a queued run, and unless the task declares a
  policy a run whose worker died is not retried at all.\<close>

theorem scheduled_run_budget:
  assumes "engine_ok (sv_tasks env)" "0 < sj_max_retries job"
    and "enqueue_and_record env now stamp job scheduled_for db = (Inr rid, db')" "rid \<noteq> ''''"
  shows "attempt_info rid (db_attempts (sd_tasks db'))
      = \<lparr>ai_root_id = rid, ai_attempt = 1, ai_max_attempts = Some (int (sj_max_retries job) + 1)\<rparr>
    \<and> (\<exists>run \<in> set (sd_runs db'). jr_job run = sj_id job \<and> jr_status run = Run_Queued \<and> jr_task_result_id run = rid)
    \<and> (\<forall>row c. tr_id row = rid \<longrightarrow> tr_exc_path row = WORKER_LOST_PATH \<longrightarrow>
         policy_for (sv_tasks env) (tr_task_path row) = Default_Policy \<longrightarrow>
         decide (sv_tasks env) (sv_task_settings env) (db_attempts (sd_tasks db')) row c = None)"
proof -
  from assms(3) obtain new where new: "enqueue_job env job (sd_tasks db) = Inr new" and rid: "rid = tr_id new"
    by (auto simp: enqueue_and_record_def Let_def split: sum.splits)
  then obtain req where "te_enqueue (sv_tasks env) req (sd_tasks db) = Some new" using enqueue_job_Inr by blast
  with assms(1) have fresh: "rid \<notin> set (used_ids (sd_tasks db))" by (auto simp: engine_ok_def rid)
  then have none: "attempt_row rid (db_attempts (sd_tasks db)) = None"
    using used_ids_simps(2) by (auto simp: attempt_row_def tbl_find_None)
  with assms(2-4) new rid have att: "db_attempts (sd_tasks db') = db_attempts (sd_tasks db) @
      [\<lparr>ta_result_id = rid, ta_root_id = rid, ta_parent_id = None, ta_attempt = 1, ta_cause = C_First,
        ta_max_attempts = Some (int (sj_max_retries job) + 1), ta_created_at = stamp, ta_parent_completed_at = None,
        ta_parent_status = '''', ta_retry_cancelled = False\<rparr>]"
    by (auto simp: enqueue_and_record_def Let_def pin_max_attempts_def)
  have info: "attempt_info rid (db_attempts (sd_tasks db'))
      = \<lparr>ai_root_id = rid, ai_attempt = 1, ai_max_attempts = Some (int (sj_max_retries job) + 1)\<rparr>"
    using none by (simp add: att attempt_info_def attempt_row_def tbl_find_append)
  moreover have "\<exists>run \<in> set (sd_runs db'). jr_job run = sj_id job \<and> jr_status run = Run_Queued \<and> jr_task_result_id run = rid"
    using assms(3) new rid by (auto simp: enqueue_and_record_def Let_def update_job_def record_run_def)
  moreover have "decide (sv_tasks env) (sv_task_settings env) (db_attempts (sd_tasks db')) row c = None"
    if "tr_id row = rid" "tr_exc_path row = WORKER_LOST_PATH" "policy_for (sv_tasks env) (tr_task_path row) = Default_Policy" for row c
    using info that by (simp add: decide_def Let_def classify_def IMPLICIT_PINNED_POLICY_def)
  ultimately show ?thesis by blast
qed

section \<open>Messages\<close>

text \<open>The message of a reconciled run fits its 255-character column, and the note of a double
  execution survives whatever is cut: it ends the message, in full up to the column's width.\<close>

theorem note_survives_truncation:
  "length (with_double_execution_note message note) \<le> 255
   \<and> endswith (with_double_execution_note message note) (take 255 note)"
  by (auto simp: with_double_execution_note_def Let_def MESSAGE_MAX_def NOTE_JOIN_def endswith_append)

section \<open>Validation\<close>

text \<open>A job of a one-off or interval schedule that \<open>clean\<close> accepts never has an invalid cadence
  later: whenever a tick processes it, computing its next run is not a configuration error, so
  the tick does not disable it as invalid.\<close>

theorem clean_job_stays_valid:
  assumes "clean_job env now job = Inr job'" "sc_type (sj_schedule job) \<noteq> ''cron''"
  shows "compute_next_run env job' later \<noteq> Inl Config_Error
    \<and> sc_timezone (sj_schedule job') \<in> {sc_timezone (sj_schedule job)} \<union> set (cal_zones (sv_calendar env))"
proof -
  have parse: "\<exists>d. parse_interval spec = Inr d" if "step_interval cal a spec t = Inr x" for cal a spec t x
    using that by (auto simp: step_interval_def bind_err_Inr)
  have walk: "calendar_walk n cal u k t x \<noteq> Inl Config_Error" for n cal u k t x
    by (induction n arbitrary: x) (auto simp: cal_step_def split: option.splits)
  have step: "step_interval cal a spec t \<noteq> Inl Config_Error" if "parse_interval spec = Inr d" for cal a spec t d
    using that walk by (auto simp: step_interval_def Let_def checked_instant_def split: interval_delta.split)
  from assms(1) have sched: "sj_schedule job' = (sj_schedule job)\<lparr>sc_timezone :=
      canonical_or_same (sv_calendar env) (sc_timezone (sj_schedule job))\<rparr>"
    and ok: "\<exists>r. next_run (sv_calendar env) (sj_schedule job') now = Inr r"
    and kind: "cadence_value_missing (sj_schedule job) = Some False"
    by (auto simp: clean_job_def Let_def split: option.splits bool.splits if_splits sum.splits schedule_error.splits)
  have "compute_next_run env job' later \<noteq> Inl Config_Error"
  proof (cases "sc_type (sj_schedule job) = ''once''")
    case True
    with kind sched show ?thesis by (auto simp: compute_next_run_def next_run_def cadence_value_missing_def)
  next
    case False
    with kind assms(2) have int: "sc_type (sj_schedule job) = ''interval''" "sc_interval_spec (sj_schedule job) \<noteq> ''''"
      by (auto simp: cadence_value_missing_def split: if_splits)
    with ok sched obtain a x where "step_interval (sv_calendar env) a (sc_interval_spec (sj_schedule job)) now = Inr x"
      by (auto simp: next_run_def bind_err_Inr)
    then obtain d where "parse_interval (sc_interval_spec (sj_schedule job)) = Inr d" using parse by blast
    with int sched step show ?thesis by (auto simp: compute_next_run_def next_run_def bind_err_def split: sum.splits)
  qed
  moreover have "canonical_timezone cal tz = Some z \<Longrightarrow> z \<in> set (cal_zones cal)" for cal tz z
    by (auto simp: canonical_timezone_def dest: find_SomeD split: if_splits)
  ultimately show ?thesis using sched by (auto simp: canonical_or_same_def split: option.split)
qed

section \<open>What a sync may change\<close>

text \<open>Columns an operator owns, and what a sync may not turn round.\<close>

definition off_by_operator :: "scheduled_job \<Rightarrow> bool" where
  "off_by_operator j \<longleftrightarrow> \<not> sj_enabled j \<and> \<not> sj_auto_retired j"

definition operator_kept :: "scheduled_job \<Rightarrow> scheduled_job \<Rightarrow> bool" where
  "operator_kept j j' \<longleftrightarrow> sj_id j' = sj_id j \<and> sj_name j' = sj_name j \<and> sj_source j' = sj_source j
     \<and> sj_allow_overlap j' = sj_allow_overlap j \<and> sj_catch_up j' = sj_catch_up j
     \<and> sj_max_retries j' = sj_max_retries j \<and> sj_schedule_overridden j' = sj_schedule_overridden j
     \<and> (sj_schedule_overridden j \<longrightarrow> sj_schedule j' = sj_schedule j)
     \<and> off_by_operator j' = off_by_operator j
     \<and> (sj_source j = UI_Source \<longrightarrow> sj_enabled j \<longrightarrow> sj_enabled j')"

lemma operator_kept_refl [simp]: "operator_kept j j"
  by (simp add: operator_kept_def)

lemma operator_kept_trans: "operator_kept j k \<Longrightarrow> operator_kept k l \<Longrightarrow> operator_kept j l"
  unfolding operator_kept_def by auto

definition jobs_kept :: "sched_db \<Rightarrow> sched_db \<Rightarrow> bool" where
  "jobs_kept db db' \<longleftrightarrow> distinct (map sj_id (sd_jobs db')) \<and>
     (\<forall>j \<in> set (sd_jobs db). \<exists>j' \<in> set (sd_jobs db'). operator_kept j j')"

lemma jobs_kept_refl: "distinct (map sj_id (sd_jobs db)) \<Longrightarrow> jobs_kept db db"
  unfolding jobs_kept_def using operator_kept_refl by blast

lemma jobs_kept_trans: "jobs_kept a b \<Longrightarrow> jobs_kept b c \<Longrightarrow> jobs_kept a c"
  unfolding jobs_kept_def by (meson operator_kept_trans)

lemma jobs_kept_update:
  assumes "distinct (map sj_id (sd_jobs db))" "job \<in> set (sd_jobs db)" "operator_kept job new"
  shows "jobs_kept db (update_job (sj_id job) (\<lambda>_. new) db)"
proof -
  have ids: "map sj_id (tbl_update (\<lambda>j. sj_id j = sj_id job) (\<lambda>_. new) js) = map sj_id js" for js
    using assms(3) by (induction js) (auto simp: operator_kept_def)
  have "j = job" if "j \<in> set (sd_jobs db)" "sj_id j = sj_id job" for j
    using that assms(1,2) by (auto simp: distinct_map inj_on_def)
  then have rows: "set (tbl_update (\<lambda>j. sj_id j = sj_id job) (\<lambda>_. new) (sd_jobs db)) = insert new (set (sd_jobs db) - {job})"
    using assms(2) unfolding tbl_update_def by (auto simp: image_iff)
  have "\<exists>j' \<in> insert new (set (sd_jobs db) - {job}). operator_kept j j'" if "j \<in> set (sd_jobs db)" for j
    using that assms(3) operator_kept_refl [of j] by (cases "j = job") blast+
  with assms(1) ids rows show ?thesis by (simp add: jobs_kept_def update_job_def)
qed

lemma saved_row:
  assumes "bind_err (if seed then reseed env now job1 else Inr job1) (\<lambda>j. save_job env now (Some job) j) = Inr saved"
  shows "\<exists>t. saved = job1\<lparr>sj_schedule := (sj_schedule job1)\<lparr>sc_timezone :=
      canonical_or_same (sv_calendar env) (sc_timezone (sj_schedule job1))\<rparr>, sj_next_run_at := t\<rparr>"
proof -
  have re: "\<exists>t. k = j\<lparr>sj_next_run_at := t\<rparr>" if "reseed env now j = Inr k" for j k
    using that by (auto simp: reseed_def split: sum.splits schedule_error.splits)
  have idle: "\<exists>t. j = j\<lparr>sj_next_run_at := t\<rparr>" for j :: scheduled_job
    by (rule exI [of _ "sj_next_run_at j"]) simp
  from assms obtain j where j: "(if seed then reseed env now job1 else Inr job1) = Inr j"
    and saved: "save_job env now (Some job) j = Inr saved" by (auto simp: bind_err_Inr)
  from j have "\<exists>t. j = job1\<lparr>sj_next_run_at := t\<rparr>"
    using re [of job1 j] idle [of job1] by (cases seed) (simp, metis Inr_inject)
  then obtain t where t: "j = job1\<lparr>sj_next_run_at := t\<rparr>" by blast
  let ?canon = "j\<lparr>sj_schedule := (sj_schedule j)\<lparr>sc_timezone := canonical_or_same (sv_calendar env) (sc_timezone (sj_schedule j))\<rparr>\<rparr>"
  from saved have "saved = ?canon \<or> reseed env now ?canon = Inr saved"
    by (auto simp: save_job_def Let_def split: if_splits)
  with re [of ?canon saved] have "\<exists>t. saved = ?canon\<lparr>sj_next_run_at := t\<rparr>"
    using idle [of ?canon] by blast
  with t show ?thesis by auto
qed

lemma next_pk_fresh: "next_pk db \<notin> sj_id ` set (sd_jobs db)"
  using Suc_fold_max_fresh [of _ "sd_jobs db" sj_id] by (fastforce simp: next_pk_def)

lemma write_job_kept:
  assumes "saved = job1\<lparr>sj_schedule := (sj_schedule job1)\<lparr>sc_timezone := z\<rparr>, sj_next_run_at := t\<rparr>"
    and "sj_schedule_overridden job \<Longrightarrow> sj_schedule job1 = sj_schedule job"
    and "sj_id job1 = sj_id job" "sj_name job1 = sj_name job" "sj_source job1 = sj_source job"
    and "sj_allow_overlap job1 = sj_allow_overlap job" "sj_catch_up job1 = sj_catch_up job"
    and "sj_max_retries job1 = sj_max_retries job" "sj_schedule_overridden job1 = sj_schedule_overridden job"
    and "off_by_operator job1 = off_by_operator job" "sj_enabled job \<Longrightarrow> sj_enabled job1"
  shows "operator_kept job (write_job job job1 saved)"
  using assms by (auto simp: operator_kept_def write_job_def off_by_operator_def)

lemma refresh_job_fields:
  assumes "refresh_job sp a job = (job1, c, ch)"
  shows "sj_id job1 = sj_id job" "sj_name job1 = sj_name job" "sj_source job1 = sj_source job"
    "sj_allow_overlap job1 = sj_allow_overlap job" "sj_catch_up job1 = sj_catch_up job"
    "sj_max_retries job1 = sj_max_retries job" "sj_schedule_overridden job1 = sj_schedule_overridden job"
    "off_by_operator job1 = off_by_operator job" "sj_enabled job \<Longrightarrow> sj_enabled job1"
    "sj_schedule_overridden job \<Longrightarrow> sj_schedule job1 = sj_schedule job"
proof -
  have job1: "job1 = fst (refresh_job sp a job)" by (simp add: assms)
  show "sj_id job1 = sj_id job" "sj_name job1 = sj_name job" "sj_source job1 = sj_source job"
    "sj_allow_overlap job1 = sj_allow_overlap job" "sj_catch_up job1 = sj_catch_up job"
    "sj_max_retries job1 = sj_max_retries job" "sj_schedule_overridden job1 = sj_schedule_overridden job"
    "off_by_operator job1 = off_by_operator job" "sj_enabled job \<Longrightarrow> sj_enabled job1"
    "sj_schedule_overridden job \<Longrightarrow> sj_schedule job1 = sj_schedule job"
    unfolding job1 by (simp_all add: refresh_job_def Let_def off_by_operator_def)
qed

lemma sync_existing_kept:
  assumes "distinct (map sj_id (sd_jobs db))" "job \<in> set (sd_jobs db)"
  shows "jobs_kept db (snd (sync_existing env now sp job db))"
proof -
  have same: "jobs_kept db db" using assms(1) by (rule jobs_kept_refl)
  obtain tz where tz: "snd (sync_existing env now sp job db) = db \<or>
      schedule_tz (sv_calendar env) (sc_timezone (sj_schedule job)) = Inr tz"
    by (cases "schedule_tz (sv_calendar env) (sc_timezone (sj_schedule job))") (auto simp: sync_existing_def)
  obtain job1 cadence_changed any_changed
    where re: "refresh_job sp (sv_anchor env (sp_anchor sp) tz now) job = (job1, cadence_changed, any_changed)"
    by (metis prod_cases3)
  let ?seed = "sj_enabled job1 \<and> (cadence_changed \<or> sj_next_run_at job1 = None)"
  have kept: "operator_kept job (write_job job job1 saved)"
    if st: "bind_err (if ?seed then reseed env now job1 else Inr job1) (\<lambda>j. save_job env now (Some job) j) = Inr saved" for saved
  proof -
    obtain t where t: "saved = job1\<lparr>sj_schedule := (sj_schedule job1)\<lparr>sc_timezone :=
        canonical_or_same (sv_calendar env) (sc_timezone (sj_schedule job1))\<rparr>, sj_next_run_at := t\<rparr>"
      using saved_row [OF st] by blast
    note fields = refresh_job_fields [OF re]
    show ?thesis by (rule write_job_kept [OF t]) (simp_all only: fields)
  qed
  show ?thesis
  proof (cases "snd (sync_existing env now sp job db) = db")
    case True
    with same show ?thesis by simp
  next
    case False
    with tz have z: "schedule_tz (sv_calendar env) (sc_timezone (sj_schedule job)) = Inr tz" by simp
    show ?thesis
    proof (cases "bind_err (if ?seed then reseed env now job1 else Inr job1) (\<lambda>j. save_job env now (Some job) j)")
      case (Inl e)
      with False z re show ?thesis by (simp add: sync_existing_def Let_def split: if_splits)
    next
      case (Inr saved)
      with False z re have "snd (sync_existing env now sp job db)
          = update_job (sj_id job) (\<lambda>_. write_job job job1 saved) db"
        by (simp add: sync_existing_def Let_def split: if_splits)
      with kept [OF Inr] assms show ?thesis by (simp add: jobs_kept_update)
    qed
  qed
qed

lemma sync_created_kept:
  assumes "distinct (map sj_id (sd_jobs db))"
  shows "jobs_kept db (snd (sync_created env now sp db))"
proof (cases "save_job env now None (new_code_job (next_pk db) sp)")
  case (Inl e)
  with assms show ?thesis by (simp add: sync_created_def jobs_kept_refl)
next
  case saved: (Inr job)
  then have job: "sj_id job = next_pk db" "sj_schedule_overridden job = False" "sj_enabled job"
    by (auto simp: save_job_def reseed_def new_code_job_def Let_def split: if_splits sum.splits schedule_error.splits)
  let ?db1 = "db\<lparr>sd_jobs := sd_jobs db @ [job]\<rparr>"
  have app: "jobs_kept db ?db1"
    using assms next_pk_fresh [of db] job(1) operator_kept_refl by (fastforce simp: jobs_kept_def)
  have upd: "jobs_kept ?db1 (update_job (sj_id job) (\<lambda>_. write_job job (job\<lparr>sj_schedule := s\<rparr>) saved) ?db1)"
    if "bind_err (reseed env now (job\<lparr>sj_schedule := s\<rparr>)) (\<lambda>j. save_job env now (Some job) j) = Inr saved" for s saved
  proof (rule jobs_kept_update)
    show "distinct (map sj_id (sd_jobs ?db1))" using app by (simp add: jobs_kept_def)
    show "operator_kept job (write_job job (job\<lparr>sj_schedule := s\<rparr>) saved)"
    proof -
      have "bind_err (if True then reseed env now (job\<lparr>sj_schedule := s\<rparr>) else Inr (job\<lparr>sj_schedule := s\<rparr>))
          (\<lambda>j. save_job env now (Some job) j) = Inr saved" using that by simp
      from saved_row [OF this] obtain t where t: "saved = (job\<lparr>sj_schedule := s\<rparr>)\<lparr>sj_schedule := (sj_schedule (job\<lparr>sj_schedule := s\<rparr>))\<lparr>sc_timezone :=
          canonical_or_same (sv_calendar env) (sc_timezone (sj_schedule (job\<lparr>sj_schedule := s\<rparr>)))\<rparr>, sj_next_run_at := t\<rparr>" by blast
      show ?thesis by (rule write_job_kept [OF t]) (simp_all add: job off_by_operator_def)
    qed
  qed simp
  have s: "(case a of Some a \<Rightarrow> job\<lparr>sj_schedule := (sj_schedule job)\<lparr>sc_anchor_at := Some a\<rparr>\<rparr> | None \<Rightarrow> job)
      = job\<lparr>sj_schedule := (case a of Some a \<Rightarrow> (sj_schedule job)\<lparr>sc_anchor_at := Some a\<rparr> | None \<Rightarrow> sj_schedule job)\<rparr>" for a
    by (simp split: option.split)
  have "jobs_kept ?db1 (snd (sync_created env now sp db))"
  proof (cases "schedule_tz (sv_calendar env) (sc_timezone (sj_schedule job))")
    case (Inl e)
    with saved jobs_kept_refl [of ?db1] app show ?thesis by (simp add: sync_created_def jobs_kept_def)
  next
    case (Inr tz)
    define s where "s = (case sv_anchor env (sp_anchor sp) tz now of Some a \<Rightarrow> (sj_schedule job)\<lparr>sc_anchor_at := Some a\<rparr>
        | None \<Rightarrow> sj_schedule job)"
    show ?thesis
    proof (cases "bind_err (reseed env now (job\<lparr>sj_schedule := s\<rparr>)) (\<lambda>j. save_job env now (Some job) j)")
      case (Inl e)
      with Inr saved jobs_kept_refl [of ?db1] app show ?thesis
        by (simp add: sync_created_def Let_def s flip: s_def) (simp add: jobs_kept_def)
    next
      case (Inr q)
      with \<open>schedule_tz _ _ = Inr tz\<close> saved upd [OF Inr] show ?thesis
        by (simp add: sync_created_def Let_def s flip: s_def)
    qed
  qed
  with app show ?thesis by (rule jobs_kept_trans)
qed

lemma sync_specs_kept:
  assumes "distinct (map sj_id (sd_jobs db))"
  shows "jobs_kept db (snd (sync_specs env now specs db))"
  using assms
proof (induction specs arbitrary: db)
  case Nil
  then show ?case by (simp add: jobs_kept_refl)
next
  case (Cons sp sps)
  have "jobs_kept db (snd (sync_spec env now sp db))"
    using Cons.prems by (auto simp: sync_spec_def sync_created_kept split: option.split dest!: tbl_find_Some intro!: sync_existing_kept)
  moreover obtain e db1 where "sync_spec env now sp db = (e, db1)" by (cases "sync_spec env now sp db")
  moreover from calculation have "jobs_kept db1 (snd (sync_specs env now sps db1))"
    by (intro Cons.IH) (simp add: jobs_kept_def)
  ultimately show ?case by (cases e) (auto intro: jobs_kept_trans)
qed

lemma retire_orphans_kept:
  assumes "distinct (map sj_id (sd_jobs db))"
  shows "jobs_kept db (snd (e, retire_orphans specs db))"
proof -
  have ids: "map sj_id (tbl_update P retire_job js) = map sj_id js" for P js
    by (rule map_tbl_update) (simp add: retire_job_def)
  have "operator_kept j (if orphan_job live j then retire_job j else j)" for j live
    by (simp add: operator_kept_def retire_job_def orphan_job_def off_by_operator_def)
  then have "\<exists>j' \<in> set (tbl_update (orphan_job live) retire_job (sd_jobs db)). operator_kept j j'"
    if "j \<in> set (sd_jobs db)" for j live
    unfolding tbl_update_def set_map using that by (rule bexI [OF _ imageI])
  then have "jobs_kept db (db\<lparr>sd_jobs := tbl_update (orphan_job live) retire_job (sd_jobs db)\<rparr>)" for live
    using assms ids by (simp add: jobs_kept_def)
  with jobs_kept_refl [OF assms] show ?thesis by (simp add: retire_orphans_def Let_def)
qed


text \<open>One sync retires at most as many jobs as there are distinct specs, so an empty registry
  retires nothing and a mostly broken one very little.\<close>

theorem retirement_is_bounded:
  "tbl_count sj_enabled (sd_jobs db)
     \<le> tbl_count sj_enabled (sd_jobs (retire_orphans specs db)) + card (sp_name ` set specs)"
proof -
  let ?live = "remdups (map sp_name specs)"
  have split: "tbl_count sj_enabled js = tbl_count sj_enabled (tbl_update (orphan_job l) retire_job js) + tbl_count (orphan_job l) js" for js l
    by (induction js) (auto simp: tbl_count_def orphan_job_def retire_job_def)
  have "length ?live = card (sp_name ` set specs)" by (metis length_remdups_card_conv set_map)
  then show ?thesis
    using split [of "sd_jobs db" ?live] by (auto simp: retire_orphans_def Let_def retirement_is_plausible_def)
qed

end
