(* ===== verification/Scheduler_Witnesses.thy ===== *)
theory Scheduler_Witnesses
  imports Scheduler_Props
begin

text \<open>
  Concrete inputs for the scheduler's properties, and two observations about the sync of
  code-declared jobs at concrete inputs: a spec takes over a UI job of the same name, and a
  zone name that is not in canonical form restarts the cursor at every sync.
\<close>

definition demo_sched_env :: sched_env where
  "demo_sched_env = \<lparr>sv_calendar = demo_calendar, sv_tasks = demo_env, sv_task_settings = default_task_settings,
     sv_import = (\<lambda>m a. Task_Object ''plain.task'' 0 ''default''), sv_enqueue_message = '''', sv_anchor = (\<lambda>_ _ _. None),
     sv_json_text = id, sv_failure_emails = [], sv_failure_text = (\<lambda>_. ''''), sv_email_task = ('''', '''', 0, ''''),
     sv_stale_run_seconds = 86400, sv_backend_queues = (\<lambda>_. [])\<rparr>"

definition demo_schedule :: schedule where
  "demo_schedule = \<lparr>sc_type = ''interval'', sc_interval_spec = ''1d'', sc_anchor_at = None, sc_cron_expression = '''',
     sc_run_at = None, sc_timezone = ''''\<rparr>"

definition demo_job :: scheduled_job where
  "demo_job = \<lparr>sj_id = 1, sj_name = ''j'', sj_task_path = ''app.tasks.plain'', sj_kwargs = [], sj_queue_name = ''default'',
     sj_schedule = demo_schedule, sj_enabled = True, sj_allow_overlap = False, sj_catch_up = ''run_once'',
     sj_max_retries = 2, sj_source = UI_Source, sj_schedule_overridden = False, sj_auto_retired = False,
     sj_next_run_at = Some 0, sj_last_enqueued_at = None, sj_last_status = '''', sj_total_runs = 0\<rparr>"

definition demo_sched_db :: sched_db where
  "demo_sched_db = \<lparr>sd_jobs = [demo_job], sd_runs = [], sd_tasks = \<lparr>db_results = [], db_attempts = [], db_beats = []\<rparr>,
     sd_code_jobs_synced = True\<rparr>"

lemma demo_next_run: "compute_next_run demo_sched_env demo_job 5 = Inr (Some (days_span 1 + 5))"
  by code_simp

lemma demo_reach: "anchor_in_reach 5 (sj_schedule demo_job)"
  by (simp add: anchor_in_reach_def demo_job_def demo_schedule_def MAX_STEPS_def days_span_def secs_def)

lemma demo_sched_calendar_ok: "calendar_ok (sv_calendar demo_sched_env)"
  by (simp add: demo_sched_env_def demo_calendar_ok)

lemma slot_fires_once_witness:
  "wins_for (1::nat) [(1, Some (days_span 1 + 5)), (1, Some (days_span 1 + 5))]
     (snd (race (claim_job 0) [(1, Some (days_span 1 + 5)), (1, Some (days_span 1 + 5))] demo_sched_db)) \<le> 1"
proof -
  have "\<forall>(pk', new_next) \<in> set [(1::nat, Some (days_span 1 + 5)), (1, Some (days_span 1 + 5))].
      \<exists>job now. 0 \<le> now \<and> anchor_in_reach now (sj_schedule job) \<and> compute_next_run demo_sched_env job now = Inr new_next"
    using demo_next_run demo_reach by (auto intro!: exI [of _ demo_job] exI [of _ "5::int"])
  from slot_fires_once [OF demo_sched_calendar_ok this, of 1 demo_sched_db] show ?thesis by simp
qed

lemma tick_settles_witness:
  "due_jobs 5 (snd (run_due_jobs demo_sched_env [] 5 5 demo_sched_db)) = []"
proof -
  have "due_jobs 5 demo_sched_db = [demo_job]"
    by (simp add: due_jobs_def demo_sched_db_def demo_job_def sql_simps)
  then have "\<forall>j \<in> set (due_jobs 5 demo_sched_db). anchor_in_reach 5 (sj_schedule j)
      \<and> compute_next_run demo_sched_env j 5 \<notin> {Inl Overflow_Error, Inl Calendar_Error}"
    using demo_next_run demo_reach by simp
  moreover have "sd_code_jobs_synced demo_sched_db" by (simp add: demo_sched_db_def)
  ultimately show ?thesis using tick_settles [OF demo_sched_calendar_ok, of demo_sched_db 5] by blast
qed

definition demo_run :: job_run where
  "demo_run = \<lparr>jr_job = 1, jr_status = Run_Queued, jr_scheduled_for = 0, jr_created_at = 0, jr_task_result_id = ''a'',
     jr_message = ''''\<rparr>"

definition demo_busy_db :: sched_db where
  "demo_busy_db = demo_sched_db\<lparr>sd_runs := [demo_run], sd_tasks := demo_running\<rparr>"

lemma demo_busy_outcome:
  "\<exists>co. chain_outcome (sv_tasks demo_sched_env) (sv_task_settings demo_sched_env) 5 ''a'' (sd_tasks demo_busy_db) = Some co
     \<and> co_status co = Engine Running"
  by (simp add: chain_outcome_def demo_busy_db_def demo_running_def demo_row_def walk_chain_rounds walk_step_def
      walk_start_def child_row_def MAX_CHAIN_def)

lemma overlap_is_skipped_witness:
  "\<exists>res' db'. process_job demo_sched_env 5 5 demo_job (tick_start, demo_busy_db) = Inr (res', db')
     \<and> sd_tasks db' = sd_tasks demo_busy_db"
proof -
  obtain co where co: "chain_outcome (sv_tasks demo_sched_env) (sv_task_settings demo_sched_env) 5 ''a'' (sd_tasks demo_busy_db) = Some co"
    "co_status co = Engine Running" using demo_busy_outcome by blast
  have claim: "\<exists>db1. claim_job 0 1 (Some (days_span 1 + 5)) demo_busy_db = Some db1"
    by (simp add: claim_job_def demo_busy_db_def demo_sched_db_def demo_job_def tbl_count_def)
  then obtain db1 where "claim_job 0 (sj_id demo_job) (Some (days_span 1 + 5)) demo_busy_db = Some db1"
    by (auto simp: demo_job_def)
  from overlap_is_skipped [OF _ _ demo_next_run this, where r = demo_run and co = co and res = tick_start and stamp = 5] co
  show ?thesis
    by (auto simp: demo_job_def demo_run_def demo_busy_db_def demo_sched_env_def secs_def)
qed

lemma scheduled_run_budget_witness:
  "attempt_info ''n'' (db_attempts (sd_tasks (snd (enqueue_and_record demo_sched_env 5 5 demo_job 0 demo_sched_db))))
     = \<lparr>ai_root_id = ''n'', ai_attempt = 1, ai_max_attempts = Some 3\<rparr>"
proof -
  have "engine_ok (sv_tasks demo_sched_env)" using demo_engine_ok by (simp add: demo_sched_env_def)
  moreover have "fst (enqueue_and_record demo_sched_env 5 5 demo_job 0 demo_sched_db) = Inr ''n''"
    by code_simp
  then have "enqueue_and_record demo_sched_env 5 5 demo_job 0 demo_sched_db =
      (Inr ''n'', snd (enqueue_and_record demo_sched_env 5 5 demo_job 0 demo_sched_db))" by (metis prod.collapse)
  ultimately show ?thesis
    using scheduled_run_budget [of demo_sched_env demo_job 5 5 0 demo_sched_db "''n''"] by (simp add: demo_job_def)
qed

lemma clean_job_stays_valid_witness:
  "clean_job demo_sched_env 5 demo_job = Inr demo_job \<and> compute_next_run demo_sched_env demo_job 7 \<noteq> Inl Config_Error"
proof -
  have "clean_job demo_sched_env 5 demo_job = Inr demo_job"
    by code_simp
  then show ?thesis
    using clean_job_stays_valid [of demo_sched_env 5 demo_job demo_job 7] by (simp add: demo_job_def demo_schedule_def)
qed

definition demo_spec :: schedule_spec where
  "demo_spec = \<lparr>sp_task_path = ''app.tasks.other'', sp_name = ''j'', sp_cadence = demo_schedule, sp_anchor = '''',
     sp_queue_name = ''default'', sp_kwargs = [], sp_catch_up = ''run_once'', sp_allow_overlap = False\<rparr>"


section \<open>Observations\<close>

text \<open>A UI job is found by its name, so a spec of that name takes over its task.\<close>

lemma spec_takes_over_ui_job:
  "sj_source demo_job = UI_Source \<and> sj_task_path demo_job = ''app.tasks.plain''
   \<and> map sj_task_path (sd_jobs (snd (sync_code_jobs demo_sched_env 7 [demo_spec] demo_sched_db))) = [''app.tasks.other'']
   \<and> map sj_source (sd_jobs (snd (sync_code_jobs demo_sched_env 7 [demo_spec] demo_sched_db))) = [UI_Source]"
  by code_simp

text \<open>A spec whose zone is not written in canonical form differs from the stored row at every
  sync, and each sync moves the cursor to one interval after itself.\<close>

lemma noncanonical_zone_restarts_cursor:
  "(let spec = demo_spec\<lparr>sp_cadence := demo_schedule\<lparr>sc_timezone := ''utc''\<rparr>\<rparr>;
        start = demo_sched_db\<lparr>sd_jobs := []\<rparr>;
        one = snd (sync_code_jobs demo_sched_env 0 [spec] start);
        two = snd (sync_code_jobs demo_sched_env (days_span 1 - 1) [spec] one)
    in map sj_next_run_at (sd_jobs one) = [Some (days_span 1)]
       \<and> map sj_next_run_at (sd_jobs two) = [Some (days_span 2 - 1)]
       \<and> map sj_schedule (sd_jobs two) = map sj_schedule (sd_jobs one))"
  by code_simp

end
