(* ===== verification/Approvals.thy ===== *)
theory Approvals
  imports Interfaces Py_Strings
begin

text \<open>
  Approval requests: the model and its query sets (\<open>apps/approvals/models.py\<close>), the policy
  (\<open>permissions.py\<close>), the kind registry (\<open>registry.py\<close>), the services (\<open>services.py\<close>) and the
  resolvers of remote payloads (\<open>resolvers.py\<close>).

  A kind's callback is a function of the decided request that returns the traceback when it
  raises; its eligibility hook returns \<open>None\<close> when it raises. What a callback does to other
  tables is outside the model. Signals are kept as a list of events, the audit log as a list of
  entries. An actor without a key (anonymous, or \<open>None\<close>) has \<open>us_pk = None\<close>.
\<close>

section \<open>Rows\<close>

record user =
  us_pk :: "nat option"
  us_username :: string
  us_is_active :: bool
  us_is_staff :: bool

datatype approval_status = Pending | Approved | Rejected | Canceled | Expired

record approval_request =
  ar_id :: nat
  ar_kind :: string
  ar_title :: string
  ar_description :: string
  ar_context :: "(string \<times> string) list"
  ar_target :: "(string \<times> string \<times> string) option"
  ar_requested_by :: "nat option"
  ar_assignees :: "nat list"
  ar_status :: approval_status
  ar_decided_by :: "nat option"
  ar_decided_at :: "instant option"
  ar_decision_note :: string
  ar_expires_at :: "instant option"
  ar_callback_error :: string
  ar_created_at :: instant
  ar_updated_at :: instant

record approval_kind =
  ak_key :: string
  ak_on_decision :: "(approval_request \<Rightarrow> string option) option"
  ak_can_decide :: "(user \<Rightarrow> approval_request \<Rightarrow> bool option) option"
  ak_default_expires_in :: "span option"
  ak_assignable :: "(user \<Rightarrow> bool) option"

record approval_settings =
  as_enabled :: bool
  as_allow_self_approve :: bool
  as_staff_override :: bool
  as_max_pending :: int
  as_default_expires_minutes :: int
  as_lazy_expire_limit :: int
  as_system_audit :: bool

datatype approval_event =
    Requested nat "nat option"
  | Decided nat "nat option" string

datatype audit_action = Addition | Change

record audit_entry =
  au_request :: nat
  au_actor :: "nat option"  \<comment> \<open>\<open>None\<close> is the system account\<close>
  au_action :: audit_action
  au_source :: string

record approval_db =
  ad_requests :: "approval_request list"
  ad_events :: "approval_event list"
  ad_audit :: "audit_entry list"

type_synonym kind_registry = "string \<rightharpoonup> approval_kind"

section \<open>The kind registry\<close>

definition register_kind :: "approval_kind \<Rightarrow> kind_registry \<Rightarrow> kind_registry" where
  "register_kind k reg = (case reg (ak_key k) of Some _ \<Rightarrow> reg | None \<Rightarrow> reg(ak_key k \<mapsto> k))"

definition get_kind :: "kind_registry \<Rightarrow> string \<Rightarrow> approval_kind option" where
  "get_kind reg key = reg key"

definition unregister_kind :: "string \<Rightarrow> kind_registry \<Rightarrow> kind_registry" where
  "unregister_kind key reg = reg(key := None)"

interpretation kinds: first_wins_registry register_kind get_kind ak_key
  by unfold_locales (auto simp: register_kind_def get_kind_def split: option.splits)

section \<open>Effective status\<close>

definition is_pending :: "approval_request \<Rightarrow> bool" where
  "is_pending r \<longleftrightarrow> ar_status r = Pending"

definition is_overdue :: "instant \<Rightarrow> approval_request \<Rightarrow> bool" where
  "is_overdue now r \<longleftrightarrow> is_pending r \<and> (case ar_expires_at r of None \<Rightarrow> False | Some t \<Rightarrow> t \<le> now)"

definition effective_status :: "instant \<Rightarrow> approval_request \<Rightarrow> approval_status" where
  "effective_status now r = (if is_overdue now r then Expired else ar_status r)"

text \<open>The query sets, as filters on rows.\<close>

definition q_pending :: "approval_request \<Rightarrow> bool" where
  "q_pending r \<longleftrightarrow> ar_status r = Pending"

definition q_overdue :: "instant \<Rightarrow> approval_request \<Rightarrow> bool" where
  "q_overdue now r \<longleftrightarrow> q_pending r \<and> ar_expires_at r \<noteq> None \<and> col_lte (ar_expires_at r) now"

definition q_actionable :: "instant \<Rightarrow> approval_request \<Rightarrow> bool" where
  "q_actionable now r \<longleftrightarrow> q_pending r \<and> \<not> (ar_expires_at r \<noteq> None \<and> col_lte (ar_expires_at r) now)"

definition for_effective_status :: "approval_status \<Rightarrow> instant \<Rightarrow> approval_request list \<Rightarrow> approval_request list" where
  "for_effective_status value now rows =
     (if value = Pending then filter (q_actionable now) rows
      else if value = Expired then
        filter (\<lambda>r. ar_status r = Expired \<or> ar_id r \<in> set (map ar_id (filter (q_overdue now) rows))) rows
      else filter (\<lambda>r. ar_status r = value) rows)"

section \<open>Permissions\<close>

definition acting_pk :: "user \<Rightarrow> nat option" where
  "acting_pk u = (if us_is_active u then us_pk u else None)"

definition is_staff :: "user \<Rightarrow> bool" where
  "is_staff u \<longleftrightarrow> us_is_staff u \<and> us_is_active u"

definition can_view :: "user \<Rightarrow> approval_request \<Rightarrow> bool" where
  "can_view u r =
     (case acting_pk u of
        None \<Rightarrow> False
      | Some pk \<Rightarrow> is_staff u \<or> ar_requested_by r = Some pk \<or> pk \<in> set (ar_assignees r))"

definition viewable_requests :: "user \<Rightarrow> approval_request list \<Rightarrow> approval_request list" where
  "viewable_requests u rows =
     (case acting_pk u of
        None \<Rightarrow> []
      | Some pk \<Rightarrow> if is_staff u then rows
                   else filter (\<lambda>r. ar_requested_by r = Some pk \<or> pk \<in> set (ar_assignees r)) rows)"

definition can_decide :: "approval_settings \<Rightarrow> kind_registry \<Rightarrow> user \<Rightarrow> approval_request \<Rightarrow> bool" where
  "can_decide cfg reg u r =
     (case acting_pk u of
        None \<Rightarrow> False
      | Some pk \<Rightarrow>
          if \<not> is_pending r then False
          else if ar_requested_by r = Some pk \<and> \<not> as_allow_self_approve cfg then False
          else if \<not> (if ar_assignees r \<noteq> [] then pk \<in> set (ar_assignees r) \<or> (is_staff u \<and> as_staff_override cfg)
                     else is_staff u) then False
          else case get_kind reg (ar_kind r) of
                 None \<Rightarrow> True
               | Some k \<Rightarrow>
                   (case ak_can_decide k of
                      None \<Rightarrow> True
                    | Some hook \<Rightarrow> (case hook u r of Some b \<Rightarrow> b | None \<Rightarrow> False)))"

definition can_cancel :: "user \<Rightarrow> approval_request \<Rightarrow> bool" where
  "can_cancel u r =
     (case acting_pk u of
        None \<Rightarrow> False
      | Some pk \<Rightarrow> is_pending r \<and> (ar_requested_by r = Some pk \<or> is_staff u))"

section \<open>Filing\<close>

datatype approval_error = Disabled | Too_Many_Pending | Unknown_Kind | Not_Eligible | Not_Pending

definition pending_cap_reached :: "approval_settings \<Rightarrow> instant \<Rightarrow> string \<Rightarrow> user \<Rightarrow> approval_db \<Rightarrow> bool" where
  "pending_cap_reached cfg now kind actor db =
     (if as_max_pending cfg \<le> 0 \<or> us_pk actor = None then False
      else as_max_pending cfg \<le> int (tbl_count (\<lambda>r. q_actionable now r \<and> ar_requested_by r = us_pk actor \<and> ar_kind r = kind)
                                     (ad_requests db)))"

text \<open>The expiry of a new request: explicit, relative, the kind's, the installation's.\<close>

definition request_expiry ::
  "approval_settings \<Rightarrow> instant \<Rightarrow> approval_kind option \<Rightarrow> instant option \<Rightarrow> span option \<Rightarrow> instant option" where
  "request_expiry cfg now kind_def expires_at expires_in =
     (case expires_at of
        Some t \<Rightarrow> Some t
      | None \<Rightarrow>
          let e1 = (case expires_in of Some d \<Rightarrow> Some d | None \<Rightarrow> (case kind_def of Some k \<Rightarrow> ak_default_expires_in k | None \<Rightarrow> None));
              e2 = (case e1 of Some d \<Rightarrow> Some d
                    | None \<Rightarrow> if 0 < as_default_expires_minutes cfg
                              then Some (minutes_span (as_default_expires_minutes cfg)) else None)
          in map_option (\<lambda>d. now + d) e2)"

record filing =
  fl_kind :: string
  fl_title :: string
  fl_description :: string
  fl_context :: "(string \<times> string) list"
  fl_target :: "(string \<times> string \<times> string) option"
  fl_assignees :: "user list"
  fl_expires_at :: "instant option"
  fl_expires_in :: "span option"
  fl_require_known_kind :: bool
  fl_source :: string

definition log_write :: "user \<Rightarrow> nat \<Rightarrow> audit_action \<Rightarrow> string \<Rightarrow> approval_db \<Rightarrow> approval_db" where
  "log_write actor rid action source db =
     (if us_pk actor = None then db
      else db\<lparr>ad_audit := ad_audit db @ [\<lparr>au_request = rid, au_actor = us_pk actor, au_action = action, au_source = source\<rparr>]\<rparr>)"

definition next_request_id :: "approval_db \<Rightarrow> nat" where
  "next_request_id db = Suc (fold max (map ar_id (ad_requests db)) 0)"

definition request_approval ::
  "approval_settings \<Rightarrow> kind_registry \<Rightarrow> instant \<Rightarrow> user \<Rightarrow> filing \<Rightarrow> approval_db \<Rightarrow>
     (approval_error + approval_request) \<times> approval_db" where
  "request_approval cfg reg now actor f db =
     (if \<not> as_enabled cfg then (Inl Disabled, db)
      else if pending_cap_reached cfg now (fl_kind f) actor db then (Inl Too_Many_Pending, db)
      else if fl_require_known_kind f \<and> get_kind reg (fl_kind f) = None then (Inl Unknown_Kind, db)
      else
        let req = \<lparr>ar_id = next_request_id db, ar_kind = fl_kind f, ar_title = take 200 (fl_title f),
                   ar_description = fl_description f, ar_context = fl_context f,
                   ar_target = map_option (\<lambda>(ct, pk, repr). (ct, pk, take 200 repr)) (fl_target f),
                   ar_requested_by = us_pk actor,
                   ar_assignees = remdups (List.map_filter us_pk (fl_assignees f)),
                   ar_status = Pending, ar_decided_by = None, ar_decided_at = None, ar_decision_note = '''',
                   ar_expires_at = request_expiry cfg now (get_kind reg (fl_kind f)) (fl_expires_at f) (fl_expires_in f),
                   ar_callback_error = '''', ar_created_at = now, ar_updated_at = now\<rparr>;
            db1 = log_write actor (ar_id req) Addition (fl_source f) (db\<lparr>ad_requests := ad_requests db @ [req]\<rparr>)
        in (Inr req, db1\<lparr>ad_events := ad_events db1 @ [Requested (ar_id req) (us_pk actor)]\<rparr>))"

section \<open>Deciding\<close>

text \<open>The fields a claim writes; \<open>None\<close> leaves a column alone.\<close>

record claim_fields =
  cf_status :: approval_status
  cf_decided_by :: "nat option option"
  cf_decided_at :: instant
  cf_decision_note :: "string option"

definition apply_claim :: "claim_fields \<Rightarrow> approval_request \<Rightarrow> approval_request" where
  "apply_claim cf r = r\<lparr>ar_status := cf_status cf,
     ar_decided_by := (case cf_decided_by cf of Some d \<Rightarrow> d | None \<Rightarrow> ar_decided_by r),
     ar_decided_at := Some (cf_decided_at cf),
     ar_decision_note := (case cf_decision_note cf of Some n \<Rightarrow> n | None \<Rightarrow> ar_decision_note r)\<rparr>"

definition claim_request :: "nat \<Rightarrow> claim_fields \<Rightarrow> approval_db \<Rightarrow> approval_db option" where
  "claim_request pk cf db =
     (let open_row = (\<lambda>r. ar_id r = pk \<and> ar_status r = Pending)
      in if tbl_count open_row (ad_requests db) = 0 then None
         else Some (db\<lparr>ad_requests := tbl_update open_row (apply_claim cf) (ad_requests db)\<rparr>))"

abbreviation get_request :: "nat \<Rightarrow> approval_db \<Rightarrow> approval_request option" where
  "get_request pk db \<equiv> tbl_find ar_id pk (ad_requests db)"

definition update_request :: "nat \<Rightarrow> (approval_request \<Rightarrow> approval_request) \<Rightarrow> approval_db \<Rightarrow> approval_db" where
  "update_request pk f db = db\<lparr>ad_requests := tbl_update (\<lambda>r. ar_id r = pk) f (ad_requests db)\<rparr>"

text \<open>The last characters of a traceback.\<close>

definition last_chars :: "nat \<Rightarrow> string \<Rightarrow> string" where
  "last_chars n s = drop (length s - n) s"

definition run_callback :: "kind_registry \<Rightarrow> nat \<Rightarrow> approval_db \<Rightarrow> approval_db" where
  "run_callback reg pk db =
     (case get_request pk db of
        None \<Rightarrow> db
      | Some req \<Rightarrow>
          (case Option.bind (get_kind reg (ar_kind req)) ak_on_decision of
             None \<Rightarrow> db
           | Some callback \<Rightarrow>
               (case callback req of
                  None \<Rightarrow> db
                | Some tb \<Rightarrow> update_request pk (\<lambda>r. r\<lparr>ar_callback_error := last_chars 2000 tb\<rparr>) db)))"

text \<open>The re-save writes the row's own columns again and its \<open>updated_at\<close>.\<close>

definition finish_request ::
  "approval_settings \<Rightarrow> kind_registry \<Rightarrow> instant \<Rightarrow> nat \<Rightarrow> user option \<Rightarrow> string \<Rightarrow> approval_db \<Rightarrow> approval_db" where
  "finish_request cfg reg now pk actor source db =
     (let db1 = update_request pk (\<lambda>r. r\<lparr>ar_updated_at := now\<rparr>) (run_callback reg pk db);
          actor_pk = Option.bind actor us_pk;
          db2 = (case actor_pk of
                   None \<Rightarrow> if as_system_audit cfg
                           then db1\<lparr>ad_audit := ad_audit db1 @ [\<lparr>au_request = pk, au_actor = None, au_action = Change, au_source = source\<rparr>]\<rparr>
                           else db1
                 | Some a \<Rightarrow> db1\<lparr>ad_audit := ad_audit db1 @ [\<lparr>au_request = pk, au_actor = Some a, au_action = Change, au_source = source\<rparr>]\<rparr>)
      in db2\<lparr>ad_events := ad_events db2 @ [Decided pk actor_pk source]\<rparr>)"

definition expire_fields :: "instant \<Rightarrow> claim_fields" where
  "expire_fields now = \<lparr>cf_status = Expired, cf_decided_by = None, cf_decided_at = now, cf_decision_note = None\<rparr>"

text \<open>
  \<open>req\<close> is the caller's copy of the row, which may be older than the database; its assignees are
  a relation and are read from the database.
\<close>

definition with_assignees :: "approval_db \<Rightarrow> approval_request \<Rightarrow> approval_request" where
  "with_assignees db req =
     req\<lparr>ar_assignees := (case get_request (ar_id req) db of Some r \<Rightarrow> ar_assignees r | None \<Rightarrow> [])\<rparr>"

definition decide_request ::
  "approval_settings \<Rightarrow> kind_registry \<Rightarrow> instant \<Rightarrow> user \<Rightarrow> bool \<Rightarrow> string \<Rightarrow> string \<Rightarrow> approval_request \<Rightarrow> approval_db \<Rightarrow>
     (approval_error + approval_request) \<times> approval_db" where
  "decide_request cfg reg now actor approved note source req db =
     (if \<not> as_enabled cfg then (Inl Disabled, db)
      else if is_overdue now req then
        (case claim_request (ar_id req) (expire_fields now) db of
           None \<Rightarrow> (Inl Not_Pending, db)
         | Some db1 \<Rightarrow> (Inl Not_Pending, finish_request cfg reg now (ar_id req) None ''expiry'' db1))
      else if \<not> is_pending req then (Inl Not_Pending, db)
      else if \<not> can_decide cfg reg actor (with_assignees db req) then (Inl Not_Eligible, db)
      else
        (case claim_request (ar_id req)
                \<lparr>cf_status = (if approved then Approved else Rejected), cf_decided_by = Some (us_pk actor),
                 cf_decided_at = now, cf_decision_note = Some note\<rparr> db of
           None \<Rightarrow> (Inl Not_Pending, db)
         | Some db1 \<Rightarrow>
             let db2 = finish_request cfg reg now (ar_id req) (Some actor) source db1
             in (case get_request (ar_id req) db2 of Some r \<Rightarrow> Inr r | None \<Rightarrow> Inl Not_Pending, db2)))"

definition cancel_request ::
  "approval_settings \<Rightarrow> kind_registry \<Rightarrow> instant \<Rightarrow> user \<Rightarrow> string \<Rightarrow> string \<Rightarrow> approval_request \<Rightarrow> approval_db \<Rightarrow>
     (approval_error + approval_request) \<times> approval_db" where
  "cancel_request cfg reg now actor note source req db =
     (if \<not> as_enabled cfg then (Inl Disabled, db)
      else if \<not> can_cancel actor req then (Inl Not_Eligible, db)
      else
        (case claim_request (ar_id req)
                \<lparr>cf_status = Canceled, cf_decided_by = Some (us_pk actor), cf_decided_at = now,
                 cf_decision_note = Some note\<rparr> db of
           None \<Rightarrow> (Inl Not_Pending, db)
         | Some db1 \<Rightarrow>
             let db2 = finish_request cfg reg now (ar_id req) (Some actor) source db1
             in (case get_request (ar_id req) db2 of Some r \<Rightarrow> Inr r | None \<Rightarrow> Inl Not_Pending, db2)))"

section \<open>The expiry sweep\<close>

definition overdue_ids :: "instant \<Rightarrow> (approval_request \<Rightarrow> bool) \<Rightarrow> int option \<Rightarrow> approval_db \<Rightarrow> nat list" where
  "overdue_ids now qs limit db =
     (let overdue = map ar_id (sort_key (\<lambda>r. case ar_expires_at r of Some t \<Rightarrow> t | None \<Rightarrow> 0)
                       (filter (\<lambda>r. qs r \<and> q_overdue now r) (ad_requests db)))
      in case limit of
           Some l \<Rightarrow> if 0 \<le> l then take (nat l) overdue else overdue
         | None \<Rightarrow> overdue)"

fun expire_each :: "approval_settings \<Rightarrow> kind_registry \<Rightarrow> instant \<Rightarrow> nat list \<Rightarrow> approval_db \<Rightarrow> nat \<times> approval_db" where
  "expire_each cfg reg now [] db = (0, db)"
| "expire_each cfg reg now (pk # pks) db =
     (case claim_request pk (expire_fields now) db of
        None \<Rightarrow> expire_each cfg reg now pks db
      | Some db1 \<Rightarrow>
          (case expire_each cfg reg now pks (finish_request cfg reg now pk None ''expiry'' db1) of
             (n, db2) \<Rightarrow> (Suc n, db2)))"

definition mark_expired ::
  "approval_settings \<Rightarrow> kind_registry \<Rightarrow> instant \<Rightarrow> (approval_request \<Rightarrow> bool) \<Rightarrow> int option \<Rightarrow> approval_db \<Rightarrow> nat \<times> approval_db" where
  "mark_expired cfg reg now qs limit db = expire_each cfg reg now (overdue_ids now qs limit db) db"

definition pending_for :: "instant \<Rightarrow> user \<Rightarrow> approval_db \<Rightarrow> approval_request list" where
  "pending_for now u db = viewable_requests u (filter (q_actionable now) (ad_requests db))"

section \<open>Resolvers\<close>

text \<open>A remote payload value: absent, a string, a list of strings, an object with string fields, or anything else.\<close>

datatype payload =
    P_None | P_String string | P_Strings "string list" | P_Object "(string \<times> string) list"
  | P_Other bool  \<comment> \<open>its truth value\<close>

text \<open>\<open>s.partition(c)\<close> without its middle part.\<close>

definition partition_at :: "char \<Rightarrow> string \<Rightarrow> string \<times> string" where
  "partition_at c s =
     (takeWhile (\<lambda>x. x \<noteq> c) s, case dropWhile (\<lambda>x. x \<noteq> c) s of [] \<Rightarrow> [] | _ # rest \<Rightarrow> rest)"

text \<open>\<open>models\<close> is the content type table with the managers of its models.\<close>

definition resolve_target ::
  "(string \<Rightarrow> string \<Rightarrow> (string \<Rightarrow> 'obj option) option) \<Rightarrow> payload \<Rightarrow> string + 'obj option" where
  "resolve_target models spec =
     (let field = (\<lambda>k kvs. case map_of kvs k of Some v \<Rightarrow> v | None \<Rightarrow> '''');
          look = (\<lambda>app model pk.
            if app = '''' \<or> model = '''' \<or> pk = '''' then Inl ''target needs app_label, model and pk.''
            else case models app (py_lower model) of
                   None \<Rightarrow> Inl ''Unknown model''
                 | Some objs \<Rightarrow> (case objs pk of None \<Rightarrow> Inl ''No such object'' | Some x \<Rightarrow> Inr (Some x)))
      in case spec of
           P_None \<Rightarrow> Inr None
         | P_String s \<Rightarrow>
             if s = '''' then Inr None
             else if CHR '':'' \<notin> set s \<or> CHR ''.'' \<notin> set (fst (partition_at CHR '':'' s))
                  then Inl ''target must look like 'app_label.model:pk'.''
             else (case partition_at CHR '':'' s of (dotted, pk) \<Rightarrow>
                   case partition_at CHR ''.'' dotted of (app, model) \<Rightarrow> look app model pk)
         | P_Object kvs \<Rightarrow> look (field ''app_label'' kvs) (field ''model'' kvs) (field ''pk'' kvs)
         | _ \<Rightarrow> Inl ''target must be a string or an object.'')"

definition resolve_assignees ::
  "kind_registry \<Rightarrow> user list \<Rightarrow> payload \<Rightarrow> string \<Rightarrow> string + user list" where
  "resolve_assignees reg users names kind_key =
     (case names of
        P_None \<Rightarrow> Inr []
      | P_String '''' \<Rightarrow> Inr []
      | P_Strings [] \<Rightarrow> Inr []
      | P_Object [] \<Rightarrow> Inr []
      | P_Other False \<Rightarrow> Inr []
      | P_Strings ns \<Rightarrow>
          (case Option.bind (get_kind reg kind_key) ak_assignable of
             None \<Rightarrow> Inl ''does not accept remote assignees''
           | Some allow \<Rightarrow>
               let found = filter (\<lambda>u. us_username u \<in> set ns \<and> us_is_active u) users
               in if \<exists>n \<in> set ns. n \<notin> us_username ` set found then Inl ''unknown or inactive user''
                  else if \<exists>u \<in> set found. \<not> allow u then Inl ''does not allow assigning''
                  else Inr found)
      | _ \<Rightarrow> Inl ''assignees must be a list of usernames'')"

end
