(* ===== verification/Approval_Props.thy ===== *)
theory Approval_Props
  imports Approvals
begin

text \<open>
  What the approvals layer guarantees: one decision per request, terminal states that stay,
  exactly one decision event per decided request, no self-approval, query sets and row
  properties that agree, and a sweep that expires what is overdue and nothing else.
\<close>

section \<open>One decision wins\<close>

lemma claim_request_rows:
  assumes "claim_request pk cf db = Some db'"
  shows "ad_requests db' = tbl_update (\<lambda>r. ar_id r = pk \<and> ar_status r = Pending) (apply_claim cf) (ad_requests db)"
    "ad_events db' = ad_events db" "ad_audit db' = ad_audit db"
    "\<exists>r \<in> set (ad_requests db). ar_id r = pk \<and> ar_status r = Pending"
  using assms by (auto simp: claim_request_def Let_def tbl_count_pos split: if_splits)

lemma apply_claim_simps [simp]:
  "ar_id (apply_claim cf r) = ar_id r" "ar_status (apply_claim cf r) = cf_status cf"
  "ar_requested_by (apply_claim cf r) = ar_requested_by r" "ar_kind (apply_claim cf r) = ar_kind r"
  "ar_expires_at (apply_claim cf r) = ar_expires_at r" "ar_decided_at (apply_claim cf r) = Some (cf_decided_at cf)"
  by (simp_all add: apply_claim_def)

lemma claim_request_set:
  assumes "claim_request pk cf db = Some db'" "r \<in> set (ad_requests db')"
  shows "(r \<in> set (ad_requests db) \<and> (ar_id r = pk \<longrightarrow> ar_status r \<noteq> Pending)) \<or> ar_status r = cf_status cf"
  using assms(2) unfolding claim_request_rows(1) [OF assms(1)] tbl_update_def by auto

interpretation decision: conditional_claim claim_request
    "\<lambda>db pk. \<forall>r \<in> set (ad_requests db). ar_id r = pk \<longrightarrow> ar_status r \<noteq> Pending" "\<lambda>_ cf. cf_status cf \<noteq> Pending"
proof (unfold_locales, goal_cases)
  case (1 k w s s')
  then show ?case using claim_request_set by fastforce
next
  case (2 s k w)
  then show ?case by (auto simp: claim_request_def Let_def tbl_count_0)
next
  case (3 s k k' w s')
  then show ?case using claim_request_set by fastforce
qed

text \<open>C11: Of any number of simultaneous decisions, cancellations and expirations of one request at
  most one takes effect, whatever order the database puts them in.\<close>

theorem one_decision_wins:
  assumes "\<forall>(pk', cf) \<in> set attempts. cf_status cf \<in> {Approved, Rejected, Canceled, Expired}"
  shows "wins_for pk attempts (snd (race claim_request attempts db)) \<le> 1"
  using assms by (intro decision.at_most_one_winner) auto

lemma one_decision_wins_witness:
  "wins_for (1::nat) [(1, expire_fields 5), (1, expire_fields 6)]
     (snd (race claim_request [(1, expire_fields 5), (1, expire_fields 6)]
        \<lparr>ad_requests = [], ad_events = [], ad_audit = []\<rparr>)) \<le> 1"
  by (rule one_decision_wins) (simp add: expire_fields_def)

section \<open>Agreement of the definitions\<close>

text \<open>The query set for a status and the row property agree: the rows listed for a status are those
  whose effective status it is, so every row is counted under exactly one status.\<close>

theorem effective_status_agrees:
  assumes "distinct (map ar_id rows)"
  shows "for_effective_status v now rows = filter (\<lambda>r. effective_status now r = v) rows
    \<and> (\<Sum>v \<leftarrow> [Pending, Approved, Rejected, Canceled, Expired]. length (for_effective_status v now rows)) = length rows"
proof -
  have overdue: "ar_id r \<in> set (map ar_id (filter (q_overdue now) rows)) \<longleftrightarrow> q_overdue now r" if "r \<in> set rows" for r
    using that assms by (auto simp: distinct_map inj_on_def)
  have same: "q_overdue now r = is_overdue now r" for r
    by (auto simp: q_overdue_def is_overdue_def q_pending_def is_pending_def col_lte_def split: option.split)
  have agree: "for_effective_status v now rows = filter (\<lambda>r. effective_status now r = v) rows" for v
  proof -
    have act: "q_actionable now r \<longleftrightarrow> effective_status now r = Pending" for r
      by (auto simp: q_actionable_def q_pending_def effective_status_def is_overdue_def is_pending_def col_lte_def split: option.splits)
    have ex: "ar_status r = Expired \<or> q_overdue now r \<longleftrightarrow> effective_status now r = Expired" for r
      by (auto simp: effective_status_def same)
    have other: "ar_status r = v \<longleftrightarrow> effective_status now r = v" if "v \<noteq> Pending" "v \<noteq> Expired" for r
      using that by (auto simp: effective_status_def is_overdue_def is_pending_def)
    consider "v = Pending" | "v = Expired" | "v \<noteq> Pending" "v \<noteq> Expired" by blast
    then show ?thesis
    proof cases
      case 1
      have "q_actionable now = (\<lambda>r. effective_status now r = Pending)" by (rule ext) (rule act)
      with 1 show ?thesis by (simp add: for_effective_status_def)
    next
      case 2
      with overdue ex show ?thesis
        by (simp add: for_effective_status_def del: set_map set_filter cong: filter_cong)
    next
      case 3
      with other show ?thesis by (simp add: for_effective_status_def)
    qed
  qed
  have "(\<Sum>v \<leftarrow> [Pending, Approved, Rejected, Canceled, Expired]. length (filter (\<lambda>r. effective_status now r = v) rs)) = length rs" for rs
    by (induction rs) (auto, metis approval_status.exhaust)
  with agree show ?thesis by simp
qed

text \<open>The scoped query set shows a user exactly the rows that the row check lets the user see, and
  a deactivated or anonymous user sees none.\<close>

theorem viewable_agrees:
  "viewable_requests u rows = filter (can_view u) rows
   \<and> viewable_requests (u\<lparr>us_is_active := False\<rparr>) rows = [] \<and> viewable_requests (u\<lparr>us_pk := None\<rparr>) rows = []"
  by (simp add: viewable_requests_def can_view_def [abs_def] acting_pk_def is_staff_def split: option.split)

section \<open>Who may decide\<close>

text \<open>A kind's hook only narrows the policy: whoever may decide with the registry may decide
  without any hook, is active, is not the requester unless self-approval is allowed, and is an
  assignee or, where the request has none or staff may override, staff.\<close>

theorem hooks_only_narrow:
  assumes "can_decide cfg reg u r"
  shows "can_decide cfg Map.empty u r
    \<and> (\<exists>pk. us_is_active u \<and> us_pk u = Some pk \<and> ar_status r = Pending
         \<and> (ar_requested_by r \<noteq> Some pk \<or> as_allow_self_approve cfg)
         \<and> (pk \<in> set (ar_assignees r) \<or> (us_is_staff u \<and> (ar_assignees r = [] \<or> as_staff_override cfg))))"
  using assms
  by (auto simp: can_decide_def get_kind_def acting_pk_def is_staff_def is_pending_def split: option.splits if_splits)

definition demo_user :: "nat \<Rightarrow> user" where
  "demo_user n = \<lparr>us_pk = Some n, us_username = ''u'', us_is_active = True, us_is_staff = True\<rparr>"

definition demo_approval_settings :: approval_settings where
  "demo_approval_settings = \<lparr>as_enabled = True, as_allow_self_approve = False, as_staff_override = True, as_max_pending = 50,
     as_default_expires_minutes = 0, as_lazy_expire_limit = 25, as_system_audit = True\<rparr>"

definition demo_request :: "nat \<Rightarrow> instant option \<Rightarrow> approval_request" where
  "demo_request n e = \<lparr>ar_id = n, ar_kind = ''k'', ar_title = ''t'', ar_description = '''', ar_context = [], ar_target = None,
     ar_requested_by = Some 7, ar_assignees = [], ar_status = Pending, ar_decided_by = None, ar_decided_at = None,
     ar_decision_note = '''', ar_expires_at = e, ar_callback_error = '''', ar_created_at = 0, ar_updated_at = 0\<rparr>"

lemma hooks_only_narrow_witness:
  "can_decide demo_approval_settings Map.empty (demo_user 1) (demo_request 1 None)"
proof -
  have "can_decide demo_approval_settings
      (register_kind \<lparr>ak_key = ''k'', ak_on_decision = None, ak_can_decide = Some (\<lambda>_ _. Some True),
         ak_default_expires_in = None, ak_assignable = None\<rparr> Map.empty) (demo_user 1) (demo_request 1 None)"
    by (simp add: can_decide_def register_kind_def get_kind_def acting_pk_def is_staff_def is_pending_def
        demo_user_def demo_request_def)
  then show ?thesis using hooks_only_narrow by blast
qed

lemma effective_status_agrees_witness:
  "length (for_effective_status Expired 5 [demo_request 1 (Some 5), demo_request 2 None]) = 1"
  using effective_status_agrees [of "[demo_request 1 (Some 5), demo_request 2 None]" Expired 5]
  by (simp add: demo_request_def effective_status_def is_overdue_def is_pending_def)

section \<open>One transition\<close>

lemma tbl_update_twice:
  assumes "\<And>r. P (g r) = P r"
  shows "tbl_update P f (tbl_update P g rows) = tbl_update P (\<lambda>r. f (g r)) rows"
  using assms by (induction rows) auto

lemma run_callback_rows:
  obtains cb where "ad_requests (run_callback reg pk db) =
    tbl_update (\<lambda>r. ar_id r = pk) (\<lambda>r. r\<lparr>ar_callback_error := cb r\<rparr>) (ad_requests db)"
proof -
  have idle: "tbl_update P (\<lambda>r. r) rows = rows" for P and rows :: "approval_request list"
    by (induction rows) auto
  have "run_callback reg pk db = db \<or>
      (\<exists>tb. run_callback reg pk db = update_request pk (\<lambda>r. r\<lparr>ar_callback_error := tb\<rparr>) db)"
    by (auto simp: run_callback_def split: option.split)
  then show thesis
  proof (elim disjE exE)
    assume "run_callback reg pk db = db"
    then show thesis by (intro that [of ar_callback_error]) (simp add: idle)
  next
    fix tb assume "run_callback reg pk db = update_request pk (\<lambda>r. r\<lparr>ar_callback_error := tb\<rparr>) db"
    then show thesis by (intro that [of "\<lambda>_. tb"]) (simp add: update_request_def)
  qed
qed

lemma finish_rows:
  "\<exists>ce. ad_requests (finish_request cfg reg now pk actor source db) =
     tbl_update (\<lambda>r. ar_id r = pk) (\<lambda>r. r\<lparr>ar_callback_error := ce r, ar_updated_at := now\<rparr>) (ad_requests db)"
proof -
  obtain cb where "ad_requests (run_callback reg pk db) =
      tbl_update (\<lambda>r. ar_id r = pk) (\<lambda>r. r\<lparr>ar_callback_error := cb r\<rparr>) (ad_requests db)"
    by (rule run_callback_rows)
  then have "ad_requests (update_request pk (\<lambda>r. r\<lparr>ar_updated_at := now\<rparr>) (run_callback reg pk db)) =
     tbl_update (\<lambda>r. ar_id r = pk) (\<lambda>r. r\<lparr>ar_callback_error := cb r, ar_updated_at := now\<rparr>) (ad_requests db)"
    by (simp add: update_request_def tbl_update_twice)
  then show ?thesis by (auto simp: finish_request_def Let_def split: option.split)
qed

lemma finish_events:
  "ad_events (finish_request cfg reg now pk actor source db) = ad_events db @ [Decided pk (Option.bind actor us_pk) source]"
proof -
  have "ad_events (run_callback reg pk db) = ad_events db"
    by (auto simp: run_callback_def update_request_def split: option.split)
  then show ?thesis by (auto simp: finish_request_def Let_def update_request_def split: option.split)
qed

text \<open>A claim and what follows it replace the one pending row of the key and add one event.\<close>

lemma transition:
  assumes "distinct (map ar_id (ad_requests db))" "claim_request pk cf db = Some db1" "cf_status cf \<noteq> Pending"
  obtains row ce where "row \<in> set (ad_requests db)" "ar_id row = pk" "ar_status row = Pending"
    "set (ad_requests (finish_request cfg reg now pk actor source db1)) =
       insert ((apply_claim cf row)\<lparr>ar_callback_error := ce, ar_updated_at := now\<rparr>) (set (ad_requests db) - {row})"
    "map ar_id (ad_requests (finish_request cfg reg now pk actor source db1)) = map ar_id (ad_requests db)"
    "ad_events (finish_request cfg reg now pk actor source db1) = ad_events db @ [Decided pk (Option.bind actor us_pk) source]"
proof -
  note rows = claim_request_rows [OF assms(2)]
  obtain row where row: "row \<in> set (ad_requests db)" "ar_id row = pk" "ar_status row = Pending" using rows(4) by blast
  have only: "r = row" if "r \<in> set (ad_requests db)" "ar_id r = pk" for r
    using that row assms(1) by (auto simp: distinct_map inj_on_def)
  obtain ce where ce: "ad_requests (finish_request cfg reg now pk actor source db1) =
     tbl_update (\<lambda>r. ar_id r = pk) (\<lambda>r. r\<lparr>ar_callback_error := ce r, ar_updated_at := now\<rparr>) (ad_requests db1)"
    using finish_rows by blast
  let ?g = "\<lambda>r. r\<lparr>ar_callback_error := ce r, ar_updated_at := now\<rparr>"
  have same: "ad_requests (finish_request cfg reg now pk actor source db1) =
      map (\<lambda>r. if ar_id r = pk then ?g (apply_claim cf row) else r) (ad_requests db)"
    unfolding ce rows(1) tbl_update_def map_map
  proof (rule map_cong [OF refl])
    fix r assume "r \<in> set (ad_requests db)"
    with only [of r] row(3) show "((\<lambda>r. if ar_id r = pk then ?g r else r) \<circ>
        (\<lambda>r. if ar_id r = pk \<and> ar_status r = Pending then apply_claim cf r else r)) r
      = (if ar_id r = pk then ?g (apply_claim cf row) else r)" by (cases "ar_id r = pk") simp_all
  qed
  moreover have "set (map (\<lambda>r. if ar_id r = pk then x else r) (ad_requests db)) = insert x (set (ad_requests db) - {row})" for x
  proof
    show "set (map (\<lambda>r. if ar_id r = pk then x else r) (ad_requests db)) \<subseteq> insert x (set (ad_requests db) - {row})"
      using row(2) by auto
    show "insert x (set (ad_requests db) - {row}) \<subseteq> set (map (\<lambda>r. if ar_id r = pk then x else r) (ad_requests db))"
      using row(1,2) only by force
  qed
  moreover have "map ar_id (map (\<lambda>r. if ar_id r = pk then ?g (apply_claim cf row) else r) (ad_requests db)) = map ar_id (ad_requests db)"
    using row(2) by simp
  ultimately show thesis using that [OF row, of "ce (apply_claim cf row)"] finish_events rows(2) by simp
qed

section \<open>The machine of all operations\<close>

text \<open>A caller's copy of a row may be older than the row, but some columns never change.\<close>

definition copy_of :: "approval_request \<Rightarrow> approval_request \<Rightarrow> bool" where
  "copy_of req row \<longleftrightarrow> ar_id req = ar_id row \<and> ar_kind req = ar_kind row \<and> ar_requested_by req = ar_requested_by row
     \<and> ar_expires_at req = ar_expires_at row"

inductive approval_step :: "approval_settings \<Rightarrow> kind_registry \<Rightarrow> approval_db \<Rightarrow> approval_db \<Rightarrow> bool" for cfg reg where
  filed: "approval_step cfg reg db (snd (request_approval cfg reg now actor f db))"
| decide: "row \<in> set (ad_requests db) \<Longrightarrow> copy_of req row \<Longrightarrow>
     approval_step cfg reg db (snd (decide_request cfg reg now actor approved note source req db))"
| cancel: "row \<in> set (ad_requests db) \<Longrightarrow> copy_of req row \<Longrightarrow>
     approval_step cfg reg db (snd (cancel_request cfg reg now actor note source req db))"
| sweep: "approval_step cfg reg db (snd (mark_expired cfg reg now qs limit db))"

inductive approval_reachable :: "approval_settings \<Rightarrow> kind_registry \<Rightarrow> approval_db \<Rightarrow> bool" for cfg reg where
  start: "approval_reachable cfg reg \<lparr>ad_requests = [], ad_events = [], ad_audit = []\<rparr>"
| step: "approval_reachable cfg reg db \<Longrightarrow> approval_step cfg reg db db' \<Longrightarrow> approval_reachable cfg reg db'"

definition decisions :: "nat \<Rightarrow> approval_db \<Rightarrow> nat" where
  "decisions pk db = length (filter (\<lambda>e. case e of Decided p _ _ \<Rightarrow> p = pk | _ \<Rightarrow> False) (ad_events db))"

text \<open>What a single row satisfies, given the number of its decision events.\<close>

definition row_ok :: "approval_settings \<Rightarrow> nat \<Rightarrow> approval_request \<Rightarrow> bool" where
  "row_ok cfg n r \<longleftrightarrow>
     (if ar_status r = Pending then n = 0 \<and> ar_decided_by r = None \<and> ar_decided_at r = None
      else n = 1 \<and> ar_decided_at r \<noteq> None)
     \<and> (ar_status r \<in> {Approved, Rejected} \<longrightarrow> ar_decided_by r \<noteq> None
          \<and> (ar_decided_by r \<noteq> ar_requested_by r \<or> as_allow_self_approve cfg))"

definition approval_inv :: "approval_settings \<Rightarrow> approval_db \<Rightarrow> bool" where
  "approval_inv cfg db \<longleftrightarrow> distinct (map ar_id (ad_requests db))
     \<and> (\<forall>r \<in> set (ad_requests db). row_ok cfg (decisions (ar_id r) db) r)
     \<and> (\<forall>pk. decisions pk db \<noteq> 0 \<longrightarrow> pk \<in> ar_id ` set (ad_requests db))"

text \<open>Decided rows are final.\<close>

definition finals_kept :: "approval_db \<Rightarrow> approval_db \<Rightarrow> bool" where
  "finals_kept db db' \<longleftrightarrow> (\<forall>r \<in> set (ad_requests db). ar_status r \<noteq> Pending \<longrightarrow> r \<in> set (ad_requests db'))"

text \<open>The claims that may be made on a row.\<close>

definition claim_ok :: "approval_settings \<Rightarrow> claim_fields \<Rightarrow> approval_request \<Rightarrow> bool" where
  "claim_ok cfg cf row \<longleftrightarrow> cf_status cf \<noteq> Pending \<and>
     (cf_status cf \<in> {Approved, Rejected} \<longrightarrow>
        (\<exists>a. cf_decided_by cf = Some (Some a) \<and> (Some a \<noteq> ar_requested_by row \<or> as_allow_self_approve cfg)))"

lemma decisions_snoc:
  "ad_events db' = ad_events db @ [Decided p a s] \<Longrightarrow> decisions pk db' = decisions pk db + (if p = pk then 1 else 0)"
  by (simp add: decisions_def)

lemma transition_inv:
  assumes inv: "approval_inv cfg db" and claim: "claim_request pk cf db = Some db1"
    and ok: "\<And>row. row \<in> set (ad_requests db) \<Longrightarrow> ar_id row = pk \<Longrightarrow> claim_ok cfg cf row"
    and status: "cf_status cf \<noteq> Pending"
  shows "approval_inv cfg (finish_request cfg reg now pk actor source db1)
    \<and> finals_kept db (finish_request cfg reg now pk actor source db1)"
proof -
  obtain db2 where db2: "finish_request cfg reg now pk actor source db1 = db2" by blast
  have ids: "distinct (map ar_id (ad_requests db))" using inv by (simp add: approval_inv_def)
  obtain row ce where row: "row \<in> set (ad_requests db)" "ar_id row = pk" "ar_status row = Pending"
    and rows: "set (ad_requests db2) = insert ((apply_claim cf row)\<lparr>ar_callback_error := ce, ar_updated_at := now\<rparr>) (set (ad_requests db) - {row})"
    and same: "map ar_id (ad_requests db2) = map ar_id (ad_requests db)"
    and ev: "ad_events db2 = ad_events db @ [Decided pk (Option.bind actor us_pk) source]"
    by (rule transition [OF ids claim status, where cfg = cfg and reg = reg and now = now and actor = actor and source = source,
          unfolded db2]) (rule that)
  note dec = decisions_snoc [OF ev]
  have "row_ok cfg (decisions (ar_id row) db) row" using inv row(1) unfolding approval_inv_def by blast
  then have new: "row_ok cfg (decisions pk db2) ((apply_claim cf row)\<lparr>ar_callback_error := ce, ar_updated_at := now\<rparr>)"
    using row ok [OF row(1,2)] by (auto simp: row_ok_def dec claim_ok_def apply_claim_def)
  have old: "row_ok cfg (decisions (ar_id r) db2) r" if "r \<in> set (ad_requests db)" "r \<noteq> row" for r
  proof -
    have "ar_id r \<noteq> pk" using that row ids by (auto simp: distinct_map inj_on_def)
    with that inv show ?thesis by (simp add: approval_inv_def dec)
  qed
  have idset: "ar_id ` set (ad_requests db2) = ar_id ` set (ad_requests db)" using same by (metis set_map)
  have "approval_inv cfg db2"
    unfolding approval_inv_def same
  proof (intro conjI ballI allI impI)
    show "distinct (map ar_id (ad_requests db))" by (rule ids)
    fix r assume "r \<in> set (ad_requests db2)"
    then show "row_ok cfg (decisions (ar_id r) db2) r" using rows new old row(2) by auto
  next
    fix p assume "decisions p db2 \<noteq> 0"
    then show "p \<in> ar_id ` set (ad_requests db2)"
      using idset inv row by (auto simp: approval_inv_def dec split: if_splits)
  qed
  moreover have "finals_kept db db2" using rows row(3) by (auto simp: finals_kept_def)
  ultimately show ?thesis by (simp add: db2)
qed

section \<open>Invariant and finality\<close>

lemma finals_kept_refl: "finals_kept db db"
  by (simp add: finals_kept_def)

lemma finals_kept_trans: "finals_kept a b \<Longrightarrow> finals_kept b c \<Longrightarrow> finals_kept a c"
  by (auto simp: finals_kept_def)

lemma expire_inv:
  assumes "approval_inv cfg db" "claim_request pk (expire_fields now) db = Some db1"
  shows "approval_inv cfg (finish_request cfg reg now' pk actor source db1)
    \<and> finals_kept db (finish_request cfg reg now' pk actor source db1)"
  using assms by (intro transition_inv) (auto simp: claim_ok_def expire_fields_def)

lemma next_request_fresh: "next_request_id db \<notin> ar_id ` set (ad_requests db)"
  using Suc_fold_max_fresh [of _ "ad_requests db" ar_id] by (fastforce simp: next_request_id_def)

lemma log_write_simps [simp]:
  "ad_requests (log_write actor rid action source db) = ad_requests db"
  "ad_events (log_write actor rid action source db) = ad_events db"
  by (simp_all add: log_write_def)

lemma request_effect:
  assumes "fst (request_approval cfg reg now actor f db) = Inr req"
  shows "ar_id req = next_request_id db" "row_ok cfg 0 req"
    "ad_requests (snd (request_approval cfg reg now actor f db)) = ad_requests db @ [req]"
    "ad_events (snd (request_approval cfg reg now actor f db)) = ad_events db @ [Requested (ar_id req) (us_pk actor)]"
    "ar_requested_by req = us_pk actor" "ar_kind req = fl_kind f" "\<not> pending_cap_reached cfg now (fl_kind f) actor db"
  using assms by (auto simp: request_approval_def Let_def row_ok_def split: if_splits)

lemma request_inv:
  assumes "approval_inv cfg db"
  shows "approval_inv cfg (snd (request_approval cfg reg now actor f db))
    \<and> finals_kept db (snd (request_approval cfg reg now actor f db))"
proof (cases "\<exists>e. fst (request_approval cfg reg now actor f db) = Inl e")
  case True
  then have "snd (request_approval cfg reg now actor f db) = db"
    by (auto simp: request_approval_def Let_def split: if_splits)
  with assms finals_kept_refl show ?thesis by simp
next
  case False
  then obtain req where "fst (request_approval cfg reg now actor f db) = Inr req"
    by (cases "fst (request_approval cfg reg now actor f db)") auto
  note req = request_effect(1,2) [OF this] and db' = request_effect(3,4) [OF this]
  have dec: "decisions pk (snd (request_approval cfg reg now actor f db)) = decisions pk db" for pk
    by (simp add: decisions_def db')
  have "decisions (ar_id req) db = 0"
    using assms next_request_fresh [of db] req(1) by (auto simp: approval_inv_def)
  with assms req next_request_fresh [of db] show ?thesis
    by (auto simp: approval_inv_def finals_kept_def db' dec)
qed

lemma decide_inv:
  assumes inv: "approval_inv cfg db" and row: "row \<in> set (ad_requests db)" "copy_of req row"
  shows "approval_inv cfg (snd (decide_request cfg reg now actor approved note source req db))
    \<and> finals_kept db (snd (decide_request cfg reg now actor approved note source req db))"
proof -
  let ?cf = "\<lparr>cf_status = (if approved then Approved else Rejected), cf_decided_by = Some (us_pk actor),
                 cf_decided_at = now, cf_decision_note = Some note\<rparr>"
  have only: "r = row" if "r \<in> set (ad_requests db)" "ar_id r = ar_id req" for r
    using that row inv by (auto simp: approval_inv_def copy_of_def distinct_map inj_on_def)
  have "approval_inv cfg (finish_request cfg reg now (ar_id req) (Some actor) source db1)
      \<and> finals_kept db (finish_request cfg reg now (ar_id req) (Some actor) source db1)"
    if claim: "claim_request (ar_id req) ?cf db = Some db1" and may: "can_decide cfg reg actor (with_assignees db req)" for db1
  proof (rule transition_inv [OF inv claim])
    fix r assume "r \<in> set (ad_requests db)" "ar_id r = ar_id req"
    then have "r = row" by (rule only)
    with may row(2) show "claim_ok cfg ?cf r"
      by (auto simp: claim_ok_def can_decide_def with_assignees_def copy_of_def acting_pk_def split: option.splits if_splits)
  qed simp
  with expire_inv [OF inv] inv finals_kept_refl show ?thesis
    by (auto simp: decide_request_def Let_def split: option.split)
qed

lemma cancel_inv:
  assumes inv: "approval_inv cfg db"
  shows "approval_inv cfg (snd (cancel_request cfg reg now actor note source req db))
    \<and> finals_kept db (snd (cancel_request cfg reg now actor note source req db))"
proof -
  have "approval_inv cfg (finish_request cfg reg now (ar_id req) (Some actor) source db1)
      \<and> finals_kept db (finish_request cfg reg now (ar_id req) (Some actor) source db1)"
    if claim: "claim_request (ar_id req) \<lparr>cf_status = Canceled, cf_decided_by = Some (us_pk actor), cf_decided_at = now,
                 cf_decision_note = Some note\<rparr> db = Some db1" for db1
    by (rule transition_inv [OF inv claim]) (auto simp: claim_ok_def)
  with inv finals_kept_refl show ?thesis
    by (auto simp: cancel_request_def Let_def split: option.split)
qed

lemma expire_each_inv:
  "approval_inv cfg db \<Longrightarrow> approval_inv cfg (snd (expire_each cfg reg now pks db))
     \<and> finals_kept db (snd (expire_each cfg reg now pks db))"
proof (induction pks arbitrary: db)
  case Nil
  then show ?case by (simp add: finals_kept_refl)
next
  case (Cons pk pks)
  show ?case
  proof (cases "claim_request pk (expire_fields now) db")
    case None
    with Cons show ?thesis by simp
  next
    case (Some db1)
    let ?d = "finish_request cfg reg now pk None ''expiry'' db1"
    have d: "approval_inv cfg ?d" "finals_kept db ?d" using expire_inv [OF Cons.prems Some] by blast+
    from Cons.IH [OF d(1)] finals_kept_trans [OF d(2), of "snd (expire_each cfg reg now pks ?d)"] show ?thesis
      using Some by (simp add: split_beta)
  qed
qed

lemma approval_step_inv:
  "approval_step cfg reg db db' \<Longrightarrow> approval_inv cfg db \<Longrightarrow> approval_inv cfg db' \<and> finals_kept db db'"
  by (induction rule: approval_step.induct)
    (auto simp: request_inv decide_inv cancel_inv mark_expired_def expire_each_inv)

lemma approval_reachable_inv: "approval_reachable cfg reg db \<Longrightarrow> approval_inv cfg db"
proof (induction rule: approval_reachable.induct)
  case start
  show ?case by (simp add: approval_inv_def decisions_def)
next
  case (step db db')
  then show ?case using approval_step_inv by blast
qed

text \<open>C10: In every reachable state of the approvals layer (filings, decisions and cancellations on
  possibly stale copies, sweeps, in any order): a pending request has no decider, no decision
  time and no decision event; a decided one has a decision time and exactly one decision event;
  an approved or rejected one was decided by somebody, and not by its requester unless
  self-approval is allowed. And every further step leaves each decided row exactly as it is.\<close>

theorem approvals_reachable:
  assumes "approval_reachable cfg reg db"
  shows "(\<forall>r \<in> set (ad_requests db). row_ok cfg (decisions (ar_id r) db) r)
    \<and> (\<forall>db'. approval_step cfg reg db db' \<longrightarrow> finals_kept db db')"
  using approval_reachable_inv [OF assms] approval_step_inv by (auto simp: approval_inv_def)

definition demo_approval_db :: approval_db where
  "demo_approval_db = snd (request_approval demo_approval_settings Map.empty 0 (demo_user 7)
     \<lparr>fl_kind = ''k'', fl_title = ''t'', fl_description = '''', fl_context = [], fl_target = None, fl_assignees = [],
      fl_expires_at = Some 5, fl_expires_in = None, fl_require_known_kind = False, fl_source = ''web''\<rparr>
     \<lparr>ad_requests = [], ad_events = [], ad_audit = []\<rparr>)"

lemma demo_approval_reachable: "approval_reachable demo_approval_settings Map.empty demo_approval_db"
  unfolding demo_approval_db_def by (rule approval_reachable.step [OF approval_reachable.start approval_step.filed])

lemma demo_approval_rows: "ad_requests demo_approval_db = [demo_request 1 (Some 5)]"
  by (simp add: demo_approval_db_def request_approval_def demo_approval_settings_def pending_cap_reached_def demo_user_def
      Let_def log_write_def next_request_id_def request_expiry_def demo_request_def tbl_count_def)

lemma approvals_reachable_witness:
  "row_ok demo_approval_settings (decisions 1 demo_approval_db) (demo_request 1 (Some 5))"
  using approvals_reachable [OF demo_approval_reachable] by (simp add: demo_approval_rows demo_request_def)

section \<open>Overdue requests\<close>

text \<open>A decision on a request whose time has passed is refused, and the request is expired on the
  spot if it was still open: no approval or rejection lands on a dead request.\<close>

theorem overdue_never_decided:
  assumes "approval_inv cfg db" "as_enabled cfg" "row \<in> set (ad_requests db)" "copy_of req row" "is_overdue now req"
  shows "fst (decide_request cfg reg now actor approved note source req db) = Inl Not_Pending
    \<and> (\<forall>r \<in> set (ad_requests (snd (decide_request cfg reg now actor approved note source req db))).
         ar_id r = ar_id req \<longrightarrow> (if ar_status row = Pending then ar_status r = Expired else r = row))"
proof (cases "claim_request (ar_id req) (expire_fields now) db")
  case None
  have ids: "r = row" if "r \<in> set (ad_requests db)" "ar_id r = ar_id req" for r
    using that assms(1,3,4) by (auto simp: approval_inv_def copy_of_def distinct_map inj_on_def)
  have "ar_status row \<noteq> Pending"
    using None assms(3,4) by (auto simp: claim_request_def Let_def tbl_count_0 copy_of_def split: if_splits)
  with None assms(2,5) ids show ?thesis by (auto simp: decide_request_def)
next
  case (Some db1)
  have dist: "distinct (map ar_id (ad_requests db))" using assms(1) by (simp add: approval_inv_def)
  let ?d = "finish_request cfg reg now (ar_id req) None ''expiry'' db1"
  obtain r0 ce where r0: "r0 \<in> set (ad_requests db)" "ar_id r0 = ar_id req" "ar_status r0 = Pending"
    "set (ad_requests ?d) = insert ((apply_claim (expire_fields now) r0)\<lparr>ar_callback_error := ce, ar_updated_at := now\<rparr>)
        (set (ad_requests db) - {r0})"
    by (rule transition [OF dist Some, where cfg = cfg and reg = reg and now = now and actor = None and source = "''expiry''"])
      (auto simp: expire_fields_def)
  have only: "r = r0" if "r \<in> set (ad_requests db)" "ar_id r = ar_id req" for r
    using that r0(1,2) dist by (auto simp: distinct_map inj_on_def)
  then have "row = r0" using assms(3,4) by (simp add: copy_of_def)
  have "ar_status r = Expired" if r: "r \<in> set (ad_requests ?d)" "ar_id r = ar_id req" for r
  proof -
    have "r = (apply_claim (expire_fields now) r0)\<lparr>ar_callback_error := ce, ar_updated_at := now\<rparr>"
      using r r0(4) only by blast
    then show ?thesis by (simp add: expire_fields_def)
  qed
  moreover have "decide_request cfg reg now actor approved note source req db = (Inl Not_Pending, ?d)"
    using Some assms(2,5) by (simp add: decide_request_def)
  ultimately show ?thesis using r0(3) \<open>row = r0\<close> by simp
qed

lemma overdue_never_decided_witness:
  "fst (decide_request demo_approval_settings Map.empty 9 (demo_user 1) True '''' ''web'' (demo_request 1 (Some 5)) demo_approval_db)
     = Inl Not_Pending"
  using overdue_never_decided [OF approval_reachable_inv [OF demo_approval_reachable], of "demo_request 1 (Some 5)" "demo_request 1 (Some 5)" 9]
  by (auto simp: demo_approval_rows demo_approval_settings_def copy_of_def is_overdue_def is_pending_def demo_request_def)

lemma expire_each_effect:
  assumes "distinct (map ar_id (ad_requests db))" "distinct pks"
    and "\<forall>pk \<in> set pks. \<exists>r \<in> set (ad_requests db). ar_id r = pk \<and> ar_status r = Pending"
  shows "fst (expire_each cfg reg now pks db) = length pks
    \<and> (\<forall>r' \<in> set (ad_requests (snd (expire_each cfg reg now pks db))).
         if ar_id r' \<in> set pks then ar_status r' = Expired else r' \<in> set (ad_requests db))
    \<and> map ar_id (ad_requests (snd (expire_each cfg reg now pks db))) = map ar_id (ad_requests db)"
  using assms
proof (induction pks arbitrary: db)
  case Nil
  then show ?case by simp
next
  case (Cons pk pks)
  from Cons.prems(3) have "\<exists>r \<in> set (ad_requests db). ar_id r = pk \<and> ar_status r = Pending" by simp
  then obtain db1 where claim: "claim_request pk (expire_fields now) db = Some db1"
    by (auto simp: claim_request_def Let_def tbl_count_0)
  obtain d where d: "finish_request cfg reg now pk None ''expiry'' db1 = d" by blast
  obtain r0 ce where r0: "r0 \<in> set (ad_requests db)" "ar_id r0 = pk"
    "set (ad_requests d) = insert ((apply_claim (expire_fields now) r0)\<lparr>ar_callback_error := ce, ar_updated_at := now\<rparr>)
        (set (ad_requests db) - {r0})"
    and same: "map ar_id (ad_requests d) = map ar_id (ad_requests db)"
    by (rule transition [OF Cons.prems(1) claim, where cfg = cfg and reg = reg and now = now and actor = None and source = "''expiry''",
          unfolded d]) (auto simp: expire_fields_def)
  have others: "r \<in> set (ad_requests d)" if "r \<in> set (ad_requests db)" "ar_id r \<noteq> pk" for r
    using that r0 by auto
  have "\<forall>p \<in> set pks. \<exists>r \<in> set (ad_requests d). ar_id r = p \<and> ar_status r = Pending"
  proof
    fix p assume p: "p \<in> set pks"
    with Cons.prems(3) obtain r where "r \<in> set (ad_requests db)" "ar_id r = p" "ar_status r = Pending" by auto
    moreover have "p \<noteq> pk" using p Cons.prems(2) by auto
    ultimately show "\<exists>r \<in> set (ad_requests d). ar_id r = p \<and> ar_status r = Pending" using others by blast
  qed
  with Cons.IH [of d] Cons.prems(1,2) same have IH: "fst (expire_each cfg reg now pks d) = length pks"
    "\<forall>r' \<in> set (ad_requests (snd (expire_each cfg reg now pks d))).
         if ar_id r' \<in> set pks then ar_status r' = Expired else r' \<in> set (ad_requests d)"
    "map ar_id (ad_requests (snd (expire_each cfg reg now pks d))) = map ar_id (ad_requests db)" by simp_all
  have step: "if ar_id r = pk then ar_status r = Expired else r \<in> set (ad_requests db)" if "r \<in> set (ad_requests d)" for r
    using that r0 Cons.prems(1) by (auto simp: expire_fields_def distinct_map inj_on_def)
  have "if ar_id r' \<in> set (pk # pks) then ar_status r' = Expired else r' \<in> set (ad_requests db)"
    if "r' \<in> set (ad_requests (snd (expire_each cfg reg now pks d)))" for r'
    using IH(2) that step [of r'] by (cases "ar_id r' \<in> set pks") auto
  moreover have "expire_each cfg reg now (pk # pks) db
      = (Suc (fst (expire_each cfg reg now pks d)), snd (expire_each cfg reg now pks d))"
    using claim d by (simp add: split_beta)
  ultimately show ?case using IH(1,3) by simp
qed

text \<open>A sweep expires the overdue requests, oldest expiry first, and nothing else: with a limit it
  processes that many of them or all, it leaves every other row exactly as it was, and without a
  limit nothing is overdue afterwards.\<close>

theorem sweep_is_exact:
  fixes now l
  assumes "approval_inv cfg db"
  defines "n \<equiv> tbl_count (q_overdue now) (ad_requests db)"
  shows "fst (mark_expired cfg reg now (\<lambda>_. True) None db) = n
    \<and> fst (mark_expired cfg reg now (\<lambda>_. True) (Some (int l)) db) = min l n
    \<and> (\<forall>r \<in> set (ad_requests (snd (mark_expired cfg reg now (\<lambda>_. True) None db))). \<not> q_overdue now r)
    \<and> (\<forall>r \<in> set (ad_requests (snd (mark_expired cfg reg now (\<lambda>_. True) limit db))).
         r \<in> set (ad_requests db) \<or> (ar_status r = Expired \<and> ar_id r \<in> set (overdue_ids now (\<lambda>_. True) limit db)))"
proof -
  have dist: "distinct (map ar_id (ad_requests db))" using assms(1) by (simp add: approval_inv_def)
  let ?all = "overdue_ids now (\<lambda>_. True) None db"
  have all: "set ?all = ar_id ` {r \<in> set (ad_requests db). q_overdue now r}" "length ?all = n" "distinct ?all"
    using dist by (auto simp: overdue_ids_def n_def tbl_count_def distinct_map inj_on_def)
  have sub: "set (overdue_ids now (\<lambda>_. True) lim db) \<subseteq> set ?all" "distinct (overdue_ids now (\<lambda>_. True) lim db)" for lim
    using all(3) by (auto simp: overdue_ids_def Let_def dest: in_set_takeD split: option.split)
  have pend: "\<forall>pk \<in> set (overdue_ids now (\<lambda>_. True) lim db). \<exists>r \<in> set (ad_requests db). ar_id r = pk \<and> ar_status r = Pending" for lim
    using sub(1) [of lim] all(1) by (fastforce simp: q_overdue_def q_pending_def)
  note eff = expire_each_effect [OF dist sub(2) pend, where cfg = cfg and reg = reg and now = now]
  have "length (overdue_ids now (\<lambda>_. True) (Some (int l)) db) = min l n"
    using all(2) by (simp add: overdue_ids_def Let_def)
  moreover have "\<not> q_overdue now r" if r: "r \<in> set (ad_requests (snd (mark_expired cfg reg now (\<lambda>_. True) None db)))" for r
  proof
    assume o: "q_overdue now r"
    with r eff [of None] have "r \<in> set (ad_requests db)" "ar_id r \<notin> set ?all"
      by (auto simp: mark_expired_def q_overdue_def q_pending_def split: if_splits)
    with o all(1) show False by auto
  qed
  moreover have "r \<in> set (ad_requests db) \<or> (ar_status r = Expired \<and> ar_id r \<in> set (overdue_ids now (\<lambda>_. True) limit db))"
    if "r \<in> set (ad_requests (snd (mark_expired cfg reg now (\<lambda>_. True) limit db)))" for r
    using that eff [of limit] by (auto simp: mark_expired_def split: if_splits)
  ultimately show ?thesis
    using eff [of None] eff [of "Some (int l)"] all(2) by (simp add: mark_expired_def)
qed

lemma sweep_is_exact_witness:
  "fst (mark_expired demo_approval_settings Map.empty 9 (\<lambda>_. True) None demo_approval_db) = 1"
  using sweep_is_exact [OF approval_reachable_inv [OF demo_approval_reachable], of Map.empty 9 0 None]
  by (simp add: demo_approval_rows tbl_count_def q_overdue_def q_pending_def demo_request_def sql_simps)

section \<open>Limits on filing\<close>

text \<open>An identified requester never has more actionable requests of one kind than the cap: a filing
  that succeeds leaves at most \<open>as_max_pending\<close> of them, however many were decided or expired
  before.\<close>

theorem pending_cap_holds:
  assumes "fst (request_approval cfg reg now actor f db) = Inr req" "us_pk actor = Some pk" "0 < as_max_pending cfg"
  shows "int (tbl_count (\<lambda>r. q_actionable now r \<and> ar_requested_by r = Some pk \<and> ar_kind r = fl_kind f)
      (ad_requests (snd (request_approval cfg reg now actor f db)))) \<le> as_max_pending cfg"
  using request_effect(3,7) [OF assms(1)] assms(2,3)
  by (auto simp: pending_cap_reached_def tbl_count_def)

lemma pending_cap_holds_witness:
  "int (tbl_count (\<lambda>r. q_actionable 0 r \<and> ar_requested_by r = Some 7 \<and> ar_kind r = ''k'') (ad_requests demo_approval_db)) \<le> 50"
proof -
  let ?f = "\<lparr>fl_kind = ''k'', fl_title = ''t'', fl_description = '''', fl_context = [], fl_target = None, fl_assignees = [],
      fl_expires_at = Some 5, fl_expires_in = None, fl_require_known_kind = False, fl_source = ''web''\<rparr>"
  have "fst (request_approval demo_approval_settings Map.empty 0 (demo_user 7) ?f \<lparr>ad_requests = [], ad_events = [], ad_audit = []\<rparr>)
      = Inr (demo_request 1 (Some 5))"
    by (simp add: request_approval_def demo_approval_settings_def pending_cap_reached_def demo_user_def
        Let_def log_write_def next_request_id_def request_expiry_def demo_request_def tbl_count_def)
  from pending_cap_holds [OF this, of 7] show ?thesis
    by (simp add: demo_approval_db_def demo_user_def demo_approval_settings_def)
qed

section \<open>The registry and the resolvers\<close>

text \<open>Autodiscovery may declare kinds any number of times: the kind found under a key is the one
  declared first, and running all declarations again changes no lookup.\<close>

theorem kinds_first_wins:
  "get_kind (fold register_kind ks reg) key
     = (case get_kind reg key of Some k \<Rightarrow> Some k | None \<Rightarrow> find (\<lambda>k. ak_key k = key) ks)
   \<and> get_kind (fold register_kind ks (fold register_kind ks reg)) key = get_kind (fold register_kind ks reg) key"
  using kinds.fold_first [of ks reg key] kinds.rediscovery_idempotent [of ks reg key] by simp

lemma guarded_Inr: "Inr y = (if a then Inl e else if b then Inl e' else Inr x) \<longleftrightarrow> \<not> a \<and> \<not> b \<and> y = x"
  by auto

text \<open>A remote caller can only route a request at accounts its kind allows: when names are resolved,
  each resulting user is active, was named and passes the kind's allowlist, every name is
  resolved, and a kind that declares no allowlist accepts no name at all.\<close>

theorem assignees_are_allowed:
  assumes "resolve_assignees reg users (P_Strings names) kind_key = Inr us" "names \<noteq> []"
  shows "(\<exists>k allow. get_kind reg kind_key = Some k \<and> ak_assignable k = Some allow \<and> (\<forall>u \<in> set us. allow u))
    \<and> (\<forall>u \<in> set us. u \<in> set users \<and> us_is_active u \<and> us_username u \<in> set names)
    \<and> us_username ` set us = set names"
proof -
  from assms(2) obtain n ns where names: "names = n # ns" by (cases names) auto
  with assms(1) obtain allow where allow: "Option.bind (get_kind reg kind_key) ak_assignable = Some allow"
    by (auto simp: resolve_assignees_def split: option.splits)
  let ?found = "filter (\<lambda>u. us_username u \<in> set names \<and> us_is_active u) users"
  have eq: "resolve_assignees reg users (P_Strings names) kind_key =
      (if \<exists>n \<in> set names. n \<notin> us_username ` set ?found then Inl ''unknown or inactive user''
       else if \<exists>u \<in> set ?found. \<not> allow u then Inl ''does not allow assigning'' else Inr ?found)"
    unfolding resolve_assignees_def names by (simp only: payload.case list.case allow option.case Let_def)
  have us: "us = ?found" and all: "\<not> (\<exists>n \<in> set names. n \<notin> us_username ` set ?found)"
    and allowed: "\<not> (\<exists>u \<in> set ?found. \<not> allow u)"
    using guarded_Inr [THEN iffD1, OF trans [OF sym [OF assms(1)] eq]] by blast+
  have named: "us_username ` set us = set names" using all us by auto
  note named
  moreover have "\<exists>k. get_kind reg kind_key = Some k \<and> ak_assignable k = Some allow"
    using allow by (auto simp: bind_eq_Some_conv)
  moreover have "\<forall>u \<in> set us. u \<in> set users \<and> us_is_active u \<and> us_username u \<in> set names" "\<forall>u \<in> set us. allow u"
    using us allowed by auto
  ultimately show ?thesis by blast
qed

lemma assignees_are_allowed_witness:
  "us_is_active (demo_user 3)
   \<and> (\<exists>k allow. get_kind [''k'' \<mapsto> \<lparr>ak_key = ''k'', ak_on_decision = None, ak_can_decide = None, ak_default_expires_in = None,
        ak_assignable = Some (\<lambda>u. us_pk u = Some 3)\<rparr>] ''k'' = Some k \<and> ak_assignable k = Some allow \<and> allow (demo_user 3))"
proof -
  let ?k = "\<lparr>ak_key = ''k'', ak_on_decision = None, ak_can_decide = None, ak_default_expires_in = None,
        ak_assignable = Some (\<lambda>u. us_pk u = Some 3)\<rparr>"
  have "resolve_assignees [''k'' \<mapsto> ?k] [demo_user 3] (P_Strings [''u'']) ''k'' = Inr [demo_user 3]"
    by (simp add: resolve_assignees_def get_kind_def demo_user_def)
  from assignees_are_allowed [OF this] show ?thesis by auto
qed

section \<open>Observation\<close>

text \<open>A requester who cancels a request that is already decided is told not to be eligible, where a
  decision on it would be told that it is not pending.\<close>

lemma cancel_of_decided_says_not_eligible:
  assumes "as_enabled cfg" "ar_status req = Approved" "us_is_active actor" "us_pk actor = Some pk" "ar_requested_by req = Some pk"
  shows "cancel_request cfg reg now actor note source req db = (Inl Not_Eligible, db)
    \<and> decide_request cfg reg now actor b note source req db = (Inl Not_Pending, db)"
  using assms by (simp add: cancel_request_def can_cancel_def decide_request_def is_overdue_def is_pending_def acting_pk_def)

end
