(* ===== verification/Webhook_Hooks.thy ===== *)
theory Webhook_Hooks
  imports Interfaces Py_Json Py_Net
begin

text \<open>
  The parts of the webhook app that other parts build on: the rows
  (\<open>apps/webhooks/models.py\<close>), signing, the guard against server-side request forgery, event
  patterns and backoff (first half of \<open>services.py\<close>), the hook registries and the
  case-insensitive header dict (\<open>hooks.py\<close>), the handler registry (\<open>registry.py\<close>) and the
  suppression counter and origin (\<open>context.py\<close>).

  Parameters, in the record \<open>webhook_env\<close>: the digests, name resolution, the HTTP-date parser,
  the JSON serialiser, the UTF-8 decoder, the hostname, and whether the task queue accepts a
  task. A body of bytes
  is a \<^typ>\<open>string\<close> of code points below 256. A site setting is one that \<open>urlsplit\<close> accepts.
\<close>

section \<open>Rows\<close>

datatype delivery_status = DPending | DRetrying | DSuccess | DFailed | DDead

datatype receipt_status = RAccepted | RRejected | RProcessed | RFailed | RIgnored

datatype endpoint_status = ESuccess | EFailed | ERetrying | EDead

record webhook_endpoint =
  we_id :: nat
  we_name :: string
  we_target_url :: string
  we_secret :: string
  we_event_filter :: "string list"
  we_headers :: "(string \<times> string) list"
  we_enabled :: bool
  we_is_paired :: bool
  we_transform :: string
  we_auth_scheme :: string
  we_owner :: "nat option"
  we_last_delivery_at :: "instant option"
  we_last_status :: "endpoint_status option"
  we_total_deliveries :: nat
  we_consecutive_failures :: nat

record webhook_delivery =
  wd_id :: nat
  wd_endpoint :: nat
  wd_event_type :: string
  wd_payload :: json
  wd_event_id :: "string option"
  wd_status :: delivery_status
  wd_attempt :: nat
  wd_max_attempts :: nat
  wd_next_attempt_at :: "instant option"
  wd_response_status :: "int option"
  wd_response_ms :: "int option"
  wd_error :: string
  wd_created_at :: instant

record webhook_receiver =
  wr_id :: nat
  wr_name :: string
  wr_slug :: string
  wr_handler :: string
  wr_secret :: string
  wr_signature_header :: string
  wr_require_signature :: bool
  wr_enabled :: bool
  wr_is_paired :: bool
  wr_verifier :: string
  wr_challenge :: string
  wr_ignore_origin :: string
  wr_owner :: "nat option"
  wr_last_received_at :: "instant option"
  wr_total_received :: nat

record webhook_receipt =
  rc_id :: nat
  rc_receiver :: nat
  rc_received_at :: instant
  rc_source_ip :: "string option"
  rc_headers :: "(string \<times> string) list"
  rc_body :: string
  rc_verified :: bool
  rc_origin :: string
  rc_status :: receipt_status
  rc_error :: string

definition is_terminal :: "webhook_delivery \<Rightarrow> bool" where
  "is_terminal d \<longleftrightarrow> wd_status d \<in> {DSuccess, DDead}"

definition handler_name :: "webhook_receiver \<Rightarrow> string" where
  "handler_name r = (if wr_handler r \<noteq> '''' then wr_handler r else wr_slug r)"

text \<open>\<open>any(fnmatch(event_type, pat) for pat in event_filter)\<close>.\<close>

definition endpoint_matches :: "webhook_endpoint \<Rightarrow> string \<Rightarrow> bool" where
  "endpoint_matches ep event_type = list_ex (fnmatch event_type) (we_event_filter ep)"

definition SECRET_PREVIEW_LEN :: nat where "SECRET_PREVIEW_LEN = 6"

text \<open>The preview: \<open>None\<close> stands for the dash, otherwise what is shown before the ellipsis.\<close>

definition secret_preview :: "string \<Rightarrow> string option" where
  "secret_preview s = (if s = '''' then None else Some (take SECRET_PREVIEW_LEN s))"

section \<open>Settings and environment\<close>

text \<open>What the app puts on the task queue.\<close>

datatype webhook_task = Deliver nat | Dispatch nat | MailDead nat

record webhook_settings =
  ws_enabled :: bool
  ws_outbound :: bool
  ws_inbound :: bool
  ws_max_attempts :: nat
  ws_backoff :: "int list"
  ws_max_backoff :: int
  ws_allowlist :: "string list"
  ws_allow_private :: bool
  ws_auto_disable_after :: nat
  ws_failure_emails :: "string list"
  ws_inbound_max_bytes :: int
  ws_rejected_per_minute :: int
  ws_origin :: string
  ws_site_urls :: "string list"

record webhook_env =
  wv_settings :: webhook_settings
  wv_hmac :: "string \<Rightarrow> string \<Rightarrow> string"
  wv_sha256 :: "string \<Rightarrow> string"
  wv_resolve :: "string \<Rightarrow> nat \<Rightarrow> string list option"
  wv_http_date :: "string \<Rightarrow> instant option"
  wv_dumps :: "json \<Rightarrow> string"
  wv_utf8 :: "string \<Rightarrow> string"
  wv_hostname :: "string option"
  wv_broker :: "webhook_task \<Rightarrow> bool"

definition DEFAULT_MAX_BACKOFF :: int where "DEFAULT_MAX_BACKOFF = 21600"

text \<open>The defaults of the \<open>getattr(settings, ..)\<close> calls.\<close>

definition default_webhook_settings :: webhook_settings where
  "default_webhook_settings = \<lparr>ws_enabled = True, ws_outbound = True, ws_inbound = True,
     ws_max_attempts = 5, ws_backoff = [], ws_max_backoff = DEFAULT_MAX_BACKOFF, ws_allowlist = [],
     ws_allow_private = False, ws_auto_disable_after = 20, ws_failure_emails = [],
     ws_inbound_max_bytes = 1048576, ws_rejected_per_minute = 30, ws_origin = '''',
     ws_site_urls = []\<rparr>"

section \<open>Signatures\<close>

definition SIGNATURE_HEADER :: string where "SIGNATURE_HEADER = ''X-SmallStack-Signature''"
definition EVENT_HEADER :: string where "EVENT_HEADER = ''X-SmallStack-Event''"
definition DELIVERY_HEADER :: string where "DELIVERY_HEADER = ''X-SmallStack-Delivery''"
definition EVENT_ID_HEADER :: string where "EVENT_ID_HEADER = ''X-SmallStack-Event-Id''"
definition ORIGIN_HEADER :: string where "ORIGIN_HEADER = ''X-SmallStack-Origin''"

definition sign :: "webhook_env \<Rightarrow> string \<Rightarrow> string \<Rightarrow> string" where
  "sign env secret body = wv_hmac env secret body"

definition signature_header_value :: "webhook_env \<Rightarrow> string \<Rightarrow> string \<Rightarrow> string" where
  "signature_header_value env secret body = ''sha256='' @ sign env secret body"

text \<open>\<open>hmac.compare_digest\<close> of two strings raises \<open>TypeError\<close> (here \<open>None\<close>) when one has a
  character outside ASCII.\<close>

definition ascii :: "string \<Rightarrow> bool" where
  "ascii s \<longleftrightarrow> list_all (\<lambda>c. code c < 128) s"

definition compare_digest :: "string \<Rightarrow> string \<Rightarrow> bool option" where
  "compare_digest a b = (if ascii a \<and> ascii b then Some (a = b) else None)"

definition verify :: "webhook_env \<Rightarrow> string \<Rightarrow> string \<Rightarrow> string \<Rightarrow> bool option" where
  "verify env secret body provided =
     (if provided = '''' \<or> secret = '''' then Some False
      else (let expected = sign env secret body;
                candidate = (if startswith provided ''sha256='' then after_char CHR ''='' provided else provided)
            in compare_digest expected (strip candidate)))"

section \<open>The request guard\<close>

definition ip_is_blocked :: "string \<Rightarrow> bool" where
  "ip_is_blocked ip =
     (case ip_address (before_char CHR ''%'' ip) of
        None \<Rightarrow> False
      | Some a0 \<Rightarrow>
         (let a = (case a0 of V6 w \<Rightarrow> (case ipv4_mapped w of Some v \<Rightarrow> V4 v | None \<Rightarrow> a0) | V4 v \<Rightarrow> a0)
          in is_private a \<or> is_loopback a \<or> is_link_local a \<or> is_reserved a \<or> is_multicast a
             \<or> is_unspecified a))"

datatype url_verdict = UrlOk | NotHttp | NoHost | NotAllowlisted string | PrivateAddress string string

text \<open>\<open>url_is_allowed\<close>: \<open>None\<close> is the \<open>ValueError\<close> that \<open>urlsplit\<close> or \<open>parts.port\<close> raises; the
  function does not catch it.\<close>

definition url_is_allowed :: "webhook_env \<Rightarrow> string \<Rightarrow> url_verdict option" where
  "url_is_allowed env url =
     (let cfg = wv_settings env in
      case urlsplit url of
        None \<Rightarrow> None
      | Some parts \<Rightarrow>
         if up_scheme parts \<notin> {''http'', ''https''} then Some NotHttp
         else (case up_hostname parts of
           None \<Rightarrow> Some NoHost
         | Some host \<Rightarrow>
            if ws_allowlist cfg \<noteq> [] \<and>
               \<not> list_ex (\<lambda>a. py_lower host = a \<or> endswith (py_lower host) (CHR ''.'' # a)) (ws_allowlist cfg)
            then Some (NotAllowlisted host)
            else if ws_allow_private cfg then Some UrlOk
            else (case up_port parts of
              None \<Rightarrow> None
            | Some port \<Rightarrow>
               (case wv_resolve env host
                       (case port of Some p \<Rightarrow> if p = 0 then (if up_scheme parts = ''https'' then 443 else 80) else p
                        | None \<Rightarrow> if up_scheme parts = ''https'' then 443 else 80) of
                  None \<Rightarrow> Some UrlOk
                | Some ips \<Rightarrow>
                   (case find ip_is_blocked ips of
                      Some ip \<Rightarrow> Some (PrivateAddress host ip)
                    | None \<Rightarrow> Some UrlOk)))))"

section \<open>Waits\<close>

definition backoff_schedule :: "webhook_settings \<Rightarrow> int list" where
  "backoff_schedule cfg = (if ws_backoff cfg = [] then [60, 300, 1800, 7200, 21600] else ws_backoff cfg)"

definition backoff_seconds :: "webhook_settings \<Rightarrow> int \<Rightarrow> int" where
  "backoff_seconds cfg attempt =
     (let schedule = backoff_schedule cfg;
          idx = max 0 (min (attempt - 1) (int (length schedule) - 1))
      in schedule ! nat idx)"

definition clamp_backoff :: "webhook_settings \<Rightarrow> int \<Rightarrow> int" where
  "clamp_backoff cfg seconds = max 0 (min seconds (ws_max_backoff cfg))"

text \<open>\<open>str.isdigit\<close> holds of the superscripts 1, 2, 3 too, which \<open>int()\<close> refuses, and \<open>int()\<close>
  refuses more than 4300 digits: both are a \<open>ValueError\<close>, the outer \<open>None\<close>.\<close>

definition py_isdigit :: "string \<Rightarrow> bool" where
  "py_isdigit s \<longleftrightarrow> s \<noteq> [] \<and> list_all (\<lambda>c. py_digit c \<or> code c \<in> {178, 179, 185}) s"

definition py_int :: "string \<Rightarrow> int option" where
  "py_int s = (if list_all py_digit s \<and> length s \<le> 4300 then Some (int (digits_value s)) else None)"

definition parse_retry_after :: "webhook_env \<Rightarrow> instant \<Rightarrow> string option \<Rightarrow> int option option" where
  "parse_retry_after env now v =
     (case v of
        None \<Rightarrow> Some None
      | Some raw \<Rightarrow>
         if raw = '''' then Some None
         else (let s = strip raw in
           if py_isdigit s then map_option Some (py_int s)
           else (case wv_http_date env s of
                   None \<Rightarrow> Some None
                 | Some t \<Rightarrow> Some (Some (max 0 (int_seconds (t - now)))))))"

section \<open>Event patterns\<close>

definition pattern_char :: "char \<Rightarrow> bool" where
  "pattern_char c \<longleftrightarrow> is_alpha c \<or> py_digit c \<or> c \<in> set ''_*?[]!-''"

text \<open>\<open>_PATTERN_RE.match\<close>: the \<open>$\<close> of the expression also stands before a final newline.\<close>

definition pattern_re :: "string \<Rightarrow> bool" where
  "pattern_re s =
     (let ok = (\<lambda>t. list_all (\<lambda>w. w \<noteq> [] \<and> list_all pattern_char w) (split_where (\<lambda>c. c = CHR ''.'') t))
      in ok s \<or> (s \<noteq> [] \<and> code (last s) = 10 \<and> ok (butlast s)))"

datatype pattern_error = NotAList | NotAPattern json | BadShape string

definition pattern_errors_of :: "json \<Rightarrow> pattern_error list" where
  "pattern_errors_of p =
     (case p of
        JStr s \<Rightarrow> if strip s = '''' then [NotAPattern p] else if pattern_re s then [] else [BadShape s]
      | _ \<Rightarrow> [NotAPattern p])"

definition validate_event_patterns :: "json \<Rightarrow> pattern_error list" where
  "validate_event_patterns patterns =
     (case patterns of JList ps \<Rightarrow> concat (map pattern_errors_of ps) | _ \<Rightarrow> [NotAList])"

text \<open>The registered CRUD views, as far as the webhook app reads them: the model's labels, its
  verbose name, and the two webhook options.\<close>

record webhook_view =
  wm_app_label :: string
  wm_model_name :: string
  wm_verbose_name :: string
  wm_enable_webhooks :: bool
  wm_webhook_events :: "string list option"
  wm_url_base :: string

definition wm_label :: "webhook_view \<Rightarrow> string" where
  "wm_label v = wm_app_label v @ ''.'' @ wm_model_name v"

definition all_actions :: "string list" where
  "all_actions = [''created'', ''updated'', ''deleted'']"

definition view_events :: "webhook_view \<Rightarrow> string list" where
  "view_events v =
     (let label = wm_label v;
          actions = (case wm_webhook_events v of None \<Rightarrow> all_actions | Some [] \<Rightarrow> all_actions | Some as \<Rightarrow> as)
      in (label @ ''.*'') # map (\<lambda>a. label @ ''.'' @ a) actions)"

definition available_events :: "webhook_view list \<Rightarrow> string list" where
  "available_events views =
     [''*'', ''*.created'', ''*.updated'', ''*.deleted''] @
     sort (remdups (concat (map view_events (filter wm_enable_webhooks views))))"

definition unmatched_patterns :: "webhook_view list \<Rightarrow> json \<Rightarrow> string list" where
  "unmatched_patterns views patterns =
     (let known = filter (\<lambda>e. CHR ''*'' \<notin> set e) (available_events views) in
      case patterns of
        JList ps \<Rightarrow>
          if known = [] then []
          else List.map_filter (\<lambda>p. case p of
                 JStr s \<Rightarrow> if pattern_re s \<and> \<not> list_ex (\<lambda>e. fnmatch e s) known then Some s else None
               | _ \<Rightarrow> None) ps
      | _ \<Rightarrow> [])"

definition describe_event_pattern :: "webhook_view list \<Rightarrow> string \<Rightarrow> string" where
  "describe_event_pattern views pattern =
     (case map_of [(''*'', ''everything this instance emits''), (''*.created'', ''any record is created''),
                   (''*.updated'', ''any record is updated''), (''*.deleted'', ''any record is deleted'')] pattern of
        Some hint \<Rightarrow> hint
      | None \<Rightarrow>
         (case split_where (\<lambda>c. c = CHR ''.'') pattern of
            [app, model, action] \<Rightarrow>
              (let verbose = (case find (\<lambda>v. wm_app_label v = app \<and> wm_model_name v = model) views of
                                None \<Rightarrow> model | Some v \<Rightarrow> wm_verbose_name v)
               in if action = ''*'' then ''anything happens to a '' @ verbose
                  else if action \<in> set all_actions then ''a '' @ verbose @ '' is '' @ action
                  else verbose @ '': '' @ action)
          | _ \<Rightarrow> ''''))"

section \<open>Header dicts\<close>

text \<open>\<open>CaseInsensitiveDict\<close>: an association list in insertion order.\<close>

type_synonym headers = "(string \<times> string) list"

definition ci_actual :: "string \<Rightarrow> headers \<Rightarrow> string option" where
  "ci_actual k d =
     (if k \<in> fst ` set d then Some k
      else map_option fst (find (\<lambda>(k', _). py_lower k' = py_lower k) (rev d)))"

definition ci_get :: "string \<Rightarrow> headers \<Rightarrow> string option" where
  "ci_get k d = (case ci_actual k d of None \<Rightarrow> None | Some a \<Rightarrow> map_of d a)"

definition ci_set :: "string \<Rightarrow> string \<Rightarrow> headers \<Rightarrow> headers" where
  "ci_set k v d = dict_set (case ci_actual k d of Some a \<Rightarrow> a | None \<Rightarrow> k) v d"

text \<open>\<open>del d[k]\<close>: \<open>None\<close> is the \<open>KeyError\<close>; \<open>d.pop(k)\<close> returns the value as well.\<close>

definition ci_del :: "string \<Rightarrow> headers \<Rightarrow> headers option" where
  "ci_del k d = map_option (\<lambda>a. dict_del a d) (ci_actual k d)"

definition ci_pop :: "string \<Rightarrow> headers \<Rightarrow> (string \<times> headers) option" where
  "ci_pop k d =
     (case ci_actual k d of
        None \<Rightarrow> None
      | Some a \<Rightarrow> map_option (\<lambda>v. (v, dict_del a d)) (map_of d a))"

definition ci_setdefault :: "string \<Rightarrow> string \<Rightarrow> headers \<Rightarrow> string \<times> headers" where
  "ci_setdefault k v d =
     (case ci_get k d of Some u \<Rightarrow> (u, d) | None \<Rightarrow> (v, dict_set k v d))"

definition ci_update :: "headers \<Rightarrow> headers \<Rightarrow> headers" where
  "ci_update d other = fold (\<lambda>(k, v). ci_set k v) other d"

text \<open>The constructor and \<open>copy\<close>.\<close>

definition ci_dict :: "headers \<Rightarrow> headers" where
  "ci_dict other = ci_update [] other"

section \<open>Hook registries\<close>

type_synonym 'f hooks = "(string \<times> 'f) list"

definition register_hook :: "string \<times> 'f \<Rightarrow> 'f hooks \<Rightarrow> 'f hooks" where
  "register_hook h registry =
     (case map_of registry (fst h) of Some _ \<Rightarrow> registry | None \<Rightarrow> registry @ [h])"

text \<open>\<open>_resolve\<close>: an unknown name falls back to the default; \<open>None\<close> is the \<open>KeyError\<close> of a
  registry without its default.\<close>

definition resolve_hook :: "'f hooks \<Rightarrow> string \<Rightarrow> string \<Rightarrow> 'f option" where
  "resolve_hook registry dflt name =
     (case map_of registry (if name = '''' then dflt else name) of
        Some f \<Rightarrow> Some f | None \<Rightarrow> map_of registry dflt)"

definition DEFAULT_TRANSFORM :: string where "DEFAULT_TRANSFORM = ''smallstack''"
definition DEFAULT_AUTH :: string where "DEFAULT_AUTH = ''hmac''"
definition DEFAULT_VERIFIER :: string where "DEFAULT_VERIFIER = ''hmac''"

record transformed =
  tf_body :: string
  tf_content_type :: string

record outgoing_request =
  or_url :: string
  or_body :: string
  or_headers :: headers
  or_event_type :: string

record auth_result =
  au_headers :: headers
  au_params :: headers

text \<open>The seams: what is selected by name. Each may raise (\<open>None\<close>); a challenge returns a
  response (its status code) or falls through.\<close>

record webhook_seams =
  sm_transforms :: "(json \<Rightarrow> transformed option) hooks"
  sm_auths :: "(outgoing_request \<Rightarrow> webhook_endpoint \<Rightarrow> auth_result option) hooks"
  sm_verifiers :: "(string \<Rightarrow> headers \<Rightarrow> webhook_receiver \<Rightarrow> bool option) hooks"
  sm_challenges :: "(headers \<Rightarrow> webhook_receiver \<Rightarrow> int option option) hooks"

definition default_transform :: "webhook_env \<Rightarrow> json \<Rightarrow> transformed option" where
  "default_transform env event =
     Some \<lparr>tf_body = wv_dumps env event, tf_content_type = ''application/json''\<rparr>"

definition default_auth :: "webhook_env \<Rightarrow> outgoing_request \<Rightarrow> webhook_endpoint \<Rightarrow> auth_result option" where
  "default_auth env req ep =
     Some \<lparr>au_headers = [(SIGNATURE_HEADER, signature_header_value env (we_secret ep) (or_body req))],
           au_params = []\<rparr>"

definition default_verifier :: "webhook_env \<Rightarrow> string \<Rightarrow> headers \<Rightarrow> webhook_receiver \<Rightarrow> bool option" where
  "default_verifier env body hs r =
     (let wanted = py_lower (wr_signature_header r);
          provided = (case find (\<lambda>(k, _). py_lower k = wanted) hs of Some (_, v) \<Rightarrow> v | None \<Rightarrow> '''')
      in verify env (wr_secret r) body provided)"

definition default_seams :: "webhook_env \<Rightarrow> webhook_seams \<Rightarrow> webhook_seams" where
  "default_seams env sm = sm\<lparr>
     sm_transforms := register_hook (DEFAULT_TRANSFORM, default_transform env) (sm_transforms sm),
     sm_auths := register_hook (DEFAULT_AUTH, default_auth env) (sm_auths sm),
     sm_verifiers := register_hook (DEFAULT_VERIFIER, default_verifier env) (sm_verifiers sm)\<rparr>"

definition get_challenge :: "webhook_seams \<Rightarrow> string \<Rightarrow> (headers \<Rightarrow> webhook_receiver \<Rightarrow> int option option) option" where
  "get_challenge sm name = (if name = '''' then None else map_of (sm_challenges sm) name)"

section \<open>The loop guard\<close>

text \<open>The depth counter of the thread, and the two ends of the context manager.\<close>

definition suppressed :: "int \<Rightarrow> bool" where
  "suppressed depth \<longleftrightarrow> 0 < depth"

definition enter_suppress :: "int \<Rightarrow> int" where
  "enter_suppress depth = depth + 1"

definition leave_suppress :: "int \<Rightarrow> int" where
  "leave_suppress depth = max 0 (depth - 1)"

text \<open>\<open>str.strip('/')\<close> and \<open>rstrip('/')\<close>.\<close>

definition rstrip_slash :: "string \<Rightarrow> string" where
  "rstrip_slash s = rev (dropWhile (\<lambda>c. c = CHR ''/'') (rev s))"

definition strip_slash :: "string \<Rightarrow> string" where
  "strip_slash s = rstrip_slash (dropWhile (\<lambda>c. c = CHR ''/'') s)"

text \<open>\<open>current_origin\<close>: the explicit setting, else the first of the three site settings with a
  host, else the machine's name.\<close>

definition site_origin :: "string \<Rightarrow> string option" where
  "site_origin site =
     (if site = '''' then None
      else (case urlsplit site of
        None \<Rightarrow> None
      | Some p \<Rightarrow>
         if up_scheme p \<noteq> '''' \<and> up_netloc p \<noteq> '''' then Some (up_scheme p @ ''://'' @ up_netloc p)
         else if up_path p \<noteq> '''' then Some (strip_slash (up_path p))
         else None))"

definition current_origin :: "webhook_env \<Rightarrow> string" where
  "current_origin env =
     (if ws_origin (wv_settings env) \<noteq> '''' then strip (ws_origin (wv_settings env))
      else (case List.map_filter site_origin (ws_site_urls (wv_settings env)) of
        o1 # _ \<Rightarrow> o1
      | [] \<Rightarrow> (case wv_hostname env of Some h \<Rightarrow> h | None \<Rightarrow> ''smallstack'')))"

definition http_url :: "string \<Rightarrow> bool" where
  "http_url s \<longleftrightarrow> startswith s ''http://'' \<or> startswith s ''https://''"

definition origin_is_configured :: "webhook_env \<Rightarrow> bool" where
  "origin_is_configured env = http_url (current_origin env)"

end
