(* ===== verification/Webhooks.thy ===== *)
theory Webhooks
  imports Webhook_Hooks
begin

text \<open>
  The webhook engine: fan-out, the retry tick, replays and pairing (second half of
  \<open>apps/webhooks/services.py\<close>), the delivery and dispatch tasks (\<open>tasks.py\<close>), the model signals
  (\<open>signals.py\<close>) and the inbound view (\<open>incoming_webhook\<close> in \<open>views.py\<close>).

  The HTTP exchange is a parameter, a \<open>wire\<close>: whether the request goes through a proxy, the
  peer the socket is connected to, and the answer. The engine's task queue is the list
  \<open>wb_queue\<close>; an enqueue that raises (\<open>wv_broker\<close>) leaves it alone. A failure of the database
  itself is not modelled.
\<close>

record webhook_db =
  wb_endpoints :: "webhook_endpoint list"
  wb_deliveries :: "webhook_delivery list"
  wb_receivers :: "webhook_receiver list"
  wb_receipts :: "webhook_receipt list"
  wb_queue :: "webhook_task list"

definition new_pk :: "('r \<Rightarrow> nat) \<Rightarrow> 'r list \<Rightarrow> nat" where
  "new_pk key rows = Suc (fold max (map key rows) 0)"

definition enqueue_task :: "webhook_env \<Rightarrow> webhook_task \<Rightarrow> webhook_db \<Rightarrow> webhook_db" where
  "enqueue_task env t db = (if wv_broker env t then db\<lparr>wb_queue := wb_queue db @ [t]\<rparr> else db)"

definition update_deliveries ::
    "(webhook_delivery \<Rightarrow> bool) \<Rightarrow> (webhook_delivery \<Rightarrow> webhook_delivery) \<Rightarrow> webhook_db \<Rightarrow> webhook_db" where
  "update_deliveries P f db = db\<lparr>wb_deliveries := tbl_update P f (wb_deliveries db)\<rparr>"

definition update_endpoints ::
    "(webhook_endpoint \<Rightarrow> bool) \<Rightarrow> (webhook_endpoint \<Rightarrow> webhook_endpoint) \<Rightarrow> webhook_db \<Rightarrow> webhook_db" where
  "update_endpoints P f db = db\<lparr>wb_endpoints := tbl_update P f (wb_endpoints db)\<rparr>"

section \<open>Fan-out\<close>

definition new_delivery :: "nat \<Rightarrow> nat \<Rightarrow> string \<Rightarrow> json \<Rightarrow> string option \<Rightarrow> nat \<Rightarrow> instant \<Rightarrow> webhook_delivery" where
  "new_delivery pk ep event_type payload event_id max_attempts now =
     \<lparr>wd_id = pk, wd_endpoint = ep, wd_event_type = event_type, wd_payload = payload,
      wd_event_id = event_id, wd_status = DPending, wd_attempt = 0, wd_max_attempts = max_attempts,
      wd_next_attempt_at = None, wd_response_status = None, wd_response_ms = None, wd_error = '''',
      wd_created_at = now\<rparr>"

text \<open>\<open>objects.create(..)\<close> followed by \<open>_enqueue_delivery(pk)\<close>.\<close>

definition create_delivery ::
    "webhook_env \<Rightarrow> instant \<Rightarrow> nat \<Rightarrow> string \<Rightarrow> json \<Rightarrow> string option \<Rightarrow> nat \<Rightarrow> webhook_db \<Rightarrow> nat \<times> webhook_db" where
  "create_delivery env now ep event_type payload event_id max_attempts db =
     (let pk = new_pk wd_id (wb_deliveries db)
      in (pk, enqueue_task env (Deliver pk)
            (db\<lparr>wb_deliveries := wb_deliveries db @
               [new_delivery pk ep event_type payload event_id max_attempts now]\<rparr>)))"

fun fan_out_each ::
    "webhook_env \<Rightarrow> instant \<Rightarrow> string \<Rightarrow> json \<Rightarrow> string option \<Rightarrow> webhook_endpoint list \<Rightarrow> webhook_db \<Rightarrow> nat \<times> webhook_db" where
  "fan_out_each env now event_type payload event_id [] db = (0, db)"
| "fan_out_each env now event_type payload event_id (ep # eps) db =
     (if endpoint_matches ep event_type
      then (let db1 = snd (create_delivery env now (we_id ep) event_type payload event_id
                             (ws_max_attempts (wv_settings env)) db);
                (n, db2) = fan_out_each env now event_type payload event_id eps db1
            in (Suc n, db2))
      else fan_out_each env now event_type payload event_id eps db)"

definition fan_out ::
    "webhook_env \<Rightarrow> instant \<Rightarrow> string \<Rightarrow> json \<Rightarrow> string option \<Rightarrow> webhook_db \<Rightarrow> nat \<times> webhook_db" where
  "fan_out env now event_type payload event_id db =
     (if \<not> ws_enabled (wv_settings env) \<or> \<not> ws_outbound (wv_settings env) then (0, db)
      else fan_out_each env now event_type payload event_id
             (sort_key we_name (filter we_enabled (wb_endpoints db))) db)"

section \<open>The retry tick\<close>

definition due_deliveries :: "instant \<Rightarrow> nat \<Rightarrow> webhook_db \<Rightarrow> webhook_delivery list" where
  "due_deliveries now limit db =
     take limit (sort_key (\<lambda>d. case wd_next_attempt_at d of Some t \<Rightarrow> t | None \<Rightarrow> 0)
       (filter (\<lambda>d. wd_status d = DRetrying \<and> col_lte (wd_next_attempt_at d) now) (wb_deliveries db)))"

text \<open>The conditional claim of one row: \<open>None\<close> when no row was updated.\<close>

definition claim_delivery :: "nat \<Rightarrow> instant \<Rightarrow> webhook_db \<Rightarrow> webhook_db option" where
  "claim_delivery pk observed db =
     (let P = (\<lambda>d. wd_id d = pk \<and> wd_next_attempt_at d = Some observed) in
      if tbl_count P (wb_deliveries db) = 0 then None
      else Some (update_deliveries P (\<lambda>d. d\<lparr>wd_status := DPending, wd_next_attempt_at := None\<rparr>) db))"

fun claim_each :: "webhook_env \<Rightarrow> webhook_delivery list \<Rightarrow> webhook_db \<Rightarrow> nat \<times> webhook_db" where
  "claim_each env [] db = (0, db)"
| "claim_each env (d # ds) db =
     (case wd_next_attempt_at d of
        None \<Rightarrow> claim_each env ds db
      | Some observed \<Rightarrow>
         (case claim_delivery (wd_id d) observed db of
            None \<Rightarrow> claim_each env ds db
          | Some db1 \<Rightarrow>
             (let (n, db2) = claim_each env ds (enqueue_task env (Deliver (wd_id d)) db1) in (Suc n, db2))))"

definition run_due_deliveries :: "webhook_env \<Rightarrow> instant \<Rightarrow> nat \<Rightarrow> webhook_db \<Rightarrow> nat \<times> webhook_db" where
  "run_due_deliveries env now limit db =
     (if \<not> ws_enabled (wv_settings env) then (0, db)
      else claim_each env (due_deliveries now limit db) db)"

section \<open>Replay\<close>

definition replay_delivery :: "webhook_env \<Rightarrow> instant \<Rightarrow> webhook_delivery \<Rightarrow> webhook_db \<Rightarrow> nat \<times> webhook_db" where
  "replay_delivery env now original db =
     create_delivery env now (wd_endpoint original) (wd_event_type original) (wd_payload original)
       (wd_event_id original) (wd_max_attempts original) db"

definition dead_deliveries ::
    "nat option \<Rightarrow> instant option \<Rightarrow> nat \<Rightarrow> webhook_db \<Rightarrow> webhook_delivery list" where
  "dead_deliveries endpoint since limit db =
     take limit (sort_key wd_created_at
       (filter (\<lambda>d. wd_status d = DDead \<and>
                    (case endpoint of None \<Rightarrow> True | Some e \<Rightarrow> wd_endpoint d = e) \<and>
                    (case since of None \<Rightarrow> True | Some t \<Rightarrow> t \<le> wd_created_at d)) (wb_deliveries db)))"

fun replay_each :: "webhook_env \<Rightarrow> instant \<Rightarrow> webhook_delivery list \<Rightarrow> webhook_db \<Rightarrow> nat list \<times> webhook_db" where
  "replay_each env now [] db = ([], db)"
| "replay_each env now (d # ds) db =
     (let (pk, db1) = replay_delivery env now d db; (pks, db2) = replay_each env now ds db1
      in (pk # pks, db2))"

definition replay_dead ::
    "webhook_env \<Rightarrow> instant \<Rightarrow> nat option \<Rightarrow> instant option \<Rightarrow> nat \<Rightarrow> webhook_db \<Rightarrow> nat list \<times> webhook_db" where
  "replay_dead env now endpoint since limit db =
     replay_each env now (dead_deliveries endpoint since limit db) db"

text \<open>The two probes, with one attempt each: \<open>pair_verify\<close> and the \<open>test_endpoint\<close> action. The
  payload's \<open>occurred_at\<close> is the text \<open>stamp\<close>.\<close>

definition probe_payload :: "string \<Rightarrow> string \<Rightarrow> string \<Rightarrow> string \<Rightarrow> json" where
  "probe_payload event action stamp message =
     JObj [(''event'', JStr event), (''action'', JStr action), (''occurred_at'', JStr stamp),
           (''data'', JObj [(''message'', JStr message)])]"

definition pair_verify :: "webhook_env \<Rightarrow> instant \<Rightarrow> string \<Rightarrow> webhook_endpoint \<Rightarrow> webhook_db \<Rightarrow> nat \<times> webhook_db" where
  "pair_verify env now stamp ep db =
     create_delivery env now (we_id ep) ''webhooks.pair.verify''
       (probe_payload ''webhooks.pair.verify'' ''verify'' stamp ''SmallStack pairing round-trip check.'')
       None 1 db"

definition test_endpoint :: "webhook_env \<Rightarrow> instant \<Rightarrow> string \<Rightarrow> webhook_endpoint \<Rightarrow> webhook_db \<Rightarrow> nat \<times> webhook_db" where
  "test_endpoint env now stamp ep db =
     create_delivery env now (we_id ep) ''webhooks.test.ping''
       (probe_payload ''webhooks.test.ping'' ''test'' stamp ''This is a test delivery from SmallStack.'')
       None 1 db"

section \<open>One delivery attempt\<close>

text \<open>The query string of the auth parameters (\<open>urlencode\<close>, for code points below 128) and
  \<open>urlunsplit\<close>.\<close>

definition hex_digit :: "nat \<Rightarrow> char" where
  "hex_digit n = (if n < 10 then char_of (48 + n) else char_of (55 + n))"

definition quote_plus_char :: "char \<Rightarrow> string" where
  "quote_plus_char c =
     (if is_alpha c \<or> py_digit c \<or> c \<in> set ''_.-~'' then [c]
      else if c = CHR '' '' then ''+''
      else [CHR ''%'', hex_digit (code c div 16), hex_digit (code c mod 16)])"

definition quote_plus :: "string \<Rightarrow> string" where
  "quote_plus s = concat (map quote_plus_char s)"

definition urlencode :: "headers \<Rightarrow> string" where
  "urlencode ps = join_with ''&'' (map (\<lambda>(k, v). quote_plus k @ ''='' @ quote_plus v) ps)"

definition urlunsplit :: "url_parts \<Rightarrow> string" where
  "urlunsplit p =
     (let path0 = up_path p;
          hier = (if up_netloc p \<noteq> '''' \<or> (up_scheme p \<in> {''http'', ''https''} \<and> take 2 path0 \<noteq> ''//'')
                  then ''//'' @ up_netloc p @
                       (if path0 \<noteq> '''' \<and> hd path0 \<noteq> CHR ''/'' then CHR ''/'' # path0 else path0)
                  else path0);
          with_scheme = (if up_scheme p \<noteq> '''' then up_scheme p @ '':'' @ hier else hier);
          with_query = (if up_query p \<noteq> '''' then with_scheme @ ''?'' @ up_query p else with_scheme)
      in if up_fragment p \<noteq> '''' then with_query @ ''#'' @ up_fragment p else with_query)"

definition add_params :: "headers \<Rightarrow> string \<Rightarrow> string option" where
  "add_params params url =
     (if params = [] then Some url
      else map_option (\<lambda>p. urlunsplit (p\<lparr>up_query := join_with ''&''
                              (filter (\<lambda>q. q \<noteq> '''') [up_query p, urlencode params])\<rparr>))
             (urlsplit url))"

text \<open>The headers: ours, then the credentials, then the endpoint's own where the name is not
  taken. \<open>urllib.request.Request\<close> stores each under its capitalised name, a later one over an
  earlier one.\<close>

definition base_headers :: "webhook_env \<Rightarrow> string \<Rightarrow> webhook_delivery \<Rightarrow> headers" where
  "base_headers env content_type d =
     [(''Content-Type'', content_type), (EVENT_HEADER, wd_event_type d),
      (DELIVERY_HEADER, nat_str (wd_id d)), (ORIGIN_HEADER, current_origin env),
      (''User-Agent'', ''SmallStack-Webhooks/1.0'')] @
     (case wd_event_id d of None \<Rightarrow> [] | Some e \<Rightarrow> if e = '''' then [] else [(EVENT_ID_HEADER, e)])"

definition add_static :: "headers \<Rightarrow> headers \<Rightarrow> headers" where
  "add_static static hs = fold (\<lambda>(k, v) h. if k \<in> fst ` set h then h else dict_set k v h) static hs"

definition py_upper_char :: "char \<Rightarrow> char" where
  "py_upper_char c =
     (if (97 \<le> code c \<and> code c \<le> 122) \<or> (224 \<le> code c \<and> code c \<le> 254 \<and> code c \<noteq> 247)
      then char_of (code c - 32) else c)"

definition capitalize :: "string \<Rightarrow> string" where
  "capitalize s = (case s of [] \<Rightarrow> [] | c # cs \<Rightarrow> py_upper_char c # py_lower cs)"

definition wire_headers :: "headers \<Rightarrow> headers" where
  "wire_headers hs = fold (\<lambda>(k, v). dict_set (capitalize k) v) hs []"

record wire_request =
  wq_url :: string
  wq_body :: string
  wq_headers :: headers

definition build_request ::
    "webhook_env \<Rightarrow> webhook_seams \<Rightarrow> webhook_endpoint \<Rightarrow> webhook_delivery \<Rightarrow> wire_request option" where
  "build_request env sm ep d =
     (case (resolve_hook (sm_transforms sm) DEFAULT_TRANSFORM (we_transform ep),
            resolve_hook (sm_auths sm) DEFAULT_AUTH (we_auth_scheme ep)) of
        (Some transform, Some auth) \<Rightarrow>
          (case transform (wd_payload d) of
             None \<Rightarrow> None
           | Some t \<Rightarrow>
              (let hs = base_headers env (tf_content_type t) d in
               case auth \<lparr>or_url = we_target_url ep, or_body = tf_body t, or_headers = hs,
                          or_event_type = wd_event_type d\<rparr> ep of
                 None \<Rightarrow> None
               | Some au \<Rightarrow>
                  map_option (\<lambda>url. \<lparr>wq_url = url, wq_body = tf_body t,
                    wq_headers = add_static (we_headers ep) (dict_update hs (au_headers au))\<rparr>)
                    (add_params (au_params au) (we_target_url ep))))
      | _ \<Rightarrow> None)"

text \<open>The guarded opener: the connected peer is checked before a byte is sent, unless a proxy is
  in between; a redirect is an error answer like any other. The first component of the result
  says whether the request was sent.\<close>

datatype http_answer = Answered int "string option" | Unreachable string | Broke string

record wire =
  wn_proxy :: bool
  wn_peer :: "string + string"
  wn_answer :: http_answer

definition check_peer :: "webhook_settings \<Rightarrow> string \<Rightarrow> bool" where
  "check_peer cfg peer \<longleftrightarrow> ws_allow_private cfg \<or> \<not> ip_is_blocked peer"

definition open_guarded :: "webhook_env \<Rightarrow> wire \<Rightarrow> bool \<times> http_answer" where
  "open_guarded env w =
     (if wn_proxy w then (True, wn_answer w)
      else (case wn_peer w of
        Inl e \<Rightarrow> (False, Unreachable e)
      | Inr peer \<Rightarrow>
         if check_peer (wv_settings env) peer then (True, wn_answer w)
         else (False, Unreachable (''blocked by SSRF guard: connected peer '' @ peer @
                                   '' is a private/loopback address''))))"

text \<open>What one exchange yields: status, error text and parsed \<open>Retry-After\<close>. \<open>None\<close> when the
  parser of that header raises, which nothing around it catches.\<close>

record attempt_result =
  at_sent :: bool
  at_code :: "int option"
  at_error :: string
  at_retry_after :: "int option"

definition read_answer :: "webhook_env \<Rightarrow> instant \<Rightarrow> bool \<Rightarrow> http_answer \<Rightarrow> attempt_result option" where
  "read_answer env now sent answer =
     (case answer of
        Answered c ra \<Rightarrow>
          if \<not> (200 \<le> c \<and> c < 300) \<and> c \<in> {429, 503}
          then map_option (\<lambda>r. \<lparr>at_sent = sent, at_code = Some c, at_error = '''', at_retry_after = r\<rparr>)
                 (parse_retry_after env now ra)
          else Some \<lparr>at_sent = sent, at_code = Some c, at_error = '''', at_retry_after = None\<rparr>
      | Unreachable e \<Rightarrow> Some \<lparr>at_sent = sent, at_code = None, at_error = e, at_retry_after = None\<rparr>
      | Broke e \<Rightarrow> Some \<lparr>at_sent = sent, at_code = None, at_error = e, at_retry_after = None\<rparr>)"

fun verdict_text :: "url_verdict \<Rightarrow> string" where
  "verdict_text UrlOk = ''''"
| "verdict_text NotHttp = ''URL must be http or https.''"
| "verdict_text NoHost = ''URL has no host.''"
| "verdict_text (NotAllowlisted host) = ''Host '' @ host @ '' is not in SMALLSTACK_WEBHOOK_ALLOWLIST.''"
| "verdict_text (PrivateAddress host ip) =
     ''Host '' @ host @ '' resolves to a private/loopback address ('' @ ip @
     ''). Set SMALLSTACK_WEBHOOK_ALLOW_PRIVATE=true to allow (dev only).''"

definition exchange :: "webhook_env \<Rightarrow> instant \<Rightarrow> wire \<Rightarrow> wire_request \<Rightarrow> attempt_result option" where
  "exchange env now w req =
     (case url_is_allowed env (wq_url req) of
        None \<Rightarrow> None
      | Some UrlOk \<Rightarrow> (let (sent, answer) = open_guarded env w in read_answer env now sent answer)
      | Some v \<Rightarrow> Some \<lparr>at_sent = False, at_code = None,
                      at_error = ''blocked by SSRF guard: '' @ verdict_text v, at_retry_after = None\<rparr>)"

definition succeeded :: "attempt_result \<Rightarrow> bool" where
  "succeeded a = (case at_code a of None \<Rightarrow> False | Some c \<Rightarrow> 200 \<le> c \<and> c < 300)"

section \<open>Recording an attempt\<close>

definition bump_endpoint :: "webhook_settings \<Rightarrow> instant \<Rightarrow> nat \<Rightarrow> bool \<Rightarrow> bool \<Rightarrow> webhook_db \<Rightarrow> webhook_db" where
  "bump_endpoint cfg now ep ok dead db =
     (if ok then
        update_endpoints (\<lambda>e. we_id e = ep)
          (\<lambda>e. e\<lparr>we_last_delivery_at := Some now, we_last_status := Some ESuccess,
                 we_total_deliveries := we_total_deliveries e + 1, we_consecutive_failures := 0\<rparr>) db
      else
        (let db1 = update_endpoints (\<lambda>e. we_id e = ep)
               (\<lambda>e. e\<lparr>we_last_delivery_at := Some now,
                      we_last_status := Some (if dead then EDead else ERetrying),
                      we_total_deliveries := we_total_deliveries e + 1,
                      we_consecutive_failures := we_consecutive_failures e + 1\<rparr>) db
         in if ws_auto_disable_after cfg \<noteq> 0 \<and>
               (case tbl_find we_id ep (wb_endpoints db1) of
                  None \<Rightarrow> False
                | Some e \<Rightarrow> ws_auto_disable_after cfg \<le> we_consecutive_failures e \<and> we_enabled e)
            then update_endpoints (\<lambda>e. we_id e = ep) (\<lambda>e. e\<lparr>we_enabled := False\<rparr>) db1
            else db1))"

definition notify_dead :: "webhook_env \<Rightarrow> nat \<Rightarrow> webhook_db \<Rightarrow> webhook_db" where
  "notify_dead env d db =
     (if ws_failure_emails (wv_settings env) = [] then db else enqueue_task env (MailDead d) db)"

definition next_wait :: "webhook_settings \<Rightarrow> nat \<Rightarrow> int option \<Rightarrow> int" where
  "next_wait cfg attempt retry_after =
     (case retry_after of Some r \<Rightarrow> clamp_backoff cfg r | None \<Rightarrow> backoff_seconds cfg (int attempt))"

definition attempted_row ::
    "webhook_settings \<Rightarrow> instant \<Rightarrow> nat \<Rightarrow> nat \<Rightarrow> int \<Rightarrow> attempt_result \<Rightarrow> webhook_delivery \<Rightarrow> webhook_delivery" where
  "attempted_row cfg now attempt max_attempts ms a d =
     d\<lparr>wd_attempt := attempt, wd_response_status := at_code a, wd_response_ms := Some ms,
       wd_error := take 2000 (at_error a),
       wd_status := (if succeeded a then DSuccess else if max_attempts \<le> attempt then DDead else DRetrying),
       wd_next_attempt_at :=
         (if succeeded a \<or> max_attempts \<le> attempt then None
          else Some (now + secs (next_wait cfg attempt (at_retry_after a))))\<rparr>"

text \<open>\<open>_record_attempt\<close>: \<open>snap\<close> is the row as the task read it before the exchange; the save
  writes the attempt columns of the row with its key.\<close>

definition record_attempt ::
    "webhook_env \<Rightarrow> instant \<Rightarrow> webhook_delivery \<Rightarrow> int \<Rightarrow> attempt_result \<Rightarrow> webhook_db \<Rightarrow> webhook_db" where
  "record_attempt env now snap ms a db =
     (let cfg = wv_settings env;
          attempt = Suc (wd_attempt snap);
          db1 = update_deliveries (\<lambda>d. wd_id d = wd_id snap)
                  (attempted_row cfg now attempt (wd_max_attempts snap) ms a) db
      in if succeeded a then bump_endpoint cfg now (wd_endpoint snap) True False db1
         else if wd_max_attempts snap \<le> attempt
         then notify_dead env (wd_id snap) (bump_endpoint cfg now (wd_endpoint snap) False True db1)
         else bump_endpoint cfg now (wd_endpoint snap) False False db1)"

section \<open>The delivery task\<close>

datatype deliver_start = DeliveryMissing | AlreadyTerminal delivery_status | Sending webhook_delivery webhook_endpoint

definition deliver_begin :: "nat \<Rightarrow> webhook_db \<Rightarrow> deliver_start" where
  "deliver_begin pk db =
     (case tbl_find wd_id pk (wb_deliveries db) of
        None \<Rightarrow> DeliveryMissing
      | Some d \<Rightarrow>
         (case tbl_find we_id (wd_endpoint d) (wb_endpoints db) of
            None \<Rightarrow> DeliveryMissing
          | Some ep \<Rightarrow> if is_terminal d then AlreadyTerminal (wd_status d) else Sending d ep))"

datatype deliver_result = NotFound | Skipped delivery_status | Attempted nat "int option" bool | Crashed

definition deliver_webhook ::
    "webhook_env \<Rightarrow> webhook_seams \<Rightarrow> instant \<Rightarrow> wire \<Rightarrow> int \<Rightarrow> nat \<Rightarrow> webhook_db \<Rightarrow> deliver_result \<times> webhook_db" where
  "deliver_webhook env sm now w ms pk db =
     (case deliver_begin pk db of
        DeliveryMissing \<Rightarrow> (NotFound, db)
      | AlreadyTerminal s \<Rightarrow> (Skipped s, db)
      | Sending d ep \<Rightarrow>
         (case Option.bind (build_request env sm ep d) (exchange env now w) of
            None \<Rightarrow> (Crashed, db)
          | Some a \<Rightarrow> (Attempted (Suc (wd_attempt d)) (at_code a) (succeeded a),
                       record_attempt env now d ms a db)))"

end
