(* ===== verification/Webhook_Links.thy ===== *)
theory Webhook_Links
  imports Webhooks
begin

text \<open>
  What connects the webhook engine to the outside: the pairing of two installations
  (\<open>pair_smallstack\<close> in \<open>apps/webhooks/services.py\<close>), the model signals (\<open>signals.py\<close>), the
  handler registry (\<open>registry.py\<close>), the public inbound view (\<open>incoming_webhook\<close> in
  \<open>views.py\<close>) and the dispatch task (\<open>dispatch_incoming\<close> in \<open>tasks.py\<close>).

  Randomness and clocks are arguments: the two secrets a pairing may draw, the event id and the
  time stamp of a model write. A handler is a function of the receipt that lists the writes it
  makes to models and, when it raises, the text of the exception.
\<close>

section \<open>Pairing\<close>

datatype pair_error = MultipleObjects | IntegrityError | UrlValueError

record pair_request =
  pq_target :: string
  pq_events :: "string list"
  pq_name :: string
  pq_slug :: "string option"
  pq_send :: string
  pq_recv :: string
  pq_secret :: string
  pq_one_way :: bool
  pq_owner :: "nat option"

record pair_result =
  pt_endpoint :: nat
  pt_receiver :: "nat option"
  pt_slug :: "string option"
  pt_inbound_url :: "string option"
  pt_inbound_absolute :: "string option"
  pt_send :: string
  pt_recv :: string
  pt_origin :: string
  pt_events :: "string list"
  pt_one_way :: bool
  pt_created :: bool
  pt_mirror :: string
  pt_warnings :: "url_verdict list"

definition or_else :: "string \<Rightarrow> string \<Rightarrow> string" where
  "or_else a b = (if a = '''' then b else a)"

definition pairing_slug :: "webhook_env \<Rightarrow> string \<Rightarrow> string" where
  "pairing_slug env target = ''paired-'' @ take 8 (wv_sha256 env target)"

definition pair_base :: "pair_request \<Rightarrow> string" where
  "pair_base q = or_else (pq_name q) (''SmallStack '' @ pq_target q)"

definition pair_events :: "pair_request \<Rightarrow> string list" where
  "pair_events q = (if pq_events q = [] then [''*''] else pq_events q)"

definition pair_endpoint_row :: "nat \<Rightarrow> pair_request \<Rightarrow> string \<Rightarrow> webhook_endpoint" where
  "pair_endpoint_row pk q secret =
     \<lparr>we_id = pk, we_name = pair_base q @ '' (out)'', we_target_url = pq_target q, we_secret = secret,
      we_event_filter = pair_events q, we_headers = [], we_enabled = True, we_is_paired = True,
      we_transform = ''smallstack'', we_auth_scheme = ''hmac'', we_owner = pq_owner q,
      we_last_delivery_at = None, we_last_status = None, we_total_deliveries = 0,
      we_consecutive_failures = 0\<rparr>"

definition refresh_endpoint :: "pair_request \<Rightarrow> string \<Rightarrow> webhook_endpoint \<Rightarrow> webhook_endpoint" where
  "refresh_endpoint q supplied e =
     e\<lparr>we_name := pair_base q @ '' (out)'', we_event_filter := pair_events q,
       we_transform := ''smallstack'', we_auth_scheme := ''hmac'', we_enabled := True,
       we_secret := or_else supplied (we_secret e)\<rparr>"

text \<open>\<open>get_or_create(target_url=.., is_paired=True)\<close> and the update of a row that was there; the
  result is the endpoint as it is afterwards and whether it was created.\<close>

definition pair_endpoint ::
    "pair_request \<Rightarrow> string \<Rightarrow> string \<Rightarrow> webhook_db \<Rightarrow> pair_error + (webhook_endpoint \<times> bool \<times> webhook_db)" where
  "pair_endpoint q supplied drawn db =
     (case filter (\<lambda>e. we_target_url e = pq_target q \<and> we_is_paired e) (wb_endpoints db) of
        [] \<Rightarrow> (let e = pair_endpoint_row (new_pk we_id (wb_endpoints db)) q (or_else supplied drawn)
               in Inr (e, True, db\<lparr>wb_endpoints := wb_endpoints db @ [e]\<rparr>))
      | [e] \<Rightarrow> Inr (refresh_endpoint q supplied e, False,
                update_endpoints (\<lambda>x. we_id x = we_id e) (refresh_endpoint q supplied) db)
      | _ \<Rightarrow> Inl MultipleObjects)"

definition pair_receiver_row :: "nat \<Rightarrow> pair_request \<Rightarrow> string \<Rightarrow> string \<Rightarrow> string \<Rightarrow> webhook_receiver" where
  "pair_receiver_row pk q slug origin secret =
     \<lparr>wr_id = pk, wr_name = pair_base q @ '' (in)'', wr_slug = slug, wr_handler = '''', wr_secret = secret,
      wr_signature_header = SIGNATURE_HEADER, wr_require_signature = True, wr_enabled = True,
      wr_is_paired = True, wr_verifier = ''hmac'', wr_challenge = '''', wr_ignore_origin = origin,
      wr_owner = pq_owner q, wr_last_received_at = None, wr_total_received = 0\<rparr>"

definition refresh_receiver :: "pair_request \<Rightarrow> string \<Rightarrow> string \<Rightarrow> webhook_receiver \<Rightarrow> webhook_receiver" where
  "refresh_receiver q origin supplied r =
     r\<lparr>wr_name := pair_base q @ '' (in)'', wr_verifier := ''hmac'', wr_require_signature := True,
       wr_ignore_origin := origin, wr_enabled := True, wr_secret := or_else supplied (wr_secret r)\<rparr>"

definition update_receivers ::
    "(webhook_receiver \<Rightarrow> bool) \<Rightarrow> (webhook_receiver \<Rightarrow> webhook_receiver) \<Rightarrow> webhook_db \<Rightarrow> webhook_db" where
  "update_receivers P f db = db\<lparr>wb_receivers := tbl_update P f (wb_receivers db)\<rparr>"

definition pair_slug :: "webhook_env \<Rightarrow> pair_request \<Rightarrow> webhook_db \<Rightarrow> string" where
  "pair_slug env q db =
     (let slug = (case pq_slug q of Some s \<Rightarrow> or_else s (pairing_slug env (pq_target q))
                  | None \<Rightarrow> pairing_slug env (pq_target q))
      in if pq_slug q = None \<and> list_ex (\<lambda>r. wr_slug r = slug \<and> \<not> wr_is_paired r) (wb_receivers db)
         then slug @ ''-p'' else slug)"

text \<open>The slug is unique: a hand-made receiver that holds it makes the creation fail.\<close>

definition pair_receiver ::
    "webhook_env \<Rightarrow> pair_request \<Rightarrow> string \<Rightarrow> string \<Rightarrow> string \<Rightarrow> webhook_db \<Rightarrow>
     pair_error + (webhook_receiver \<times> webhook_db)" where
  "pair_receiver env q slug supplied drawn db =
     (case filter (\<lambda>r. wr_slug r = slug \<and> wr_is_paired r) (wb_receivers db) of
        [] \<Rightarrow> if list_ex (\<lambda>r. wr_slug r = slug) (wb_receivers db) then Inl IntegrityError
              else (let r = pair_receiver_row (new_pk wr_id (wb_receivers db)) q slug (current_origin env)
                              (or_else supplied drawn)
                    in Inr (r, db\<lparr>wb_receivers := wb_receivers db @ [r]\<rparr>))
      | [r] \<Rightarrow> Inr (refresh_receiver q (current_origin env) supplied r,
                update_receivers (\<lambda>x. wr_id x = wr_id r) (refresh_receiver q (current_origin env) supplied) db)
      | _ \<Rightarrow> Inl MultipleObjects)"

definition inbound_path :: "string \<Rightarrow> string" where
  "inbound_path slug = ''/webhooks/in/'' @ slug @ ''/''"

definition absolute_inbound :: "webhook_env \<Rightarrow> string \<Rightarrow> string" where
  "absolute_inbound env slug =
     (let origin = current_origin env in
      if http_url origin then rstrip_slash origin @ inbound_path slug else inbound_path slug)"

definition mirror_command :: "webhook_env \<Rightarrow> string \<Rightarrow> string \<Rightarrow> string \<Rightarrow> string list \<Rightarrow> string" where
  "mirror_command env inbound recv send events =
     ''sc webhook pair --target '' @ inbound @ '' --send-secret '' @ recv @ '' --recv-secret '' @ send @
     '' --events '' @ [CHR 0x27] @ wv_dumps env (JList (map JStr events)) @ [CHR 0x27]"

text \<open>\<open>pair_smallstack\<close>. There is no transaction around it: what was written before an error
  stays, so the state is returned in both cases.\<close>

definition pair_smallstack ::
    "webhook_env \<Rightarrow> string \<Rightarrow> string \<Rightarrow> pair_request \<Rightarrow> webhook_db \<Rightarrow> webhook_db \<times> (pair_error + pair_result)" where
  "pair_smallstack env draw1 draw2 q db =
     (let send = or_else (pq_send q) (pq_secret q); recv = or_else (pq_recv q) (pq_secret q) in
      case pair_endpoint q send draw1 db of
        Inl err \<Rightarrow> (db, Inl err)
      | Inr (ep, created, db1) \<Rightarrow>
         (case (if pq_one_way q then Inr (None, db1)
                else bind_err (pair_receiver env q (pair_slug env q db1) recv draw2 db1)
                       (\<lambda>(r, db2). Inr (Some r, db2))) of
            Inl err \<Rightarrow> (db1, Inl err)
          | Inr (receiver, db2) \<Rightarrow>
             (let slug = (if pq_one_way q
                          then (case pq_slug q of Some s \<Rightarrow> or_else s (pairing_slug env (pq_target q))
                                | None \<Rightarrow> pairing_slug env (pq_target q))
                          else pair_slug env q db1);
                  recv_value = (case receiver of Some r \<Rightarrow> wr_secret r | None \<Rightarrow> or_else recv draw2);
                  inbound = absolute_inbound env slug
              in (case url_is_allowed env (pq_target q) of
                    None \<Rightarrow> (db2, Inl UrlValueError)
                  | Some v \<Rightarrow>
                     (db2, Inr \<lparr>pt_endpoint = we_id ep, pt_receiver = map_option wr_id receiver,
                        pt_slug = (if pq_one_way q then None else Some slug),
                        pt_inbound_url = (if pq_one_way q then None else Some (inbound_path slug)),
                        pt_inbound_absolute = (if pq_one_way q then None else Some inbound),
                        pt_send = we_secret ep, pt_recv = recv_value, pt_origin = current_origin env,
                        pt_events = pair_events q, pt_one_way = pq_one_way q, pt_created = created,
                        pt_mirror = mirror_command env inbound recv_value (we_secret ep) (pair_events q),
                        pt_warnings = (if v = UrlOk then [] else [v])\<rparr>)))))"

section \<open>Model signals\<close>

record model_write =
  mw_app_label :: string
  mw_model_name :: string
  mw_pk :: nat
  mw_action :: string
  mw_data :: json
  mw_event_id :: string
  mw_stamp :: string

definition write_label :: "model_write \<Rightarrow> string" where
  "write_label w = mw_app_label w @ ''.'' @ mw_model_name w"

definition view_for :: "webhook_view list \<Rightarrow> model_write \<Rightarrow> webhook_view option" where
  "view_for views w =
     (case find (\<lambda>v. wm_app_label v = mw_app_label w \<and> wm_model_name v = mw_model_name w) views of
        None \<Rightarrow> None | Some v \<Rightarrow> if wm_enable_webhooks v then Some v else None)"

definition wants :: "webhook_view \<Rightarrow> string \<Rightarrow> bool" where
  "wants v action = (case wm_webhook_events v of None \<Rightarrow> True | Some as \<Rightarrow> action \<in> set as)"

definition event_type :: "model_write \<Rightarrow> string" where
  "event_type w = write_label w @ ''.'' @ mw_action w"

definition resource_url :: "webhook_env \<Rightarrow> webhook_view \<Rightarrow> nat \<Rightarrow> json" where
  "resource_url env v pk =
     (if wm_url_base v = '''' \<or> \<not> http_url (current_origin env) then JNull
      else JStr (rstrip_slash (current_origin env) @ ''/smallstack/api/'' @ wm_url_base v @ ''/'' @
                 nat_str pk @ ''/''))"

text \<open>The envelope; \<open>mw_data\<close> is the serialised record, or only its key when the serialiser
  raised.\<close>

definition build_payload :: "webhook_env \<Rightarrow> webhook_view \<Rightarrow> model_write \<Rightarrow> json" where
  "build_payload env v w =
     (let label = write_label w; pk = JInt (int (mw_pk w)) in
      JObj [(''event'', JStr (event_type w)), (''action'', JStr (mw_action w)), (''model'', JStr label),
            (''id'', pk), (''occurred_at'', JStr (mw_stamp w)),
            (''data'', if mw_action w = ''deleted'' then JObj [(''id'', pk)] else mw_data w),
            (''event_id'', JStr (mw_event_id w)), (''origin'', JStr (current_origin env)),
            (''resource'', JObj [(''type'', JStr label), (''id'', pk), (''url'', resource_url env v (mw_pk w))])])"

definition fire ::
    "webhook_env \<Rightarrow> webhook_view list \<Rightarrow> int \<Rightarrow> instant \<Rightarrow> model_write \<Rightarrow> webhook_db \<Rightarrow> webhook_db" where
  "fire env views depth now w db =
     (if suppressed depth then db
      else (case view_for views w of
        None \<Rightarrow> db
      | Some v \<Rightarrow>
         if \<not> wants v (mw_action w) then db
         else snd (fan_out env now (event_type w) (build_payload env v w) (Some (mw_event_id w)) db)))"

section \<open>Inbound handlers\<close>

type_synonym handler = "webhook_receipt \<Rightarrow> model_write list \<times> string option"

record handler_registry =
  hr_handlers :: "(string \<times> handler) list"
  hr_cascade :: "string list"

definition register_handler :: "string \<times> handler \<times> bool \<Rightarrow> handler_registry \<Rightarrow> handler_registry" where
  "register_handler h reg =
     (let (name, fn, cascade) = h in
      case map_of (hr_handlers reg) name of
        Some _ \<Rightarrow> reg
      | None \<Rightarrow> reg\<lparr>hr_handlers := hr_handlers reg @ [(name, fn)],
                    hr_cascade := (if cascade then hr_cascade reg @ [name] else hr_cascade reg)\<rparr>)"

definition get_handler :: "handler_registry \<Rightarrow> string \<Rightarrow> handler option" where
  "get_handler reg name = map_of (hr_handlers reg) name"

definition handler_cascades :: "handler_registry \<Rightarrow> string \<Rightarrow> bool" where
  "handler_cascades reg name \<longleftrightarrow> name \<in> set (hr_cascade reg)"

definition update_receipts ::
    "(webhook_receipt \<Rightarrow> bool) \<Rightarrow> (webhook_receipt \<Rightarrow> webhook_receipt) \<Rightarrow> webhook_db \<Rightarrow> webhook_db" where
  "update_receipts P f db = db\<lparr>wb_receipts := tbl_update P f (wb_receipts db)\<rparr>"

text \<open>\<open>dispatch_incoming\<close>: the depth counter of the worker's thread goes in and comes out; the
  result is the receipt's status, or \<open>None\<close> when there is no receipt.\<close>

definition finish_receipt :: "nat \<Rightarrow> receipt_status \<Rightarrow> string option \<Rightarrow> webhook_db \<Rightarrow> webhook_db" where
  "finish_receipt pk st err db =
     update_receipts (\<lambda>r. rc_id r = pk)
       (\<lambda>r. r\<lparr>rc_status := st, rc_error := (case err of None \<Rightarrow> rc_error r | Some e \<Rightarrow> e)\<rparr>) db"

definition dispatch_incoming ::
    "webhook_env \<Rightarrow> webhook_view list \<Rightarrow> handler_registry \<Rightarrow> instant \<Rightarrow> nat \<Rightarrow> int \<Rightarrow> webhook_db \<Rightarrow>
     receipt_status option \<times> int \<times> webhook_db" where
  "dispatch_incoming env views reg now pk depth db =
     (case tbl_find rc_id pk (wb_receipts db) of
        None \<Rightarrow> (None, depth, db)
      | Some rc \<Rightarrow>
         (case tbl_find wr_id (rc_receiver rc) (wb_receivers db) of
            None \<Rightarrow> (None, depth, db)
          | Some r \<Rightarrow>
             (case get_handler reg (handler_name r) of
                None \<Rightarrow> (Some RFailed, depth,
                  finish_receipt pk RFailed (Some (''no handler registered for '' @ [CHR 0x27] @ handler_name r @ [CHR 0x27])) db)
              | Some h \<Rightarrow>
                 (let cascades = handler_cascades reg (handler_name r);
                      inside = (if cascades then depth else enter_suppress depth);
                      (writes, raised) = h rc;
                      db1 = fold (fire env views inside now) writes db;
                      after = (if cascades then inside else leave_suppress inside)
                  in (case raised of
                        Some e \<Rightarrow> (Some RFailed, after, finish_receipt pk RFailed (Some (take 2000 e)) db1)
                      | None \<Rightarrow> (Some RProcessed, after, finish_receipt pk RProcessed None db1))))))"

section \<open>The inbound view\<close>

record inbound_request =
  iq_slug :: string
  iq_headers :: headers
  iq_body :: string
  iq_content_length :: string
  iq_remote_addr :: "string option"

datatype inbound_response =
    InboundDisabled
  | NoReceiver
  | Challenged int
  | TooLarge
  | BadSignature
  | SelfOrigin
  | Accepted nat

fun response_code :: "inbound_response \<Rightarrow> int" where
  "response_code InboundDisabled = 404"
| "response_code NoReceiver = 404"
| "response_code (Challenged c) = c"
| "response_code TooLarge = 413"
| "response_code BadSignature = 401"
| "response_code SelfOrigin = 202"
| "response_code (Accepted _) = 202"

text \<open>\<open>int(text)\<close>: blanks around it, a sign, and single underscores between digits are allowed.\<close>

definition int_of_text :: "string \<Rightarrow> int option" where
  "int_of_text s =
     (let t = strip s;
          neg = (t \<noteq> [] \<and> hd t = CHR ''-'');
          body = (if t \<noteq> [] \<and> hd t \<in> {CHR ''-'', CHR ''+''} then tl t else t);
          groups = split_where (\<lambda>c. c = CHR ''_'') body;
          digits = concat groups
      in if list_all (\<lambda>g. g \<noteq> [] \<and> list_all py_digit g) groups \<and> length digits \<le> 4300
         then Some (if neg then - int (digits_value digits) else int (digits_value digits))
         else None)"

definition declared_length :: "string \<Rightarrow> int" where
  "declared_length s = (if s = '''' then 0 else (case int_of_text s of Some n \<Rightarrow> n | None \<Rightarrow> 0))"

definition header_value :: "string \<Rightarrow> headers \<Rightarrow> string option" where
  "header_value name hs = map_option snd (find (\<lambda>(k, _). py_lower k = py_lower name) hs)"

definition safe_headers :: "headers \<Rightarrow> headers" where
  "safe_headers hs = filter (\<lambda>(k, _). py_lower k \<notin> {''cookie'', ''authorization''}) hs"

definition verified_request :: "webhook_seams \<Rightarrow> inbound_request \<Rightarrow> webhook_receiver \<Rightarrow> bool" where
  "verified_request sm q r =
     (case resolve_hook (sm_verifiers sm) DEFAULT_VERIFIER (wr_verifier r) of
        None \<Rightarrow> False
      | Some v \<Rightarrow> (case v (iq_body q) (ci_dict (iq_headers q)) r of Some b \<Rightarrow> b | None \<Rightarrow> False))"

definition challenge_response :: "webhook_seams \<Rightarrow> inbound_request \<Rightarrow> webhook_receiver \<Rightarrow> int option" where
  "challenge_response sm q r =
     (case get_challenge sm (wr_challenge r) of
        None \<Rightarrow> None
      | Some c \<Rightarrow> (case c (iq_headers q) r of None \<Rightarrow> None | Some resp \<Rightarrow> resp))"

definition recent_rejections :: "instant \<Rightarrow> nat \<Rightarrow> webhook_db \<Rightarrow> nat" where
  "recent_rejections now receiver db =
     tbl_count (\<lambda>c. rc_receiver c = receiver \<and> rc_status c = RRejected \<and>
                    now - minutes_span 1 \<le> rc_received_at c) (wb_receipts db)"

definition new_receipt ::
    "inbound_request \<Rightarrow> webhook_receiver \<Rightarrow> instant \<Rightarrow> string \<Rightarrow> bool \<Rightarrow> string \<Rightarrow> receipt_status \<Rightarrow> string \<Rightarrow> nat \<Rightarrow> webhook_receipt" where
  "new_receipt q r now body verified origin st err pk =
     \<lparr>rc_id = pk, rc_receiver = wr_id r, rc_received_at = now, rc_source_ip = iq_remote_addr q,
      rc_headers = safe_headers (iq_headers q), rc_body = body, rc_verified = verified,
      rc_origin = origin, rc_status = st, rc_error = err\<rparr>"

definition store_receipt :: "(nat \<Rightarrow> webhook_receipt) \<Rightarrow> webhook_db \<Rightarrow> nat \<times> webhook_db" where
  "store_receipt mk db =
     (let pk = new_pk rc_id (wb_receipts db) in (pk, db\<lparr>wb_receipts := wb_receipts db @ [mk pk]\<rparr>))"

definition count_received :: "instant \<Rightarrow> nat \<Rightarrow> webhook_db \<Rightarrow> webhook_db" where
  "count_received now receiver db =
     update_receivers (\<lambda>r. wr_id r = receiver)
       (\<lambda>r. r\<lparr>wr_last_received_at := Some now, wr_total_received := wr_total_received r + 1\<rparr>) db"

definition reject_request ::
    "webhook_env \<Rightarrow> instant \<Rightarrow> inbound_request \<Rightarrow> webhook_receiver \<Rightarrow> string \<Rightarrow> webhook_db \<Rightarrow> webhook_db" where
  "reject_request env now q r origin db =
     (if int (recent_rejections now (wr_id r) db) < ws_rejected_per_minute (wv_settings env)
      then snd (store_receipt (new_receipt q r now (wv_utf8 env (take 1024 (iq_body q))) False
                  (take 200 origin) RRejected
                  (''signature verification failed (body '' @ nat_str (length (iq_body q)) @ '' bytes, sha256 ''
                   @ wv_sha256 env (iq_body q) @ ''; first 1 KB kept)'')) db)
      else db)"

definition incoming_webhook ::
    "webhook_env \<Rightarrow> webhook_seams \<Rightarrow> instant \<Rightarrow> inbound_request \<Rightarrow> webhook_db \<Rightarrow> inbound_response \<times> webhook_db" where
  "incoming_webhook env sm now q db =
     (let cfg = wv_settings env in
      if \<not> ws_enabled cfg \<or> \<not> ws_inbound cfg then (InboundDisabled, db)
      else (case find (\<lambda>r. wr_slug r = iq_slug q \<and> wr_enabled r) (wb_receivers db) of
        None \<Rightarrow> (NoReceiver, db)
      | Some r \<Rightarrow>
         (case challenge_response sm q r of
            Some c \<Rightarrow> (Challenged c, db)
          | None \<Rightarrow>
             if ws_inbound_max_bytes cfg < declared_length (iq_content_length q) then (TooLarge, db)
             else if ws_inbound_max_bytes cfg < int (length (iq_body q)) then (TooLarge, db)
             else
               (let origin = (case header_value ORIGIN_HEADER (iq_headers q) of Some v \<Rightarrow> v | None \<Rightarrow> '''');
                    verified = verified_request sm q r;
                    body = take 100000 (wv_utf8 env (iq_body q))
                in if wr_require_signature r \<and> \<not> verified
                   then (BadSignature, reject_request env now q r origin db)
                   else if wr_ignore_origin r \<noteq> '''' \<and> origin \<noteq> '''' \<and> origin = wr_ignore_origin r
                   then (SelfOrigin, count_received now (wr_id r) (snd (store_receipt
                           (new_receipt q r now body verified origin RIgnored
                              ''self-originated event dropped (ignore_origin)'') db)))
                   else (let (pk, db1) = store_receipt (new_receipt q r now body verified origin RAccepted '''') db
                         in (Accepted pk, enqueue_task env (Dispatch pk) (count_received now (wr_id r) db1)))))))"

end
