(* ===== verification/Webhook_Flow.thy ===== *)
theory Webhook_Flow
  imports Webhook_Links
begin

text \<open>
  Deliveries as a state machine: emissions, replays and probes that create them, retry ticks
  that run side by side, and delivery tasks whose exchange with the receiver takes place between
  the read of the row and the write of its outcome. The invariant shows that one delivery is
  never under way twice and is sent at most as often as it allows; the interpretation of
  \<open>conditional_claim\<close> shows that one cursor is claimed once.

  The task queue hands out each task once; that is the engine's contract, and the only thing
  assumed of it here.
\<close>

section \<open>The machine\<close>

record webhook_state =
  st_db :: webhook_db
  st_flight :: "webhook_delivery list"
  st_sends :: "nat list"

inductive webhook_step :: "webhook_env \<Rightarrow> webhook_state \<Rightarrow> webhook_state \<Rightarrow> bool" for env where
  ws_emit: "webhook_step env st (st\<lparr>st_db := snd (fan_out env now ev payload ev_id (st_db st))\<rparr>)"
| ws_fire: "webhook_step env st (st\<lparr>st_db := fire env views depth now w (st_db st)\<rparr>)"
| ws_replay: "webhook_step env st (st\<lparr>st_db := snd (replay_delivery env now original (st_db st))\<rparr>)"
| ws_replay_dead: "webhook_step env st (st\<lparr>st_db := snd (replay_dead env now ep since limit (st_db st))\<rparr>)"
| ws_probe: "webhook_step env st (st\<lparr>st_db := snd (pair_verify env now stamp endpoint (st_db st))\<rparr>)"
| ws_test: "webhook_step env st (st\<lparr>st_db := snd (test_endpoint env now stamp endpoint (st_db st))\<rparr>)"
| ws_tick: "webhook_step env st (st\<lparr>st_db := snd (run_due_deliveries env now limit (st_db st))\<rparr>)"
| ws_claim: "claim_delivery pk observed (st_db st) = Some db' \<Longrightarrow>
    webhook_step env st (st\<lparr>st_db := enqueue_task env (Deliver pk) db'\<rparr>)"
| ws_begin: "Deliver pk \<in> set (wb_queue (st_db st)) \<Longrightarrow>
    webhook_step env st
      (let db = (st_db st)\<lparr>wb_queue := remove1 (Deliver pk) (wb_queue (st_db st))\<rparr>
       in case deliver_begin pk db of
            Sending d ep \<Rightarrow> \<lparr>st_db = db, st_flight = d # st_flight st, st_sends = pk # st_sends st\<rparr>
          | _ \<Rightarrow> st\<lparr>st_db := db\<rparr>)"
| ws_finish: "d \<in> set (st_flight st) \<Longrightarrow>
    webhook_step env st (st\<lparr>st_db := record_attempt env now d ms a (st_db st),
                            st_flight := remove1 d (st_flight st)\<rparr>)"
| ws_crash: "d \<in> set (st_flight st) \<Longrightarrow>
    webhook_step env st (st\<lparr>st_flight := remove1 d (st_flight st)\<rparr>)"
| ws_receive: "webhook_step env st (st\<lparr>st_db := snd (incoming_webhook env sm now q (st_db st))\<rparr>)"
| ws_dispatch: "webhook_step env st
    (st\<lparr>st_db := snd (snd (dispatch_incoming env views reg now rc depth (st_db st)))\<rparr>)"
| ws_pair: "webhook_step env st (st\<lparr>st_db := fst (pair_smallstack env draw1 draw2 pq (st_db st))\<rparr>)"

inductive_cases webhook_stepE: "webhook_step env st st'"

definition empty_webhooks :: webhook_db where
  "empty_webhooks = \<lparr>wb_endpoints = [], wb_deliveries = [], wb_receivers = [], wb_receipts = [], wb_queue = []\<rparr>"

inductive webhook_reachable :: "webhook_env \<Rightarrow> webhook_state \<Rightarrow> bool" for env where
  wr_start: "webhook_reachable env \<lparr>st_db = empty_webhooks\<lparr>wb_endpoints := eps, wb_receivers := rs\<rparr>,
                                   st_flight = [], st_sends = []\<rparr>"
| wr_step: "webhook_reachable env st \<Longrightarrow> webhook_step env st st' \<Longrightarrow> webhook_reachable env st'"

text \<open>How often a delivery is queued, under way, and was sent.\<close>

definition queued :: "nat \<Rightarrow> webhook_db \<Rightarrow> nat" where
  "queued pk db = count (mset (wb_queue db)) (Deliver pk)"

definition flying :: "nat \<Rightarrow> webhook_state \<Rightarrow> nat" where
  "flying pk st = count (image_mset wd_id (mset (st_flight st))) pk"

definition sends :: "nat \<Rightarrow> webhook_state \<Rightarrow> nat" where
  "sends pk st = count (mset (st_sends st)) pk"

definition cursor :: "webhook_delivery \<Rightarrow> nat" where
  "cursor d = (if wd_next_attempt_at d = None then 0 else 1)"

definition send_limit :: "webhook_delivery \<Rightarrow> nat" where
  "send_limit d = max 1 (wd_max_attempts d)"

section \<open>The invariant\<close>

text \<open>For one row, with what the queue and the workers hold for it.\<close>

definition row_ok :: "nat \<Rightarrow> nat \<Rightarrow> nat \<Rightarrow> webhook_delivery \<Rightarrow> bool" where
  "row_ok q f s d \<longleftrightarrow>
     q + f + cursor d \<le> 1 \<and> s \<le> send_limit d \<and>
     (wd_next_attempt_at d \<noteq> None \<longleftrightarrow> wd_status d = DRetrying) \<and>
     (0 < q + f + cursor d \<longrightarrow> \<not> is_terminal d \<and> s = wd_attempt d + f \<and> wd_attempt d < send_limit d)"

definition flow_ok :: "webhook_state \<Rightarrow> bool" where
  "flow_ok st \<longleftrightarrow>
     distinct (map wd_id (wb_deliveries (st_db st))) \<and>
     set (st_flight st) \<subseteq> set (wb_deliveries (st_db st)) \<and>
     (\<forall>pk. pk \<notin> wd_id ` set (wb_deliveries (st_db st)) \<longrightarrow> queued pk (st_db st) = 0 \<and> sends pk st = 0) \<and>
     (\<forall>d \<in> set (wb_deliveries (st_db st)).
        row_ok (queued (wd_id d) (st_db st)) (flying (wd_id d) st) (sends (wd_id d) st) d)"

text \<open>Steps that change neither the deliveries nor the queued delivery tasks.\<close>

definition same_flow :: "webhook_db \<Rightarrow> webhook_db \<Rightarrow> bool" where
  "same_flow db db' \<longleftrightarrow> wb_deliveries db' = wb_deliveries db \<and> (\<forall>pk. queued pk db' = queued pk db)"

lemma same_flow_refl [simp, intro]: "same_flow db db"
  by (simp add: same_flow_def)

lemma same_flow_trans: "same_flow a b \<Longrightarrow> same_flow b c \<Longrightarrow> same_flow a c"
  by (simp add: same_flow_def)

lemma flow_ok_same: "flow_ok st \<Longrightarrow> same_flow (st_db st) db \<Longrightarrow> flow_ok (st\<lparr>st_db := db\<rparr>)"
  by (simp add: flow_ok_def same_flow_def flying_def sends_def)

lemma queued_enqueue:
  "queued pk (enqueue_task env t db) = queued pk db + (if wv_broker env t \<and> t = Deliver pk then 1 else 0)"
  by (auto simp: queued_def enqueue_task_def)

lemma enqueue_task_rows [simp]:
  "wb_deliveries (enqueue_task env t db) = wb_deliveries db"
  "wb_endpoints (enqueue_task env t db) = wb_endpoints db"
  "wb_receivers (enqueue_task env t db) = wb_receivers db"
  "wb_receipts (enqueue_task env t db) = wb_receipts db"
  by (simp_all add: enqueue_task_def)

lemma same_flow_enqueue: "(\<And>pk. t \<noteq> Deliver pk) \<Longrightarrow> same_flow db (enqueue_task env t db)"
  by (simp add: same_flow_def queued_enqueue)

lemma same_flow_updates [simp, intro]:
  "same_flow db (update_endpoints P f db)"
  "same_flow db (update_receivers P2 f2 db)"
  "same_flow db (update_receipts P3 f3 db)"
  "same_flow db (db\<lparr>wb_endpoints := eps\<rparr>)"
  "same_flow db (db\<lparr>wb_receivers := rs\<rparr>)"
  "same_flow db (db\<lparr>wb_receipts := rcs\<rparr>)"
  by (simp_all add: same_flow_def queued_def update_endpoints_def update_receivers_def update_receipts_def)

lemma new_pk_fresh: "new_pk key rows \<notin> key ` set rows"
  using Suc_fold_max_fresh [of _ rows key] by (fastforce simp: new_pk_def)

lemma flying_zero:
  assumes "set (st_flight st) \<subseteq> set (wb_deliveries (st_db st))"
    and "pk \<notin> wd_id ` set (wb_deliveries (st_db st))"
  shows "flying pk st = 0"
  using assms by (auto simp: flying_def count_eq_zero_iff)

lemma flow_create:
  assumes ok: "flow_ok st"
  shows "flow_ok (st\<lparr>st_db := snd (create_delivery env now ep ev p ev_id m (st_db st))\<rparr>)"
proof -
  let ?rows = "wb_deliveries (st_db st)"
  define pk where "pk = new_pk wd_id ?rows"
  define d where "d = new_delivery pk ep ev p ev_id m now"
  have fresh: "pk \<notin> wd_id ` set ?rows" using new_pk_fresh by (simp add: pk_def)
  have id: "wd_id d = pk" and zero: "cursor d = 0" "wd_attempt d = 0" "wd_status d = DPending"
      "wd_next_attempt_at d = None" and lim: "0 < send_limit d"
    by (simp_all add: d_def new_delivery_def cursor_def send_limit_def)
  have none: "queued pk (st_db st) = 0" "sends pk st = 0" "flying pk st = 0"
    using ok fresh flying_zero [of st pk] by (auto simp: flow_ok_def)
  define db where "db = snd (create_delivery env now ep ev p ev_id m (st_db st))"
  have rows: "wb_deliveries db = ?rows @ [d]"
    by (simp add: db_def create_delivery_def Let_def d_def pk_def)
  have q: "queued k db = queued k (st_db st) + (if wv_broker env (Deliver pk) \<and> k = pk then 1 else 0)" for k
    by (auto simp: db_def create_delivery_def Let_def pk_def queued_enqueue) (simp_all add: queued_def)
  have new: "row_ok (queued pk db) (flying pk st) (sends pk st) d"
    using none lim by (simp add: row_ok_def q zero is_terminal_def)
  have old: "row_ok (queued (wd_id e) db) (flying (wd_id e) st) (sends (wd_id e) st) e" if "e \<in> set ?rows" for e
    using that ok fresh by (auto simp: flow_ok_def q)
  have "flow_ok (st\<lparr>st_db := db\<rparr>)"
    using ok fresh new old id none
    by (auto simp: flow_ok_def rows q flying_def sends_def)
  then show ?thesis by (simp add: db_def)
qed

lemma flow_rows:
  assumes "flow_ok st"
  shows "distinct (map wd_id (wb_deliveries (st_db st)))"
    "d \<in> set (st_flight st) \<Longrightarrow> d \<in> set (wb_deliveries (st_db st))"
    "d \<in> set (wb_deliveries (st_db st)) \<Longrightarrow>
      row_ok (queued (wd_id d) (st_db st)) (flying (wd_id d) st) (sends (wd_id d) st) d"
    "\<lbrakk>d \<in> set (wb_deliveries (st_db st)); e \<in> set (wb_deliveries (st_db st)); wd_id d = wd_id e\<rbrakk> \<Longrightarrow> d = e"
  using assms by (auto simp: flow_ok_def dest: inj_onD [of wd_id] simp: distinct_map)

text \<open>One row changes, and with it what the queue, the workers and the log hold for its key.\<close>

lemma flow_change_row:
  assumes ok: "flow_ok st" and d: "d \<in> set (wb_deliveries (st_db st))" and id: "wd_id d' = wd_id d"
    and rows: "wb_deliveries (st_db st') = map (\<lambda>e. if e = d then d' else e) (wb_deliveries (st_db st))"
    and fl: "set (st_flight st') \<subseteq> set (st_flight st) - (if d' = d then {} else {d}) \<union> {d'}"
    and others: "\<And>pk. pk \<noteq> wd_id d \<Longrightarrow>
      queued pk (st_db st') = queued pk (st_db st) \<and> flying pk st' = flying pk st \<and> sends pk st' = sends pk st"
    and this_row: "row_ok (queued (wd_id d) (st_db st')) (flying (wd_id d) st') (sends (wd_id d) st') d'"
  shows "flow_ok st'"
proof -
  let ?R = "set (wb_deliveries (st_db st))"
  have ids: "map wd_id (wb_deliveries (st_db st')) = map wd_id (wb_deliveries (st_db st))"
    using id by (simp add: rows)
  then have idset: "wd_id ` set (wb_deliveries (st_db st')) = wd_id ` ?R"
    by (metis set_map)
  have mem: "e \<in> set (wb_deliveries (st_db st')) \<longleftrightarrow> (e = d' \<and> d \<in> ?R) \<or> (e \<in> ?R \<and> e \<noteq> d)" for e
    by (auto simp: rows)
  have row: "row_ok (queued (wd_id e) (st_db st')) (flying (wd_id e) st') (sends (wd_id e) st') e"
    if e: "e \<in> set (wb_deliveries (st_db st'))" for e
  proof (cases "e = d'")
    case True
    with this_row id show ?thesis by simp
  next
    case False
    with e mem have old: "e \<in> ?R" "e \<noteq> d" by auto
    with flow_rows(4) [OF ok old(1) d] have "wd_id e \<noteq> wd_id d" by blast
    with flow_rows(3) [OF ok old(1)] others show ?thesis by simp
  qed
  have sub: "set (st_flight st') \<subseteq> set (wb_deliveries (st_db st'))"
    using fl d mem flow_rows(2) [OF ok] by (auto split: if_splits)
  have none: "queued pk (st_db st') = 0 \<and> sends pk st' = 0" if "pk \<notin> wd_id ` ?R" for pk
    using that ok d others [of pk] by (auto simp: flow_ok_def)
  show ?thesis
    unfolding flow_ok_def using ids sub row none idset flow_rows(1) [OF ok] by simp
qed

text \<open>The same on the numbers alone.\<close>

lemma row_ok_claim:
  assumes "row_ok q f s d" "wd_next_attempt_at d \<noteq> None" "b \<le> 1"
  shows "row_ok (q + b) f s (d\<lparr>wd_status := DPending, wd_next_attempt_at := None\<rparr>)" "f = 0"
  using assms by (auto simp: row_ok_def cursor_def is_terminal_def send_limit_def)

lemma row_ok_begin: "row_ok q f s d \<Longrightarrow> 0 < q \<Longrightarrow> row_ok (q - 1) (Suc f) (Suc s) d"
  by (cases q) (auto simp: row_ok_def)

lemma row_ok_drop: "row_ok q f s d \<Longrightarrow> row_ok (q - i) f s d"
  by (auto simp: row_ok_def)

lemma row_ok_crash: "row_ok q f s d \<Longrightarrow> 0 < f \<Longrightarrow> row_ok q (f - 1) s d"
  by (cases f) (auto simp: row_ok_def)

lemma row_ok_finish:
  "row_ok q f s d \<Longrightarrow> 0 < f \<Longrightarrow>
     row_ok q (f - 1) s (attempted_row cfg now (Suc (wd_attempt d)) (wd_max_attempts d) ms a d)"
  by (cases f) (auto simp: row_ok_def attempted_row_def cursor_def is_terminal_def send_limit_def)

lemma claim_delivery_Some:
  assumes ok: "flow_ok st" and "claim_delivery pk observed (st_db st) = Some db'"
  obtains d where "d \<in> set (wb_deliveries (st_db st))" "wd_id d = pk" "wd_next_attempt_at d = Some observed"
    "wb_deliveries db' = map (\<lambda>e. if e = d then d\<lparr>wd_status := DPending, wd_next_attempt_at := None\<rparr> else e)
       (wb_deliveries (st_db st))"
    "wb_queue db' = wb_queue (st_db st)"
proof -
  let ?P = "\<lambda>d. wd_id d = pk \<and> wd_next_attempt_at d = Some observed"
  let ?f = "\<lambda>d. d\<lparr>wd_status := DPending, wd_next_attempt_at := None\<rparr>"
  from assms(2) have pos: "0 < tbl_count ?P (wb_deliveries (st_db st))"
    and db': "db' = update_deliveries ?P ?f (st_db st)"
    by (auto simp: claim_delivery_def Let_def split: if_splits)
  then obtain d where d: "d \<in> set (wb_deliveries (st_db st))" "?P d" by (auto simp: tbl_count_pos)
  have "?P e \<longleftrightarrow> e = d" if "e \<in> set (wb_deliveries (st_db st))" for e
    using flow_rows(4) [OF ok that d(1)] d(2) by auto
  then have "wb_deliveries db' = map (\<lambda>e. if e = d then ?f d else e) (wb_deliveries (st_db st))"
    by (simp add: db' update_deliveries_def tbl_update_def)
  with d show ?thesis by (intro that [of d]) (auto simp: db' update_deliveries_def)
qed

lemma flow_claim:
  assumes ok: "flow_ok st" and claim: "claim_delivery pk observed (st_db st) = Some db'"
  shows "flow_ok (st\<lparr>st_db := enqueue_task env (Deliver pk) db'\<rparr>)"
proof -
  from claim_delivery_Some [OF ok claim] obtain d where d: "d \<in> set (wb_deliveries (st_db st))" "wd_id d = pk"
      "wd_next_attempt_at d = Some observed"
    and rows: "wb_deliveries db' = map (\<lambda>e. if e = d then d\<lparr>wd_status := DPending, wd_next_attempt_at := None\<rparr> else e)
       (wb_deliveries (st_db st))" and q: "wb_queue db' = wb_queue (st_db st)" .
  note row = flow_rows(3) [OF ok d(1)]
  have fl: "d \<notin> set (st_flight st)"
    using row_ok_claim(2) [OF row, of 0] d(3) by (auto simp: flying_def count_eq_zero_iff)
  have qd: "queued k (enqueue_task env (Deliver pk) db') =
      queued k (st_db st) + (if wv_broker env (Deliver pk) \<and> pk = k then 1 else 0)" for k
    using q by (simp add: queued_enqueue) (simp add: queued_def)
  show ?thesis
  proof (rule flow_change_row [OF ok d(1)])
    show "row_ok (queued (wd_id d) (st_db (st\<lparr>st_db := enqueue_task env (Deliver pk) db'\<rparr>)))
        (flying (wd_id d) (st\<lparr>st_db := enqueue_task env (Deliver pk) db'\<rparr>))
        (sends (wd_id d) (st\<lparr>st_db := enqueue_task env (Deliver pk) db'\<rparr>))
        (d\<lparr>wd_status := DPending, wd_next_attempt_at := None\<rparr>)"
      using row_ok_claim(1) [OF row, of "if wv_broker env (Deliver pk) \<and> pk = wd_id d then 1 else 0"] d(3)
      by (simp add: qd flying_def sends_def)
  qed (use fl d in \<open>auto simp: rows qd flying_def sends_def\<close>)
qed

lemma flow_dequeue:
  assumes ok: "flow_ok st" and tok: "Deliver pk \<in> set (wb_queue (st_db st))"
  shows "flow_ok (st\<lparr>st_db := (st_db st)\<lparr>wb_queue := remove1 (Deliver pk) (wb_queue (st_db st))\<rparr>\<rparr>)"
proof -
  have q: "queued k ((st_db st)\<lparr>wb_queue := remove1 (Deliver pk) (wb_queue (st_db st))\<rparr>) =
      queued k (st_db st) - (if k = pk then 1 else 0)" for k
    by (simp add: queued_def)
  from ok q show ?thesis by (simp add: flow_ok_def flying_def sends_def row_ok_drop)
qed

lemma deliver_begin_Sending:
  "deliver_begin pk db = Sending d ep \<Longrightarrow>
     d \<in> set (wb_deliveries db) \<and> wd_id d = pk \<and> \<not> is_terminal d \<and> ep \<in> set (wb_endpoints db) \<and> we_id ep = wd_endpoint d"
  by (auto simp: deliver_begin_def split: option.splits if_splits dest!: tbl_find_Some)

lemma flow_begin:
  assumes ok: "flow_ok st" and tok: "Deliver pk \<in> set (wb_queue (st_db st))"
    and db: "db = (st_db st)\<lparr>wb_queue := remove1 (Deliver pk) (wb_queue (st_db st))\<rparr>"
    and snd: "deliver_begin pk db = Sending d ep"
  shows "flow_ok \<lparr>st_db = db, st_flight = d # st_flight st, st_sends = pk # st_sends st\<rparr>"
proof -
  from deliver_begin_Sending [OF snd] have d: "d \<in> set (wb_deliveries (st_db st))" "wd_id d = pk"
    by (auto simp: db)
  note row = flow_rows(3) [OF ok d(1)]
  have one: "0 < queued pk (st_db st)" using tok by (simp add: queued_def count_greater_zero_iff)
  show ?thesis
  proof (rule flow_change_row [OF ok d(1), where d' = d])
    show "row_ok (queued (wd_id d) (st_db \<lparr>st_db = db, st_flight = d # st_flight st, st_sends = pk # st_sends st\<rparr>))
       (flying (wd_id d) \<lparr>st_db = db, st_flight = d # st_flight st, st_sends = pk # st_sends st\<rparr>)
       (sends (wd_id d) \<lparr>st_db = db, st_flight = d # st_flight st, st_sends = pk # st_sends st\<rparr>) d"
      using row_ok_begin [OF row] one d by (simp add: queued_def flying_def sends_def db)
  qed (use d in \<open>auto simp: db queued_def flying_def sends_def map_idI\<close>)
qed

lemma flying_remove1:
  "d \<in> set (st_flight st) \<Longrightarrow>
     flying pk (st\<lparr>st_db := db, st_flight := remove1 d (st_flight st)\<rparr>) = flying pk st - (if wd_id d = pk then 1 else 0)"
  by (simp add: flying_def image_mset_Diff)

lemma flow_crash:
  assumes ok: "flow_ok st" and fl: "d \<in> set (st_flight st)"
  shows "flow_ok (st\<lparr>st_flight := remove1 d (st_flight st)\<rparr>)"
proof -
  have "0 < flying (wd_id d) st" using fl by (simp add: flying_def count_greater_zero_iff)
  note row = row_ok_crash [OF flow_rows(3) [OF ok flow_rows(2) [OF ok fl]] this]
  have fly: "flying pk (st\<lparr>st_flight := remove1 d (st_flight st)\<rparr>) = flying pk st - (if wd_id d = pk then 1 else 0)" for pk
    using flying_remove1 [OF fl, of pk "st_db st"] by simp
  show ?thesis
  proof (rule flow_change_row [OF ok flow_rows(2) [OF ok fl], where d' = d])
    show "row_ok (queued (wd_id d) (st_db (st\<lparr>st_flight := remove1 d (st_flight st)\<rparr>)))
        (flying (wd_id d) (st\<lparr>st_flight := remove1 d (st_flight st)\<rparr>))
        (sends (wd_id d) (st\<lparr>st_flight := remove1 d (st_flight st)\<rparr>)) d"
      using row fly by (simp add: sends_def)
  qed (use fly set_remove1_subset [of d "st_flight st"] in \<open>auto simp: sends_def map_idI\<close>)
qed

lemma bump_same_flow: "same_flow db (bump_endpoint cfg now ep ok dead db)"
  by (auto simp: bump_endpoint_def Let_def intro: same_flow_trans [OF same_flow_updates(1) same_flow_updates(1)])

lemma notify_same_flow: "same_flow db (notify_dead env d db)"
  by (simp add: notify_dead_def same_flow_enqueue)

lemma record_attempt_flow:
  "same_flow (update_deliveries (\<lambda>d. wd_id d = wd_id snap)
       (attempted_row (wv_settings env) now (Suc (wd_attempt snap)) (wd_max_attempts snap) ms a) db)
     (record_attempt env now snap ms a db)"
  by (auto simp: record_attempt_def Let_def
      intro: bump_same_flow same_flow_trans [OF bump_same_flow notify_same_flow])

lemma flow_finish:
  assumes ok: "flow_ok st" and fl: "d \<in> set (st_flight st)"
  shows "flow_ok (st\<lparr>st_db := record_attempt env now d ms a (st_db st), st_flight := remove1 d (st_flight st)\<rparr>)"
    (is "flow_ok ?st'")
proof -
  define f where "f = attempted_row (wv_settings env) now (Suc (wd_attempt d)) (wd_max_attempts d) ms a"
  have same: "same_flow (update_deliveries (\<lambda>e. wd_id e = wd_id d) f (st_db st)) (st_db ?st')"
    using record_attempt_flow by (simp add: f_def)
  note d = flow_rows(2) [OF ok fl]
  have rows: "wb_deliveries (st_db ?st') = map (\<lambda>e. if e = d then f d else e) (wb_deliveries (st_db st))"
    using same flow_rows(4) [OF ok _ d] by (auto simp: same_flow_def update_deliveries_def tbl_update_def)
  have q: "queued pk (st_db ?st') = queued pk (st_db st)" for pk
    using same by (simp add: same_flow_def update_deliveries_def queued_def)
  have pos: "0 < flying (wd_id d) st" using fl by (simp add: flying_def count_greater_zero_iff)
  note row = row_ok_finish [OF flow_rows(3) [OF ok d] pos]
  have "flying (wd_id d) st \<le> 1" using flow_rows(3) [OF ok d] by (simp add: row_ok_def)
  then have once: "wd_id d \<notin> wd_id ` set (remove1 d (st_flight st))"
    using flying_remove1 [OF fl, of "wd_id d" "st_db st"]
    by (simp add: flying_def count_eq_zero_iff del: mset_remove1)
  show ?thesis
  proof (rule flow_change_row [OF ok d _ rows])
    show "row_ok (queued (wd_id d) (st_db ?st')) (flying (wd_id d) ?st') (sends (wd_id d) ?st') (f d)"
      using row flying_remove1 [OF fl] q by (simp add: f_def sends_def)
    show "set (st_flight ?st') \<subseteq> set (st_flight st) - (if f d = d then {} else {d}) \<union> {f d}"
      using once set_remove1_subset [of d "st_flight st"] by (auto simp: image_iff)
  qed (use q flying_remove1 [OF fl] in \<open>auto simp: f_def attempted_row_def sends_def\<close>)
qed

section \<open>Whole operations\<close>

text \<open>Each operation seen as a change of the database under a fixed set of workers.\<close>

definition keeps_flow :: "(webhook_db \<Rightarrow> webhook_db) \<Rightarrow> bool" where
  "keeps_flow f \<longleftrightarrow> (\<forall>st. flow_ok st \<longrightarrow> flow_ok (st\<lparr>st_db := f (st_db st)\<rparr>))"

lemma keeps_flowD:
  assumes "keeps_flow f" "flow_ok (st\<lparr>st_db := db\<rparr>)"
  shows "flow_ok (st\<lparr>st_db := f db\<rparr>)"
  using assms(1) [unfolded keeps_flow_def, rule_format, OF assms(2)] by simp

lemma keeps_flow_same: "(\<And>db. same_flow db (f db)) \<Longrightarrow> keeps_flow f"
  by (simp add: keeps_flow_def flow_ok_same)

lemma keeps_flow_id: "keeps_flow (\<lambda>db. db)"
  by (simp add: keeps_flow_same)

lemma keeps_flow_comp: "keeps_flow f \<Longrightarrow> keeps_flow g \<Longrightarrow> keeps_flow (\<lambda>db. g (f db))"
  using keeps_flowD [of g] by (simp add: keeps_flow_def)

lemma keeps_flow_create: "keeps_flow (\<lambda>db. snd (create_delivery env now ep ev p ev_id m db))"
  by (simp add: keeps_flow_def flow_create)

lemma keeps_flow_fold:
  "(\<And>x. keeps_flow (f x)) \<Longrightarrow> keeps_flow (fold f xs)"
proof (induction xs)
  case Nil
  then show ?case by (simp add: keeps_flow_id id_def)
next
  case (Cons x xs)
  then have "keeps_flow (\<lambda>db. fold f xs (f x db))"
    using keeps_flow_comp [of "f x" "fold f xs"] by blast
  then show ?case by (simp add: comp_def)
qed

lemma fan_out_each_fold:
  "snd (fan_out_each env now ev p ev_id eps db) =
   fold (\<lambda>ep db. snd (create_delivery env now (we_id ep) ev p ev_id (ws_max_attempts (wv_settings env)) db))
     (filter (\<lambda>ep. endpoint_matches ep ev) eps) db"
  by (induction eps arbitrary: db) (simp_all add: split_beta Let_def)

lemma keeps_flow_fan_out: "keeps_flow (\<lambda>db. snd (fan_out env now ev p ev_id db))"
proof -
  have each: "keeps_flow (fold (\<lambda>ep db. snd (create_delivery env now (we_id ep) ev p ev_id
      (ws_max_attempts (wv_settings env)) db)) eps)" for eps :: "webhook_endpoint list"
    by (rule keeps_flow_fold) (rule keeps_flow_create)
  have "flow_ok (st\<lparr>st_db := snd (fan_out env now ev p ev_id (st_db st))\<rparr>)" if "flow_ok st" for st
    using that each [unfolded keeps_flow_def, rule_format, OF that] by (simp add: fan_out_def fan_out_each_fold)
  then show ?thesis by (simp add: keeps_flow_def)
qed

lemma keeps_flow_replay: "keeps_flow (\<lambda>db. snd (replay_delivery env now original db))"
  by (simp add: replay_delivery_def keeps_flow_create)

lemma keeps_flow_replay_dead: "keeps_flow (\<lambda>db. snd (replay_dead env now ep since limit db))"
proof -
  have "flow_ok st \<Longrightarrow> flow_ok (st\<lparr>st_db := snd (replay_each env now ds (st_db st))\<rparr>)" for st ds
  proof (induction ds arbitrary: st)
    case (Cons d ds)
    then have "flow_ok (st\<lparr>st_db := snd (replay_delivery env now d (st_db st))\<rparr>)"
      using keeps_flow_replay by (simp add: keeps_flow_def)
    from Cons.IH [OF this] show ?case by (simp add: split_beta Let_def)
  qed simp
  then show ?thesis by (simp add: keeps_flow_def replay_dead_def)
qed

lemma keeps_flow_tick: "keeps_flow (\<lambda>db. snd (run_due_deliveries env now limit db))"
proof -
  have "flow_ok st \<Longrightarrow> flow_ok (st\<lparr>st_db := snd (claim_each env ds (st_db st))\<rparr>)" for st ds
  proof (induction ds arbitrary: st)
    case (Cons d ds)
    show ?case
    proof (cases "Option.bind (wd_next_attempt_at d) (\<lambda>t. claim_delivery (wd_id d) t (st_db st))")
      case None
      with Cons show ?thesis by (cases "wd_next_attempt_at d") simp_all
    next
      case (Some db')
      then obtain t where t: "wd_next_attempt_at d = Some t" "claim_delivery (wd_id d) t (st_db st) = Some db'"
        by (cases "wd_next_attempt_at d") simp_all
      from Cons.IH [OF flow_claim [OF Cons.prems t(2), of env]] t show ?thesis by (simp add: split_beta Let_def)
    qed
  qed simp
  then show ?thesis by (simp add: keeps_flow_def run_due_deliveries_def)
qed

lemma keeps_flow_fire: "keeps_flow (fire env views depth now w)"
  using keeps_flow_fan_out by (auto simp: keeps_flow_def fire_def split: option.split)

lemma same_flow_reject: "same_flow db (reject_request env now q r origin db)"
  by (simp add: reject_request_def store_receipt_def Let_def)

lemma same_flow_count: "same_flow db (count_received now r db)"
  by (simp add: count_received_def)

lemma keeps_flow_receive: "keeps_flow (\<lambda>db. snd (incoming_webhook env sm now q db))"
proof (rule keeps_flow_same)
  fix db
  have store: "same_flow db (snd (store_receipt mk db))" for mk by (simp add: store_receipt_def Let_def)
  have "same_flow db (enqueue_task env (Dispatch pk) (count_received now r (snd (store_receipt mk db))))" for pk r mk
    by (rule same_flow_trans [OF same_flow_trans [OF store same_flow_count] same_flow_enqueue]) simp
  then show "same_flow db (snd (incoming_webhook env sm now q db))"
    using same_flow_reject same_flow_trans [OF store same_flow_count]
    by (auto simp: incoming_webhook_def Let_def split_beta split: option.split)
qed

lemma keeps_flow_dispatch: "keeps_flow (\<lambda>db. snd (snd (dispatch_incoming env views reg now rc depth db)))"
proof -
  have fin: "flow_ok (st\<lparr>st_db := finish_receipt pk s e db\<rparr>)" if "flow_ok (st\<lparr>st_db := db\<rparr>)" for st pk s e db
    using flow_ok_same [OF that, of "finish_receipt pk s e db"] by (simp add: finish_receipt_def)
  have fold: "flow_ok (st\<lparr>st_db := fold (fire env views d now) ws (st_db st)\<rparr>)" if "flow_ok st" for st ws d
    using that keeps_flow_fold [where f = "fire env views d now", OF keeps_flow_fire] by (simp add: keeps_flow_def)
  have "flow_ok (st\<lparr>st_db := snd (snd (dispatch_incoming env views reg now rc depth (st_db st)))\<rparr>)"
    if "flow_ok st" for st
    using that fin [OF fold [OF that]] fin [where st = st and db = "st_db st"]
    by (auto simp: dispatch_incoming_def Let_def split_beta split: option.split)
  then show ?thesis by (simp add: keeps_flow_def)
qed

lemma keeps_flow_pair: "keeps_flow (\<lambda>db. fst (pair_smallstack env d1 d2 pq db))"
proof (rule keeps_flow_same)
  fix db
  have ep: "same_flow db db1" if "pair_endpoint pq s d db = Inr (e, c, db1)" for s d e c db1
    using that by (auto simp: pair_endpoint_def Let_def split: list.splits)
  have rc: "same_flow db1 db2" if "pair_receiver env pq slug s d db1 = Inr (r, db2)" for slug s d r db1 db2
    using that by (auto simp: pair_receiver_def Let_def split: list.splits if_splits)
  show "same_flow db (fst (pair_smallstack env d1 d2 pq db))"
    by (auto simp: pair_smallstack_def Let_def bind_err_Inr split: sum.split option.split if_splits
        dest!: ep intro: same_flow_trans rc)
qed

theorem flow_step: "webhook_step env st st' \<Longrightarrow> flow_ok st \<Longrightarrow> flow_ok st'"
proof (induction rule: webhook_step.induct)
  case (ws_begin pk st)
  then show ?case
    using flow_dequeue [OF ws_begin.prems ws_begin.hyps] flow_begin [OF ws_begin.prems ws_begin.hyps refl]
    by (auto simp: Let_def split: deliver_start.split)
qed (use keeps_flow_fan_out keeps_flow_fire keeps_flow_replay keeps_flow_replay_dead keeps_flow_tick
       keeps_flow_receive keeps_flow_dispatch keeps_flow_pair keeps_flow_create
     in \<open>simp_all add: keeps_flow_def flow_claim flow_finish flow_crash pair_verify_def test_endpoint_def\<close>)

theorem flow_reachable: "webhook_reachable env st \<Longrightarrow> flow_ok st"
proof (induction rule: webhook_reachable.induct)
  case (wr_start eps rs)
  then show ?case by (simp add: flow_ok_def empty_webhooks_def queued_def sends_def)
next
  case (wr_step st st')
  then show ?case by (simp add: flow_step)
qed

end
