(* ===== verification/Webhook_Props.thy ===== *)
theory Webhook_Props
  imports Webhook_Flow
begin

text \<open>
  What the webhook engine promises about deliveries: single flight and the bound on sends, one
  claim per retry cursor, settlement after finitely many attempts, bounded waits, exact fan-out,
  no request to a blocked peer, and what a hostile \<open>Retry-After\<close> does.
\<close>

section \<open>An instance for the witnesses\<close>

text \<open>The demo digest is not a hash; it is only of the right shape.\<close>

definition demo_webhook_env :: webhook_env where
  "demo_webhook_env = \<lparr>wv_settings = default_webhook_settings\<lparr>ws_origin := ''https://a.example''\<rparr>,
     wv_hmac = (\<lambda>s b. replicate 64 (digit_char ((length s + length b) mod 10))),
     wv_sha256 = (\<lambda>b. replicate 64 (digit_char (length b mod 10))),
     wv_resolve = (\<lambda>host port. if host = ''b.example'' then Some [''93.184.216.34''] else None),
     wv_http_date = (\<lambda>s. None), wv_dumps = (\<lambda>j. ''{}''), wv_utf8 = (\<lambda>b. b),
     wv_hostname = Some ''host-a'', wv_broker = (\<lambda>t. True)\<rparr>"

definition no_seams :: webhook_seams where
  "no_seams = \<lparr>sm_transforms = [], sm_auths = [], sm_verifiers = [], sm_challenges = []\<rparr>"

definition demo_endpoint :: "nat \<Rightarrow> webhook_endpoint" where
  "demo_endpoint pk =
     \<lparr>we_id = pk, we_name = ''crm'', we_target_url = ''https://b.example/in/'', we_secret = ''s3cret'',
      we_event_filter = [''support.ticket.*''], we_headers = [], we_enabled = True, we_is_paired = False,
      we_transform = ''smallstack'', we_auth_scheme = ''hmac'', we_owner = None,
      we_last_delivery_at = None, we_last_status = None, we_total_deliveries = 0,
      we_consecutive_failures = 0\<rparr>"

definition demo_webhooks :: webhook_db where
  "demo_webhooks = empty_webhooks\<lparr>wb_endpoints := [demo_endpoint 1]\<rparr>"

definition demo_emitted :: webhook_db where
  "demo_emitted = snd (fan_out demo_webhook_env 0 ''support.ticket.created'' JNull (Some ''e1'') demo_webhooks)"

definition demo_delivery :: webhook_delivery where
  "demo_delivery = new_delivery 1 1 ''support.ticket.created'' JNull (Some ''e1'') 5 0"

lemma demo_emitted_rows: "wb_deliveries demo_emitted = [demo_delivery]"
  by code_simp

lemma demo_emitted_reachable:
  "webhook_reachable demo_webhook_env \<lparr>st_db = demo_emitted, st_flight = [], st_sends = []\<rparr>"
proof -
  let ?st = "\<lparr>st_db = empty_webhooks\<lparr>wb_endpoints := [demo_endpoint 1], wb_receivers := []\<rparr>,
    st_flight = [], st_sends = []\<rparr>"
  have "webhook_reachable demo_webhook_env ?st" by (rule wr_start)
  moreover have "webhook_step demo_webhook_env ?st (?st\<lparr>st_db := demo_emitted\<rparr>)"
    using ws_emit [of demo_webhook_env ?st 0 "''support.ticket.created''" JNull "Some ''e1''"]
    by (simp add: demo_emitted_def demo_webhooks_def empty_webhooks_def)
  ultimately show ?thesis using wr_step by fastforce
qed

section \<open>Single flight\<close>

text \<open>C12: However emissions, replays, probes, concurrent retry ticks, delivery tasks and inbound
  requests interleave, a delivery is queued or under way at most once at a time and is sent at
  most as often as it allows (once, where it allows none). A delivery that succeeded or died is
  neither queued nor under way, so it is never sent again; a retry cursor stands exactly on
  the deliveries that are to be retried, and while it does nothing is queued for them.\<close>

theorem single_flight:
  assumes "webhook_reachable env st" and "d \<in> set (wb_deliveries (st_db st))"
  shows "queued (wd_id d) (st_db st) + flying (wd_id d) st \<le> 1
    \<and> sends (wd_id d) st \<le> max 1 (wd_max_attempts d)
    \<and> (is_terminal d \<longrightarrow> queued (wd_id d) (st_db st) = 0 \<and> flying (wd_id d) st = 0)
    \<and> (wd_next_attempt_at d \<noteq> None \<longleftrightarrow> wd_status d = DRetrying)
    \<and> (wd_status d = DRetrying \<longrightarrow> queued (wd_id d) (st_db st) = 0 \<and> flying (wd_id d) st = 0)"
  using flow_rows(3) [OF flow_reachable [OF assms(1)] assms(2)]
  by (auto simp: row_ok_def send_limit_def cursor_def)

theorem single_flight_witness:
  "queued 1 demo_emitted + flying 1 \<lparr>st_db = demo_emitted, st_flight = [], st_sends = []\<rparr> \<le> 1"
  using single_flight [OF demo_emitted_reachable, of demo_delivery]
  by (simp add: demo_emitted_rows) (simp add: demo_delivery_def new_delivery_def)

section \<open>One claim per cursor\<close>

lemma claim_delivery_rows:
  "claim_delivery pk observed db = Some db' \<Longrightarrow>
     wb_deliveries db' = map (\<lambda>d. if wd_id d = pk \<and> wd_next_attempt_at d = Some observed
       then d\<lparr>wd_status := DPending, wd_next_attempt_at := None\<rparr> else d) (wb_deliveries db)"
  by (auto simp: claim_delivery_def Let_def update_deliveries_def tbl_update_def split: if_splits)

definition cursors_at :: "instant \<Rightarrow> nat \<Rightarrow> webhook_db \<Rightarrow> bool" where
  "cursors_at t pk db \<longleftrightarrow> (\<forall>d \<in> set (wb_deliveries db). wd_id d = pk \<longrightarrow> wd_next_attempt_at d \<in> {None, Some t})"

text \<open>The workers compete for the delivery \<open>pk\<close> with what each observed; the key of the claim is
  the delivery with its cursor.\<close>

definition claim_cursor :: "nat \<times> instant \<Rightarrow> unit \<Rightarrow> webhook_db \<Rightarrow> webhook_db option" where
  "claim_cursor k w db = claim_delivery (fst k) (snd k) db"

definition no_cursor :: "webhook_db \<Rightarrow> nat \<times> instant \<Rightarrow> bool" where
  "no_cursor db k \<longleftrightarrow> (\<forall>d \<in> set (wb_deliveries db). \<not> (wd_id d = fst k \<and> wd_next_attempt_at d = Some (snd k)))"

lemma claim_delivery_None: "claim_delivery pk t db = None \<longleftrightarrow> no_cursor db (pk, t)"
  by (simp add: claim_delivery_def Let_def tbl_count_0 no_cursor_def)

interpretation retry: conditional_claim claim_cursor no_cursor "\<lambda>_ _. True"
proof (unfold_locales, goal_cases)
  case (1 k w db db')
  then have "wb_deliveries db' = map (\<lambda>d. if wd_id d = fst k \<and> wd_next_attempt_at d = Some (snd k)
       then d\<lparr>wd_status := DPending, wd_next_attempt_at := None\<rparr> else d) (wb_deliveries db)"
    by (simp add: claim_cursor_def claim_delivery_rows)
  then show ?case by (fastforce simp: no_cursor_def)
next
  case (2 db k w)
  then show ?case by (simp add: claim_cursor_def claim_delivery_None)
next
  case (3 db k k' w db')
  then have "wb_deliveries db' = map (\<lambda>d. if wd_id d = fst k' \<and> wd_next_attempt_at d = Some (snd k')
       then d\<lparr>wd_status := DPending, wd_next_attempt_at := None\<rparr> else d) (wb_deliveries db)"
    by (simp add: claim_cursor_def claim_delivery_rows)
  with 3 show ?case by (fastforce simp: no_cursor_def)
qed

text \<open>Of any number of concurrent ticks that all saw the same retry cursor, at most one
  claims it: the others find no row to update, and send nothing.\<close>

theorem retry_claimed_once:
  "wins_for (pk, t) (replicate n ((pk, t), ())) (snd (race claim_cursor (replicate n ((pk, t), ())) db)) \<le> 1"
  by (rule retry.at_most_one_winner) auto

section \<open>Settlement\<close>

text \<open>A delivery's life with the outcomes \<open>rs\<close>: each attempt is recorded, and when it leaves a
  cursor the tick claims it.\<close>

definition attempt_round :: "webhook_env \<Rightarrow> nat \<Rightarrow> instant \<times> int \<times> attempt_result \<Rightarrow> webhook_db \<Rightarrow> webhook_db" where
  "attempt_round env pk r db =
     (case deliver_begin pk db of
        Sending d ep \<Rightarrow>
          (let db1 = record_attempt env (fst r) d (fst (snd r)) (snd (snd r)) db in
           case Option.bind (tbl_find wd_id pk (wb_deliveries db1)) wd_next_attempt_at of
             None \<Rightarrow> db1
           | Some t \<Rightarrow> (case claim_delivery pk t db1 of None \<Rightarrow> db1 | Some db2 \<Rightarrow> db2))
      | _ \<Rightarrow> db)"

lemma bump_endpoint_ids:
  "map we_id (wb_endpoints (bump_endpoint cfg now ep ok dead db)) = map we_id (wb_endpoints db)"
  by (auto simp: bump_endpoint_def update_endpoints_def Let_def map_tbl_update)

lemma record_attempt_rows:
  "wb_deliveries (record_attempt env now snap ms a db) =
     tbl_update (\<lambda>d. wd_id d = wd_id snap)
       (attempted_row (wv_settings env) now (Suc (wd_attempt snap)) (wd_max_attempts snap) ms a) (wb_deliveries db)"
  "map we_id (wb_endpoints (record_attempt env now snap ms a db)) = map we_id (wb_endpoints db)"
  using record_attempt_flow [of snap env now ms a db]
  by (simp add: same_flow_def update_deliveries_def)
     (simp add: record_attempt_def Let_def bump_endpoint_ids notify_dead_def update_deliveries_def)

lemma tbl_find_ids:
  assumes "map key xs = map key' ys"
  shows "tbl_find key k xs = None \<longleftrightarrow> tbl_find key' k ys = None"
  using assms by (auto simp: tbl_find_None dest!: arg_cong [of _ _ set]) (metis imageE imageI)+

definition has_endpoint :: "webhook_db \<Rightarrow> webhook_delivery \<Rightarrow> bool" where
  "has_endpoint db d \<longleftrightarrow> wd_endpoint d \<in> we_id ` set (wb_endpoints db)"

lemma has_endpoint_find: "has_endpoint db d \<longleftrightarrow> tbl_find we_id (wd_endpoint d) (wb_endpoints db) \<noteq> None"
  by (force simp: has_endpoint_def tbl_find_None)

lemma record_attempt_has_endpoint:
  "has_endpoint (record_attempt env now snap ms a db) d = has_endpoint db d"
  using record_attempt_rows(2) [of env now snap ms a db] unfolding has_endpoint_def by (metis set_map)

lemma claim_delivery_endpoints: "claim_delivery pk t db = Some db' \<Longrightarrow> wb_endpoints db' = wb_endpoints db"
  by (auto simp: claim_delivery_def Let_def update_deliveries_def split: if_splits)

lemma attempt_round_terminal:
  "tbl_find wd_id pk (wb_deliveries db) = Some d \<Longrightarrow> is_terminal d \<Longrightarrow> attempt_round env pk r db = db"
  by (simp add: attempt_round_def deliver_begin_def split: option.split)

lemma attempt_round_effect:
  assumes d: "tbl_find wd_id pk (wb_deliveries db) = Some d" "\<not> is_terminal d" "has_endpoint db d"
  shows "\<exists>d'. tbl_find wd_id pk (wb_deliveries (attempt_round env pk r db)) = Some d'
    \<and> wd_attempt d' = Suc (wd_attempt d) \<and> wd_max_attempts d' = wd_max_attempts d
    \<and> has_endpoint (attempt_round env pk r db) d'
    \<and> (is_terminal d' \<or> wd_attempt d' < wd_max_attempts d')"
proof -
  obtain now ms a where r: "r = (now, ms, a)" by (cases r) auto
  have id: "wd_id d = pk" using tbl_find_Some [OF d(1)] by simp
  obtain ep where "tbl_find we_id (wd_endpoint d) (wb_endpoints db) = Some ep"
    using d(3) has_endpoint_find by auto
  with d have sending: "deliver_begin pk db = Sending d ep" by (simp add: deliver_begin_def)
  define db1 where "db1 = record_attempt env now d ms a db"
  define d1 where "d1 = attempted_row (wv_settings env) now (Suc (wd_attempt d)) (wd_max_attempts d) ms a d"
  have find1: "tbl_find wd_id pk (wb_deliveries db1) = Some d1"
    using d(1) id by (simp add: db1_def record_attempt_rows tbl_find_update attempted_row_def d1_def)
  have d1: "wd_id d1 = pk" "wd_attempt d1 = Suc (wd_attempt d)" "wd_max_attempts d1 = wd_max_attempts d"
      "wd_endpoint d1 = wd_endpoint d" "is_terminal d1 \<or> wd_attempt d1 < wd_max_attempts d1"
    by (auto simp: d1_def attempted_row_def is_terminal_def id)
  have ep1: "has_endpoint db1 d1"
    using d(3) record_attempt_has_endpoint [of env now d ms a db d] d1(4) by (simp add: db1_def has_endpoint_def)
  show ?thesis
  proof (cases "wd_next_attempt_at d1")
    case None
    then have "attempt_round env pk r db = db1"
      using sending find1 by (simp add: attempt_round_def r db1_def)
    with find1 d1 ep1 show ?thesis by auto
  next
    case (Some t)
    then have open_: "\<not> is_terminal d1" by (auto simp: d1_def attempted_row_def is_terminal_def split: if_splits)
    show ?thesis
    proof (cases "claim_delivery pk t db1")
      case None
      with Some have "attempt_round env pk r db = db1"
        using sending find1 by (simp add: attempt_round_def r db1_def)
      with find1 d1 ep1 show ?thesis by auto
    next
      case claimed: (Some db2)
      with Some have round: "attempt_round env pk r db = db2"
        using sending find1 by (simp add: attempt_round_def r db1_def)
      have "wb_deliveries db2 = tbl_update (\<lambda>d. wd_id d = pk \<and> wd_next_attempt_at d = Some t)
          (\<lambda>d. d\<lparr>wd_status := DPending, wd_next_attempt_at := None\<rparr>) (wb_deliveries db1)"
        using claim_delivery_rows [OF claimed] by (simp add: tbl_update_def)
      with find1 Some d1(1) have
        "tbl_find wd_id pk (wb_deliveries db2) = Some (d1\<lparr>wd_status := DPending, wd_next_attempt_at := None\<rparr>)"
        by (simp add: tbl_find_update)
      with round d1 ep1 open_ claim_delivery_endpoints [OF claimed] show ?thesis
        by (auto simp: has_endpoint_def)
    qed
  qed
qed

text \<open>C13: A delivery settles: whatever the outcomes of its attempts are, as long as each is
  recorded and each retry cursor is claimed, after as many attempts as it has left it has
  succeeded or is dead. The loop of attempt, backoff and retry does not run forever.\<close>

theorem delivery_settles:
  assumes "tbl_find wd_id pk (wb_deliveries db) = Some d" and "has_endpoint db d"
    and "is_terminal d \<or> wd_attempt d < max 1 (wd_max_attempts d)"
    and "max 1 (wd_max_attempts d) \<le> wd_attempt d + length rs"
  shows "\<exists>d'. tbl_find wd_id pk (wb_deliveries (fold (attempt_round env pk) rs db)) = Some d' \<and> is_terminal d'"
  using assms
proof (induction rs arbitrary: db d)
  case Nil
  then show ?case by auto
next
  case (Cons r rs)
  show ?case
  proof (cases "is_terminal d")
    case True
    with Cons.prems(1) have "fold (attempt_round env pk) rs (attempt_round env pk r db) =
        fold (attempt_round env pk) rs db" by (simp add: attempt_round_terminal)
    moreover from True Cons.prems(1) have "fold (attempt_round env pk) rs db = db"
      by (induction rs) (simp_all add: attempt_round_terminal)
    ultimately show ?thesis using True Cons.prems(1) by simp
  next
    case False
    from attempt_round_effect [OF Cons.prems(1) False Cons.prems(2), of env r] obtain d' where
      d': "tbl_find wd_id pk (wb_deliveries (attempt_round env pk r db)) = Some d'"
        "wd_attempt d' = Suc (wd_attempt d)" "wd_max_attempts d' = wd_max_attempts d"
        "has_endpoint (attempt_round env pk r db) d'" "is_terminal d' \<or> wd_attempt d' < wd_max_attempts d'"
      by blast
    have "\<exists>e. tbl_find wd_id pk (wb_deliveries (fold (attempt_round env pk) rs (attempt_round env pk r db))) = Some e
        \<and> is_terminal e"
    proof (rule Cons.IH [OF d'(1) d'(4)])
      show "is_terminal d' \<or> wd_attempt d' < max 1 (wd_max_attempts d')" using d'(5) by linarith
      show "max 1 (wd_max_attempts d') \<le> wd_attempt d' + length rs" using d' Cons.prems(4) by simp
    qed
    then show ?thesis by simp
  qed
qed

definition no_answer :: attempt_result where
  "no_answer = \<lparr>at_sent = False, at_code = None, at_error = ''timed out'', at_retry_after = None\<rparr>"

theorem delivery_settles_witness:
  "\<exists>d'. tbl_find wd_id 1 (wb_deliveries (fold (attempt_round demo_webhook_env 1)
      (replicate 5 (0, 7, no_answer)) demo_emitted)) = Some d' \<and> is_terminal d'"
proof (rule delivery_settles)
  show "tbl_find wd_id 1 (wb_deliveries demo_emitted) = Some demo_delivery"
    by (simp add: demo_emitted_rows) (simp add: demo_delivery_def new_delivery_def)
  show "has_endpoint demo_emitted demo_delivery" by code_simp
qed (simp_all add: demo_delivery_def new_delivery_def)

section \<open>Waits\<close>

lemma backoff_seconds_in: "backoff_seconds cfg n \<in> set (backoff_schedule cfg)"
proof -
  have "backoff_schedule cfg \<noteq> []" by (simp add: backoff_schedule_def)
  then have "nat (max 0 (min (n - 1) (int (length (backoff_schedule cfg)) - 1))) < length (backoff_schedule cfg)"
    by (cases "backoff_schedule cfg") auto
  then show ?thesis by (simp add: backoff_seconds_def Let_def)
qed

interpretation default_waits: backoff_policy
  "\<lambda>n. of_int (next_wait default_webhook_settings n None)" 60 21600
proof (unfold_locales, goal_cases)
  case (1 n)
  have "backoff_seconds default_webhook_settings (int n) \<in> {60, 300, 1800, 7200, 21600}"
    using backoff_seconds_in [of default_webhook_settings "int n"]
    by (simp add: backoff_schedule_def default_webhook_settings_def)
  then show ?case by (auto simp: next_wait_def)
next
  case (2 n)
  have "backoff_seconds default_webhook_settings (int n) \<in> {60, 300, 1800, 7200, 21600}"
    using backoff_seconds_in [of default_webhook_settings "int n"]
    by (simp add: backoff_schedule_def default_webhook_settings_def)
  then show ?case by (auto simp: next_wait_def)
qed

text \<open>The wait before a retry comes from the backoff table, at the attempt's place and at
  the last place beyond it, unless the receiver asked for a wait: that one is honoured between
  zero and the configured ceiling, whatever the header says. With the default table a delivery
  waits between one minute and six hours before each retry.\<close>

theorem retry_wait_bounds:
  "(0 \<le> ws_max_backoff cfg \<longrightarrow>
      0 \<le> next_wait cfg n (Some r) \<and> next_wait cfg n (Some r) \<le> ws_max_backoff cfg \<and>
      (0 \<le> r \<and> r \<le> ws_max_backoff cfg \<longrightarrow> next_wait cfg n (Some r) = r))
   \<and> (1 \<le> n \<longrightarrow> next_wait cfg n None = backoff_schedule cfg ! min (n - 1) (length (backoff_schedule cfg) - 1))
   \<and> (1 \<le> n \<longrightarrow> 60 \<le> next_wait default_webhook_settings n None \<and>
        next_wait default_webhook_settings n None \<le> 21600)"
proof -
  have "next_wait cfg n None = backoff_schedule cfg ! min (n - 1) (length (backoff_schedule cfg) - 1)" if "1 \<le> n"
  proof -
    define l where "l = length (backoff_schedule cfg)"
    have "0 < l" by (simp add: backoff_schedule_def l_def)
    with that have "nat (max 0 (min (int n - 1) (int l - 1))) = min (n - 1) (l - 1)" by linarith
    then have "nat (max 0 (min (int n - 1) (int (length (backoff_schedule cfg)) - 1))) =
        min (n - 1) (length (backoff_schedule cfg) - 1)" by (simp add: l_def)
    then show ?thesis by (simp add: next_wait_def backoff_seconds_def Let_def)
  qed
  then show ?thesis
    using default_waits.wait_low [of n] default_waits.wait_high [of n]
    by (auto simp: next_wait_def clamp_backoff_def)
qed

theorem retry_wait_bounds_witness:
  "next_wait default_webhook_settings 3 None = 1800 \<and> next_wait default_webhook_settings 1 (Some 99999999) \<le> 21600"
  using retry_wait_bounds [of default_webhook_settings 3 0]
    retry_wait_bounds [of default_webhook_settings 1 99999999]
  by (simp add: default_webhook_settings_def backoff_schedule_def DEFAULT_MAX_BACKOFF_def min_def)

section \<open>Fan-out\<close>

definition emitted_from :: "webhook_env \<Rightarrow> string \<Rightarrow> json \<Rightarrow> string option \<Rightarrow> instant \<Rightarrow> webhook_delivery \<Rightarrow> bool" where
  "emitted_from env ev p ev_id now d \<longleftrightarrow>
     d = new_delivery (wd_id d) (wd_endpoint d) ev p ev_id (ws_max_attempts (wv_settings env)) now"

lemma fan_out_each_effect:
  "\<exists>new. wb_deliveries (snd (fan_out_each env now ev p ev_id eps db)) = wb_deliveries db @ new
     \<and> map wd_endpoint new = map we_id (filter (\<lambda>e. endpoint_matches e ev) eps)
     \<and> fst (fan_out_each env now ev p ev_id eps db) = length new
     \<and> list_all (emitted_from env ev p ev_id now) new
     \<and> wb_queue (snd (fan_out_each env now ev p ev_id eps db)) =
         wb_queue db @ filter (wv_broker env) (map (Deliver \<circ> wd_id) new)
     \<and> wb_endpoints (snd (fan_out_each env now ev p ev_id eps db)) = wb_endpoints db
     \<and> (distinct (map wd_id (wb_deliveries db)) \<longrightarrow> distinct (map wd_id (wb_deliveries db @ new)))"
proof (induction eps arbitrary: db)
  case Nil
  then show ?case by simp
next
  case (Cons e eps)
  show ?case
  proof (cases "endpoint_matches e ev")
    case False
    with Cons [of db] show ?thesis by simp
  next
    case True
    define pk where "pk = new_pk wd_id (wb_deliveries db)"
    define d where "d = new_delivery pk (we_id e) ev p ev_id (ws_max_attempts (wv_settings env)) now"
    define db1 where "db1 = snd (create_delivery env now (we_id e) ev p ev_id (ws_max_attempts (wv_settings env)) db)"
    have db1: "wb_deliveries db1 = wb_deliveries db @ [d]" "wb_endpoints db1 = wb_endpoints db"
        "wb_queue db1 = wb_queue db @ filter (wv_broker env) [Deliver pk]"
      by (simp_all add: db1_def create_delivery_def Let_def d_def pk_def enqueue_task_def)
    have d: "wd_id d = pk" "wd_endpoint d = we_id e" "emitted_from env ev p ev_id now d"
      by (simp_all add: d_def new_delivery_def emitted_from_def)
    have fresh: "pk \<notin> wd_id ` set (wb_deliveries db)" using new_pk_fresh by (simp add: pk_def)
    from Cons [of db1] obtain new where new: "wb_deliveries (snd (fan_out_each env now ev p ev_id eps db1)) = wb_deliveries db1 @ new"
      "map wd_endpoint new = map we_id (filter (\<lambda>e. endpoint_matches e ev) eps)"
      "fst (fan_out_each env now ev p ev_id eps db1) = length new" "list_all (emitted_from env ev p ev_id now) new"
      "wb_queue (snd (fan_out_each env now ev p ev_id eps db1)) = wb_queue db1 @ filter (wv_broker env) (map (Deliver \<circ> wd_id) new)"
      "wb_endpoints (snd (fan_out_each env now ev p ev_id eps db1)) = wb_endpoints db1"
      "distinct (map wd_id (wb_deliveries db1)) \<longrightarrow> distinct (map wd_id (wb_deliveries db1 @ new))" by blast
    show ?thesis
      by (rule exI [where x = "d # new"])
         (use new d db1 fresh True in \<open>simp add: split_beta Let_def comp_def flip: db1_def\<close>)
  qed
qed

text \<open>C14: An event creates one delivery for each enabled endpoint with a matching pattern and
  none for any other endpoint; each is pending, untried, carries the payload and the one event
  id, and has a key of its own. The number of them is the result, and the delivery tasks that
  the broker took are queued in that order. With the master switch or the outbound switch off,
  nothing happens.\<close>

theorem fan_out_exact:
  assumes "distinct (map wd_id (wb_deliveries db))"
  shows "if ws_enabled (wv_settings env) \<and> ws_outbound (wv_settings env)
    then \<exists>new. wb_deliveries (snd (fan_out env now ev p ev_id db)) = wb_deliveries db @ new
      \<and> mset (map wd_endpoint new) =
          mset (map we_id (filter (\<lambda>e. we_enabled e \<and> endpoint_matches e ev) (wb_endpoints db)))
      \<and> fst (fan_out env now ev p ev_id db) = length new
      \<and> list_all (emitted_from env ev p ev_id now) new
      \<and> wb_queue (snd (fan_out env now ev p ev_id db)) =
          wb_queue db @ filter (wv_broker env) (map (Deliver \<circ> wd_id) new)
      \<and> distinct (map wd_id (wb_deliveries db @ new))
    else fan_out env now ev p ev_id db = (0, db)"
proof (cases "ws_enabled (wv_settings env) \<and> ws_outbound (wv_settings env)")
  case True
  let ?eps = "sort_key we_name (filter we_enabled (wb_endpoints db))"
  from fan_out_each_effect [of env now ev p ev_id ?eps db] obtain new where new:
    "wb_deliveries (snd (fan_out_each env now ev p ev_id ?eps db)) = wb_deliveries db @ new"
    "map wd_endpoint new = map we_id (filter (\<lambda>e. endpoint_matches e ev) ?eps)"
    "fst (fan_out_each env now ev p ev_id ?eps db) = length new" "list_all (emitted_from env ev p ev_id now) new"
    "wb_queue (snd (fan_out_each env now ev p ev_id ?eps db)) = wb_queue db @ filter (wv_broker env) (map (Deliver \<circ> wd_id) new)"
    "distinct (map wd_id (wb_deliveries db @ new))" using assms by blast
  have "mset (map we_id (filter (\<lambda>e. endpoint_matches e ev) ?eps)) =
      mset (map we_id (filter (\<lambda>e. we_enabled e \<and> endpoint_matches e ev) (wb_endpoints db)))"
    by (simp add: mset_filter filter_filter_mset)
  then have "mset (map wd_endpoint new) = mset (map we_id (filter (\<lambda>e. we_enabled e \<and> endpoint_matches e ev) (wb_endpoints db)))"
    by (simp only: new(2))
  note mset_eq = this
  have eq: "fan_out env now ev p ev_id db = fan_out_each env now ev p ev_id ?eps db"
    using True by (simp add: fan_out_def)
  have "\<exists>new. wb_deliveries (snd (fan_out env now ev p ev_id db)) = wb_deliveries db @ new
      \<and> mset (map wd_endpoint new) =
          mset (map we_id (filter (\<lambda>e. we_enabled e \<and> endpoint_matches e ev) (wb_endpoints db)))
      \<and> fst (fan_out env now ev p ev_id db) = length new
      \<and> list_all (emitted_from env ev p ev_id now) new
      \<and> wb_queue (snd (fan_out env now ev p ev_id db)) =
          wb_queue db @ filter (wv_broker env) (map (Deliver \<circ> wd_id) new)
      \<and> distinct (map wd_id (wb_deliveries db @ new))"
    unfolding eq by (rule exI [of _ new], intro conjI; fact)
  with True show ?thesis by (simp only: if_True simp_thms)
qed (auto simp: fan_out_def)

theorem fan_out_exact_witness:
  "mset (map wd_endpoint (wb_deliveries (snd (fan_out demo_webhook_env 0 ''support.ticket.created'' JNull None
     demo_webhooks)))) = {#1#}"
proof -
  have m: "endpoint_matches (demo_endpoint 1) ''support.ticket.created''" by code_simp
  have db: "wb_endpoints demo_webhooks = [demo_endpoint 1]" "wb_deliveries demo_webhooks = []"
    "we_enabled (demo_endpoint 1)" "we_id (demo_endpoint 1) = 1" "ws_enabled (wv_settings demo_webhook_env)"
    "ws_outbound (wv_settings demo_webhook_env)"
    by (simp_all add: demo_webhooks_def empty_webhooks_def demo_endpoint_def demo_webhook_env_def
        default_webhook_settings_def)
  show ?thesis
    using fan_out_exact [of demo_webhooks demo_webhook_env 0 "''support.ticket.created''" JNull None]
    by (simp add: db m del: One_nat_def)
qed

section \<open>The request guard\<close>

text \<open>C15: A request leaves the machine only for an http or https URL with a host, one under the
  allowlist where there is one, and only to a peer that is not a private, loopback, link-local,
  reserved, multicast or unspecified address -- unless the operator allowed private targets or a
  proxy stands in between. The peer is the address the socket is connected to, so a name that
  resolves differently the second time does not get around the check.\<close>

theorem guarded_send:
  assumes "exchange env now w req = Some a" and "at_sent a"
  shows "\<exists>parts host. urlsplit (wq_url req) = Some parts \<and> up_scheme parts \<in> {''http'', ''https''}
    \<and> up_hostname parts = Some host
    \<and> (ws_allowlist (wv_settings env) \<noteq> [] \<longrightarrow>
        (\<exists>a \<in> set (ws_allowlist (wv_settings env)). py_lower host = a \<or> endswith (py_lower host) (CHR ''.'' # a)))
    \<and> (wn_proxy w \<or> ws_allow_private (wv_settings env) \<or> (\<exists>peer. wn_peer w = Inr peer \<and> \<not> ip_is_blocked peer))"
proof -
  from assms have ok: "url_is_allowed env (wq_url req) = Some UrlOk" and
    sent: "fst (open_guarded env w)"
    by (auto simp: exchange_def split_beta read_answer_def split: option.splits url_verdict.splits
        http_answer.splits if_splits)
  from sent have "wn_proxy w \<or> ws_allow_private (wv_settings env) \<or> (\<exists>peer. wn_peer w = Inr peer \<and> \<not> ip_is_blocked peer)"
    by (auto simp: open_guarded_def check_peer_def split: sum.splits if_splits)
  with ok show ?thesis
    by (auto simp: url_is_allowed_def Let_def list_ex_iff split: option.splits if_splits)
qed

definition demo_wire :: "string option \<Rightarrow> wire" where
  "demo_wire ra = \<lparr>wn_proxy = False, wn_peer = Inr ''93.184.216.34'', wn_answer = Answered 503 ra\<rparr>"

definition demo_request :: wire_request where
  "demo_request = \<lparr>wq_url = ''https://b.example/in/'', wq_body = ''{}'', wq_headers = []\<rparr>"

lemma demo_exchange:
  "exchange demo_webhook_env 0 (demo_wire (Some ''5'')) demo_request =
     Some \<lparr>at_sent = True, at_code = Some 503, at_error = '''', at_retry_after = Some 5\<rparr>"
  by code_simp

theorem guarded_send_witness: "\<exists>parts. urlsplit ''https://b.example/in/'' = Some parts \<and> up_hostname parts \<noteq> None"
  using guarded_send [OF demo_exchange] by (auto simp: demo_request_def)

text \<open>The addresses an attacker reaches for, as texts: loopback, the private networks and the
  link-local range with the cloud metadata service.\<close>

lemma octet_text: "n < 256 \<Longrightarrow> parse_octet (nat_str n) = Some n"
  using length_nat_str [of n 3] by (auto simp: parse_octet_def digits_nat_str hd_nat_str nat_str_0)

definition dotted :: "nat \<Rightarrow> nat \<Rightarrow> nat \<Rightarrow> nat \<Rightarrow> string" where
  "dotted a b c d = nat_str a @ ''.'' @ nat_str b @ ''.'' @ nat_str c @ ''.'' @ nat_str d"

lemma parse_dotted:
  assumes "a < 256" "b < 256" "c < 256" "d < 256"
  shows "ip_address (dotted a b c d) = Some (V4 (ipv4 a b c d))" "CHR ''%'' \<notin> set (dotted a b c d)"
proof -
  have no_dot: "list_all (\<lambda>x. \<not> x = CHR ''.'') (nat_str n)" for n
    using digits_nat_str [of n] by (auto simp: list_all_iff py_digit_def)
  have "split_where (\<lambda>x. x = CHR ''.'') (dotted a b c d) = [nat_str a, nat_str b, nat_str c, nat_str d]"
    using assms by (simp add: dotted_def split_where_sep split_where_none no_dot)
  then have "parse_ipv4 (dotted a b c d) = Some (base_value 256 [a, b, c, d])"
    using assms by (simp add: parse_ipv4_def octet_text)
  then show "ip_address (dotted a b c d) = Some (V4 (ipv4 a b c d))"
    by (simp add: ip_address_def ipv4_def)
  show "CHR ''%'' \<notin> set (dotted a b c d)" by (simp add: dotted_def not_digit_nat_str py_digit_def)
qed

text \<open>Membership of a network in numbers.\<close>

lemma in_net_ipv4:
  assumes "a < 256" "b < 256" "c < 256" "d < 256" and "n < 2 ^ 32" "k \<le> 32"
  shows "in_net (ipv4 a b c d) (of_nat n, k) \<longleftrightarrow> base_value 256 [a, b, c, d] div 2 ^ (32 - k) = n div 2 ^ (32 - k)"
proof -
  have small: "base_value 256 [a, b, c, d] < 2 ^ 32" using assms by (simp add: base_value_def)
  have un: "unat (drop_bit i (of_nat m :: 32 word)) = m div 2 ^ i" if "m < 2 ^ 32" for m i
    using that by (simp only: unat_drop_bit_eq unat_of_nat) (simp add: drop_bit_eq_div)
  have "in_net (ipv4 a b c d) (of_nat n, k) \<longleftrightarrow>
      unat (drop_bit (32 - k) (of_nat (base_value 256 [a, b, c, d]) :: 32 word)) = unat (drop_bit (32 - k) (of_nat n :: 32 word))"
    by (simp add: in_net_def ipv4_def word_unat_eq_iff)
  then show ?thesis using un small assms(5) by simp
qed

lemma in_net_dotted:
  assumes "a < 256" "b < 256" "c < 256" "d < 256" "a' < 256" "b' < 256" "c' < 256" "d' < 256" "k \<le> 32"
  shows "in_net (ipv4 a b c d) (ipv4 a' b' c' d', k) \<longleftrightarrow>
    base_value 256 [a, b, c, d] div 2 ^ (32 - k) = base_value 256 [a', b', c', d'] div 2 ^ (32 - k)"
  using in_net_ipv4 [OF assms(1-4), of "base_value 256 [a', b', c', d']" k] assms
  by (simp add: ipv4_def base_value_def)

lemma before_char_none: "c \<notin> set s \<Longrightarrow> before_char c s = s"
  unfolding before_char_def by (rule takeWhile_eq_all_conv [THEN iffD2]) auto

lemma blocked_dotted:
  assumes "a < 256" "b < 256" "c < 256" "d < 256"
    and "is_private (V4 (ipv4 a b c d)) \<or> is_loopback (V4 (ipv4 a b c d)) \<or> is_link_local (V4 (ipv4 a b c d))"
  shows "ip_is_blocked (dotted a b c d)"
  using assms parse_dotted [of a b c d] by (auto simp: ip_is_blocked_def before_char_none)

lemma private_targets:
  assumes "b < 256" "c < 256" "d < 256"
  shows "ip_is_blocked (dotted 127 b c d)" "ip_is_blocked (dotted 10 b c d)"
    "ip_is_blocked (dotted 192 168 c d)" "ip_is_blocked (dotted 169 254 c d)"
    "16 \<le> b \<Longrightarrow> b < 32 \<Longrightarrow> ip_is_blocked (dotted 172 b c d)"
proof -
  show "ip_is_blocked (dotted 127 b c d)"
    using assms by (intro blocked_dotted) (auto simp: in_net_dotted base_value_def)
  show "ip_is_blocked (dotted 169 254 c d)"
    using assms by (intro blocked_dotted) (auto simp: in_net_dotted base_value_def)
  have "(167772160 + 65536 * b + c * 256 + d) div 16777216 = 10" using assms by linarith
  then show "ip_is_blocked (dotted 10 b c d)"
    using assms by (intro blocked_dotted)
      (auto simp: in_nets_def v4_private_def v4_private_exceptions_def in_net_dotted base_value_def)
  have "(3232235520 + c * 256 + d) div 65536 = 49320" using assms by linarith
  then show "ip_is_blocked (dotted 192 168 c d)"
    using assms by (intro blocked_dotted)
      (auto simp: in_nets_def v4_private_def v4_private_exceptions_def in_net_dotted base_value_def)
  show "ip_is_blocked (dotted 172 b c d)" if b: "16 \<le> b" "b < 32"
  proof -
    have "(2885681152 + 65536 * b + c * 256 + d) div 1048576 = 2753" using assms b by linarith
    then show ?thesis
      using assms b by (intro blocked_dotted)
        (auto simp: in_nets_def v4_private_def v4_private_exceptions_def in_net_dotted base_value_def)
  qed
qed

text \<open>The guard blocks the addresses an attacker would aim a webhook at, as texts: every
  loopback, link-local (the cloud metadata service among them) and private IPv4 address.\<close>

theorem private_targets_blocked:
  assumes "b < 256" "c < 256" "d < 256"
  shows "ip_is_blocked (dotted 127 b c d) \<and> ip_is_blocked (dotted 10 b c d)
    \<and> ip_is_blocked (dotted 192 168 c d) \<and> ip_is_blocked (dotted 169 254 c d)
    \<and> (16 \<le> b \<and> b < 32 \<longrightarrow> ip_is_blocked (dotted 172 b c d))"
  using private_targets [OF assms] by simp

theorem private_targets_blocked_witness: "ip_is_blocked (dotted 169 254 169 254)"
  using private_targets_blocked [of 0 169 254] by simp

section \<open>A hostile header\<close>

text \<open>A receiver that answers 429 or 503 with a \<open>Retry-After\<close> of superscript digits, or of more
  than 4300 digits, makes the delivery task fail in the middle: the exception leaves the
  handler of the answer, the attempt is not recorded, the delivery keeps its status and has no
  retry cursor, and no later tick picks it up.\<close>

theorem hostile_retry_after:
  assumes start: "deliver_begin pk db = Sending d ep" and req: "build_request env sm ep d = Some req"
    and url: "url_is_allowed env (wq_url req) = Some UrlOk"
    and answer: "open_guarded env w = (True, Answered status (Some ra))" and status: "status \<in> {429, 503}"
    and header: "py_isdigit (strip ra)" "py_int (strip ra) = None" "ra \<noteq> ''''"
    and waiting: "wd_next_attempt_at d = None"
  shows "deliver_webhook env sm now w ms pk db = (Crashed, db)
    \<and> (\<forall>now' limit. d \<notin> set (due_deliveries now' limit db))"
proof -
  have "parse_retry_after env now (Some ra) = None"
    using header by (simp add: parse_retry_after_def Let_def)
  then have "exchange env now w req = None"
    using url answer status by (auto simp: exchange_def read_answer_def)
  moreover have "d \<notin> set (due_deliveries now' limit db)" for now' limit
    using waiting by (auto simp: due_deliveries_def dest!: in_set_takeD)
  ultimately show ?thesis using start req by (simp add: deliver_webhook_def)
qed

definition superscript_two :: string where
  "superscript_two = [char_of (178 :: nat)]"

definition demo_seams :: webhook_seams where
  "demo_seams = default_seams demo_webhook_env no_seams"

theorem hostile_retry_after_witness:
  "deliver_webhook demo_webhook_env demo_seams 0 (demo_wire (Some superscript_two)) 7 1 demo_emitted =
     (Crashed, demo_emitted)"
proof -
  define req where "req = the (build_request demo_webhook_env demo_seams (demo_endpoint 1) demo_delivery)"
  have "build_request demo_webhook_env demo_seams (demo_endpoint 1) demo_delivery \<noteq> None" by code_simp
  then have req: "build_request demo_webhook_env demo_seams (demo_endpoint 1) demo_delivery = Some req"
    by (simp add: req_def)
  have sending: "deliver_begin 1 demo_emitted = Sending demo_delivery (demo_endpoint 1)" by code_simp
  have url: "url_is_allowed demo_webhook_env (wq_url req) = Some UrlOk" unfolding req_def by code_simp
  have w: "open_guarded demo_webhook_env (demo_wire (Some superscript_two)) = (True, Answered 503 (Some superscript_two))"
    by code_simp
  have h: "py_isdigit (strip superscript_two)" "py_int (strip superscript_two) = None" by code_simp+
  have n: "wd_next_attempt_at demo_delivery = None" "superscript_two \<noteq> ''''"
    by (simp_all add: demo_delivery_def new_delivery_def superscript_two_def)
  show ?thesis using hostile_retry_after [OF sending req url w _ h n(2) n(1)] by simp
qed

end
