(* ===== verification/Webhook_Link_Props.thy ===== *)
theory Webhook_Link_Props
  imports Webhook_Props
begin

text \<open>
  The links of the webhook engine: the header dict as a map on case-folded names, first-wins
  registries, signatures, the inbound view, the loop guard, and pairing with the round trip of
  a signed delivery between two paired installations.
\<close>

section \<open>The header dict\<close>

text \<open>Its abstract value is a map from lower-case names; the representation holds each
  case-folded name once.\<close>

definition ci_abs :: "headers \<Rightarrow> string \<rightharpoonup> string" where
  "ci_abs d = map_of (map (\<lambda>(k, v). (py_lower k, v)) d)"

definition ci_ok :: "headers \<Rightarrow> bool" where
  "ci_ok d \<longleftrightarrow> distinct (map (\<lambda>(k, _). py_lower k) d)"

lemma ci_ok_Nil [simp]: "ci_ok []" "ci_abs [] = Map.empty"
  by (simp_all add: ci_ok_def ci_abs_def)

lemma ci_Cons [simp]:
  "ci_ok ((k, v) # d) \<longleftrightarrow> ci_abs d (py_lower k) = None \<and> ci_ok d"
  "ci_abs ((k, v) # d) = (ci_abs d)(py_lower k \<mapsto> v)"
  by (auto simp: ci_ok_def ci_abs_def map_of_eq_None_iff image_iff split_beta)

lemma ci_abs_in: "(k, v) \<in> set d \<Longrightarrow> ci_ok d \<Longrightarrow> ci_abs d (py_lower k) = Some v"
  by (induction d) auto

lemma ci_actual_Some:
  assumes ok: "ci_ok d"
  shows "ci_actual k d = Some a \<Longrightarrow> a \<in> fst ` set d \<and> py_lower a = py_lower k"
    and "ci_actual k d = None \<longleftrightarrow> ci_abs d (py_lower k) = None"
proof -
  show "a \<in> fst ` set d \<and> py_lower a = py_lower k" if "ci_actual k d = Some a"
    using that by (force simp: ci_actual_def split: if_splits dest!: find_SomeD)
  have "ci_abs d (py_lower k) = None \<longleftrightarrow> (\<forall>(k', _) \<in> set d. py_lower k' \<noteq> py_lower k)"
    by (auto simp: ci_abs_def map_of_eq_None_iff image_iff split_beta)
  then show "ci_actual k d = None \<longleftrightarrow> ci_abs d (py_lower k) = None"
    by (auto simp: ci_actual_def find_NoneD split_beta image_iff)
qed

lemma map_of_ci: "ci_ok d \<Longrightarrow> a \<in> fst ` set d \<Longrightarrow> map_of d a = ci_abs d (py_lower a)"
proof (induction d)
  case (Cons p d)
  obtain k v where p: "p = (k, v)" by (cases p)
  show ?case
  proof (cases "a = k")
    case False
    with Cons p have a: "a \<in> fst ` set d" by auto
    then obtain u where "(a, u) \<in> set d" by auto
    with Cons.prems p have "ci_abs d (py_lower a) = Some u" by (auto intro: ci_abs_in)
    with Cons p a False show ?thesis by auto
  qed (simp add: p)
qed simp

lemma ci_get_abs: "ci_ok d \<Longrightarrow> ci_get k d = ci_abs d (py_lower k)"
  using ci_actual_Some [of d k] map_of_ci [of d]
  by (cases "ci_actual k d") (auto simp: ci_get_def)

lemma ci_dict_set:
  assumes "ci_ok d" "a \<in> fst ` set d \<or> ci_abs d (py_lower a) = None"
  shows "ci_ok (dict_set a v d)" "ci_abs (dict_set a v d) = (ci_abs d)(py_lower a \<mapsto> v)"
proof -
  have "ci_ok (dict_set a v d) \<and> ci_abs (dict_set a v d) = (ci_abs d)(py_lower a \<mapsto> v)"
    using assms
  proof (induction d)
    case (Cons p d)
    obtain k u where p: "p = (k, u)" by (cases p)
    show ?case
    proof (cases "k = a")
      case True
      with Cons.prems p show ?thesis by (auto simp: fun_eq_iff)
    next
      case False
      with Cons.prems p have rest: "ci_ok d" "a \<in> fst ` set d \<or> ci_abs d (py_lower a) = None"
        by (auto split: if_splits)
      have "py_lower a \<noteq> py_lower k"
      proof
        assume eq: "py_lower a = py_lower k"
        from Cons.prems p False have "a \<in> fst ` set d" using eq by auto
        then obtain w where "(a, w) \<in> set d" by auto
        with Cons.prems(1) p eq show False using ci_abs_in [of a w d] by simp
      qed
      with Cons.IH [OF rest] Cons.prems p False show ?thesis by (auto simp: fun_upd_twist)
    qed
  qed simp
  then show "ci_ok (dict_set a v d)" "ci_abs (dict_set a v d) = (ci_abs d)(py_lower a \<mapsto> v)" by auto
qed

lemma ci_set_abs:
  assumes "ci_ok d"
  shows "ci_ok (ci_set k v d)" "ci_abs (ci_set k v d) = (ci_abs d)(py_lower k \<mapsto> v)"
proof -
  let ?a = "case ci_actual k d of Some a \<Rightarrow> a | None \<Rightarrow> k"
  have "?a \<in> fst ` set d \<or> ci_abs d (py_lower ?a) = None" "py_lower ?a = py_lower k"
    using ci_actual_Some [OF assms, of k] by (auto split: option.split)
  then show "ci_ok (ci_set k v d)" "ci_abs (ci_set k v d) = (ci_abs d)(py_lower k \<mapsto> v)"
    using ci_dict_set [OF assms, of ?a v] by (simp_all add: ci_set_def)
qed

lemma ci_dict_del:
  assumes "ci_ok d" "a \<in> fst ` set d"
  shows "ci_ok (dict_del a d)" "ci_abs (dict_del a d) = (ci_abs d)(py_lower a := None)"
proof -
  have none: "dict_del a d = d" if "a \<notin> fst ` set d" for d :: headers
    using that by (induction d) (auto simp: dict_del_def)
  have "ci_ok (dict_del a d) \<and> ci_abs (dict_del a d) = (ci_abs d)(py_lower a := None)"
    using assms
  proof (induction d)
    case (Cons p d)
    obtain k u where p: "p = (k, u)" by (cases p)
    have step: "dict_del a ((k, u) # d) = (if k = a then dict_del a d else (k, u) # dict_del a d)" for k u
      by (simp add: dict_del_def)
    show ?case
    proof (cases "k = a")
      case True
      with Cons.prems p have "ci_abs d (py_lower a) = None" by simp
      then have "a \<notin> fst ` set d" using Cons.prems p ci_abs_in [of a _ d] by fastforce
      with True Cons.prems p show ?thesis by (auto simp: step none fun_eq_iff)
    next
      case False
      with Cons.prems p have a: "ci_ok d" "a \<in> fst ` set d" by auto
      then obtain w where "(a, w) \<in> set d" by auto
      with Cons.prems p have "py_lower a \<noteq> py_lower k" using ci_abs_in [of a w d] by auto
      with Cons.IH [OF a] Cons.prems p False show ?thesis by (auto simp: step fun_upd_twist)
    qed
  qed simp
  then show "ci_ok (dict_del a d)" "ci_abs (dict_del a d) = (ci_abs d)(py_lower a := None)" by auto
qed

lemma ci_update_abs:
  assumes "ci_ok d"
  shows "ci_ok (ci_update d e)" "ci_abs (ci_update d e) = fold (\<lambda>(k, v) m. m(py_lower k \<mapsto> v)) e (ci_abs d)"
  using assms by (induction e arbitrary: d) (auto simp: ci_update_def ci_set_abs)

text \<open>C16: The header dict implements a map on case-folded names: looking a name up, setting it,
  deleting it, popping it, defaulting it and updating from another dict are those operations of
  the map, in whatever case the name is spelled, and no operation ever makes two entries whose
  names differ only in case.\<close>

theorem header_dict_refines_map:
  assumes "ci_ok d"
  shows "ci_get k d = ci_abs d (py_lower k)
    \<and> ci_ok (ci_set k v d) \<and> ci_abs (ci_set k v d) = (ci_abs d)(py_lower k \<mapsto> v)
    \<and> (case ci_del k d of None \<Rightarrow> ci_abs d (py_lower k) = None
        | Some d' \<Rightarrow> ci_abs d (py_lower k) \<noteq> None \<and> ci_ok d' \<and> ci_abs d' = (ci_abs d)(py_lower k := None))
    \<and> (case ci_pop k d of None \<Rightarrow> ci_abs d (py_lower k) = None
        | Some (u, d') \<Rightarrow> ci_abs d (py_lower k) = Some u \<and> ci_ok d' \<and> ci_abs d' = (ci_abs d)(py_lower k := None))
    \<and> (case ci_setdefault k v d of (u, d') \<Rightarrow>
        (case ci_abs d (py_lower k) of Some w \<Rightarrow> u = w \<and> d' = d
         | None \<Rightarrow> u = v \<and> ci_ok d' \<and> ci_abs d' = (ci_abs d)(py_lower k \<mapsto> v)))
    \<and> ci_ok (ci_update d e) \<and> ci_abs (ci_update d e) = fold (\<lambda>(k, v) m. m(py_lower k \<mapsto> v)) e (ci_abs d)"
proof (intro conjI)
  note act = ci_actual_Some [OF assms, of k]
  show "case ci_del k d of None \<Rightarrow> ci_abs d (py_lower k) = None
        | Some d' \<Rightarrow> ci_abs d (py_lower k) \<noteq> None \<and> ci_ok d' \<and> ci_abs d' = (ci_abs d)(py_lower k := None)"
    using act ci_dict_del [OF assms] by (cases "ci_actual k d") (auto simp: ci_del_def)
  show "case ci_pop k d of None \<Rightarrow> ci_abs d (py_lower k) = None
        | Some (u, d') \<Rightarrow> ci_abs d (py_lower k) = Some u \<and> ci_ok d' \<and> ci_abs d' = (ci_abs d)(py_lower k := None)"
  proof (cases "ci_actual k d")
    case (Some a)
    with act have "a \<in> fst ` set d" "py_lower a = py_lower k" by auto
    with ci_dict_del [OF assms, of a] map_of_ci [OF assms, of a] Some act(2) show ?thesis
      by (cases "map_of d a") (auto simp: ci_pop_def)
  qed (use act in \<open>simp add: ci_pop_def\<close>)
  show "case ci_setdefault k v d of (u, d') \<Rightarrow>
        (case ci_abs d (py_lower k) of Some w \<Rightarrow> u = w \<and> d' = d
         | None \<Rightarrow> u = v \<and> ci_ok d' \<and> ci_abs d' = (ci_abs d)(py_lower k \<mapsto> v))"
    using ci_dict_set [OF assms, of k v] by (simp add: ci_setdefault_def ci_get_abs [OF assms] split: option.split)
qed (use assms ci_get_abs ci_set_abs ci_update_abs in auto)

theorem header_dict_refines_map_witness:
  "ci_get ''x-smallstack-event'' (ci_set ''X-SMALLSTACK-EVENT'' ''b'' [(''X-SmallStack-Event'', ''a'')]) = Some ''b''"
proof -
  let ?d = "[(''X-SmallStack-Event'', ''a'')]"
  have ok: "ci_ok ?d" by code_simp
  have low: "py_lower ''x-smallstack-event'' = py_lower ''X-SMALLSTACK-EVENT''" by code_simp
  from header_dict_refines_map [OF ok, of "''X-SMALLSTACK-EVENT''" "''b''" "[]"]
  have "ci_ok (ci_set ''X-SMALLSTACK-EVENT'' ''b'' ?d)" and
    "ci_abs (ci_set ''X-SMALLSTACK-EVENT'' ''b'' ?d) = (ci_abs ?d)(py_lower ''X-SMALLSTACK-EVENT'' \<mapsto> ''b'')"
    by blast+
  with header_dict_refines_map [of "ci_set ''X-SMALLSTACK-EVENT'' ''b'' ?d" "''x-smallstack-event''" "''''" "[]"] low
  show ?thesis by simp
qed

section \<open>Registries\<close>

interpretation hooks: first_wins_registry register_hook "\<lambda>r k. map_option (Pair k) (map_of r k)" fst
  by unfold_locales (auto simp: register_hook_def map_add_def split: option.splits)

section \<open>Signatures\<close>

text \<open>What \<open>hexdigest\<close> promises: hexadecimal digits.\<close>

definition hex_digest :: "webhook_env \<Rightarrow> bool" where
  "hex_digest env \<longleftrightarrow> (\<forall>s b. list_all (\<lambda>c. hex_value c \<noteq> None) (wv_hmac env s b))"

lemma hex_char: "hex_value c = Some v \<Longrightarrow> py_space c = False" "hex_value c = Some v \<Longrightarrow> code c < 128"
  by (auto simp: hex_value_def py_space_def py_digit_def split: if_splits)

lemma strip_id: "list_all (\<lambda>c. \<not> py_space c) s \<Longrightarrow> strip s = s"
proof -
  assume s: "list_all (\<lambda>c. \<not> py_space c) s"
  have "dropWhile py_space t = t" if "list_all (\<lambda>c. \<not> py_space c) t" for t
    using that by (cases t) auto
  from this [OF s] this [of "rev s"] s show ?thesis
    by (simp add: strip_def lstrip_def rstrip_def list_all_iff)
qed

lemma verify_signed:
  assumes "hex_digest env" "secret \<noteq> ''''"
  shows "verify env secret body (signature_header_value env secret body) = Some True"
proof -
  let ?h = "wv_hmac env secret body"
  have hex: "list_all (\<lambda>c. hex_value c \<noteq> None) ?h" using assms(1) by (simp add: hex_digest_def)
  then have "strip ?h = ?h" by (intro strip_id) (fastforce simp: list_all_iff dest: hex_char(1))
  moreover from hex have "ascii ?h" by (fastforce simp: ascii_def list_all_iff dest: hex_char(2))
  moreover have "startswith (''sha256='' @ ?h) ''sha256=''" by (simp add: startswith_def)
  moreover have "after_char CHR ''='' (''sha256='' @ ?h) = ?h" by (simp add: after_char_def)
  ultimately show ?thesis
    using assms(2) by (simp add: verify_def signature_header_value_def sign_def compare_digest_def)
qed

lemma verify_empty_secret: "verify env '''' body provided = Some False"
  by (simp add: verify_def)

text \<open>A signature is accepted only if it is the digest under the receiver's own secret.\<close>

lemma verify_sound:
  "verify env secret body provided = Some True \<Longrightarrow>
     secret \<noteq> '''' \<and> strip (if startswith provided ''sha256='' then after_char CHR ''='' provided else provided)
       = wv_hmac env secret body"
  by (auto simp: verify_def compare_digest_def sign_def Let_def split: if_splits)

section \<open>Headers on the wire\<close>

lemma lower_upper_char: "py_lower_char (py_upper_char c) = py_lower_char c"
proof -
  have "code (char_of (code c - 32)) = code c - 32" for c :: char
  proof -
    have "code c < 256" by simp
    then have "code c - 32 < 256" by linarith
    then show ?thesis by (rule code_char_of)
  qed
  then show ?thesis by (auto simp: py_lower_char_def py_upper_char_def)
qed

lemma upper_lower_char: "py_upper_char (py_lower_char c) = py_upper_char c"
proof -
  have "code (char_of (code c + 32)) = code c + 32" if "code c \<le> 222" for c :: char
    using that by simp
  then show ?thesis by (auto simp: py_lower_char_def py_upper_char_def)
qed

lemma lower_capitalize: "py_lower (capitalize k) = py_lower k"
  by (cases k) (simp_all add: capitalize_def py_lower_def lower_upper_char)

lemma capitalize_lower: "capitalize (py_lower k) = capitalize k"
  by (cases k) (simp_all add: capitalize_def py_lower_def upper_lower_char)

lemma capitalize_eq: "py_lower a = py_lower b \<Longrightarrow> capitalize a = capitalize b"
  by (metis capitalize_lower)

lemma capitalize_idem: "capitalize (capitalize k) = capitalize k"
  by (metis capitalize_lower lower_capitalize)

definition fold_headers :: "headers \<Rightarrow> (string \<rightharpoonup> string) \<Rightarrow> string \<rightharpoonup> string" where
  "fold_headers hs m = fold (\<lambda>(k, v) m. m(py_lower k \<mapsto> v)) hs m"

lemma fold_headers_simps [simp]:
  "fold_headers [] m = m"
  "fold_headers ((k, v) # hs) m = fold_headers hs (m(py_lower k \<mapsto> v))"
  "fold_headers (hs @ hs') m = fold_headers hs' (fold_headers hs m)"
  by (simp_all add: fold_headers_def)

text \<open>The request object holds each name once, with the value given last.\<close>

lemma wire_headers_abs: "ci_ok (wire_headers hs) \<and> ci_abs (wire_headers hs) = fold_headers hs Map.empty"
proof -
  have "ci_ok (fold (\<lambda>(k, v). dict_set (capitalize k) v) hs d)
      \<and> ci_abs (fold (\<lambda>(k, v). dict_set (capitalize k) v) hs d) = fold_headers hs (ci_abs d)"
    if "ci_ok d" "\<forall>a \<in> fst ` set d. capitalize a = a" for d
    using that
  proof (induction hs arbitrary: d)
    case (Cons p hs)
    obtain k v where p: "p = (k, v)" by (cases p)
    have "capitalize k \<in> fst ` set d \<or> ci_abs d (py_lower (capitalize k)) = None"
    proof (cases "ci_abs d (py_lower k)")
      case (Some u)
      then obtain a where "(a, u) \<in> set d" "py_lower a = py_lower k"
        by (auto simp: ci_abs_def dest!: map_of_SomeD)
      then have "capitalize k = a" "a \<in> fst ` set d"
        using Cons.prems(2) capitalize_eq [of a k] by (auto intro: rev_image_eqI)
      then show ?thesis by simp
    qed (simp add: lower_capitalize)
    from ci_dict_set [OF Cons.prems(1) this, of v]
    have set: "ci_ok (dict_set (capitalize k) v d)"
      "ci_abs (dict_set (capitalize k) v d) = (ci_abs d)(py_lower k \<mapsto> v)"
      by (simp_all only: lower_capitalize)
    have "\<forall>a \<in> fst ` set (dict_set (capitalize k) v d). capitalize a = a"
      using Cons.prems(2) by (simp only: dict_set_keys) (simp add: capitalize_idem)
    from Cons.IH [OF set(1) this] show ?case by (simp only: p set(2) fold_simps split_beta fst_conv snd_conv fold_headers_simps)
  qed simp
  from this [of "[]"] show ?thesis by (simp add: wire_headers_def)
qed

lemma header_value_abs: "header_value name hs = ci_abs hs (py_lower name)"
  by (induction hs) (auto simp: header_value_def)

lemma ci_find: "(case find (\<lambda>(k, _). py_lower k = w) d of Some (_, v) \<Rightarrow> v | None \<Rightarrow> u) =
    (case ci_abs d w of Some v \<Rightarrow> v | None \<Rightarrow> u)"
  by (induction d) auto

lemma fold_headers_ok: "ci_ok d \<Longrightarrow> fold_headers d m = m ++ ci_abs d"
proof (induction d arbitrary: m)
  case (Cons p d)
  obtain k v where p: "p = (k, v)" by (cases p)
  with Cons show ?case by (auto simp: map_add_def fun_eq_iff split: option.split)
qed simp

lemma ci_dict_abs: "ci_ok d \<Longrightarrow> ci_abs (ci_dict d) = ci_abs d"
  using ci_update_abs(2) [of "[]" d] fold_headers_ok [of d Map.empty]
  by (simp add: ci_dict_def fold_headers_def)

text \<open>Our own names in lower case.\<close>

lemma header_names:
  "py_lower ''Content-Type'' = ''content-type''" "py_lower EVENT_HEADER = ''x-smallstack-event''"
  "py_lower DELIVERY_HEADER = ''x-smallstack-delivery''" "py_lower ORIGIN_HEADER = ''x-smallstack-origin''"
  "py_lower ''User-Agent'' = ''user-agent''" "py_lower EVENT_ID_HEADER = ''x-smallstack-event-id''"
  "py_lower SIGNATURE_HEADER = ''x-smallstack-signature''"
  by code_simp+

lemma base_headers_abs:
  "fold_headers (base_headers env ct d) m ''x-smallstack-origin'' = Some (current_origin env)"
  "SIGNATURE_HEADER \<notin> fst ` set (base_headers env ct d)"
proof -
  show "fold_headers (base_headers env ct d) m ''x-smallstack-origin'' = Some (current_origin env)"
    by (auto simp: base_headers_def header_names split: option.split)
  have "py_lower SIGNATURE_HEADER \<notin> py_lower ` fst ` set (base_headers env ct d)"
    by (auto simp: base_headers_def header_names split: option.split)
  then show "SIGNATURE_HEADER \<notin> fst ` set (base_headers env ct d)" by blast
qed

lemma dict_set_new: "k \<notin> fst ` set d \<Longrightarrow> dict_set k v d = d @ [(k, v)]"
  by (induction d) auto

text \<open>A static header of the endpoint replaces none of ours when its name differs from all of
  them by more than case; one that differs by case alone does replace ours on the wire.\<close>

lemma fold_headers_other: "\<forall>(k, _) \<in> set hs. py_lower k \<noteq> w \<Longrightarrow> fold_headers hs m w = m w"
  by (induction hs arbitrary: m) auto

lemma add_static_appends:
  "\<exists>extra. add_static static hs = hs @ extra \<and> set extra \<subseteq> set static"
proof (induction static arbitrary: hs)
  case (Cons p static)
  obtain k v where p: "p = (k, v)" by (cases p)
  show ?case
  proof (cases "k \<in> fst ` set hs")
    case True
    with Cons [of hs] p show ?thesis by (auto simp: add_static_def)
  next
    case False
    from Cons [of "hs @ [(k, v)]"] obtain extra where
      "add_static static (hs @ [(k, v)]) = (hs @ [(k, v)]) @ extra" "set extra \<subseteq> set static" by blast
    with False p show ?thesis by (auto simp: add_static_def dict_set_new)
  qed
qed (simp add: add_static_def)

lemma static_headers_spare_ours:
  assumes "\<forall>(k, _) \<in> set static. py_lower k \<noteq> py_lower name"
  shows "ci_abs (wire_headers (add_static static hs)) (py_lower name) = ci_abs (wire_headers hs) (py_lower name)"
proof -
  from add_static_appends obtain extra where "add_static static hs = hs @ extra" "set extra \<subseteq> set static"
    by blast
  with assms show ?thesis by (auto simp: wire_headers_abs intro!: fold_headers_other)
qed

lemma static_header_in_other_case_wins:
  "ci_abs (wire_headers (add_static [(''x-smallstack-signature'', ''forged'')] [(SIGNATURE_HEADER, ''sha256=00'')]))
     ''x-smallstack-signature'' = Some ''forged''"
  by code_simp

section \<open>The inbound view\<close>

lemma inbound_rows [simp]:
  "wb_queue (count_received now r db) = wb_queue db"
  "wb_receipts (count_received now r db) = wb_receipts db"
  "wb_deliveries (count_received now r db) = wb_deliveries db"
  "wb_queue (snd (store_receipt mk db)) = wb_queue db"
  "wb_receivers (snd (store_receipt mk db)) = wb_receivers db"
  "wb_deliveries (snd (store_receipt mk db)) = wb_deliveries db"
  "wb_receipts (snd (store_receipt mk db)) = wb_receipts db @ [mk (fst (store_receipt mk db))]"
  by (simp_all add: count_received_def update_receivers_def store_receipt_def Let_def)

lemma reject_request_effect:
  "\<exists>extra. reject_request env now q r origin db = db\<lparr>wb_receipts := wb_receipts db @ extra\<rparr>
    \<and> (extra = [] \<or> (\<exists>rc. extra = [rc] \<and> rc_status rc = RRejected \<and> rc_receiver rc = wr_id r \<and> rc_received_at rc = now
        \<and> int (recent_rejections now (wr_id r) db) < ws_rejected_per_minute (wv_settings env)))"
  by (auto simp: reject_request_def store_receipt_def new_receipt_def Let_def intro: exI [of _ "[]"])

text \<open>The verifier of the receiver exists, and answered that the body is signed; one that raises did not.\<close>

definition accepted_by_verifier :: "webhook_seams \<Rightarrow> inbound_request \<Rightarrow> webhook_receiver \<Rightarrow> bool" where
  "accepted_by_verifier sm q r = (\<exists>v. resolve_hook (sm_verifiers sm) DEFAULT_VERIFIER (wr_verifier r) = Some v
      \<and> v (iq_body q) (ci_dict (iq_headers q)) r = Some True)"

lemma verified_request_iff: "verified_request sm q r \<longleftrightarrow> accepted_by_verifier sm q r"
  by (auto simp: verified_request_def accepted_by_verifier_def split: option.splits)

text \<open>C17: A request puts a dispatch on the queue only when it is accepted: the receiver of its slug
  exists and is enabled, its verifier answered yes where the receiver requires a signature, the request
  is not one of our own events coming back, and the body is within the limit. A request with a
  bad signature leaves everything alone except for at most one rejection record, and the
  records a receiver takes in a minute stay within the configured number.\<close>

theorem only_verified_requests_dispatch:
  assumes "incoming_webhook env sm now q db = (resp, db')"
  shows "(wb_queue db' \<noteq> wb_queue db \<longrightarrow>
      (\<exists>r pk. resp = Accepted pk \<and> wb_queue db' = wb_queue db @ [Dispatch pk] \<and> r \<in> set (wb_receivers db)
        \<and> wr_slug r = iq_slug q \<and> wr_enabled r \<and> (wr_require_signature r \<longrightarrow> accepted_by_verifier sm q r)
        \<and> (wr_ignore_origin r \<noteq> '''' \<longrightarrow> header_value ORIGIN_HEADER (iq_headers q) \<noteq> Some (wr_ignore_origin r))
        \<and> int (length (iq_body q)) \<le> ws_inbound_max_bytes (wv_settings env)))
    \<and> (resp = BadSignature \<longrightarrow>
        (\<exists>extra. db' = db\<lparr>wb_receipts := wb_receipts db @ extra\<rparr> \<and> length extra \<le> 1 \<and> list_all (\<lambda>c. rc_status c = RRejected) extra)
        \<and> (\<forall>k. int (recent_rejections now k db') \<le>
              max (int (recent_rejections now k db)) (ws_rejected_per_minute (wv_settings env))))
    \<and> (resp \<in> {InboundDisabled, NoReceiver, TooLarge} \<union> range Challenged \<longrightarrow> db' = db)"
proof (intro conjI impI)
  assume "wb_queue db' \<noteq> wb_queue db"
  then show "\<exists>r pk. resp = Accepted pk \<and> wb_queue db' = wb_queue db @ [Dispatch pk] \<and> r \<in> set (wb_receivers db)
        \<and> wr_slug r = iq_slug q \<and> wr_enabled r \<and> (wr_require_signature r \<longrightarrow> accepted_by_verifier sm q r)
        \<and> (wr_ignore_origin r \<noteq> '''' \<longrightarrow> header_value ORIGIN_HEADER (iq_headers q) \<noteq> Some (wr_ignore_origin r))
        \<and> int (length (iq_body q)) \<le> ws_inbound_max_bytes (wv_settings env)"
    using assms reject_request_effect verified_request_iff
    by (auto simp: incoming_webhook_def Let_def split_beta enqueue_task_def split: option.splits if_splits
        dest!: find_SomeD) (metis webhook_db.select_convs(5) webhook_db.surjective webhook_db.update_convs(4))+
next
  assume bad: "resp = BadSignature"
  then obtain r where r: "db' = reject_request env now q r
      (case header_value ORIGIN_HEADER (iq_headers q) of Some v \<Rightarrow> v | None \<Rightarrow> '''') db"
    using assms by (auto simp: incoming_webhook_def Let_def split_beta split: option.splits if_splits)
  from reject_request_effect [of env now q r "case header_value ORIGIN_HEADER (iq_headers q) of Some v \<Rightarrow> v | None \<Rightarrow> ''''" db]
  obtain extra where x: "db' = db\<lparr>wb_receipts := wb_receipts db @ extra\<rparr>"
    "extra = [] \<or> (\<exists>rc. extra = [rc] \<and> rc_status rc = RRejected \<and> rc_receiver rc = wr_id r \<and> rc_received_at rc = now
        \<and> int (recent_rejections now (wr_id r) db) < ws_rejected_per_minute (wv_settings env))"
    unfolding r by blast
  then show "\<exists>extra. db' = db\<lparr>wb_receipts := wb_receipts db @ extra\<rparr> \<and> length extra \<le> 1 \<and> list_all (\<lambda>c. rc_status c = RRejected) extra"
    by (intro exI [of _ extra]) auto
  show "\<forall>k. int (recent_rejections now k db') \<le>
      max (int (recent_rejections now k db)) (ws_rejected_per_minute (wv_settings env))"
    using x by (auto simp: recent_rejections_def tbl_count_def)
next
  assume "resp \<in> {InboundDisabled, NoReceiver, TooLarge} \<union> range Challenged"
  then show "db' = db"
    using assms by (auto simp: incoming_webhook_def Let_def split_beta split: option.splits if_splits)
qed

definition demo_receiver :: webhook_receiver where
  "demo_receiver = \<lparr>wr_id = 1, wr_name = ''in'', wr_slug = ''peer'', wr_handler = '''', wr_secret = ''s3cret'',
     wr_signature_header = SIGNATURE_HEADER, wr_require_signature = True, wr_enabled = True,
     wr_is_paired = False, wr_verifier = ''hmac'', wr_challenge = '''', wr_ignore_origin = '''',
     wr_owner = None, wr_last_received_at = None, wr_total_received = 0\<rparr>"

definition demo_inbound :: "string \<Rightarrow> inbound_request" where
  "demo_inbound sig = \<lparr>iq_slug = ''peer'', iq_headers = [(''x-smallstack-signature'', sig)], iq_body = ''{}'',
     iq_content_length = ''2'', iq_remote_addr = None\<rparr>"

theorem only_verified_requests_dispatch_witness:
  "wb_queue (snd (incoming_webhook demo_webhook_env demo_seams 0 (demo_inbound ''sha256=beef'')
     (empty_webhooks\<lparr>wb_receivers := [demo_receiver]\<rparr>))) = []
   \<and> \<not> verified_request demo_seams (demo_inbound ''sha256=beef'') demo_receiver"
proof -
  let ?db = "empty_webhooks\<lparr>wb_receivers := [demo_receiver]\<rparr>"
  have bad: "\<not> verified_request demo_seams (demo_inbound ''sha256=beef'') demo_receiver" by code_simp
  obtain resp db' where run: "incoming_webhook demo_webhook_env demo_seams 0 (demo_inbound ''sha256=beef'') ?db = (resp, db')"
    by (cases "incoming_webhook demo_webhook_env demo_seams 0 (demo_inbound ''sha256=beef'') ?db")
  from only_verified_requests_dispatch [OF run] bad have "wb_queue db' = wb_queue ?db"
    by (auto simp: demo_receiver_def verified_request_iff)
  with run bad show ?thesis by (simp add: empty_webhooks_def)
qed

section \<open>The loop guard\<close>

lemma fire_suppressed: "suppressed depth \<Longrightarrow> fold (fire env views depth now) ws db = db"
  by (induction ws) (simp_all add: fire_def)

text \<open>A handler that did not ask to cascade emits nothing, whatever it writes: the deliveries
  and the queue are as before, and only its receipt changes. Whether it returns or raises, the
  thread's suppression depth is afterwards what it was before.\<close>

theorem loop_guard:
  assumes "tbl_find rc_id pk (wb_receipts db) = Some rc" and "tbl_find wr_id (rc_receiver rc) (wb_receivers db) = Some r"
    and "\<not> handler_cascades reg (handler_name r)" and "0 \<le> depth"
  shows "let (st, depth', db') = dispatch_incoming env views reg now pk depth db in
    depth' = depth \<and> wb_deliveries db' = wb_deliveries db \<and> wb_queue db' = wb_queue db
    \<and> st \<in> {Some RProcessed, Some RFailed}
    \<and> (\<exists>f. wb_receipts db' = tbl_update (\<lambda>c. rc_id c = pk) f (wb_receipts db))"
proof -
  have guarded: "fold (fire env views (enter_suppress depth) now) ws db = db" for ws
    using assms(4) by (intro fire_suppressed) (simp add: suppressed_def enter_suppress_def)
  have "leave_suppress (enter_suppress depth) = depth"
    using assms(4) by (simp add: leave_suppress_def enter_suppress_def)
  with assms(1-3) show ?thesis
    by (auto simp: dispatch_incoming_def Let_def split_beta guarded finish_receipt_def update_receipts_def
        split: option.split)
qed

definition demo_receipt :: webhook_receipt where
  "demo_receipt = new_receipt (demo_inbound ''s'') demo_receiver 0 ''{}'' True '''' RAccepted '''' 1"

definition writing_handler :: handler where
  "writing_handler rc = ([\<lparr>mw_app_label = ''support'', mw_model_name = ''ticket'', mw_pk = 7,
     mw_action = ''updated'', mw_data = JNull, mw_event_id = ''e2'', mw_stamp = ''now''\<rparr>], None)"

theorem loop_guard_witness:
  "wb_deliveries (snd (snd (dispatch_incoming demo_webhook_env [] \<lparr>hr_handlers = [(''peer'', writing_handler)],
     hr_cascade = []\<rparr> 0 1 0 (empty_webhooks\<lparr>wb_receivers := [demo_receiver], wb_receipts := [demo_receipt]\<rparr>)))) = []"
proof -
  let ?db = "empty_webhooks\<lparr>wb_receivers := [demo_receiver], wb_receipts := [demo_receipt]\<rparr>"
  have "tbl_find rc_id 1 (wb_receipts ?db) = Some demo_receipt"
    "tbl_find wr_id (rc_receiver demo_receipt) (wb_receivers ?db) = Some demo_receiver"
    by (simp_all add: demo_receipt_def new_receipt_def demo_receiver_def)
  from loop_guard [OF this, of "\<lparr>hr_handlers = [(''peer'', writing_handler)], hr_cascade = []\<rparr>" 0 demo_webhook_env "[]" 0]
  show ?thesis by (simp add: handler_cascades_def split_beta Let_def) (simp add: empty_webhooks_def)
qed

section \<open>Pairing\<close>

lemma tbl_update_one:
  assumes "distinct (map key rows)" "x \<in> set rows" "f x = x"
  shows "tbl_update (\<lambda>r. key r = key x) f rows = rows"
proof -
  have "r = x" if "r \<in> set rows" "key r = key x" for r
    using assms(1,2) that by (auto simp: distinct_map dest: inj_onD)
  with assms(3) have "\<And>r. r \<in> set rows \<Longrightarrow> (if key r = key x then f r else r) = r" by auto
  then show ?thesis by (simp add: tbl_update_def map_idI)
qed

lemma filter_tbl_update:
  assumes "\<And>r. P (f r) = P r"
  shows "filter P (tbl_update Q f rows) = tbl_update Q f (filter P rows)"
  using assms by (induction rows) auto

lemma unpaired_kept:
  assumes "distinct (map key rows)" "x \<in> set rows" "paired x" "r \<in> set rows" "\<not> paired r"
  shows "r \<in> set (tbl_update (\<lambda>y. key y = key x) f rows)"
proof -
  have "key r \<noteq> key x" using assms by (auto simp: distinct_map dest: inj_onD)
  with assms(4) show ?thesis by (force simp: tbl_update_def)
qed

lemma filter_hd: "filter P xs = x # rest \<Longrightarrow> x \<in> set xs \<and> P x"
  by (metis filter_eq_ConsD in_set_conv_decomp)

lemma pair_endpoint_effect:
  assumes ids: "distinct (map we_id (wb_endpoints db))" and run: "pair_endpoint q s drawn db = Inr (e, c, db1)"
  shows "filter (\<lambda>x. we_target_url x = pq_target q \<and> we_is_paired x) (wb_endpoints db1) = [e]"
    "refresh_endpoint q s e = e" "wb_receivers db1 = wb_receivers db" "distinct (map we_id (wb_endpoints db1))"
    "\<And>x. x \<in> set (wb_endpoints db) \<Longrightarrow> \<not> we_is_paired x \<Longrightarrow> x \<in> set (wb_endpoints db1)"
    "s \<noteq> '''' \<Longrightarrow> we_secret e = s" "c \<Longrightarrow> we_headers e = []"
    "we_transform e = ''smallstack'' \<and> we_auth_scheme e = ''hmac'' \<and> we_target_url e = pq_target q"
proof -
  let ?P = "\<lambda>x. we_target_url x = pq_target q \<and> we_is_paired x"
  have "filter ?P (wb_endpoints db1) = [e] \<and> refresh_endpoint q s e = e \<and> wb_receivers db1 = wb_receivers db
    \<and> distinct (map we_id (wb_endpoints db1))
    \<and> (\<forall>x \<in> set (wb_endpoints db). \<not> we_is_paired x \<longrightarrow> x \<in> set (wb_endpoints db1))
    \<and> (s \<noteq> '''' \<longrightarrow> we_secret e = s) \<and> (c \<longrightarrow> we_headers e = [])
    \<and> we_transform e = ''smallstack'' \<and> we_auth_scheme e = ''hmac'' \<and> we_target_url e = pq_target q"
  proof (cases "filter ?P (wb_endpoints db)")
    case Nil
    with run ids new_pk_fresh [of we_id "wb_endpoints db"] show ?thesis
      by (auto simp: pair_endpoint_def Let_def pair_endpoint_row_def refresh_endpoint_def or_else_def)
  next
    case (Cons e0 rest)
    then have e0: "e0 \<in> set (wb_endpoints db)" "?P e0" using filter_hd [OF Cons] by blast+
    from Cons run have rest: "rest = []" by (auto simp: pair_endpoint_def split: list.splits)
    with Cons run have db1: "e = refresh_endpoint q s e0" "c = False"
      "wb_endpoints db1 = tbl_update (\<lambda>x. we_id x = we_id e0) (refresh_endpoint q s) (wb_endpoints db)"
      "wb_receivers db1 = wb_receivers db"
      by (auto simp: pair_endpoint_def update_endpoints_def)
    have keep: "?P (refresh_endpoint q s x) = ?P x" for x by (simp add: refresh_endpoint_def)
    have "filter ?P (wb_endpoints db1) = [e]"
      using filter_tbl_update [of ?P "refresh_endpoint q s", OF keep] Cons rest by (simp add: db1)
    moreover have "map we_id (wb_endpoints db1) = map we_id (wb_endpoints db)"
      unfolding db1 by (rule map_tbl_update) (simp add: refresh_endpoint_def)
    moreover have "x \<in> set (wb_endpoints db1)" if "x \<in> set (wb_endpoints db)" "\<not> we_is_paired x" for x
      unfolding db1 using unpaired_kept [OF ids e0(1), of we_is_paired x] e0(2) that by simp
    ultimately show ?thesis using ids e0(2) db1 by (simp add: refresh_endpoint_def or_else_def)
  qed
  then show "filter ?P (wb_endpoints db1) = [e]" "refresh_endpoint q s e = e" "wb_receivers db1 = wb_receivers db"
    "distinct (map we_id (wb_endpoints db1))"
    "\<And>x. x \<in> set (wb_endpoints db) \<Longrightarrow> \<not> we_is_paired x \<Longrightarrow> x \<in> set (wb_endpoints db1)"
    "s \<noteq> '''' \<Longrightarrow> we_secret e = s" "c \<Longrightarrow> we_headers e = []"
    "we_transform e = ''smallstack'' \<and> we_auth_scheme e = ''hmac'' \<and> we_target_url e = pq_target q" by auto
qed

lemma pair_endpoint_again:
  assumes "filter (\<lambda>x. we_target_url x = pq_target q \<and> we_is_paired x) (wb_endpoints db) = [e]"
    and "refresh_endpoint q s e = e" "distinct (map we_id (wb_endpoints db))"
  shows "pair_endpoint q s drawn db = Inr (e, False, db)"
proof -
  have "e \<in> set (wb_endpoints db)" using filter_hd [OF assms(1)] by blast
  then show ?thesis
    using assms tbl_update_one [of we_id "wb_endpoints db" e "refresh_endpoint q s"]
    by (simp add: pair_endpoint_def update_endpoints_def)
qed

lemma pair_receiver_effect:
  assumes ids: "distinct (map wr_id (wb_receivers db))" and run: "pair_receiver env q slug s drawn db = Inr (r, db1)"
  shows "filter (\<lambda>x. wr_slug x = slug \<and> wr_is_paired x) (wb_receivers db1) = [r]"
    "refresh_receiver q (current_origin env) s r = r" "wb_endpoints db1 = wb_endpoints db"
    "distinct (map wr_id (wb_receivers db1))"
    "\<And>x. x \<in> set (wb_receivers db) \<Longrightarrow> \<not> wr_is_paired x \<Longrightarrow> x \<in> set (wb_receivers db1)"
    "s \<noteq> '''' \<Longrightarrow> wr_secret r = s"
    "list_ex (\<lambda>x. wr_slug x = t \<and> \<not> wr_is_paired x) (wb_receivers db1)
       = list_ex (\<lambda>x. wr_slug x = t \<and> \<not> wr_is_paired x) (wb_receivers db)"
proof -
  let ?P = "\<lambda>x. wr_slug x = slug \<and> wr_is_paired x" and ?f = "refresh_receiver q (current_origin env) s"
  let ?U = "\<lambda>x. wr_slug x = t \<and> \<not> wr_is_paired x"
  have "filter ?P (wb_receivers db1) = [r] \<and> ?f r = r \<and> wb_endpoints db1 = wb_endpoints db
    \<and> distinct (map wr_id (wb_receivers db1))
    \<and> (\<forall>x \<in> set (wb_receivers db). \<not> wr_is_paired x \<longrightarrow> x \<in> set (wb_receivers db1))
    \<and> (s \<noteq> '''' \<longrightarrow> wr_secret r = s) \<and> list_ex ?U (wb_receivers db1) = list_ex ?U (wb_receivers db)"
  proof (cases "filter ?P (wb_receivers db)")
    case Nil
    with run ids new_pk_fresh [of wr_id "wb_receivers db"] show ?thesis
      by (auto simp: pair_receiver_def Let_def pair_receiver_row_def refresh_receiver_def or_else_def split: if_splits)
  next
    case (Cons r0 rest)
    then have r0: "r0 \<in> set (wb_receivers db)" "?P r0" using filter_hd [OF Cons] by blast+
    from Cons run have rest: "rest = []" by (auto simp: pair_receiver_def split: list.splits)
    with Cons run have db1: "r = ?f r0" "wb_endpoints db1 = wb_endpoints db"
      "wb_receivers db1 = tbl_update (\<lambda>x. wr_id x = wr_id r0) ?f (wb_receivers db)"
      by (auto simp: pair_receiver_def update_receivers_def)
    have keep: "?P (?f x) = ?P x" "?U (?f x) = ?U x" for x by (simp_all add: refresh_receiver_def)
    have "filter ?P (wb_receivers db1) = [r]"
      using filter_tbl_update [of ?P ?f, OF keep(1)] Cons rest by (simp add: db1)
    moreover have "map wr_id (wb_receivers db1) = map wr_id (wb_receivers db)"
      unfolding db1 by (rule map_tbl_update) (simp add: refresh_receiver_def)
    moreover have "x \<in> set (wb_receivers db1)" if "x \<in> set (wb_receivers db)" "\<not> wr_is_paired x" for x
      unfolding db1 using unpaired_kept [OF ids r0(1), of wr_is_paired x] r0(2) that by simp
    moreover have "list_ex ?U (tbl_update Q ?f rows) = list_ex ?U rows" for Q rows
      using keep(2) by (induction rows) auto
    ultimately show ?thesis using ids r0(2) db1 by (simp add: refresh_receiver_def or_else_def)
  qed
  then show "filter ?P (wb_receivers db1) = [r]" "?f r = r" "wb_endpoints db1 = wb_endpoints db"
    "distinct (map wr_id (wb_receivers db1))"
    "\<And>x. x \<in> set (wb_receivers db) \<Longrightarrow> \<not> wr_is_paired x \<Longrightarrow> x \<in> set (wb_receivers db1)"
    "s \<noteq> '''' \<Longrightarrow> wr_secret r = s" "list_ex ?U (wb_receivers db1) = list_ex ?U (wb_receivers db)" by auto
qed

lemma pair_receiver_again:
  assumes "filter (\<lambda>x. wr_slug x = slug \<and> wr_is_paired x) (wb_receivers db) = [r]"
    and "refresh_receiver q (current_origin env) s r = r" "distinct (map wr_id (wb_receivers db))"
  shows "pair_receiver env q slug s drawn db = Inr (r, db)"
proof -
  have "r \<in> set (wb_receivers db)" using filter_hd [OF assms(1)] by blast
  then show ?thesis
    using assms tbl_update_one [of wr_id "wb_receivers db" r "refresh_receiver q (current_origin env) s"]
    by (simp add: pair_receiver_def update_receivers_def)
qed

text \<open>A pairing that succeeded, taken apart.\<close>

lemma pair_smallstack_Inr:
  assumes "pair_smallstack env d1 d2 q db = (db2, Inr p)" and two_way: "\<not> pq_one_way q"
  shows "\<exists>e c db1 r.
    pair_endpoint q (or_else (pq_send q) (pq_secret q)) d1 db = Inr (e, c, db1) \<and>
    pair_receiver env q (pair_slug env q db1) (or_else (pq_recv q) (pq_secret q)) d2 db1 = Inr (r, db2) \<and>
    pt_endpoint p = we_id e \<and> pt_receiver p = Some (wr_id r) \<and> pt_send p = we_secret e \<and> pt_recv p = wr_secret r \<and>
    pt_slug p = Some (pair_slug env q db1) \<and> pt_created p = c \<and>
    (\<exists>v. url_is_allowed env (pq_target q) = Some v) \<and>
    pt_mirror p = mirror_command env (absolute_inbound env (pair_slug env q db1)) (wr_secret r) (we_secret e) (pair_events q)"
proof -
  let ?s = "or_else (pq_send q) (pq_secret q)" and ?t = "or_else (pq_recv q) (pq_secret q)"
  from assms obtain e c db1 where ep: "pair_endpoint q ?s d1 db = Inr (e, c, db1)"
    by (cases "pair_endpoint q ?s d1 db") (auto simp: pair_smallstack_def Let_def)
  moreover from assms ep obtain r db3 where rc: "pair_receiver env q (pair_slug env q db1) ?t d2 db1 = Inr (r, db3)"
    by (cases "pair_receiver env q (pair_slug env q db1) ?t d2 db1") (auto simp: pair_smallstack_def Let_def)
  moreover from assms ep rc have "db3 = db2" "pt_endpoint p = we_id e" "pt_receiver p = Some (wr_id r)"
    "pt_send p = we_secret e" "pt_recv p = wr_secret r" "pt_slug p = Some (pair_slug env q db1)" "pt_created p = c"
    "\<exists>v. url_is_allowed env (pq_target q) = Some v"
    "pt_mirror p = mirror_command env (absolute_inbound env (pair_slug env q db1)) (wr_secret r) (we_secret e) (pair_events q)"
    by (auto simp: pair_smallstack_def Let_def split: option.splits)
  ultimately show ?thesis by blast
qed

lemma pair_smallstack_again:
  assumes "pair_endpoint q (or_else (pq_send q) (pq_secret q)) d1 db = Inr (e, c, db1)"
    and "pair_receiver env q (pair_slug env q db1) (or_else (pq_recv q) (pq_secret q)) d2 db1 = Inr (r, db2)"
    and "url_is_allowed env (pq_target q) = Some v" "\<not> pq_one_way q"
  shows "\<exists>p. pair_smallstack env d1 d2 q db = (db2, Inr p) \<and> pt_endpoint p = we_id e
    \<and> pt_receiver p = Some (wr_id r) \<and> pt_send p = we_secret e \<and> pt_recv p = wr_secret r
    \<and> pt_slug p = Some (pair_slug env q db1) \<and> pt_created p = c
    \<and> pt_mirror p = mirror_command env (absolute_inbound env (pair_slug env q db1)) (wr_secret r) (we_secret e) (pair_events q)"
  using assms by (simp add: pair_smallstack_def Let_def)

text \<open>Pairing again with the same request changes nothing: no row is added or altered, the
  same endpoint, receiver, slug, secrets and mirror command come back whatever new secrets would
  have been drawn, and the endpoint is reported as not created. Endpoints and receivers made by
  hand are never touched, also where they have the same target or slug.\<close>

theorem pairing_idempotent:
  assumes ids: "distinct (map we_id (wb_endpoints db))" "distinct (map wr_id (wb_receivers db))"
    and run: "pair_smallstack env d1 d2 q db = (db2, Inr p)" and two_way: "\<not> pq_one_way q"
  shows "(\<exists>p'. pair_smallstack env d1' d2' q db2 = (db2, Inr p') \<and> pt_endpoint p' = pt_endpoint p
      \<and> pt_receiver p' = pt_receiver p \<and> pt_send p' = pt_send p \<and> pt_recv p' = pt_recv p
      \<and> pt_slug p' = pt_slug p \<and> pt_mirror p' = pt_mirror p \<and> \<not> pt_created p')
    \<and> (\<forall>e \<in> set (wb_endpoints db). we_is_paired e \<or> e \<in> set (wb_endpoints db2))
    \<and> (\<forall>r \<in> set (wb_receivers db). wr_is_paired r \<or> r \<in> set (wb_receivers db2))"
proof -
  let ?s = "or_else (pq_send q) (pq_secret q)" and ?t = "or_else (pq_recv q) (pq_secret q)"
  from run two_way obtain e c db1 r where
    ep: "pair_endpoint q ?s d1 db = Inr (e, c, db1)" and
    rc: "pair_receiver env q (pair_slug env q db1) ?t d2 db1 = Inr (r, db2)" and
    p: "pt_endpoint p = we_id e" "pt_receiver p = Some (wr_id r)" "pt_send p = we_secret e" "pt_recv p = wr_secret r"
      "pt_slug p = Some (pair_slug env q db1)"
      "pt_mirror p = mirror_command env (absolute_inbound env (pair_slug env q db1)) (wr_secret r) (we_secret e) (pair_events q)" and
    url: "\<exists>v. url_is_allowed env (pq_target q) = Some v"
    using pair_smallstack_Inr [OF run two_way] by blast
  note e = pair_endpoint_effect [OF ids(1) ep]
  have ids1: "distinct (map wr_id (wb_receivers db1))" using ids(2) e(3) by simp
  note r = pair_receiver_effect [OF ids1 rc]
  have slug: "pair_slug env q db2 = pair_slug env q db1"
    by (simp add: pair_slug_def Let_def r(7))
  have again: "pair_endpoint q ?s d1' db2 = Inr (e, False, db2)"
    using pair_endpoint_again [of q db2 e ?s d1'] e r(3) by simp
  have again2: "pair_receiver env q (pair_slug env q db2) ?t d2' db2 = Inr (r, db2)"
    using pair_receiver_again [of "pair_slug env q db1" db2 r q env ?t d2'] r slug by simp
  from url obtain v where "url_is_allowed env (pq_target q) = Some v" by blast
  from pair_smallstack_again [OF again again2 this two_way] have
    "\<exists>p'. pair_smallstack env d1' d2' q db2 = (db2, Inr p') \<and> pt_endpoint p' = pt_endpoint p
      \<and> pt_receiver p' = pt_receiver p \<and> pt_send p' = pt_send p \<and> pt_recv p' = pt_recv p
      \<and> pt_slug p' = pt_slug p \<and> pt_mirror p' = pt_mirror p \<and> \<not> pt_created p'"
    by (auto simp: p slug)
  moreover have "we_is_paired x \<or> x \<in> set (wb_endpoints db2)" if "x \<in> set (wb_endpoints db)" for x
    using e(5) [OF that] r(3) by auto
  moreover have "wr_is_paired x \<or> x \<in> set (wb_receivers db2)" if "x \<in> set (wb_receivers db)" for x
    using r(5) [of x] that e(3) by auto
  ultimately show ?thesis by blast
qed

definition demo_pair :: pair_request where
  "demo_pair = \<lparr>pq_target = ''https://b.example/in/'', pq_events = [], pq_name = '''', pq_slug = None,
     pq_send = '''', pq_recv = '''', pq_secret = '''', pq_one_way = False, pq_owner = None\<rparr>"

definition demo_paired :: "webhook_db \<times> (pair_error + pair_result)" where
  "demo_paired = pair_smallstack demo_webhook_env ''ab'' ''cd'' demo_pair demo_webhooks"

lemma demo_paired_ok: "pair_smallstack demo_webhook_env ''ab'' ''cd'' demo_pair demo_webhooks = (fst demo_paired, Inr (projr (snd demo_paired)))"
proof -
  have "isl (snd demo_paired) = False" by code_simp
  then show ?thesis by (cases "snd demo_paired") (auto simp: demo_paired_def prod_eq_iff)
qed

theorem pairing_idempotent_witness:
  "fst (pair_smallstack demo_webhook_env ''x'' ''y'' demo_pair (fst demo_paired)) = fst demo_paired"
  using pairing_idempotent [OF _ _ demo_paired_ok, of "''x''" "''y''"]
  by (auto simp: demo_webhooks_def empty_webhooks_def demo_pair_def)

section \<open>A signed delivery between two installations\<close>

lemma default_seams_request:
  assumes "we_transform ep = ''smallstack''" "we_auth_scheme ep = ''hmac''"
  shows "build_request env (default_seams env no_seams) ep d =
    Some \<lparr>wq_url = we_target_url ep, wq_body = wv_dumps env (wd_payload d),
      wq_headers = add_static (we_headers ep) (base_headers env ''application/json'' d @
        [(SIGNATURE_HEADER, signature_header_value env (we_secret ep) (wv_dumps env (wd_payload d)))])\<rparr>"
  using assms base_headers_abs(2) [of env "''application/json''" d]
  by (simp add: build_request_def resolve_hook_def default_seams_def no_seams_def register_hook_def
      default_transform_def default_auth_def DEFAULT_TRANSFORM_def DEFAULT_AUTH_def add_params_def dict_set_new)

lemma signed_headers_abs:
  "ci_abs (wire_headers (base_headers env ct d @ [(SIGNATURE_HEADER, v)])) (py_lower SIGNATURE_HEADER) = Some v"
  "ci_abs (wire_headers (base_headers env ct d @ [(SIGNATURE_HEADER, v)])) (py_lower ORIGIN_HEADER) = Some (current_origin env)"
  by (simp_all add: wire_headers_abs header_names base_headers_abs(1))

lemma default_verifier_request:
  assumes "wr_verifier r = ''hmac''" "wr_signature_header r = SIGNATURE_HEADER"
    and "hex_digest env" "wr_secret r \<noteq> ''''" "ci_ok (iq_headers q)"
    and "ci_abs (iq_headers q) (py_lower SIGNATURE_HEADER) =
      Some (signature_header_value env (wr_secret r) (iq_body q))"
  shows "verified_request (default_seams env no_seams) q r"
  using assms verify_signed [OF assms(3,4), of "iq_body q"]
  by (simp add: verified_request_def resolve_hook_def default_seams_def no_seams_def register_hook_def
      default_verifier_def DEFAULT_VERIFIER_def ci_find ci_dict_abs Let_def)

lemma pair_receiver_new:
  assumes "pair_receiver env q slug s drawn db = Inr (r, db1)" and "\<forall>x \<in> set (wb_receivers db). wr_slug x \<noteq> slug"
  shows "wb_receivers db1 = wb_receivers db @ [r] \<and> wr_slug r = slug \<and> wr_enabled r \<and> wr_verifier r = ''hmac''
    \<and> wr_signature_header r = SIGNATURE_HEADER \<and> wr_challenge r = '''' \<and> wr_ignore_origin r = current_origin env
    \<and> wr_secret r = or_else s drawn"
proof -
  have "filter (\<lambda>x. wr_slug x = slug \<and> wr_is_paired x) (wb_receivers db) = []"
    using assms(2) by (simp add: filter_empty_conv)
  with assms(1) show ?thesis
    by (auto simp: pair_receiver_def Let_def pair_receiver_row_def split: if_splits)
qed

lemma find_snoc_new: "\<forall>x \<in> set xs. \<not> P x \<Longrightarrow> P y \<Longrightarrow> find P (xs @ [y]) = Some y"
  by (induction xs) auto

text \<open>The request of a freshly paired endpoint: the default body, and the signature under the endpoint's secret.\<close>

lemma paired_request:
  assumes pair: "pair_smallstack env a1 a2 q db = (db1, Inr p)" "\<not> pq_one_way q" "pt_created p"
    and ids: "distinct (map we_id (wb_endpoints db))"
    and ep: "tbl_find we_id (pt_endpoint p) (wb_endpoints db1) = Some ep"
    and req: "build_request env (default_seams env no_seams) ep d = Some req"
  shows "wq_headers req = base_headers env ''application/json'' d @
    [(SIGNATURE_HEADER, signature_header_value env (pt_send p) (wq_body req))]"
proof -
  from pair_smallstack_Inr [OF pair(1,2)] pair(3) obtain e db2 r where
    e: "pair_endpoint q (or_else (pq_send q) (pq_secret q)) a1 db = Inr (e, True, db2)" and
    r: "pair_receiver env q (pair_slug env q db2) (or_else (pq_recv q) (pq_secret q)) a2 db2 = Inr (r, db1)" and
    p: "pt_endpoint p = we_id e" "pt_send p = we_secret e" by auto
  note e' = pair_endpoint_effect [OF ids e]
  have "wb_endpoints db1 = wb_endpoints db2"
    using r by (auto simp: pair_receiver_def Let_def update_receivers_def split: list.splits if_splits)
  moreover have "e \<in> set (wb_endpoints db2)" using filter_hd [OF e'(1)] by blast
  ultimately have "ep = e" using ep tbl_find_in [OF e'(4)] by (simp add: p)
  with req e'(7,8) show ?thesis by (auto simp: default_seams_request add_static_def p)
qed

text \<open>A receiver of the default scheme accepts a request signed with its secret.\<close>

lemma signed_request_accepted:
  assumes on: "ws_enabled (wv_settings env)" "ws_inbound (wv_settings env)"
    and found: "find (\<lambda>x. wr_slug x = iq_slug q \<and> wr_enabled x) (wb_receivers db) = Some r"
    and r: "wr_verifier r = ''hmac''" "wr_signature_header r = SIGNATURE_HEADER" "wr_challenge r = ''''"
      "wr_secret r \<noteq> ''''"
    and size: "declared_length (iq_content_length q) \<le> ws_inbound_max_bytes (wv_settings env)"
      "int (length (iq_body q)) \<le> ws_inbound_max_bytes (wv_settings env)"
    and digest: "hex_digest env"
    and signed: "ci_ok (iq_headers q)" "ci_abs (iq_headers q) (py_lower SIGNATURE_HEADER) =
      Some (signature_header_value env (wr_secret r) (iq_body q))"
    and origin: "header_value ORIGIN_HEADER (iq_headers q) = Some o'" "o' \<noteq> wr_ignore_origin r"
  shows "\<exists>pk. fst (incoming_webhook env (default_seams env no_seams) now q db) = Accepted pk"
proof -
  have "verified_request (default_seams env no_seams) q r"
    using default_verifier_request [OF r(1,2) digest _ signed] r(4) by simp
  moreover have "challenge_response (default_seams env no_seams) q r = None"
    by (simp add: challenge_response_def get_challenge_def r(3))
  ultimately show ?thesis
    using on found size origin by (simp add: incoming_webhook_def Let_def split_beta)
qed

text \<open>C18: Two installations paired with swapped secrets understand each other: a delivery that
  one builds for its new paired endpoint -- transformed, signed and sent with its headers as
  \<open>urllib\<close> puts them on the wire -- is verified and accepted by the other's new paired receiver,
  as long as the body is within the limit and the two have different origins. Each one's send
  secret is the other's receive secret, so the way back is the same.\<close>

theorem pair_round_trip:
  assumes A: "pair_smallstack envA a1 a2 qa dbA = (dbA1, Inr pa)" "\<not> pq_one_way qa" "pt_created pa"
    and B: "pair_smallstack envB b1 b2 qb dbB = (dbB1, Inr pb)" "\<not> pq_one_way qb"
    and swapped: "pq_send qb = pt_recv pa" "pq_recv qb = pt_send pa" "pt_recv pa \<noteq> ''''" "pt_send pa \<noteq> ''''"
    and ids: "distinct (map we_id (wb_endpoints dbA))" "distinct (map wr_id (wb_receivers dbB))"
      "distinct (map we_id (wb_endpoints dbB))"
    and slug: "\<forall>r \<in> set (wb_receivers dbB). pt_slug pb \<noteq> Some (wr_slug r)"
    and digest: "wv_hmac envA = wv_hmac envB" "hex_digest envB"
    and on: "ws_enabled (wv_settings envB)" "ws_inbound (wv_settings envB)"
    and origins: "current_origin envA \<noteq> current_origin envB"
    and ep: "tbl_find we_id (pt_endpoint pa) (wb_endpoints dbA1) = Some ep"
    and req: "build_request envA (default_seams envA no_seams) ep d = Some req"
    and q: "Some (iq_slug q) = pt_slug pb" "iq_headers q = wire_headers (wq_headers req)" "iq_body q = wq_body req"
    and size: "declared_length (iq_content_length q) \<le> ws_inbound_max_bytes (wv_settings envB)"
      "int (length (iq_body q)) \<le> ws_inbound_max_bytes (wv_settings envB)"
  shows "(\<exists>pk. fst (incoming_webhook envB (default_seams envB no_seams) now q dbB1) = Accepted pk)
    \<and> pt_send pb = pt_recv pa \<and> pt_recv pb = pt_send pa"
proof -
  have hs: "wq_headers req = base_headers envA ''application/json'' d @
      [(SIGNATURE_HEADER, signature_header_value envA (pt_send pa) (wq_body req))]"
    by (rule paired_request [OF A ids(1) ep req])
  from pair_smallstack_Inr [OF B] obtain e db1 r where
    e: "pair_endpoint qb (or_else (pq_send qb) (pq_secret qb)) b1 dbB = Inr (e, pt_created pb, db1)" and
    rB: "pair_receiver envB qb (pair_slug envB qb db1) (or_else (pq_recv qb) (pq_secret qb)) b2 db1 = Inr (r, dbB1)" and
    pb: "pt_send pb = we_secret e" "pt_recv pb = wr_secret r" "pt_slug pb = Some (pair_slug envB qb db1)" by auto
  note e' = pair_endpoint_effect [OF ids(3) e]
  have supplied: "or_else (pq_send qb) (pq_secret qb) = pt_recv pa" "or_else (pq_recv qb) (pq_secret qb) = pt_send pa"
    using swapped by (simp_all add: or_else_def)
  have "\<forall>x \<in> set (wb_receivers db1). wr_slug x \<noteq> pair_slug envB qb db1"
    using slug pb(3) e'(3) by auto
  note new = pair_receiver_new [OF rB this]
  have secret: "wr_secret r = pt_send pa" using new supplied(2) swapped(4) by (auto simp: or_else_def)
  have found: "find (\<lambda>x. wr_slug x = iq_slug q \<and> wr_enabled x) (wb_receivers dbB1) = Some r"
    using new slug q(1) pb(3) e'(3) by (auto intro!: find_snoc_new)
  have "ci_ok (iq_headers q)" "ci_abs (iq_headers q) (py_lower SIGNATURE_HEADER) =
      Some (signature_header_value envB (wr_secret r) (iq_body q))"
    "header_value ORIGIN_HEADER (iq_headers q) = Some (current_origin envA)"
    using signed_headers_abs [of envA "''application/json''" d] digest(1)
    by (simp_all add: q hs secret wire_headers_abs header_value_abs signature_header_value_def sign_def)
  from signed_request_accepted [OF on found _ _ _ _ size digest(2) this] new origins secret swapped(4)
  have "\<exists>pk. fst (incoming_webhook envB (default_seams envB no_seams) now q dbB1) = Accepted pk" by auto
  moreover have "pt_send pb = pt_recv pa" using e'(6) supplied(1) swapped(3) pb(1) by simp
  ultimately show ?thesis using secret pb(2) by simp
qed

text \<open>The peer of the demo installation, with an origin of its own.\<close>

definition demo_peer_env :: webhook_env where
  "demo_peer_env = demo_webhook_env\<lparr>wv_settings := default_webhook_settings\<lparr>ws_origin := ''https://b.example''\<rparr>\<rparr>"

definition demo_mirror :: pair_request where
  "demo_mirror = demo_pair\<lparr>pq_target := ''https://a.example/in/'', pq_send := ''cd'', pq_recv := ''ab''\<rparr>"

definition demo_peer_paired :: "webhook_db \<times> (pair_error + pair_result)" where
  "demo_peer_paired = pair_smallstack demo_peer_env ''u'' ''v'' demo_mirror empty_webhooks"

definition demo_wired :: inbound_request where
  "demo_wired =
     (let ep = hd (filter we_is_paired (wb_endpoints (fst demo_paired)));
          req = the (build_request demo_webhook_env demo_seams ep demo_delivery)
      in \<lparr>iq_slug = the (pt_slug (projr (snd demo_peer_paired))), iq_headers = wire_headers (wq_headers req),
          iq_body = wq_body req, iq_content_length = ''2'', iq_remote_addr = None\<rparr>)"

theorem pair_round_trip_witness:
  "\<exists>pk. fst (incoming_webhook demo_peer_env (default_seams demo_peer_env no_seams) 0 demo_wired (fst demo_peer_paired)) = Accepted pk"
proof -
  let ?pa = "projr (snd demo_paired)" and ?pb = "projr (snd demo_peer_paired)"
  let ?ep = "hd (filter we_is_paired (wb_endpoints (fst demo_paired)))"
  let ?req = "the (build_request demo_webhook_env demo_seams ?ep demo_delivery)"
  have B: "pair_smallstack demo_peer_env ''u'' ''v'' demo_mirror empty_webhooks = (fst demo_peer_paired, Inr ?pb)"
  proof -
    have "isl (snd demo_peer_paired) = False" by code_simp
    then show ?thesis by (cases "snd demo_peer_paired") (auto simp: demo_peer_paired_def prod_eq_iff)
  qed
  have secrets: "pt_send ?pa = ''ab''" "pt_recv ?pa = ''cd''" "pt_created ?pa" by code_simp+
  have ep: "tbl_find we_id (pt_endpoint ?pa) (wb_endpoints (fst demo_paired)) = Some ?ep" by code_simp
  have "build_request demo_webhook_env demo_seams ?ep demo_delivery \<noteq> None" by code_simp
  then have req: "build_request demo_webhook_env (default_seams demo_webhook_env no_seams) ?ep demo_delivery = Some ?req"
    by (simp add: demo_seams_def)
  have hex: "hex_digest demo_peer_env"
  proof -
    have "hex_value (digit_char (n mod 10)) \<noteq> None" for n
      using py_digit_digit_char [of "n mod 10"] by (simp add: hex_value_def)
    then show ?thesis by (simp add: hex_digest_def demo_peer_env_def demo_webhook_env_def list_all_iff)
  qed
  have slugs: "wb_receivers empty_webhooks = []" "wb_endpoints empty_webhooks = []"
    "distinct (map we_id (wb_endpoints demo_webhooks))" by code_simp+
  have orig: "current_origin demo_webhook_env \<noteq> current_origin demo_peer_env" by code_simp
  have ws: "ws_enabled (wv_settings demo_peer_env)" "ws_inbound (wv_settings demo_peer_env)"
    "wv_hmac demo_webhook_env = wv_hmac demo_peer_env" "ws_inbound_max_bytes (wv_settings demo_peer_env) = 1048576"
    by (simp_all add: demo_peer_env_def demo_webhook_env_def default_webhook_settings_def)
  have q: "Some (iq_slug demo_wired) = pt_slug ?pb" "declared_length (iq_content_length demo_wired) = 2"
    "length (iq_body demo_wired) = 2" by code_simp+
  have q2: "iq_headers demo_wired = wire_headers (wq_headers ?req)" "iq_body demo_wired = wq_body ?req"
    by (simp_all add: demo_wired_def Let_def)
  show ?thesis
    using pair_round_trip [OF demo_paired_ok _ secrets(3) B _ _ _ _ _ slugs(3) _ _ _ ws(3) hex ws(1,2) orig ep req q(1) q2]
    by (simp add: secrets slugs ws(4) q(2,3)) (simp add: demo_pair_def demo_mirror_def)
qed

end
