(* ===== verification/Heartbeat.thy ===== *)
theory Heartbeat
  imports Prelude Py_Strings Py_Json
begin

text \<open>
  The heartbeat app's data and writers: \<open>apps/heartbeat/models.py\<close>, \<open>services.py\<close>,
  \<open>maintenance.py\<close> and the monitor registry of \<open>apps/smallstack/monitors.py\<close>.

  An aware \<open>datetime\<close> is a \<open>moment\<close>: an instant in UTC (what \<open>now()\<close> and the database give) or a
  wall-clock time in the current zone (what \<open>make_aware\<close> gives). Python compares and subtracts two
  datetimes of one zone by their wall clocks and two of different zones by their instants; both
  are written out. The zone itself, whose data is not part of the repository, is a pair of
  functions. A date is the number of days since the epoch; \<open>now()\<close> is an argument, one value for
  each operation.
\<close>

section \<open>Aware datetimes\<close>

record zone =
  zn_utc :: "int \<Rightarrow> instant"   \<comment> \<open>wall clock to instant\<close>
  zn_wall :: "instant \<Rightarrow> int"  \<comment> \<open>instant to wall clock\<close>

datatype moment = Utc instant | Local int

primrec moment_utc :: "zone \<Rightarrow> moment \<Rightarrow> instant" where
  "moment_utc z (Utc t) = t"
| "moment_utc z (Local w) = zn_utc z w"

fun moment_less :: "zone \<Rightarrow> moment \<Rightarrow> moment \<Rightarrow> bool" where
  "moment_less z (Local v) (Local w) = (v < w)"
| "moment_less z a b = (moment_utc z a < moment_utc z b)"

fun moment_minus :: "zone \<Rightarrow> moment \<Rightarrow> moment \<Rightarrow> span" where
  "moment_minus z (Local v) (Local w) = v - w"
| "moment_minus z a b = moment_utc z a - moment_utc z b"

text \<open>\<open>max(a, b)\<close> and \<open>min(a, b)\<close>: the first argument where they are equal.\<close>

definition moment_max :: "zone \<Rightarrow> moment \<Rightarrow> moment \<Rightarrow> moment" where
  "moment_max z a b = (if moment_less z a b then b else a)"

definition moment_min :: "zone \<Rightarrow> moment \<Rightarrow> moment \<Rightarrow> moment" where
  "moment_min z a b = (if moment_less z b a then b else a)"

definition local_day :: "zone \<Rightarrow> instant \<Rightarrow> int" where
  "local_day z t = zn_wall z t div days_span 1"

definition utc_day :: "instant \<Rightarrow> int" where
  "utc_day t = t div days_span 1"

definition to_minute :: "instant \<Rightarrow> instant" where
  "to_minute t = t - t mod minutes_span 1"

text \<open>The bounds of a date in the current zone; adding a day moves the wall clock.\<close>

definition day_bounds :: "int \<Rightarrow> moment \<times> moment" where
  "day_bounds day = (Local (days_span day), Local (days_span day + days_span 1))"

section \<open>Rows\<close>

datatype beat_status = Beat_Ok | Beat_Fail

record heartbeat =
  bt_monitor :: string
  bt_time :: instant
  bt_status :: beat_status
  bt_ms :: int
  bt_note :: string
  bt_maintenance :: bool

record daily =
  dy_monitor :: string
  dy_day :: int
  dy_ok :: int
  dy_fail :: int
  dy_maintenance :: int
  dy_expected :: int
  dy_avg_ms :: int
  dy_uptime :: rat

record epoch =
  ep_monitor :: string
  ep_started :: instant
  ep_note :: string
  ep_target :: rat
  ep_minimum :: rat

record maintenance_window =
  mw_id :: nat
  mw_monitor :: string
  mw_title :: string
  mw_start :: instant
  mw_end :: instant
  mw_note :: string
  mw_exclude :: bool

record beat_db =
  bd_beats :: "heartbeat list"
  bd_days :: "daily list"
  bd_epochs :: "epoch list"
  bd_windows :: "maintenance_window list"

record beat_env =
  be_zone :: zone
  be_interval :: int
  be_retention_days :: int
  be_write_error :: "heartbeat \<Rightarrow> string option"  \<comment> \<open>what the database raises for a row\<close>

section \<open>Epochs\<close>

text \<open>\<open>order_by("timestamp").first()\<close>.\<close>

definition oldest_beat :: "string \<Rightarrow> beat_db \<Rightarrow> instant option" where
  "oldest_beat key db =
     (case sort (map bt_time (filter (\<lambda>b. bt_monitor b = key) (bd_beats db))) of
        [] \<Rightarrow> None | t # _ \<Rightarrow> Some t)"

definition get_config :: "string \<Rightarrow> beat_db \<Rightarrow> epoch option" where
  "get_config key db = tbl_find ep_monitor key (bd_epochs db)"

definition get_epoch :: "string \<Rightarrow> beat_db \<Rightarrow> instant option" where
  "get_epoch key db = (case get_config key db of Some e \<Rightarrow> Some (ep_started e) | None \<Rightarrow> oldest_beat key db)"

definition get_sla_targets :: "string \<Rightarrow> beat_db \<Rightarrow> rat \<times> rat" where
  "get_sla_targets key db =
     (case get_config key db of Some e \<Rightarrow> (ep_target e, ep_minimum e) | None \<Rightarrow> (999/10, 995/10))"

definition epoch_reset ::
    "instant \<Rightarrow> string \<Rightarrow> instant option \<Rightarrow> rat option \<Rightarrow> rat option \<Rightarrow> string \<Rightarrow> beat_db \<Rightarrow> beat_db" where
  "epoch_reset now note started target minimum key db =
     (let old = get_config key db;
          e = \<lparr>ep_monitor = key,
               ep_started = to_minute (case started of Some t \<Rightarrow> t | None \<Rightarrow> now), ep_note = note,
               ep_target = (case target of Some x \<Rightarrow> x | None \<Rightarrow> (case old of Some o' \<Rightarrow> ep_target o' | None \<Rightarrow> 999/10)),
               ep_minimum = (case minimum of Some x \<Rightarrow> x | None \<Rightarrow> (case old of Some o' \<Rightarrow> ep_minimum o' | None \<Rightarrow> 995/10))\<rparr>
      in db\<lparr>bd_epochs := filter (\<lambda>x. ep_monitor x \<noteq> key) (bd_epochs db) @ [e]\<rparr>)"

definition ensure_epoch :: "string \<Rightarrow> beat_db \<Rightarrow> beat_db" where
  "ensure_epoch key db =
     (case get_config key db of
        Some _ \<Rightarrow> db
      | None \<Rightarrow>
         (case oldest_beat key db of
            None \<Rightarrow> db
          | Some t \<Rightarrow> db\<lparr>bd_epochs := bd_epochs db @
              [\<lparr>ep_monitor = key, ep_started = t, ep_note = ''Auto-created from first heartbeat'',
                ep_target = 999/10, ep_minimum = 995/10\<rparr>]\<rparr>))"

section \<open>Maintenance windows\<close>

definition is_in_maintenance :: "instant \<Rightarrow> string \<Rightarrow> beat_db \<Rightarrow> bool" where
  "is_in_maintenance t key db =
     list_ex (\<lambda>w. mw_monitor w = key \<and> mw_start w \<le> t \<and> t < mw_end w) (bd_windows db)"

text \<open>One round of the merging loop, on the list built so far.\<close>

definition merge_range :: "zone \<Rightarrow> moment \<times> moment \<Rightarrow> (moment \<times> moment) list \<Rightarrow> (moment \<times> moment) list" where
  "merge_range z r merged =
     (if merged \<noteq> [] \<and> \<not> moment_less z (snd (last merged)) (fst r)
      then butlast merged @ [(fst (last merged), moment_max z (snd (last merged)) (snd r))]
      else merged @ [r])"

definition get_excluded_ranges ::
    "zone \<Rightarrow> moment \<Rightarrow> moment \<Rightarrow> string \<Rightarrow> beat_db \<Rightarrow> (moment \<times> moment) list" where
  "get_excluded_ranges z range_start range_end key db =
     fold (merge_range z)
       (map (\<lambda>w. (moment_max z (Utc (mw_start w)) range_start, moment_min z (Utc (mw_end w)) range_end))
         (sort_key mw_start (filter (\<lambda>w. mw_monitor w = key \<and> mw_exclude w
             \<and> mw_start w < moment_utc z range_end \<and> moment_utc z range_start < mw_end w) (bd_windows db)))) []"

text \<open>In microseconds; the code has seconds.\<close>

definition get_excluded_span :: "zone \<Rightarrow> moment \<Rightarrow> moment \<Rightarrow> string \<Rightarrow> beat_db \<Rightarrow> span" where
  "get_excluded_span z range_start range_end key db =
     sum_list (map (\<lambda>(s, e). moment_minus z e s) (get_excluded_ranges z range_start range_end key db))"

datatype window_error = End_Not_After_Start | Minutes_Not_Positive

definition open_window ::
    "zone \<Rightarrow> string \<Rightarrow> moment \<Rightarrow> moment \<Rightarrow> string \<Rightarrow> string \<Rightarrow> bool \<Rightarrow> beat_db \<Rightarrow> window_error + beat_db" where
  "open_window z title start stop key note exclude db =
     (if \<not> moment_less z start stop then Inl End_Not_After_Start
      else Inr (db\<lparr>bd_windows := bd_windows db @
        [\<lparr>mw_id = Suc (fold max (map mw_id (bd_windows db)) 0), mw_monitor = key, mw_title = title,
          mw_start = moment_utc z start, mw_end = moment_utc z stop, mw_note = note, mw_exclude = exclude\<rparr>]\<rparr>))"

definition open_window_for ::
    "zone \<Rightarrow> instant \<Rightarrow> int \<Rightarrow> string \<Rightarrow> string \<Rightarrow> string \<Rightarrow> bool \<Rightarrow> beat_db \<Rightarrow> window_error + beat_db" where
  "open_window_for z now mins title key note exclude db =
     (if mins \<le> 0 then Inl Minutes_Not_Positive
      else open_window z title (Utc now) (Utc (now + minutes_span mins)) key note exclude db)"

definition close_windows :: "instant \<Rightarrow> string \<Rightarrow> bool \<Rightarrow> beat_db \<Rightarrow> (nat \<times> nat) \<times> beat_db" where
  "close_windows now key delete_future db =
     (let active = (\<lambda>w. mw_monitor w = key \<and> mw_start w \<le> now \<and> now < mw_end w);
          future = (\<lambda>w. mw_monitor w = key \<and> now < mw_start w);
          ended = tbl_count active (bd_windows db);
          ws = tbl_update active (\<lambda>w. w\<lparr>mw_end := now\<rparr>) (bd_windows db)
      in if delete_future
         then ((ended, tbl_count future ws), db\<lparr>bd_windows := filter (Not \<circ> future) ws\<rparr>)
         else ((ended, 0), db\<lparr>bd_windows := ws\<rparr>))"

section \<open>Monitors and checks\<close>

record check_result =
  cr_ok :: bool
  cr_ms :: int
  cr_note :: string

text \<open>A monitor with what its \<open>check()\<close> does this minute: a result, or an exception with its text.\<close>

record monitor =
  mo_key :: string
  mo_service :: string
  mo_order :: int
  mo_orphaned :: bool
  mo_check :: "string + check_result"

definition check_up :: "int \<Rightarrow> string \<Rightarrow> check_result" where
  "check_up ms note = \<lparr>cr_ok = True, cr_ms = ms, cr_note = note\<rparr>"

definition check_down :: "string \<Rightarrow> int \<Rightarrow> check_result" where
  "check_down note ms = \<lparr>cr_ok = False, cr_ms = ms, cr_note = note\<rparr>"

text \<open>The registry: code-defined monitors and sources, which yield theirs at each lookup.\<close>

record monitor_registry =
  mg_monitors :: "(string \<times> monitor) list"
  mg_sources :: "monitor list list"

definition register_monitor :: "monitor \<Rightarrow> monitor_registry \<Rightarrow> monitor_registry" where
  "register_monitor m reg = reg\<lparr>mg_monitors := dict_set (mo_key m) m (mg_monitors reg)\<rparr>"

definition register_monitor_source :: "monitor list \<Rightarrow> monitor_registry \<Rightarrow> monitor_registry" where
  "register_monitor_source ms reg = reg\<lparr>mg_sources := mg_sources reg @ [ms]\<rparr>"

definition get_monitors :: "monitor_registry \<Rightarrow> string option \<Rightarrow> monitor list" where
  "get_monitors reg service =
     (let merged = fold (\<lambda>m. dict_set (mo_key m) m) (concat (mg_sources reg)) (mg_monitors reg);
          ms = map snd merged
      in sort_key (\<lambda>m. (mo_order m, mo_key m))
           (case service of None \<Rightarrow> ms | Some s \<Rightarrow> filter (\<lambda>m. mo_service m = s) ms))"

definition get_monitor :: "monitor_registry \<Rightarrow> string \<Rightarrow> monitor option" where
  "get_monitor reg key = tbl_find mo_key key (get_monitors reg None)"

text \<open>The status code of the answer, or the text of a transport failure, decides.\<close>

definition check_http_endpoint :: "string + int \<Rightarrow> int \<Rightarrow> int \<Rightarrow> check_result" where
  "check_http_endpoint answer expected_status elapsed =
     (case answer of
        Inl e \<Rightarrow> check_down (take 200 e) elapsed
      | Inr c \<Rightarrow> if c = expected_status then check_up elapsed (''HTTP '' @ int_str c)
                 else check_down (''HTTP '' @ int_str c @ '' (expected '' @ int_str expected_status @ '')'') elapsed)"

text \<open>A picked surface: the published check when there is one, else whether it is still exposed.\<close>

definition surface_check :: "(string + check_result) option \<Rightarrow> bool \<Rightarrow> string + check_result" where
  "surface_check override exposed =
     (case override of
        Some r \<Rightarrow> r
      | None \<Rightarrow> Inr (if exposed then check_up 0 ''exposed'' else check_down ''surface no longer exposed'' 0))"

record beat_report =
  rp_monitor :: string
  rp_status :: beat_status
  rp_ms :: int
  rp_maintenance :: bool
  rp_created :: bool
  rp_note :: "string option"

text \<open>\<open>update_or_create\<close> on the monitor and the minute.\<close>

definition store_beat :: "heartbeat \<Rightarrow> beat_db \<Rightarrow> bool \<times> beat_db" where
  "store_beat b db =
     (let same = (\<lambda>x. bt_monitor x = bt_monitor b \<and> bt_time x = bt_time b)
      in if tbl_count same (bd_beats db) = 0 then (True, db\<lparr>bd_beats := bd_beats db @ [b]\<rparr>)
         else (False, db\<lparr>bd_beats := tbl_update same (\<lambda>_. b) (bd_beats db)\<rparr>))"

definition beat_of_check :: "instant \<Rightarrow> bool \<Rightarrow> monitor \<Rightarrow> heartbeat \<times> string" where
  "beat_of_check minute in_maintenance m =
     (let (status, ms, note) = (case mo_check m of
            Inl e \<Rightarrow> (Beat_Fail, 0, take 255 e)
          | Inr r \<Rightarrow> (if cr_ok r then Beat_Ok else Beat_Fail, cr_ms r, take 255 (cr_note r)))
      in (\<lparr>bt_monitor = mo_key m, bt_time = minute, bt_status = status, bt_ms = ms,
           bt_note = (if status = Beat_Fail then note else ''''), bt_maintenance = in_maintenance\<rparr>, note))"

definition run_monitor_check :: "beat_env \<Rightarrow> instant \<Rightarrow> monitor \<Rightarrow> beat_db \<Rightarrow> (string + beat_report) \<times> beat_db" where
  "run_monitor_check env now m db =
     (let minute = to_minute now;
          in_maintenance = is_in_maintenance minute (mo_key m) db;
          (b, note) = beat_of_check minute in_maintenance m
      in case be_write_error env b of
           Some e \<Rightarrow> (Inl e, db)
         | None \<Rightarrow>
             (let (created, db1) = store_beat b db
              in (Inr \<lparr>rp_monitor = mo_key m, rp_status = bt_status b, rp_ms = bt_ms b,
                        rp_maintenance = in_maintenance, rp_created = created,
                        rp_note = (if note = '''' then None else Some note)\<rparr>,
                  ensure_epoch (mo_key m) db1)))"

definition failed_report :: "monitor \<Rightarrow> string \<Rightarrow> beat_report" where
  "failed_report m e = \<lparr>rp_monitor = mo_key m, rp_status = Beat_Fail, rp_ms = 0, rp_maintenance = False,
     rp_created = False, rp_note = Some (take 255 e)\<rparr>"

text \<open>One monitor of the loop of \<open>run_all_monitors\<close>.\<close>

definition run_one ::
    "beat_env \<Rightarrow> instant \<Rightarrow> monitor \<Rightarrow> (string \<times> beat_report) list \<times> beat_db \<Rightarrow> (string \<times> beat_report) list \<times> beat_db" where
  "run_one env now m = (\<lambda>(results, db).
     if mo_orphaned m then (results, db)
     else (case run_monitor_check env now m db of
        (Inr r, db1) \<Rightarrow> (dict_set (mo_key m) r results, db1)
      | (Inl e, db1) \<Rightarrow> (dict_set (mo_key m) (failed_report m e) results, db1)))"

definition run_all_monitors ::
    "beat_env \<Rightarrow> instant \<Rightarrow> monitor_registry \<Rightarrow> beat_db \<Rightarrow> (string \<times> beat_report) list \<times> beat_db" where
  "run_all_monitors env now reg db = fold (run_one env now) (get_monitors reg None) ([], db)"

definition run_heartbeat_check ::
    "beat_env \<Rightarrow> instant \<Rightarrow> monitor_registry \<Rightarrow> monitor \<Rightarrow> beat_db \<Rightarrow> (string + beat_report) \<times> beat_db" where
  "run_heartbeat_check env now reg site db =
     run_monitor_check env now (case get_monitor reg ''site'' of Some m \<Rightarrow> m | None \<Rightarrow> site) db"

section \<open>Pruning into daily summaries\<close>

definition count_int :: "('a \<Rightarrow> bool) \<Rightarrow> 'a list \<Rightarrow> int" where
  "count_int P xs = int (length (filter P xs))"

definition expected_intervals_for_day :: "beat_env \<Rightarrow> instant \<Rightarrow> int \<Rightarrow> string \<Rightarrow> instant option \<Rightarrow> beat_db \<Rightarrow> int" where
  "expected_intervals_for_day env now day key epoch_start db =
     (let z = be_zone env;
          start = (case epoch_start of Some t \<Rightarrow> moment_max z (fst (day_bounds day)) (Utc t) | None \<Rightarrow> fst (day_bounds day));
          stop = moment_min z (snd (day_bounds day)) (Utc now)
      in if \<not> moment_less z start stop then 0
         else max ((moment_minus z stop start - get_excluded_span z start stop key db) div secs (be_interval env)) 0)"

definition epoch_start :: "string \<Rightarrow> beat_db \<Rightarrow> instant option" where
  "epoch_start key db = map_option ep_started (get_config key db)"

text \<open>\<open>round(x, 3)\<close> and the uptime of a row.\<close>

definition round3 :: "rat \<Rightarrow> rat" where
  "round3 x = of_int (round_half_even (x * 1000)) / 1000"

definition row_uptime :: "int \<Rightarrow> int \<Rightarrow> int \<Rightarrow> rat" where
  "row_uptime ok failed expected =
     (let denominator = max (ok + failed) expected
      in if denominator \<noteq> 0 then min (round3 (of_int ok / of_int denominator * 100)) 100 else 0)"

definition in_span :: "zone \<Rightarrow> instant \<Rightarrow> moment \<times> moment \<Rightarrow> bool" where
  "in_span z t r = (moment_utc z (fst r) \<le> t \<and> t < moment_utc z (snd r))"

definition sum_over :: "('a \<Rightarrow> int) \<Rightarrow> 'a list \<Rightarrow> int" where
  "sum_over f xs = sum_list (map f xs)"

text \<open>\<open>get_or_create\<close> of the summary row, then the batch added to it.\<close>

definition get_or_create_daily :: "string \<Rightarrow> int \<Rightarrow> int \<Rightarrow> daily list \<Rightarrow> daily \<times> daily list" where
  "get_or_create_daily key day expected rows =
     (case find (\<lambda>r. dy_monitor r = key \<and> dy_day r = day) rows of
        Some r \<Rightarrow> (r, rows)
      | None \<Rightarrow> (let r = \<lparr>dy_monitor = key, dy_day = day, dy_ok = 0, dy_fail = 0, dy_maintenance = 0,
                          dy_expected = expected, dy_avg_ms = 0, dy_uptime = 0\<rparr> in (r, rows @ [r])))"

definition merge_batch :: "int \<Rightarrow> int \<Rightarrow> int \<Rightarrow> rat \<Rightarrow> int \<Rightarrow> daily \<Rightarrow> daily" where
  "merge_batch sla_ok sla_fail excluded_total batch_avg expected row =
     (let prior_total = dy_ok row + dy_fail row;
          batch_total = sla_ok + sla_fail;
          merged_total = prior_total + batch_total
      in row\<lparr>dy_ok := dy_ok row + sla_ok, dy_fail := dy_fail row + sla_fail,
             dy_maintenance := dy_maintenance row + excluded_total, dy_expected := expected,
             dy_avg_ms := (if merged_total \<noteq> 0
               then round_half_even ((of_int (dy_avg_ms row) * of_int prior_total + batch_avg * of_int batch_total)
                      / of_int merged_total)
               else dy_avg_ms row),
             dy_uptime := row_uptime (dy_ok row + sla_ok) (dy_fail row + sla_fail) expected\<rparr>)"

text \<open>One round of \<open>_write_daily_summaries\<close>: the beats \<open>old\<close> of one monitor and day.\<close>

definition write_summary :: "beat_env \<Rightarrow> instant \<Rightarrow> heartbeat list \<Rightarrow> string \<times> int \<Rightarrow> beat_db \<Rightarrow> beat_db" where
  "write_summary env now old kd db =
     (case kd of (key, day) \<Rightarrow>
      let z = be_zone env;
          grp = filter (\<lambda>b. bt_monitor b = key \<and> local_day z (bt_time b) = day) old;
          ok_count = count_int (\<lambda>b. bt_status b = Beat_Ok) grp;
          fail_count = count_int (\<lambda>b. bt_status b = Beat_Fail) grp;
          batch_avg = (if grp = [] then 0 else of_int (sum_list (map bt_ms grp)) / of_int (int (length grp)));
          expected = expected_intervals_for_day env now day key (epoch_start key db) db;
          batch = filter (\<lambda>b. bt_monitor b = key \<and> in_span z (bt_time b) (day_bounds day)) old;
          spans = get_excluded_ranges z (fst (day_bounds day)) (snd (day_bounds day)) key db;
          excluded_total = sum_over (\<lambda>r. count_int (\<lambda>b. in_span z (bt_time b) r) batch) spans;
          excluded_ok = sum_over (\<lambda>r. count_int (\<lambda>b. in_span z (bt_time b) r \<and> bt_status b = Beat_Ok) batch) spans;
          sla_ok = ok_count - excluded_ok;
          sla_fail = fail_count - (excluded_total - excluded_ok);
          (row, rows) = get_or_create_daily key day expected (bd_days db)
      in db\<lparr>bd_days := tbl_update (\<lambda>r. dy_monitor r = key \<and> dy_day r = day)
                (\<lambda>_. merge_batch sla_ok sla_fail excluded_total batch_avg expected row) rows\<rparr>)"

definition summary_groups :: "zone \<Rightarrow> heartbeat list \<Rightarrow> (string \<times> int) list" where
  "summary_groups z old = remdups (sort (map (\<lambda>b. (bt_monitor b, local_day z (bt_time b))) old))"

definition write_daily_summaries :: "beat_env \<Rightarrow> instant \<Rightarrow> heartbeat list \<Rightarrow> beat_db \<Rightarrow> beat_db" where
  "write_daily_summaries env now old db =
     fold (write_summary env now old) (summary_groups (be_zone env) old) db"

definition prune_old_heartbeats :: "beat_env \<Rightarrow> instant \<Rightarrow> beat_db \<Rightarrow> nat \<times> beat_db" where
  "prune_old_heartbeats env now db =
     (let cutoff = now - days_span (be_retention_days env);
          old = filter (\<lambda>b. bt_time b < cutoff) (bd_beats db)
      in if old = [] then (0, db)
         else (let db1 = write_daily_summaries env now old db
               in (length old, db1\<lparr>bd_beats := filter (\<lambda>b. \<not> bt_time b < cutoff) (bd_beats db1)\<rparr>)))"

section \<open>Repairs of the summaries\<close>

definition repair_summaries :: "beat_db \<Rightarrow> nat \<times> beat_db" where
  "repair_summaries db =
     (let corrupt = (\<lambda>r. 0 < dy_expected r \<and> of_int (dy_ok r + dy_fail r) / of_int (dy_expected r) < (5/100 :: rat))
      in (tbl_count corrupt (bd_days db), db\<lparr>bd_days := filter (Not \<circ> corrupt) (bd_days db)\<rparr>))"

definition reprorate_row :: "beat_env \<Rightarrow> instant \<Rightarrow> beat_db \<Rightarrow> daily \<Rightarrow> daily" where
  "reprorate_row env now db row =
     (let expected = expected_intervals_for_day env now (dy_day row) (dy_monitor row) (epoch_start (dy_monitor row) db) db;
          uptime = row_uptime (dy_ok row) (dy_fail row) expected
      in if dy_expected row \<noteq> expected \<or> dy_uptime row \<noteq> uptime
         then row\<lparr>dy_expected := expected, dy_uptime := uptime\<rparr> else row)"

definition reprorate :: "beat_env \<Rightarrow> instant \<Rightarrow> beat_db \<Rightarrow> beat_db" where
  "reprorate env now db = db\<lparr>bd_days := map (reprorate_row env now db) (bd_days db)\<rparr>"

end
