(* ===== verification/Heartbeat_Ranges.thy ===== *)
theory Heartbeat_Ranges
  imports Heartbeat
begin

text \<open>
  The merged maintenance ranges: the merging loop on instants, the set of instants a list of
  ranges covers, and the transfer to the aware datetimes of the code. What the development
  asks of a zone is \<open>zone_ok\<close>: its midnights are in order and the day of an instant is the one
  whose midnights enclose it.
\<close>

section \<open>Ranges of instants\<close>

definition covered :: "(int \<times> int) list \<Rightarrow> int set" where
  "covered rs = (\<Union>(s, e) \<in> set rs. {s..<e})"

lemma covered_simps [simp]:
  "covered [] = {}" "covered (r # rs) = {fst r..<snd r} \<union> covered rs"
  "covered (rs @ rs') = covered rs \<union> covered rs'"
  by (auto simp: covered_def split_beta)

text \<open>Ranges in order that do not touch.\<close>

definition apart :: "(int \<times> int) list \<Rightarrow> bool" where
  "apart rs = (sorted_wrt (\<lambda>a b. snd a < fst b) rs \<and> (\<forall>r \<in> set rs. fst r \<le> snd r))"

lemma apart_simps [simp]:
  "apart []"
  "apart (r # rs) \<longleftrightarrow> fst r \<le> snd r \<and> (\<forall>r' \<in> set rs. snd r < fst r') \<and> apart rs"
  by (auto simp: apart_def)

lemma apart_append:
  "apart (rs @ rs') \<longleftrightarrow> apart rs \<and> apart rs' \<and> (\<forall>r \<in> set rs. \<forall>r' \<in> set rs'. snd r < fst r')"
  by (auto simp: apart_def sorted_wrt_append)

lemma finite_covered [simp]: "finite (covered rs)"
  by (auto simp: covered_def split_beta)

text \<open>The lengths of ranges that do not touch add up to the size of what they cover.\<close>

lemma apart_length:
  assumes "apart rs"
  shows "sum_list (map (\<lambda>(s, e). e - s) rs) = int (card (covered rs))"
  using assms
proof (induction rs)
  case (Cons r rs)
  have "{fst r..<snd r} \<inter> covered rs = {}"
    using Cons.prems by (fastforce simp: covered_def)
  with Cons show ?case by (simp add: card_Un_disjoint split_beta)
qed simp

text \<open>The merging loop on instants.\<close>

definition merge_int :: "int \<times> int \<Rightarrow> (int \<times> int) list \<Rightarrow> (int \<times> int) list" where
  "merge_int r merged =
     (if merged \<noteq> [] \<and> fst r \<le> snd (last merged)
      then butlast merged @ [(fst (last merged), max (snd (last merged)) (snd r))]
      else merged @ [r])"

lemma merge_int_step:
  assumes ok: "apart merged" and le: "fst r \<le> snd r" and after: "\<forall>x \<in> set merged. fst x \<le> fst r"
  shows "apart (merge_int r merged)" "covered (merge_int r merged) = covered merged \<union> {fst r..<snd r}"
    "\<forall>x \<in> set (merge_int r merged). fst x \<le> fst r"
proof -
  have "apart (merge_int r merged) \<and> covered (merge_int r merged) = covered merged \<union> {fst r..<snd r}
      \<and> (\<forall>x \<in> set (merge_int r merged). fst x \<le> fst r)"
  proof (cases merged rule: rev_cases)
    case Nil
    then show ?thesis using le by (simp add: merge_int_def)
  next
    case (snoc xs l)
    show ?thesis
    proof (cases "fst r \<le> snd l")
      case True
      then have "{fst l..<max (snd l) (snd r)} = {fst l..<snd l} \<union> {fst r..<snd r}"
        using after le snoc by auto
      then show ?thesis using True ok after le by (auto simp: merge_int_def snoc apart_append)
    next
      case False
      have "\<forall>x \<in> set xs. snd x < fst r" using False ok by (fastforce simp: snoc apart_append)
      then show ?thesis using False ok after le by (auto simp: merge_int_def snoc apart_append)
    qed
  qed
  then show "apart (merge_int r merged)" "covered (merge_int r merged) = covered merged \<union> {fst r..<snd r}"
    "\<forall>x \<in> set (merge_int r merged). fst x \<le> fst r" by blast+
qed

lemma merge_int_fold:
  assumes "sorted (map fst rs)" "\<forall>r \<in> set rs. fst r \<le> snd r" "apart merged"
    "\<forall>x \<in> set merged. \<forall>r \<in> set rs. fst x \<le> fst r"
  shows "apart (fold merge_int rs merged) \<and> covered (fold merge_int rs merged) = covered merged \<union> covered rs"
  using assms
proof (induction rs arbitrary: merged)
  case (Cons r rs)
  have after: "\<forall>x \<in> set merged. fst x \<le> fst r" using Cons.prems by simp
  note step = merge_int_step [OF Cons.prems(3) _ after]
  have "\<forall>x \<in> set (merge_int r merged). \<forall>r' \<in> set rs. fst x \<le> fst r'"
    using step(3) Cons.prems(1,2) by fastforce
  with Cons step(1,2) show ?case by (auto simp: Un_assoc)
qed simp

section \<open>Zones\<close>

definition zone_ok :: "zone \<Rightarrow> bool" where
  "zone_ok z \<longleftrightarrow> (\<forall>d. zn_utc z (days_span d) < zn_utc z (days_span (d + 1)))
     \<and> (\<forall>t d. local_day z t = d \<longleftrightarrow> zn_utc z (days_span d) \<le> t \<and> t < zn_utc z (days_span (d + 1)))"

lemma days_span_Suc: "days_span d + days_span 1 = days_span (d + 1)"
  by (simp add: days_span_def secs_def)

lemma day_bounds_simps [simp]:
  "fst (day_bounds d) = Local (days_span d)" "snd (day_bounds d) = Local (days_span (d + 1))"
  by (simp_all add: day_bounds_def days_span_Suc)

lemma in_day: "zone_ok z \<Longrightarrow> in_span z t (day_bounds d) \<longleftrightarrow> local_day z t = d"
  by (auto simp: in_span_def zone_ok_def)

text \<open>Two bounds that Python orders as their instants are.\<close>

definition coherent :: "zone \<Rightarrow> moment \<Rightarrow> moment \<Rightarrow> bool" where
  "coherent z a b \<longleftrightarrow> moment_less z a b = (moment_utc z a < moment_utc z b)
     \<and> moment_less z b a = (moment_utc z b < moment_utc z a)"

lemma coherent_utc [simp]: "coherent z (Utc s) b" "coherent z a (Utc t)"
  by (cases b; simp add: coherent_def) (cases a; simp add: coherent_def)

lemma coherent_self [simp]: "coherent z a a"
  by (cases a) (simp_all add: coherent_def)

lemma coherent_day: "zone_ok z \<Longrightarrow> coherent z (fst (day_bounds d)) (snd (day_bounds d))"
  by (auto simp: coherent_def zone_ok_def days_span_def secs_def) (metis less_asym)

lemma moment_less_irrefl [simp]: "\<not> moment_less z a a"
  by (cases a) simp_all

definition utc_range :: "zone \<Rightarrow> moment \<times> moment \<Rightarrow> int \<times> int" where
  "utc_range z r = (moment_utc z (fst r), moment_utc z (snd r))"

lemma utc_range_simps [simp]:
  "fst (utc_range z r) = moment_utc z (fst r)" "snd (utc_range z r) = moment_utc z (snd r)"
  by (simp_all add: utc_range_def)

text \<open>The loop on datetimes of a pairwise coherent set is the loop on their instants.\<close>

definition moments_of :: "(moment \<times> moment) list \<Rightarrow> moment set" where
  "moments_of rs = fst ` set rs \<union> snd ` set rs"

lemma moment_max_utc: "coherent z a b \<Longrightarrow> moment_utc z (moment_max z a b) = max (moment_utc z a) (moment_utc z b)"
  by (auto simp: moment_max_def coherent_def)

lemma moment_min_utc: "coherent z a b \<Longrightarrow> moment_utc z (moment_min z a b) = min (moment_utc z a) (moment_utc z b)"
  by (auto simp: moment_min_def coherent_def)

lemma merge_range_transfer:
  assumes M: "\<forall>a \<in> M. \<forall>b \<in> M. coherent z a b" and sub: "moments_of merged \<subseteq> M" "{fst r, snd r} \<subseteq> M"
  shows "map (utc_range z) (merge_range z r merged) = merge_int (utc_range z r) (map (utc_range z) merged)
    \<and> moments_of (merge_range z r merged) \<subseteq> M"
proof (cases merged rule: rev_cases)
  case Nil
  then show ?thesis using sub by (simp add: merge_range_def merge_int_def moments_of_def)
next
  case (snoc xs l)
  have l: "fst l \<in> M" "snd l \<in> M" using sub(1) by (auto simp: snoc moments_of_def)
  then have c: "coherent z (snd l) (fst r)" "coherent z (snd l) (snd r)" using M sub(2) by auto
  have less: "moment_less z (snd l) (fst r) \<longleftrightarrow> moment_utc z (snd l) < moment_utc z (fst r)"
    using c(1) by (simp add: coherent_def)
  have "moment_max z (snd l) (snd r) \<in> M" using l(2) sub(2) by (simp add: moment_max_def)
  then show ?thesis
    using l sub by (auto simp: merge_range_def merge_int_def snoc less moment_max_utc [OF c(2)] utc_range_def moments_of_def)
qed

lemma merge_fold_transfer:
  assumes "\<forall>a \<in> M. \<forall>b \<in> M. coherent z a b" "moments_of merged \<subseteq> M" "moments_of rs \<subseteq> M"
  shows "map (utc_range z) (fold (merge_range z) rs merged) = fold merge_int (map (utc_range z) rs) (map (utc_range z) merged)"
  using assms
proof (induction rs arbitrary: merged)
  case (Cons r rs)
  have "{fst r, snd r} \<subseteq> M" "moments_of rs \<subseteq> M" using Cons.prems(3) by (auto simp: moments_of_def)
  with merge_range_transfer [OF Cons.prems(1,2) this(1)] Cons.IH [OF Cons.prems(1)] show ?case by simp
qed simp

section \<open>The excluded ranges\<close>

definition windows_ok :: "beat_db \<Rightarrow> bool" where
  "windows_ok db = (\<forall>w \<in> set (bd_windows db). mw_start w \<le> mw_end w)"

text \<open>The instants of a monitor that do not count, read off the windows.\<close>

definition sla_excluded :: "string \<Rightarrow> beat_db \<Rightarrow> instant \<Rightarrow> bool" where
  "sla_excluded key db t = list_ex (\<lambda>w. mw_monitor w = key \<and> mw_exclude w \<and> mw_start w \<le> t \<and> t < mw_end w) (bd_windows db)"

lemma excluded_ranges_covered:
  fixes key :: string
  assumes c: "coherent z a b" and ab: "moment_utc z a \<le> moment_utc z b" and ok: "windows_ok db"
  defines "m \<equiv> map (utc_range z) (get_excluded_ranges z a b key db)"
  shows "apart m" "covered m = {t. moment_utc z a \<le> t \<and> t < moment_utc z b \<and> sla_excluded key db t}"
proof -
  let ?P = "\<lambda>w. mw_monitor w = key \<and> mw_exclude w \<and> mw_start w < moment_utc z b \<and> moment_utc z a < mw_end w"
  let ?ws = "sort_key mw_start (filter ?P (bd_windows db))"
  let ?clip = "\<lambda>w. (moment_max z (Utc (mw_start w)) a, moment_min z (Utc (mw_end w)) b)"
  let ?int = "\<lambda>w. (max (mw_start w) (moment_utc z a), min (mw_end w) (moment_utc z b))"
  have "\<forall>x \<in> range Utc \<union> {a, b}. \<forall>y \<in> range Utc \<union> {a, b}. coherent z x y"
    using c by (auto simp: coherent_def)
  moreover have "moments_of (map ?clip ?ws) \<subseteq> range Utc \<union> {a, b}"
    by (auto simp: moments_of_def moment_max_def moment_min_def)
  moreover have "moments_of [] \<subseteq> range Utc \<union> {a, b}" by (simp add: moments_of_def)
  ultimately have "m = fold merge_int (map (utc_range z) (map ?clip ?ws)) (map (utc_range z) [])"
    unfolding m_def get_excluded_ranges_def by (intro merge_fold_transfer)
  also have "map (utc_range z) (map ?clip ?ws) = map ?int ?ws"
    by (simp add: utc_range_def moment_max_utc moment_min_utc)
  finally have m: "m = fold merge_int (map ?int ?ws) []" by simp
  have "sorted (map mw_start ?ws)" by simp
  then have "sorted (map fst (map ?int ?ws))"
    by (auto simp: sorted_iff_nth_mono max_def) (meson order_trans)+
  moreover have "\<forall>r \<in> set (map ?int ?ws). fst r \<le> snd r" using ok ab by (auto simp: windows_ok_def)
  ultimately have "apart m \<and> covered m = covered (map ?int ?ws)"
    unfolding m using merge_int_fold [of "map ?int ?ws" "[]"] by simp
  moreover have "covered (map ?int ?ws) = {t. moment_utc z a \<le> t \<and> t < moment_utc z b \<and> sla_excluded key db t}"
    by (auto simp: covered_def sla_excluded_def list_ex_iff)
  ultimately show "apart m" "covered m = {t. moment_utc z a \<le> t \<and> t < moment_utc z b \<and> sla_excluded key db t}"
    by blast+
qed

lemma in_ranges_covered: "list_ex (in_span z t) rs \<longleftrightarrow> t \<in> covered (map (utc_range z) rs)"
  by (induction rs) (auto simp: in_span_def)

lemma excluded_iff:
  assumes "coherent z a b" "windows_ok db" "in_span z t (a, b)"
  shows "list_ex (in_span z t) (get_excluded_ranges z a b key db) \<longleftrightarrow> sla_excluded key db t"
proof -
  have "moment_utc z a \<le> moment_utc z b" using assms(3) by (simp add: in_span_def)
  with assms show ?thesis by (simp add: in_ranges_covered excluded_ranges_covered(2) in_span_def)
qed

primrec is_utc :: "moment \<Rightarrow> bool" where
  "is_utc (Utc t) = True"
| "is_utc (Local w) = False"

lemma is_utc_iff: "is_utc a \<longleftrightarrow> (\<exists>t. a = Utc t)"
  by (cases a) auto

definition both_utc :: "moment \<times> moment \<Rightarrow> bool" where
  "both_utc r = (is_utc (fst r) \<and> is_utc (snd r))"

lemma merge_range_utc:
  "list_all both_utc rs \<Longrightarrow> both_utc q \<Longrightarrow> list_all both_utc (merge_range z q rs)"
  by (cases rs rule: rev_cases) (auto simp: merge_range_def moment_max_def both_utc_def)

lemma merge_fold_utc:
  "list_all both_utc rs \<Longrightarrow> list_all both_utc qs \<Longrightarrow> list_all both_utc (fold (merge_range z) qs rs)"
  by (induction qs arbitrary: rs) (simp_all add: merge_range_utc)

text \<open>The excluded time of a window between two instants is the measure of the excluded instants.\<close>

lemma excluded_span_card:
  assumes "s \<le> e" "windows_ok db"
  shows "get_excluded_span z (Utc s) (Utc e) key db = int (card {t. s \<le> t \<and> t < e \<and> sla_excluded key db t})"
proof -
  let ?rs = "get_excluded_ranges z (Utc s) (Utc e) key db"
  have utc: "\<forall>r \<in> set rs. both_utc r \<Longrightarrow> sum_list (map (\<lambda>(s, e). moment_minus z e s) rs) =
      sum_list (map (\<lambda>(s, e). e - s) (map (utc_range z) rs))" for rs
    by (induction rs) (auto simp: utc_range_def both_utc_def is_utc_iff)
  have "list_all both_utc ?rs"
    unfolding get_excluded_ranges_def
    by (rule merge_fold_utc) (auto simp: both_utc_def moment_max_def moment_min_def list_all_iff)
  then have "\<forall>r \<in> set ?rs. both_utc r" by (simp add: list_all_iff)
  from utc [OF this] show ?thesis
    using excluded_ranges_covered [of z "Utc s" "Utc e" db key] assms
      apart_length [of "map (utc_range z) ?rs"]
    by (simp add: get_excluded_span_def del: map_map)
qed

lemma excluded_span_bounds:
  assumes "s \<le> e" "windows_ok db"
  shows "0 \<le> get_excluded_span z (Utc s) (Utc e) key db" "get_excluded_span z (Utc s) (Utc e) key db \<le> e - s"
proof -
  have "card {t. s \<le> t \<and> t < e \<and> sla_excluded key db t} \<le> card {s..<e}"
    by (rule card_mono) auto
  with assms show "0 \<le> get_excluded_span z (Utc s) (Utc e) key db"
    "get_excluded_span z (Utc s) (Utc e) key db \<le> e - s"
    by (simp_all add: excluded_span_card)
qed

text \<open>Beats are counted once: the counts over ranges that do not touch add up.\<close>

lemma sum_over_simps [simp]: "sum_over f [] = 0" "sum_over f (x # xs) = f x + sum_over f xs"
  "sum_over f (xs @ ys) = sum_over f xs + sum_over f ys"
  by (simp_all add: sum_over_def)

lemma count_int_simps [simp]: "count_int P [] = 0" "count_int P (x # xs) = (if P x then 1 else 0) + count_int P xs"
  "count_int P (xs @ ys) = count_int P xs + count_int P ys"
  by (simp_all add: count_int_def)

lemma count_int_nonneg [simp]: "0 \<le> count_int P xs"
  by (simp add: count_int_def)

lemma count_int_disjoint:
  "\<forall>x \<in> set xs. \<not> (P x \<and> Q x) \<Longrightarrow> count_int P xs + count_int Q xs = count_int (\<lambda>x. P x \<or> Q x) xs"
  by (induction xs) auto

lemma count_int_cong: "(\<And>x. x \<in> set xs \<Longrightarrow> P x = Q x) \<Longrightarrow> count_int P xs = count_int Q xs"
  by (induction xs) auto

lemma count_int_filter: "count_int P (filter Q xs) = count_int (\<lambda>x. Q x \<and> P x) xs"
  by (induction xs) auto

lemma count_int_length: "count_int P xs = int (length xs)" if "\<forall>x \<in> set xs. P x"
  using that by (induction xs) auto

lemma count_over_ranges:
  assumes "apart (map (utc_range z) rs)"
  shows "sum_over (\<lambda>r. count_int (\<lambda>b. in_span z (time b) r \<and> P b) bs) rs =
    count_int (\<lambda>b. list_ex (in_span z (time b)) rs \<and> P b) bs"
  using assms
proof (induction rs)
  case (Cons r rs)
  have "\<not> (in_span z t r \<and> list_ex (in_span z t) rs)" for t
  proof
    assume t: "in_span z t r \<and> list_ex (in_span z t) rs"
    then obtain r' where "r' \<in> set rs" "in_span z t r'" by (auto simp: list_ex_iff)
    moreover have "moment_utc z (snd r) < moment_utc z (fst r')" using Cons.prems calculation(1) by auto
    ultimately show False using t by (simp add: in_span_def)
  qed
  then have "count_int (\<lambda>b. in_span z (time b) r \<and> P b) bs + count_int (\<lambda>b. list_ex (in_span z (time b)) rs \<and> P b) bs
      = count_int (\<lambda>b. (in_span z (time b) r \<and> P b) \<or> (list_ex (in_span z (time b)) rs \<and> P b)) bs"
    by (intro count_int_disjoint) auto
  with Cons show ?case by (simp add: conj_disj_distribR)
qed (simp add: count_int_def)

end
