(* ===== verification/Heartbeat_Status.thy ===== *)
theory Heartbeat_Status
  imports Heartbeat
begin

text \<open>
  What the status pages compute: \<open>apps/heartbeat/status.py\<close>. Spans are in microseconds where the
  code has float seconds; a percentage is a rational. The label and tooltip texts of the slots
  are left out; their statuses, counts and times are kept.
\<close>

section \<open>Uptime over a window\<close>

record uptime_result =
  ur_uptime :: "rat option"
  ur_covered :: span
  ur_window :: span

definition coverage :: "uptime_result \<Rightarrow> rat option" where
  "coverage r = (if ur_window r \<le> 0 then None else Some (min (of_int (ur_covered r) / of_int (ur_window r)) 1))"

definition last_beat_age_seconds :: "instant \<Rightarrow> beat_db \<Rightarrow> int option" where
  "last_beat_age_seconds now db =
     (case sort_key (\<lambda>b. - bt_time b) (bd_beats db) of [] \<Rightarrow> None | b # _ \<Rightarrow> Some (int_seconds (now - bt_time b)))"

definition sla_color :: "rat option \<Rightarrow> bool \<Rightarrow> string \<Rightarrow> beat_db \<Rightarrow> string" where
  "sla_color uptime use_target key db =
     (case uptime of
        None \<Rightarrow> ''var(--body-quiet-color)''
      | Some u \<Rightarrow>
         (let (target, minimum) = get_sla_targets key db in
          if use_target then
            (if target \<le> u then ''var(--success-fg)'' else if minimum \<le> u then ''var(--warning-fg)''
             else ''var(--error-fg)'')
          else if minimum \<le> u then ''var(--success-fg)'' else ''var(--error-fg)''))"

definition sla_state :: "rat option \<Rightarrow> bool \<Rightarrow> string \<Rightarrow> beat_db \<Rightarrow> string" where
  "sla_state uptime use_target key db =
     (case uptime of
        None \<Rightarrow> ''muted''
      | Some u \<Rightarrow>
         (let (target, minimum) = get_sla_targets key db in
          if use_target then
            (if target \<le> u then ''success'' else if minimum \<le> u then ''warning'' else ''danger'')
          else if minimum \<le> u then ''success'' else ''danger''))"

record status_data =
  st_status :: string
  st_label :: string
  st_last :: "instant option"
  st_ms :: int
  st_age :: int
  st_note :: string

definition get_status_data :: "beat_env \<Rightarrow> instant \<Rightarrow> string \<Rightarrow> beat_db \<Rightarrow> status_data" where
  "get_status_data env now key db =
     (case take 5 (sort_key (\<lambda>b. - bt_time b) (filter (\<lambda>b. bt_monitor b = key) (bd_beats db))) of
        [] \<Rightarrow> \<lparr>st_status = ''unknown'', st_label = ''No Data'', st_last = None, st_ms = 0, st_age = 0, st_note = ''''\<rparr>
      | last_beat # rest \<Rightarrow>
         (let age = now - bt_time last_beat;
              (status, label) =
                (if is_in_maintenance now key db then (''maintenance'', ''Under maintenance'')
                 else if bt_status last_beat = Beat_Fail \<or> secs (be_interval env * 5) < age then (''down'', ''Down'')
                 else if list_ex (\<lambda>h. bt_status h = Beat_Fail) (last_beat # rest) then (''degraded'', ''Degraded'')
                 else (''operational'', ''Operational''))
          in \<lparr>st_status = status, st_label = label, st_last = Some (bt_time last_beat), st_ms = bt_ms last_beat,
              st_age = int_seconds age, st_note = bt_note last_beat\<rparr>))"

definition non_maintenance_beats :: "zone \<Rightarrow> moment \<Rightarrow> moment \<Rightarrow> string \<Rightarrow> beat_db \<Rightarrow> heartbeat list" where
  "non_maintenance_beats z window_start window_end key db =
     (let excluded = get_excluded_ranges z window_start window_end key db
      in filter (\<lambda>b. bt_monitor b = key \<and> in_span z (bt_time b) (window_start, window_end)
            \<and> \<not> list_ex (in_span z (bt_time b)) excluded) (bd_beats db))"

definition get_non_maintenance_counts :: "zone \<Rightarrow> moment \<Rightarrow> moment \<Rightarrow> string \<Rightarrow> beat_db \<Rightarrow> int \<times> int" where
  "get_non_maintenance_counts z window_start window_end key db =
     (let bs = non_maintenance_beats z window_start window_end key db
      in (count_int (\<lambda>b. bt_status b = Beat_Ok) bs, int (length bs)))"

text \<open>\<open>round(ok / expected * 100, 2)\<close>, at most 100.\<close>

definition percent2 :: "int \<Rightarrow> int \<Rightarrow> rat" where
  "percent2 ok expected = min (round2 (of_int ok / of_int expected * 100)) 100"

text \<open>Where the raw beats of a window begin, and the date the summaries end before.\<close>

definition raw_split :: "instant \<Rightarrow> instant \<Rightarrow> instant option \<Rightarrow> instant \<times> int option" where
  "raw_split now window_start oldest =
     (case oldest of
        None \<Rightarrow> (now, Some (utc_day now + 1))
      | Some t \<Rightarrow> if window_start < t then (t, Some (utc_day t)) else (window_start, None))"

definition summary_rows :: "instant \<Rightarrow> int option \<Rightarrow> string \<Rightarrow> beat_db \<Rightarrow> daily list" where
  "summary_rows window_start end_date key db =
     (case end_date of
        None \<Rightarrow> []
      | Some d \<Rightarrow> filter (\<lambda>r. dy_monitor r = key \<and> utc_day window_start \<le> dy_day r \<and> dy_day r < d) (bd_days db))"

definition uptime_over_window :: "beat_env \<Rightarrow> instant \<Rightarrow> instant \<Rightarrow> string \<Rightarrow> beat_db \<Rightarrow> uptime_result" where
  "uptime_over_window env now window_start key db =
     (let z = be_zone env; window = now - window_start in
      if window \<le> 0 then \<lparr>ur_uptime = None, ur_covered = 0, ur_window = max window 0\<rparr>
      else
        (let (raw_start, end_date) = raw_split now window_start (oldest_beat key db);
             rows = summary_rows window_start end_date key db;
             covered_recent = (if raw_start < now then now - raw_start else 0);
             effective = covered_recent - get_excluded_span z (Utc raw_start) (Utc now) key db;
             (raw_expected, raw_ok) =
               (if raw_start < now \<and> 0 < effective
                then (effective div secs (be_interval env),
                      fst (get_non_maintenance_counts z (Utc raw_start) (Utc now) key db))
                else (0, 0));
             total_expected = raw_expected + sum_over dy_expected rows
         in \<lparr>ur_uptime = (if 1 \<le> total_expected then Some (percent2 (raw_ok + sum_over dy_ok rows) total_expected) else None),
             ur_covered = min (covered_recent + int (length rows) * days_span 1) window, ur_window = window\<rparr>))"

definition calc_uptime :: "beat_env \<Rightarrow> instant \<Rightarrow> int \<Rightarrow> string \<Rightarrow> beat_db \<Rightarrow> rat option" where
  "calc_uptime env now hours key db =
     (let window_start = now - hours_span hours
      in ur_uptime (uptime_over_window env now
           (case get_epoch key db of Some e \<Rightarrow> if window_start < e then e else window_start | None \<Rightarrow> window_start) key db))"

definition calc_overall_uptime :: "beat_env \<Rightarrow> instant \<Rightarrow> string \<Rightarrow> beat_db \<Rightarrow> rat option" where
  "calc_overall_uptime env now key db =
     (case get_epoch key db of None \<Rightarrow> None | Some e \<Rightarrow> ur_uptime (uptime_over_window env now e key db))"

definition coverage_since_epoch :: "beat_env \<Rightarrow> instant \<Rightarrow> string \<Rightarrow> beat_db \<Rightarrow> rat option" where
  "coverage_since_epoch env now key db =
     (case get_epoch key db of None \<Rightarrow> None | Some e \<Rightarrow> coverage (uptime_over_window env now e key db))"

section \<open>Sub-day timelines\<close>

definition is_in_any_window :: "instant \<Rightarrow> (instant \<times> instant) list \<Rightarrow> bool" where
  "is_in_any_window t windows = list_ex (\<lambda>(ws, we). ws \<le> t \<and> t < we) windows"

definition timeline_beats :: "string \<Rightarrow> instant \<Rightarrow> beat_db \<Rightarrow> heartbeat list" where
  "timeline_beats key cutoff db =
     sort_key bt_time (filter (\<lambda>b. bt_monitor b = key \<and> cutoff \<le> bt_time b) (bd_beats db))"

definition timeline_windows :: "string \<Rightarrow> instant \<Rightarrow> instant \<Rightarrow> beat_db \<Rightarrow> (instant \<times> instant) list" where
  "timeline_windows key cutoff current db =
     map (\<lambda>w. (mw_start w, mw_end w))
       (filter (\<lambda>w. mw_monitor w = key \<and> mw_start w < current \<and> cutoff < mw_end w) (bd_windows db))"

text \<open>The beats of a slot, and the slots of a timeline of \<open>n\<close> slots.\<close>

definition slot_beats :: "instant \<Rightarrow> instant \<Rightarrow> heartbeat list \<Rightarrow> heartbeat list" where
  "slot_beats slot_start slot_end beats = filter (\<lambda>b. slot_start \<le> bt_time b \<and> bt_time b < slot_end) beats"

definition slot_starts :: "instant \<Rightarrow> span \<Rightarrow> nat \<Rightarrow> instant list" where
  "slot_starts cutoff width n = map (\<lambda>i. cutoff + int i * width) [0..<n]"

definition before_epoch :: "instant option \<Rightarrow> instant \<Rightarrow> bool" where
  "before_epoch e slot_end = (case e of Some t \<Rightarrow> slot_end \<le> t | None \<Rightarrow> False)"

record minute_slot =
  ms_status :: string
  ms_time :: instant
  ms_ms :: int

definition avg_ms :: "heartbeat list \<Rightarrow> int" where
  "avg_ms bs = (if bs = [] then 0 else sum_list (map bt_ms bs) div int (length bs))"

definition minute_slot_of ::
    "instant option \<Rightarrow> heartbeat list \<Rightarrow> (instant \<times> instant) list \<Rightarrow> instant \<Rightarrow> minute_slot" where
  "minute_slot_of e beats windows slot_start =
     (let slot_end = slot_start + minutes_span 1; bs = slot_beats slot_start slot_end beats in
      if before_epoch e slot_end then \<lparr>ms_status = ''pre-epoch'', ms_time = slot_start, ms_ms = 0\<rparr>
      else if is_in_any_window slot_start windows
      then \<lparr>ms_status = ''maintenance'', ms_time = slot_start, ms_ms = avg_ms bs\<rparr>
      else (case bs of
        [] \<Rightarrow> \<lparr>ms_status = ''missed'', ms_time = slot_start, ms_ms = 0\<rparr>
      | b # _ \<Rightarrow> \<lparr>ms_status = (if list_ex (\<lambda>x. bt_status x = Beat_Fail) bs then ''fail'' else ''ok''),
                  ms_time = bt_time b, ms_ms = avg_ms bs\<rparr>))"

definition build_minute_timeline :: "instant \<Rightarrow> nat \<Rightarrow> string \<Rightarrow> beat_db \<Rightarrow> minute_slot list" where
  "build_minute_timeline now minutes key db =
     (let cutoff = now - minutes_span (int minutes)
      in map (minute_slot_of (get_epoch key db) (timeline_beats key cutoff db) (timeline_windows key cutoff now db))
           (slot_starts cutoff (minutes_span 1) minutes))"

record count_slot =
  cs_status :: string
  cs_ok :: int
  cs_fail :: int
  cs_total :: int
  cs_time :: instant

definition overlaps_window :: "instant \<Rightarrow> instant \<Rightarrow> (instant \<times> instant) list \<Rightarrow> bool" where
  "overlaps_window slot_start slot_end windows = list_ex (\<lambda>(ws, we). ws < slot_end \<and> slot_start < we) windows"

definition count_slot_of ::
    "instant option \<Rightarrow> heartbeat list \<Rightarrow> (instant \<times> instant) list \<Rightarrow> instant \<Rightarrow> count_slot" where
  "count_slot_of e beats windows slot_start =
     (let slot_end = slot_start + minutes_span 15;
          bs = slot_beats slot_start slot_end beats;
          ok = count_int (\<lambda>b. bt_status b = Beat_Ok) bs;
          failed = count_int (\<lambda>b. bt_status b = Beat_Fail) bs;
          total = int (length bs)
      in if before_epoch e slot_end
         then \<lparr>cs_status = ''pre-epoch'', cs_ok = 0, cs_fail = 0, cs_total = 0, cs_time = slot_start\<rparr>
         else \<lparr>cs_status = (if overlaps_window slot_start slot_end windows then ''maintenance''
                 else if total = 0 then ''missed'' else if 0 < failed \<and> 0 < ok then ''partial''
                 else if 0 < failed then ''fail'' else ''ok''),
               cs_ok = ok, cs_fail = failed, cs_total = total, cs_time = slot_start\<rparr>)"

definition build_24h_timeline :: "instant \<Rightarrow> string \<Rightarrow> beat_db \<Rightarrow> count_slot list" where
  "build_24h_timeline now key db =
     (let cutoff = now - hours_span 24
      in map (count_slot_of (get_epoch key db) (timeline_beats key cutoff db) (timeline_windows key cutoff now db))
           (slot_starts cutoff (minutes_span 15) 96))"

definition hour_status ::
    "instant option \<Rightarrow> heartbeat list \<Rightarrow> (instant \<times> instant) list \<Rightarrow> instant \<Rightarrow> string" where
  "hour_status e beats windows slot_start =
     (let slot_end = slot_start + hours_span 1;
          bs = slot_beats slot_start slot_end beats;
          ok = count_int (\<lambda>b. bt_status b = Beat_Ok) bs;
          failed = count_int (\<lambda>b. bt_status b = Beat_Fail) bs
      in if before_epoch e slot_end then ''nodata''
         else if overlaps_window slot_start slot_end windows then ''maintenance''
         else if bs = [] then ''nodata''
         else if 0 < failed \<and> 0 < ok then ''degraded''
         else if 0 < failed then ''down'' else ''up'')"

definition build_hourly_timeline :: "instant \<Rightarrow> nat \<Rightarrow> string \<Rightarrow> beat_db \<Rightarrow> string list" where
  "build_hourly_timeline now hours key db =
     (let cutoff = now - hours_span (int hours);
          beats = filter (\<lambda>b. bt_monitor b = key \<and> cutoff \<le> bt_time b) (bd_beats db)
      in map (hour_status (get_epoch key db) beats (timeline_windows key cutoff now db))
           (slot_starts cutoff (hours_span 1) hours))"

end
