(* ===== verification/Heartbeat_Calendar.thy ===== *)
theory Heartbeat_Calendar
  imports Heartbeat_Status
begin

text \<open>
  The day-by-day half of \<open>apps/heartbeat/status.py\<close>: the daily uptime map, the 90-day timeline, and
  the month grids of the status and maintenance calendars. A date is the number of days since
  1970-01-01; \<open>day_number\<close> gives it for a year, month and day as \<open>date(y, m, d)\<close> does. The year and
  month of today, which \<open>date\<close> objects carry, are arguments. The display texts are left out.
\<close>

section \<open>Uptime by day\<close>

text \<open>The uptime of one day, one round of the loop of \<open>_daily_uptime_map\<close>: the counts of its summary
  plus those of its raw beats.\<close>

definition score_day ::
    "beat_env \<Rightarrow> instant \<Rightarrow> string \<Rightarrow> beat_db \<Rightarrow> daily option \<Rightarrow> bool \<Rightarrow> int \<Rightarrow> rat option" where
  "score_day env now key db summary has_raw day =
     (if summary = None \<and> \<not> has_raw then None
      else
        (let z = be_zone env;
             (ok0, observed0) = (case summary of Some r \<Rightarrow> (dy_ok r, dy_ok r + dy_fail r) | None \<Rightarrow> (0, 0));
             (raw_ok, raw_obs) = (if has_raw
                then get_non_maintenance_counts z (fst (day_bounds day)) (snd (day_bounds day)) key db else (0, 0));
             ok = ok0 + raw_ok;
             observed = observed0 + raw_obs
         in if day = local_day z now then (if observed \<noteq> 0 then Some (percent2 ok observed) else None)
            else (let denominator = max observed
                        (expected_intervals_for_day env now day key (epoch_start key db) db)
                  in if denominator \<noteq> 0 then Some (percent2 ok denominator) else None)))"

text \<open>The raw rows of the map are those of the window from the first to the last date.\<close>

definition daily_uptime_map :: "beat_env \<Rightarrow> instant \<Rightarrow> string \<Rightarrow> int \<Rightarrow> int \<Rightarrow> beat_db \<Rightarrow> (int \<times> rat option) list" where
  "daily_uptime_map env now key start stop db =
     (let z = be_zone env;
          window = (fst (day_bounds start), fst (day_bounds (stop + 1)));
          raw_days = map (\<lambda>b. local_day z (bt_time b))
            (filter (\<lambda>b. bt_monitor b = key \<and> in_span z (bt_time b) window) (bd_beats db));
          summary = (\<lambda>day. find (\<lambda>r. dy_monitor r = key \<and> start \<le> dy_day r \<and> dy_day r \<le> stop \<and> dy_day r = day) (bd_days db))
      in map (\<lambda>day. (day, score_day env now key db (summary day) (day \<in> set raw_days) day)) [start..stop])"

definition classify_day :: "rat option \<Rightarrow> int \<Rightarrow> int option \<Rightarrow> rat \<Rightarrow> rat \<Rightarrow> string" where
  "classify_day uptime day epoch_date target minimum =
     (if (case epoch_date of Some d \<Rightarrow> day < d | None \<Rightarrow> False) then ''nodata''
      else (case uptime of
        None \<Rightarrow> ''nodata''
      | Some u \<Rightarrow> if target \<le> u then ''up'' else if minimum \<le> u then ''degraded'' else ''down''))"

record day_slot =
  ds_day :: int
  ds_status :: string
  ds_uptime :: "rat option"

definition epoch_day :: "beat_env \<Rightarrow> string \<Rightarrow> beat_db \<Rightarrow> int option" where
  "epoch_day env key db = map_option (local_day (be_zone env)) (get_epoch key db)"

definition lookup_uptime :: "int \<Rightarrow> (int \<times> rat option) list \<Rightarrow> rat option" where
  "lookup_uptime day m = (case map_of m day of Some u \<Rightarrow> u | None \<Rightarrow> None)"

definition build_daily_timeline :: "beat_env \<Rightarrow> instant \<Rightarrow> nat \<Rightarrow> string \<Rightarrow> beat_db \<Rightarrow> day_slot list" where
  "build_daily_timeline env now days key db =
     (let today = local_day (be_zone env) now;
          start = today - (int days - 1);
          (target, minimum) = get_sla_targets key db;
          m = daily_uptime_map env now key start today db
      in map (\<lambda>i. let day = start + int i; u = lookup_uptime day m
                  in \<lparr>ds_day = day, ds_status = classify_day u day (epoch_day env key db) target minimum, ds_uptime = u\<rparr>)
           [0..<days])"

record timeline_row =
  tl_uptime :: "rat option"
  tl_slots :: "string list"

definition build_stacked_timelines :: "beat_env \<Rightarrow> instant \<Rightarrow> string \<Rightarrow> beat_db \<Rightarrow> timeline_row list" where
  "build_stacked_timelines env now key db =
     [\<lparr>tl_uptime = calc_uptime env now 24 key db, tl_slots = build_hourly_timeline now 24 key db\<rparr>,
      \<lparr>tl_uptime = calc_uptime env now 168 key db, tl_slots = build_hourly_timeline now 168 key db\<rparr>,
      \<lparr>tl_uptime = calc_uptime env now (90 * 24) key db,
        tl_slots = map ds_status (build_daily_timeline env now 90 key db)\<rparr>]"

section \<open>Maintenance by day\<close>

text \<open>\<open>while day <= last\<close> from the window's first local day, kept within the range.\<close>

definition window_days :: "zone \<Rightarrow> int \<Rightarrow> int \<Rightarrow> maintenance_window \<Rightarrow> int list" where
  "window_days z start stop w =
     filter (\<lambda>d. start \<le> d \<and> d \<le> stop) [local_day z (mw_start w)..local_day z (mw_end w)]"

definition maintenance_by_date ::
    "beat_env \<Rightarrow> string option \<Rightarrow> int \<Rightarrow> int \<Rightarrow> beat_db \<Rightarrow> (int \<times> maintenance_window list) list" where
  "maintenance_by_date env key start stop db =
     (let z = be_zone env;
          s = moment_utc z (fst (day_bounds start));
          e = moment_utc z (fst (day_bounds (stop + 1)));
          ws = sort_key mw_start (filter (\<lambda>w. mw_start w < e \<and> s < mw_end w
                 \<and> (case key of Some k \<Rightarrow> k = '''' \<or> mw_monitor w = k | None \<Rightarrow> True)) (bd_windows db));
          add = (\<lambda>w day m. dict_set day ((case map_of m day of Some xs \<Rightarrow> xs | None \<Rightarrow> []) @ [w]) m)
      in fold (\<lambda>w. fold (add w) (window_days z start stop w)) ws [])"

definition upcoming_maintenance :: "instant \<Rightarrow> int \<Rightarrow> string option \<Rightarrow> beat_db \<Rightarrow> (maintenance_window \<times> int \<times> bool) list" where
  "upcoming_maintenance now days key db =
     map (\<lambda>w. (w, (mw_end w - mw_start w) div minutes_span 1, mw_start w \<le> now \<and> now \<le> mw_end w))
       (sort_key mw_start (filter (\<lambda>w. now \<le> mw_end w \<and> mw_start w \<le> now + days_span days
          \<and> (case key of Some k \<Rightarrow> k = '''' \<or> mw_monitor w = k | None \<Rightarrow> True)) (bd_windows db)))"

section \<open>Months\<close>

definition leap_year :: "int \<Rightarrow> bool" where
  "leap_year y = (y mod 4 = 0 \<and> (y mod 100 \<noteq> 0 \<or> y mod 400 = 0))"

definition month_length :: "int \<Rightarrow> int \<Rightarrow> int" where
  "month_length y m = (if m = 2 then (if leap_year y then 29 else 28) else if m \<in> {4, 6, 9, 11} then 30 else 31)"

definition days_before_month :: "int \<Rightarrow> int \<Rightarrow> int" where
  "days_before_month y m = sum_list (map (month_length y) [1..m - 1])"

text \<open>Days from 1970-01-01; \<open>719163\<close> is the ordinal of that date.\<close>

definition day_number :: "int \<Rightarrow> int \<Rightarrow> int \<Rightarrow> int" where
  "day_number y m d =
     (let p = y - 1 in p * 365 + p div 4 - p div 100 + p div 400) + days_before_month y m + d - 719163"

text \<open>Days since the last Sunday; day 0 was a Thursday.\<close>

definition since_sunday :: "int \<Rightarrow> int" where
  "since_sunday day = (day + 4) mod 7"

text \<open>\<open>Calendar(firstweekday=6).monthdatescalendar(y, m)\<close>: whole weeks that cover the month, with
  \<open>None\<close> for the days outside it, as both grids show them.\<close>

definition month_weeks :: "int \<Rightarrow> int \<Rightarrow> int option list list" where
  "month_weeks y m =
     (let first = day_number y m 1; n = month_length y m; lead = since_sunday first
      in map (\<lambda>k. map (\<lambda>j. let d = first - lead + 7 * int k + int j
                          in if first \<le> d \<and> d < first + n then Some d else None) [0..<7])
           [0..<nat ((lead + n + 6) div 7)])"

text \<open>The months of a grid: \<open>divmod\<close> of the running index, or stepping back from the last.\<close>

definition months_from :: "int \<Rightarrow> nat \<Rightarrow> (int \<times> int) list" where
  "months_from start_idx n = map (\<lambda>k. ((start_idx + int k) div 12, (start_idx + int k) mod 12 + 1)) [0..<n]"

fun months_back_from :: "nat \<Rightarrow> int \<Rightarrow> int \<Rightarrow> (int \<times> int) list" where
  "months_back_from 0 y m = []"
| "months_back_from (Suc n) y m =
     (if m = 1 then months_back_from n (y - 1) 12 else months_back_from n y (m - 1)) @ [(y, m)]"

record maintenance_cell =
  mc_day :: int
  mc_today :: bool
  mc_windows :: "maintenance_window list"

record month_grid =
  mg_month :: "int \<times> int"
  mg_weeks :: "maintenance_cell option list list"
  mg_count :: nat
  mg_current :: bool

definition build_maintenance_calendar ::
    "beat_env \<Rightarrow> instant \<Rightarrow> int \<times> int \<Rightarrow> nat \<Rightarrow> nat \<Rightarrow> string option \<Rightarrow> beat_db \<Rightarrow> month_grid list" where
  "build_maintenance_calendar env now today_ym back forward key db =
     (let today = local_day (be_zone env) now;
          ym = months_from (fst today_ym * 12 + (snd today_ym - 1) - int back) (back + 1 + forward);
          range_start = day_number (fst (hd ym)) (snd (hd ym)) 1;
          range_end = day_number (fst (last ym)) (snd (last ym)) (month_length (fst (last ym)) (snd (last ym)));
          maint = maintenance_by_date env key range_start range_end db;
          windows = (\<lambda>d. case map_of maint d of Some ws \<Rightarrow> ws | None \<Rightarrow> [])
      in map (\<lambda>(y, m).
           let weeks = map (map (map_option (\<lambda>d. \<lparr>mc_day = d, mc_today = (d = today), mc_windows = windows d\<rparr>)))
                         (month_weeks y m)
           in \<lparr>mg_month = (y, m), mg_weeks = weeks,
               mg_count = length (filter (\<lambda>c. case c of Some x \<Rightarrow> mc_windows x \<noteq> [] | None \<Rightarrow> False) (concat weeks)),
               mg_current = ((y, m) = today_ym)\<rparr>) ym)"

datatype status_cell =
    Outside_Month
  | Future_Day int
  | Status_Day int string "rat option" "maintenance_window list"

record status_month =
  sm_month :: "int \<times> int"
  sm_uptime :: "rat option"
  sm_weeks :: "status_cell list list"

definition mean2 :: "rat list \<Rightarrow> rat option" where
  "mean2 us = (if us = [] then None else Some (round2 (sum_list us / of_int (int (length us)))))"

definition build_calendar_months ::
    "beat_env \<Rightarrow> instant \<Rightarrow> int \<times> int \<Rightarrow> nat \<Rightarrow> string \<Rightarrow> beat_db \<Rightarrow> status_month list" where
  "build_calendar_months env now end_ym months key db =
     (let today = local_day (be_zone env) now;
          ym = months_back_from months (fst end_ym) (snd end_ym);
          range_start = day_number (fst (hd ym)) (snd (hd ym)) 1;
          range_end = day_number (fst (last ym)) (snd (last ym)) (month_length (fst (last ym)) (snd (last ym)));
          uptimes = daily_uptime_map env now key range_start range_end db;
          maint = maintenance_by_date env (Some key) range_start range_end db;
          (target, minimum) = get_sla_targets key db;
          cell = (\<lambda>c. case c of
              None \<Rightarrow> Outside_Month
            | Some d \<Rightarrow>
                if today < d then Future_Day d
                else (let u = lookup_uptime d uptimes; ws = (case map_of maint d of Some ws \<Rightarrow> ws | None \<Rightarrow> [])
                      in Status_Day d (if ws \<noteq> [] then ''maintenance''
                           else classify_day u d (epoch_day env key db) target minimum) u ws))
      in map (\<lambda>(y, m).
           let weeks = map (map cell) (month_weeks y m)
           in \<lparr>sm_month = (y, m),
               sm_uptime = mean2 (List.map_filter (\<lambda>c. case c of Status_Day d s u ws \<Rightarrow> u | _ \<Rightarrow> None) (concat weeks)),
               sm_weeks = weeks\<rparr>) ym)"

end
