(* ===== verification/Heartbeat_Props.thy ===== *)
theory Heartbeat_Props
  imports Heartbeat_Ranges Heartbeat_Calendar
begin

text \<open>
  Properties of monitoring: pruning moves beats into the daily summaries without changing what a
  day counts, percentages and coverages are within their bounds, every reachable state keeps the
  table constraints, maintenance is never shown as an outage, and what a day with a clock change
  costs.
\<close>

section \<open>What a day counts\<close>

definition day_row :: "string \<Rightarrow> int \<Rightarrow> daily list \<Rightarrow> daily option" where
  "day_row key day rows = find (\<lambda>r. dy_monitor r = key \<and> dy_day r = day) rows"

definition row_ok_count :: "daily option \<Rightarrow> int" where
  "row_ok_count r = (case r of Some x \<Rightarrow> dy_ok x | None \<Rightarrow> 0)"

definition row_observed :: "daily option \<Rightarrow> int" where
  "row_observed r = (case r of Some x \<Rightarrow> dy_ok x + dy_fail x | None \<Rightarrow> 0)"

lemma row_count_simps [simp]:
  "row_ok_count None = 0" "row_ok_count (Some x) = dy_ok x"
  "row_observed None = 0" "row_observed (Some x) = dy_ok x + dy_fail x"
  by (simp_all add: row_ok_count_def row_observed_def)

text \<open>The beats of a monitor and day that count for the SLA.\<close>

definition counts_on :: "zone \<Rightarrow> string \<Rightarrow> int \<Rightarrow> beat_db \<Rightarrow> heartbeat \<Rightarrow> bool" where
  "counts_on z key day db b =
     (bt_monitor b = key \<and> local_day z (bt_time b) = day \<and> \<not> sla_excluded key db (bt_time b))"

definition day_ranges :: "zone \<Rightarrow> string \<Rightarrow> int \<Rightarrow> beat_db \<Rightarrow> (moment \<times> moment) list" where
  "day_ranges z key day db = get_excluded_ranges z (fst (day_bounds day)) (snd (day_bounds day)) key db"

lemma day_ranges_iff:
  assumes "zone_ok z" "windows_ok db" "local_day z t = day"
  shows "list_ex (in_span z t) (day_ranges z key day db) \<longleftrightarrow> sla_excluded key db t"
proof -
  have "in_span z t (fst (day_bounds day), snd (day_bounds day))"
    using in_day [OF assms(1), of t day] assms(3) by (simp del: day_bounds_simps)
  from excluded_iff [OF coherent_day [OF assms(1)] assms(2) this] show ?thesis by (simp only: day_ranges_def)
qed

lemma day_ranges_apart:
  assumes "zone_ok z" "windows_ok db"
  shows "apart (map (utc_range z) (day_ranges z key day db))"
proof -
  have "moment_utc z (fst (day_bounds day)) \<le> moment_utc z (snd (day_bounds day))"
    using assms(1) by (simp add: zone_ok_def less_imp_le)
  from excluded_ranges_covered(1) [OF coherent_day [OF assms(1)] this assms(2)] show ?thesis
    by (simp only: day_ranges_def)
qed

lemma raw_counts:
  assumes "zone_ok z" "windows_ok db"
  shows "get_non_maintenance_counts z (fst (day_bounds day)) (snd (day_bounds day)) key db =
    (count_int (\<lambda>b. counts_on z key day db b \<and> bt_status b = Beat_Ok) (bd_beats db),
     count_int (counts_on z key day db) (bd_beats db))"
proof -
  have "bt_monitor b = key \<and> in_span z (bt_time b) (day_bounds day)
      \<and> \<not> list_ex (in_span z (bt_time b)) (day_ranges z key day db) \<longleftrightarrow> counts_on z key day db b" for b
    using day_ranges_iff [OF assms] in_day [OF assms(1), of "bt_time b" day] by (auto simp: counts_on_def)
  then have "non_maintenance_beats z (fst (day_bounds day)) (snd (day_bounds day)) key db =
      filter (counts_on z key day db) (bd_beats db)"
    by (simp add: non_maintenance_beats_def day_ranges_def del: day_bounds_simps)
  then show ?thesis by (simp add: get_non_maintenance_counts_def count_int_filter count_int_def del: day_bounds_simps)
qed

lemma find_update_same:
  assumes "P x" "find P rows \<noteq> None"
  shows "find P (tbl_update P (\<lambda>_. x) rows) = Some x"
  using assms by (induction rows) auto

lemma find_update_disjoint:
  assumes "\<And>r. P r \<Longrightarrow> \<not> Q r" "\<not> Q x"
  shows "find Q (tbl_update P (\<lambda>_. x) rows) = find Q rows"
  using assms by (induction rows) auto

lemma find_append: "find P (xs @ ys) = (case find P xs of Some x \<Rightarrow> Some x | None \<Rightarrow> find P ys)"
  by (induction xs) auto

lemma merge_batch_simps [simp]:
  "dy_monitor (merge_batch a b c d e r) = dy_monitor r" "dy_day (merge_batch a b c d e r) = dy_day r"
  "dy_ok (merge_batch a b c d e r) = dy_ok r + a" "dy_fail (merge_batch a b c d e r) = dy_fail r + b"
  "dy_expected (merge_batch a b c d e r) = e"
  by (simp_all add: merge_batch_def Let_def)

text \<open>What one group of a batch adds to its row: the beats that count, each once.\<close>

lemma write_summary_eq:
  assumes "zone_ok (be_zone env)" "windows_ok db"
  shows "\<exists>total avg. 0 \<le> total \<and> write_summary env now old (key, day) db =
    (let (row, rows) = get_or_create_daily key day (expected_intervals_for_day env now day key (epoch_start key db) db) (bd_days db)
     in db\<lparr>bd_days := tbl_update (\<lambda>r. dy_monitor r = key \<and> dy_day r = day)
        (\<lambda>_. merge_batch (count_int (\<lambda>b. counts_on (be_zone env) key day db b \<and> bt_status b = Beat_Ok) old)
               (count_int (\<lambda>b. counts_on (be_zone env) key day db b \<and> bt_status b = Beat_Fail) old) total avg
               (expected_intervals_for_day env now day key (epoch_start key db) db) row) rows\<rparr>)"
proof -
  let ?z = "be_zone env"
  let ?mine = "\<lambda>b. bt_monitor b = key \<and> local_day ?z (bt_time b) = day"
  have batch: "filter (\<lambda>b. bt_monitor b = key \<and> in_span ?z (bt_time b) (day_bounds day)) old = filter ?mine old"
    by (simp only: in_day [OF assms(1)])
  have ex: "sum_over (\<lambda>r. count_int (\<lambda>b. in_span ?z (bt_time b) r \<and> P b) (filter ?mine old)) (day_ranges ?z key day db) =
      count_int (\<lambda>b. ?mine b \<and> sla_excluded key db (bt_time b) \<and> P b) old" for P
    unfolding count_over_ranges [OF day_ranges_apart [OF assms]]
    unfolding count_int_filter
    by (rule count_int_cong) (auto simp: day_ranges_iff [OF assms])
  have split: "count_int P (filter ?mine old) = count_int (\<lambda>b. ?mine b \<and> sla_excluded key db (bt_time b) \<and> P b) old
      + count_int (\<lambda>b. counts_on ?z key day db b \<and> P b) old" for P
    unfolding counts_on_def count_int_filter by (induction old) auto
  have fails: "count_int (\<lambda>b. bt_monitor b = key \<and> local_day ?z (bt_time b) = day \<and> sla_excluded key db (bt_time b)) old
      - count_int (\<lambda>b. bt_monitor b = key \<and> local_day ?z (bt_time b) = day \<and> sla_excluded key db (bt_time b) \<and> bt_status b = Beat_Ok) old =
      count_int (\<lambda>b. bt_monitor b = key \<and> local_day ?z (bt_time b) = day \<and> sla_excluded key db (bt_time b) \<and> bt_status b = Beat_Fail) old"
  proof (induction old)
    case (Cons b bs)
    then show ?case by (cases "bt_status b") auto
  qed simp
  have "write_summary env now old (key, day) db =
    (let (row, rows) = get_or_create_daily key day (expected_intervals_for_day env now day key (epoch_start key db) db) (bd_days db)
     in db\<lparr>bd_days := tbl_update (\<lambda>r. dy_monitor r = key \<and> dy_day r = day)
        (\<lambda>_. merge_batch (count_int (\<lambda>b. counts_on ?z key day db b \<and> bt_status b = Beat_Ok) old)
               (count_int (\<lambda>b. counts_on ?z key day db b \<and> bt_status b = Beat_Fail) old)
               (count_int (\<lambda>b. ?mine b \<and> sla_excluded key db (bt_time b)) old)
               (if filter ?mine old = [] then 0
                else of_int (sum_list (map bt_ms (filter ?mine old))) / of_int (int (length (filter ?mine old))))
               (expected_intervals_for_day env now day key (epoch_start key db) db) row) rows\<rparr>)"
    unfolding write_summary_def Let_def prod.case batch
    unfolding day_ranges_def [symmetric]
    unfolding ex [of "\<lambda>_. True", simplified]
    unfolding ex
    unfolding split
    by (auto simp: fails split: prod.split)
  then show ?thesis using count_int_nonneg by blast
qed

text \<open>A row that took in the beats of a batch that count on its day.\<close>

definition row_gain :: "zone \<Rightarrow> string \<Rightarrow> int \<Rightarrow> beat_db \<Rightarrow> heartbeat list \<Rightarrow> daily option \<Rightarrow> daily option \<Rightarrow> bool" where
  "row_gain z key day db old r0 r1 \<longleftrightarrow> (\<exists>r. r1 = Some r
      \<and> dy_ok r = row_ok_count r0 + count_int (\<lambda>b. counts_on z key day db b \<and> bt_status b = Beat_Ok) old
      \<and> dy_ok r + dy_fail r = row_observed r0 + count_int (counts_on z key day db) old)"

text \<open>One group is added to its own row and to no other.\<close>

lemma write_summary_rows:
  assumes "zone_ok (be_zone env)" "windows_ok db"
  shows "row_gain (be_zone env) key day db old (day_row key day (bd_days db))
      (day_row key day (bd_days (write_summary env now old (key, day) db)))"
    and "(k, d) \<noteq> (key, day) \<Longrightarrow>
      day_row k d (bd_days (write_summary env now old (key, day) db)) = day_row k d (bd_days db)"
    and "bd_beats (write_summary env now old (key, day) db) = bd_beats db"
      "bd_epochs (write_summary env now old (key, day) db) = bd_epochs db"
      "bd_windows (write_summary env now old (key, day) db) = bd_windows db"
proof -
  let ?match = "\<lambda>r. dy_monitor r = key \<and> dy_day r = day"
  let ?exp = "expected_intervals_for_day env now day key (epoch_start key db) db"
  let ?n = "\<lambda>s. count_int (\<lambda>b. counts_on (be_zone env) key day db b \<and> bt_status b = s) old"
  obtain row rows where row: "get_or_create_daily key day ?exp (bd_days db) = (row, rows)" by fastforce
  obtain tot avg where eq: "write_summary env now old (key, day) db = db\<lparr>bd_days := tbl_update ?match
      (\<lambda>_. merge_batch (?n Beat_Ok) (?n Beat_Fail) tot avg ?exp row) rows\<rparr>"
    using write_summary_eq [OF assms, of now old key day] by (auto simp: row)
  have found: "?match row" "find ?match rows = Some row"
    "dy_ok row = row_ok_count (day_row key day (bd_days db))"
    "dy_ok row + dy_fail row = row_observed (day_row key day (bd_days db))"
    using row by (auto simp: get_or_create_daily_def day_row_def Let_def find_append dest: find_SomeD split: option.splits)
  have all: "?n Beat_Ok + ?n Beat_Fail = count_int (counts_on (be_zone env) key day db) old"
  proof (induction old)
    case (Cons b bs)
    then show ?case by (cases "bt_status b") auto
  qed simp
  show "row_gain (be_zone env) key day db old (day_row key day (bd_days db))
      (day_row key day (bd_days (write_summary env now old (key, day) db)))"
    using found all by (simp add: eq day_row_def find_update_same row_gain_def)
  show "day_row k d (bd_days (write_summary env now old (key, day) db)) = day_row k d (bd_days db)"
    if "(k, d) \<noteq> (key, day)"
  proof -
    have "day_row k d rows = day_row k d (bd_days db)"
      using row that by (auto simp: get_or_create_daily_def day_row_def Let_def find_append split: option.splits)
    moreover have "day_row k d (tbl_update ?match (\<lambda>_. merge_batch (?n Beat_Ok) (?n Beat_Fail) tot avg ?exp row) rows) =
        day_row k d rows"
      unfolding day_row_def by (rule find_update_disjoint) (use that found(1) in auto)
    ultimately show ?thesis by (simp add: eq)
  qed
  show "bd_beats (write_summary env now old (key, day) db) = bd_beats db"
      "bd_epochs (write_summary env now old (key, day) db) = bd_epochs db"
      "bd_windows (write_summary env now old (key, day) db) = bd_windows db"
    by (simp_all add: eq)
qed

section \<open>Pruning\<close>

text \<open>What a monitor has for a day, in both places together: ok beats and all beats that count.\<close>

definition day_tally :: "zone \<Rightarrow> string \<Rightarrow> int \<Rightarrow> beat_db \<Rightarrow> int \<times> int" where
  "day_tally z key day db =
     (row_ok_count (day_row key day (bd_days db)) + count_int (\<lambda>b. counts_on z key day db b \<and> bt_status b = Beat_Ok) (bd_beats db),
      row_observed (day_row key day (bd_days db)) + count_int (counts_on z key day db) (bd_beats db))"

definition day_known :: "zone \<Rightarrow> string \<Rightarrow> int \<Rightarrow> beat_db \<Rightarrow> bool" where
  "day_known z key day db \<longleftrightarrow> day_row key day (bd_days db) \<noteq> None
     \<or> (\<exists>b \<in> set (bd_beats db). bt_monitor b = key \<and> local_day z (bt_time b) = day)"

lemma counts_on_windows:
  "bd_windows db' = bd_windows db \<Longrightarrow> counts_on z key day db' = counts_on z key day db"
  by (simp add: counts_on_def sla_excluded_def fun_eq_iff)

lemma row_gain_windows:
  assumes "bd_windows db' = bd_windows db"
  shows "row_gain z key day db' old = row_gain z key day db old"
  by (intro ext) (simp only: row_gain_def counts_on_windows [OF assms])

lemma write_fold:
  fixes now :: instant and old :: "heartbeat list"
  assumes "zone_ok (be_zone env)" "windows_ok db" "distinct ks"
  defines "db' \<equiv> fold (write_summary env now old) ks db"
  shows "bd_beats db' = bd_beats db \<and> bd_epochs db' = bd_epochs db \<and> bd_windows db' = bd_windows db
    \<and> (\<forall>k d. if (k, d) \<in> set ks then row_gain (be_zone env) k d db old (day_row k d (bd_days db)) (day_row k d (bd_days db'))
        else day_row k d (bd_days db') = day_row k d (bd_days db))"
  using assms(2,3) unfolding db'_def
proof (induction ks arbitrary: db)
  case (Cons kd ks)
  obtain key day where kd: "kd = (key, day)" by (cases kd)
  let ?db = "write_summary env now old (key, day) db"
  note w = write_summary_rows [OF assms(1) Cons.prems(1), where key = key and day = day and now = now and old = old]
  have wok: "windows_ok ?db" using Cons.prems(1) by (simp add: windows_ok_def w(5))
  have "distinct ks" using Cons.prems(2) by simp
  note IH = Cons.IH [OF wok this]
  let ?fin = "fold (write_summary env now old) ks ?db"
  have gain: "row_gain z k d ?db old = row_gain z k d db old" for z k d
    by (rule row_gain_windows [OF w(5)])
  have rest: "if (k, d) \<in> set ks then row_gain (be_zone env) k d db old (day_row k d (bd_days ?db)) (day_row k d (bd_days ?fin))
        else day_row k d (bd_days ?fin) = day_row k d (bd_days ?db)" for k d
    using IH unfolding gain by blast
  have "if (k, d) \<in> set (kd # ks) then row_gain (be_zone env) k d db old (day_row k d (bd_days db)) (day_row k d (bd_days ?fin))
        else day_row k d (bd_days ?fin) = day_row k d (bd_days db)" for k d
  proof (cases "(k, d) = (key, day)")
    case True
    then have "(k, d) \<notin> set ks" using Cons.prems(2) by (simp add: kd)
    with rest [of k d] have "day_row k d (bd_days ?fin) = day_row k d (bd_days ?db)" by simp
    with True w(1) show ?thesis by (simp add: kd)
  next
    case False
    then have "(k, d) \<in> set (kd # ks) \<longleftrightarrow> (k, d) \<in> set ks" by (auto simp: kd)
    with rest [of k d] show ?thesis unfolding w(2) [OF False] by (simp only:)
  qed
  then have A: "\<forall>k d. if (k, d) \<in> set (kd # ks)
      then row_gain (be_zone env) k d db old (day_row k d (bd_days db)) (day_row k d (bd_days ?fin))
      else day_row k d (bd_days ?fin) = day_row k d (bd_days db)" by (intro allI)
  have B: "bd_beats ?fin = bd_beats db" "bd_epochs ?fin = bd_epochs db" "bd_windows ?fin = bd_windows db"
    using IH w(3-5) by simp_all
  have fold_eq: "fold (write_summary env now old) (kd # ks) db = ?fin" by (simp add: kd)
  show ?case unfolding fold_eq by (intro conjI B A)
qed simp

lemma count_int_partition: "count_int P xs = count_int P (filter Q xs) + count_int P (filter (\<lambda>x. \<not> Q x) xs)"
  by (induction xs) auto

lemma prune_effect:
  fixes now :: instant and key :: string and day :: int
  assumes "zone_ok (be_zone env)" "windows_ok db"
  defines "db' \<equiv> snd (prune_old_heartbeats env now db)"
  shows "day_tally (be_zone env) key day db' = day_tally (be_zone env) key day db"
    and "day_known (be_zone env) key day db' = day_known (be_zone env) key day db"
    and "bd_epochs db' = bd_epochs db" "bd_windows db' = bd_windows db"
proof -
  let ?z = "be_zone env"
  let ?old = "filter (\<lambda>b. bt_time b < now - days_span (be_retention_days env)) (bd_beats db)"
  let ?new = "filter (\<lambda>b. \<not> bt_time b < now - days_span (be_retention_days env)) (bd_beats db)"
  let ?ks = "summary_groups ?z ?old"
  have ks: "distinct ?ks" "(k, d) \<in> set ?ks \<longleftrightarrow> (\<exists>b \<in> set ?old. bt_monitor b = k \<and> local_day ?z (bt_time b) = d)" for k d
    by (auto simp: summary_groups_def)
  note w = write_fold [OF assms(1,2) ks(1), where old = ?old and now = now]
  have db': "bd_beats db' = ?new" "bd_epochs db' = bd_epochs db" "bd_windows db' = bd_windows db"
    "bd_days db' = bd_days (fold (write_summary env now ?old) ?ks db)"
    using w by (auto simp: db'_def prune_old_heartbeats_def write_daily_summaries_def Let_def summary_groups_def filter_empty_conv)
  show "bd_epochs db' = bd_epochs db" "bd_windows db' = bd_windows db" by (rule db')+
  have parts: "count_int P (bd_beats db) = count_int P ?old + count_int P ?new" for P
    by (rule count_int_partition)
  have none: "count_int (\<lambda>b. counts_on ?z key day db b \<and> P b) ?old = 0" if "(key, day) \<notin> set ?ks" for P
    using that by (auto simp: ks(2) count_int_def counts_on_def filter_empty_conv)
  have same: "counts_on ?z key day db' = counts_on ?z key day db" by (rule counts_on_windows [OF db'(3)])
  have row: "if (key, day) \<in> set ?ks
      then row_gain ?z key day db ?old (day_row key day (bd_days db)) (day_row key day (bd_days db'))
      else day_row key day (bd_days db') = day_row key day (bd_days db)"
    using w unfolding db'(4) by blast
  show "day_tally ?z key day db' = day_tally ?z key day db"
  proof (cases "(key, day) \<in> set ?ks")
    case True
    with row show ?thesis
      by (auto simp: day_tally_def row_gain_def same db'(1) parts [of "counts_on ?z key day db"]
          parts [of "\<lambda>b. counts_on ?z key day db b \<and> bt_status b = Beat_Ok"])
  next
    case False
    with row none [OF False, of "\<lambda>_. True"] none [OF False, of "\<lambda>b. bt_status b = Beat_Ok"] show ?thesis
      by (simp add: day_tally_def same db'(1) parts [of "counts_on ?z key day db"]
          parts [of "\<lambda>b. counts_on ?z key day db b \<and> bt_status b = Beat_Ok"])
  qed
  show "day_known ?z key day db' = day_known ?z key day db"
  proof (cases "(key, day) \<in> set ?ks")
    case True
    with row show ?thesis unfolding day_known_def row_gain_def using ks(2) by auto
  next
    case False
    with row show ?thesis unfolding day_known_def db'(1) using ks(2) by auto
  qed
qed

section \<open>The daily map\<close>

lemma midnight_mono:
  assumes "zone_ok z" "a \<le> b" shows "zn_utc z (days_span a) \<le> zn_utc z (days_span b)"
  using assms(2)
proof (induction b rule: int_ge_induct)
  case (step b)
  have "zn_utc z (days_span b) < zn_utc z (days_span (b + 1))" using assms(1) by (simp add: zone_ok_def)
  with step show ?case by simp
qed simp

definition today_score :: "int \<times> int \<Rightarrow> rat option" where
  "today_score c = (if snd c \<noteq> 0 then Some (percent2 (fst c) (snd c)) else None)"

definition past_score :: "int \<times> int \<Rightarrow> int \<Rightarrow> rat option" where
  "past_score c expected =
     (if max (snd c) expected \<noteq> 0 then Some (percent2 (fst c) (max (snd c) expected)) else None)"

text \<open>The score of a day depends only on what is known of it and on its tally.\<close>

lemma score_day_tally:
  assumes "zone_ok (be_zone env)" "windows_ok db"
    and "has_raw \<longleftrightarrow> (\<exists>b \<in> set (bd_beats db). bt_monitor b = key \<and> local_day (be_zone env) (bt_time b) = day)"
  shows "score_day env now key db (day_row key day (bd_days db)) has_raw day =
    (if \<not> day_known (be_zone env) key day db then None
     else if day = local_day (be_zone env) now then today_score (day_tally (be_zone env) key day db)
     else past_score (day_tally (be_zone env) key day db)
            (expected_intervals_for_day env now day key (epoch_start key db) db))"
proof -
  let ?z = "be_zone env"
  have "count_int (counts_on ?z key day db) (bd_beats db) = 0
      \<and> count_int (\<lambda>b. counts_on ?z key day db b \<and> bt_status b = Beat_Ok) (bd_beats db) = 0" if "\<not> has_raw"
    using that assms(3) by (auto simp: count_int_def counts_on_def filter_empty_conv)
  then have raw: "(if has_raw then get_non_maintenance_counts ?z (fst (day_bounds day)) (snd (day_bounds day)) key db else (0, 0))
      = (count_int (\<lambda>b. counts_on ?z key day db b \<and> bt_status b = Beat_Ok) (bd_beats db),
         count_int (counts_on ?z key day db) (bd_beats db))"
    by (simp add: raw_counts [OF assms(1,2)] del: day_bounds_simps)
  have known: "day_known ?z key day db \<longleftrightarrow> day_row key day (bd_days db) \<noteq> None \<or> has_raw"
    by (simp add: day_known_def assms(3))
  show ?thesis
    unfolding score_day_def Let_def raw known
    by (cases "day_row key day (bd_days db)") (auto simp: day_tally_def today_score_def past_score_def Let_def)
qed

lemma excluded_span_cong:
  "bd_windows db' = bd_windows db \<Longrightarrow> get_excluded_span z a b key db' = get_excluded_span z a b key db"
  by (simp add: get_excluded_span_def get_excluded_ranges_def)

lemma expected_cong:
  assumes "bd_epochs db' = bd_epochs db" "bd_windows db' = bd_windows db"
  shows "expected_intervals_for_day env now day key (epoch_start key db') db' =
    expected_intervals_for_day env now day key (epoch_start key db) db"
  unfolding expected_intervals_for_day_def excluded_span_cong [OF assms(2)] epoch_start_def get_config_def assms(1) ..

text \<open>The map in terms of the tallies.\<close>

lemma daily_map_scores:
  assumes "zone_ok (be_zone env)" "windows_ok db"
  shows "daily_uptime_map env now key start stop db = map (\<lambda>day. (day,
    if \<not> day_known (be_zone env) key day db then None
    else if day = local_day (be_zone env) now then today_score (day_tally (be_zone env) key day db)
    else past_score (day_tally (be_zone env) key day db)
           (expected_intervals_for_day env now day key (epoch_start key db) db))) [start..stop]"
proof -
  let ?z = "be_zone env"
  have raw: "day \<in> set (map (\<lambda>b. local_day ?z (bt_time b)) (filter (\<lambda>b. bt_monitor b = key
        \<and> in_span ?z (bt_time b) (fst (day_bounds start), fst (day_bounds (stop + 1)))) (bd_beats db))) \<longleftrightarrow>
      (\<exists>b \<in> set (bd_beats db). bt_monitor b = key \<and> local_day ?z (bt_time b) = day)"
    if "start \<le> day" "day \<le> stop" for day
  proof -
    have "in_span ?z t (fst (day_bounds start), fst (day_bounds (stop + 1)))" if "local_day ?z t = day" for t
      using in_day [OF assms(1), of t day] that midnight_mono [OF assms(1) \<open>start \<le> day\<close>]
        midnight_mono [OF assms(1), of "day + 1" "stop + 1"] \<open>day \<le> stop\<close>
      by (auto simp: in_span_def)
    then show ?thesis by auto
  qed
  have row: "find (\<lambda>r. dy_monitor r = key \<and> start \<le> dy_day r \<and> dy_day r \<le> stop \<and> dy_day r = day) (bd_days db) =
      day_row key day (bd_days db)" if "start \<le> day" "day \<le> stop" for day
    unfolding day_row_def by (rule arg_cong [of _ _ "\<lambda>P. find P (bd_days db)"]) (use that in auto)
  show ?thesis
    unfolding daily_uptime_map_def Let_def
  proof (rule map_cong [OF refl])
    fix day assume "day \<in> set [start..stop]"
    then have le: "start \<le> day" "day \<le> stop" by simp_all
    show "(day, score_day env now key db (find (\<lambda>r. dy_monitor r = key \<and> start \<le> dy_day r \<and> dy_day r \<le> stop \<and> dy_day r = day)
          (bd_days db)) (day \<in> set (map (\<lambda>b. local_day ?z (bt_time b)) (filter (\<lambda>b. bt_monitor b = key
            \<and> in_span ?z (bt_time b) (fst (day_bounds start), fst (day_bounds (stop + 1)))) (bd_beats db)))) day) =
      (day, if \<not> day_known ?z key day db then None
        else if day = local_day ?z now then today_score (day_tally ?z key day db)
        else past_score (day_tally ?z key day db) (expected_intervals_for_day env now day key (epoch_start key db) db))"
      by (simp only: row [OF le] score_day_tally [OF assms raw [OF le]])
  qed
qed

text \<open>C19: Pruning leaves every day's uptime as it was: whatever beats a prune moves into the summaries, of
  whichever monitors and days, the ok and observed counts of each monitor and day are the same
  before and after, and so is the daily uptime map the timelines and calendars read, for any
  monitor, range of dates and later instant.\<close>

theorem prune_keeps_uptimes:
  assumes "zone_ok (be_zone env)" "windows_ok db"
  shows "day_tally (be_zone env) key day (snd (prune_old_heartbeats env now db)) = day_tally (be_zone env) key day db
    \<and> daily_uptime_map env later key start stop (snd (prune_old_heartbeats env now db)) =
      daily_uptime_map env later key start stop db"
proof -
  let ?db = "snd (prune_old_heartbeats env now db)"
  note effect = prune_effect [OF assms, where now = now]
  have "windows_ok ?db" using assms(2) by (simp add: windows_ok_def effect(4))
  note after = daily_map_scores [OF assms(1) this]
  have "daily_uptime_map env later key start stop ?db = daily_uptime_map env later key start stop db"
    unfolding after daily_map_scores [OF assms] effect(1,2) expected_cong [OF effect(3,4)] ..
  with effect(1) show ?thesis by blast
qed

end
