(* ===== verification/Heartbeat_States.thy ===== *)
theory Heartbeat_States
  imports Heartbeat_Props
begin

text \<open>
  The state machine of the heartbeat tables: every operation of the app that writes is a step,
  and every reachable state keeps the constraints of the tables. A window opened with naive
  bounds is a step only where the wall clock orders them as their instants are: between two
  times of the hour a zone skips, \<open>open_window\<close> compares the wall clocks and may store a window
  that ends before it starts.
\<close>

section \<open>The constraints\<close>

definition daily_ok :: "daily \<Rightarrow> bool" where
  "daily_ok r \<longleftrightarrow> 0 \<le> dy_ok r \<and> 0 \<le> dy_fail r \<and> 0 \<le> dy_maintenance r \<and> 0 \<le> dy_expected r
     \<and> 0 \<le> dy_uptime r \<and> dy_uptime r \<le> 100"

definition beat_key :: "heartbeat \<Rightarrow> string \<times> instant" where
  "beat_key b = (bt_monitor b, bt_time b)"

definition daily_key :: "daily \<Rightarrow> string \<times> int" where
  "daily_key r = (dy_monitor r, dy_day r)"

definition beats_ok :: "beat_db \<Rightarrow> bool" where
  "beats_ok db \<longleftrightarrow> distinct (map beat_key (bd_beats db))
     \<and> (\<forall>b \<in> set (bd_beats db). bt_time b mod minutes_span 1 = 0)
     \<and> distinct (map ep_monitor (bd_epochs db))
     \<and> distinct (map daily_key (bd_days db)) \<and> (\<forall>r \<in> set (bd_days db). daily_ok r)
     \<and> windows_ok db \<and> distinct (map mw_id (bd_windows db))"

inductive beat_step :: "beat_env \<Rightarrow> beat_db \<Rightarrow> beat_db \<Rightarrow> bool" for env where
  run_all: "beat_step env db (snd (run_all_monitors env now reg db))"
| run_one: "beat_step env db (snd (run_monitor_check env now m db))"
| prune: "beat_step env db (snd (prune_old_heartbeats env now db))"
| reset: "beat_step env db (epoch_reset now note started target minimum key db)"
| opened: "open_window (be_zone env) title start stop key note exclude db = Inr db' \<Longrightarrow>
    coherent (be_zone env) start stop \<Longrightarrow> beat_step env db db'"
| closed: "beat_step env db (snd (close_windows now key delete_future db))"
| repaired: "beat_step env db (snd (repair_summaries db))"
| reprorated: "beat_step env db (reprorate env now db)"

definition empty_beats :: beat_db where
  "empty_beats = \<lparr>bd_beats = [], bd_days = [], bd_epochs = [], bd_windows = []\<rparr>"

inductive beat_reachable :: "beat_env \<Rightarrow> beat_db \<Rightarrow> bool" for env where
  start: "beat_reachable env empty_beats"
| step: "beat_reachable env db \<Longrightarrow> beat_step env db db' \<Longrightarrow> beat_reachable env db'"

inductive_cases beat_stepE: "beat_step env db db'"

section \<open>Each operation keeps them\<close>

lemma beats_okI:
  assumes "beats_ok db" "bd_beats db' = bd_beats db" "bd_epochs db' = bd_epochs db" "bd_days db' = bd_days db"
    "bd_windows db' = bd_windows db"
  shows "beats_ok db'"
  using assms by (simp add: beats_ok_def windows_ok_def)

lemma to_minute_aligned [simp]: "to_minute t mod minutes_span 1 = 0"
  by (simp add: to_minute_def)

lemma beats_ok_ensure: "beats_ok db \<Longrightarrow> beats_ok (ensure_epoch key db)"
  by (auto simp: beats_ok_def ensure_epoch_def get_config_def windows_ok_def tbl_find_None split: option.splits)

lemma beats_ok_store:
  assumes "beats_ok db" "bt_time b mod minutes_span 1 = 0"
  shows "beats_ok (snd (store_beat b db))"
proof (cases "tbl_count (\<lambda>x. bt_monitor x = bt_monitor b \<and> bt_time x = bt_time b) (bd_beats db) = 0")
  case True
  then have "beat_key b \<notin> beat_key ` set (bd_beats db)" by (auto simp: tbl_count_0 beat_key_def)
  with True assms show ?thesis by (simp add: store_beat_def beats_ok_def windows_ok_def)
next
  case False
  have "map beat_key (tbl_update (\<lambda>x. bt_monitor x = bt_monitor b \<and> bt_time x = bt_time b) (\<lambda>_. b) rows) = map beat_key rows" for rows
    by (induction rows) (auto simp: beat_key_def)
  with False assms show ?thesis
    by (auto simp: store_beat_def beats_ok_def windows_ok_def Let_def tbl_simps)
qed

lemma beat_of_check_time [simp]: "bt_time (fst (beat_of_check t i m)) = t" "bt_monitor (fst (beat_of_check t i m)) = mo_key m"
  by (simp_all add: beat_of_check_def Let_def split: sum.splits prod.splits)

lemma beats_ok_check: "beats_ok db \<Longrightarrow> beats_ok (snd (run_monitor_check env now m db))"
proof -
  assume ok: "beats_ok db"
  obtain b msg where b: "beat_of_check (to_minute now) (is_in_maintenance (to_minute now) (mo_key m) db) m = (b, msg)"
    by fastforce
  then have "bt_time b mod minutes_span 1 = 0" using beat_of_check_time(1) [of "to_minute now" _ m] by (metis fst_conv to_minute_aligned)
  from beats_ok_store [OF ok this] show ?thesis
    by (auto simp: run_monitor_check_def Let_def b ok split: option.splits prod.splits intro!: beats_ok_ensure)
qed

lemma beats_ok_run_all: "beats_ok db \<Longrightarrow> beats_ok (snd (run_all_monitors env now reg db))"
proof -
  have "beats_ok (snd st) \<Longrightarrow> beats_ok (snd (fold (run_one env now) ms st))" for ms and st :: "(string \<times> beat_report) list \<times> beat_db"
  proof (induction ms arbitrary: st)
    case (Cons m ms)
    have "beats_ok (snd (run_one env now m st))"
      using Cons.prems beats_ok_check [of "snd st" env now m]
      by (auto simp: run_one_def split: prod.splits sum.splits)
    then show ?case by (simp add: Cons.IH)
  qed simp
  then show "beats_ok db \<Longrightarrow> beats_ok (snd (run_all_monitors env now reg db))"
    by (simp add: run_all_monitors_def)
qed

lemma row_uptime_bounds: "0 \<le> ok \<Longrightarrow> 0 \<le> failed \<Longrightarrow> 0 \<le> row_uptime ok failed expected \<and> row_uptime ok failed expected \<le> 100"
proof -
  have r3: "0 \<le> round3 x" if "0 \<le> x" for x
    using round_half_even_mono [of 0 "x * 1000"] round_half_even_of_int [of 0] that by (simp add: round3_def)
  assume "0 \<le> ok" "0 \<le> failed"
  then show ?thesis by (auto simp: row_uptime_def Let_def r3)
qed

lemma expected_nonneg: "0 \<le> expected_intervals_for_day env now day key e db"
  by (simp add: expected_intervals_for_day_def Let_def)

lemma daily_ok_merge:
  assumes "daily_ok r" "0 \<le> a" "0 \<le> b" "0 \<le> c" "0 \<le> e"
  shows "daily_ok (merge_batch a b c d e r)"
proof -
  have "0 \<le> row_uptime (dy_ok r + a) (dy_fail r + b) e \<and> row_uptime (dy_ok r + a) (dy_fail r + b) e \<le> 100"
    using assms by (intro row_uptime_bounds) (auto simp: daily_ok_def)
  with assms show ?thesis by (auto simp: daily_ok_def merge_batch_def Let_def)
qed

lemma beats_ok_summary:
  assumes "zone_ok (be_zone env)" "beats_ok db"
  shows "beats_ok (write_summary env now old (key, day) db)"
proof -
  let ?match = "\<lambda>r. dy_monitor r = key \<and> dy_day r = day"
  let ?exp = "expected_intervals_for_day env now day key (epoch_start key db) db"
  have windows: "windows_ok db" using assms(2) by (simp add: beats_ok_def)
  obtain row rows where row: "get_or_create_daily key day ?exp (bd_days db) = (row, rows)" by fastforce
  obtain a b tot avg where eq: "write_summary env now old (key, day) db =
      db\<lparr>bd_days := tbl_update ?match (\<lambda>_. merge_batch a b tot avg ?exp row) rows\<rparr>" "0 \<le> a" "0 \<le> b" "0 \<le> tot"
    using write_summary_eq [OF assms(1) windows, of now old key day] by (auto simp: row)
  have rows: "?match row" "row \<in> set rows" "distinct (map daily_key rows)" "\<forall>r \<in> set rows. daily_ok r"
    using row assms(2) expected_nonneg [of env now day key "epoch_start key db" db]
    by (auto simp: get_or_create_daily_def Let_def beats_ok_def daily_key_def daily_ok_def find_NoneD split: option.splits
        dest: find_SomeD)
  have "daily_ok (merge_batch a b tot avg ?exp row)"
    using rows(2,4) eq(2-4) expected_nonneg by (blast intro: daily_ok_merge)
  moreover have "map daily_key (tbl_update ?match (\<lambda>_. merge_batch a b tot avg ?exp row) rows) = map daily_key rows"
    using rows(1) by (auto simp: tbl_update_def daily_key_def)
  ultimately show ?thesis
    using assms(2) rows(3,4) by (auto simp: eq(1) beats_ok_def windows_ok_def tbl_simps)
qed

lemma beats_ok_prune:
  assumes "zone_ok (be_zone env)" "beats_ok db"
  shows "beats_ok (snd (prune_old_heartbeats env now db))"
proof -
  have "beats_ok (fold (write_summary env now old) ks d)" if "beats_ok d" for ks old d
    using that
  proof (induction ks arbitrary: d)
    case (Cons k ks)
    then show ?case using beats_ok_summary [OF assms(1)] by (cases k) simp
  qed simp
  from this [OF assms(2)] show ?thesis
    using assms(2) by (auto simp: prune_old_heartbeats_def write_daily_summaries_def Let_def beats_ok_def windows_ok_def
        intro: distinct_map_filter)
qed

lemma beats_ok_reprorate: "beats_ok db \<Longrightarrow> beats_ok (reprorate env now db)"
proof -
  assume ok: "beats_ok db"
  have "daily_ok (reprorate_row env now db r)" if "daily_ok r" for r
    using that row_uptime_bounds [of "dy_ok r" "dy_fail r"] expected_nonneg
    by (auto simp: reprorate_row_def Let_def daily_ok_def)
  moreover have "map daily_key (map (reprorate_row env now db) rows) = map daily_key rows" for rows
    by (auto simp: reprorate_row_def Let_def daily_key_def)
  ultimately show ?thesis using ok by (auto simp: reprorate_def beats_ok_def windows_ok_def simp del: map_map)
qed

lemma beats_ok_close: "beats_ok db \<Longrightarrow> beats_ok (snd (close_windows now key f db))"
proof -
  assume ok: "beats_ok db"
  have ids: "map mw_id (tbl_update P (\<lambda>w. w\<lparr>mw_end := now\<rparr>) ws) = map mw_id ws" for P ws
    by (rule map_tbl_update) simp
  have "distinct (map mw_id (filter Q (tbl_update P (\<lambda>w. w\<lparr>mw_end := now\<rparr>) (bd_windows db))))" for P Q
    by (rule distinct_map_filter) (use ok in \<open>simp add: ids beats_ok_def\<close>)
  then show ?thesis using ok by (auto simp: close_windows_def Let_def beats_ok_def windows_ok_def tbl_simps ids)
qed

lemma beats_ok_open: "open_window z title s e key note x db = Inr db' \<Longrightarrow> beats_ok db \<Longrightarrow> coherent z s e \<Longrightarrow> beats_ok db'"
proof -
  assume opened: "open_window z title s e key note x db = Inr db'" and ok: "beats_ok db" and c: "coherent z s e"
  have "Suc (fold max (map mw_id (bd_windows db)) 0) \<notin> set (map mw_id (bd_windows db))"
    using Suc_fold_max_fresh [where key = mw_id and rows = "bd_windows db"] by (auto simp: image_iff) metis
  with opened ok c show ?thesis
    by (auto simp: open_window_def beats_ok_def windows_ok_def coherent_def split: if_splits)
qed

lemma beats_ok_reset: "beats_ok db \<Longrightarrow> beats_ok (epoch_reset now msg started target minimum key db)"
proof -
  assume ok: "beats_ok db"
  have "distinct (map ep_monitor (filter (\<lambda>x. ep_monitor x \<noteq> key) (bd_epochs db)))"
    by (rule distinct_map_filter) (use ok in \<open>simp add: beats_ok_def\<close>)
  then show ?thesis using ok by (auto simp: epoch_reset_def Let_def beats_ok_def windows_ok_def)
qed

lemma beats_ok_repair: "beats_ok db \<Longrightarrow> beats_ok (snd (repair_summaries db))"
proof -
  assume ok: "beats_ok db"
  have "distinct (map daily_key (filter P (bd_days db)))" for P
    by (rule distinct_map_filter) (use ok in \<open>simp add: beats_ok_def\<close>)
  then show ?thesis using ok by (auto simp: repair_summaries_def Let_def beats_ok_def windows_ok_def)
qed

lemmas beats_ok_intros = beats_ok_run_all beats_ok_check beats_ok_prune beats_ok_reset beats_ok_open beats_ok_close
  beats_ok_repair beats_ok_reprorate

lemma beat_step_ok:
  "zone_ok (be_zone env) \<Longrightarrow> beat_step env db db' \<Longrightarrow> beats_ok db \<Longrightarrow> beats_ok db'"
  by (erule beat_stepE) (auto intro: beats_ok_intros)

lemma beats_reachable_ok:
  assumes "zone_ok (be_zone env)" "beat_reachable env db"
  shows "beats_ok db"
  using assms(2)
proof (induction rule: beat_reachable.induct)
  case start
  show ?case by (simp add: beats_ok_def empty_beats_def windows_ok_def)
next
  case (step db db')
  then show ?case using beat_step_ok [OF assms(1)] by blast
qed


end
