(* ===== verification/Heartbeat_Uptime.thy ===== *)
theory Heartbeat_Uptime
  imports Heartbeat_States
begin

text \<open>
  What the status pages show: excluded time is counted once, percentages and coverages stay
  within bounds, timelines show every beat once, a run records every monitor, and what a day
  of 23 hours costs.
\<close>

section \<open>Excluded time\<close>

text \<open>C22: The merging of maintenance windows is exact: between two bounds that the zone orders as their
  instants, an instant is in one of the merged ranges just when it is within the bounds and in a
  window of the monitor that is excluded from the SLA; the ranges are in order and do not touch;
  and between two UTC instants the excluded time is the number of excluded microseconds, so
  overlapping windows are never counted twice.\<close>

theorem excluded_time_exact:
  assumes "windows_ok db" "coherent z a b" "moment_utc z a \<le> moment_utc z b"
  shows "(\<forall>t. list_ex (in_span z t) (get_excluded_ranges z a b key db) \<longleftrightarrow>
        moment_utc z a \<le> t \<and> t < moment_utc z b \<and> sla_excluded key db t)
    \<and> apart (map (utc_range z) (get_excluded_ranges z a b key db))
    \<and> (\<forall>s e. s \<le> e \<longrightarrow> get_excluded_span z (Utc s) (Utc e) key db =
          int (card {t. s \<le> t \<and> t < e \<and> sla_excluded key db t}))"
  using excluded_ranges_covered [OF assms(2,3,1), of key] excluded_span_card [OF _ assms(1)]
  by (simp add: in_ranges_covered)

definition utc_zone :: zone where
  "utc_zone = \<lparr>zn_utc = id, zn_wall = id\<rparr>"

lemma utc_zone_ok: "zone_ok utc_zone"
proof -
  have "t div 86400000000 = d \<longleftrightarrow> 86400000000 * d \<le> t \<and> t < 86400000000 * d + 86400000000" for t d :: int
    by auto
  then show ?thesis by (simp add: zone_ok_def utc_zone_def local_day_def days_span_def secs_def)
qed

definition demo_window :: "nat \<Rightarrow> int \<Rightarrow> int \<Rightarrow> maintenance_window" where
  "demo_window i s e = \<lparr>mw_id = i, mw_monitor = ''site'', mw_title = ''t'', mw_start = secs s, mw_end = secs e,
     mw_note = '''', mw_exclude = True\<rparr>"

text \<open>Two overlapping windows of 20 seconds in a range of 100: 30 seconds.\<close>

lemma excluded_time_exact_witness:
  "int (card {t. secs 0 \<le> t \<and> t < secs 100
      \<and> sla_excluded ''site'' (empty_beats\<lparr>bd_windows := [demo_window 1 10 30, demo_window 2 20 40]\<rparr>) t}) = secs 30"
proof -
  let ?db = "empty_beats\<lparr>bd_windows := [demo_window 1 10 30, demo_window 2 20 40]\<rparr>"
  have "windows_ok ?db" by (simp add: windows_ok_def demo_window_def secs_def)
  moreover have "coherent utc_zone (Utc 0) (Utc (secs 100))" by simp
  moreover have "moment_utc utc_zone (Utc 0) \<le> moment_utc utc_zone (Utc (secs 100))" by (simp add: secs_def)
  ultimately have "\<forall>s e. s \<le> e \<longrightarrow> get_excluded_span utc_zone (Utc s) (Utc e) ''site'' ?db =
      int (card {t. s \<le> t \<and> t < e \<and> sla_excluded ''site'' ?db t})"
    using excluded_time_exact by blast
  moreover have "secs 0 \<le> secs 100" by (simp add: secs_def)
  ultimately have "get_excluded_span utc_zone (Utc (secs 0)) (Utc (secs 100)) ''site'' ?db =
      int (card {t. secs 0 \<le> t \<and> t < secs 100 \<and> sla_excluded ''site'' ?db t})" by blast
  moreover have "get_excluded_span utc_zone (Utc (secs 0)) (Utc (secs 100)) ''site'' ?db = secs 30" by code_simp
  ultimately show ?thesis by simp
qed

section \<open>Bounds\<close>

lemma percent2_bounds: "0 \<le> ok \<Longrightarrow> 0 < n \<Longrightarrow> 0 \<le> percent2 ok n \<and> percent2 ok n \<le> 100"
  using round2_nonneg [of "of_int ok / of_int n * 100"] by (simp add: percent2_def)

lemma sum_over_nonneg: "(\<And>x. x \<in> set xs \<Longrightarrow> 0 \<le> f x) \<Longrightarrow> 0 \<le> sum_over f xs"
  by (induction xs) auto

lemma summary_rows_ok: "beats_ok db \<Longrightarrow> r \<in> set (summary_rows s e key db) \<Longrightarrow> daily_ok r"
  by (auto simp: summary_rows_def beats_ok_def split: option.splits)

lemma raw_split_bounds:
  "raw_split now s oldest = (r, e) \<Longrightarrow> s < now \<Longrightarrow> s \<le> r"
  by (auto simp: raw_split_def split: option.splits if_splits)

text \<open>Whatever window is asked for, an uptime that is shown is a percentage between 0 and 100 and a
  coverage is a fraction between 0 and 1; the covered time is never negative and never more than
  the window, and a window that is empty or in the future shows neither.\<close>

theorem uptime_within_bounds:
  assumes "beats_ok db" "0 < be_interval env"
  defines "r \<equiv> \<lambda>now s key. uptime_over_window env now s key db"
  shows "(case ur_uptime (r now s key) of Some u \<Rightarrow> 0 \<le> u \<and> u \<le> 100 | None \<Rightarrow> True)
    \<and> (case coverage (r now s key) of Some c \<Rightarrow> 0 \<le> c \<and> c \<le> 1 | None \<Rightarrow> True)
    \<and> 0 \<le> ur_covered (r now s key) \<and> ur_covered (r now s key) \<le> ur_window (r now s key)
    \<and> (now \<le> s \<longrightarrow> ur_uptime (r now s key) = None \<and> coverage (r now s key) = None)"
proof (cases "now \<le> s")
  case True
  then show ?thesis by (simp add: r_def uptime_over_window_def coverage_def Let_def)
next
  case False
  obtain raw e where raw: "raw_split now s (oldest_beat key db) = (raw, e)" by fastforce
  let ?rows = "summary_rows s e key db"
  let ?eff = "(if raw < now then now - raw else 0) - get_excluded_span (be_zone env) (Utc raw) (Utc now) key db"
  let ?exp = "if raw < now \<and> 0 < ?eff then ?eff div secs (be_interval env) else 0"
  let ?ok = "if raw < now \<and> 0 < ?eff then fst (get_non_maintenance_counts (be_zone env) (Utc raw) (Utc now) key db) else 0"
  have r: "r now s key = \<lparr>ur_uptime = (if 1 \<le> ?exp + sum_over dy_expected ?rows
        then Some (percent2 (?ok + sum_over dy_ok ?rows) (?exp + sum_over dy_expected ?rows)) else None),
      ur_covered = min ((if raw < now then now - raw else 0) + int (length ?rows) * days_span 1) (now - s),
      ur_window = now - s\<rparr>"
    using False by (simp add: r_def uptime_over_window_def raw Let_def)
  have "0 \<le> sum_over dy_ok ?rows"
    using summary_rows_ok [OF assms(1)] by (intro sum_over_nonneg) (simp add: daily_ok_def)
  moreover have "0 \<le> ?ok" by (simp add: get_non_maintenance_counts_def Let_def)
  ultimately have "1 \<le> ?exp + sum_over dy_expected ?rows \<Longrightarrow>
      0 \<le> percent2 (?ok + sum_over dy_ok ?rows) (?exp + sum_over dy_expected ?rows)
      \<and> percent2 (?ok + sum_over dy_ok ?rows) (?exp + sum_over dy_expected ?rows) \<le> 100"
    by (intro percent2_bounds) simp_all
  moreover have "0 \<le> ur_covered (r now s key)" using False by (simp add: r days_span_def secs_def)
  moreover have "ur_covered (r now s key) \<le> ur_window (r now s key)" by (simp add: r)
  ultimately show ?thesis using False by (auto simp: r coverage_def min_def)
qed

definition demo_beat_env :: beat_env where
  "demo_beat_env = \<lparr>be_zone = utc_zone, be_interval = 60, be_retention_days = 7, be_write_error = (\<lambda>_. None)\<rparr>"

definition demo_monitor :: "string \<Rightarrow> string + check_result \<Rightarrow> monitor" where
  "demo_monitor key outcome = \<lparr>mo_key = key, mo_service = ''site'', mo_order = 10, mo_orphaned = False, mo_check = outcome\<rparr>"

definition demo_beats :: beat_db where
  "demo_beats = snd (run_monitor_check demo_beat_env (secs 65) (demo_monitor ''site'' (Inr (check_up 3 ''''))) empty_beats)"

lemma demo_beats_reachable: "beat_reachable demo_beat_env demo_beats"
  unfolding demo_beats_def by (intro beat_reachable.step [OF beat_reachable.start] beat_step.run_one)

lemma demo_beats_ok: "beats_ok demo_beats"
  by (rule beats_reachable_ok [OF _ demo_beats_reachable]) (simp add: demo_beat_env_def utc_zone_ok)

text \<open>One ok beat at minute 1, looked at two minutes later: two expected, 50 percent.\<close>

lemma uptime_within_bounds_witness:
  "ur_uptime (uptime_over_window demo_beat_env (secs 180) (secs 60) ''site'' demo_beats) = Some 50
    \<and> 0 \<le> ur_covered (uptime_over_window demo_beat_env (secs 180) (secs 60) ''site'' demo_beats)"
proof -
  have "0 < be_interval demo_beat_env" by (simp add: demo_beat_env_def)
  from uptime_within_bounds [OF demo_beats_ok this, of "secs 180" "secs 60" "''site''"]
  have "0 \<le> ur_covered (uptime_over_window demo_beat_env (secs 180) (secs 60) ''site'' demo_beats)" by blast
  moreover have "ur_uptime (uptime_over_window demo_beat_env (secs 180) (secs 60) ''site'' demo_beats) = Some 50"
    by code_simp
  ultimately show ?thesis by blast
qed

section \<open>Timelines\<close>

text \<open>The end of the slot an instant falls in.\<close>

definition slot_end_of :: "instant \<Rightarrow> span \<Rightarrow> instant \<Rightarrow> instant" where
  "slot_end_of cutoff width t = cutoff + ((t - cutoff) div width + 1) * width"

lemma slot_end_in:
  assumes "cutoff + int i * width \<le> t" "t < cutoff + int i * width + width"
  shows "slot_end_of cutoff width t = cutoff + int i * width + width"
proof -
  have "(t - cutoff) div width = int i"
    using assms by (intro int_div_pos_eq [where r = "t - cutoff - int i * width"]) (auto simp: algebra_simps)
  then show ?thesis by (simp add: slot_end_of_def algebra_simps)
qed

text \<open>A count over the slots of a timeline is the count over its window.\<close>

lemma slot_count:
  "(if before_epoch e (cutoff + int i * width + width) then 0
    else count_int P (slot_beats (cutoff + int i * width) (cutoff + int i * width + width) bs)) =
   count_int (\<lambda>b. (cutoff + int i * width \<le> bt_time b \<and> bt_time b < cutoff + int i * width + width)
        \<and> \<not> before_epoch e (slot_end_of cutoff width (bt_time b)) \<and> P b) bs"
  unfolding slot_beats_def count_int_filter
  by (induction bs) (auto simp: slot_end_in)

lemma slots_partition:
  assumes "0 < width"
  shows "sum_over (\<lambda>s. if before_epoch e (s + width) then 0 else count_int P (slot_beats s (s + width) bs)) (slot_starts cutoff width n) =
    count_int (\<lambda>b. (cutoff \<le> bt_time b \<and> bt_time b < cutoff + int n * width)
      \<and> \<not> before_epoch e (slot_end_of cutoff width (bt_time b)) \<and> P b) bs"
proof (induction n)
  case 0
  then show ?case by (simp add: slot_starts_def count_int_def filter_empty_conv)
next
  case (Suc n)
  let ?s = "cutoff + int n * width"
  let ?Q = "\<lambda>b. \<not> before_epoch e (slot_end_of cutoff width (bt_time b)) \<and> P b"
  define k where "k = int n * width"
  have k: "0 \<le> k" "int (Suc n) * width = k + width" using assms by (simp_all add: k_def algebra_simps)
  have "count_int (\<lambda>b. (cutoff \<le> bt_time b \<and> bt_time b < ?s) \<and> ?Q b) bs
      + count_int (\<lambda>b. (?s \<le> bt_time b \<and> bt_time b < ?s + width) \<and> ?Q b) bs =
      count_int (\<lambda>b. ((cutoff \<le> bt_time b \<and> bt_time b < ?s) \<and> ?Q b) \<or> ((?s \<le> bt_time b \<and> bt_time b < ?s + width) \<and> ?Q b)) bs"
    by (rule count_int_disjoint) auto
  also have "\<dots> = count_int (\<lambda>b. (cutoff \<le> bt_time b \<and> bt_time b < cutoff + int (Suc n) * width) \<and> ?Q b) bs"
    unfolding k(2) k_def [symmetric] using assms k(1) by (intro count_int_cong) auto
  finally show ?case using Suc slot_count [of e cutoff n width P bs] by (simp add: slot_starts_def)
qed

lemma count_slot_fields:
  "cs_time (count_slot_of e bs ws s) = s"
  "cs_total (count_slot_of e bs ws s) = (if before_epoch e (s + minutes_span 15) then 0
     else count_int (\<lambda>_. True) (slot_beats s (s + minutes_span 15) bs))"
  "cs_ok (count_slot_of e bs ws s) = (if before_epoch e (s + minutes_span 15) then 0
     else count_int (\<lambda>b. bt_status b = Beat_Ok) (slot_beats s (s + minutes_span 15) bs))"
  "cs_fail (count_slot_of e bs ws s) = (if before_epoch e (s + minutes_span 15) then 0
     else count_int (\<lambda>b. bt_status b = Beat_Fail) (slot_beats s (s + minutes_span 15) bs))"
  by (simp_all add: count_slot_of_def Let_def count_int_def)

lemma count_ok_fail:
  "count_int (\<lambda>b. bt_status b = Beat_Ok) bs + count_int (\<lambda>b. bt_status b = Beat_Fail) bs = count_int (\<lambda>_. True) bs"
proof (induction bs)
  case (Cons b bs)
  then show ?case by (cases "bt_status b") auto
qed simp

lemma count_int_sort: "count_int P (sort_key f xs) = count_int P xs"
  by (simp add: count_int_def filter_sort)

text \<open>The 24-hour timeline has 96 slots of a quarter of an hour that follow each other up to now, and
  shows every beat of the window in exactly one of them: the totals and the ok counts add up to
  the beats of the monitor in the last day, those of slots before the epoch left out; in each
  slot ok and failed beats make up the total.\<close>

theorem timeline_counts_every_beat:
  fixes now :: instant and key :: string and db :: beat_db
  defines "slots \<equiv> build_24h_timeline now key db"
  defines "shown \<equiv> \<lambda>b. (now - hours_span 24 \<le> bt_time b \<and> bt_time b < now)
      \<and> \<not> before_epoch (get_epoch key db) (slot_end_of (now - hours_span 24) (minutes_span 15) (bt_time b))"
  shows "map cs_time slots = map (\<lambda>i. now - hours_span 24 + int i * minutes_span 15) [0..<96]
    \<and> sum_over cs_total slots = count_int (\<lambda>b. bt_monitor b = key \<and> shown b) (bd_beats db)
    \<and> sum_over cs_ok slots = count_int (\<lambda>b. bt_monitor b = key \<and> shown b \<and> bt_status b = Beat_Ok) (bd_beats db)
    \<and> (\<forall>s \<in> set slots. cs_ok s + cs_fail s = cs_total s)"
proof -
  let ?e = "get_epoch key db"
  let ?c = "now - hours_span 24"
  let ?bs = "timeline_beats key ?c db"
  have slots: "slots = map (count_slot_of ?e ?bs (timeline_windows key ?c now db)) (slot_starts ?c (minutes_span 15) 96)"
    by (simp add: slots_def build_24h_timeline_def Let_def)
  have now: "?c + int 96 * minutes_span 15 = now" by (simp add: hours_span_def minutes_span_def secs_def)
  have part: "sum_over (\<lambda>s. if before_epoch ?e (s + minutes_span 15) then 0
        else count_int P (slot_beats s (s + minutes_span 15) ?bs)) (slot_starts ?c (minutes_span 15) 96) =
      count_int (\<lambda>b. bt_monitor b = key \<and> shown b \<and> P b) (bd_beats db)" for P
  proof -
    have "0 < minutes_span 15" by (simp add: minutes_span_def secs_def)
    note slots_partition [OF this, of ?e P ?bs ?c 96, unfolded now]
    also have "count_int (\<lambda>b. (?c \<le> bt_time b \<and> bt_time b < now)
        \<and> \<not> before_epoch ?e (slot_end_of ?c (minutes_span 15) (bt_time b)) \<and> P b) ?bs =
      count_int (\<lambda>b. bt_monitor b = key \<and> shown b \<and> P b) (bd_beats db)"
      unfolding timeline_beats_def count_int_sort count_int_filter shown_def
      by (rule count_int_cong) auto
    finally show ?thesis .
  qed
  have "sum_over cs_total slots = count_int (\<lambda>b. bt_monitor b = key \<and> shown b) (bd_beats db)"
    using part [of "\<lambda>_. True"] by (simp add: slots sum_over_def count_slot_fields comp_def)
  moreover have "sum_over cs_ok slots = count_int (\<lambda>b. bt_monitor b = key \<and> shown b \<and> bt_status b = Beat_Ok) (bd_beats db)"
    using part [of "\<lambda>b. bt_status b = Beat_Ok"] by (simp add: slots sum_over_def count_slot_fields comp_def)
  moreover have "map cs_time slots = map (\<lambda>i. now - hours_span 24 + int i * minutes_span 15) [0..<96]"
    by (simp add: slots slot_starts_def count_slot_fields comp_def del: upt_Suc)
  ultimately show ?thesis by (simp add: slots count_slot_fields count_ok_fail)
qed

lemma timeline_counts_every_beat_witness:
  "sum_over cs_total (build_24h_timeline (secs 120) ''site'' demo_beats) = 1
    \<and> list_all (\<lambda>s. cs_ok s + cs_fail s = cs_total s) (build_24h_timeline (secs 120) ''site'' demo_beats)"
proof -
  have "sum_over cs_total (build_24h_timeline (secs 120) ''site'' demo_beats) = 1" by code_simp
  with timeline_counts_every_beat [of "secs 120" "''site''" demo_beats] show ?thesis by (simp add: list_all_iff)
qed

section \<open>A day with a clock change\<close>

text \<open>Full minutes in an interval of \<open>n\<close> minutes.\<close>

lemma minutes_in_interval:
  fixes a :: int
  assumes "distinct ts" "\<forall>t \<in> set ts. a \<le> t \<and> t < a + int n * minutes_span 1 \<and> t mod minutes_span 1 = 0"
  shows "length ts \<le> n"
proof -
  let ?M = "minutes_span 1"
  define c where "c = - ((- a) div ?M)"
  have M: "0 < ?M" by (simp add: minutes_span_def secs_def)
  have "(\<lambda>t. t div ?M) ` set ts \<subseteq> {c..<c + int n}"
  proof (rule image_subsetI)
    fix t assume "t \<in> set ts"
    with assms(2) have t: "a \<le> t" "t < a + int n * ?M" "t = ?M * (t div ?M)"
      by (auto simp: mult_div_mod_eq [symmetric] dest: bspec)
    define q where "q = t div ?M"
    have "(- t) div ?M \<le> (- a) div ?M" using t(1) M by (intro zdiv_mono1) auto
    moreover have "(- t) div ?M = - q" using t(3) M by (metis q_def nonzero_mult_div_cancel_left less_irrefl mult_minus_right)
    ultimately have "c \<le> q" by (simp add: c_def)
    moreover have "q < c + int n"
    proof (rule ccontr)
      assume "\<not> q < c + int n"
      then have "?M * c \<le> ?M * (q - int n)" using M by simp
      moreover have "a \<le> ?M * c"
      proof -
        have "?M * ((- a) div ?M) \<le> - a" using M by (simp add: minus_mod_eq_mult_div [symmetric])
        then show ?thesis by (simp add: c_def)
      qed
      ultimately show False using t(2,3) by (simp add: q_def algebra_simps)
    qed
    ultimately show "t div ?M \<in> {c..<c + int n}" by (simp add: q_def)
  qed
  moreover have "inj_on (\<lambda>t. t div ?M) (set ts)"
  proof (rule inj_onI)
    fix x y assume "x \<in> set ts" "y \<in> set ts" "x div ?M = y div ?M"
    with assms(2) show "x = y" by (metis mult_div_mod_eq)
  qed
  ultimately have "card (set ts) \<le> n"
    using card_image [of "\<lambda>t. t div ?M" "set ts"] card_mono [of "{c..<c + int n}" "(\<lambda>t. t div ?M) ` set ts"] by simp
  with assms(1) show ?thesis by (simp add: distinct_card)
qed

lemma no_ranges:
  "\<forall>w \<in> set (bd_windows db). mw_monitor w = key \<longrightarrow> \<not> mw_exclude w \<Longrightarrow> get_excluded_span z a b key db = 0"
  by (subgoal_tac "filter (\<lambda>w. mw_monitor w = key \<and> mw_exclude w \<and> mw_start w < moment_utc z b \<and> moment_utc z a < mw_end w)
      (bd_windows db) = []") (auto simp: get_excluded_span_def get_excluded_ranges_def filter_empty_conv)

text \<open>A past day without excluded windows is expected to have a full day of intervals, whatever its length.\<close>

lemma expected_past_day:
  assumes "zn_utc (be_zone env) (days_span (day + 1)) \<le> now" "zn_utc (be_zone env) (days_span day) < zn_utc (be_zone env) (days_span (day + 1))"
    and "case e of Some t \<Rightarrow> t \<le> zn_utc (be_zone env) (days_span day) | None \<Rightarrow> True"
    and "\<forall>w \<in> set (bd_windows db). mw_monitor w = key \<longrightarrow> \<not> mw_exclude w" "0 < be_interval env"
  shows "expected_intervals_for_day env now day key e db = days_span 1 div secs (be_interval env)"
proof -
  have "0 \<le> days_span 1 div secs (be_interval env)"
    using assms(5) by (simp add: pos_imp_zdiv_nonneg_iff days_span_def secs_def)
  moreover have "days_span day < days_span (day + 1)" "days_span (day + 1) - days_span day = days_span 1"
    by (simp_all add: days_span_def secs_def)
  ultimately show ?thesis
    using assms by (auto simp: expected_intervals_for_day_def Let_def moment_max_def moment_min_def no_ranges split: option.splits)
qed

text \<open>A day of 23 hours can never look healthy: \<open>expected_intervals_for_day\<close> subtracts two wall-clock
  times of one zone, so it expects the 1440 minutes of a full day of a day that has 1380. With
  one check a minute and nothing excluded, whatever was recorded, the daily map shows at most
  95.83 percent for such a past day, below the default minimum of 99.5, and the timelines
  classify it as down.\<close>

theorem short_day_looks_down:
  assumes zone: "zone_ok (be_zone env)" and ok: "beats_ok db" and interval: "be_interval env = 60"
    and short: "zn_utc (be_zone env) (days_span (day + 1)) = zn_utc (be_zone env) (days_span day) + hours_span 23"
    and past: "day < local_day (be_zone env) now"
    and epoch: "case epoch_start key db of Some t \<Rightarrow> t \<le> zn_utc (be_zone env) (days_span day) | None \<Rightarrow> True"
    and windows: "\<forall>w \<in> set (bd_windows db). mw_monitor w = key \<longrightarrow> \<not> mw_exclude w"
    and unpruned: "\<forall>r \<in> set (bd_days db). \<not> (dy_monitor r = key \<and> dy_day r = day)"
    and range: "start \<le> day" "day \<le> stop"
    and shown: "lookup_uptime day (daily_uptime_map env now key start stop db) = Some u"
  shows "u \<le> 9583/100 \<and> classify_day (Some u) day (epoch_day env key db) (999/10) (995/10) \<in> {''down'', ''nodata''}"
proof -
  let ?z = "be_zone env"
  let ?ok = "count_int (\<lambda>b. counts_on ?z key day db b \<and> bt_status b = Beat_Ok) (bd_beats db)"
  let ?all = "count_int (counts_on ?z key day db) (bd_beats db)"
  have wok: "windows_ok db" using ok by (simp add: beats_ok_def)
  have now: "zn_utc ?z (days_span (day + 1)) \<le> now"
  proof -
    have "zn_utc ?z (days_span (local_day ?z now)) \<le> now"
      using in_day [OF zone, of now "local_day ?z now"] by (simp add: in_span_def)
    with midnight_mono [OF zone, of "day + 1" "local_day ?z now"] past show ?thesis by linarith
  qed
  have expected: "expected_intervals_for_day env now day key (epoch_start key db) db = 1440"
    using expected_past_day [OF now _ epoch windows] interval short
    by (simp add: hours_span_def days_span_def secs_def)
  have tally: "day_tally ?z key day db = (?ok, ?all)"
    using unpruned by (auto simp: day_tally_def day_row_def row_ok_count_def row_observed_def split: option.splits dest: find_SomeD)
  have le: "?ok \<le> ?all" by (induction "bd_beats db") (auto simp: count_int_def length_filter_conv_card intro!: card_mono)
  have "length (map bt_time (filter (counts_on ?z key day db) (bd_beats db))) \<le> 1380"
  proof (rule minutes_in_interval)
    have "distinct (map beat_key (filter (counts_on ?z key day db) (bd_beats db)))"
      using ok by (auto simp: beats_ok_def intro: distinct_map_filter)
    then show "distinct (map bt_time (filter (counts_on ?z key day db) (bd_beats db)))"
      by (auto simp: distinct_map inj_on_def beat_key_def counts_on_def)
    have "int 1380 * minutes_span 1 = hours_span 23" by (simp add: minutes_span_def hours_span_def secs_def)
    then show "\<forall>t \<in> set (map bt_time (filter (counts_on ?z key day db) (bd_beats db))).
        zn_utc ?z (days_span day) \<le> t \<and> t < zn_utc ?z (days_span day) + int 1380 * minutes_span 1 \<and> t mod minutes_span 1 = 0"
      using ok zone by (auto simp: counts_on_def beats_ok_def zone_ok_def short [symmetric])
  qed
  then have all: "?all \<le> 1380" by (simp add: count_int_def)
  have "past_score (?ok, ?all) 1440 = Some u"
    using shown range past expected unfolding daily_map_scores [OF zone wok] lookup_uptime_def
    by (auto simp: map_of_map_restrict tally map_of_eq_None_iff split: if_splits option.splits dest!: map_of_SomeD)
  then have u: "u = percent2 ?ok 1440" using all by (simp add: past_score_def max_def)
  have "round2 (of_int ?ok / of_int 1440 * 100) \<le> round2 (of_int 1380 / of_int 1440 * 100)"
    using le all by (intro round2_mono) (simp add: divide_right_mono)
  also have "round2 (of_int 1380 / of_int 1440 * 100) = 9583/100" by code_simp
  finally have "u \<le> 9583/100" unfolding u percent2_def by (simp add: min_le_iff_disj)
  then show ?thesis by (auto simp: classify_day_def)
qed

text \<open>A zone whose day 0 skips the hour from two to three, and a monitor that was up in each of its minutes.\<close>

definition demo_short_zone :: zone where
  "demo_short_zone = \<lparr>zn_utc = (\<lambda>w. if w < hours_span 3 then w else w - hours_span 1),
     zn_wall = (\<lambda>t. if t < hours_span 2 then t else t + hours_span 1)\<rparr>"

lemma demo_short_zone_ok: "zone_ok demo_short_zone"
proof -
  have day: "t div 86400000000 = d \<longleftrightarrow> 86400000000 * d \<le> t \<and> t < 86400000000 * d + 86400000000" for t d :: int
    by auto
  have utc: "zn_utc demo_short_zone (days_span d) = (if d < 1 then 86400000000 * d else 86400000000 * d - 3600000000)" for d
    by (simp add: demo_short_zone_def days_span_def hours_span_def secs_def)
  have wall: "local_day demo_short_zone t = (if t < 7200000000 then t else t + 3600000000) div 86400000000" for t
    by (simp add: local_day_def demo_short_zone_def days_span_def hours_span_def secs_def)
  have "local_day demo_short_zone t = d \<longleftrightarrow>
      zn_utc demo_short_zone (days_span d) \<le> t \<and> t < zn_utc demo_short_zone (days_span (d + 1))" for t d
  proof -
    consider "d < 0" | "d = 0" | "1 \<le> d" by linarith
    then show ?thesis unfolding wall day utc by cases auto
  qed
  then show ?thesis by (simp add: zone_ok_def utc)
qed

definition flawless_day :: "nat \<Rightarrow> beat_db" where
  "flawless_day n = empty_beats\<lparr>bd_beats := map (\<lambda>i. \<lparr>bt_monitor = ''site'', bt_time = int i * 60000000,
     bt_status = Beat_Ok, bt_ms = 1, bt_note = '''', bt_maintenance = False\<rparr>) [0..<n]\<rparr>"

lemma flawless_day_ok: "beats_ok (flawless_day n)"
  by (auto simp: beats_ok_def flawless_day_def empty_beats_def windows_ok_def minutes_span_def secs_def distinct_map
      inj_on_def beat_key_def comp_def)

lemma flawless_day_score:
  "lookup_uptime 0 (daily_uptime_map (demo_beat_env\<lparr>be_zone := demo_short_zone\<rparr>) (days_span 2) ''site'' 0 0 (flawless_day 1380))
    = Some (9583/100)"
proof -
  let ?env = "demo_beat_env\<lparr>be_zone := demo_short_zone\<rparr>"
  let ?db = "flawless_day 1380"
  have "bt_monitor b = ''site'' \<and> local_day demo_short_zone (bt_time b) = 0 \<and> bt_status b = Beat_Ok" if "b \<in> set (bd_beats ?db)" for b
    using that by (auto simp: flawless_day_def local_day_def demo_short_zone_def hours_span_def days_span_def secs_def
        intro!: div_pos_pos_trivial)
  moreover have "\<not> sla_excluded key ?db t" for key t by (simp add: sla_excluded_def flawless_day_def empty_beats_def)
  ultimately have all: "\<forall>b \<in> set (bd_beats ?db). counts_on demo_short_zone ''site'' 0 ?db b"
    "\<forall>b \<in> set (bd_beats ?db). counts_on demo_short_zone ''site'' 0 ?db b \<and> bt_status b = Beat_Ok"
    by (simp_all add: counts_on_def)
  have "day_tally demo_short_zone ''site'' 0 ?db = (1380, 1380)"
    using count_int_length [OF all(1)] count_int_length [OF all(2)]
    by (simp add: day_tally_def day_row_def) (simp add: flawless_day_def empty_beats_def)
  moreover have "day_known demo_short_zone ''site'' 0 ?db"
  proof -
    have "hd (bd_beats ?db) \<in> set (bd_beats ?db)" by (rule hd_in_set) (simp add: flawless_day_def)
    with all(1) show ?thesis unfolding day_known_def counts_on_def by blast
  qed
  moreover have "0 \<noteq> local_day demo_short_zone (days_span 2)" by code_simp
  moreover have "expected_intervals_for_day ?env (days_span 2) 0 ''site'' (epoch_start ''site'' ?db) ?db = 1440"
    by (subst expected_past_day) (auto simp: demo_beat_env_def demo_short_zone_def days_span_def hours_span_def secs_def
        epoch_start_def get_config_def flawless_day_def empty_beats_def)
  moreover have "past_score (1380, 1380) 1440 = Some (9583/100)" by code_simp
  moreover have "zone_ok (be_zone ?env)" by (simp add: demo_short_zone_ok)
  moreover have "windows_ok ?db" by (simp add: windows_ok_def flawless_day_def empty_beats_def)
  ultimately show ?thesis by (simp add: daily_map_scores lookup_uptime_def)
qed

lemma short_day_looks_down_witness:
  "lookup_uptime 0 (daily_uptime_map (demo_beat_env\<lparr>be_zone := demo_short_zone\<rparr>) (days_span 2) ''site'' 0 0 (flawless_day 1380))
     = Some (9583/100) \<and> (9583/100 :: rat) \<le> 9583/100"
proof -
  let ?env = "demo_beat_env\<lparr>be_zone := demo_short_zone\<rparr>"
  let ?db = "flawless_day 1380"
  have u: "lookup_uptime 0 (daily_uptime_map ?env (days_span 2) ''site'' 0 0 ?db) = Some (9583/100)"
    by (rule flawless_day_score)
  have "(9583/100 :: rat) \<le> 9583/100
      \<and> classify_day (Some (9583/100)) 0 (epoch_day ?env ''site'' ?db) (999/10) (995/10) \<in> {''down'', ''nodata''}"
  proof (rule short_day_looks_down [OF _ flawless_day_ok [of 1380] _ _ _ _ _ _ _ _ u])
    show "zone_ok (be_zone ?env)" by (simp add: demo_short_zone_ok)
  qed (simp_all add: demo_beat_env_def demo_short_zone_def days_span_def hours_span_def secs_def local_day_def
      flawless_day_def empty_beats_def epoch_start_def get_config_def)
  with u show ?thesis by blast
qed

section \<open>A run records every monitor\<close>

definition keyed :: "(string \<times> monitor) list \<Rightarrow> bool" where
  "keyed d = list_all (\<lambda>(k, m). k = mo_key m) d"

definition registry_ok :: "monitor_registry \<Rightarrow> bool" where
  "registry_ok reg \<longleftrightarrow> distinct (map fst (mg_monitors reg)) \<and> keyed (mg_monitors reg)"

lemma keyed_dict_set: "keyed d \<Longrightarrow> keyed (dict_set (mo_key m) m d)"
  by (induction d) (auto simp: keyed_def)

lemma keyed_keys: "keyed d \<Longrightarrow> map (mo_key \<circ> snd) d = map fst d"
  by (induction d) (auto simp: keyed_def)

lemma register_monitor_ok: "registry_ok reg \<Longrightarrow> registry_ok (register_monitor m reg)"
  by (simp add: registry_ok_def register_monitor_def dict_set_distinct keyed_dict_set)

lemma merged_monitors:
  "distinct (map fst d) \<Longrightarrow> keyed d \<Longrightarrow>
    distinct (map fst (fold (\<lambda>m. dict_set (mo_key m) m) ms d)) \<and> keyed (fold (\<lambda>m. dict_set (mo_key m) m) ms d)"
  by (induction ms arbitrary: d) (simp_all add: dict_set_distinct keyed_dict_set)

lemma get_monitors_distinct:
  assumes "registry_ok reg" shows "distinct (map mo_key (get_monitors reg None))"
proof -
  let ?d = "fold (\<lambda>m. dict_set (mo_key m) m) (concat (mg_sources reg)) (mg_monitors reg)"
  have d: "distinct (map fst ?d)" "keyed ?d"
    using merged_monitors [of "mg_monitors reg" "concat (mg_sources reg)"] assms by (simp_all add: registry_ok_def)
  then have "distinct (map mo_key (map snd ?d))" by (simp only: map_map keyed_keys)
  then show ?thesis by (simp add: get_monitors_def distinct_map del: map_map)
qed

text \<open>The beat a monitor's check gives at an instant.\<close>

definition fresh_beat :: "instant \<Rightarrow> beat_db \<Rightarrow> monitor \<Rightarrow> heartbeat" where
  "fresh_beat now db m = fst (beat_of_check (to_minute now) (is_in_maintenance (to_minute now) (mo_key m) db) m)"

definition beats_at :: "string \<Rightarrow> instant \<Rightarrow> beat_db \<Rightarrow> heartbeat list" where
  "beats_at key t db = filter (\<lambda>b. bt_monitor b = key \<and> bt_time b = t) (bd_beats db)"

lemma ensure_epoch_fields [simp]:
  "bd_beats (ensure_epoch key db) = bd_beats db" "bd_windows (ensure_epoch key db) = bd_windows db"
  by (simp_all add: ensure_epoch_def split: option.splits)

lemma store_beat_windows [simp]: "bd_windows (snd (store_beat b db)) = bd_windows db"
  by (simp add: store_beat_def Let_def)

lemma distinct_filter_one:
  "distinct (map f xs) \<Longrightarrow> x \<in> set xs \<Longrightarrow> filter (\<lambda>y. f y = f x) xs = [x]"
  by (induction xs) (auto simp: filter_empty_conv, metis image_eqI)

lemma store_beat_at:
  assumes "distinct (map beat_key (bd_beats db))"
  shows "beats_at (bt_monitor b) (bt_time b) (snd (store_beat b db)) = [b]"
    and "(k, t) \<noteq> (bt_monitor b, bt_time b) \<Longrightarrow> beats_at k t (snd (store_beat b db)) = beats_at k t db"
proof -
  let ?P = "\<lambda>x. bt_monitor x = bt_monitor b \<and> bt_time x = bt_time b"
  have upd: "length (filter ?P rows) \<le> 1 \<Longrightarrow> filter ?P rows \<noteq> [] \<Longrightarrow> filter ?P (tbl_update ?P (\<lambda>_. b) rows) = [b]" for rows
  proof (induction rows)
    case (Cons r rows)
    have "filter ?P rows = [] \<Longrightarrow> filter ?P (tbl_update ?P (\<lambda>_. b) rows) = []"
      by (induction rows) (auto split: if_splits)
    with Cons show ?case by (cases "?P r") auto
  qed simp
  have "length (filter ?P (bd_beats db)) \<le> 1"
  proof (cases "filter ?P (bd_beats db)")
    case (Cons x xs)
    then have "x \<in> set (filter ?P (bd_beats db))" by simp
    then have x: "x \<in> set (bd_beats db)" "?P x" by simp_all
    then have "filter ?P (bd_beats db) = filter (\<lambda>y. beat_key y = beat_key x) (bd_beats db)"
      by (auto simp: beat_key_def intro: filter_cong)
    with distinct_filter_one [OF assms x(1)] show ?thesis by simp
  qed simp
  then show "beats_at (bt_monitor b) (bt_time b) (snd (store_beat b db)) = [b]"
    using upd by (auto simp: beats_at_def store_beat_def Let_def tbl_count_def)
  show "beats_at k t (snd (store_beat b db)) = beats_at k t db" if "(k, t) \<noteq> (bt_monitor b, bt_time b)"
  proof -
    have "filter (\<lambda>x. bt_monitor x = k \<and> bt_time x = t) (tbl_update ?P (\<lambda>_. b) rows) =
        filter (\<lambda>x. bt_monitor x = k \<and> bt_time x = t) rows" for rows
      using that by (induction rows) auto
    with that show ?thesis by (auto simp: beats_at_def store_beat_def Let_def)
  qed
qed

lemma run_one_effect:
  assumes "beats_ok (snd st)"
  shows "beats_ok (snd (run_one env now m st))" "bd_windows (snd (run_one env now m st)) = bd_windows (snd st)"
    and "\<not> mo_orphaned m \<Longrightarrow> be_write_error env (fresh_beat now (snd st) m) = None \<Longrightarrow>
      beats_at (mo_key m) (to_minute now) (snd (run_one env now m st)) = [fresh_beat now (snd st) m]"
    and "(k, t) \<noteq> (mo_key m, to_minute now) \<Longrightarrow> beats_at k t (snd (run_one env now m st)) = beats_at k t (snd st)"
proof -
  obtain res db where st: "st = (res, db)" by (cases st)
  obtain b msg where b: "beat_of_check (to_minute now) (is_in_maintenance (to_minute now) (mo_key m) db) m = (b, msg)"
    by fastforce
  have fresh: "fresh_beat now db m = b" by (simp add: fresh_beat_def b)
  have bk: "bt_monitor b = mo_key m" "bt_time b = to_minute now"
    using beat_of_check_time [of "to_minute now" "is_in_maintenance (to_minute now) (mo_key m) db" m] by (simp_all add: b)
  have db: "snd (run_one env now m st) = (if mo_orphaned m \<or> be_write_error env b \<noteq> None then db
      else ensure_epoch (mo_key m) (snd (store_beat b db)))"
    by (auto simp: st run_one_def run_monitor_check_def Let_def b split: prod.splits option.splits)
  have keep: "beats_at k t (ensure_epoch x d) = beats_at k t d" for k t x d by (simp add: beats_at_def)
  have ok: "beats_ok db" "distinct (map beat_key (bd_beats db))" using assms by (simp_all add: st beats_ok_def)
  show "beats_ok (snd (run_one env now m st))"
    using ok(1) beats_ok_ensure beats_ok_store [OF ok(1), of b] unfolding db by (simp add: bk(2) beats_ok_ensure)
  show "bd_windows (snd (run_one env now m st)) = bd_windows (snd st)" unfolding db by (simp add: st)
  show "\<not> mo_orphaned m \<Longrightarrow> be_write_error env (fresh_beat now (snd st) m) = None \<Longrightarrow>
      beats_at (mo_key m) (to_minute now) (snd (run_one env now m st)) = [fresh_beat now (snd st) m]"
    using store_beat_at(1) [OF ok(2), of b] unfolding db by (simp add: st fresh keep bk)
  show "(k, t) \<noteq> (mo_key m, to_minute now) \<Longrightarrow> beats_at k t (snd (run_one env now m st)) = beats_at k t (snd st)"
    using store_beat_at(2) [OF ok(2), of k t b] unfolding db by (simp add: st keep bk)
qed

lemma run_fold_effect:
  assumes "beats_ok (snd st)" "distinct (map mo_key ms)"
  shows "(\<forall>m \<in> set ms. \<not> mo_orphaned m \<longrightarrow> be_write_error env (fresh_beat now (snd st) m) = None \<longrightarrow>
        beats_at (mo_key m) (to_minute now) (snd (fold (run_one env now) ms st)) = [fresh_beat now (snd st) m])
    \<and> (\<forall>k t. t \<noteq> to_minute now \<or> k \<notin> mo_key ` set ms \<longrightarrow>
        beats_at k t (snd (fold (run_one env now) ms st)) = beats_at k t (snd st))"
  using assms
proof (induction ms arbitrary: st)
  case (Cons m ms)
  let ?st = "run_one env now m st"
  note one = run_one_effect [OF Cons.prems(1), where env = env and now = now and m = m]
  have fresh: "fresh_beat now (snd ?st) x = fresh_beat now (snd st) x" for x
    by (simp add: fresh_beat_def is_in_maintenance_def one(2))
  have IH: "(\<forall>x \<in> set ms. \<not> mo_orphaned x \<longrightarrow> be_write_error env (fresh_beat now (snd st) x) = None \<longrightarrow>
        beats_at (mo_key x) (to_minute now) (snd (fold (run_one env now) ms ?st)) = [fresh_beat now (snd st) x])
    \<and> (\<forall>k t. t \<noteq> to_minute now \<or> k \<notin> mo_key ` set ms \<longrightarrow>
        beats_at k t (snd (fold (run_one env now) ms ?st)) = beats_at k t (snd ?st))"
    using Cons.IH [OF one(1)] Cons.prems(2) by (simp add: fresh)
  have "mo_key m \<notin> mo_key ` set ms" using Cons.prems(2) by simp
  with IH one(3) one(4) show ?case by auto
qed simp


text \<open>One monitor raises, the other is up.\<close>

definition demo_registry :: monitor_registry where
  "demo_registry = register_monitor (demo_monitor ''b'' (Inr (check_up 5 '''')))
     (register_monitor (demo_monitor ''a'' (Inl ''boom'')) \<lparr>mg_monitors = [], mg_sources = []\<rparr>)"


section \<open>Witnesses of the earlier properties\<close>

text \<open>Eight days later the beat of \<open>demo_beats\<close> is pruned; the map of day 0 stays.\<close>

lemma prune_keeps_uptimes_witness:
  "bd_beats (snd (prune_old_heartbeats demo_beat_env (days_span 8) demo_beats)) = []
   \<and> daily_uptime_map demo_beat_env (days_span 9) ''site'' 0 0 (snd (prune_old_heartbeats demo_beat_env (days_span 8) demo_beats))
     = daily_uptime_map demo_beat_env (days_span 9) ''site'' 0 0 demo_beats"
proof -
  have "zone_ok (be_zone demo_beat_env)" by (simp add: demo_beat_env_def utc_zone_ok)
  moreover have "windows_ok demo_beats" using demo_beats_ok by (simp add: beats_ok_def)
  ultimately have "daily_uptime_map demo_beat_env (days_span 9) ''site'' 0 0 (snd (prune_old_heartbeats demo_beat_env (days_span 8) demo_beats))
     = daily_uptime_map demo_beat_env (days_span 9) ''site'' 0 0 demo_beats"
    using prune_keeps_uptimes by blast
  moreover have "bd_beats (snd (prune_old_heartbeats demo_beat_env (days_span 8) demo_beats)) = []" by code_simp
  ultimately show ?thesis by blast
qed


section \<open>Evenings west of Greenwich\<close>

text \<open>\<open>_uptime_over_window\<close> takes the UTC date of the oldest raw beat as the end of the summaries, whose
  dates are local. In a zone behind UTC an evening beat has the next UTC date, so the day it
  belongs to is counted by its summary and by the raw span. Six hours behind UTC, with a check
  every six hours, none missed, and one day of retention:\<close>

definition demo_west_env :: beat_env where
  "demo_west_env = demo_beat_env\<lparr>be_zone := \<lparr>zn_utc = (\<lambda>w. w + hours_span 6), zn_wall = (\<lambda>t. t - hours_span 6)\<rparr>,
     be_interval := 21600, be_retention_days := 1\<rparr>"

definition demo_west :: beat_db where
  "demo_west = empty_beats\<lparr>bd_beats := map (\<lambda>i. \<lparr>bt_monitor = ''site'', bt_time = hours_span (6 + 6 * int i),
       bt_status = Beat_Ok, bt_ms = 1, bt_note = '''', bt_maintenance = False\<rparr>) [0..<7],
     bd_epochs := [\<lparr>ep_monitor = ''site'', ep_started = hours_span 6, ep_note = '''', ep_target = 999/10, ep_minimum = 995/10\<rparr>]\<rparr>"

lemma evening_uptime_dips:
  "calc_overall_uptime demo_west_env (hours_span 48) ''site'' (snd (prune_old_heartbeats demo_west_env (hours_span 48) demo_west))
     = Some (175/2)"
  "calc_overall_uptime demo_west_env (hours_span 48) ''site'' demo_west = Some 100"
  by code_simp+

end
