(* ===== verification/Spec2Isabelle.thy ===== *)
theory Spec2Isabelle
  imports Runbook_Witnesses Credential_Witnesses Scheduler_Witnesses Approval_Props Webhook_Link_Props Heartbeat_Uptime
begin

text \<open>
  Verification of the core of SmallStack (\<open>src/\<close>, a Django application): background tasks that
  survive crashed workers, the scheduler that starts them, approval requests, webhooks in both
  directions, uptime monitoring, the credentials every surface (REST, MCP, OAuth, feeds) accepts, and
  the runbook, a store of versioned documents behind pages, a REST interface and MCP tools.

  \<^bold>\<open>How the parts interact.\<close> The scheduler's tick (\<open>apps/scheduler\<close>) enqueues tasks into the engine's
  table; a worker runs a task and reports through the \<open>task_finished\<close> signal, whose receiver retries
  failures (\<open>apps/tasks\<close>); a reaper fails the tasks of dead workers, which are then retried the same
  way; a tick also resumes webhook deliveries whose retry is due. A write to a model with events
  fires \<open>fan_out\<close>, which creates a delivery row for each matching endpoint and queues the delivery
  task; the receiving installation verifies the signature, stores a receipt and dispatches it to
  a handler, whose own writes may fire events again. Approval requests are decided by people;
  monitors are run every minute and pruned into daily summaries. A write to a document queues the tasks
  that prune its history and mail its subscribers; the runbook's REST calls come in through the
  authentication of the credentials.

  \<^bold>\<open>Conventions.\<close> Each operation of the code is a function on an explicit state (a record of tables);
  a table is a list of rows, \<open>update\<close> on a query set is \<open>tbl_update\<close>, a raise is \<^const>\<open>Inl\<close> or \<open>None\<close>. A
  datetime is an integer number of microseconds, a float the rational it denotes, a \<open>str\<close> a list
  of characters. Code that is not in the repository (the task engine, croniter, digests, JSON
  text, the network, name resolution, the time zone data) is a parameter: a field of an
  environment record. What a theorem relies on of it is a hypothesis of that theorem, and its
  witness instantiates the parameter by a concrete function.

  \<^bold>\<open>Foundations.\<close> \<open>Prelude\<close> (instants, rounding, tables), \<open>Interfaces\<close> (the locales: a race for one row,
  a registry in which the first declaration wins, a backoff, an invariant kept by steps),
  \<open>Py_Strings\<close>, \<open>Py_Json\<close>, \<open>Py_Net\<close> (the parts of Python's \<open>str\<close>, \<open>dict\<close>, \<open>fnmatch\<close>, \<open>urllib.parse\<close> and
  \<open>ipaddress\<close> the source uses). Addresses are \<open>32 word\<close> and \<open>128 word\<close> values.

  \<^bold>\<open>Tasks\<close> (\<open>apps/tasks\<close>). \<open>Task_Store\<close> has the rows of \<open>models.py\<close>; \<open>Task_Retry\<close>, \<open>Task_Chain\<close> model
  \<open>reliability.py\<close> (policies, the decision, the one transaction of a retry, late completions, the
  repair sweep); \<open>Task_Reaper\<close> models \<open>reaper.py\<close>, \<open>heartbeat.py\<close> and \<open>signals.py\<close>. \<open>Task_Invariants\<close> is the
  state machine of all these operations with its invariant (chains well formed, attempts within
  their budget); \<open>Task_Props\<close> and \<open>Task_Recovery\<close> have the properties: one retry per result, live
  workers are spared, lost tasks are failed, missed retries are caught up, late completions.

  \<^bold>\<open>Scheduler\<close> (\<open>apps/scheduler\<close>). \<open>Schedule_Math\<close> models \<open>schedules.py\<close>, \<open>Scheduler\<close> the rows of
  \<open>models.py\<close>, \<open>services.py\<close> and the code-declared jobs of \<open>registry.py\<close>; \<open>Scheduler_Props\<close> and
  \<open>Scheduler_Witnesses\<close> show that a slot fires once, a tick leaves nothing due, overlaps are skipped,
  a valid job stays valid and a sync keeps an operator's choices. Below, the scheduler's effect
  on the task tables is shown to be steps of the task machine.

  \<^bold>\<open>Approvals\<close> (\<open>apps/approvals\<close>). \<open>Approvals\<close> models rows, permissions, kinds and services;
  \<open>Approval_Props\<close> has the invariant of the reachable states, the race between decisions, expiry and
  the permission rules.

  \<^bold>\<open>Webhooks\<close> (\<open>apps/webhooks\<close>). \<open>Webhook_Hooks\<close> models rows, hook registries, header dict, signatures,
  the target guard and backoff; \<open>Webhooks\<close> the outbound side (\<open>services.py\<close>, \<open>tasks.py\<close>);
  \<open>Webhook_Links\<close> pairing, signals, handlers and the inbound endpoint. \<open>Webhook_Flow\<close> is the state
  machine of deliveries in flight with its invariant; \<open>Webhook_Props\<close> and \<open>Webhook_Link_Props\<close> have
  the properties.

  \<^bold>\<open>Monitoring\<close> (\<open>apps/heartbeat\<close>, \<open>apps/smallstack/monitors.py\<close>). \<open>Heartbeat\<close> models the rows, maintenance
  windows, the monitor run and pruning (\<open>models.py\<close>, \<open>maintenance.py\<close>, \<open>services.py\<close>); \<open>Heartbeat_Status\<close>
  the uptime arithmetic and the timelines, \<open>Heartbeat_Calendar\<close> the month grids (\<open>status.py\<close>). The zone
  data is a parameter: a conversion to local wall clocks and back. \<open>Heartbeat_Ranges\<close> has the theory of merged
  ranges and of counting over them; \<open>Heartbeat_Props\<close> shows that pruning keeps every day's counts and
  uptime, \<open>Heartbeat_States\<close> that the tables keep their keys and ranges in every reachable state,
  \<open>Heartbeat_Uptime\<close> that a run records every monitor once, that excluded time is counted once, that
  uptimes are percentages and what a day of 23 hours does to them.

  \<^bold>\<open>Credentials\<close> (\<open>apps/smallstack/models.py\<close>, \<open>api.py\<close>, \<open>apps/accounts\<close>, \<open>apps/tokenmgr\<close>, \<open>apps/mcp\<close>,
  \<open>apps/feeds\<close>). \<open>Token_Store\<close> has accounts, API tokens and authorization codes and the methods of
  \<open>APIToken\<close>; \<open>Token_Access\<close> the authentication of REST, MCP and feed requests, the \<open>api_view\<close>
  decorator and the tool gate; \<open>Token_Api\<close> the auth endpoints; \<open>Token_Manager\<close> the token manager, the
  command and the admin action; \<open>OAuth\<close> registration, consent, exchange, revocation and the scrub of
  stale codes. \<open>Token_Machine\<close> lets all of them interleave (a login and an exchange are split where
  another request can come between) and keeps, as ghost state, the digests issued and the
  authorization codes paid out; \<open>Token_Invariants\<close> and \<open>Token_Steps\<close> prove that every step keeps the tables
  consistent and revives no ended key. \<open>Mcp_Tools\<close> models the tool registry, the dispatcher of
  \<open>views.py\<close> and the tools \<open>factory.py\<close> derives from a view; a handler is a parameter.
  \<open>Token_Props\<close>, \<open>OAuth_Props\<close> and \<open>Mcp_Props\<close> have the properties, \<open>Credential_Witnesses\<close> their
  witnesses and the executions behind the findings. The random generator is a list of draws, the
  fuel of \<open>generate_raw_key\<close>: a request that has used them up is \<open>Still_Drawing\<close>. A request reads the clock
  once. The dash in the name of a token minted by consent is written as a hyphen.

  \<^bold>\<open>Documents\<close> (\<open>apps/runbook\<close>). \<open>Runbook_Store\<close> has the rows of \<open>models.py\<close> with the version chain, and
  \<open>permissions.py\<close>; \<open>Runbook_Service\<close> and \<open>Runbook_Library\<close> model \<open>service.py\<close> (versions, the keyed
  upsert, images, archiving and restoring; then moves, lists, runbooks, templates, copies and clones), the
  latter also \<open>retention.py\<close>, \<open>subscriptions.py\<close>, \<open>tasks.py\<close> and \<open>receivers.py\<close>; \<open>Runbook_Rest\<close> the endpoints of
  \<open>api.py\<close> and \<open>urls.py\<close> and the delegates of \<open>mcp_tools.py\<close>; \<open>Runbook_Web\<close> the pages of \<open>views.py\<close> that
  write. An operation that gets a model instance works on the row as it was read, which may be older than
  the table. \<open>Runbook_Machine\<close> interleaves all of them, on instances of the current tables;
  \<open>Runbook_Invariants\<close>, \<open>Runbook_Steps\<close>, \<open>Runbook_Operations\<close>, \<open>Runbook_Consistent\<close> and \<open>Runbook_Reach\<close>
  prove that every step keeps the tables consistent and superseded versions as they are.
  \<open>Runbook_Props\<close> (history, restoring, pruning), \<open>Runbook_Writes\<close> (upserts, concurrent writers),
  \<open>Runbook_Rest_Props\<close> (no call changes what its caller may not write) and \<open>Runbook_Reads\<close> (a read answers as
  if what is hidden did not exist) have the properties, \<open>Runbook_Witnesses\<close> the concrete shelf their witnesses
  use and the executions behind the findings. The search engine, \<open>slugify\<close>, generated uids, the JSON of
  replies and the mail are parameters.

  \<^bold>\<open>Bounds and fuel.\<close> Loops that walk to a later point of a calendar carry the number of steps the
  code allows (\<open>calendar_walk\<close>); the walk along a retry chain has the code's own bound
  \<open>MAX_CHAIN\<close>. The search for a free slug has as many steps as there are runbooks, which is enough
  (\<open>unique_slug_is_free\<close>). Everything else recurses structurally or with a measure.

  \<^bold>\<open>Not modelled.\<close> Templates and pages that only show something (rendering of data the models below
  produce), markdown rendering and document bundles, logging and trace ids (no effect on the state),
  management commands that only print, the database's isolation levels (a transaction is one step), and the components listed as
  \<open>not_modelled\<close> in the manifest, each with its reason.
\<close>

text \<open>C9: Whatever the scheduler does to the task tables, a tick, its retry budgets and the failure
  mails of a reconciliation included, is a sequence of steps of the task machine; so chains stay
  well formed and within budget under every interleaving of ticks and reconciliations.\<close>

theorem scheduler_refines_task_machine:
  assumes "engine_ok (sv_tasks env)" "task_reachable (sv_tasks env) cfg (sd_tasks db)"
  shows "task_reachable (sv_tasks env) cfg (sd_tasks (snd (run_due_jobs env specs now stamp db)))
    \<and> task_reachable (sv_tasks env) cfg (sd_tasks (snd (reconcile_run_outcomes env now limit
          (snd (run_due_jobs env specs now stamp db)))))
    \<and> chain_wf (sd_tasks (snd (reconcile_run_outcomes env now limit (snd (run_due_jobs env specs now stamp db)))))"
proof -
  note tick = run_due_reachable [OF assms(2), of specs now stamp]
  note reconciled = reconcile_reachable [OF tick, of now limit]
  from reconciled assms(1) have "task_inv (sv_tasks env) cfg
      (sd_tasks (snd (reconcile_run_outcomes env now limit (snd (run_due_jobs env specs now stamp db)))))"
    by (intro task_reachable_inv)
  with tick reconciled assms(1) show ?thesis by (auto simp: task_inv_def)
qed

lemma scheduler_refines_task_machine_witness:
  "chain_wf (sd_tasks (snd (reconcile_run_outcomes demo_sched_env 5 200
     (snd (run_due_jobs demo_sched_env [] 5 5 demo_sched_db)))))"
proof -
  have "task_reachable (sv_tasks demo_sched_env) default_task_settings (sd_tasks demo_sched_db)"
    using task_reachable.start by (simp add: demo_sched_db_def)
  moreover have "engine_ok (sv_tasks demo_sched_env)" using demo_engine_ok by (simp add: demo_sched_env_def)
  ultimately show ?thesis using scheduler_refines_task_machine by blast
qed

end
